(* ===== verification/Prelude.thy ===== *)
theory Prelude imports Main "HOL-Library.Char_ord" "HOL-Library.List_Lexorder" begin

text \<open>
  Shared vocabulary of the development.

  A Go function that returns \<open>(T, error)\<close> returns a value of type \<open>'a res\<close>: \<open>Ok\<close> for a nil
  error, \<open>Err\<close> for a non-nil one and \<open>Panic\<close> for a run-time panic (a nil dereference or an index
  out of range), which no \<open>if err != nil\<close> catches.  A function that also talks to the outside
  (the Kubernetes API server, an orderer, the clock) is a state transformer over an abstract
  world \<open>'w\<close> that ends in such a result; the world reached so far is kept on every exit.
  The calls to the outside are always arguments of the definitions that make them.
\<close>

section \<open>Errors and results\<close>

text \<open>
  \<open>NotFound\<close> is the error that \<open>apierrors.IsNotFound\<close> recognises, \<open>Wrapped\<close> is what
  \<open>errors.Wrap\<close> of \<open>github.com/pkg/errors\<close> builds.
\<close>

datatype go_error =
    ErrorString string
  | NotFound string
  | Wrapped string go_error

fun error_text :: "go_error \<Rightarrow> string" where
  "error_text (ErrorString s) = s"
| "error_text (NotFound s) = s"
| "error_text (Wrapped m e) = m @ '': '' @ error_text e"

fun isNotFound :: "go_error \<Rightarrow> bool" where
  "isNotFound (NotFound s) = True"
| "isNotFound (Wrapped m e) = isNotFound e"
| "isNotFound (ErrorString s) = False"

datatype 'a res = Ok 'a | Err go_error | Panic string

fun res_bind :: "'a res \<Rightarrow> ('a \<Rightarrow> 'b res) \<Rightarrow> 'b res" where
  "res_bind (Ok a) f = f a"
| "res_bind (Err e) f = Err e"
| "res_bind (Panic p) f = Panic p"

fun res_wrap :: "string \<Rightarrow> 'a res \<Rightarrow> 'a res" where
  "res_wrap m (Err e) = Err (Wrapped m e)"
| "res_wrap m (Ok a) = Ok a"
| "res_wrap m (Panic p) = Panic p"

fun is_ok :: "'a res \<Rightarrow> bool" where
  "is_ok (Ok a) = True"
| "is_ok (Err e) = False"
| "is_ok (Panic p) = False"

text \<open>A \<open>for\<close> loop that collects results and returns at the first error.\<close>

fun res_map :: "('a \<Rightarrow> 'b res) \<Rightarrow> 'a list \<Rightarrow> 'b list res" where
  "res_map f [] = Ok []"
| "res_map f (x # xs) = res_bind (f x) (\<lambda>y. res_bind (res_map f xs) (\<lambda>ys. Ok (y # ys)))"

text \<open>A \<open>for\<close> loop that threads a mutated value and returns at the first error.\<close>

fun res_fold :: "('a \<Rightarrow> 's \<Rightarrow> 's res) \<Rightarrow> 'a list \<Rightarrow> 's \<Rightarrow> 's res" where
  "res_fold f [] s = Ok s"
| "res_fold f (x # xs) s = res_bind (f x s) (res_fold f xs)"

lemma res_bind_eq_Ok [simp]:
  "res_bind m f = Ok b \<longleftrightarrow> (\<exists>a. m = Ok a \<and> f a = Ok b)"
  by (cases m) auto

lemma res_bind_eq_Err:
  "res_bind m f = Err e \<longleftrightarrow> m = Err e \<or> (\<exists>a. m = Ok a \<and> f a = Err e)"
  by (cases m) auto

lemma res_bind_assoc: "res_bind (res_bind m f) g = res_bind m (\<lambda>a. res_bind (f a) g)"
  by (cases m) auto

lemma res_wrap_eq_Ok [simp]: "res_wrap t m = Ok a \<longleftrightarrow> m = Ok a"
  by (cases m) auto

lemma is_ok_iff: "is_ok m \<longleftrightarrow> (\<exists>a. m = Ok a)"
  by (cases m) auto

lemma res_map_Ok_length: "res_map f xs = Ok ys \<Longrightarrow> length ys = length xs"
  by (induction xs arbitrary: ys) auto

lemma res_map_Ok_iff:
  "res_map f xs = Ok ys \<longleftrightarrow> list_all2 (\<lambda>x y. f x = Ok y) xs ys"
  by (induction xs arbitrary: ys) (auto simp: list_all2_Cons1)

lemma res_map_cong [fundef_cong]:
  "xs = ys \<Longrightarrow> (\<And>x. x \<in> set ys \<Longrightarrow> f x = g x) \<Longrightarrow> res_map f xs = res_map g ys"
  by (induction xs arbitrary: ys) auto

lemma res_map_Ok_map: "(\<And>x. x \<in> set xs \<Longrightarrow> f x = Ok (g x)) \<Longrightarrow> res_map f xs = Ok (map g xs)"
  by (induction xs) auto

lemma res_fold_append:
  "res_fold f (xs @ ys) s = res_bind (res_fold f xs s) (res_fold f ys)"
proof (induction xs arbitrary: s)
  case (Cons x xs)
  then have "res_fold f (xs @ ys) = (\<lambda>t. res_bind (res_fold f xs t) (res_fold f ys))"
    by (intro ext) simp
  then show ?case by (simp add: res_bind_assoc)
qed simp

lemma res_fold_invariant:
  assumes "\<And>x s s'. x \<in> set xs \<Longrightarrow> I s \<Longrightarrow> f x s = Ok s' \<Longrightarrow> I s'"
    and "I s" and "res_fold f xs s = Ok s'"
  shows "I s'"
  using assms by (induction xs arbitrary: s) auto

text \<open>Instants, in nanoseconds.\<close>

type_synonym time = int

text \<open>\<open>int32(n)\<close>, which wraps around.\<close>

definition int32_of :: "int \<Rightarrow> int" where
  "int32_of n = (n + 2 ^ 31) mod 2 ^ 32 - 2 ^ 31"

lemma int32_of_small: "- (2 ^ 31) \<le> n \<Longrightarrow> n < 2 ^ 31 \<Longrightarrow> int32_of n = n"
  by (simp add: int32_of_def)

section \<open>Effects\<close>

type_synonym ('w, 'a) io = "'w \<Rightarrow> 'a res \<times> 'w"

definition io_return :: "'a \<Rightarrow> ('w, 'a) io" where
  "io_return a = (\<lambda>w. (Ok a, w))"

definition io_throw :: "go_error \<Rightarrow> ('w, 'a) io" where
  "io_throw e = (\<lambda>w. (Err e, w))"

definition io_panic :: "string \<Rightarrow> ('w, 'a) io" where
  "io_panic p = (\<lambda>w. (Panic p, w))"

definition io_lift :: "'a res \<Rightarrow> ('w, 'a) io" where
  "io_lift r = (\<lambda>w. (r, w))"

definition io_bind :: "('w, 'a) io \<Rightarrow> ('a \<Rightarrow> ('w, 'b) io) \<Rightarrow> ('w, 'b) io" where
  "io_bind m f = (\<lambda>w. case m w of
       (Ok a, w') \<Rightarrow> f a w'
     | (Err e, w') \<Rightarrow> (Err e, w')
     | (Panic p, w') \<Rightarrow> (Panic p, w'))"

text \<open>\<open>if x, err := f(); err != nil { handle(err) }\<close>: the handler sees errors, never panics.\<close>

definition io_catch :: "('w, 'a) io \<Rightarrow> (go_error \<Rightarrow> ('w, 'a) io) \<Rightarrow> ('w, 'a) io" where
  "io_catch m h = (\<lambda>w. case m w of
       (Ok a, w') \<Rightarrow> (Ok a, w')
     | (Err e, w') \<Rightarrow> h e w'
     | (Panic p, w') \<Rightarrow> (Panic p, w'))"

text \<open>Both continuations of a call: what follows a nil error and what follows an error.\<close>

definition io_try :: "('w, 'a) io \<Rightarrow> ('a \<Rightarrow> ('w, 'b) io) \<Rightarrow> (go_error \<Rightarrow> ('w, 'b) io) \<Rightarrow> ('w, 'b) io" where
  "io_try m f h = (\<lambda>w. case m w of
       (Ok a, w') \<Rightarrow> f a w'
     | (Err e, w') \<Rightarrow> h e w'
     | (Panic p, w') \<Rightarrow> (Panic p, w'))"

definition io_wrap :: "string \<Rightarrow> ('w, 'a) io \<Rightarrow> ('w, 'a) io" where
  "io_wrap t m = (\<lambda>w. case m w of (r, w') \<Rightarrow> (res_wrap t r, w'))"

fun io_for :: "('a \<Rightarrow> ('w, unit) io) \<Rightarrow> 'a list \<Rightarrow> ('w, unit) io" where
  "io_for f [] = io_return ()"
| "io_for f (x # xs) = io_bind (f x) (\<lambda>_. io_for f xs)"

fun io_map :: "('a \<Rightarrow> ('w, 'b) io) \<Rightarrow> 'a list \<Rightarrow> ('w, 'b list) io" where
  "io_map f [] = io_return []"
| "io_map f (x # xs) = io_bind (f x) (\<lambda>y. io_bind (io_map f xs) (\<lambda>ys. io_return (y # ys)))"

named_theorems io_simps \<open>evaluation of the effect combinators at a world\<close>

lemma io_return_apply [io_simps]: "io_return a w = (Ok a, w)"
  by (simp add: io_return_def)

lemma io_throw_apply [io_simps]: "io_throw e w = (Err e, w)"
  by (simp add: io_throw_def)

lemma io_panic_apply [io_simps]: "io_panic p w = (Panic p, w)"
  by (simp add: io_panic_def)

lemma io_lift_apply [io_simps]: "io_lift r w = (r, w)"
  by (simp add: io_lift_def)

lemma io_bind_apply [io_simps]:
  "io_bind m f w = (case m w of (Ok a, w') \<Rightarrow> f a w' | (Err e, w') \<Rightarrow> (Err e, w')
     | (Panic p, w') \<Rightarrow> (Panic p, w'))"
  by (simp add: io_bind_def)

lemma io_catch_apply [io_simps]:
  "io_catch m h w = (case m w of (Ok a, w') \<Rightarrow> (Ok a, w') | (Err e, w') \<Rightarrow> h e w'
     | (Panic p, w') \<Rightarrow> (Panic p, w'))"
  by (simp add: io_catch_def)

lemma io_try_apply [io_simps]:
  "io_try m f h w = (case m w of (Ok a, w') \<Rightarrow> f a w' | (Err e, w') \<Rightarrow> h e w'
     | (Panic p, w') \<Rightarrow> (Panic p, w'))"
  by (simp add: io_try_def)

lemma io_wrap_apply [io_simps]: "io_wrap t m w = (res_wrap t (fst (m w)), snd (m w))"
  by (simp add: io_wrap_def split: prod.split)

lemma io_bind_at: "m w = (Ok a, w') \<Longrightarrow> io_bind m f w = f a w'"
  by (simp add: io_bind_apply)

lemma io_bind_assoc: "io_bind (io_bind m f) g = io_bind m (\<lambda>a. io_bind (f a) g)"
  by (rule ext) (auto simp: io_simps split: prod.split res.split)

lemma io_bind_return [simp]: "io_bind (io_return a) f = f a"
  by (rule ext) (simp add: io_simps)

lemma io_bind_Ok_iff:
  "io_bind m f w = (Ok b, w'') \<longleftrightarrow> (\<exists>a w'. m w = (Ok a, w') \<and> f a w' = (Ok b, w''))"
  by (auto simp: io_simps split: prod.split res.split)

lemma io_for_append: "io_for f (xs @ ys) = io_bind (io_for f xs) (\<lambda>_. io_for f ys)"
  by (induction xs) (simp_all add: io_bind_assoc)

text \<open>A loop keeps what every iteration keeps, whichever way it ends.\<close>

lemma io_for_invariant:
  assumes "\<And>x w. x \<in> set xs \<Longrightarrow> I w \<Longrightarrow> I (snd (f x w))"
    and "I w"
  shows "I (snd (io_for f xs w))"
  using assms
proof (induction xs arbitrary: w)
  case (Cons x xs)
  have step: "I (snd (f x w))" using Cons.prems by simp
  have "I w' \<Longrightarrow> I (snd (io_for f xs w'))" for w' using Cons by simp
  with step show ?case
    by (auto simp: io_simps split: prod.split res.split)
qed (simp add: io_simps)

section \<open>Code that does not panic\<close>

fun panics :: "'a res \<Rightarrow> bool" where
  "panics (Panic p) = True"
| "panics r = False"

definition no_panic :: "('w, 'a) io \<Rightarrow> bool" where
  "no_panic m \<longleftrightarrow> (\<forall>w. \<not> panics (fst (m w)))"

named_theorems no_panic_intros \<open>rules for code that does not panic\<close>

lemma no_panic_return [no_panic_intros]: "no_panic (io_return a)"
  and no_panic_throw [no_panic_intros]: "no_panic (io_throw e)"
  by (simp_all add: no_panic_def io_simps)

lemma no_panic_lift [no_panic_intros]: "\<not> panics r \<Longrightarrow> no_panic (io_lift r)"
  by (simp add: no_panic_def io_simps)

lemma panics_res_wrap [simp]: "panics (res_wrap t r) = panics r"
  by (cases r) simp_all

lemma no_panic_wrap [no_panic_intros]: "no_panic m \<Longrightarrow> no_panic (io_wrap t m)"
  by (simp add: no_panic_def io_simps)

lemma no_panic_bind [no_panic_intros]: "no_panic m \<Longrightarrow> (\<And>a. no_panic (f a)) \<Longrightarrow> no_panic (io_bind m f)"
proof -
  assume m: "no_panic m" and f: "\<And>a. no_panic (f a)"
  have "\<not> panics (fst (io_bind m f w))" for w
  proof (cases "m w")
    case (Pair r w')
    then show ?thesis using m [unfolded no_panic_def, rule_format, of w] f [unfolded no_panic_def]
      by (cases r) (simp_all add: io_simps)
  qed
  then show ?thesis by (simp add: no_panic_def)
qed

lemma no_panic_map [no_panic_intros]: "(\<And>x. no_panic (f x)) \<Longrightarrow> no_panic (io_map f xs)"
  by (induction xs) (auto intro!: no_panic_intros)

lemma no_panic_for [no_panic_intros]: "(\<And>x. no_panic (f x)) \<Longrightarrow> no_panic (io_for f xs)"
  by (induction xs) (auto intro!: no_panic_intros)

lemma panics_res_bind: "panics (res_bind m f) \<longleftrightarrow> panics m \<or> (\<exists>a. m = Ok a \<and> panics (f a))"
  by (cases m) auto

lemma panics_res_map: "(\<And>x. \<not> panics (f x)) \<Longrightarrow> \<not> panics (res_map f xs)"
  by (induction xs) (auto simp: panics_res_bind)

section \<open>Lists and strings\<close>

text \<open>\<open>for i, x := range xs \{ if p(x) \{ ... \} \}\<close>: the first element with the property.\<close>

lemma find_Some_set: "find p xs = Some x \<Longrightarrow> x \<in> set xs \<and> p x"
  by (auto simp: find_Some_iff)

lemma find_append: "find p (xs @ ys) = (case find p xs of None \<Rightarrow> find p ys | Some x \<Rightarrow> Some x)"
  by (induction xs) auto

text \<open>\<open>strings.Join\<close>.\<close>

fun join_with :: "string \<Rightarrow> string list \<Rightarrow> string" where
  "join_with sep [] = []"
| "join_with sep [x] = x"
| "join_with sep (x # y # ys) = x @ sep @ join_with sep (y # ys)"

text \<open>\<open>strings.HasPrefix\<close> and \<open>strings.Contains\<close>.\<close>

definition has_prefix :: "string \<Rightarrow> string \<Rightarrow> bool" where
  "has_prefix s sub = (take (length sub) s = sub)"

fun str_contains :: "string \<Rightarrow> string \<Rightarrow> bool" where
  "str_contains [] sub = (sub = [])"
| "str_contains (c # cs) sub = (has_prefix (c # cs) sub \<or> str_contains cs sub)"

lemma str_contains_iff: "str_contains s sub \<longleftrightarrow> (\<exists>a b. s = a @ sub @ b)"
proof (induction s)
  case (Cons c cs)
  have "has_prefix (c # cs) sub \<longleftrightarrow> (\<exists>b. c # cs = sub @ b)"
    unfolding has_prefix_def by (metis append_eq_conv_conj append_take_drop_id)
  moreover have "(\<exists>a b. c # cs = a @ sub @ b) \<longleftrightarrow>
      (\<exists>b. c # cs = sub @ b) \<or> (\<exists>a b. cs = a @ sub @ b)"
    by (metis append_Cons append_Nil list.inject neq_Nil_conv)
  ultimately show ?case using Cons by simp
qed simp

text \<open>\<open>%d\<close> and \<open>strconv.Itoa\<close>.\<close>

fun nat_digits :: "nat \<Rightarrow> string" where
  "nat_digits n = (if n < 10 then [char_of (48 + n)]
     else nat_digits (n div 10) @ [char_of (48 + n mod 10)])"

declare nat_digits.simps [simp del]

definition itoa :: "int \<Rightarrow> string" where
  "itoa i = (if i < 0 then ''-'' @ nat_digits (nat (- i)) else nat_digits (nat i))"

end
