(* ===== verification/Lease_Lock.thy ===== *)
theory Lease_Lock imports Prelude begin

text \<open>
  The distributed lock of \<open>controllers/utils/lease.go\<close>, which the peer and ordering node controllers
  take around the renewal of certificates: \<open>AcquireLease\<close>, \<open>leaseExpired\<close> and \<open>ReleaseLease\<close> over a
  Kubernetes \<open>Lease\<close> object.  The calls to the API server and the clock are arguments.  The second
  half runs any number of these functions interleaved, call by call, against a server with
  optimistic concurrency, and proves that two holders never overlap.
\<close>



section \<open>The functions\<close>

text \<open>
  \<open>coordinationv1.Lease\<close>: what the code sets, and the resource version the server put in the
  metadata, which an update sends back.  \<open>LeaseDurationSeconds\<close> is an \<open>int32\<close>, so the product with
  a second fits \<open>time.Duration\<close>.
\<close>

record Lease =
  leaseName :: string
  leaseNamespace :: string
  resourceVersion :: nat
  HolderIdentity :: "string option"
  AcquireTime :: "time option"
  RenewTime :: "time option"
  LeaseDurationSeconds :: "int option"

definition expiry :: "Lease \<Rightarrow> time option" where
  "expiry lease = (case (RenewTime lease, LeaseDurationSeconds lease) of
      (Some t, Some d) \<Rightarrow> Some (t + d * 1000000000)
    | _ \<Rightarrow> None)"

definition leaseExpired :: "time \<Rightarrow> Lease \<Rightarrow> bool" where
  "leaseExpired now lease = (case expiry lease of None \<Rightarrow> True | Some e \<Rightarrow> now > e)"

definition new_lease :: "string \<Rightarrow> string \<Rightarrow> string \<Rightarrow> int \<Rightarrow> time \<Rightarrow> time \<Rightarrow> Lease" where
  "new_lease name ns holder ttl acquired renewed =
     \<lparr>leaseName = name, leaseNamespace = ns, resourceVersion = 0, HolderIdentity = Some holder,
      AcquireTime = Some acquired, RenewTime = Some renewed, LeaseDurationSeconds = Some ttl\<rparr>"

text \<open>The lease a holder may take: no holder, an empty holder, or an expired one.\<close>

definition takeable :: "time \<Rightarrow> Lease \<Rightarrow> bool" where
  "takeable now lease =
     (HolderIdentity lease = None \<or> HolderIdentity lease = Some [] \<or> leaseExpired now lease)"

definition take_lease :: "string \<Rightarrow> int \<Rightarrow> time \<Rightarrow> Lease \<Rightarrow> Lease" where
  "take_lease holder ttl now lease = lease\<lparr>HolderIdentity := Some holder, AcquireTime := Some now,
      RenewTime := Some now, LeaseDurationSeconds := Some ttl\<rparr>"

definition AcquireLease ::
  "('w, time) io \<Rightarrow> (string \<Rightarrow> ('w, Lease) io) \<Rightarrow> (Lease \<Rightarrow> ('w, Lease) io) \<Rightarrow> (Lease \<Rightarrow> ('w, Lease) io)
   \<Rightarrow> string \<Rightarrow> string \<Rightarrow> string \<Rightarrow> int \<Rightarrow> ('w, bool) io" where
  "AcquireLease now get create update name ns holder ttl =
     io_try (get name)
       (\<lambda>lease. io_bind now (\<lambda>t.
          if takeable t lease
          then io_bind now (\<lambda>t'. io_try (update (take_lease holder ttl t' lease))
                 (\<lambda>_. io_return True)
                 (\<lambda>e. io_throw (Wrapped ''failed to update lease'' e)))
          else if HolderIdentity lease = Some holder
          then io_bind now (\<lambda>t'. io_try (update (lease\<lparr>RenewTime := Some t'\<rparr>))
                 (\<lambda>_. io_return True)
                 (\<lambda>e. io_throw (Wrapped ''failed to renew lease'' e)))
          else io_return False))
       (\<lambda>e. io_bind now (\<lambda>t. io_bind now (\<lambda>t'.
          io_try (create (new_lease name ns holder ttl t t'))
            (\<lambda>_. io_return True)
            (\<lambda>e. io_throw (Wrapped ''failed to create lease'' e)))))"

definition ReleaseLease ::
  "(string \<Rightarrow> ('w, Lease) io) \<Rightarrow> (Lease \<Rightarrow> ('w, Lease) io) \<Rightarrow> string \<Rightarrow> string \<Rightarrow> ('w, unit) io" where
  "ReleaseLease get update name holder =
     io_try (get name)
       (\<lambda>lease. if HolderIdentity lease = Some holder
                then io_try (update (lease\<lparr>HolderIdentity := Some []\<rparr>)) (\<lambda>_. io_return ()) io_throw
                else io_return ())
       (\<lambda>e. io_return ())"

section \<open>The server\<close>

text \<open>
  The lease object as the API server keeps it: reads, creation (refused when the object exists) and
  updates (refused when the version sent is not the stored one).  \<open>None\<close> is a refusal.
\<close>

record 's lease_server =
  srv_get :: "'s \<Rightarrow> Lease option"
  srv_create :: "Lease \<Rightarrow> 's \<Rightarrow> 's option"
  srv_update :: "Lease \<Rightarrow> 's \<Rightarrow> 's option"

text \<open>What a write stores: the object sent, under a version of the server's choice.\<close>

definition stores :: "'s lease_server \<Rightarrow> Lease \<Rightarrow> 's \<Rightarrow> bool" where
  "stores S l s' \<longleftrightarrow> (\<exists>v. srv_get S s' = Some (l\<lparr>resourceVersion := v\<rparr>))"

definition srv_create_ok :: "'s lease_server \<Rightarrow> bool" where
  "srv_create_ok S \<longleftrightarrow> (\<forall>l s s'. srv_create S l s = Some s' \<longrightarrow> srv_get S s = None \<and> stores S l s')"

definition srv_update_ok :: "'s lease_server \<Rightarrow> bool" where
  "srv_update_ok S \<longleftrightarrow> (\<forall>l s s'. srv_update S l s = Some s' \<longrightarrow>
     (\<exists>old new. srv_get S s = Some old \<and> resourceVersion old = resourceVersion l \<and> stores S l s'
        \<and> srv_get S s' = Some new \<and> resourceVersion old < resourceVersion new))"

text \<open>Documented optimistic concurrency: creation needs absence, updates need the current version,
  every write moves the version up.\<close>

definition server_ok :: "'s lease_server \<Rightarrow> bool" where
  "server_ok S \<longleftrightarrow> srv_create_ok S \<and> srv_update_ok S"

section \<open>Interleaved runs\<close>

text \<open>
  Clients are numbered.  Between two calls a client is in one of these places: nothing under way, the
  lease read (\<open>Got\<close>), a creation or update about to be sent, a release about to be sent.
\<close>

datatype place = Idle | Got Lease | Creating Lease | Updating Lease Lease | Releasing Lease Lease

text \<open>
  \<open>belief i = Some e\<close>: the last \<open>AcquireLease\<close> of client \<open>i\<close> returned true with an expiry \<open>e\<close>, and
  client \<open>i\<close> has not called \<open>ReleaseLease\<close> since.
\<close>

record 's run =
  clock :: time
  store :: 's
  places :: "nat \<Rightarrow> place"
  belief :: "nat \<Rightarrow> time option"

text \<open>One call of one client, or the clock moving on.  \<open>ident\<close> gives the clients' identities.\<close>

inductive lstep ::
  "'s lease_server \<Rightarrow> (nat \<Rightarrow> string) \<Rightarrow> string \<Rightarrow> string \<Rightarrow> int \<Rightarrow> 's run \<Rightarrow> 's run \<Rightarrow> bool"
  for S ident name ns ttl where
  tick: "clock r \<le> t \<Longrightarrow> lstep S ident name ns ttl r (r\<lparr>clock := t\<rparr>)"
| get: "places r i = Idle \<Longrightarrow> srv_get S (store r) = Some l \<Longrightarrow>
    lstep S ident name ns ttl r (r\<lparr>places := (places r)(i := Got l)\<rparr>)"
| get_fails: "places r i = Idle \<Longrightarrow> t \<le> clock r \<Longrightarrow> t' \<le> clock r \<Longrightarrow>
    lstep S ident name ns ttl r
      (r\<lparr>places := (places r)(i := Creating (new_lease name ns (ident i) ttl t t'))\<rparr>)"
| decide_take: "places r i = Got l \<Longrightarrow> t \<le> clock r \<Longrightarrow> t' \<le> clock r \<Longrightarrow> takeable t l \<Longrightarrow>
    lstep S ident name ns ttl r
      (r\<lparr>places := (places r)(i := Updating l (take_lease (ident i) ttl t' l))\<rparr>)"
| decide_renew: "places r i = Got l \<Longrightarrow> t \<le> clock r \<Longrightarrow> t' \<le> clock r \<Longrightarrow> \<not> takeable t l \<Longrightarrow>
    HolderIdentity l = Some (ident i) \<Longrightarrow>
    lstep S ident name ns ttl r
      (r\<lparr>places := (places r)(i := Updating l (l\<lparr>RenewTime := Some t'\<rparr>))\<rparr>)"
| decide_busy: "places r i = Got l \<Longrightarrow> t \<le> clock r \<Longrightarrow> \<not> takeable t l \<Longrightarrow>
    HolderIdentity l \<noteq> Some (ident i) \<Longrightarrow>
    lstep S ident name ns ttl r (r\<lparr>places := (places r)(i := Idle)\<rparr>)"
| created: "places r i = Creating l \<Longrightarrow> srv_create S l (store r) = Some s' \<Longrightarrow>
    lstep S ident name ns ttl r
      (r\<lparr>places := (places r)(i := Idle), store := s', belief := (belief r)(i := expiry l)\<rparr>)"
| updated: "places r i = Updating l l' \<Longrightarrow> srv_update S l' (store r) = Some s' \<Longrightarrow>
    lstep S ident name ns ttl r
      (r\<lparr>places := (places r)(i := Idle), store := s', belief := (belief r)(i := expiry l')\<rparr>)"
| write_fails: "places r i = Creating l \<or> places r i = Updating l l' \<or> places r i = Releasing l l' \<Longrightarrow>
    lstep S ident name ns ttl r (r\<lparr>places := (places r)(i := Idle)\<rparr>)"
| release_other: "places r i = Idle \<Longrightarrow>
    lstep S ident name ns ttl r (r\<lparr>belief := (belief r)(i := None)\<rparr>)"
| release: "places r i = Idle \<Longrightarrow> srv_get S (store r) = Some l \<Longrightarrow> HolderIdentity l = Some (ident i) \<Longrightarrow>
    lstep S ident name ns ttl r
      (r\<lparr>places := (places r)(i := Releasing l (l\<lparr>HolderIdentity := Some []\<rparr>)),
         belief := (belief r)(i := None)\<rparr>)"
| released: "places r i = Releasing l l' \<Longrightarrow> srv_update S l' (store r) = Some s' \<Longrightarrow>
    lstep S ident name ns ttl r (r\<lparr>places := (places r)(i := Idle), store := s'\<rparr>)"

text \<open>Runs start with nothing under way, nobody holding, and any store.\<close>

inductive reachable ::
  "'s lease_server \<Rightarrow> (nat \<Rightarrow> string) \<Rightarrow> string \<Rightarrow> string \<Rightarrow> int \<Rightarrow> 's run \<Rightarrow> bool"
  for S ident name ns ttl where
  start: "reachable S ident name ns ttl
     \<lparr>clock = t, store = s, places = (\<lambda>_. Idle), belief = (\<lambda>_. None)\<rparr>"
| step: "reachable S ident name ns ttl r \<Longrightarrow> lstep S ident name ns ttl r r' \<Longrightarrow>
     reachable S ident name ns ttl r'"

section \<open>The invariant\<close>

text \<open>
  What a client has read is not newer than the store, and is the stored lease when the versions
  agree; what it is about to send has the version it read, and overwrites only a lease that is free
  or its own.
\<close>

definition read_ok :: "'s lease_server \<Rightarrow> 's \<Rightarrow> Lease \<Rightarrow> bool" where
  "read_ok S s l \<longleftrightarrow> (\<exists>cur. srv_get S s = Some cur \<and> resourceVersion l \<le> resourceVersion cur
      \<and> (resourceVersion l = resourceVersion cur \<longrightarrow> cur = l))"

fun place_ok :: "'s lease_server \<Rightarrow> time \<Rightarrow> 's \<Rightarrow> string \<Rightarrow> time option \<Rightarrow> place \<Rightarrow> bool" where
  "place_ok S now s me b Idle = True"
| "place_ok S now s me b (Got l) = read_ok S s l"
| "place_ok S now s me b (Creating l) = (HolderIdentity l = Some me)"
| "place_ok S now s me b (Updating l l') = (read_ok S s l \<and> resourceVersion l' = resourceVersion l
      \<and> HolderIdentity l' = Some me \<and> (HolderIdentity l = Some me \<or> takeable now l))"
| "place_ok S now s me b (Releasing l l') = (read_ok S s l \<and> resourceVersion l' = resourceVersion l
      \<and> HolderIdentity l = Some me \<and> b = None)"

text \<open>A client that believes it holds the lease is its holder in the store, until that time.\<close>

definition belief_ok :: "'s lease_server \<Rightarrow> time \<Rightarrow> 's \<Rightarrow> string \<Rightarrow> time option \<Rightarrow> bool" where
  "belief_ok S now s me b \<longleftrightarrow> (\<forall>e. b = Some e \<and> now \<le> e \<longrightarrow>
     (\<exists>l. srv_get S s = Some l \<and> HolderIdentity l = Some me \<and> (\<exists>e'. expiry l = Some e' \<and> e \<le> e')))"

definition lease_inv :: "'s lease_server \<Rightarrow> (nat \<Rightarrow> string) \<Rightarrow> 's run \<Rightarrow> bool" where
  "lease_inv S ident r \<longleftrightarrow>
     (\<forall>i. place_ok S (clock r) (store r) (ident i) (belief r i) (places r i)
        \<and> belief_ok S (clock r) (store r) (ident i) (belief r i))"

lemma takeable_mono: "takeable t l \<Longrightarrow> t \<le> t' \<Longrightarrow> takeable t' l"
  by (auto simp: takeable_def leaseExpired_def split: option.splits)

lemma expiry_version [simp]: "expiry (l\<lparr>resourceVersion := v\<rparr>) = expiry l"
  by (simp add: expiry_def)

lemma place_ok_tick: "place_ok S t s me b p \<Longrightarrow> t \<le> t' \<Longrightarrow> place_ok S t' s me b p"
  by (cases p) (auto intro: takeable_mono)

lemma belief_ok_tick: "belief_ok S t s me b \<Longrightarrow> t \<le> t' \<Longrightarrow> belief_ok S t' s me b"
  unfolding belief_ok_def using order_trans by blast

lemma belief_ok_None [simp]: "belief_ok S t s me None"
  by (simp add: belief_ok_def)

lemma read_ok_get: "srv_get S s = Some l \<Longrightarrow> read_ok S s l"
  by (simp add: read_ok_def)

text \<open>A write that goes through leaves what others have read out of date.\<close>

lemma read_ok_write:
  assumes "server_ok S" and "srv_update S l' s = Some s'" and "read_ok S s l"
  shows "read_ok S s' l"
proof -
  obtain old new where "srv_get S s = Some old" and n: "srv_get S s' = Some new"
      "resourceVersion old < resourceVersion new"
    using assms(1,2) unfolding server_ok_def srv_update_ok_def by blast
  with assms(3) show ?thesis by (auto simp: read_ok_def)
qed

lemma no_read_before_create:
  "server_ok S \<Longrightarrow> srv_create S l s = Some s' \<Longrightarrow> \<not> read_ok S s l'"
  unfolding server_ok_def srv_create_ok_def read_ok_def by fastforce

lemma place_ok_write:
  assumes "server_ok S" and "srv_update S l s = Some s'" and "place_ok S t s me b p"
  shows "place_ok S t s' me b p"
  using assms(3) read_ok_write [OF assms(1,2)] by (cases p) auto

lemma place_ok_create:
  assumes "server_ok S" and "srv_create S l s = Some s'" and "place_ok S t s me b p"
  shows "place_ok S t s' me b p"
  using assms(3) no_read_before_create [OF assms(1,2)] by (cases p) auto

text \<open>The lease an update overwrites is the one that was read.\<close>

lemma update_overwrites:
  assumes "server_ok S" and "srv_update S l' s = Some s'" and "read_ok S s l"
    and "resourceVersion l' = resourceVersion l"
  shows "srv_get S s = Some l \<and> stores S l' s'"
proof -
  obtain old where "srv_get S s = Some old" "resourceVersion old = resourceVersion l'" "stores S l' s'"
    using assms(1,2) unfolding server_ok_def srv_update_ok_def by blast
  with assms(3,4) show ?thesis by (auto simp: read_ok_def)
qed

lemma belief_ok_stored:
  assumes "stores S l s" and "HolderIdentity l = Some me"
  shows "belief_ok S t s me (expiry l)"
proof -
  obtain v where "srv_get S s = Some (l\<lparr>resourceVersion := v\<rparr>)"
    using assms(1) by (auto simp: stores_def)
  with assms(2) show ?thesis by (simp add: belief_ok_def)
qed

text \<open>Nobody else believes to hold a lease that may be taken.\<close>

lemma no_belief_if_takeable:
  assumes "belief_ok S t s me (Some e)" and "t \<le> e" and "srv_get S s = Some l"
    and "takeable t l \<or> HolderIdentity l = Some other" and "me \<noteq> []" and "me \<noteq> other"
  shows False
  using assms by (auto simp: belief_ok_def takeable_def leaseExpired_def)

lemma belief_ok_after_write:
  assumes "belief_ok S t s me b" and "srv_get S s = Some l"
    and "takeable t l \<or> HolderIdentity l = Some other" and "me \<noteq> []" and "me \<noteq> other"
  shows "belief_ok S t s' me b"
proof (cases b)
  case (Some e)
  have "\<not> t \<le> e"
    using no_belief_if_takeable [OF assms(1) [unfolded Some] _ assms(2,3,4,5)] by auto
  with Some show ?thesis by (simp add: belief_ok_def)
qed simp

lemma belief_ok_after_create:
  assumes "server_ok S" and "srv_create S l s = Some s'" and "belief_ok S t s me b"
  shows "belief_ok S t s' me b"
proof -
  have "srv_get S s = None" using assms(1,2) unfolding server_ok_def srv_create_ok_def by blast
  with assms(3) show ?thesis unfolding belief_ok_def by force
qed

lemma lease_invD:
  assumes "lease_inv S ident r"
  shows "place_ok S (clock r) (store r) (ident i) (belief r i) (places r i)"
    and "belief_ok S (clock r) (store r) (ident i) (belief r i)"
  using assms by (auto simp: lease_inv_def)

lemma lease_inv_step:
  assumes "lstep S ident name ns ttl r r'" and "lease_inv S ident r" and S: "server_ok S"
    and ids: "inj ident" "\<And>i. ident i \<noteq> []"
  shows "lease_inv S ident r'"
  using assms(1)
proof cases
  case (tick t)
  with assms(2) show ?thesis
    by (auto simp: lease_inv_def intro: place_ok_tick belief_ok_tick)
next
  case (get i l)
  with assms(2) show ?thesis by (auto simp: lease_inv_def read_ok_get)
next
  case (get_fails i t t')
  with assms(2) show ?thesis by (auto simp: lease_inv_def new_lease_def)
next
  case (decide_take i l t t')
  with assms(2) lease_invD(1) [OF assms(2), of i] show ?thesis
    by (auto simp: lease_inv_def take_lease_def intro: takeable_mono)
next
  case (decide_renew i l t t')
  with assms(2) lease_invD(1) [OF assms(2), of i] show ?thesis by (auto simp: lease_inv_def)
next
  case (decide_busy i l t)
  with assms(2) show ?thesis by (auto simp: lease_inv_def)
next
  case (created i l s')
  have "HolderIdentity l = Some (ident i)" using lease_invD(1) [OF assms(2), of i] created by simp
  moreover have "stores S l s'" using created S unfolding server_ok_def srv_create_ok_def by blast
  ultimately have "belief_ok S (clock r) s' (ident i) (expiry l)" by (rule belief_ok_stored [rotated])
  then show ?thesis using lease_invD [OF assms(2)] created(1)
      place_ok_create [OF S created(3)] belief_ok_after_create [OF S created(3)]
    by (auto simp: lease_inv_def)
next
  case (updated i l l' s')
  have p: "place_ok S (clock r) (store r) (ident i) (belief r i) (Updating l l')"
    using lease_invD(1) [OF assms(2), of i] updated by simp
  then have w: "srv_get S (store r) = Some l" "stores S l' s'"
    using update_overwrites [OF S updated(3), of l] by auto
  have "belief_ok S (clock r) s' (ident i) (expiry l')"
    using p by (intro belief_ok_stored [OF w(2)]) simp
  moreover have "belief_ok S (clock r) s' (ident j) (belief r j)" if "j \<noteq> i" for j
    using p w(1) ids that
    by (intro belief_ok_after_write [OF lease_invD(2) [OF assms(2)], where other = "ident i"])
       (auto dest: injD)
  ultimately show ?thesis using lease_invD [OF assms(2)] updated(1)
      place_ok_write [OF S updated(3)]
    by (auto simp: lease_inv_def)
next
  case (write_fails i l l')
  with assms(2) show ?thesis by (auto simp: lease_inv_def)
next
  case (release_other i)
  then show ?thesis using assms(2) by (auto simp: lease_inv_def)
next
  case (release i l)
  with assms(2) show ?thesis by (auto simp: lease_inv_def read_ok_get)
next
  case (released i l l' s')
  have p: "place_ok S (clock r) (store r) (ident i) (belief r i) (Releasing l l')"
    using lease_invD(1) [OF assms(2), of i] released by simp
  then have w: "srv_get S (store r) = Some l" using update_overwrites [OF S released(3), of l] by auto
  have "belief_ok S (clock r) s' (ident j) (belief r j)" for j
  proof (cases "j = i")
    case False
    with p w ids show ?thesis
      by (intro belief_ok_after_write [OF lease_invD(2) [OF assms(2)], where other = "ident i"])
         (auto dest: injD)
  qed (use p in simp)
  then show ?thesis using lease_invD [OF assms(2)] released(1) place_ok_write [OF S released(3)]
    by (auto simp: lease_inv_def)
qed

lemma lease_inv_reachable:
  assumes "reachable S ident name ns ttl r" and "server_ok S" and "inj ident" "\<And>i. ident i \<noteq> []"
  shows "lease_inv S ident r"
  using assms
proof (induction rule: reachable.induct)
  case (start t s)
  show ?case by (simp add: lease_inv_def)
next
  case (step r r')
  then show ?case using lease_inv_step by blast
qed

section \<open>The functions are runs of the machine\<close>

text \<open>The four calls, answered by the server at one moment.\<close>

definition at_time :: "time \<Rightarrow> ('s, time) io" where
  "at_time t = (\<lambda>s. (Ok t, s))"

definition get_call :: "'s lease_server \<Rightarrow> string \<Rightarrow> ('s, Lease) io" where
  "get_call S name = (\<lambda>s. case srv_get S s of Some l \<Rightarrow> (Ok l, s) | None \<Rightarrow> (Err (NotFound name), s))"

definition create_call :: "'s lease_server \<Rightarrow> Lease \<Rightarrow> ('s, Lease) io" where
  "create_call S l = (\<lambda>s. case srv_create S l s of Some s' \<Rightarrow> (Ok l, s')
     | None \<Rightarrow> (Err (ErrorString ''already exists''), s))"

definition update_call :: "'s lease_server \<Rightarrow> Lease \<Rightarrow> ('s, Lease) io" where
  "update_call S l = (\<lambda>s. case srv_update S l s of Some s' \<Rightarrow> (Ok l, s')
     | None \<Rightarrow> (Err (ErrorString ''conflict''), s))"

definition acquire_at :: "'s lease_server \<Rightarrow> time \<Rightarrow> string \<Rightarrow> string \<Rightarrow> string \<Rightarrow> int \<Rightarrow> ('s, bool) io" where
  "acquire_at S t name ns holder ttl =
     AcquireLease (at_time t) (get_call S) (create_call S) (update_call S) name ns holder ttl"

definition release_at :: "'s lease_server \<Rightarrow> string \<Rightarrow> string \<Rightarrow> ('s, unit) io" where
  "release_at S name holder = ReleaseLease (get_call S) (update_call S) name holder"

lemmas call_defs = at_time_def get_call_def create_call_def update_call_def

text \<open>What \<open>AcquireLease\<close> sends for the lease it read.\<close>

definition chosen :: "time \<Rightarrow> string \<Rightarrow> int \<Rightarrow> Lease \<Rightarrow> Lease option" where
  "chosen t holder ttl l =
     (if takeable t l then Some (take_lease holder ttl t l)
      else if HolderIdentity l = Some holder then Some (l\<lparr>RenewTime := Some t\<rparr>) else None)"

lemma acquire_absent:
  "srv_get S s = None \<Longrightarrow> acquire_at S t name ns holder ttl s =
     (case srv_create S (new_lease name ns holder ttl t t) s of
        Some s' \<Rightarrow> (Ok True, s')
      | None \<Rightarrow> (Err (Wrapped ''failed to create lease'' (ErrorString ''already exists'')), s))"
  by (simp add: acquire_at_def AcquireLease_def io_simps call_defs split: option.split)

lemma acquire_present:
  "srv_get S s = Some l \<Longrightarrow> acquire_at S t name ns holder ttl s =
     (case chosen t holder ttl l of
        None \<Rightarrow> (Ok False, s)
      | Some l' \<Rightarrow> (case srv_update S l' s of
           Some s' \<Rightarrow> (Ok True, s')
         | None \<Rightarrow> (Err (Wrapped (if takeable t l then ''failed to update lease'' else ''failed to renew lease'')
                       (ErrorString ''conflict'')), s)))"
  by (simp add: acquire_at_def AcquireLease_def io_simps call_defs chosen_def split: option.split)

lemma steps_write:
  assumes "lstep S ident name ns ttl r (r\<lparr>places := (places r)(i := p)\<rparr>)"
    and "lstep S ident name ns ttl (r\<lparr>places := (places r)(i := p)\<rparr>)
          (r\<lparr>places := (places r)(i := Idle), store := s', belief := b\<rparr>)"
    and "places r i = Idle"
  shows "(lstep S ident name ns ttl)\<^sup>*\<^sup>* r (r\<lparr>store := s', belief := b\<rparr>)"
proof -
  have "(places r)(i := Idle) = places r" using assms(3) by auto
  then have "r\<lparr>places := (places r)(i := Idle), store := s', belief := b\<rparr> = r\<lparr>store := s', belief := b\<rparr>"
    by simp
  then show ?thesis using assms(1,2) by (metis (mono_tags) converse_rtranclp_into_rtranclp r_into_rtranclp)
qed

lemma chosen_steps:
  assumes "places r i = Idle" and "srv_get S (store r) = Some l"
    and "chosen (clock r) (ident i) ttl l = Some l'"
  shows "(lstep S ident name ns ttl)\<^sup>*\<^sup>* r (r\<lparr>places := (places r)(i := Updating l l')\<rparr>)"
proof -
  let ?g = "r\<lparr>places := (places r)(i := Got l)\<rparr>"
  have "lstep S ident name ns ttl r ?g" using assms(1,2) by (rule lstep.get)
  moreover have "lstep S ident name ns ttl ?g (?g\<lparr>places := (places ?g)(i := Updating l l')\<rparr>)"
  proof (cases "takeable (clock r) l")
    case True
    then show ?thesis using assms(3) lstep.decide_take [of ?g i l "clock r" "clock r"]
      by (auto simp: chosen_def)
  next
    case False
    then show ?thesis using assms(3) lstep.decide_renew [of ?g i l "clock r" "clock r"]
      by (auto simp: chosen_def split: if_splits)
  qed
  ultimately show ?thesis by simp
qed

text \<open>
  C32. A call of \<open>AcquireLease\<close> that nobody interrupts is a sequence of steps of the machine: it takes
  an idle client from one state to the state with the store the call leaves behind, and the client's
  belief is set exactly when the call returns true.
\<close>
theorem AcquireLease_refines_steps:
  assumes "places r i = Idle"
    and "acquire_at S (clock r) name ns (ident i) ttl (store r) = (res, s')"
  shows "\<exists>b. (lstep S ident name ns ttl)\<^sup>*\<^sup>* r (r\<lparr>store := s', belief := b\<rparr>)
      \<and> (\<forall>j. j \<noteq> i \<longrightarrow> b j = belief r j)
      \<and> (if res = Ok True then b i \<noteq> None else b i = belief r i \<and> s' = store r)"
proof -
  have stay: ?thesis if "s' = store r \<and> res \<noteq> Ok True"
    using that by (intro exI [of _ "belief r"]) simp
  show ?thesis
  proof (cases "srv_get S (store r)")
    case None
    let ?n = "new_lease name ns (ident i) ttl (clock r) (clock r)"
    show ?thesis
    proof (cases "srv_create S ?n (store r)")
      case (Some s'')
      let ?r = "r\<lparr>places := (places r)(i := Creating ?n)\<rparr>"
      have "lstep S ident name ns ttl r ?r" by (rule lstep.get_fails [OF assms(1)]) simp_all
      moreover have "lstep S ident name ns ttl ?r
          (r\<lparr>places := (places r)(i := Idle), store := s'', belief := (belief r)(i := expiry ?n)\<rparr>)"
        using lstep.created [of ?r i ?n S s''] Some by simp
      ultimately have "(lstep S ident name ns ttl)\<^sup>*\<^sup>* r (r\<lparr>store := s'', belief := (belief r)(i := expiry ?n)\<rparr>)"
        using assms(1) by (rule steps_write)
      moreover have "res = Ok True" "s' = s''" using assms(2) None Some by (simp_all add: acquire_absent)
      ultimately show ?thesis
        by (intro exI [of _ "(belief r)(i := expiry ?n)"]) (simp add: new_lease_def expiry_def)
    qed (rule stay, use assms(2) None in \<open>auto simp: acquire_absent\<close>)
  next
    case (Some l)
    show ?thesis
    proof (cases "chosen (clock r) (ident i) ttl l")
      case chosen: (Some l')
      show ?thesis
      proof (cases "srv_update S l' (store r)")
        case upd: (Some s'')
        let ?r = "r\<lparr>places := (places r)(i := Updating l l')\<rparr>" and ?b = "(belief r)(i := expiry l')"
        have "lstep S ident name ns ttl ?r (r\<lparr>places := (places r)(i := Idle), store := s'', belief := ?b\<rparr>)"
          using lstep.updated [of ?r i l l' S s''] upd by simp
        moreover have "(places r)(i := Idle) = places r" using assms(1) by auto
        moreover have "(lstep S ident name ns ttl)\<^sup>*\<^sup>* r ?r"
          by (rule chosen_steps) (use assms(1) Some chosen in simp_all)
        ultimately have "(lstep S ident name ns ttl)\<^sup>*\<^sup>* r (r\<lparr>store := s'', belief := ?b\<rparr>)"
          by (simp add: rtranclp.rtrancl_into_rtrancl)
        moreover have "res = Ok True" "s' = s''" using assms(2) Some chosen upd by (simp_all add: acquire_present)
        moreover have "expiry l' \<noteq> None" using chosen
          by (auto simp: chosen_def take_lease_def expiry_def takeable_def leaseExpired_def
              split: if_splits option.splits)
        ultimately show ?thesis by (intro exI [of _ ?b]) simp
      qed (rule stay, use assms(2) Some chosen in \<open>auto simp: acquire_present\<close>)
    qed (rule stay, use assms(2) Some in \<open>auto simp: acquire_present\<close>)
  qed
qed

section \<open>A concrete server\<close>

text \<open>One optional lease, versions counted up: the instance of the hypotheses used below.\<close>

definition one_lease :: "Lease option lease_server" where
  "one_lease = \<lparr>srv_get = (\<lambda>s. s),
     srv_create = (\<lambda>l s. case s of None \<Rightarrow> Some (Some (l\<lparr>resourceVersion := 1\<rparr>)) | Some _ \<Rightarrow> None),
     srv_update = (\<lambda>l s. case s of
         Some old \<Rightarrow> if resourceVersion old = resourceVersion l
            then Some (Some (l\<lparr>resourceVersion := resourceVersion old + 1\<rparr>)) else None
       | None \<Rightarrow> None)\<rparr>"

lemma one_lease_ok: "server_ok one_lease"
  by (auto simp: server_ok_def srv_create_ok_def srv_update_ok_def stores_def one_lease_def
      split: option.splits if_splits)

definition start_run :: "Lease option run" where
  "start_run = \<lparr>clock = 10, store = None, places = (\<lambda>_. Idle), belief = (\<lambda>_. None)\<rparr>"

definition name_of :: "nat \<Rightarrow> string" where
  "name_of i = replicate (Suc i) CHR ''a''"

lemma inj_name_of: "inj name_of" and name_of_nonempty: "name_of i \<noteq> []"
  by (auto simp: inj_def name_of_def dest: arg_cong [where f = length])

theorem AcquireLease_refines_steps_witness:
  "\<exists>b. (lstep one_lease name_of ''lock'' ''ns'' 120)\<^sup>*\<^sup>* start_run
      (start_run\<lparr>store := Some (new_lease ''lock'' ''ns'' ''a'' 120 10 10\<lparr>resourceVersion := 1\<rparr>), belief := b\<rparr>)
    \<and> b 0 \<noteq> None"
proof -
  have "acquire_at one_lease (clock start_run) ''lock'' ''ns'' (name_of 0) 120 (store start_run)
      = (Ok True, Some (new_lease ''lock'' ''ns'' ''a'' 120 10 10\<lparr>resourceVersion := 1\<rparr>))"
    by (simp add: acquire_absent one_lease_def start_run_def name_of_def)
  then show ?thesis
    using AcquireLease_refines_steps [of start_run 0 one_lease "''lock''" "''ns''" name_of 120 "Ok True"
        "Some (new_lease ''lock'' ''ns'' ''a'' 120 10 10\<lparr>resourceVersion := 1\<rparr>)"]
    by (simp add: start_run_def) blast
qed

section \<open>Properties of the lock\<close>

text \<open>
  C4. Mutual exclusion of the certificate renewal lock.  Whatever clients with different non-empty
  identities do and however their API calls interleave, two different clients never both hold an
  unexpired lease: if the last acquisitions of \<open>i\<close> and \<open>j\<close> returned true, neither has released it and
  neither has run out at the present time, then \<open>i = j\<close>; and the stored object names that client.
\<close>
theorem lease_mutual_exclusion:
  assumes "server_ok S" and "inj ident" and "\<And>k. ident k \<noteq> []"
    and "reachable S ident name ns ttl r"
    and "belief r i = Some e" "clock r \<le> e" and "belief r j = Some e'" "clock r \<le> e'"
  shows "i = j \<and> (\<exists>l. srv_get S (store r) = Some l \<and> HolderIdentity l = Some (ident i))"
proof -
  have inv: "lease_inv S ident r"
    using lease_inv_reachable [OF assms(4,1,2)] assms(3) by blast
  have "\<exists>l. srv_get S (store r) = Some l \<and> HolderIdentity l = Some (ident i)"
    using lease_invD(2) [OF inv, of i] assms(5,6) by (auto simp: belief_ok_def)
  moreover have "\<exists>l. srv_get S (store r) = Some l \<and> HolderIdentity l = Some (ident j)"
    using lease_invD(2) [OF inv, of j] assms(7,8) by (auto simp: belief_ok_def)
  ultimately show ?thesis using assms(2) by (auto dest: injD)
qed

definition one_holds :: "Lease option run" where
  "one_holds = start_run\<lparr>store := Some (new_lease ''l'' ''n'' (name_of 0) 120 10 10\<lparr>resourceVersion := 1\<rparr>),
     belief := (\<lambda>_. None)(0 := Some 120000000010)\<rparr>"

lemma one_holds_reachable: "reachable one_lease name_of ''l'' ''n'' 120 one_holds"
proof -
  let ?l = "new_lease ''l'' ''n'' (name_of 0) 120 10 10"
  let ?r = "start_run\<lparr>places := (places start_run)(0 := Creating ?l)\<rparr>"
  have "reachable one_lease name_of ''l'' ''n'' 120 start_run"
    unfolding start_run_def by (rule reachable.start)
  moreover have "lstep one_lease name_of ''l'' ''n'' 120 start_run ?r"
    by (rule lstep.get_fails) (simp_all add: start_run_def)
  moreover have "lstep one_lease name_of ''l'' ''n'' 120 ?r (?r\<lparr>places := (places ?r)(0 := Idle),
      store := Some (?l\<lparr>resourceVersion := 1\<rparr>), belief := (belief ?r)(0 := expiry ?l)\<rparr>)"
    by (rule lstep.created [where l = ?l]) (simp_all add: start_run_def one_lease_def)
  moreover have "?r\<lparr>places := (places ?r)(0 := Idle), store := Some (?l\<lparr>resourceVersion := 1\<rparr>),
      belief := (belief ?r)(0 := expiry ?l)\<rparr> = one_holds"
    by (simp add: one_holds_def start_run_def expiry_def new_lease_def fun_upd_idem)
  ultimately show ?thesis by (metis reachable.step)
qed

theorem lease_mutual_exclusion_witness:
  "\<exists>l. srv_get one_lease (store one_holds) = Some l \<and> HolderIdentity l = Some (name_of 0)"
  using lease_mutual_exclusion [OF one_lease_ok inj_name_of name_of_nonempty one_holds_reachable,
      of 0 120000000010 0 120000000010]
  by (simp add: one_holds_def start_run_def)

text \<open>
  One uninterrupted \<open>AcquireLease\<close>, on every lease it can find: it returns true exactly when the
  lease is absent, free, expired or already held under the same identity (and the write gets
  through), it returns false without writing while somebody else holds it unexpired, and after
  \<open>ReleaseLease\<close> of the holder any other client acquires it at once, however long the holder's
  lease would have lasted.  Read with equal identities, the third clause is a limit of the lock: two
  workers under one identity both get true.
\<close>
theorem AcquireLease_outcomes:
  assumes "server_ok S"
    and upd: "\<And>l s cur. srv_get S s = Some cur \<Longrightarrow> resourceVersion cur = resourceVersion l \<Longrightarrow> srv_update S l s \<noteq> None"
    and "srv_get S s = Some l"
  shows "(takeable t l \<or> HolderIdentity l = Some me \<longrightarrow>
       (\<exists>s' l'. acquire_at S t name ns me ttl s = (Ok True, s') \<and> srv_get S s' = Some l' \<and> HolderIdentity l' = Some me))
    \<and> (\<not> takeable t l \<and> HolderIdentity l \<noteq> Some me \<longrightarrow> acquire_at S t name ns me ttl s = (Ok False, s))
    \<and> (HolderIdentity l = Some holder \<longrightarrow>
       (\<exists>s' s'' l''. release_at S name holder s = (Ok (), s')
          \<and> acquire_at S t name ns me ttl s' = (Ok True, s'')
          \<and> srv_get S s'' = Some l'' \<and> HolderIdentity l'' = Some me))"
proof -
  have writes: "\<exists>s'. srv_update S l' s = Some s' \<and> stores S l' s'"
    if "srv_get S s = Some l" "resourceVersion l' = resourceVersion l" for l l' s
    using upd [of s l l'] that assms(1) unfolding server_ok_def srv_update_ok_def by fastforce
  have wins: "\<exists>s' l'. acquire_at S t name ns me ttl s = (Ok True, s') \<and> srv_get S s' = Some l'
      \<and> HolderIdentity l' = Some me"
    if g: "srv_get S s = Some l" and c: "chosen t me ttl l = Some l'" for l l' s
  proof -
    have "resourceVersion l' = resourceVersion l" "HolderIdentity l' = Some me"
      using c by (auto simp: chosen_def take_lease_def split: if_splits)
    with writes [OF g, of l'] show ?thesis
      by (auto simp: acquire_present [OF g] c stores_def)
  qed
  have 1: "\<exists>s' l'. acquire_at S t name ns me ttl s = (Ok True, s') \<and> srv_get S s' = Some l'
      \<and> HolderIdentity l' = Some me" if "takeable t l \<or> HolderIdentity l = Some me"
  proof -
    have "chosen t me ttl l \<noteq> None" using that by (auto simp: chosen_def)
    then show ?thesis using wins [OF assms(3)] by blast
  qed
  have 2: "acquire_at S t name ns me ttl s = (Ok False, s)"
    if "\<not> takeable t l" "HolderIdentity l \<noteq> Some me"
    using that by (simp add: acquire_present [OF assms(3)] chosen_def)
  have 3: "\<exists>s' s'' l''. release_at S name holder s = (Ok (), s') \<and> acquire_at S t name ns me ttl s' = (Ok True, s'')
      \<and> srv_get S s'' = Some l'' \<and> HolderIdentity l'' = Some me" if h: "HolderIdentity l = Some holder"
  proof -
    let ?f = "l\<lparr>HolderIdentity := Some []\<rparr>"
    obtain s' where u: "srv_update S ?f s = Some s'" and "stores S ?f s'"
      using writes [OF assms(3), of ?f] by auto
    then obtain v where g: "srv_get S s' = Some (?f\<lparr>resourceVersion := v\<rparr>)" by (auto simp: stores_def)
    have "release_at S name holder s = (Ok (), s')"
      using h u assms(3) by (simp add: release_at_def ReleaseLease_def io_simps call_defs)
    moreover have "chosen t me ttl (?f\<lparr>resourceVersion := v\<rparr>)
        = Some (take_lease me ttl t (?f\<lparr>resourceVersion := v\<rparr>))"
      by (simp add: chosen_def takeable_def)
    ultimately show ?thesis using wins [OF g] by blast
  qed
  from 1 2 3 show ?thesis by blast
qed

theorem AcquireLease_outcomes_witness:
  "acquire_at one_lease 50 ''l'' ''n'' (name_of 1) 120 (store one_holds) = (Ok False, store one_holds)"
proof -
  have "\<And>l s cur. srv_get one_lease s = Some cur \<Longrightarrow> resourceVersion cur = resourceVersion l \<Longrightarrow>
      srv_update one_lease l s \<noteq> None"
    by (auto simp: one_lease_def)
  moreover have "srv_get one_lease (store one_holds) =
      Some (new_lease ''l'' ''n'' (name_of 0) 120 10 10\<lparr>resourceVersion := 1\<rparr>)"
    by (simp add: one_lease_def one_holds_def)
  ultimately show ?thesis
    using AcquireLease_outcomes [OF one_lease_ok, of "store one_holds" _ 50 "name_of 1" "''l''" "''n''" 120 "[]"]
    by (simp add: takeable_def leaseExpired_def expiry_def new_lease_def name_of_def)
qed

end
