(* ===== verification/Cluster_Utils.thy ===== *)
theory Cluster_Utils imports Prelude "HOL-Library.Sublist" begin

text \<open>
  The helpers of \<open>controllers/utils/utils.go\<close> and \<open>crl.go\<close>: slices as sets, node addresses, free
  node ports, pod readiness, and the PEM wrappers around \<open>crypto/x509\<close> (whose parsers are
  arguments).
\<close>

section \<open>Slices as sets\<close>

text \<open>\<open>Contains\<close> builds the set of the slice first.\<close>

definition Contains :: "string list \<Rightarrow> string \<Rightarrow> bool" where
  "Contains slice item =
     (let s = fold (\<lambda>x m. m(x \<mapsto> ())) slice Map.empty in s item \<noteq> None)"

lemma fold_upd_dom: "dom (fold (\<lambda>x m. m(x \<mapsto> ())) xs m) = set xs \<union> dom m"
  by (induction xs arbitrary: m) auto

lemma Contains_iff [simp]: "Contains slice item \<longleftrightarrow> item \<in> set slice"
  using fold_upd_dom [of slice Map.empty] by (auto simp: Contains_def domIff)

section \<open>Node addresses\<close>

datatype address_type = NodeHostName | NodeInternalIP | NodeExternalIP | NodeInternalDNS | NodeExternalDNS

type_synonym node_addresses = "(address_type \<times> string) list"

text \<open>The body of the inner loop: Go's \<open>switch\<close> cases do not fall through.\<close>

fun add_address :: "address_type \<times> string \<Rightarrow> string list \<times> string list \<Rightarrow> string list \<times> string list" where
  "add_address (t, a) (ext, inn) = (case t of
      NodeExternalIP \<Rightarrow> (ext @ [a], inn)
    | NodeInternalIP \<Rightarrow> (ext, inn @ [a])
    | _ \<Rightarrow> (ext, inn))"

definition collect_addresses :: "node_addresses list \<Rightarrow> string list \<times> string list" where
  "collect_addresses nodes = fold (\<lambda>node acc. fold add_address node acc) nodes ([], [])"

definition GetPublicIPKubernetes :: "('w, node_addresses list) io \<Rightarrow> ('w, string) io" where
  "GetPublicIPKubernetes list_nodes = io_bind list_nodes (\<lambda>items.
     case collect_addresses items of (ext, inn) \<Rightarrow>
       io_return (case ext of e # _ \<Rightarrow> e | [] \<Rightarrow> (case inn of i # _ \<Rightarrow> i | [] \<Rightarrow> [])))"

definition GetPublicIPsKubernetes :: "('w, node_addresses list) io \<Rightarrow> ('w, string list) io" where
  "GetPublicIPsKubernetes list_nodes = io_bind list_nodes (\<lambda>items.
     case collect_addresses items of (ext, inn) \<Rightarrow>
       io_return (if ext \<noteq> [] then ext else if inn \<noteq> [] then inn else []))"

lemma fold_add_address:
  "fold add_address node (ext, inn) =
     (ext @ map snd (filter (\<lambda>a. fst a = NodeExternalIP) node),
      inn @ map snd (filter (\<lambda>a. fst a = NodeInternalIP) node))"
proof (induction node arbitrary: ext inn)
  case (Cons a node)
  obtain t s where "a = (t, s)" by fastforce
  with Cons show ?case by (cases t) simp_all
qed simp

lemma fold_nodes:
  "fold (\<lambda>node acc. fold add_address node acc) nodes (ext, inn) =
     (ext @ map snd (filter (\<lambda>a. fst a = NodeExternalIP) (concat nodes)),
      inn @ map snd (filter (\<lambda>a. fst a = NodeInternalIP) (concat nodes)))"
  by (induction nodes arbitrary: ext inn) (simp_all add: fold_add_address)

lemma collect_addresses_eq:
  "collect_addresses nodes =
     (map snd (filter (\<lambda>a. fst a = NodeExternalIP) (concat nodes)),
      map snd (filter (\<lambda>a. fst a = NodeInternalIP) (concat nodes)))"
  using fold_nodes [of nodes "[]" "[]"] by (simp add: collect_addresses_def)

section \<open>Free node ports\<close>

text \<open>
  The loop over the ports that are left; \<open>dial\<close> is \<open>net.DialTimeout\<close> on the host, \<open>close\<close> the
  connection's \<open>Close\<close>.  A refused connection counts as a free port, a time-out does not.
\<close>

fun scan_ports ::
  "(int \<Rightarrow> ('w, unit) io) \<Rightarrow> (int \<Rightarrow> ('w, unit) io) \<Rightarrow> int \<Rightarrow> int list \<Rightarrow> int \<Rightarrow> int list
   \<Rightarrow> ('w, int list) io" where
  "scan_ports dial close n [] c ports = io_throw (ErrorString ''no ports are free'')"
| "scan_ports dial close n (port # rest) c ports =
     io_try (dial port)
       (\<lambda>_. io_try (close port)
              (\<lambda>_. scan_ports dial close n rest c ports)
              (\<lambda>_. scan_ports dial close n rest c ports))
       (\<lambda>err. if \<not> str_contains (error_text err) ''i/o timeout''
              then (let c = c + 1; ports = ports @ [port]
                    in if c = n then io_return ports else scan_ports dial close n rest c ports)
              else scan_ports dial close n rest c ports)"

definition node_ports :: "int list" where
  "node_ports = [30000..32767]"

definition GetFreeNodeports ::
  "(int \<Rightarrow> ('w, unit) io) \<Rightarrow> (int \<Rightarrow> ('w, unit) io) \<Rightarrow> int \<Rightarrow> ('w, int list) io" where
  "GetFreeNodeports dial close n = scan_ports dial close n node_ports 0 []"

text \<open>Whatever the network does, the ports returned are the right number of ports of the range.\<close>

lemma scan_ports_Ok:
  "scan_ports dial close n ps c ports w = (Ok out, w') \<Longrightarrow>
     \<exists>new. out = ports @ new \<and> subseq new ps \<and> int (length new) = n - c \<and> new \<noteq> []"
proof (induction dial close n ps c ports arbitrary: w rule: scan_ports.induct)
  case (2 dial close n port rest c ports)
  consider (skip) w1 where "scan_ports dial close n rest c ports w1 = (Ok out, w')"
    | (last) "c + 1 = n" "out = ports @ [port]"
    | (more) e w1 where "\<not> str_contains (error_text e) ''i/o timeout''" "c + 1 \<noteq> n"
        "scan_ports dial close n rest (c + 1) (ports @ [port]) w1 = (Ok out, w')"
    using "2.prems"
    by (auto simp: io_simps Let_def split: prod.splits res.splits if_splits)
  then show ?case
  proof cases
    case skip
    from "2.IH"(1) [OF this] show ?thesis by auto
  next
    case last
    then show ?thesis by (intro exI [of _ "[port]"]) auto
  next
    case more
    then obtain new where "out = (ports @ [port]) @ new \<and> subseq new rest \<and>
        int (length new) = n - (c + 1) \<and> new \<noteq> []"
      using "2.IH"(3) [OF more(1) refl refl more(2,3)] by blast
    then show ?thesis by (intro exI [of _ "port # new"]) auto
  qed
qed (simp add: io_simps)

section \<open>Pod readiness\<close>

record PodCondition =
  pcType :: string
  pcStatus :: string

text \<open>\<open>conditions\<close> is \<open>None\<close> for a nil slice; the index is \<open>-1\<close> when nothing is found.\<close>

fun find_pod_condition :: "PodCondition list \<Rightarrow> string \<Rightarrow> int \<Rightarrow> int \<times> PodCondition option" where
  "find_pod_condition [] t i = (-1, None)"
| "find_pod_condition (c # cs) t i = (if pcType c = t then (i, Some c) else find_pod_condition cs t (i + 1))"

definition GetPodConditionFromList :: "PodCondition list option \<Rightarrow> string \<Rightarrow> int \<times> PodCondition option" where
  "GetPodConditionFromList conditions t = (case conditions of None \<Rightarrow> (-1, None)
     | Some cs \<Rightarrow> find_pod_condition cs t 0)"

text \<open>The status is a pointer, \<open>None\<close> for nil; its conditions are a slice.\<close>

definition GetPodCondition :: "PodCondition list option option \<Rightarrow> string \<Rightarrow> int \<times> PodCondition option" where
  "GetPodCondition status t = (case status of None \<Rightarrow> (-1, None)
     | Some conditions \<Rightarrow> GetPodConditionFromList conditions t)"

definition GetPodReadyCondition :: "PodCondition list option \<Rightarrow> PodCondition option" where
  "GetPodReadyCondition status = snd (GetPodCondition (Some status) ''Ready'')"

definition IsPodReadyConditionTrue :: "PodCondition list option \<Rightarrow> bool" where
  "IsPodReadyConditionTrue status = (case GetPodReadyCondition status of
      None \<Rightarrow> False | Some c \<Rightarrow> pcStatus c = ''True'')"

section \<open>PEM wrappers\<close>

text \<open>
  \<open>pem_decode\<close> gives the DER bytes of the first block, if there is one; \<open>parse_certificate\<close>,
  \<open>parse_crl\<close> and \<open>parse_pkcs8\<close> are those of \<open>crypto/x509\<close> (the last one says whether the key is an
  ECDSA key).
\<close>

definition ParseX509Certificate :: "(string \<Rightarrow> string option) \<Rightarrow> (string \<Rightarrow> 'c res) \<Rightarrow> string \<Rightarrow> 'c res" where
  "ParseX509Certificate pem_decode parse_certificate contents =
     (if contents = [] then Err (ErrorString ''certificate pem is empty'')
      else (case pem_decode contents of
          None \<Rightarrow> Err (ErrorString ''failed to decode PEM block'')
        | Some der \<Rightarrow> parse_certificate der))"

definition ParseCRL :: "(string \<Rightarrow> string option) \<Rightarrow> (string \<Rightarrow> 'r res) \<Rightarrow> string \<Rightarrow> 'r res" where
  "ParseCRL pem_decode parse_crl crlBytes = (case pem_decode crlBytes of
       None \<Rightarrow> Err (ErrorString ''failed to decode PEM block containing CRL'')
     | Some der \<Rightarrow> (case parse_crl der of
          Err e \<Rightarrow> Err (ErrorString (''failed to parse CRL: '' @ error_text e))
        | r \<Rightarrow> r))"

text \<open>This one does not check that there is a block: \<open>block.Bytes\<close> panics on nil.\<close>

definition ParseECDSAPrivateKey ::
  "(string \<Rightarrow> string option) \<Rightarrow> (string \<Rightarrow> ('k \<times> bool) res) \<Rightarrow> string \<Rightarrow> 'k res" where
  "ParseECDSAPrivateKey pem_decode parse_pkcs8 contents = (case pem_decode contents of
       None \<Rightarrow> Panic ''nil pointer dereference''
     | Some der \<Rightarrow> res_bind (parse_pkcs8 der) (\<lambda>(key, is_ecdsa).
         if is_ecdsa then Ok key else Err (ErrorString ''private key is not of ECDSA type'')))"

definition EncodeX509Certificate :: "(string \<times> string \<Rightarrow> string) \<Rightarrow> ('c \<Rightarrow> string) \<Rightarrow> 'c \<Rightarrow> string" where
  "EncodeX509Certificate pem_encode raw crt = pem_encode (''CERTIFICATE'', raw crt)"

text \<open>
  Encoding a certificate and parsing it back gives the certificate, for any PEM and X.509 library
  that inverts its own encodings.
\<close>

lemma ParseX509Certificate_Encode:
  assumes "pem_encode (''CERTIFICATE'', raw crt) \<noteq> []"
    and "pem_decode (pem_encode (''CERTIFICATE'', raw crt)) = Some (raw crt)"
    and "parse (raw crt) = Ok crt"
  shows "ParseX509Certificate pem_decode parse (EncodeX509Certificate pem_encode raw crt) = Ok crt"
  using assms by (simp add: ParseX509Certificate_def EncodeX509Certificate_def)

section \<open>Properties\<close>

text \<open>What counts as a free port: an error that is not a time-out.\<close>

definition refused :: "(int \<Rightarrow> unit res) \<Rightarrow> int \<Rightarrow> bool" where
  "refused d port = (case d port of
      Err e \<Rightarrow> \<not> str_contains (error_text e) ''i/o timeout'' | Ok u \<Rightarrow> False | Panic t \<Rightarrow> False)"

lemma scan_ports_stable:
  assumes dial: "\<And>port. port \<in> set ps \<Longrightarrow> dial port w = (d port, w) \<and> (\<forall>t. d port \<noteq> Panic t)"
    and close: "\<And>port. port \<in> set ps \<Longrightarrow> close port w = (k port, w) \<and> (\<forall>t. k port \<noteq> Panic t)"
  shows "scan_ports dial close n ps c ports w =
     (let free = filter (refused d) ps
      in if c < n \<and> n - c \<le> int (length free) then Ok (ports @ take (nat (n - c)) free)
         else Err (ErrorString ''no ports are free''), w)"
  using dial close
proof (induction ps arbitrary: c ports)
  case (Cons port ps)
  have IH: "scan_ports dial close n ps c ports w =
     (let free = filter (refused d) ps
      in if c < n \<and> n - c \<le> int (length free) then Ok (ports @ take (nat (n - c)) free)
         else Err (ErrorString ''no ports are free''), w)" for c ports
    using Cons by simp
  have d: "dial port w = (d port, w)" "\<And>t. d port \<noteq> Panic t"
    and k: "close port w = (k port, w)" "\<And>t. k port \<noteq> Panic t"
    using Cons.prems by auto
  show ?case
  proof (cases "refused d port")
    case True
    then obtain e where e: "d port = Err e" "\<not> str_contains (error_text e) ''i/o timeout''"
      by (auto simp: refused_def split: res.splits)
    have "nat (n - c) = Suc (nat (n - (c + 1)))" if "c < n" using that by simp
    with True e d show ?thesis
      by (auto simp: io_simps IH Let_def)
  next
    case False
    then show ?thesis using d k
      by (cases "d port"; cases "k port") (auto simp: io_simps IH refused_def [of d port])
  qed
qed (simp add: io_simps)

lemma sorted_wrt_subseq: "subseq xs ys \<Longrightarrow> sorted_wrt P ys \<Longrightarrow> sorted_wrt P xs"
  by (induction rule: list_emb.induct) (auto dest: list_emb_set)

lemma node_ports_props: "sorted_wrt (<) node_ports" "set node_ports = {30000..32767}"
  unfolding node_ports_def by (rule sorted_wrt_upto, rule set_upto)

lemma subseq_node_ports: "subseq xs node_ports \<Longrightarrow> sorted_wrt (<) xs \<and> set xs \<subseteq> {30000..32767}"
  using sorted_wrt_subseq [of xs node_ports "(<)"] node_ports_props by (auto dest: list_emb_set)

text \<open>
  \<open>GetFreeNodeports\<close> never returns anything but \<open>n\<close> different ports of the node port range
  30000 to 32767, in increasing order, whatever the network answers; and while the answers are
  stable it returns exactly the first \<open>n\<close> ports whose connection is refused, and fails exactly when
  fewer than \<open>n\<close> are refused or \<open>n\<close> is not positive.  A port that times out is never returned.
\<close>
theorem GetFreeNodeports_correct:
  assumes "\<And>port. port \<in> {30000..32767} \<Longrightarrow> dial port w = (d port, w) \<and> (\<forall>t. d port \<noteq> Panic t)"
    and "\<And>port. port \<in> {30000..32767} \<Longrightarrow> close port w = (k port, w) \<and> (\<forall>t. k port \<noteq> Panic t)"
  shows "GetFreeNodeports dial close n w =
      (if 0 < n \<and> n \<le> int (length (filter (refused d) node_ports))
       then Ok (take (nat n) (filter (refused d) node_ports))
       else Err (ErrorString ''no ports are free''), w)
    \<and> (\<forall>dial' close' w1 w2 ports. GetFreeNodeports dial' close' n w1 = (Ok ports, w2) \<longrightarrow>
         int (length ports) = n \<and> 0 < n \<and> sorted_wrt (<) ports \<and> set ports \<subseteq> {30000..32767})"
proof (intro conjI allI impI)
  show "GetFreeNodeports dial close n w =
      (if 0 < n \<and> n \<le> int (length (filter (refused d) node_ports))
       then Ok (take (nat n) (filter (refused d) node_ports))
       else Err (ErrorString ''no ports are free''), w)"
    using scan_ports_stable [of node_ports dial w d close k n 0 "[]"] assms
    unfolding GetFreeNodeports_def node_ports_props Let_def by simp
next
  fix dial' close' :: "int \<Rightarrow> ('z, unit) io" and w1 w2 ports
  assume "GetFreeNodeports dial' close' n w1 = (Ok ports, w2)"
  from scan_ports_Ok [OF this [unfolded GetFreeNodeports_def]]
  obtain new where n: "ports = [] @ new" "subseq new node_ports" "int (length new) = n - 0" "new \<noteq> []"
    by blast
  then show "int (length ports) = n" "0 < n" "sorted_wrt (<) ports" "set ports \<subseteq> {30000..32767}"
    using subseq_node_ports [of new] by (cases new; simp)+
qed

lemma node_ports_unfold: "node_ports = 30000 # 30001 # [30002..32767]"
proof -
  have "[30000..32767] = 30000 # [30001..(32767::int)]" and "[30001..32767] = 30001 # [30002..(32767::int)]"
    by (subst upto.simps, simp del: upto_rec_numeral)+
  then show ?thesis unfolding node_ports_def by (simp only:)
qed

theorem GetFreeNodeports_correct_witness:
  "GetFreeNodeports (\<lambda>port w. (if port = 30000 then Ok () else Err (ErrorString ''refused''), w))
     (\<lambda>port w. (Ok (), w)) 1 (5::nat) = (Ok [30001], 5)"
proof -
  let ?d = "\<lambda>port. if port = (30000::int) then Ok () else Err (ErrorString ''refused'')"
  have "refused ?d 30001" and "\<not> refused ?d 30000"
    by (simp_all add: refused_def has_prefix_def)
  then obtain rest where f: "filter (refused ?d) node_ports = 30001 # rest"
    unfolding node_ports_unfold by (simp del: upto_rec_numeral)
  have "GetFreeNodeports (\<lambda>port w. (?d port, w)) (\<lambda>port w. (Ok (), w)) 1 5 =
      (if (0::int) < 1 \<and> 1 \<le> int (length (filter (refused ?d) node_ports))
       then Ok (take (nat 1) (filter (refused ?d) node_ports))
       else Err (ErrorString ''no ports are free''), 5::nat)"
    by (rule GetFreeNodeports_correct [where k = "\<lambda>_. Ok ()", THEN conjunct1]) auto
  then show ?thesis unfolding f by simp
qed

text \<open>
  The public address is the first external address of the nodes in the order the API lists
  them, or the first internal one when there is no external address at all, or the empty string;
  the plural function gives all addresses of that kind, the singular one is its head, and a failing
  node list is passed on by both.
\<close>
theorem GetPublicIP_correct:
  "(\<forall>nodes w'. list_nodes w = (Ok nodes, w') \<longrightarrow>
      (let addrs = concat nodes;
           ext = map snd (filter (\<lambda>a. fst a = NodeExternalIP) addrs);
           inn = map snd (filter (\<lambda>a. fst a = NodeInternalIP) addrs);
           chosen = (if ext = [] then inn else ext)
       in GetPublicIPsKubernetes list_nodes w = (Ok chosen, w')
        \<and> GetPublicIPKubernetes list_nodes w = (Ok (if chosen = [] then [] else hd chosen), w')))
   \<and> (\<forall>e w'. list_nodes w = (Err e, w') \<longrightarrow>
        GetPublicIPsKubernetes list_nodes w = (Err e, w') \<and> GetPublicIPKubernetes list_nodes w = (Err e, w'))"
  by (simp add: GetPublicIPsKubernetes_def GetPublicIPKubernetes_def io_simps collect_addresses_eq Let_def
      split: list.split)

theorem GetPublicIP_correct_witness:
  "GetPublicIPKubernetes (\<lambda>w. (Ok [[(NodeInternalIP, ''10.0.0.1''), (NodeHostName, ''n1'')], [(NodeExternalIP, ''1.2.3.4'')]], w)) (0::nat)
     = (Ok ''1.2.3.4'', 0)"
  using GetPublicIP_correct [of "\<lambda>w. (Ok [[(NodeInternalIP, ''10.0.0.1''), (NodeHostName, ''n1'')],
      [(NodeExternalIP, ''1.2.3.4'')]], w)" "0::nat"]
  by (simp add: Let_def)

end
