(* ===== verification/Cluster_Lookup.thy ===== *)
theory Cluster_Lookup imports Cluster_Utils "HOL-Library.AList" "HOL-Library.Multiset" begin

text \<open>
  The lookups of \<open>kubectl-hlf/cmd/helpers/hlf.go\<close>, which the channel controllers and the command line
  share: the public and private addresses of certificate authorities, ordering nodes and peers, the
  listing of these resources with their addresses, and the searches by name, by full name and by
  URL.  The Kubernetes and operator clients are the parameter \<open>cluster\<close>.
\<close>

section \<open>Resources\<close>

record FabricIstio =
  istio_Port :: int
  istio_Hosts :: "string list"

record FabricTraefik =
  traefik_Hosts :: "string list"

record FabricGatewayApi =
  gateway_Port :: int
  gateway_Hosts :: "string list"

text \<open>The fields the lookups read, of the metadata, the specification and the status.\<close>

record FabricCA =
  ca_Name :: string
  ca_Namespace :: string
  ca_Hosts :: "string list"
  ca_Istio :: "FabricIstio option"
  ca_GatewayApi :: "FabricGatewayApi option"
  ca_Traefik :: "FabricTraefik option"
  ca_Identities :: "(string \<times> string) list"
  ca_NodePort :: int
  CACert :: string
  TLSCACert :: string
  ca_TlsCert :: string

record FabricOrdererNode =
  node_Name :: string
  node_Namespace :: string
  node_MspID :: string
  node_Istio :: "FabricIstio option"
  node_Traefik :: "FabricTraefik option"
  node_GatewayApi :: "FabricGatewayApi option"
  AdminIstio :: "FabricIstio option"
  AdminTraefik :: "FabricTraefik option"
  AdminPort :: int
  node_NodePort :: int
  node_TlsCert :: string
  node_TLSCACert :: string
  node_TlsAdminCert :: string

record FabricOrderingService =
  service_Name :: string
  service_Namespace :: string
  service_MspID :: string

record FabricPeer =
  peer_Name :: string
  peer_Namespace :: string
  peer_MspID :: string
  peer_Istio :: "FabricIstio option"
  peer_Traefik :: "FabricTraefik option"
  peer_GatewayApi :: "FabricGatewayApi option"
  peer_NodePort :: int
  peer_TLSCACert :: string
  peer_Replicas :: int

text \<open>
  The calls of the clients.  The namespace \<open>[]\<close> lists every namespace; the second argument of
  \<open>list_orderer_nodes\<close> is a label selector.
\<close>

record 'w cluster =
  list_nodes :: "('w, node_addresses list) io"
  list_cas :: "string \<Rightarrow> ('w, FabricCA list) io"
  list_orderer_nodes :: "string \<Rightarrow> string option \<Rightarrow> ('w, FabricOrdererNode list) io"
  list_ordering_services :: "string \<Rightarrow> ('w, FabricOrderingService list) io"
  list_peers :: "string \<Rightarrow> ('w, FabricPeer list) io"
  GetKubeClient :: "('w, unit) io"

section \<open>Addresses\<close>

text \<open>The first host of a route, when the route is configured and has one.\<close>

fun istio_route :: "FabricIstio option \<Rightarrow> (string \<times> int) option" where
  "istio_route None = None"
| "istio_route (Some i) = (case istio_Hosts i of [] \<Rightarrow> None | h # _ \<Rightarrow> Some (h, istio_Port i))"

fun traefik_route :: "FabricTraefik option \<Rightarrow> (string \<times> int) option" where
  "traefik_route None = None"
| "traefik_route (Some t) = (case traefik_Hosts t of [] \<Rightarrow> None | h # _ \<Rightarrow> Some (h, 443))"

fun gateway_route :: "FabricGatewayApi option \<Rightarrow> (string \<times> int) option" where
  "gateway_route None = None"
| "gateway_route (Some g) = (case gateway_Hosts g of [] \<Rightarrow> None | h # _ \<Rightarrow> Some (h, gateway_Port g))"

text \<open>The last resort of every function: an address of some node, and the node port.\<close>

definition node_host_port :: "'w cluster \<Rightarrow> int \<Rightarrow> ('w, string \<times> int) io" where
  "node_host_port K port = io_bind (GetPublicIPKubernetes (list_nodes K)) (\<lambda>k8sIP. io_return (k8sIP, port))"

definition GetOrdererHostAndPort :: "'w cluster \<Rightarrow> FabricOrdererNode \<Rightarrow> ('w, string \<times> int) io" where
  "GetOrdererHostAndPort K node = (case istio_route (node_Istio node) of
       Some hp \<Rightarrow> io_return hp
     | None \<Rightarrow> (case traefik_route (node_Traefik node) of
         Some hp \<Rightarrow> io_return hp
       | None \<Rightarrow> node_host_port K (node_NodePort node)))"

definition GetOrdererAdminHostAndPort :: "'w cluster \<Rightarrow> FabricOrdererNode \<Rightarrow> ('w, string \<times> int) io" where
  "GetOrdererAdminHostAndPort K node = (case istio_route (AdminIstio node) of
       Some hp \<Rightarrow> io_return hp
     | None \<Rightarrow> (case traefik_route (AdminTraefik node) of
         Some hp \<Rightarrow> io_return hp
       | None \<Rightarrow> node_host_port K (AdminPort node)))"

text \<open>This one asks for the node address first and reads \<open>Istio.Hosts\<close> without a check for nil.\<close>

definition GetPeerHostAndPort :: "'w cluster \<Rightarrow> FabricPeer \<Rightarrow> ('w, string \<times> int) io" where
  "GetPeerHostAndPort K peer =
     io_bind (GetPublicIPKubernetes (list_nodes K)) (\<lambda>hostName.
       case peer_Istio peer of
         None \<Rightarrow> io_panic ''nil pointer dereference''
       | Some i \<Rightarrow> (case istio_Hosts i of
            [] \<Rightarrow> io_return (hostName, peer_NodePort peer)
          | h # _ \<Rightarrow> io_return (h, istio_Port i)))"

definition GetPeerHostPort :: "'w cluster \<Rightarrow> FabricPeer \<Rightarrow> ('w, string \<times> int) io" where
  "GetPeerHostPort K node = (case istio_route (peer_Istio node) of
       Some hp \<Rightarrow> io_return hp
     | None \<Rightarrow> (case traefik_route (peer_Traefik node) of
         Some hp \<Rightarrow> io_return hp
       | None \<Rightarrow> (case gateway_route (peer_GatewayApi node) of
           Some hp \<Rightarrow> io_return hp
         | None \<Rightarrow> node_host_port K (peer_NodePort node))))"

definition GetOrdererHostPort :: "'w cluster \<Rightarrow> FabricOrdererNode \<Rightarrow> ('w, string \<times> int) io" where
  "GetOrdererHostPort K node = (case istio_route (node_Istio node) of
       Some hp \<Rightarrow> io_return hp
     | None \<Rightarrow> (case traefik_route (node_Traefik node) of
         Some hp \<Rightarrow> io_return hp
       | None \<Rightarrow> (case gateway_route (node_GatewayApi node) of
           Some hp \<Rightarrow> io_return hp
         | None \<Rightarrow> node_host_port K (node_NodePort node))))"

definition GetCAHostPort :: "'w cluster \<Rightarrow> FabricCA \<Rightarrow> ('w, string \<times> int) io" where
  "GetCAHostPort K node = (case istio_route (ca_Istio node) of
       Some hp \<Rightarrow> io_return hp
     | None \<Rightarrow> (case gateway_route (ca_GatewayApi node) of
         Some hp \<Rightarrow> io_return hp
       | None \<Rightarrow> (case traefik_route (ca_Traefik node) of
           Some hp \<Rightarrow> io_return hp
         | None \<Rightarrow> node_host_port K (ca_NodePort node))))"

text \<open>\<open>%s:%d\<close>.\<close>

definition host_port :: "string \<times> int \<Rightarrow> string" where
  "host_port hp = fst hp @ '':'' @ itoa (snd hp)"

definition GetOrdererPublicURL :: "'w cluster \<Rightarrow> FabricOrdererNode \<Rightarrow> ('w, string) io" where
  "GetOrdererPublicURL K node = io_bind (GetOrdererHostPort K node) (\<lambda>hp. io_return (host_port hp))"

definition GetAdminOrdererPublicURL :: "'w cluster \<Rightarrow> FabricOrdererNode \<Rightarrow> ('w, string) io" where
  "GetAdminOrdererPublicURL K node =
     io_bind (GetOrdererAdminHostAndPort K node) (\<lambda>hp. io_return (''https://'' @ host_port hp))"

definition GetCAPublicURL :: "'w cluster \<Rightarrow> FabricCA \<Rightarrow> ('w, string) io" where
  "GetCAPublicURL K node = io_bind (GetCAHostPort K node) (\<lambda>hp. io_return (host_port hp))"

definition GetPeerPublicURL :: "'w cluster \<Rightarrow> FabricPeer \<Rightarrow> ('w, string) io" where
  "GetPeerPublicURL K node = io_bind (GetPeerHostPort K node) (\<lambda>hp. io_return (host_port hp))"

text \<open>Names and addresses inside the cluster.\<close>

definition full_name :: "string \<Rightarrow> string \<Rightarrow> string" where
  "full_name name ns = name @ ''.'' @ ns"

definition FabricOrdererNode_FullName :: "FabricOrdererNode \<Rightarrow> string" where
  "FabricOrdererNode_FullName n = full_name (node_Name n) (node_Namespace n)"

definition FabricPeer_FullName :: "FabricPeer \<Rightarrow> string" where
  "FabricPeer_FullName n = full_name (peer_Name n) (peer_Namespace n)"

definition FabricOrderingService_FullName :: "FabricOrderingService \<Rightarrow> string" where
  "FabricOrderingService_FullName n = full_name (service_Name n) (service_Namespace n)"

definition GetOrdererPrivateURL :: "FabricOrdererNode \<Rightarrow> string" where
  "GetOrdererPrivateURL node = full_name (node_Name node) (node_Namespace node) @ '':7050''"

definition GetCAPrivateURL :: "FabricCA \<Rightarrow> string" where
  "GetCAPrivateURL node = full_name (ca_Name node) (ca_Namespace node) @ '':7054''"

definition GetPeerPrivateURL :: "FabricPeer \<Rightarrow> string" where
  "GetPeerPrivateURL node = full_name (peer_Name node) (peer_Namespace node) @ '':7051''"

section \<open>Listings\<close>

text \<open>The listed resources carry the object itself, so specification and status are read there.\<close>

record ClusterCA =
  CA_Object :: FabricCA
  CA_FullName :: string
  CA_PublicURL :: string
  CA_PrivateURL :: string
  EnrollID :: string
  EnrollPWD :: string

record ClusterOrdererNode =
  Node_Object :: FabricOrdererNode
  Node_FullName :: string
  Node_PublicURL :: string
  Node_PrivateURL :: string
  AdminURL :: string

record ClusterPeer =
  Peer_Object :: FabricPeer
  Peer_FullName :: string
  Peer_PublicURL :: string
  Peer_PrivateURL :: string
  MSPID :: string

record ClusterOrderingService =
  Service_Name :: string
  Service_MSPID :: string
  Orderers :: "ClusterOrdererNode list"

datatype OrganizationType = PeerType | OrdererType

record Organization =
  Org_Type :: OrganizationType
  MspID :: string
  OrdererNodes :: "ClusterOrdererNode list"
  Peers :: "ClusterPeer list"

definition MapClusterCA :: "'w cluster \<Rightarrow> FabricCA \<Rightarrow> ('w, ClusterCA) io" where
  "MapClusterCA K certAuth = io_bind (GetCAPublicURL K certAuth) (\<lambda>publicURL.
     let enroll = (case ca_Identities certAuth of [] \<Rightarrow> ([], []) | i # _ \<Rightarrow> i)
     in io_return \<lparr>CA_Object = certAuth, CA_FullName = full_name (ca_Name certAuth) (ca_Namespace certAuth),
          CA_PublicURL = publicURL, CA_PrivateURL = GetCAPrivateURL certAuth,
          EnrollID = fst enroll, EnrollPWD = snd enroll\<rparr>)"

definition GetFullName :: "ClusterCA \<Rightarrow> string" where
  "GetFullName c = full_name (ca_Name (CA_Object c)) (ca_Namespace (CA_Object c))"

definition MapClusterPeer :: "'w cluster \<Rightarrow> FabricPeer \<Rightarrow> ('w, ClusterPeer) io" where
  "MapClusterPeer K peer = io_bind (GetPeerPublicURL K peer) (\<lambda>publicURL.
     io_return \<lparr>Peer_Object = peer, Peer_FullName = FabricPeer_FullName peer, Peer_PublicURL = publicURL,
       Peer_PrivateURL = GetPeerPrivateURL peer, MSPID = peer_MspID peer\<rparr>)"

definition MapClusterOrdererNode :: "'w cluster \<Rightarrow> FabricOrdererNode \<Rightarrow> ('w, ClusterOrdererNode) io" where
  "MapClusterOrdererNode K ordNode = io_bind (GetOrdererPublicURL K ordNode) (\<lambda>publicURL.
     io_bind (GetAdminOrdererPublicURL K ordNode) (\<lambda>adminPublicURL.
       io_return \<lparr>Node_Object = ordNode, Node_FullName = FabricOrdererNode_FullName ordNode,
         Node_PublicURL = publicURL, Node_PrivateURL = GetOrdererPrivateURL ordNode,
         AdminURL = adminPublicURL\<rparr>))"

definition GetClusterCAs :: "'w cluster \<Rightarrow> string \<Rightarrow> ('w, ClusterCA list) io" where
  "GetClusterCAs K ns = io_bind (list_cas K ns) (io_map (MapClusterCA K))"

definition GetClusterOrdererNodes :: "'w cluster \<Rightarrow> string \<Rightarrow> ('w, ClusterOrdererNode list) io" where
  "GetClusterOrdererNodes K ns = io_bind (list_orderer_nodes K ns None) (io_map (MapClusterOrdererNode K))"

text \<open>A node listed under its ordering service comes without addresses.\<close>

definition bare_node :: "FabricOrdererNode \<Rightarrow> ClusterOrdererNode" where
  "bare_node n = \<lparr>Node_Object = n, Node_FullName = FabricOrdererNode_FullName n, Node_PublicURL = [],
     Node_PrivateURL = [], AdminURL = []\<rparr>"

text \<open>
  \<open>GetClusterOrderers\<close>: all nodes as one service named after the first, then one entry per
  \<open>FabricOrderingService\<close> with the nodes of its release; one organization per entry.
\<close>

definition GetClusterOrderers ::
  "'w cluster \<Rightarrow> string \<Rightarrow> ('w, Organization list \<times> ClusterOrderingService list) io" where
  "GetClusterOrderers K ns =
     io_bind (list_orderer_nodes K ns None) (\<lambda>ordererNodes.
     io_bind (list_ordering_services K ns) (\<lambda>orderingServices.
     io_bind (case ordererNodes of
         [] \<Rightarrow> io_return []
       | n # _ \<Rightarrow> io_bind (io_map (MapClusterOrdererNode K) ordererNodes) (\<lambda>nodes.
           io_return [\<lparr>Service_Name = FabricOrdererNode_FullName n, Service_MSPID = node_MspID n,
             Orderers = nodes\<rparr>]))
       (\<lambda>orderers.
     io_bind (io_map (\<lambda>s. io_bind (list_orderer_nodes K ns (Some (''release='' @ service_Name s)))
         (\<lambda>nodes. io_return \<lparr>Service_Name = FabricOrderingService_FullName s,
            Service_MSPID = service_MspID s, Orderers = map bare_node nodes\<rparr>)) orderingServices)
       (\<lambda>services.
     let orderers = orderers @ services
     in io_return (map (\<lambda>ord. \<lparr>Org_Type = OrdererType, MspID = Service_MSPID ord, OrdererNodes = [],
          Peers = []\<rparr>) orderers, orderers)))))"

text \<open>
  \<open>GetClusterPeers\<close> groups the peers by MSP in a Go map, then ranges over it.  \<open>order\<close> is the order
  in which this run of the program yields the keys of a map.
\<close>

definition group_peer :: "ClusterPeer \<Rightarrow> (string \<times> Organization) list \<Rightarrow> (string \<times> Organization) list" where
  "group_peer peer orgMap =
     (let mspID = peer_MspID (Peer_Object peer);
          org = (case map_of orgMap mspID of
              Some org \<Rightarrow> org
            | None \<Rightarrow> \<lparr>Org_Type = PeerType, MspID = mspID, OrdererNodes = [], Peers = []\<rparr>)
      in AList.update mspID (org\<lparr>Peers := Peers org @ [peer]\<rparr>) orgMap)"

definition group_peers :: "ClusterPeer list \<Rightarrow> (string \<times> Organization) list" where
  "group_peers peers = fold group_peer peers []"

definition GetClusterPeers ::
  "'w cluster \<Rightarrow> (string list \<Rightarrow> string list) \<Rightarrow> string
   \<Rightarrow> ('w, Organization list \<times> ClusterPeer list) io" where
  "GetClusterPeers K order ns =
     io_bind (list_peers K ns) (\<lambda>items.
     io_bind (io_map (MapClusterPeer K) items) (\<lambda>peers.
       let orgMap = group_peers peers
       in io_return (map (the \<circ> map_of orgMap) (order (map fst orgMap)), peers)))"

section \<open>Searches\<close>

text \<open>The first of a list with a property, or an error.\<close>

definition search :: "('a \<Rightarrow> bool) \<Rightarrow> go_error \<Rightarrow> 'a list \<Rightarrow> ('w, 'a) io" where
  "search p err xs = (case find p xs of Some x \<Rightarrow> io_return x | None \<Rightarrow> io_throw err)"

definition not_found :: "string \<Rightarrow> string \<Rightarrow> go_error" where
  "not_found what name = ErrorString (what @ '' with name='' @ name @ '' not found'')"

definition GetCertAuthByName :: "'w cluster \<Rightarrow> string \<Rightarrow> string \<Rightarrow> ('w, ClusterCA) io" where
  "GetCertAuthByName K name ns = io_bind (GetClusterCAs K [])
     (search (\<lambda>c. ca_Name (CA_Object c) = name \<and> ca_Namespace (CA_Object c) = ns)
        (not_found ''CA'' name))"

definition GetCertAuthByFullName :: "'w cluster \<Rightarrow> string \<Rightarrow> ('w, ClusterCA) io" where
  "GetCertAuthByFullName K name = io_bind (GetClusterCAs K [])
     (search (\<lambda>c. CA_FullName c = name) (not_found ''CA'' name))"

definition GetOrdererNodeByFullName :: "'w cluster \<Rightarrow> string \<Rightarrow> ('w, ClusterOrdererNode) io" where
  "GetOrdererNodeByFullName K name = io_bind (GetClusterOrdererNodes K [])
     (search (\<lambda>n. Node_FullName n = name) (not_found ''Orderer Node'' name))"

definition GetOrderingServiceByFullName :: "'w cluster \<Rightarrow> string \<Rightarrow> ('w, ClusterOrderingService) io" where
  "GetOrderingServiceByFullName K name = io_bind (GetClusterOrderers K [])
     (\<lambda>(_, services). search (\<lambda>s. Service_Name s = name)
        (not_found ''Ordering Service'' name) services)"

definition GetPeerByFullName ::
  "'w cluster \<Rightarrow> (string list \<Rightarrow> string list) \<Rightarrow> string \<Rightarrow> ('w, ClusterPeer) io" where
  "GetPeerByFullName K order name = io_bind (GetClusterPeers K order [])
     (\<lambda>(_, peers). search (\<lambda>p. Peer_FullName p = name) (not_found ''Peer'' name) peers)"

text \<open>\<open>strings.Split(s, ".")\<close>.\<close>

fun split_dots :: "string \<Rightarrow> string list" where
  "split_dots [] = [[]]"
| "split_dots (c # cs) = (if c = CHR ''.'' then [] # split_dots cs
     else (case split_dots cs of [] \<Rightarrow> [[c]] | x # xs \<Rightarrow> (c # x) # xs))"

definition GetCertAuthByURL :: "'w cluster \<Rightarrow> string \<Rightarrow> int \<Rightarrow> ('w, ClusterCA) io" where
  "GetCertAuthByURL K host port =
     (let (cahost, ns) = (case split_dots host of [h, n] \<Rightarrow> (h, n) | _ \<Rightarrow> (host, []))
      in io_bind (GetClusterCAs K ns)
        (search (\<lambda>c. let ca = CA_Object c in Contains (ca_Hosts ca) host \<or> ca_Name ca = cahost
             \<or> (ca_NodePort ca \<noteq> 7054 \<and> ca_NodePort ca = port))
           (ErrorString (''CA with host='' @ host @ '' port='' @ itoa port @ '' not found''))))"

definition GetURLForCA :: "'w cluster \<Rightarrow> ClusterCA \<Rightarrow> ('w, string) io" where
  "GetURLForCA K certAuth = (let ca = CA_Object certAuth in
     io_bind (case istio_route (ca_Istio ca) of
         Some hp \<Rightarrow> io_return hp
       | None \<Rightarrow> (case gateway_route (ca_GatewayApi ca) of
           Some hp \<Rightarrow> io_return hp
         | None \<Rightarrow> (case traefik_route (ca_Traefik ca) of
             Some hp \<Rightarrow> io_return hp
           | None \<Rightarrow> io_bind (GetKubeClient K) (\<lambda>_. node_host_port K (ca_NodePort ca)))))
       (\<lambda>hp. io_return (''https://'' @ host_port hp)))"


section \<open>Lemmas\<close>

lemma io_map_Ok:
  assumes "io_map f xs w = (Ok ys, w')"
  shows "list_all2 (\<lambda>x y. \<exists>v v'. f x v = (Ok y, v')) xs ys"
  using assms
proof (induction xs arbitrary: w ys)
  case (Cons x xs)
  then obtain y v zs where y: "f x w = (Ok y, v)" and zs: "io_map f xs v = (Ok zs, w')" and "ys = y # zs"
    by (auto simp: io_bind_Ok_iff io_return_apply)
  with Cons.IH [OF zs] show ?case by auto
qed (simp add: io_simps)

lemma list_all2_in_set:
  assumes "list_all2 R xs ys" and "y \<in> set ys"
  shows "\<exists>x \<in> set xs. R x y"
  using assms by (induction rule: list_all2_induct) auto

lemma find_list_all2:
  assumes "list_all2 R xs ys" and "\<And>x y. R x y \<Longrightarrow> q y = p x"
  shows "(case find p xs of
      Some x \<Rightarrow> \<exists>y. find q ys = Some y \<and> R x y
    | None \<Rightarrow> find q ys = None)"
  using assms(1)
proof (induction rule: list_all2_induct)
  case (Cons x xs y ys)
  then show ?case using assms(2) [OF Cons(1)] by (cases "p x") (auto split: option.splits)
qed simp

lemma MapClusterCA_Ok:
  "MapClusterCA K ca w = (Ok c, w') \<Longrightarrow> CA_Object c = ca \<and> CA_FullName c = full_name (ca_Name ca) (ca_Namespace ca)"
  by (auto simp: MapClusterCA_def io_bind_Ok_iff io_return_apply Let_def)

lemma MapClusterPeer_Ok:
  "MapClusterPeer K p w = (Ok c, w') \<Longrightarrow> Peer_Object c = p \<and> MSPID c = peer_MspID p"
  by (auto simp: MapClusterPeer_def io_bind_Ok_iff io_return_apply)

text \<open>Both searches among the certificate authorities are searches in the listed objects.\<close>

lemma search_mapped_cas:
  assumes "io_map (MapClusterCA K) cas w = (Ok cs, w')" and "\<And>c. q c = p (CA_Object c)"
  shows "case find p cas of
      Some ca \<Rightarrow> \<exists>c v v'. search q msg cs w' = (Ok c, w') \<and> CA_Object c = ca \<and> MapClusterCA K ca v = (Ok c, v')
    | None \<Rightarrow> search q msg cs w' = (Err msg, w')"
proof -
  have "list_all2 (\<lambda>ca c. \<exists>v v'. MapClusterCA K ca v = (Ok c, v')) cas cs"
    using assms(1) by (rule io_map_Ok)
  then have found: "case find p cas of
      Some ca \<Rightarrow> \<exists>c. find q cs = Some c \<and> (\<exists>v v'. MapClusterCA K ca v = (Ok c, v'))
    | None \<Rightarrow> find q cs = None"
    by (rule find_list_all2) (auto dest: MapClusterCA_Ok simp: assms(2))
  show ?thesis
  proof (cases "find p cas")
    case (Some ca)
    with found obtain c v v'
      where "find q cs = Some c" "MapClusterCA K ca v = (Ok c, v')" by auto
    moreover from this have "CA_Object c = ca" by (simp add: MapClusterCA_Ok)
    ultimately show ?thesis using Some by (auto simp: search_def io_return_apply)
  qed (use found in \<open>simp add: search_def io_throw_apply\<close>)
qed

text \<open>The map of organizations: its keys and what each organization holds.\<close>

lemma group_peers_snoc: "group_peers (ps @ [p]) = group_peer p (group_peers ps)"
  by (simp add: group_peers_def)

abbreviation peer_msp :: "ClusterPeer \<Rightarrow> string" where
  "peer_msp p \<equiv> peer_MspID (Peer_Object p)"

definition peer_org :: "ClusterPeer list \<Rightarrow> string \<Rightarrow> Organization" where
  "peer_org ps m = \<lparr>Org_Type = PeerType, MspID = m, OrdererNodes = [],
     Peers = filter (\<lambda>p. peer_msp p = m) ps\<rparr>"

lemma map_of_group_peers:
  "map_of (group_peers ps) m = (if m \<in> set (map peer_msp ps) then Some (peer_org ps m) else None)"
proof (induction ps arbitrary: m rule: rev_induct)
  case Nil
  show ?case by (simp add: group_peers_def)
next
  case (snoc p ps)
  have none: "peer_msp p \<notin> set (map peer_msp ps) \<Longrightarrow> filter (\<lambda>q. peer_msp q = peer_msp p) ps = []"
    unfolding filter_empty_conv by (metis image_eqI set_map)
  have upd: "map_of (group_peers (ps @ [p])) =
      (map_of (group_peers ps))(peer_msp p \<mapsto> peer_org (ps @ [p]) (peer_msp p))"
    using none by (auto simp: group_peers_snoc group_peer_def Let_def update_conv' snoc.IH peer_org_def)
  show ?case
  proof (cases "m = peer_msp p")
    case False
    then show ?thesis by (simp add: upd snoc peer_org_def)
  qed (simp add: upd)
qed

lemma distinct_group_peers: "distinct (map fst (group_peers ps))"
proof (induction ps rule: rev_induct)
  case (snoc p ps)
  then show ?case by (simp add: group_peers_snoc group_peer_def Let_def distinct_update del: distinct_map)
qed (simp add: group_peers_def)

lemma keys_group_peers: "set (map fst (group_peers ps)) = peer_msp ` set ps"
proof -
  have "set (map fst (group_peers ps)) = dom (map_of (group_peers ps))" by (simp add: dom_map_of_conv_image_fst)
  also have "\<dots> = peer_msp ` set ps" by (auto simp: map_of_group_peers split: if_splits)
  finally show ?thesis .
qed


text \<open>A namespace has no dot, so the last dot of a full name separates name and namespace.\<close>

lemma full_name_eq_iff:
  assumes "CHR ''.'' \<notin> set ns" and "CHR ''.'' \<notin> set ns'"
  shows "full_name n ns = full_name n' ns' \<longleftrightarrow> n = n' \<and> ns = ns'"
proof -
  have suffix: "takeWhile (\<lambda>c. c \<noteq> CHR ''.'') (rev (full_name n ns)) = rev ns"
    if "CHR ''.'' \<notin> set ns" for n ns
  proof -
    have "takeWhile (\<lambda>c. c \<noteq> CHR ''.'') (rev ns @ CHR ''.'' # rev n) = rev ns"
      using that by (subst takeWhile_append2) auto
    then show ?thesis by (simp add: full_name_def)
  qed
  show ?thesis
  proof
    assume eq: "full_name n ns = full_name n' ns'"
    then have "rev ns = rev ns'"
      using suffix [OF assms(1), of n] suffix [OF assms(2), of n'] by simp
    with eq show "n = n' \<and> ns = ns'" by (simp add: full_name_def)
  qed simp
qed

section \<open>Properties\<close>

text \<open>
  Searching a certificate authority by name and namespace.  When the listing succeeds with the
  objects \<open>cas\<close>, the search returns the first of them with that name and namespace, and fails with
  ``not found'' if there is none; but it needs the public address of every listed authority first: an
  authority whose address cannot be determined, whatever its name, makes every search fail with
  that error.
\<close>
theorem GetCertAuthByName_correct:
  assumes "list_cas K [] w = (Ok cas, w1)"
  shows "case io_map (MapClusterCA K) cas w1 of
      (Ok cs, w2) \<Rightarrow> (case find (\<lambda>ca. ca_Name ca = name \<and> ca_Namespace ca = ns) cas of
          Some ca \<Rightarrow> \<exists>c v v'. GetCertAuthByName K name ns w = (Ok c, w2) \<and> CA_Object c = ca
             \<and> MapClusterCA K ca v = (Ok c, v')
        | None \<Rightarrow> GetCertAuthByName K name ns w =
             (Err (not_found ''CA'' name), w2))
    | (Err e, w2) \<Rightarrow> GetCertAuthByName K name ns w = (Err e, w2)
    | (Panic p, w2) \<Rightarrow> GetCertAuthByName K name ns w = (Panic p, w2)"
proof -
  obtain r w2 where m: "io_map (MapClusterCA K) cas w1 = (r, w2)" by fastforce
  have run: "GetCertAuthByName K name ns w = (case r of
      Ok cs \<Rightarrow> search (\<lambda>c. ca_Name (CA_Object c) = name \<and> ca_Namespace (CA_Object c) = ns)
        (not_found ''CA'' name) cs w2
    | Err e \<Rightarrow> (Err e, w2) | Panic p \<Rightarrow> (Panic p, w2))"
    by (simp add: GetCertAuthByName_def GetClusterCAs_def io_bind_apply assms m)
  show ?thesis
  proof (cases r)
    case (Ok cs)
    then show ?thesis unfolding m run Ok prod.case res.case
      using search_mapped_cas [OF m [unfolded Ok], of "\<lambda>c. ca_Name (CA_Object c) = name \<and> ca_Namespace (CA_Object c) = ns"
          "\<lambda>ca. ca_Name ca = name \<and> ca_Namespace ca = ns"] by blast
  qed (simp_all add: m run)
qed

definition ca_one :: FabricCA where
  "ca_one = \<lparr>ca_Name = ''org1-ca'', ca_Namespace = ''default'', ca_Hosts = [],
     ca_Istio = Some \<lparr>istio_Port = 443, istio_Hosts = [''ca.org1'']\<rparr>, ca_GatewayApi = None, ca_Traefik = None,
     ca_Identities = [(''enroll'', ''enrollpw'')], ca_NodePort = 0, CACert = ''sign'', TLSCACert = ''tls'', ca_TlsCert = ''catls''\<rparr>"

definition ca_lost :: FabricCA where
  "ca_lost = ca_one\<lparr>ca_Name := ''org2-ca'', ca_Istio := None\<rparr>"

definition cluster_of :: "FabricCA list \<Rightarrow> FabricPeer list \<Rightarrow> 'w cluster" where
  "cluster_of cas peers = \<lparr>list_nodes = io_throw (ErrorString ''forbidden''), list_cas = (\<lambda>_. io_return cas),
     list_orderer_nodes = (\<lambda>_ _. io_return []), list_ordering_services = (\<lambda>_. io_return []),
     list_peers = (\<lambda>_. io_return peers), GetKubeClient = io_return ()\<rparr>"

theorem GetCertAuthByName_correct_witness:
  "(\<exists>c. GetCertAuthByName (cluster_of [ca_one] []) ''org1-ca'' ''default'' () = (Ok c, ()) \<and> CA_Object c = ca_one)
   \<and> (\<exists>e. GetCertAuthByName (cluster_of [ca_one, ca_lost] []) ''org1-ca'' ''default'' () = (Err e, ()))"
proof -
  note defs = cluster_of_def ca_one_def ca_lost_def MapClusterCA_def GetCAPublicURL_def GetCAHostPort_def
    node_host_port_def GetPublicIPKubernetes_def collect_addresses_def io_simps Let_def
  have l: "list_cas (cluster_of cas []) [] () = (Ok cas, ())" for cas by (simp add: defs)
  have lost: "\<exists>e. io_map (MapClusterCA (cluster_of [ca_one, ca_lost] [])) [ca_one, ca_lost] () = (Err e, ())"
    by (simp add: defs)
  have one: "\<exists>c. io_map (MapClusterCA (cluster_of [ca_one] [])) [ca_one] () = (Ok c, ())"
    by (simp add: defs)
  have f: "find (\<lambda>ca. ca_Name ca = ''org1-ca'' \<and> ca_Namespace ca = ''default'') [ca_one] = Some ca_one"
    by (simp add: ca_one_def)
  obtain c e where c: "io_map (MapClusterCA (cluster_of [ca_one] [])) [ca_one] () = (Ok c, ())"
    and e: "io_map (MapClusterCA (cluster_of [ca_one, ca_lost] [])) [ca_one, ca_lost] () = (Err e, ())"
    using one lost by blast
  show ?thesis
    using GetCertAuthByName_correct [OF l, of "[ca_one]" "''org1-ca''" "''default''", unfolded c f]
      GetCertAuthByName_correct [OF l, of "[ca_one, ca_lost]" "''org1-ca''" "''default''", unfolded e]
    unfolding prod.case res.case option.case by blast
qed

text \<open>
  A full name identifies what the pair of name and namespace identifies: since namespaces have no
  dots, the search by \<open>name.namespace\<close> returns the same authority in the same world as the search by
  name and namespace, and fails exactly when that one fails.
\<close>
theorem GetCertAuthByFullName_roundtrip:
  assumes "CHR ''.'' \<notin> set ns"
    and "\<And>cas w1 ca. list_cas K [] w = (Ok cas, w1) \<Longrightarrow> ca \<in> set cas \<Longrightarrow> CHR ''.'' \<notin> set (ca_Namespace ca)"
  shows "case GetCertAuthByName K name ns w of
      (Err e, w2) \<Rightarrow> \<exists>e'. GetCertAuthByFullName K (full_name name ns) w = (Err e', w2)
    | r \<Rightarrow> GetCertAuthByFullName K (full_name name ns) w = r"
proof (cases "GetClusterCAs K [] w")
  case (Pair r w2)
  show ?thesis
  proof (cases r)
    case (Ok cs)
    then obtain cas w1 where cas: "list_cas K [] w = (Ok cas, w1)" and m: "io_map (MapClusterCA K) cas w1 = (Ok cs, w2)"
      using Pair by (auto simp: GetClusterCAs_def io_bind_Ok_iff)
    have "CA_FullName c = full_name (ca_Name (CA_Object c)) (ca_Namespace (CA_Object c))
        \<and> CHR ''.'' \<notin> set (ca_Namespace (CA_Object c))" if "c \<in> set cs" for c
    proof -
      have "\<exists>ca \<in> set cas. \<exists>v v'. MapClusterCA K ca v = (Ok c, v')"
        using io_map_Ok [OF m] that by (rule list_all2_in_set)
      then obtain ca v v' where "ca \<in> set cas" and mapped: "MapClusterCA K ca v = (Ok c, v')" by blast
      then show ?thesis using assms(2) [OF cas] MapClusterCA_Ok [OF mapped] by simp
    qed
    then have "CA_FullName c = full_name name ns \<longleftrightarrow> ca_Name (CA_Object c) = name \<and> ca_Namespace (CA_Object c) = ns"
      if "c \<in> set cs" for c
      using that full_name_eq_iff [OF _ assms(1)] by auto
    then have "find (\<lambda>c. CA_FullName c = full_name name ns) cs
        = find (\<lambda>c. ca_Name (CA_Object c) = name \<and> ca_Namespace (CA_Object c) = ns) cs"
      by (intro find_cong) auto
    then show ?thesis
      by (simp add: GetCertAuthByName_def GetCertAuthByFullName_def io_bind_apply Pair Ok search_def io_simps
          split: option.split)
  qed (simp_all add: GetCertAuthByName_def GetCertAuthByFullName_def io_bind_apply Pair)
qed

theorem GetCertAuthByFullName_roundtrip_witness:
  "\<exists>c. GetCertAuthByFullName (cluster_of [ca_one] []) ''org1-ca.default'' () = (Ok c, ()) \<and> CA_Object c = ca_one"
proof -
  have "\<exists>c. GetCertAuthByName (cluster_of [ca_one] []) ''org1-ca'' ''default'' () = (Ok c, ()) \<and> CA_Object c = ca_one"
    by (simp add: GetCertAuthByName_def GetClusterCAs_def search_def cluster_of_def ca_one_def MapClusterCA_def
        GetCAPublicURL_def GetCAHostPort_def io_simps Let_def)
  then obtain c where c: "GetCertAuthByName (cluster_of [ca_one] []) ''org1-ca'' ''default'' () = (Ok c, ())"
      "CA_Object c = ca_one" by blast
  have h: "CHR ''.'' \<notin> set (ca_Namespace ca)"
    if "list_cas (cluster_of [ca_one] []) [] () = (Ok cas, w1)" "ca \<in> set cas" for cas w1 ca
    using that by (auto simp: cluster_of_def ca_one_def io_simps)
  have "full_name ''org1-ca'' ''default'' = ''org1-ca.default''" by (simp add: full_name_def)
  then show ?thesis
    using GetCertAuthByFullName_roundtrip [where K = "cluster_of [ca_one] []" and w = "()"
        and ns = "''default''" and name = "''org1-ca''", OF _ h] c
    by auto
qed


text \<open>
  \<open>GetClusterPeers\<close> partitions the peers.  Whatever order the runtime gives the keys of the map,
  the peers returned are the listed ones in order, there is exactly one organization per MSP that
  has a peer, and it holds exactly the peers of that MSP, in the order of the list.
\<close>
theorem GetClusterPeers_partition:
  assumes "GetClusterPeers K order ns w = (Ok (orgs, peers), w')"
    and "\<And>ks. mset (order ks) = mset ks"
  shows "(\<exists>v. list_peers K ns w = (Ok (map Peer_Object peers), v))
    \<and> distinct (map MspID orgs) \<and> set (map MspID orgs) = peer_msp ` set peers
    \<and> (\<forall>org \<in> set orgs. Org_Type org = PeerType
        \<and> Peers org = filter (\<lambda>p. peer_msp p = MspID org) peers)"
proof -
  obtain items v where l: "list_peers K ns w = (Ok items, v)"
    and m: "io_map (MapClusterPeer K) items v = (Ok peers, w')"
    and orgs: "orgs = map (the \<circ> map_of (group_peers peers)) (order (map fst (group_peers peers)))"
    using assms(1) by (auto simp: GetClusterPeers_def io_bind_Ok_iff io_return_apply Let_def)
  have objs: "map Peer_Object ys = xs"
    if "list_all2 (\<lambda>x y. \<exists>v v'. MapClusterPeer K x v = (Ok y, v')) xs ys" for xs ys
    using that by (induction rule: list_all2_induct) (auto dest: MapClusterPeer_Ok)
  define ks where "ks = order (map fst (group_peers peers))"
  have ks: "set ks = peer_msp ` set peers" "distinct ks"
    using assms(2) [of "map fst (group_peers peers)"] keys_group_peers [of peers] distinct_group_peers [of peers]
    unfolding ks_def by (metis set_mset_mset, metis mset_eq_imp_distinct_iff)
  have "orgs = map (peer_org peers) ks"
    unfolding orgs ks_def [symmetric] using ks(1) by (auto simp: map_of_group_peers)
  then have "map MspID orgs = ks" and "\<forall>org \<in> set orgs. Org_Type org = PeerType
      \<and> Peers org = filter (\<lambda>p. peer_msp p = MspID org) peers"
    by (simp_all add: peer_org_def comp_def)
  then show ?thesis using l objs [OF io_map_Ok [OF m]] ks by auto
qed

definition peer_one :: FabricPeer where
  "peer_one = \<lparr>peer_Name = ''peer0'', peer_Namespace = ''ns'', peer_MspID = ''Org1MSP'',
     peer_Istio = Some \<lparr>istio_Port = 443, istio_Hosts = [''peer0.org1'']\<rparr>, peer_Traefik = None,
     peer_GatewayApi = None, peer_NodePort = 0, peer_TLSCACert = ''tls'', peer_Replicas = 1\<rparr>"

definition peer_two :: FabricPeer where
  "peer_two = peer_one\<lparr>peer_Name := ''peer1'', peer_MspID := ''Org2MSP''\<rparr>"

theorem GetClusterPeers_partition_witness:
  "\<exists>orgs peers. GetClusterPeers (cluster_of [] [peer_one, peer_two, peer_one]) rev ''ns'' () = (Ok (orgs, peers), ())
     \<and> distinct (map MspID orgs) \<and> map Peer_Object peers = [peer_one, peer_two, peer_one]"
proof -
  have "\<exists>orgs peers. GetClusterPeers (cluster_of [] [peer_one, peer_two, peer_one]) rev ''ns'' ()
      = (Ok (orgs, peers), ())"
    by (simp add: GetClusterPeers_def cluster_of_def MapClusterPeer_def GetPeerPublicURL_def GetPeerHostPort_def
        peer_one_def peer_two_def io_simps Let_def)
  then obtain orgs peers where r:
    "GetClusterPeers (cluster_of [] [peer_one, peer_two, peer_one]) rev ''ns'' () = (Ok (orgs, peers), ())" by blast
  then show ?thesis using GetClusterPeers_partition [OF r]
    by (auto simp: cluster_of_def io_simps)
qed

text \<open>
  The two ways to the address of a certificate authority agree: when \<open>MapClusterCA\<close> succeeds,
  the URL \<open>GetURLForCA\<close> computes for the result in the same state of the cluster is \<open>https://\<close> and
  the public URL stored in it, with the same precedence of the Istio, gateway and Traefik routes
  over the node port.
\<close>
theorem CA_urls_agree:
  assumes "MapClusterCA K ca w = (Ok c, w')" and "GetKubeClient K w = (Ok (), w)"
  shows "GetURLForCA K c w = (Ok (''https://'' @ CA_PublicURL c), w')"
proof -
  obtain hp where hp: "GetCAHostPort K ca w = (Ok hp, w')" and url: "CA_PublicURL c = host_port hp" and "CA_Object c = ca"
    using assms(1) by (auto simp: MapClusterCA_def GetCAPublicURL_def io_bind_Ok_iff io_return_apply Let_def)
  moreover have "io_bind (GetKubeClient K) (\<lambda>_. m) w = m w" for m :: "('a, string \<times> int) io"
    using assms(2) by (simp add: io_bind_apply)
  ultimately show ?thesis
    by (auto simp: GetURLForCA_def GetCAHostPort_def io_bind_apply [of _ "\<lambda>hp. io_return (''https://'' @ host_port hp)"]
        Let_def io_simps split: option.splits)
qed

theorem CA_urls_agree_witness:
  "\<exists>c. MapClusterCA (cluster_of [] []) ca_one () = (Ok c, ())
     \<and> GetURLForCA (cluster_of [] []) c () = (Ok ''https://ca.org1:443'', ())"
proof -
  have "itoa 443 = ''443''" by code_simp
  then have "\<exists>c. MapClusterCA (cluster_of [] []) ca_one () = (Ok c, ()) \<and> CA_PublicURL c = ''ca.org1:443''"
    by (simp add: MapClusterCA_def GetCAPublicURL_def GetCAHostPort_def ca_one_def io_simps Let_def host_port_def)
  then show ?thesis
    using CA_urls_agree [of "cluster_of [] []" ca_one "()" _ "()"] by (auto simp: cluster_of_def io_simps)
qed

text \<open>
  The two functions for the address of an ordering node agree, except on a node that is reached
  through a gateway only: there \<open>GetOrdererHostPort\<close> (and so the public URL) is the gateway's first
  host, while \<open>GetOrdererHostAndPort\<close>, which the command line writes into new channels, is a node
  address with the node port.
\<close>
theorem orderer_addresses_agree_unless_gateway:
  "(if istio_route (node_Istio n) = None \<and> traefik_route (node_Traefik n) = None \<and> gateway_route (node_GatewayApi n) \<noteq> None
    then GetOrdererHostPort K n w = (Ok (the (gateway_route (node_GatewayApi n))), w)
       \<and> GetOrdererHostAndPort K n w = node_host_port K (node_NodePort n) w
    else GetOrdererHostAndPort K n w = GetOrdererHostPort K n w)"
  by (auto simp: GetOrdererHostPort_def GetOrdererHostAndPort_def io_simps split: option.split)

end
