(* ===== verification/Conditions.thy ===== *)
theory Conditions imports Prelude "HOL-Library.Multiset" begin

text \<open>
  The status conditions of a custom resource, \<open>pkg/status/conditions.go\<close>: a slice of conditions
  that the code treats as a set keyed by the condition type.  The clock (\<open>clock.Now()\<close>) is an
  argument.  The locale at the end states the contract the reconcilers rely on.
\<close>



record Condition =
  Type :: string
  Status :: string
  Reason :: string
  Message :: string
  LastTransitionTime :: time

type_synonym Conditions = "Condition list"

definition ConditionTrue :: string where "ConditionTrue = ''True''"
definition ConditionFalse :: string where "ConditionFalse = ''False''"
definition ConditionUnknown :: string where "ConditionUnknown = ''Unknown''"

definition IsTrue :: "Condition \<Rightarrow> bool" where
  "IsTrue c = (Status c = ConditionTrue)"

definition IsFalse :: "Condition \<Rightarrow> bool" where
  "IsFalse c = (Status c = ConditionFalse)"

definition IsUnknown :: "Condition \<Rightarrow> bool" where
  "IsUnknown c = (Status c = ConditionUnknown)"

text \<open>\<open>SetCondition\<close>: the slice after the call and the returned flag.\<close>

fun set_in :: "Condition \<Rightarrow> Conditions \<Rightarrow> Conditions \<times> bool" where
  "set_in newCond [] = ([newCond], True)"
| "set_in newCond (c # cs) =
     (if Type c = Type newCond
      then ((if Status c = Status newCond
             then newCond\<lparr>LastTransitionTime := LastTransitionTime c\<rparr> else newCond) # cs,
            Status c \<noteq> Status newCond \<or> Reason c \<noteq> Reason newCond \<or> Message c \<noteq> Message newCond)
      else (case set_in newCond cs of (cs', changed) \<Rightarrow> (c # cs', changed)))"

definition SetCondition :: "time \<Rightarrow> Condition \<Rightarrow> Conditions \<Rightarrow> Conditions \<times> bool" where
  "SetCondition now newCond cs = set_in (newCond\<lparr>LastTransitionTime := now\<rparr>) cs"

definition NewConditions :: "time \<Rightarrow> Condition list \<Rightarrow> Conditions" where
  "NewConditions now conds = fold (\<lambda>c cs. fst (SetCondition now c cs)) conds []"

fun GetCondition :: "Conditions \<Rightarrow> string \<Rightarrow> Condition option" where
  "GetCondition [] t = None"
| "GetCondition (c # cs) t = (if Type c = t then Some c else GetCondition cs t)"

fun IsTrueFor :: "Conditions \<Rightarrow> string \<Rightarrow> bool" where
  "IsTrueFor [] t = False"
| "IsTrueFor (c # cs) t = (if Type c = t then IsTrue c else IsTrueFor cs t)"

fun IsFalseFor :: "Conditions \<Rightarrow> string \<Rightarrow> bool" where
  "IsFalseFor [] t = False"
| "IsFalseFor (c # cs) t = (if Type c = t then IsFalse c else IsFalseFor cs t)"

fun IsUnknownFor :: "Conditions \<Rightarrow> string \<Rightarrow> bool" where
  "IsUnknownFor [] t = True"
| "IsUnknownFor (c # cs) t = (if Type c = t then IsUnknown c else IsUnknownFor cs t)"

text \<open>
  \<open>RemoveCondition\<close> on a receiver that is a pointer: \<open>None\<close> is the nil pointer.  The loop deletes
  the first match with \<open>append(s[:i], s[i+1:]...)\<close>.
\<close>

fun remove_in :: "string \<Rightarrow> Conditions \<Rightarrow> Conditions \<times> bool" where
  "remove_in t [] = ([], False)"
| "remove_in t (c # cs) =
     (if Type c = t then (cs, True)
      else (case remove_in t cs of (cs', found) \<Rightarrow> (c # cs', found)))"

definition RemoveCondition :: "string \<Rightarrow> Conditions option \<Rightarrow> Conditions option \<times> bool" where
  "RemoveCondition t p = (case p of None \<Rightarrow> (None, False)
     | Some cs \<Rightarrow> (case remove_in t cs of (cs', found) \<Rightarrow> (Some cs', found)))"

text \<open>
  \<open>MarshalJSON\<close> sorts the receiver's own backing array, so the slice of the caller is left sorted.
  \<open>sort.Slice\<close> is an argument, \<open>sortSlice\<close>: any function that returns a permutation sorted by the
  key; Go does not promise stability.  The result is the slice left behind and the encoded bytes.
\<close>

definition MarshalJSON ::
  "(Condition list \<Rightarrow> Condition list) \<Rightarrow> (Condition list \<Rightarrow> 'b res) \<Rightarrow> Conditions
   \<Rightarrow> Conditions \<times> 'b res" where
  "MarshalJSON sortSlice jsonMarshal cs = (let conds = sortSlice cs in (conds, jsonMarshal conds))"

section \<open>The slice as a set keyed by type\<close>

definition types :: "Conditions \<Rightarrow> string list" where
  "types cs = map Type cs"

lemma types_simps [simp]: "types [] = []" "types (c # cs) = Type c # types cs"
  by (simp_all add: types_def)

text \<open>The type invariant: no two conditions of one type.\<close>

definition wf_conditions :: "Conditions \<Rightarrow> bool" where
  "wf_conditions cs = distinct (types cs)"

lemma set_in_types:
  "types (fst (set_in c cs)) = (if Type c \<in> set (types cs) then types cs else types cs @ [Type c])"
  by (induction cs) (auto simp: types_def split: prod.split)

lemma wf_set_in: "wf_conditions cs \<Longrightarrow> wf_conditions (fst (set_in c cs))"
  by (simp add: wf_conditions_def set_in_types)

lemma remove_in_types: "types (fst (remove_in t cs)) = remove1 t (types cs)"
  by (induction cs) (auto simp: types_def split: prod.split)

lemma GetCondition_None: "GetCondition cs t = None \<longleftrightarrow> t \<notin> set (types cs)"
  by (induction cs) (auto simp: types_def)

lemma GetCondition_Some_set: "GetCondition cs t = Some c \<Longrightarrow> c \<in> set cs \<and> Type c = t"
  by (induction cs) (auto split: if_splits)

lemma GetCondition_set_in_other:
  "t \<noteq> Type c \<Longrightarrow> GetCondition (fst (set_in c cs)) t = GetCondition cs t"
  by (induction cs) (auto split: prod.split)

lemma GetCondition_set_in_same:
  "GetCondition (fst (set_in c cs)) (Type c) =
     (case GetCondition cs (Type c) of
        None \<Rightarrow> Some c
      | Some old \<Rightarrow> Some (if Status old = Status c
                          then c\<lparr>LastTransitionTime := LastTransitionTime old\<rparr> else c))"
  by (induction cs) (auto split: prod.split)

lemma set_in_changed:
  "snd (set_in c cs) =
     (case GetCondition cs (Type c) of None \<Rightarrow> True
      | Some old \<Rightarrow> Status old \<noteq> Status c \<or> Reason old \<noteq> Reason c \<or> Message old \<noteq> Message c)"
  by (induction cs) (auto split: prod.split)

lemma GetCondition_remove_in:
  "wf_conditions cs \<Longrightarrow>
     GetCondition (fst (remove_in t cs)) = (GetCondition cs)(t := None)"
proof (induction cs)
  case (Cons c cs)
  then have "GetCondition cs (Type c) = None" and "wf_conditions cs"
    by (auto simp: wf_conditions_def GetCondition_None)
  with Cons.IH show ?case
    by (auto simp: fun_eq_iff split: prod.split)
qed (simp add: fun_eq_iff)

lemma remove_in_found: "snd (remove_in t cs) = (t \<in> set (types cs))"
  by (induction cs) (auto simp: types_def split: prod.split)

lemma GetCondition_eq_iff:
  "wf_conditions cs \<Longrightarrow> GetCondition cs t = Some c \<longleftrightarrow> c \<in> set cs \<and> Type c = t"
  by (induction cs) (auto simp: wf_conditions_def types_def)

section \<open>The contract the reconcilers rely on\<close>

text \<open>
  A store of conditions keyed by type: the reconcilers read it with \<open>get\<close> and write it with \<open>put\<close>
  at a time.  The transition time of a condition moves only when its status does.
\<close>

locale condition_store =
  fixes get :: "'c \<Rightarrow> string \<Rightarrow> Condition option"
    and put :: "time \<Rightarrow> Condition \<Rightarrow> 'c \<Rightarrow> 'c \<times> bool"
    and inv :: "'c \<Rightarrow> bool"
  assumes get_put_other: "t \<noteq> Type c \<Longrightarrow> get (fst (put now c s)) t = get s t"
    and get_put_new: "get s (Type c) = None \<Longrightarrow>
      get (fst (put now c s)) (Type c) = Some (c\<lparr>LastTransitionTime := now\<rparr>)"
    and get_put_old: "get s (Type c) = Some old \<Longrightarrow>
      get (fst (put now c s)) (Type c) = Some (c\<lparr>LastTransitionTime :=
        (if Status old = Status c then LastTransitionTime old else now)\<rparr>)"
    and put_changed: "snd (put now c s) \<longleftrightarrow>
      (case get s (Type c) of None \<Rightarrow> True
       | Some old \<Rightarrow> Status old \<noteq> Status c \<or> Reason old \<noteq> Reason c \<or> Message old \<noteq> Message c)"
    and inv_put: "inv s \<Longrightarrow> inv (fst (put now c s))"
begin

text \<open>A history of writes, oldest first, each at its own time.\<close>

fun puts :: "(time \<times> Condition) list \<Rightarrow> 'c \<Rightarrow> 'c" where
  "puts [] s = s"
| "puts ((now, c) # h) s = puts h (fst (put now c s))"

lemma get_put_status:
  "\<exists>c'. get (fst (put now c s)) (Type c) = Some c' \<and> Status c' = Status c \<and> Type c' = Type c
      \<and> Reason c' = Reason c \<and> Message c' = Message c"
  by (cases "get s (Type c)") (auto simp: get_put_new get_put_old)

lemma put_unchanged:
  assumes "\<not> snd (put now c s)"
  shows "\<exists>old. get s (Type c) = Some old
    \<and> get (fst (put now c s)) (Type c) = Some (c\<lparr>LastTransitionTime := LastTransitionTime old\<rparr>)"
  using assms by (auto simp: put_changed get_put_old split: option.splits)

lemma put_again_unchanged: "\<not> snd (put now' c (fst (put now c s)))"
  using get_put_status [of now c s] by (auto simp: put_changed)

lemma inv_puts: "inv s \<Longrightarrow> inv (puts h s)"
  by (induction h s rule: puts.induct) (auto intro: inv_put)

lemma puts_append: "puts (h @ h') s = puts h' (puts h s)"
  by (induction h s rule: puts.induct) auto

lemma get_puts_untouched: "t \<notin> (Type \<circ> snd) ` set h \<Longrightarrow> get (puts h s) t = get s t"
  by (induction h s rule: puts.induct) (auto simp: get_put_other)

text \<open>Writing one status over and over keeps the first time.\<close>

lemma get_puts_same_status:
  assumes "get s t = Some old"
    and "\<And>now c. (now, c) \<in> set h \<Longrightarrow> Type c = t \<Longrightarrow> Status c = Status old"
  shows "\<exists>c. get (puts h s) t = Some c \<and> Status c = Status old
     \<and> LastTransitionTime c = LastTransitionTime old"
  using assms
proof (induction h s arbitrary: old rule: puts.induct)
  case (2 now c h s)
  show ?case
  proof (cases "Type c = t")
    case True
    have same: "Status c = Status old" using True "2.prems"(2) [of now c] by simp
    with True have "get (fst (put now c s)) t = Some (c\<lparr>LastTransitionTime := LastTransitionTime old\<rparr>)"
      using "2.prems" get_put_old [of s c old now] by simp
    then have "\<exists>c'. get (puts h (fst (put now c s))) t = Some c'
        \<and> Status c' = Status (c\<lparr>LastTransitionTime := LastTransitionTime old\<rparr>)
        \<and> LastTransitionTime c' = LastTransitionTime (c\<lparr>LastTransitionTime := LastTransitionTime old\<rparr>)"
      by (rule "2.IH") (use same "2.prems"(2) in auto)
    with same show ?thesis by simp
  next
    case False
    then have "get (fst (put now c s)) t = Some old"
      using "2.prems" get_put_other [of t c now s] by simp
    then have "\<exists>c'. get (puts h (fst (put now c s))) t = Some c' \<and> Status c' = Status old
        \<and> LastTransitionTime c' = LastTransitionTime old"
      by (rule "2.IH") (use "2.prems"(2) in auto)
    then show ?thesis by simp
  qed
qed simp

text \<open>The write that last changed the status is the one that set the time.\<close>

lemma transition_time:
  assumes "get (puts h s) (Type c) \<noteq> None \<Longrightarrow>
      Status (the (get (puts h s) (Type c))) \<noteq> Status c"
    and "\<And>now' c'. (now', c') \<in> set h' \<Longrightarrow> Type c' = Type c \<Longrightarrow> Status c' = Status c"
  shows "\<exists>c''. get (puts (h @ (now, c) # h') s) (Type c) = Some c''
     \<and> Status c'' = Status c \<and> LastTransitionTime c'' = now"
proof -
  let ?s = "puts h s"
  have "get (fst (put now c ?s)) (Type c) = Some (c\<lparr>LastTransitionTime := now\<rparr>)"
    using assms(1) get_put_new [of ?s c now] get_put_old [of ?s c _ now]
    by (cases "get ?s (Type c)") auto
  from get_puts_same_status [OF this, of h'] assms(2) show ?thesis
    by (auto simp: puts_append)
qed

end

interpretation cond: condition_store GetCondition SetCondition wf_conditions
proof unfold_locales
  fix s :: Conditions and t now and c old :: Condition
  have T: "Type c = Type (c\<lparr>LastTransitionTime := now\<rparr>)" by simp
  show "t \<noteq> Type c \<Longrightarrow> GetCondition (fst (SetCondition now c s)) t = GetCondition s t"
    by (simp add: SetCondition_def GetCondition_set_in_other)
  show "GetCondition s (Type c) = None \<Longrightarrow>
      GetCondition (fst (SetCondition now c s)) (Type c) = Some (c\<lparr>LastTransitionTime := now\<rparr>)"
    using GetCondition_set_in_same [of "c\<lparr>LastTransitionTime := now\<rparr>" s]
    by (simp add: SetCondition_def split: option.splits)
  show "GetCondition s (Type c) = Some old \<Longrightarrow>
      GetCondition (fst (SetCondition now c s)) (Type c) = Some (c\<lparr>LastTransitionTime :=
        (if Status old = Status c then LastTransitionTime old else now)\<rparr>)"
    using GetCondition_set_in_same [of "c\<lparr>LastTransitionTime := now\<rparr>" s]
    by (simp add: SetCondition_def)
  show "snd (SetCondition now c s) \<longleftrightarrow>
      (case GetCondition s (Type c) of None \<Rightarrow> True
       | Some old \<Rightarrow> Status old \<noteq> Status c \<or> Reason old \<noteq> Reason c \<or> Message old \<noteq> Message c)"
    by (simp add: SetCondition_def set_in_changed split: option.split)
  show "wf_conditions s \<Longrightarrow> wf_conditions (fst (SetCondition now c s))"
    by (simp add: SetCondition_def wf_set_in)
qed

section \<open>Properties of the condition set\<close>

text \<open>A history of \<open>SetCondition\<close> calls, oldest first, each at its own time.\<close>

fun apply_sets :: "(time \<times> Condition) list \<Rightarrow> Conditions \<Rightarrow> Conditions" where
  "apply_sets [] cs = cs"
| "apply_sets ((now, c) # h) cs = apply_sets h (fst (SetCondition now c cs))"

lemma apply_sets_puts: "cond.puts h cs = apply_sets h cs"
  by (induction h cs rule: apply_sets.induct) auto

lemma wf_apply_sets: "wf_conditions cs \<Longrightarrow> wf_conditions (apply_sets h cs)"
  using cond.inv_puts [of cs h] by (simp add: apply_sets_puts)

lemma NewConditions_apply_sets: "NewConditions now conds = apply_sets (map (Pair now) conds) []"
proof -
  have "fold (\<lambda>c cs. fst (SetCondition now c cs)) conds cs = apply_sets (map (Pair now) conds) cs" for cs
    by (induction conds arbitrary: cs) auto
  then show ?thesis by (simp add: NewConditions_def)
qed

lemma wf_NewConditions: "wf_conditions (NewConditions now conds)"
  unfolding NewConditions_apply_sets by (rule wf_apply_sets) (simp add: wf_conditions_def)

text \<open>
  C26. Transition times are sound over any history of updates: if a write of condition \<open>c\<close> at time
  \<open>now\<close> changed the status recorded for its type (or was the first of its type), and every later
  write to that type carried the same status, then after the whole history the condition of that
  type has that status and its \<open>LastTransitionTime\<close> is exactly \<open>now\<close>, whatever reasons and
  messages were written and whatever happened to the other types.
\<close>
theorem SetCondition_transition_time:
  assumes "\<And>old. GetCondition (apply_sets h cs) (Type c) = Some old \<Longrightarrow> Status old \<noteq> Status c"
    and "\<forall>(now', c') \<in> set h'. Type c' = Type c \<longrightarrow> Status c' = Status c"
  shows "\<exists>c''. GetCondition (apply_sets (h @ (now, c) # h') cs) (Type c) = Some c''
     \<and> Status c'' = Status c \<and> LastTransitionTime c'' = now"
proof -
  have "Status (the (GetCondition (apply_sets h cs) (Type c))) \<noteq> Status c"
    if "GetCondition (apply_sets h cs) (Type c) \<noteq> None"
    using that assms(1) by auto
  moreover have "Status c' = Status c" if "(now', c') \<in> set h'" "Type c' = Type c" for now' c'
    using that assms(2) by auto
  ultimately show ?thesis
    using cond.transition_time [of h cs c h' now] by (simp add: apply_sets_puts)
qed

definition cond_a :: Condition where
  "cond_a = \<lparr>Type = ''RUNNING'', Status = ''True'', Reason = [], Message = [], LastTransitionTime = 0\<rparr>"

definition cond_b :: Condition where
  "cond_b = \<lparr>Type = ''RUNNING'', Status = ''True'', Reason = ''r'', Message = ''m'', LastTransitionTime = 0\<rparr>"

definition cond_c :: Condition where
  "cond_c = \<lparr>Type = ''FAILED'', Status = ''False'', Reason = [], Message = [], LastTransitionTime = 0\<rparr>"

theorem SetCondition_transition_time_witness:
  "\<exists>c''. GetCondition (apply_sets ([(1, cond_c)] @ (5, cond_a) # [(7, cond_b), (9, cond_c)]) []) ''RUNNING''
      = Some c'' \<and> Status c'' = ''True'' \<and> LastTransitionTime c'' = 5"
  using SetCondition_transition_time [of "[(1, cond_c)]" "[]" cond_a "[(7, cond_b), (9, cond_c)]" 5]
  by (simp add: SetCondition_def cond_a_def cond_b_def cond_c_def)

text \<open>
  One update, completely: \<open>SetCondition\<close> leaves every other type as it was, stores the new
  status, reason and message under its own type with the old transition time exactly when the
  status did not change, keeps the types distinct, grows the slice only when the type is new, and
  returns true exactly when something other than the time changed.
\<close>
theorem SetCondition_correct:
  "(\<forall>t. t \<noteq> Type c \<longrightarrow> GetCondition (fst (SetCondition now c cs)) t = GetCondition cs t)
   \<and> GetCondition (fst (SetCondition now c cs)) (Type c) = Some (c\<lparr>LastTransitionTime :=
       (case GetCondition cs (Type c) of None \<Rightarrow> now
        | Some old \<Rightarrow> if Status old = Status c then LastTransitionTime old else now)\<rparr>)
   \<and> (snd (SetCondition now c cs) \<longleftrightarrow> (case GetCondition cs (Type c) of None \<Rightarrow> True
        | Some old \<Rightarrow> (Status old, Reason old, Message old) \<noteq> (Status c, Reason c, Message c)))
   \<and> types (fst (SetCondition now c cs)) =
       (if Type c \<in> set (types cs) then types cs else types cs @ [Type c])
   \<and> (wf_conditions cs \<longrightarrow> wf_conditions (fst (SetCondition now c cs)))"
  using cond.get_put_other [of _ c now cs] cond.get_put_new [of cs c now] cond.get_put_old [of cs c _ now]
    cond.put_changed [of now c cs] cond.inv_put [of cs now c]
  by (simp add: SetCondition_def set_in_types split: option.split)

theorem SetCondition_correct_witness:
  "wf_conditions [cond_a] \<and> wf_conditions (fst (SetCondition 3 cond_c [cond_a]))
   \<and> GetCondition (fst (SetCondition 3 cond_c [cond_a])) ''RUNNING'' = Some cond_a"
  using SetCondition_correct [of cond_c 3 "[cond_a]"]
  by (simp add: cond_a_def cond_c_def wf_conditions_def)

text \<open>
  On a set with distinct types, \<open>RemoveCondition\<close> deletes exactly the condition of its type:
  lookups of every other type are unchanged, the type itself is gone, the remaining conditions keep
  their order, and the returned flag says whether the type was there; a nil receiver is left alone
  and reported as not found.
\<close>
theorem RemoveCondition_correct:
  assumes "wf_conditions cs"
  shows "\<exists>cs'. RemoveCondition t (Some cs) = (Some cs', t \<in> set (types cs))
      \<and> GetCondition cs' = (GetCondition cs)(t := None)
      \<and> types cs' = filter (\<lambda>u. u \<noteq> t) (types cs) \<and> wf_conditions cs'
      \<and> RemoveCondition t None = (None, False)"
proof -
  obtain cs' b where r: "remove_in t cs = (cs', b)" by fastforce
  have "b = (t \<in> set (types cs))" and "types cs' = remove1 t (types cs)"
    and "GetCondition cs' = (GetCondition cs)(t := None)"
    using remove_in_found [of t cs] remove_in_types [of t cs] GetCondition_remove_in [OF assms, of t] r
    by simp_all
  then show ?thesis using assms r
    by (simp add: RemoveCondition_def wf_conditions_def distinct_remove1_removeAll
        removeAll_filter_not_eq)
       (metis (no_types, lifting) filter_cong)
qed

theorem RemoveCondition_correct_witness:
  "wf_conditions [cond_a, cond_c] \<and>
   (\<exists>cs'. RemoveCondition ''RUNNING'' (Some [cond_a, cond_c]) = (Some cs', True) \<and> types cs' = [''FAILED''])"
proof -
  have "wf_conditions [cond_a, cond_c]" by (simp add: wf_conditions_def cond_a_def cond_c_def)
  moreover from RemoveCondition_correct [OF this, of "''RUNNING''"] have
    "\<exists>cs'. RemoveCondition ''RUNNING'' (Some [cond_a, cond_c]) = (Some cs', True) \<and> types cs' = [''FAILED'']"
    by (elim exE) (simp add: cond_a_def cond_c_def)
  ultimately show ?thesis by blast
qed

lemma IsFor_GetCondition:
  "IsTrueFor cs t = (case GetCondition cs t of None \<Rightarrow> False | Some c \<Rightarrow> IsTrue c)"
  "IsFalseFor cs t = (case GetCondition cs t of None \<Rightarrow> False | Some c \<Rightarrow> IsFalse c)"
  "IsUnknownFor cs t = (case GetCondition cs t of None \<Rightarrow> True | Some c \<Rightarrow> IsUnknown c)"
  by (induction cs) auto

lemma GetCondition_perm:
  assumes "wf_conditions cs" and "mset cs' = mset cs"
  shows "wf_conditions cs' \<and> GetCondition cs' = GetCondition cs"
proof -
  have m: "mset (types cs') = mset (types cs)" using assms(2) by (simp add: types_def)
  then have wf: "wf_conditions cs'"
    using assms(1) by (metis mset_eq_imp_distinct_iff wf_conditions_def)
  have "set cs' = set cs" using assms(2) by (metis set_mset_mset)
  then have "GetCondition cs' t = Some c \<longleftrightarrow> GetCondition cs t = Some c" for t c
    using assms(1) wf by (simp add: GetCondition_eq_iff)
  then have "GetCondition cs' t = GetCondition cs t" for t
    by (metis option.exhaust)
  with wf show ?thesis by (auto simp: fun_eq_iff)
qed

text \<open>The list that sorting by type gives is the only one with strictly increasing types.\<close>

lemma strict_types_unique:
  assumes "set cs' = set cs''" and "sorted_wrt (<) (types cs')" and "sorted_wrt (<) (types cs'')"
    and "wf_conditions cs" and "set cs' = set cs"
  shows "cs' = cs''"
  using assms
  by (intro map_sorted_distinct_set_unique [of Type])
     (auto simp: wf_conditions_def types_def distinct_map strict_sorted_iff)

text \<open>
  Whatever sorting algorithm \<open>sort.Slice\<close> uses, on a set with distinct types \<open>MarshalJSON\<close>
  encodes the one list of the same conditions with strictly increasing types, and although it sorts
  the caller's slice in place, every later lookup (\<open>GetCondition\<close>, \<open>IsTrueFor\<close>, \<open>IsFalseFor\<close>,
  \<open>IsUnknownFor\<close>) gives what it gave before.
\<close>
theorem MarshalJSON_correct:
  assumes "\<And>cs. mset (sortSlice cs) = mset cs" and "\<And>cs. sorted (types (sortSlice cs))"
    and "wf_conditions cs"
  shows "\<exists>cs'. MarshalJSON sortSlice enc cs = (cs', enc cs')
      \<and> set cs' = set cs \<and> sorted_wrt (<) (types cs')
      \<and> (\<forall>cs''. set cs'' = set cs \<and> sorted_wrt (<) (types cs'') \<longrightarrow> cs'' = cs')
      \<and> (\<forall>t. GetCondition cs' t = GetCondition cs t \<and> IsTrueFor cs' t = IsTrueFor cs t
             \<and> IsFalseFor cs' t = IsFalseFor cs t \<and> IsUnknownFor cs' t = IsUnknownFor cs t)"
proof -
  let ?s = "sortSlice cs"
  have p: "wf_conditions ?s \<and> GetCondition ?s = GetCondition cs"
    using GetCondition_perm [OF assms(3) assms(1)] .
  have set: "set ?s = set cs" using assms(1) by (metis set_mset_mset)
  have strict: "sorted_wrt (<) (types ?s)"
    using assms(2) p by (simp add: strict_sorted_iff wf_conditions_def)
  have uniq: "cs'' = ?s" if "set cs'' = set cs \<and> sorted_wrt (<) (types cs'')" for cs''
    using strict_types_unique [of cs'' ?s cs] that set strict assms(3) by simp
  show ?thesis
  proof (intro exI conjI allI impI)
    show "MarshalJSON sortSlice enc cs = (?s, enc ?s)" by (simp add: MarshalJSON_def Let_def)
  qed (use p in \<open>simp_all add: set strict uniq IsFor_GetCondition\<close>)
qed

theorem MarshalJSON_correct_witness:
  "\<exists>cs'. MarshalJSON (sort_key Type) Ok [cond_a, cond_c] = (cs', Ok cs')
     \<and> set cs' = {cond_a, cond_c} \<and> types cs' = [''FAILED'', ''RUNNING'']"
proof -
  have "wf_conditions [cond_a, cond_c]" by (simp add: wf_conditions_def cond_a_def cond_c_def)
  with MarshalJSON_correct [of "sort_key Type" "[cond_a, cond_c]" Ok]
  obtain cs' where "MarshalJSON (sort_key Type) Ok [cond_a, cond_c] = (cs', Ok cs')"
    and s: "set cs' = {cond_a, cond_c}" and "sorted_wrt (<) (types cs')"
    by (auto simp: types_def)
  moreover have "types (sort_key Type [cond_a, cond_c]) = [''FAILED'', ''RUNNING'']"
    by code_simp
  ultimately show ?thesis by (auto simp: MarshalJSON_def Let_def)
qed

end
