(* ===== verification/Custom_Resource.thy ===== *)
theory Custom_Resource imports Conditions begin

text \<open>
  What every reconciler does with its custom resource: the deployment status and the conditions
  (\<open>setConditionStatus\<close>), the write-back that decides when the resource is looked at again
  (\<open>updateCRStatusOrFailReconcile\<close>) and the finalizer.  The Go code has one copy of each per
  controller; the copies that are textually the same are one definition here, and each controller
  has its own name for it.

  The Kubernetes client is a parameter: a record of the calls the reconcilers make.  A call that
  succeeds decodes the server's answer into the object that was passed, so it returns the object.
\<close>

section \<open>Resources, the client, results\<close>

definition PendingStatus :: string where "PendingStatus = ''PENDING''"
definition FailedStatus :: string where "FailedStatus = ''FAILED''"
definition RunningStatus :: string where "RunningStatus = ''RUNNING''"
definition UnknownStatus :: string where "UnknownStatus = ''UNKNOWN''"
definition UpdatingVersion :: string where "UpdatingVersion = ''UPDATING_VERSION''"
definition UpdatingCertificates :: string where "UpdatingCertificates = ''UPDATING_CERTIFICATES''"

lemmas deployment_status_defs =
  PendingStatus_def FailedStatus_def RunningStatus_def UnknownStatus_def UpdatingVersion_def
  UpdatingCertificates_def

record custom_resource =
  crName :: string
  crNamespace :: string
  Finalizers :: "string list"
  DeletionTimestamp :: "time option"
  crConditions :: Conditions
  crMessage :: string
  crStatus :: string

record ('w, 'p) client =
  clock_now :: "'w \<Rightarrow> time"
  client_get :: "string \<times> string \<Rightarrow> ('w, 'p) io"
  client_update :: "'p \<Rightarrow> ('w, 'p) io"
  status_update :: "'p \<Rightarrow> ('w, 'p) io"
  status_patch :: "'p \<Rightarrow> 'p \<Rightarrow> ('w, 'p) io"
  add_finalizer :: "string \<Rightarrow> string list \<Rightarrow> string list"
  remove_finalizer :: "string \<Rightarrow> string list \<Rightarrow> string list"

text \<open>\<open>reconcile.Result\<close>; durations are nanoseconds.\<close>

record Result =
  Requeue :: bool
  RequeueAfter :: int

definition Second :: int where "Second = 1000000000"
definition Minute :: int where "Minute = 60 * Second"

definition no_requeue :: Result where
  "no_requeue = \<lparr>Requeue = False, RequeueAfter = 0\<rparr>"

definition requeue_after :: "int \<Rightarrow> Result" where
  "requeue_after d = \<lparr>Requeue = False, RequeueAfter = d\<rparr>"

text \<open>
  When the work queue hands the resource to the reconciler again by itself: after an error (with
  back-off), and after a result that asks for it.
\<close>

fun retried :: "Result res \<Rightarrow> bool" where
  "retried (Ok r) = (Requeue r \<or> RequeueAfter r > 0)"
| "retried (Err e) = True"
| "retried (Panic p) = True"

section \<open>setConditionStatus\<close>

definition statusStr :: "bool \<Rightarrow> bool \<Rightarrow> string" where
  "statusStr statusUnknown statusFlag =
     (if statusUnknown then ConditionUnknown else if statusFlag then ConditionTrue else ConditionFalse)"

definition condition_of :: "string \<Rightarrow> string \<Rightarrow> go_error option \<Rightarrow> Condition" where
  "condition_of conditionType st err = (case err of
       Some e \<Rightarrow> \<lparr>Type = conditionType, Status = st, Reason = error_text e, Message = error_text e,
                  LastTransitionTime = 0\<rparr>
     | None \<Rightarrow> \<lparr>Type = conditionType, Status = st, Reason = [], Message = [], LastTransitionTime = 0\<rparr>)"

definition put_condition ::
  "time \<Rightarrow> Condition \<Rightarrow> 'a custom_resource_scheme \<Rightarrow> 'a custom_resource_scheme \<times> bool" where
  "put_condition now c p =
     (p\<lparr>crConditions := fst (SetCondition now c (crConditions p))\<rparr>,
      snd (SetCondition now c (crConditions p)))"

definition set_message :: "go_error option \<Rightarrow> 'a custom_resource_scheme \<Rightarrow> 'a custom_resource_scheme" where
  "set_message err p = (case err of Some e \<Rightarrow> p\<lparr>crMessage := error_text e\<rparr> | None \<Rightarrow> p)"

definition set_or_clear_message :: "go_error option \<Rightarrow> 'a custom_resource_scheme \<Rightarrow> 'a custom_resource_scheme" where
  "set_or_clear_message err p =
     (case err of Some e \<Rightarrow> p\<lparr>crMessage := error_text e\<rparr> | None \<Rightarrow> p\<lparr>crMessage := []\<rparr>)"

text \<open>
  The version that patches the status first.  As in the code the parameter \<open>err\<close> is assigned the
  result of the patch, whatever it held before.  \<open>note\<close> is what the copy does with the message.
\<close>

definition setConditionStatus_with ::
  "(go_error option \<Rightarrow> 'a custom_resource_scheme \<Rightarrow> 'a custom_resource_scheme)
   \<Rightarrow> ('w, 'a custom_resource_scheme) client \<Rightarrow> 'a custom_resource_scheme \<Rightarrow> string \<Rightarrow> bool
   \<Rightarrow> go_error option \<Rightarrow> bool \<Rightarrow> ('w, 'a custom_resource_scheme \<times> bool) io" where
  "setConditionStatus_with note_error K p conditionType statusFlag err statusUnknown =
     io_bind
       (if crStatus p \<noteq> conditionType
        then (let depCopy = p; p' = p\<lparr>crStatus := conditionType\<rparr>
              in io_try (status_patch K depCopy p')
                   (\<lambda>p''. io_return (p'', None))
                   (\<lambda>e. io_return (p', Some e)))
        else io_return (p, err))
       (\<lambda>(p, err) w.
          (let p = note_error err p;
               c = condition_of conditionType (statusStr statusUnknown statusFlag) err
           in (Ok (put_condition (clock_now K w) c p), w)))"

definition setConditionStatus ::
  "('w, 'a custom_resource_scheme) client \<Rightarrow> 'a custom_resource_scheme \<Rightarrow> string \<Rightarrow> bool
   \<Rightarrow> go_error option \<Rightarrow> bool \<Rightarrow> ('w, 'a custom_resource_scheme \<times> bool) io" where
  "setConditionStatus = setConditionStatus_with set_message"

text \<open>The certificate authority's version: no patch, the error is kept.\<close>

definition FabricCA_setConditionStatus ::
  "('w, 'a custom_resource_scheme) client \<Rightarrow> 'a custom_resource_scheme \<Rightarrow> string \<Rightarrow> bool
   \<Rightarrow> go_error option \<Rightarrow> bool \<Rightarrow> ('w, 'a custom_resource_scheme \<times> bool) io" where
  "FabricCA_setConditionStatus K p conditionType statusFlag err statusUnknown = (\<lambda>w.
     (let p = p\<lparr>crStatus := conditionType\<rparr>;
          p = set_message err p;
          c = condition_of conditionType (statusStr statusUnknown statusFlag) err
      in (Ok (put_condition (clock_now K w) c p), w)))"

text \<open>The chaincode deployment's version: the patch, and the message cleared when there is no error.\<close>

definition FabricChaincodeDeploy_setConditionStatus ::
  "('w, 'a custom_resource_scheme) client \<Rightarrow> 'a custom_resource_scheme \<Rightarrow> string \<Rightarrow> bool
   \<Rightarrow> go_error option \<Rightarrow> bool \<Rightarrow> ('w, 'a custom_resource_scheme \<times> bool) io" where
  "FabricChaincodeDeploy_setConditionStatus = setConditionStatus_with set_or_clear_message"

text \<open>The textual copies of the patching version.\<close>

definition FabricMainChannel_setConditionStatus where
  "FabricMainChannel_setConditionStatus = setConditionStatus"
definition FabricFollowerChannel_setConditionStatus where
  "FabricFollowerChannel_setConditionStatus = setConditionStatus"
definition FabricPeer_setConditionStatus where
  "FabricPeer_setConditionStatus = setConditionStatus"
definition FabricOrdererNode_setConditionStatus where
  "FabricOrdererNode_setConditionStatus = setConditionStatus"
definition FabricChaincodeApprove_setConditionStatus where
  "FabricChaincodeApprove_setConditionStatus = setConditionStatus"
definition FabricChaincodeCommit_setConditionStatus where
  "FabricChaincodeCommit_setConditionStatus = setConditionStatus"
definition FabricChaincodeInstall_setConditionStatus where
  "FabricChaincodeInstall_setConditionStatus = setConditionStatus"
definition FabricIdentity_setConditionStatus where
  "FabricIdentity_setConditionStatus = setConditionStatus"
definition FabricNetworkConfig_setConditionStatus where
  "FabricNetworkConfig_setConditionStatus = setConditionStatus"
definition FabricOperationsConsole_setConditionStatus where
  "FabricOperationsConsole_setConditionStatus = setConditionStatus"
definition FabricOperatorAPI_setConditionStatus where
  "FabricOperatorAPI_setConditionStatus = setConditionStatus"
definition FabricOperatorUI_setConditionStatus where
  "FabricOperatorUI_setConditionStatus = setConditionStatus"

section \<open>updateCRStatusOrFailReconcile\<close>

text \<open>Ordering nodes, certificate authorities, consoles, operator UI and API, network configurations,
  chaincode deployments: an error of the update is returned, otherwise nothing is asked for.\<close>

definition update_no_requeue ::
  "('w, 'a custom_resource_scheme) client \<Rightarrow> 'a custom_resource_scheme \<Rightarrow> ('w, Result) io" where
  "update_no_requeue K p = io_try (status_update K p) (\<lambda>p'. io_return no_requeue) io_throw"

definition FabricOrdererNode_updateCRStatusOrFailReconcile where
  "FabricOrdererNode_updateCRStatusOrFailReconcile = update_no_requeue"
definition FabricCA_updateCRStatusOrFailReconcile where
  "FabricCA_updateCRStatusOrFailReconcile = update_no_requeue"
definition FabricOperationsConsole_updateCRStatusOrFailReconcile where
  "FabricOperationsConsole_updateCRStatusOrFailReconcile = update_no_requeue"
definition FabricOperatorAPI_updateCRStatusOrFailReconcile where
  "FabricOperatorAPI_updateCRStatusOrFailReconcile = update_no_requeue"
definition FabricOperatorUI_updateCRStatusOrFailReconcile where
  "FabricOperatorUI_updateCRStatusOrFailReconcile = update_no_requeue"
definition FabricNetworkConfig_updateCRStatusOrFailReconcile where
  "FabricNetworkConfig_updateCRStatusOrFailReconcile = update_no_requeue"
definition FabricChaincodeDeploy_updateCRStatusOrFailReconcile where
  "FabricChaincodeDeploy_updateCRStatusOrFailReconcile = update_no_requeue"

definition FabricPeer_updateCRStatusOrFailReconcile ::
  "('w, 'a custom_resource_scheme) client \<Rightarrow> 'a custom_resource_scheme \<Rightarrow> ('w, Result) io" where
  "FabricPeer_updateCRStatusOrFailReconcile K p =
     io_try (status_update K p) (\<lambda>p'. io_return (requeue_after (1 * Minute))) io_throw"

definition FabricIdentity_updateCRStatusOrFailReconcileWithRequeue ::
  "('w, 'a custom_resource_scheme) client \<Rightarrow> 'a custom_resource_scheme \<Rightarrow> bool \<Rightarrow> int
   \<Rightarrow> ('w, Result) io" where
  "FabricIdentity_updateCRStatusOrFailReconcileWithRequeue K p requeue after =
     io_try (status_update K p)
       (\<lambda>p'. io_return \<lparr>Requeue = requeue, RequeueAfter = after\<rparr>) io_throw"

definition FabricIdentity_updateCRStatusOrFailReconcile ::
  "('w, 'a custom_resource_scheme) client \<Rightarrow> 'a custom_resource_scheme \<Rightarrow> ('w, Result) io" where
  "FabricIdentity_updateCRStatusOrFailReconcile K p =
     FabricIdentity_updateCRStatusOrFailReconcileWithRequeue K p True (10 * Second)"

definition FabricNetworkConfig_updateCRStatusOrFailReconcileWithRequeue ::
  "('w, 'a custom_resource_scheme) client \<Rightarrow> 'a custom_resource_scheme \<Rightarrow> int
   \<Rightarrow> ('w, Result) io" where
  "FabricNetworkConfig_updateCRStatusOrFailReconcileWithRequeue K p after =
     io_try (status_update K p) (\<lambda>p'. io_return (requeue_after after)) io_throw"

text \<open>Channels: a resource that is failed after the update is looked at again in five minutes.\<close>

definition FabricMainChannel_updateCRStatusOrFailReconcile ::
  "('w, 'a custom_resource_scheme) client \<Rightarrow> 'a custom_resource_scheme \<Rightarrow> ('w, Result) io" where
  "FabricMainChannel_updateCRStatusOrFailReconcile K p =
     io_try (status_update K p)
       (\<lambda>p'. if crStatus p' = FailedStatus then io_return (requeue_after (5 * Minute))
             else io_return no_requeue) io_throw"

definition FabricFollowerChannel_updateCRStatusOrFailReconcile ::
  "('w, 'a custom_resource_scheme) client \<Rightarrow> 'a custom_resource_scheme \<Rightarrow> ('w, Result) io" where
  "FabricFollowerChannel_updateCRStatusOrFailReconcile K p =
     io_try (status_update K p)
       (\<lambda>p'. if crStatus p' = FailedStatus then io_return (requeue_after (5 * Minute))
             else io_return no_requeue) io_throw"

text \<open>Chaincode installation, approval and commit: an error of the update is swallowed and retried
  in ten seconds; only a running resource is left alone.\<close>

definition chaincode_update ::
  "('w, 'a custom_resource_scheme) client \<Rightarrow> 'a custom_resource_scheme \<Rightarrow> ('w, Result) io" where
  "chaincode_update K p =
     io_try (status_update K p)
       (\<lambda>p'. if crStatus p' = FailedStatus then io_return (requeue_after (1 * Minute))
             else if crStatus p' = RunningStatus then io_return no_requeue
             else io_return (requeue_after (1 * Minute)))
       (\<lambda>e. io_return \<lparr>Requeue = True, RequeueAfter = Second * 10\<rparr>)"

definition FabricChaincodeApprove_updateCRStatusOrFailReconcile where
  "FabricChaincodeApprove_updateCRStatusOrFailReconcile = chaincode_update"
definition FabricChaincodeCommit_updateCRStatusOrFailReconcile where
  "FabricChaincodeCommit_updateCRStatusOrFailReconcile = chaincode_update"
definition FabricChaincodeInstall_updateCRStatusOrFailReconcile where
  "FabricChaincodeInstall_updateCRStatusOrFailReconcile = chaincode_update"

section \<open>Finalizers\<close>

text \<open>\<open>addFinalizer\<close> of every controller: the finalizer is added locally, then the object is updated.\<close>

definition addFinalizer ::
  "('w, 'a custom_resource_scheme) client \<Rightarrow> string \<Rightarrow> 'a custom_resource_scheme
   \<Rightarrow> ('w, 'a custom_resource_scheme) io" where
  "addFinalizer K finalizer m =
     client_update K (m\<lparr>Finalizers := add_finalizer K finalizer (Finalizers m)\<rparr>)"

definition mainChannelFinalizer :: string where "mainChannelFinalizer = ''finalizer.mainChannel.hlf.kungfusoftware.es''"
definition followerChannelFinalizer :: string where "followerChannelFinalizer = ''finalizer.followerChannel.hlf.kungfusoftware.es''"
definition ordererNodeFinalizer :: string where "ordererNodeFinalizer = ''finalizer.orderernode.hlf.kungfusoftware.es''"
definition caFinalizer :: string where "caFinalizer = ''finalizer.ca.hlf.kungfusoftware.es''"
definition chaincodeApproveFinalizer :: string where "chaincodeApproveFinalizer = ''finalizer.chaincodeapprove.hlf.kungfusoftware.es''"
definition chaincodeCommitFinalizer :: string where "chaincodeCommitFinalizer = ''finalizer.chaincodecommit.hlf.kungfusoftware.es''"
definition chaincodeInstallFinalizer :: string where "chaincodeInstallFinalizer = ''finalizer.chaincodeInstall.hlf.kungfusoftware.es''"
definition chaincodeFinalizer :: string where "chaincodeFinalizer = ''finalizer.chaincode.hlf.kungfusoftware.es''"
definition identityFinalizer :: string where "identityFinalizer = ''finalizer.identity.hlf.kungfusoftware.es''"
definition networkConfigFinalizer :: string where "networkConfigFinalizer = ''finalizer.networkConfig.hlf.kungfusoftware.es''"
definition ordererFinalizer :: string where "ordererFinalizer = ''finalizer.orderer.hlf.kungfusoftware.es''"
definition peerFinalizer :: string where "peerFinalizer = ''finalizer.peer.hlf.kungfusoftware.es''"
definition consoleFinalizer :: string where "consoleFinalizer = ''finalizer.console.hlf.kungfusoftware.es''"
definition operatorAPIFinalizer :: string where "operatorAPIFinalizer = ''finalizer.operatorapi.hlf.kungfusoftware.es''"
definition operatorUIFinalizer :: string where "operatorUIFinalizer = ''finalizer.operatorui.hlf.kungfusoftware.es''"

definition FabricMainChannel_addFinalizer ::
  "('w, 'a custom_resource_scheme) client \<Rightarrow> 'a custom_resource_scheme \<Rightarrow> ('w, 'a custom_resource_scheme) io" where
  "FabricMainChannel_addFinalizer K = addFinalizer K mainChannelFinalizer"
definition FabricFollowerChannel_addFinalizer ::
  "('w, 'a custom_resource_scheme) client \<Rightarrow> 'a custom_resource_scheme \<Rightarrow> ('w, 'a custom_resource_scheme) io" where
  "FabricFollowerChannel_addFinalizer K = addFinalizer K followerChannelFinalizer"
definition FabricOrdererNode_addFinalizer ::
  "('w, 'a custom_resource_scheme) client \<Rightarrow> 'a custom_resource_scheme \<Rightarrow> ('w, 'a custom_resource_scheme) io" where
  "FabricOrdererNode_addFinalizer K = addFinalizer K ordererNodeFinalizer"
definition FabricCA_addFinalizer ::
  "('w, 'a custom_resource_scheme) client \<Rightarrow> 'a custom_resource_scheme \<Rightarrow> ('w, 'a custom_resource_scheme) io" where
  "FabricCA_addFinalizer K = addFinalizer K caFinalizer"
definition FabricChaincodeApprove_addFinalizer ::
  "('w, 'a custom_resource_scheme) client \<Rightarrow> 'a custom_resource_scheme \<Rightarrow> ('w, 'a custom_resource_scheme) io" where
  "FabricChaincodeApprove_addFinalizer K = addFinalizer K chaincodeApproveFinalizer"
definition FabricChaincodeCommit_addFinalizer ::
  "('w, 'a custom_resource_scheme) client \<Rightarrow> 'a custom_resource_scheme \<Rightarrow> ('w, 'a custom_resource_scheme) io" where
  "FabricChaincodeCommit_addFinalizer K = addFinalizer K chaincodeCommitFinalizer"
definition FabricChaincodeInstall_addFinalizer ::
  "('w, 'a custom_resource_scheme) client \<Rightarrow> 'a custom_resource_scheme \<Rightarrow> ('w, 'a custom_resource_scheme) io" where
  "FabricChaincodeInstall_addFinalizer K = addFinalizer K chaincodeInstallFinalizer"
definition FabricChaincodeDeploy_addFinalizer ::
  "('w, 'a custom_resource_scheme) client \<Rightarrow> 'a custom_resource_scheme \<Rightarrow> ('w, 'a custom_resource_scheme) io" where
  "FabricChaincodeDeploy_addFinalizer K = addFinalizer K chaincodeFinalizer"
definition FabricIdentity_addFinalizer ::
  "('w, 'a custom_resource_scheme) client \<Rightarrow> 'a custom_resource_scheme \<Rightarrow> ('w, 'a custom_resource_scheme) io" where
  "FabricIdentity_addFinalizer K = addFinalizer K identityFinalizer"
definition FabricNetworkConfig_addFinalizer ::
  "('w, 'a custom_resource_scheme) client \<Rightarrow> 'a custom_resource_scheme \<Rightarrow> ('w, 'a custom_resource_scheme) io" where
  "FabricNetworkConfig_addFinalizer K = addFinalizer K networkConfigFinalizer"
definition FabricOrderingService_addFinalizer ::
  "('w, 'a custom_resource_scheme) client \<Rightarrow> 'a custom_resource_scheme \<Rightarrow> ('w, 'a custom_resource_scheme) io" where
  "FabricOrderingService_addFinalizer K = addFinalizer K ordererFinalizer"

text \<open>The other version, of peers, consoles and the operator's UI and API: only a resource without any
  finalizer that is not being deleted gets it.\<close>

definition addFinalizer_if_none ::
  "('w, 'a custom_resource_scheme) client \<Rightarrow> string \<Rightarrow> 'a custom_resource_scheme
   \<Rightarrow> ('w, 'a custom_resource_scheme) io" where
  "addFinalizer_if_none K finalizer m =
     (if length (Finalizers m) < 1 \<and> DeletionTimestamp m = None
      then client_update K (m\<lparr>Finalizers := [finalizer]\<rparr>)
      else io_return m)"

definition FabricPeer_addFinalizer ::
  "('w, 'a custom_resource_scheme) client \<Rightarrow> 'a custom_resource_scheme \<Rightarrow> ('w, 'a custom_resource_scheme) io" where
  "FabricPeer_addFinalizer K = addFinalizer_if_none K peerFinalizer"
definition FabricOperationsConsole_addFinalizer ::
  "('w, 'a custom_resource_scheme) client \<Rightarrow> 'a custom_resource_scheme \<Rightarrow> ('w, 'a custom_resource_scheme) io" where
  "FabricOperationsConsole_addFinalizer K = addFinalizer_if_none K consoleFinalizer"
definition FabricOperatorAPI_addFinalizer ::
  "('w, 'a custom_resource_scheme) client \<Rightarrow> 'a custom_resource_scheme \<Rightarrow> ('w, 'a custom_resource_scheme) io" where
  "FabricOperatorAPI_addFinalizer K = addFinalizer_if_none K operatorAPIFinalizer"
definition FabricOperatorUI_addFinalizer ::
  "('w, 'a custom_resource_scheme) client \<Rightarrow> 'a custom_resource_scheme \<Rightarrow> ('w, 'a custom_resource_scheme) io" where
  "FabricOperatorUI_addFinalizer K = addFinalizer_if_none K operatorUIFinalizer"

text \<open>Removing it again, as the deletion branches do.\<close>

definition removeFinalizer ::
  "('w, 'a custom_resource_scheme) client \<Rightarrow> string \<Rightarrow> 'a custom_resource_scheme
   \<Rightarrow> ('w, 'a custom_resource_scheme) io" where
  "removeFinalizer K finalizer m =
     client_update K (m\<lparr>Finalizers := remove_finalizer K finalizer (Finalizers m)\<rparr>)"

section \<open>What the client promises\<close>

text \<open>
  The documented behaviour of the calls: a successful status update or patch answers with the
  status that was sent (an update sends the whole status), calls do not panic, and
  \<open>controllerutil.AddFinalizer\<close> and \<open>RemoveFinalizer\<close> insert and delete one finalizer.
\<close>

definition update_ok :: "('w, 'a custom_resource_scheme) client \<Rightarrow> bool" where
  "update_ok K \<longleftrightarrow> (\<forall>p w. case fst (status_update K p w) of
        Ok p' \<Rightarrow> crStatus p' = crStatus p \<and> crConditions p' = crConditions p \<and> crMessage p' = crMessage p
      | Err e \<Rightarrow> True | Panic t \<Rightarrow> False)"

definition patch_ok :: "('w, 'a custom_resource_scheme) client \<Rightarrow> bool" where
  "patch_ok K \<longleftrightarrow> (\<forall>q p w. case fst (status_patch K q p w) of
        Ok p' \<Rightarrow> crStatus p' = crStatus p | Err e \<Rightarrow> True | Panic t \<Rightarrow> False)"

definition finalizers_ok :: "('w, 'a custom_resource_scheme) client \<Rightarrow> bool" where
  "finalizers_ok K \<longleftrightarrow> (\<forall>f fs. set (add_finalizer K f fs) = insert f (set fs)
      \<and> set (remove_finalizer K f fs) = set fs - {f})"

definition client_ok :: "('w, 'a custom_resource_scheme) client \<Rightarrow> bool" where
  "client_ok K \<longleftrightarrow> update_ok K \<and> patch_ok K \<and> finalizers_ok K"

lemma client_ok_update:
  assumes "client_ok K"
  shows "(\<exists>p' w'. status_update K p w = (Ok p', w') \<and> crStatus p' = crStatus p
      \<and> crConditions p' = crConditions p \<and> crMessage p' = crMessage p)
   \<or> (\<exists>e w'. status_update K p w = (Err e, w'))"
proof -
  obtain r w' where r: "status_update K p w = (r, w')" by fastforce
  have "case fst (status_update K p w) of
      Ok p' \<Rightarrow> crStatus p' = crStatus p \<and> crConditions p' = crConditions p \<and> crMessage p' = crMessage p
    | Err e \<Rightarrow> True | Panic t \<Rightarrow> False"
    using assms unfolding client_ok_def update_ok_def by blast
  with r show ?thesis by (cases r) simp_all
qed

lemma client_ok_patch:
  assumes "client_ok K"
  shows "(\<exists>p' w'. status_patch K q p w = (Ok p', w') \<and> crStatus p' = crStatus p)
   \<or> (\<exists>e w'. status_patch K q p w = (Err e, w'))"
proof -
  obtain r w' where r: "status_patch K q p w = (r, w')" by fastforce
  have "case fst (status_patch K q p w) of
      Ok p' \<Rightarrow> crStatus p' = crStatus p | Err e \<Rightarrow> True | Panic t \<Rightarrow> False"
    using assms unfolding client_ok_def patch_ok_def by blast
  with r show ?thesis by (cases r) simp_all
qed

lemma client_ok_finalizers:
  "client_ok K \<Longrightarrow> set (add_finalizer K f fs) = insert f (set fs)"
  "client_ok K \<Longrightarrow> set (remove_finalizer K f fs) = set fs - {f}"
  by (simp_all add: client_ok_def finalizers_ok_def)

section \<open>The status writers\<close>

lemma put_condition_simps:
  "crStatus (fst (put_condition now c p)) = crStatus p"
  "crMessage (fst (put_condition now c p)) = crMessage p"
  "crConditions (fst (put_condition now c p)) = fst (SetCondition now c (crConditions p))"
  by (simp_all add: put_condition_def)

lemma set_message_simps [simp]:
  "set_message None p = p" "set_message (Some e) p = p\<lparr>crMessage := error_text e\<rparr>"
  "crStatus (set_message err p) = crStatus p" "crConditions (set_message err p) = crConditions p"
  by (simp_all add: set_message_def split: option.split)

lemma condition_of_simps [simp]:
  "Type (condition_of t st err) = t" "Status (condition_of t st err) = st"
  "Reason (condition_of t st None) = []" "Message (condition_of t st None) = []"
  "Reason (condition_of t st (Some e)) = error_text e"
  "Message (condition_of t st (Some e)) = error_text e"
  by (simp_all add: condition_of_def split: option.split)

text \<open>
  The contract of a pair of status functions: writing a status always succeeds and leaves it as the
  status and as the status of its condition, and a resource whose failure has been written back is
  looked at again.
\<close>

locale failure_reporter =
  fixes setc :: "('w, 'a custom_resource_scheme) client \<Rightarrow> 'a custom_resource_scheme \<Rightarrow> string \<Rightarrow> bool
      \<Rightarrow> go_error option \<Rightarrow> bool \<Rightarrow> ('w, 'a custom_resource_scheme \<times> bool) io"
    and upd :: "('w, 'a custom_resource_scheme) client \<Rightarrow> 'a custom_resource_scheme \<Rightarrow> ('w, Result) io"
  assumes setc_status: "client_ok K \<Longrightarrow> \<exists>p' b w'. setc K p t f e u w = (Ok (p', b), w')
      \<and> crStatus p' = t
      \<and> (\<exists>c. GetCondition (crConditions p') t = Some c \<and> Status c = statusStr u f)"
    and upd_failed: "client_ok K \<Longrightarrow> crStatus p = FailedStatus \<Longrightarrow> retried (fst (upd K p w))"
begin

text \<open>The tail of every error branch: mark the resource as failed, write it back.\<close>

definition report :: "('w, 'a custom_resource_scheme) client \<Rightarrow> 'a custom_resource_scheme \<Rightarrow> go_error
    \<Rightarrow> ('w, Result) io" where
  "report K p e = io_bind (setc K p FailedStatus False (Some e) False) (\<lambda>(p, _). upd K p)"

lemma report_retried: "client_ok K \<Longrightarrow> retried (fst (report K p e w))"
  using setc_status [of K p FailedStatus False "Some e" False w]
  by (auto simp: report_def io_simps intro: upd_failed)

end

text \<open>The outcomes of the patching version.\<close>

lemma set_status_same:
  "crStatus p = t \<Longrightarrow> setConditionStatus_with nt K p t f err u w =
     (Ok (put_condition (clock_now K w) (condition_of t (statusStr u f) err) (nt err p)), w)"
  by (simp add: setConditionStatus_with_def io_simps Let_def)

lemma set_status_patched:
  "crStatus p \<noteq> t \<Longrightarrow> status_patch K p (p\<lparr>crStatus := t\<rparr>) w = (Ok p'', w') \<Longrightarrow>
     setConditionStatus_with nt K p t f err u w =
       (Ok (put_condition (clock_now K w') (condition_of t (statusStr u f) None) (nt None p'')), w')"
  by (simp add: setConditionStatus_with_def io_simps Let_def)

lemma set_status_unpatched:
  "crStatus p \<noteq> t \<Longrightarrow> status_patch K p (p\<lparr>crStatus := t\<rparr>) w = (Err e, w') \<Longrightarrow>
     setConditionStatus_with nt K p t f err u w =
       (Ok (put_condition (clock_now K w') (condition_of t (statusStr u f) (Some e))
          (nt (Some e) (p\<lparr>crStatus := t\<rparr>))), w')"
  by (simp add: setConditionStatus_with_def io_simps Let_def)

lemma stored_condition:
  "\<exists>c. GetCondition (crConditions (fst (put_condition now (condition_of t st err) p))) t = Some c
      \<and> Status c = st \<and> Reason c = Reason (condition_of t st err)
      \<and> Message c = Message (condition_of t st err)"
  using cond.get_put_status [of now "condition_of t st err" "crConditions p"]
  by (auto simp: put_condition_simps)

lemma put_condition_status:
  "crStatus p = t \<Longrightarrow> \<exists>p' b w'. (Ok (put_condition now (condition_of t st err) p) :: _ res, w) = (Ok (p', b), w')
     \<and> crStatus p' = t \<and> (\<exists>c. GetCondition (crConditions p') t = Some c \<and> Status c = st)"
  using stored_condition [of now t st err p]
  by (cases "put_condition now (condition_of t st err) p") (auto simp: put_condition_def)

lemma set_status_status:
  assumes "client_ok K" and nt: "\<And>err p. crStatus (nt err p) = crStatus p"
  shows "\<exists>p' b w'. setConditionStatus_with nt K p t f e u w = (Ok (p', b), w') \<and> crStatus p' = t
      \<and> (\<exists>c. GetCondition (crConditions p') t = Some c \<and> Status c = statusStr u f)"
proof (cases "crStatus p = t")
  case True
  then show ?thesis by (simp only: set_status_same) (rule put_condition_status, simp add: nt)
next
  case False
  consider (patched) p' w' where "status_patch K p (p\<lparr>crStatus := t\<rparr>) w = (Ok p', w')" "crStatus p' = t"
    | (unpatched) e w' where "status_patch K p (p\<lparr>crStatus := t\<rparr>) w = (Err e, w')"
    using client_ok_patch [OF assms(1), of p "p\<lparr>crStatus := t\<rparr>" w] by auto
  then show ?thesis
  proof cases
    case patched
    show ?thesis unfolding set_status_patched [OF False patched(1)]
      by (rule put_condition_status) (simp add: nt patched(2))
  next
    case unpatched
    show ?thesis unfolding set_status_unpatched [OF False unpatched]
      by (rule put_condition_status) (simp add: nt)
  qed
qed

lemma FabricCA_status:
  "\<exists>p' b w'. FabricCA_setConditionStatus K p t f e u w = (Ok (p', b), w') \<and> crStatus p' = t
      \<and> (\<exists>c. GetCondition (crConditions p') t = Some c \<and> Status c = statusStr u f)"
  unfolding FabricCA_setConditionStatus_def Let_def by (rule put_condition_status) simp

lemma set_or_clear_status: "crStatus (set_or_clear_message err p) = crStatus p"
  by (simp add: set_or_clear_message_def split: option.split)

lemmas copies_setConditionStatus = setConditionStatus_def
  FabricMainChannel_setConditionStatus_def FabricFollowerChannel_setConditionStatus_def
  FabricPeer_setConditionStatus_def FabricOrdererNode_setConditionStatus_def
  FabricChaincodeApprove_setConditionStatus_def FabricChaincodeCommit_setConditionStatus_def
  FabricChaincodeInstall_setConditionStatus_def FabricIdentity_setConditionStatus_def
  FabricNetworkConfig_setConditionStatus_def FabricOperationsConsole_setConditionStatus_def
  FabricOperatorAPI_setConditionStatus_def FabricOperatorUI_setConditionStatus_def

section \<open>Which controllers keep the contract\<close>

lemma update_retried_if:
  assumes "client_ok K" and "\<And>p' w'. crStatus p' = crStatus p \<Longrightarrow> retried (fst (f p' w'))"
    and "\<And>e w'. retried (fst (h e w'))"
  shows "retried (fst (io_try (status_update K p) f h w))"
  using client_ok_update [OF assms(1), of p w] assms(2,3) by (auto simp: io_simps)

lemmas requeue_simps = requeue_after_def Minute_def Second_def no_requeue_def

lemma channel_update_retried:
  assumes "client_ok K" and "crStatus p = FailedStatus"
  shows "retried (fst (FabricMainChannel_updateCRStatusOrFailReconcile K p w))"
    and "retried (fst (FabricFollowerChannel_updateCRStatusOrFailReconcile K p w))"
  unfolding FabricMainChannel_updateCRStatusOrFailReconcile_def
    FabricFollowerChannel_updateCRStatusOrFailReconcile_def
  by (rule update_retried_if [OF assms(1)]; simp add: assms(2) io_simps requeue_simps)+

lemma chaincode_update_retried:
  "client_ok K \<Longrightarrow> crStatus p = FailedStatus \<Longrightarrow> retried (fst (chaincode_update K p w))"
  unfolding chaincode_update_def
  by (rule update_retried_if) (simp_all add: io_simps requeue_simps)

lemma periodic_update_retried:
  assumes "client_ok K"
  shows "retried (fst (FabricPeer_updateCRStatusOrFailReconcile K p w))"
    and "retried (fst (FabricIdentity_updateCRStatusOrFailReconcile K p w))"
  unfolding FabricPeer_updateCRStatusOrFailReconcile_def
    FabricIdentity_updateCRStatusOrFailReconcile_def
    FabricIdentity_updateCRStatusOrFailReconcileWithRequeue_def
  by (rule update_retried_if [OF assms]; simp add: io_simps requeue_simps)+

lemmas copies_chaincode_update = FabricChaincodeApprove_updateCRStatusOrFailReconcile_def
  FabricChaincodeCommit_updateCRStatusOrFailReconcile_def
  FabricChaincodeInstall_updateCRStatusOrFailReconcile_def

lemma copies_status:
  assumes "client_ok K"
  shows "\<exists>p' b w'. setConditionStatus K p t f e u w = (Ok (p', b), w') \<and> crStatus p' = t
      \<and> (\<exists>c. GetCondition (crConditions p') t = Some c \<and> Status c = statusStr u f)"
  unfolding setConditionStatus_def by (rule set_status_status [OF assms]) simp

interpretation mainchannel: failure_reporter FabricMainChannel_setConditionStatus
  FabricMainChannel_updateCRStatusOrFailReconcile
  by (unfold_locales, unfold FabricMainChannel_setConditionStatus_def)
     (simp_all only: copies_status channel_update_retried)

interpretation follower: failure_reporter FabricFollowerChannel_setConditionStatus
  FabricFollowerChannel_updateCRStatusOrFailReconcile
  by (unfold_locales, unfold FabricFollowerChannel_setConditionStatus_def)
     (simp_all only: copies_status channel_update_retried)

interpretation peer: failure_reporter FabricPeer_setConditionStatus
  FabricPeer_updateCRStatusOrFailReconcile
  by (unfold_locales, unfold FabricPeer_setConditionStatus_def)
     (simp_all only: copies_status periodic_update_retried)

interpretation ident: failure_reporter FabricIdentity_setConditionStatus
  FabricIdentity_updateCRStatusOrFailReconcile
  by (unfold_locales, unfold FabricIdentity_setConditionStatus_def)
     (simp_all only: copies_status periodic_update_retried)

interpretation approve: failure_reporter FabricChaincodeApprove_setConditionStatus
  FabricChaincodeApprove_updateCRStatusOrFailReconcile
  by (unfold_locales, unfold FabricChaincodeApprove_setConditionStatus_def FabricChaincodeApprove_updateCRStatusOrFailReconcile_def)
     (simp_all only: copies_status chaincode_update_retried)

interpretation commit: failure_reporter FabricChaincodeCommit_setConditionStatus
  FabricChaincodeCommit_updateCRStatusOrFailReconcile
  by (unfold_locales, unfold FabricChaincodeCommit_setConditionStatus_def FabricChaincodeCommit_updateCRStatusOrFailReconcile_def)
     (simp_all only: copies_status chaincode_update_retried)

interpretation install: failure_reporter FabricChaincodeInstall_setConditionStatus
  FabricChaincodeInstall_updateCRStatusOrFailReconcile
  by (unfold_locales, unfold FabricChaincodeInstall_setConditionStatus_def FabricChaincodeInstall_updateCRStatusOrFailReconcile_def)
     (simp_all only: copies_status chaincode_update_retried)

section \<open>Properties\<close>

text \<open>A client that answers every call with what it was sent, for the concrete instances.\<close>

definition echo_client :: "(time, custom_resource) client" where
  "echo_client = \<lparr>clock_now = (\<lambda>w. w), client_get = (\<lambda>k w. (Err (NotFound ''gone''), w)),
     client_update = (\<lambda>p w. (Ok p, w + 1)), status_update = (\<lambda>p w. (Ok p, w + 1)),
     status_patch = (\<lambda>q p w. (Ok p, w + 1)),
     add_finalizer = (\<lambda>f fs. if f \<in> set fs then fs else fs @ [f]),
     remove_finalizer = (\<lambda>f fs. filter (\<lambda>g. g \<noteq> f) fs)\<rparr>"

lemma echo_client_ok: "client_ok echo_client"
  by (auto simp: client_ok_def update_ok_def patch_ok_def finalizers_ok_def echo_client_def)

definition running_cr :: custom_resource where
  "running_cr = \<lparr>crName = ''ch'', crNamespace = ''default'', Finalizers = [], DeletionTimestamp = None,
     crConditions = [], crMessage = [], crStatus = RunningStatus\<rparr>"

text \<open>
  The error of a reconciliation that changes the deployment status is lost.  When
  \<open>setConditionStatus\<close> has to change the status and the patch succeeds, the outcome does not depend
  on the error it was given: message, reason and conditions are those of a call without an error, so
  the new condition carries an empty reason and message and \<open>Status.Message\<close> keeps what the server
  answered.  (The call assigns the patch's nil error to its own parameter.)
\<close>
theorem setConditionStatus_first_error_lost:
  assumes "crStatus p \<noteq> t" and "status_patch K p (p\<lparr>crStatus := t\<rparr>) w = (Ok p'', w')"
  shows "\<exists>p' b. setConditionStatus K p t f err u w = (Ok (p', b), w')
      \<and> setConditionStatus K p t f None u w = (Ok (p', b), w')
      \<and> crMessage p' = crMessage p''
      \<and> (\<exists>c. GetCondition (crConditions p') t = Some c \<and> Reason c = [] \<and> Message c = [])"
proof -
  let ?r = "put_condition (clock_now K w') (condition_of t (statusStr u f) None) p''"
  have "setConditionStatus K p t f e u w = (Ok ?r, w')" for e
    by (simp add: setConditionStatus_def set_status_patched [OF assms])
  moreover have "crMessage (fst ?r) = crMessage p''" by (simp add: put_condition_simps)
  moreover note stored_condition [of "clock_now K w'" t "statusStr u f" None p'']
  ultimately show ?thesis by (intro exI [of _ "fst ?r"] exI [of _ "snd ?r"]) auto
qed

theorem setConditionStatus_first_error_lost_witness:
  "\<exists>p' b. setConditionStatus echo_client running_cr FailedStatus False (Some (ErrorString ''no orderer'')) False 7
       = (Ok (p', b), 8) \<and> crMessage p' = []"
  using setConditionStatus_first_error_lost [of running_cr FailedStatus echo_client 7
      "running_cr\<lparr>crStatus := FailedStatus\<rparr>" 8 False "Some (ErrorString ''no orderer'')" False]
  by (auto simp: running_cr_def echo_client_def deployment_status_defs)

text \<open>
  An error that does not change the deployment status is recorded: a resource that already has
  the status gets the error's text as its message and as reason and message of its condition, the
  condition keeps its transition time when it had the same status value, every other condition is
  left alone, and nothing is sent.  The certificate authority's version records the error whatever
  the status was.
\<close>
theorem setConditionStatus_error_recorded:
  assumes "crStatus p = t \<or> setc = FabricCA_setConditionStatus"
    and "setc = setConditionStatus \<or> setc = FabricChaincodeDeploy_setConditionStatus
      \<or> setc = FabricCA_setConditionStatus"
  shows "\<exists>p' b c. setc K p t f (Some e) u w = (Ok (p', b), w)
      \<and> crStatus p' = t \<and> crMessage p' = error_text e
      \<and> GetCondition (crConditions p') t = Some c
      \<and> Status c = statusStr u f \<and> Reason c = error_text e \<and> Message c = error_text e
      \<and> (\<forall>old. GetCondition (crConditions p) t = Some old \<and> Status old = statusStr u f \<longrightarrow>
            LastTransitionTime c = LastTransitionTime old)
      \<and> (\<forall>t'. t' \<noteq> t \<longrightarrow> GetCondition (crConditions p') t' = GetCondition (crConditions p) t')"
proof -
  let ?c = "condition_of t (statusStr u f) (Some e)"
  let ?q = "p\<lparr>crStatus := t, crMessage := error_text e\<rparr>"
  let ?r = "put_condition (clock_now K w) ?c ?q"
  have "setc K p t f (Some e) u w = (Ok ?r, w)"
    using assms
    by (auto simp: setConditionStatus_def FabricChaincodeDeploy_setConditionStatus_def
        FabricCA_setConditionStatus_def set_status_same set_or_clear_message_def)
  moreover obtain c where "GetCondition (crConditions (fst ?r)) t = Some c"
      "Status c = statusStr u f" "Reason c = error_text e" "Message c = error_text e"
    using stored_condition [of "clock_now K w" t "statusStr u f" "Some e" ?q] by auto
  moreover have "LastTransitionTime c = LastTransitionTime old"
    if "GetCondition (crConditions p) t = Some old" "Status old = statusStr u f" for old
    using cond.get_put_old [of "crConditions p" ?c old "clock_now K w"] that
      \<open>GetCondition (crConditions (fst ?r)) t = Some c\<close>
    by (auto simp: put_condition_simps)
  moreover have "GetCondition (crConditions (fst ?r)) t' = GetCondition (crConditions p) t'"
    if "t' \<noteq> t" for t'
    using cond.get_put_other [of t' ?c "clock_now K w" "crConditions p"] that
    by (simp add: put_condition_simps)
  ultimately show ?thesis
    by (intro exI [of _ "fst ?r"] exI [of _ "snd ?r"] exI [of _ c]) (auto simp: put_condition_simps)
qed

theorem setConditionStatus_error_recorded_witness:
  "\<exists>p' b c. FabricCA_setConditionStatus echo_client running_cr FailedStatus False
       (Some (Wrapped ''join'' (ErrorString ''refused''))) False 7 = (Ok (p', b), 7)
     \<and> crMessage p' = ''join: refused'' \<and> GetCondition (crConditions p') FailedStatus = Some c
     \<and> Reason c = ''join: refused''"
  using setConditionStatus_error_recorded [of running_cr FailedStatus FabricCA_setConditionStatus echo_client False
      "Wrapped ''join'' (ErrorString ''refused'')" False 7]
  by auto

text \<open>
  A failed reconciliation is looked at again.  In the channel, peer, identity and chaincode
  approve, commit and install controllers, the tail of an error branch (mark the resource as failed
  with the error, then write the status back) ends in a result the work queue retries or in an
  error, whether or not the patch and the update get through.
\<close>
theorem failure_is_retried:
  assumes "client_ok K"
    and "(setc, upd) \<in> {
      (FabricMainChannel_setConditionStatus, FabricMainChannel_updateCRStatusOrFailReconcile),
      (FabricFollowerChannel_setConditionStatus, FabricFollowerChannel_updateCRStatusOrFailReconcile),
      (FabricPeer_setConditionStatus, FabricPeer_updateCRStatusOrFailReconcile),
      (FabricIdentity_setConditionStatus, FabricIdentity_updateCRStatusOrFailReconcile),
      (FabricChaincodeApprove_setConditionStatus, FabricChaincodeApprove_updateCRStatusOrFailReconcile),
      (FabricChaincodeCommit_setConditionStatus, FabricChaincodeCommit_updateCRStatusOrFailReconcile),
      (FabricChaincodeInstall_setConditionStatus, FabricChaincodeInstall_updateCRStatusOrFailReconcile)}"
  shows "retried (fst (io_bind (setc K p FailedStatus False (Some e) False) (\<lambda>(p, _). upd K p) w))"
  using assms
    mainchannel.report_retried [unfolded mainchannel.report_def, of K p e w]
    follower.report_retried [unfolded follower.report_def, of K p e w]
    peer.report_retried [unfolded peer.report_def, of K p e w]
    ident.report_retried [unfolded ident.report_def, of K p e w]
    approve.report_retried [unfolded approve.report_def, of K p e w]
    commit.report_retried [unfolded commit.report_def, of K p e w]
    install.report_retried [unfolded install.report_def, of K p e w]
  by auto

theorem failure_is_retried_witness:
  "retried (fst (io_bind (FabricPeer_setConditionStatus echo_client running_cr FailedStatus False
      (Some (ErrorString ''x'')) False) (\<lambda>(p, _). FabricPeer_updateCRStatusOrFailReconcile echo_client p) 7))"
  by (rule failure_is_retried [OF echo_client_ok]) simp

end
