(* ===== verification/Channel_Spec.thy ===== *)
theory Channel_Spec imports Custom_Resource Cluster_Lookup "HOL-Library.Word" begin

text \<open>
  The data of the main channel controller: the custom resource \<open>FabricMainChannel\<close> as
  \<open>hlf_types.go\<close> declares it, and the channel configuration of the library \<open>fabric-config\<close> that it is
  translated to.  Pointers are options; a slice is an option only where the code distinguishes nil
  from empty; a Go map that the code ranges over is the list of its entries in the order of the run.
\<close>

section \<open>The specification of a channel\<close>

record FabricMainChannelIdentity =
  SecretNamespace :: string
  SecretName :: string
  SecretKey :: string

record FabricMainChannelPoliciesConfig =
  pc_Type :: string
  pc_Rule :: string
  pc_ModPolicy :: string

record FabricMainChannelApplicationConfig =
  appc_Capabilities :: "string list"
  appc_Policies :: "(string \<times> FabricMainChannelPoliciesConfig) list option"
  appc_ACLs :: "(string \<times> string) list option"

text \<open>Also \<open>orderer.EtcdRaftOptions\<close>, which has the same fields.\<close>

record EtcdRaftOptions =
  TickInterval :: string
  ElectionTick :: "32 word"
  HeartbeatTick :: "32 word"
  MaxInflightBlocks :: "32 word"
  SnapshotIntervalSize :: "32 word"

record FabricMainChannelEtcdRaft =
  raft_Options :: "EtcdRaftOptions option"

datatype Rotation = ROTATION_ON | ROTATION_OFF | ROTATION_UNSPECIFIED | ROTATION_other int

text \<open>Also \<open>smartbft.Options\<close>, which has the same fields.\<close>

record SmartBFTOptions =
  RequestBatchMaxCount :: "64 word"
  RequestBatchMaxBytes :: "64 word"
  RequestBatchMaxInterval :: string
  IncomingMessageBufferSize :: "64 word"
  RequestPoolSize :: "64 word"
  RequestForwardTimeout :: string
  RequestComplainTimeout :: string
  RequestAutoRemoveTimeout :: string
  RequestMaxBytes :: "64 word"
  ViewChangeResendInterval :: string
  ViewChangeTimeout :: string
  LeaderHeartbeatTimeout :: string
  LeaderHeartbeatCount :: "64 word"
  CollectTimeout :: string
  SyncOnStart :: bool
  SpeedUpViewChange :: bool
  LeaderRotation :: Rotation
  DecisionsPerLeader :: "64 word"

record FabricMainChannelOrdererBatchSize =
  spec_MaxMessageCount :: int
  spec_AbsoluteMaxBytes :: int
  spec_PreferredMaxBytes :: int

record FabricMainChannelConsenterItem =
  item_Id :: "32 word"
  item_Host :: string
  item_Port :: "32 word"
  item_MspId :: string
  item_Identity :: string
  item_ClientTlsCert :: string
  item_ServerTlsCert :: string

definition OrdererConsensusEtcdraft :: string where "OrdererConsensusEtcdraft = ''etcdraft''"
definition OrdererConsensusBFT :: string where "OrdererConsensusBFT = ''BFT''"
definition ConsensusStateNormal :: string where "ConsensusStateNormal = ''STATE_NORMAL''"
definition ConsensusStateMaintenance :: string where "ConsensusStateMaintenance = ''STATE_MAINTENANCE''"

record FabricMainChannelOrdererConfig =
  ordc_OrdererType :: string
  ordc_Capabilities :: "string list"
  ordc_Policies :: "(string \<times> FabricMainChannelPoliciesConfig) list option"
  ordc_BatchTimeout :: string
  ordc_BatchSize :: "FabricMainChannelOrdererBatchSize option"
  ordc_State :: string
  ordc_EtcdRaft :: "FabricMainChannelEtcdRaft option"
  ordc_SmartBFT :: "SmartBFTOptions option"
  ordc_ConsenterMapping :: "FabricMainChannelConsenterItem list"

record FabricMainChannelConfig =
  cc_Application :: "FabricMainChannelApplicationConfig option"
  cc_Orderer :: "FabricMainChannelOrdererConfig option"
  cc_Capabilities :: "string list"
  cc_Policies :: "(string \<times> FabricMainChannelPoliciesConfig) list option"

record FabricMainChannelConsenter =
  spec_consenter_Host :: string
  spec_consenter_Port :: int
  spec_consenter_TLSCert :: string

record FabricMainChannelExternalPeerOrganization =
  xpeer_MSPID :: string
  xpeer_TLSRootCert :: string
  xpeer_SignRootCert :: string

record FabricMainChannelExternalOrdererOrganization =
  xord_MSPID :: string
  xord_TLSRootCert :: string
  xord_SignRootCert :: string
  xord_OrdererEndpoints :: "string list"
  xord_RevocationList :: "string list"

record FabricMainChannelPeerOrganization =
  porg_MSPID :: string
  porg_CAName :: string
  porg_CANamespace :: string
  porg_TLSCACert :: string
  porg_SignCACert :: string

record FabricMainChannelExternalOrdererNode =
  join_Host :: string
  join_AdminPort :: int

record FabricMainChannelOrdererNode =
  join_Name :: string
  join_Namespace :: string

record FabricMainChannelOrdererOrganization =
  oorg_MSPID :: string
  oorg_CAName :: string
  oorg_CANamespace :: string
  oorg_TLSCACert :: string
  oorg_SignCACert :: string
  oorg_RevocationList :: "string list"
  oorg_OrdererEndpoints :: "string list"
  OrderersToJoin :: "FabricMainChannelOrdererNode list"
  ExternalOrderersToJoin :: "FabricMainChannelExternalOrdererNode list"

text \<open>
  \<open>AdminPeerOrganizations\<close> and \<open>AdminOrdererOrganizations\<close> are lists of structs with the MSP as their
  one field.  The second is compared with nil.
\<close>

record FabricMainChannelSpec =
  spec_Name :: string
  Identities :: "string \<rightharpoonup> FabricMainChannelIdentity"
  AdminPeerOrganizations :: "string list"
  PeerOrganizations :: "FabricMainChannelPeerOrganization list"
  ExternalPeerOrganizations :: "FabricMainChannelExternalPeerOrganization list"
  ChannelConfig :: "FabricMainChannelConfig option"
  AdminOrdererOrganizations :: "string list option"
  OrdererOrganizations :: "FabricMainChannelOrdererOrganization list"
  ExternalOrdererOrganizations :: "FabricMainChannelExternalOrdererOrganization list"
  Consenters :: "FabricMainChannelConsenter list"

record FabricMainChannel = custom_resource +
  Spec :: FabricMainChannelSpec

section \<open>The configuration of a channel\<close>

text \<open>Certificates and revocation lists: the code reads a certificate's raw bytes only.\<close>

record certificate =
  Raw :: string

datatype crl = CertificateList string

record Policy =
  policy_Type :: string
  policy_Rule :: string

record OUIdentifier =
  ou_Certificate :: "certificate option"
  OrganizationalUnitIdentifier :: string

record NodeOUs =
  Enable :: bool
  ClientOUIdentifier :: OUIdentifier
  PeerOUIdentifier :: OUIdentifier
  AdminOUIdentifier :: OUIdentifier
  OrdererOUIdentifier :: OUIdentifier

record MSP =
  msp_Name :: string
  RootCerts :: "certificate option list"
  TLSRootCerts :: "certificate option list"
  msp_NodeOUs :: NodeOUs
  msp_Admins :: "certificate option list"
  IntermediateCerts :: "certificate option list"
  RevocationList :: "crl list"

record Address =
  Host :: string
  Port :: int

record ChannelOrganization =
  org_Name :: string
  org_Policies :: "string \<rightharpoonup> Policy"
  org_MSP :: MSP
  AnchorPeers :: "Address list"
  OrdererEndpoints :: "string list"
  ModPolicy :: string

text \<open>\<open>orderer.Consenter\<close> of Raft and \<open>common.Consenter\<close> of BFT.\<close>

record Consenter =
  consenter_Address :: Address
  ClientTLSCert :: certificate
  ServerTLSCert :: certificate

record BFTConsenter =
  bft_Id :: "32 word"
  bft_Host :: string
  bft_Port :: "32 word"
  bft_MspId :: string
  bft_Identity :: string
  bft_ClientTlsCert :: string
  bft_ServerTlsCert :: string

record EtcdRaft =
  raft_Consenters :: "Consenter list"
  EtcdRaft_Options :: EtcdRaftOptions

record BatchSize =
  MaxMessageCount :: "32 word"
  AbsoluteMaxBytes :: "32 word"
  PreferredMaxBytes :: "32 word"

record Orderer =
  OrdererType :: string
  ord_Organizations :: "ChannelOrganization list"
  ConsenterMapping :: "BFTConsenter list"
  SmartBFT :: "SmartBFTOptions option"
  ord_EtcdRaft :: EtcdRaft
  ord_Policies :: "string \<rightharpoonup> Policy"
  ord_Capabilities :: "string list"
  ConsensusState :: string
  ord_BatchSize :: BatchSize
  BatchTimeout :: int

record Application =
  app_Organizations :: "ChannelOrganization list"
  app_Capabilities :: "string list"
  app_Policies :: "string \<rightharpoonup> Policy"
  ACLs :: "(string \<times> string) list option"

record Channel =
  channel_Orderer :: Orderer
  channel_Application :: Application
  channel_Capabilities :: "string list"
  channel_Policies :: "string \<rightharpoonup> Policy"

end
