(* ===== verification/Channel_Config.thy ===== *)
theory Channel_Config imports Channel_Spec begin

text \<open>
  The translation of a \<open>FabricMainChannel\<close> to a channel configuration: \<open>mapToConfigTX\<close> of
  \<open>mainchannel_controller.go\<close>, block by block, with \<open>mapOrdererOrg\<close>, \<open>mapPeerOrg\<close>, \<open>mapPolicy\<close> and
  \<open>defaultApplicationACLs\<close>.  PEM, X.509 and duration parsing and the Kubernetes clients are the
  parameter \<open>channel_lib\<close>.
\<close>

record 'w channel_lib =
  kube_client :: "('w, unit) io"
  operator_client :: "('w, unit) io"
  lib_cluster :: "'w cluster"
  pem_decode :: "string \<Rightarrow> string option"
  pem_encode :: "string \<times> string \<Rightarrow> string"
  x509_ParseCertificate :: "string \<Rightarrow> certificate res"
  x509_ParseCRL :: "string \<Rightarrow> crl res"
  time_ParseDuration :: "string \<Rightarrow> int res"

definition parse_cert :: "'w channel_lib \<Rightarrow> string \<Rightarrow> certificate res" where
  "parse_cert L = ParseX509Certificate (pem_decode L) (x509_ParseCertificate L)"

definition parse_crl :: "'w channel_lib \<Rightarrow> string \<Rightarrow> crl res" where
  "parse_crl L = ParseCRL (pem_decode L) (x509_ParseCRL L)"

definition encode_cert :: "'w channel_lib \<Rightarrow> certificate \<Rightarrow> string" where
  "encode_cert L = EncodeX509Certificate (pem_encode L) Raw"

section \<open>Organizations\<close>

definition Signature :: "string \<Rightarrow> Policy" where
  "Signature rule = \<lparr>policy_Type = ''Signature'', policy_Rule = rule\<rparr>"

definition ImplicitMeta :: "string \<Rightarrow> Policy" where
  "ImplicitMeta rule = \<lparr>policy_Type = ''ImplicitMeta'', policy_Rule = rule\<rparr>"

definition quoted :: "string \<Rightarrow> string" where
  "quoted s = CHR 0x27 # s @ [CHR 0x27]"

text \<open>The four policies of an organization.\<close>

definition org_policies :: "string \<Rightarrow> string \<rightharpoonup> Policy" where
  "org_policies mspID = [
     ''Admins'' \<mapsto> Signature (''OR('' @ quoted (mspID @ ''.admin'') @ '')''),
     ''Readers'' \<mapsto> Signature (''OR('' @ quoted (mspID @ ''.member'') @ '')''),
     ''Writers'' \<mapsto> Signature (''OR('' @ quoted (mspID @ ''.member'') @ '')''),
     ''Endorsement'' \<mapsto> Signature (''OR('' @ quoted (mspID @ ''.member'') @ '')'')]"

text \<open>
  The membership provider of an organization: one root certificate for signing, also for the node
  roles, and one for TLS; either may be the nil pointer.
\<close>

definition org_msp :: "string \<Rightarrow> certificate option \<Rightarrow> certificate option \<Rightarrow> crl list \<Rightarrow> MSP" where
  "org_msp mspID caCert tlsCACert revocationList =
     \<lparr>msp_Name = mspID, RootCerts = [caCert], TLSRootCerts = [tlsCACert],
      msp_NodeOUs = \<lparr>Enable = True,
        ClientOUIdentifier = \<lparr>ou_Certificate = caCert, OrganizationalUnitIdentifier = ''client''\<rparr>,
        PeerOUIdentifier = \<lparr>ou_Certificate = caCert, OrganizationalUnitIdentifier = ''peer''\<rparr>,
        AdminOUIdentifier = \<lparr>ou_Certificate = caCert, OrganizationalUnitIdentifier = ''admin''\<rparr>,
        OrdererOUIdentifier = \<lparr>ou_Certificate = caCert, OrganizationalUnitIdentifier = ''orderer''\<rparr>\<rparr>,
      msp_Admins = [], IntermediateCerts = [], RevocationList = revocationList\<rparr>"

definition mapOrdererOrg ::
  "string \<Rightarrow> string list \<Rightarrow> certificate option \<Rightarrow> certificate option \<Rightarrow> crl list \<Rightarrow> ChannelOrganization" where
  "mapOrdererOrg mspID ordererEndpoints caCert tlsCACert revocationList =
     \<lparr>org_Name = mspID, org_Policies = org_policies mspID,
      org_MSP = org_msp mspID caCert tlsCACert revocationList,
      AnchorPeers = [], OrdererEndpoints = ordererEndpoints, ModPolicy = []\<rparr>"

definition mapPeerOrg :: "string \<Rightarrow> certificate option \<Rightarrow> certificate option \<Rightarrow> ChannelOrganization" where
  "mapPeerOrg mspID caCert tlsCACert =
     \<lparr>org_Name = mspID, org_Policies = org_policies mspID, org_MSP = org_msp mspID caCert tlsCACert [],
      AnchorPeers = [], OrdererEndpoints = [], ModPolicy = []\<rparr>"

text \<open>Root certificates from the certificate authority of that name, and from two PEM texts.\<close>

definition certs_of_ca ::
  "'w channel_lib \<Rightarrow> string \<Rightarrow> string \<Rightarrow> ('w, certificate option \<times> certificate option) io" where
  "certs_of_ca L name ns =
     io_bind (GetCertAuthByName (lib_cluster L) name ns) (\<lambda>certAuth.
     io_bind (io_lift (parse_cert L (TLSCACert (CA_Object certAuth)))) (\<lambda>tlsCACert.
     io_bind (io_lift (parse_cert L (CACert (CA_Object certAuth)))) (\<lambda>caCert.
       io_return (Some caCert, Some tlsCACert))))"

definition certs_given ::
  "'w channel_lib \<Rightarrow> string \<Rightarrow> string \<Rightarrow> ('w, certificate option \<times> certificate option) io" where
  "certs_given L tls sign =
     io_bind (io_lift (parse_cert L tls)) (\<lambda>tlsCACert.
     io_bind (io_lift (parse_cert L sign)) (\<lambda>caCert. io_return (Some caCert, Some tlsCACert)))"

text \<open>
  An ordering organization: the authority if name and namespace are given, else the two PEM texts if
  both are given, else neither certificate.
\<close>

definition map_orderer_organization ::
  "'w channel_lib \<Rightarrow> FabricMainChannelOrdererOrganization \<Rightarrow> ('w, ChannelOrganization) io" where
  "map_orderer_organization L o' =
     io_bind
       (if oorg_CAName o' \<noteq> [] \<and> oorg_CANamespace o' \<noteq> []
        then certs_of_ca L (oorg_CAName o') (oorg_CANamespace o')
        else if oorg_TLSCACert o' \<noteq> [] \<and> oorg_SignCACert o' \<noteq> []
        then certs_given L (oorg_TLSCACert o') (oorg_SignCACert o')
        else io_return (None, None))
       (\<lambda>(caCert, tlsCACert).
     io_bind (io_wrap (''failed to parse revocation list for orderer org '' @ oorg_MSPID o')
         (io_lift (res_map (parse_crl L) (oorg_RevocationList o'))))
       (\<lambda>revocationList.
       io_return (mapOrdererOrg (oorg_MSPID o') (oorg_OrdererEndpoints o') caCert tlsCACert revocationList)))"

definition map_external_orderer_organization ::
  "'w channel_lib \<Rightarrow> FabricMainChannelExternalOrdererOrganization \<Rightarrow> ('w, ChannelOrganization) io" where
  "map_external_orderer_organization L o' =
     io_bind (certs_given L (xord_TLSRootCert o') (xord_SignRootCert o')) (\<lambda>(caCert, tlsCACert).
     io_bind (io_lift (res_map (parse_crl L) (xord_RevocationList o'))) (\<lambda>revocationList.
       io_return (mapOrdererOrg (xord_MSPID o') (xord_OrdererEndpoints o') caCert tlsCACert revocationList)))"

text \<open>A peer organization: the PEM texts if both are given, else the authority.\<close>

definition map_peer_organization ::
  "'w channel_lib \<Rightarrow> FabricMainChannelPeerOrganization \<Rightarrow> ('w, ChannelOrganization) io" where
  "map_peer_organization L p =
     io_bind
       (if porg_TLSCACert p \<noteq> [] \<and> porg_SignCACert p \<noteq> []
        then certs_given L (porg_TLSCACert p) (porg_SignCACert p)
        else certs_of_ca L (porg_CAName p) (porg_CANamespace p))
       (\<lambda>(caCert, tlsCACert). io_return (mapPeerOrg (porg_MSPID p) caCert tlsCACert))"

definition map_external_peer_organization ::
  "'w channel_lib \<Rightarrow> FabricMainChannelExternalPeerOrganization \<Rightarrow> ('w, ChannelOrganization) io" where
  "map_external_peer_organization L p =
     io_bind (certs_given L (xpeer_TLSRootCert p) (xpeer_SignRootCert p))
       (\<lambda>(caCert, tlsCACert). io_return (mapPeerOrg (xpeer_MSPID p) caCert tlsCACert))"

section \<open>Policies and access control\<close>

text \<open>\<open>OR('A.admin','B.admin')\<close>, the separator after every entry but the last.\<close>

definition admin_rule :: "string list \<Rightarrow> string" where
  "admin_rule mspIDs = ''OR('' @ join_with '','' (map (\<lambda>m. quoted (m @ ''.admin'')) mspIDs) @ '')''"

definition orderer_admin_rule :: "FabricMainChannelSpec \<Rightarrow> string" where
  "orderer_admin_rule spec = (case AdminOrdererOrganizations spec of
       None \<Rightarrow> ''MAJORITY Admins'' | Some orgs \<Rightarrow> admin_rule orgs)"

definition orderer_policies :: "FabricMainChannelSpec \<Rightarrow> string \<rightharpoonup> Policy" where
  "orderer_policies spec = [
     ''Readers'' \<mapsto> ImplicitMeta ''ANY Readers'',
     ''Writers'' \<mapsto> ImplicitMeta ''ANY Writers'',
     ''Admins'' \<mapsto> Signature (orderer_admin_rule spec),
     ''BlockValidation'' \<mapsto> ImplicitMeta ''ANY Writers'']"

definition application_admin_rule :: "FabricMainChannelSpec \<Rightarrow> string" where
  "application_admin_rule spec =
     (if length (AdminPeerOrganizations spec) = 0 then ''MAJORITY Admins''
      else admin_rule (AdminPeerOrganizations spec))"

definition application_policies :: "FabricMainChannelSpec \<Rightarrow> string \<rightharpoonup> Policy" where
  "application_policies spec = [
     ''Readers'' \<mapsto> ImplicitMeta ''ANY Readers'',
     ''Writers'' \<mapsto> ImplicitMeta ''ANY Writers'',
     ''Admins'' \<mapsto> Signature (application_admin_rule spec),
     ''Endorsement'' \<mapsto> ImplicitMeta ''MAJORITY Endorsement'',
     ''LifecycleEndorsement'' \<mapsto> ImplicitMeta ''MAJORITY Endorsement'']"

definition default_channel_policies :: "string \<rightharpoonup> Policy" where
  "default_channel_policies = [
     ''Readers'' \<mapsto> ImplicitMeta ''ANY Readers'',
     ''Writers'' \<mapsto> ImplicitMeta ''ANY Writers'',
     ''Admins'' \<mapsto> ImplicitMeta ''MAJORITY Admins'']"

definition mapPolicy :: "(string \<times> FabricMainChannelPoliciesConfig) list \<Rightarrow> string \<rightharpoonup> Policy" where
  "mapPolicy policies = fold (\<lambda>(policyName, policyConfig) policiesMap. policiesMap(policyName \<mapsto>
       \<lparr>policy_Type = pc_Type policyConfig, policy_Rule = pc_Rule policyConfig\<rparr>)) policies Map.empty"

definition application_Readers :: string where "application_Readers = ''/Channel/Application/Readers''"
definition application_Writers :: string where "application_Writers = ''/Channel/Application/Writers''"

definition defaultApplicationACLs :: "(string \<times> string) list" where
  "defaultApplicationACLs = [
     (''_lifecycle/CheckCommitReadiness'', application_Writers),
     (''_lifecycle/CommitChaincodeDefinition'', application_Writers),
     (''_lifecycle/QueryChaincodeDefinition'', application_Writers),
     (''_lifecycle/QueryChaincodeDefinitions'', application_Writers),
     (''lscc/ChaincodeExists'', application_Readers),
     (''lscc/GetDeploymentSpec'', application_Readers),
     (''lscc/GetChaincodeData'', application_Readers),
     (''lscc/GetInstantiatedChaincodes'', application_Readers),
     (''qscc/GetChainInfo'', application_Readers),
     (''qscc/GetBlockByNumber'', application_Readers),
     (''qscc/GetBlockByHash'', application_Readers),
     (''qscc/GetTransactionByID'', application_Readers),
     (''qscc/GetBlockByTxID'', application_Readers),
     (''cscc/GetConfigBlock'', application_Readers),
     (''cscc/GetChannelConfig'', application_Readers),
     (''peer/Propose'', application_Writers),
     (''peer/ChaincodeToChaincode'', application_Writers),
     (''event/Block'', application_Readers),
     (''event/FilteredBlock'', application_Readers)]"


section \<open>The ordering service\<close>

definition default_raft_options :: EtcdRaftOptions where
  "default_raft_options = \<lparr>TickInterval = ''500ms'', ElectionTick = 10, HeartbeatTick = 1,
     MaxInflightBlocks = 5, SnapshotIntervalSize = 16 * 1024 * 1024\<rparr>"

definition raft_options :: "FabricMainChannelSpec \<Rightarrow> EtcdRaftOptions" where
  "raft_options spec = (case ChannelConfig spec of
       None \<Rightarrow> default_raft_options
     | Some c \<Rightarrow> (case cc_Orderer c of
         None \<Rightarrow> default_raft_options
       | Some ord \<Rightarrow> (case ordc_EtcdRaft ord of
           None \<Rightarrow> default_raft_options
         | Some raft \<Rightarrow> (case raft_Options raft of
             None \<Rightarrow> default_raft_options
           | Some options \<Rightarrow> options))))"

definition map_bft_consenter :: "'w channel_lib \<Rightarrow> FabricMainChannelConsenterItem \<Rightarrow> BFTConsenter res" where
  "map_bft_consenter L item =
     res_bind (parse_cert L (item_Identity item)) (\<lambda>identityCert.
     res_bind (parse_cert L (item_ClientTlsCert item)) (\<lambda>clientTLSCert.
     res_bind (parse_cert L (item_ServerTlsCert item)) (\<lambda>serverTLSCert.
       Ok \<lparr>bft_Id = item_Id item, bft_Host = item_Host item, bft_Port = item_Port item,
           bft_MspId = item_MspId item, bft_Identity = encode_cert L identityCert,
           bft_ClientTlsCert = encode_cert L clientTLSCert,
           bft_ServerTlsCert = encode_cert L serverTLSCert\<rparr>)))"

definition map_raft_consenter :: "'w channel_lib \<Rightarrow> FabricMainChannelConsenter \<Rightarrow> Consenter res" where
  "map_raft_consenter L c = res_bind (parse_cert L (spec_consenter_TLSCert c)) (\<lambda>tlsCert.
     Ok \<lparr>consenter_Address = \<lparr>Host = spec_consenter_Host c, Port = spec_consenter_Port c\<rparr>,
         ClientTLSCert = tlsCert, ServerTLSCert = tlsCert\<rparr>)"

definition leader_rotation :: "Rotation \<Rightarrow> Rotation" where
  "leader_rotation r = (if r = ROTATION_ON then ROTATION_ON
     else if r = ROTATION_OFF then ROTATION_OFF else ROTATION_UNSPECIFIED)"

definition smart_bft_options :: "SmartBFTOptions \<Rightarrow> SmartBFTOptions" where
  "smart_bft_options o' = \<lparr>RequestBatchMaxCount = RequestBatchMaxCount o',
     RequestBatchMaxBytes = RequestBatchMaxBytes o', RequestBatchMaxInterval = RequestBatchMaxInterval o',
     IncomingMessageBufferSize = IncomingMessageBufferSize o', RequestPoolSize = RequestPoolSize o',
     RequestForwardTimeout = RequestForwardTimeout o', RequestComplainTimeout = RequestComplainTimeout o',
     RequestAutoRemoveTimeout = RequestAutoRemoveTimeout o', RequestMaxBytes = RequestMaxBytes o',
     ViewChangeResendInterval = ViewChangeResendInterval o', ViewChangeTimeout = ViewChangeTimeout o',
     LeaderHeartbeatTimeout = LeaderHeartbeatTimeout o', LeaderHeartbeatCount = LeaderHeartbeatCount o',
     CollectTimeout = CollectTimeout o', SyncOnStart = SyncOnStart o',
     SpeedUpViewChange = SpeedUpViewChange o', LeaderRotation = leader_rotation (LeaderRotation o'),
     DecisionsPerLeader = DecisionsPerLeader o'\<rparr>"

text \<open>What the branches on the consensus type set: type, consenters of BFT, its options, Raft.\<close>

record consensus =
  cons_Type :: string
  cons_Mapping :: "BFTConsenter list"
  cons_SmartBFT :: "SmartBFTOptions option"
  cons_EtcdRaft :: EtcdRaft

definition zero_EtcdRaft :: EtcdRaft where
  "zero_EtcdRaft = \<lparr>raft_Consenters = [], EtcdRaft_Options = \<lparr>TickInterval = [], ElectionTick = 0,
     HeartbeatTick = 0, MaxInflightBlocks = 0, SnapshotIntervalSize = 0\<rparr>\<rparr>"

definition map_consensus ::
  "'w channel_lib \<Rightarrow> FabricMainChannelSpec \<Rightarrow> FabricMainChannelOrdererConfig \<Rightarrow> consensus res" where
  "map_consensus L spec ord =
     (if ordc_OrdererType ord = OrdererConsensusBFT
      then if length (ordc_ConsenterMapping ord) \<le> 4
        then Err (ErrorString ''consenter mapping needs to be at least 4'')
        else res_bind (res_map (map_bft_consenter L) (ordc_ConsenterMapping ord)) (\<lambda>consenterMapping.
          case ordc_SmartBFT ord of
            None \<Rightarrow> Panic ''nil pointer dereference''
          | Some bft \<Rightarrow> Ok \<lparr>cons_Type = OrdererConsensusBFT, cons_Mapping = consenterMapping,
              cons_SmartBFT = Some (smart_bft_options bft), cons_EtcdRaft = zero_EtcdRaft\<rparr>)
      else if ordc_OrdererType ord = OrdererConsensusEtcdraft
      then res_bind (res_map (map_raft_consenter L) (Consenters spec)) (\<lambda>consenters.
          Ok \<lparr>cons_Type = OrdererConsensusEtcdraft, cons_Mapping = [], cons_SmartBFT = None,
            cons_EtcdRaft = \<lparr>raft_Consenters = consenters, EtcdRaft_Options = raft_options spec\<rparr>\<rparr>)
      else Err (ErrorString (''orderer type '' @ ordc_OrdererType ord @ '' not supported'')))"

definition consensus_state :: "FabricMainChannelOrdererConfig \<Rightarrow> string" where
  "consensus_state ord = (if ordc_State ord = ConsensusStateMaintenance
     then ConsensusStateMaintenance else ConsensusStateNormal)"

text \<open>Timeout and sizes of a batch, with the conversions of \<open>int\<close> to \<open>uint32\<close>.\<close>

definition map_batch_timeout :: "'w channel_lib \<Rightarrow> FabricMainChannelOrdererConfig \<Rightarrow> int res" where
  "map_batch_timeout L ord = (if ordc_BatchTimeout ord \<noteq> []
     then time_ParseDuration L (ordc_BatchTimeout ord) else Ok (2 * Second))"

definition map_batch_size :: "FabricMainChannelOrdererConfig \<Rightarrow> BatchSize" where
  "map_batch_size ord = (case ordc_BatchSize ord of
       None \<Rightarrow> \<lparr>MaxMessageCount = 100, AbsoluteMaxBytes = 1024 * 1024, PreferredMaxBytes = 512 * 1024\<rparr>
     | Some b \<Rightarrow> \<lparr>MaxMessageCount = word_of_int (spec_MaxMessageCount b),
         AbsoluteMaxBytes = word_of_int (spec_AbsoluteMaxBytes b),
         PreferredMaxBytes = word_of_int (spec_PreferredMaxBytes b)\<rparr>)"

definition map_orderer ::
  "'w channel_lib \<Rightarrow> FabricMainChannelSpec \<Rightarrow> FabricMainChannelOrdererConfig \<Rightarrow> ChannelOrganization list
   \<Rightarrow> Orderer res" where
  "map_orderer L spec ord ordererOrgs =
     res_bind (map_consensus L spec ord) (\<lambda>c.
     res_bind (map_batch_timeout L ord) (\<lambda>batchTimeout.
       Ok \<lparr>OrdererType = cons_Type c, ord_Organizations = ordererOrgs, ConsenterMapping = cons_Mapping c,
           SmartBFT = cons_SmartBFT c, ord_EtcdRaft = cons_EtcdRaft c, ord_Policies = orderer_policies spec,
           ord_Capabilities = ordc_Capabilities ord, ConsensusState = consensus_state ord,
           ord_BatchSize = map_batch_size ord, BatchTimeout = batchTimeout\<rparr>))"

section \<open>The application and the whole\<close>

text \<open>\<open>ChannelConfig.Application\<close> is read before the code checks it for nil.\<close>

definition map_application ::
  "FabricMainChannelSpec \<Rightarrow> FabricMainChannelConfig \<Rightarrow> ChannelOrganization list \<Rightarrow> Application res" where
  "map_application spec config peerOrgs = (case cc_Application config of
       None \<Rightarrow> Panic ''nil pointer dereference''
     | Some app \<Rightarrow> Ok \<lparr>app_Organizations = peerOrgs, app_Capabilities = appc_Capabilities app,
         app_Policies = (case appc_Policies app of
             None \<Rightarrow> application_policies spec | Some ps \<Rightarrow> mapPolicy ps),
         ACLs = Some (case appc_ACLs app of None \<Rightarrow> defaultApplicationACLs | Some acls \<Rightarrow> acls)\<rparr>)"

definition map_orderer_organizations ::
  "'w channel_lib \<Rightarrow> FabricMainChannelSpec \<Rightarrow> ('w, ChannelOrganization list) io" where
  "map_orderer_organizations L spec =
     io_bind (io_map (map_orderer_organization L) (OrdererOrganizations spec)) (\<lambda>orgs.
     io_bind (io_map (map_external_orderer_organization L) (ExternalOrdererOrganizations spec)) (\<lambda>xs.
       io_return (orgs @ xs)))"

definition map_peer_organizations ::
  "'w channel_lib \<Rightarrow> FabricMainChannelSpec \<Rightarrow> ('w, ChannelOrganization list) io" where
  "map_peer_organizations L spec =
     io_bind (io_map (map_peer_organization L) (PeerOrganizations spec)) (\<lambda>orgs.
     io_bind (io_map (map_external_peer_organization L) (ExternalPeerOrganizations spec)) (\<lambda>xs.
       io_return (orgs @ xs)))"

definition mapToConfigTX :: "'w channel_lib \<Rightarrow> FabricMainChannelSpec \<Rightarrow> ('w, Channel) io" where
  "mapToConfigTX L spec =
     io_bind (kube_client L) (\<lambda>_.
     io_bind (operator_client L) (\<lambda>_.
     io_bind (map_orderer_organizations L spec) (\<lambda>ordererOrgs.
     case ChannelConfig spec of
       None \<Rightarrow> io_panic ''nil pointer dereference''
     | Some config \<Rightarrow> (case cc_Orderer config of
         None \<Rightarrow> io_panic ''nil pointer dereference''
       | Some ord \<Rightarrow>
           io_bind (io_lift (map_orderer L spec ord ordererOrgs)) (\<lambda>ordConfigtx.
           io_bind (map_peer_organizations L spec) (\<lambda>peerOrgs.
           io_bind (io_lift (map_application spec config peerOrgs)) (\<lambda>application.
             io_return \<lparr>channel_Orderer = ordConfigtx, channel_Application = application,
               channel_Capabilities = cc_Capabilities config,
               channel_Policies = default_channel_policies\<rparr>)))))))"


section \<open>Lemmas\<close>

lemma io_map_names:
  assumes "io_map f xs w = (Ok ys, w')" and "\<And>x y v v'. f x v = (Ok y, v') \<Longrightarrow> P x y"
  shows "list_all2 P xs ys"
  using io_map_Ok [OF assms(1)] by (rule list_all2_mono) (auto dest: assms(2))

text \<open>What every organization of the configuration looks like.\<close>

definition org_wf :: "ChannelOrganization \<Rightarrow> bool" where
  "org_wf org \<longleftrightarrow> org_Policies org = org_policies (org_Name org) \<and> msp_Name (org_MSP org) = org_Name org
     \<and> length (RootCerts (org_MSP org)) = 1 \<and> length (TLSRootCerts (org_MSP org)) = 1"

lemma org_wf_map [simp]:
  "org_wf (mapOrdererOrg m es ca tls crls)" "org_wf (mapPeerOrg m ca tls)"
  by (simp_all add: org_wf_def mapOrdererOrg_def mapPeerOrg_def org_msp_def)

lemma map_organization_Ok:
  "map_orderer_organization L oo w = (Ok org, w') \<Longrightarrow>
     org_Name org = oorg_MSPID oo \<and> OrdererEndpoints org = oorg_OrdererEndpoints oo \<and> org_wf org"
  "map_external_orderer_organization L xo w = (Ok org, w') \<Longrightarrow>
     org_Name org = xord_MSPID xo \<and> OrdererEndpoints org = xord_OrdererEndpoints xo \<and> org_wf org"
  "map_peer_organization L po w = (Ok org, w') \<Longrightarrow> org_Name org = porg_MSPID po \<and> org_wf org"
  "map_external_peer_organization L xp w = (Ok org, w') \<Longrightarrow> org_Name org = xpeer_MSPID xp \<and> org_wf org"
  by (auto simp: map_orderer_organization_def map_external_orderer_organization_def map_peer_organization_def
      map_external_peer_organization_def io_bind_Ok_iff io_return_apply mapOrdererOrg_def mapPeerOrg_def
      org_wf_def org_msp_def split: prod.splits)

lemma list_all2_maps:
  "list_all2 (\<lambda>x y. n y = m x \<and> P y) xs ys \<Longrightarrow> map n ys = map m xs \<and> (\<forall>y \<in> set ys. P y)"
  by (induction rule: list_all2_induct) auto

lemma map_orderer_organizations_Ok:
  assumes "map_orderer_organizations L spec w = (Ok orgs, w')"
  shows "map org_Name orgs = map oorg_MSPID (OrdererOrganizations spec) @ map xord_MSPID (ExternalOrdererOrganizations spec)
    \<and> (\<forall>org \<in> set orgs. org_wf org)"
proof -
  obtain a v b where a: "io_map (map_orderer_organization L) (OrdererOrganizations spec) w = (Ok a, v)"
    and b: "io_map (map_external_orderer_organization L) (ExternalOrdererOrganizations spec) v = (Ok b, w')"
    and "orgs = a @ b"
    using assms by (auto simp: map_orderer_organizations_def io_bind_Ok_iff io_return_apply)
  moreover have "map org_Name a = map oorg_MSPID (OrdererOrganizations spec) \<and> (\<forall>org \<in> set a. org_wf org)"
    by (rule list_all2_maps, rule io_map_names [OF a]) (auto dest: map_organization_Ok)
  moreover have "map org_Name b = map xord_MSPID (ExternalOrdererOrganizations spec) \<and> (\<forall>org \<in> set b. org_wf org)"
    by (rule list_all2_maps, rule io_map_names [OF b]) (auto dest: map_organization_Ok)
  ultimately show ?thesis by auto
qed

lemma map_peer_organizations_Ok:
  assumes "map_peer_organizations L spec w = (Ok orgs, w')"
  shows "map org_Name orgs = map porg_MSPID (PeerOrganizations spec) @ map xpeer_MSPID (ExternalPeerOrganizations spec)
    \<and> (\<forall>org \<in> set orgs. org_wf org)"
proof -
  obtain a v b where a: "io_map (map_peer_organization L) (PeerOrganizations spec) w = (Ok a, v)"
    and b: "io_map (map_external_peer_organization L) (ExternalPeerOrganizations spec) v = (Ok b, w')"
    and "orgs = a @ b"
    using assms by (auto simp: map_peer_organizations_def io_bind_Ok_iff io_return_apply)
  moreover have "map org_Name a = map porg_MSPID (PeerOrganizations spec) \<and> (\<forall>org \<in> set a. org_wf org)"
    by (rule list_all2_maps, rule io_map_names [OF a]) (auto dest: map_organization_Ok)
  moreover have "map org_Name b = map xpeer_MSPID (ExternalPeerOrganizations spec) \<and> (\<forall>org \<in> set b. org_wf org)"
    by (rule list_all2_maps, rule io_map_names [OF b]) (auto dest: map_organization_Ok)
  ultimately show ?thesis by auto
qed

text \<open>The parts of a successful translation.\<close>

lemma mapToConfigTX_Ok:
  assumes "mapToConfigTX L spec w = (Ok ch, w')"
  shows "\<exists>config ord app oorgs porgs v1 v2 v3.
    ChannelConfig spec = Some config \<and> cc_Orderer config = Some ord \<and> cc_Application config = Some app
    \<and> map_orderer_organizations L spec v1 = (Ok oorgs, v2)
    \<and> map_orderer L spec ord oorgs = Ok (channel_Orderer ch)
    \<and> map_peer_organizations L spec v3 = (Ok porgs, w')
    \<and> map_application spec config porgs = Ok (channel_Application ch)
    \<and> channel_Capabilities ch = cc_Capabilities config \<and> channel_Policies ch = default_channel_policies"
proof -
  obtain oorgs v1 v2 where o': "map_orderer_organizations L spec v1 = (Ok oorgs, v2)"
    and r: "(case ChannelConfig spec of
       None \<Rightarrow> io_panic ''nil pointer dereference''
     | Some config \<Rightarrow> (case cc_Orderer config of
         None \<Rightarrow> io_panic ''nil pointer dereference''
       | Some ord \<Rightarrow>
           io_bind (io_lift (map_orderer L spec ord oorgs)) (\<lambda>ordConfigtx.
           io_bind (map_peer_organizations L spec) (\<lambda>peerOrgs.
           io_bind (io_lift (map_application spec config peerOrgs)) (\<lambda>application.
             io_return \<lparr>channel_Orderer = ordConfigtx, channel_Application = application,
               channel_Capabilities = cc_Capabilities config,
               channel_Policies = default_channel_policies\<rparr>))))) v2 = (Ok ch, w')"
    using assms unfolding mapToConfigTX_def io_bind_Ok_iff by blast
  obtain config where c: "ChannelConfig spec = Some config"
    using r by (cases "ChannelConfig spec") (auto simp: io_panic_apply)
  moreover obtain ord where d: "cc_Orderer config = Some ord"
    using r c by (cases "cc_Orderer config") (auto simp: io_panic_apply)
  moreover obtain oc porgs app v3 where "map_orderer L spec ord oorgs = Ok oc"
    "map_peer_organizations L spec v3 = (Ok porgs, w')" "map_application spec config porgs = Ok app"
    "ch = \<lparr>channel_Orderer = oc, channel_Application = app, channel_Capabilities = cc_Capabilities config,
       channel_Policies = default_channel_policies\<rparr>"
    using r unfolding c d option.case io_bind_Ok_iff io_lift_apply io_return_apply by auto
  moreover from this obtain a where "cc_Application config = Some a"
    by (cases "cc_Application config") (auto simp: map_application_def)
  ultimately show ?thesis using o' by auto
qed


lemma map_application_Ok:
  "map_application spec config orgs = Ok a \<longleftrightarrow> (\<exists>app. cc_Application config = Some app
     \<and> a = \<lparr>app_Organizations = orgs, app_Capabilities = appc_Capabilities app,
         app_Policies = (case appc_Policies app of
             None \<Rightarrow> application_policies spec | Some ps \<Rightarrow> mapPolicy ps),
         ACLs = Some (case appc_ACLs app of None \<Rightarrow> defaultApplicationACLs | Some acls \<Rightarrow> acls)\<rparr>)"
  by (auto simp: map_application_def split: option.splits)

lemma map_orderer_Ok:
  "map_orderer L spec ord orgs = Ok oc \<longleftrightarrow> (\<exists>c t. map_consensus L spec ord = Ok c \<and> map_batch_timeout L ord = Ok t
     \<and> oc = \<lparr>OrdererType = cons_Type c, ord_Organizations = orgs, ConsenterMapping = cons_Mapping c,
           SmartBFT = cons_SmartBFT c, ord_EtcdRaft = cons_EtcdRaft c, ord_Policies = orderer_policies spec,
           ord_Capabilities = ordc_Capabilities ord, ConsensusState = consensus_state ord,
           ord_BatchSize = map_batch_size ord, BatchTimeout = t\<rparr>)"
  by (auto simp: map_orderer_def)

lemma map_consensus_Ok:
  "map_consensus L spec ord = Ok c \<longleftrightarrow>
     (ordc_OrdererType ord = OrdererConsensusBFT \<and> 4 < length (ordc_ConsenterMapping ord)
       \<and> (\<exists>m bft. res_map (map_bft_consenter L) (ordc_ConsenterMapping ord) = Ok m \<and> ordc_SmartBFT ord = Some bft
         \<and> c = \<lparr>cons_Type = OrdererConsensusBFT, cons_Mapping = m, cons_SmartBFT = Some (smart_bft_options bft),
             cons_EtcdRaft = zero_EtcdRaft\<rparr>))
   \<or> (ordc_OrdererType ord = OrdererConsensusEtcdraft
       \<and> (\<exists>cs. res_map (map_raft_consenter L) (Consenters spec) = Ok cs
         \<and> c = \<lparr>cons_Type = OrdererConsensusEtcdraft, cons_Mapping = [], cons_SmartBFT = None,
            cons_EtcdRaft = \<lparr>raft_Consenters = cs, EtcdRaft_Options = raft_options spec\<rparr>\<rparr>))"
  by (auto simp: map_consensus_def OrdererConsensusBFT_def OrdererConsensusEtcdraft_def split: option.splits)

lemma is_ok_res_bind: "is_ok (res_bind m f) \<longleftrightarrow> (\<exists>a. m = Ok a \<and> is_ok (f a))"
  by (cases m) auto

lemma is_ok_res_map: "is_ok (res_map f xs) \<longleftrightarrow> (\<forall>x \<in> set xs. is_ok (f x))"
  by (induction xs) (auto simp: is_ok_res_bind is_ok_iff)

text \<open>Parameters that do not panic themselves.\<close>

definition lib_quiet :: "'w channel_lib \<Rightarrow> bool" where
  "lib_quiet L \<longleftrightarrow> no_panic (kube_client L) \<and> no_panic (operator_client L)
     \<and> no_panic (list_nodes (lib_cluster L)) \<and> (\<forall>ns. no_panic (list_cas (lib_cluster L) ns))
     \<and> (\<forall>s. \<not> panics (x509_ParseCertificate L s)) \<and> (\<forall>s. \<not> panics (x509_ParseCRL L s))
     \<and> (\<forall>s. \<not> panics (time_ParseDuration L s))"

lemma no_panic_host_port:
  "no_panic (list_nodes K) \<Longrightarrow> no_panic (GetCAHostPort K ca)"
  by (auto simp: GetCAHostPort_def node_host_port_def GetPublicIPKubernetes_def intro!: no_panic_intros
      split: option.splits prod.splits)

lemma no_panic_GetCertAuthByName:
  "no_panic (list_nodes K) \<Longrightarrow> (\<And>ns. no_panic (list_cas K ns)) \<Longrightarrow> no_panic (GetCertAuthByName K name ns)"
  by (auto simp: GetCertAuthByName_def GetClusterCAs_def MapClusterCA_def GetCAPublicURL_def search_def Let_def
      intro!: no_panic_intros no_panic_host_port split: option.splits)

lemma parse_quiet:
  assumes "lib_quiet L"
  shows "\<not> panics (parse_cert L s)" and "\<not> panics (parse_crl L s)"
proof -
  show "\<not> panics (parse_cert L s)"
    using assms by (simp add: parse_cert_def ParseX509Certificate_def lib_quiet_def split: option.split)
  have "\<not> panics (x509_ParseCRL L d)" for d using assms by (simp add: lib_quiet_def)
  then show "\<not> panics (parse_crl L s)"
    by (auto simp: parse_crl_def ParseCRL_def split: option.split res.split) (metis panics.simps(1))
qed

lemma certs_quiet:
  assumes "lib_quiet L"
  shows "no_panic (certs_of_ca L name ns)" and "no_panic (certs_given L tls sign)"
  using assms parse_quiet [OF assms]
  by (auto simp: certs_of_ca_def certs_given_def lib_quiet_def intro!: no_panic_intros no_panic_GetCertAuthByName)

lemma organizations_quiet:
  assumes "lib_quiet L"
  shows "no_panic (map_orderer_organizations L spec)" and "no_panic (map_peer_organizations L spec)"
  using certs_quiet [OF assms] parse_quiet [OF assms]
  by (auto simp: map_orderer_organizations_def map_peer_organizations_def map_orderer_organization_def
      map_external_orderer_organization_def map_peer_organization_def map_external_peer_organization_def
      intro!: no_panic_intros panics_res_map split: prod.splits)

lemma map_orderer_panics:
  assumes "lib_quiet L" and "panics (map_orderer L spec ord oorgs)"
  shows "ordc_OrdererType ord = OrdererConsensusBFT \<and> ordc_SmartBFT ord = None"
proof -
  have q: "\<not> panics (res_map (map_bft_consenter L) xs)" "\<not> panics (res_map (map_raft_consenter L) ys)" for xs ys
    using parse_quiet [OF assms(1)]
    by (auto simp: map_bft_consenter_def map_raft_consenter_def panics_res_bind intro!: panics_res_map)
  have "\<not> panics (map_batch_timeout L ord)" using assms(1) by (simp add: map_batch_timeout_def lib_quiet_def)
  then show ?thesis using assms(2) q
    by (auto simp: map_orderer_def map_consensus_def panics_res_bind split: if_splits option.splits)
qed

section \<open>Properties\<close>

text \<open>
  C12. The configuration a translation produces.  Its orderer section has one organization per
  internal and external ordering organization of the resource, in that order and under the MSP id,
  its application section one per peer organization; each has the four policies of its own MSP and
  exactly one signing and one TLS root.  The consensus is either Raft with exactly the consenters of
  the resource, at the same host and port and with one certificate for both directions, and the
  resource's or the default options, or BFT with at least five consenters and its options.
\<close>
theorem mapToConfigTX_structure:
  assumes "mapToConfigTX L spec w = (Ok ch, w')"
  shows "map org_Name (ord_Organizations (channel_Orderer ch))
       = map oorg_MSPID (OrdererOrganizations spec) @ map xord_MSPID (ExternalOrdererOrganizations spec)
    \<and> map org_Name (app_Organizations (channel_Application ch))
       = map porg_MSPID (PeerOrganizations spec) @ map xpeer_MSPID (ExternalPeerOrganizations spec)
    \<and> (\<forall>org \<in> set (ord_Organizations (channel_Orderer ch)) \<union> set (app_Organizations (channel_Application ch)).
         org_wf org)
    \<and> (OrdererType (channel_Orderer ch) = OrdererConsensusEtcdraft \<and> SmartBFT (channel_Orderer ch) = None
         \<and> list_all2 (\<lambda>c d. consenter_Address d = \<lparr>Host = spec_consenter_Host c, Port = spec_consenter_Port c\<rparr>
              \<and> parse_cert L (spec_consenter_TLSCert c) = Ok (ClientTLSCert d) \<and> ServerTLSCert d = ClientTLSCert d)
             (Consenters spec) (raft_Consenters (ord_EtcdRaft (channel_Orderer ch)))
         \<and> EtcdRaft_Options (ord_EtcdRaft (channel_Orderer ch)) = raft_options spec
       \<or> OrdererType (channel_Orderer ch) = OrdererConsensusBFT \<and> SmartBFT (channel_Orderer ch) \<noteq> None
         \<and> 5 \<le> length (ConsenterMapping (channel_Orderer ch)) \<and> raft_Consenters (ord_EtcdRaft (channel_Orderer ch)) = [])"
proof -
  obtain config ord app oorgs porgs v1 v2 v3 where
    o': "map_orderer_organizations L spec v1 = (Ok oorgs, v2)" and mo: "map_orderer L spec ord oorgs = Ok (channel_Orderer ch)"
    and p: "map_peer_organizations L spec v3 = (Ok porgs, w')"
    and ma: "map_application spec config porgs = Ok (channel_Application ch)"
    using mapToConfigTX_Ok [OF assms] by blast
  have orgs: "app_Organizations (channel_Application ch) = porgs"
    using ma by (auto simp: map_application_Ok)
  obtain c where c: "map_consensus L spec ord = Ok c"
    and oc: "ord_Organizations (channel_Orderer ch) = oorgs" "OrdererType (channel_Orderer ch) = cons_Type c"
      "SmartBFT (channel_Orderer ch) = cons_SmartBFT c" "ConsenterMapping (channel_Orderer ch) = cons_Mapping c"
      "ord_EtcdRaft (channel_Orderer ch) = cons_EtcdRaft c"
    using mo unfolding map_orderer_Ok by auto
  have raft: "list_all2 (\<lambda>c d. consenter_Address d = \<lparr>Host = spec_consenter_Host c, Port = spec_consenter_Port c\<rparr>
      \<and> parse_cert L (spec_consenter_TLSCert c) = Ok (ClientTLSCert d) \<and> ServerTLSCert d = ClientTLSCert d) cs ds"
    if "res_map (map_raft_consenter L) cs = Ok ds" for cs ds
    using that unfolding res_map_Ok_iff
    by (rule list_all2_mono) (auto simp: map_raft_consenter_def)
  have "cons_Type c = OrdererConsensusEtcdraft \<and> cons_SmartBFT c = None
      \<and> list_all2 (\<lambda>c d. consenter_Address d = \<lparr>Host = spec_consenter_Host c, Port = spec_consenter_Port c\<rparr>
          \<and> parse_cert L (spec_consenter_TLSCert c) = Ok (ClientTLSCert d) \<and> ServerTLSCert d = ClientTLSCert d)
         (Consenters spec) (raft_Consenters (cons_EtcdRaft c))
      \<and> EtcdRaft_Options (cons_EtcdRaft c) = raft_options spec
    \<or> cons_Type c = OrdererConsensusBFT \<and> cons_SmartBFT c \<noteq> None
      \<and> 5 \<le> length (cons_Mapping c) \<and> raft_Consenters (cons_EtcdRaft c) = []"
    using c unfolding map_consensus_Ok
  proof (elim disjE exE conjE)
    fix m bft
    assume "4 < length (ordc_ConsenterMapping ord)" "res_map (map_bft_consenter L) (ordc_ConsenterMapping ord) = Ok m"
      "c = \<lparr>cons_Type = OrdererConsensusBFT, cons_Mapping = m, cons_SmartBFT = Some (smart_bft_options bft),
        cons_EtcdRaft = zero_EtcdRaft\<rparr>"
    then show ?thesis using res_map_Ok_length by (fastforce simp: zero_EtcdRaft_def)
  qed (auto dest: raft)
  then show ?thesis
    unfolding oc orgs using map_orderer_organizations_Ok [OF o'] map_peer_organizations_Ok [OF p] by auto
qed


text \<open>A library whose PEM blocks are their texts, and a Raft channel of two organizations.\<close>

definition plain_lib :: "'w channel_lib" where
  "plain_lib = \<lparr>kube_client = io_return (), operator_client = io_return (), lib_cluster = cluster_of [ca_one] [],
     pem_decode = Some, pem_encode = snd, x509_ParseCertificate = (\<lambda>s. Ok \<lparr>Raw = s\<rparr>),
     x509_ParseCRL = (\<lambda>s. Ok (CertificateList s)), time_ParseDuration = (\<lambda>s. Ok 0)\<rparr>"

definition app_one :: FabricMainChannelApplicationConfig where
  "app_one = \<lparr>appc_Capabilities = [''V2_0''], appc_Policies = None, appc_ACLs = None\<rparr>"

definition ord_one :: FabricMainChannelOrdererConfig where
  "ord_one = \<lparr>ordc_OrdererType = ''etcdraft'', ordc_Capabilities = [''V2_0''], ordc_Policies = None,
     ordc_BatchTimeout = [], ordc_BatchSize = None, ordc_State = ''STATE_NORMAL'', ordc_EtcdRaft = None,
     ordc_SmartBFT = None, ordc_ConsenterMapping = []\<rparr>"

definition config_one :: FabricMainChannelConfig where
  "config_one = \<lparr>cc_Application = Some app_one, cc_Orderer = Some ord_one, cc_Capabilities = [''V2_0''],
     cc_Policies = None\<rparr>"

definition spec_one :: FabricMainChannelSpec where
  "spec_one = \<lparr>spec_Name = ''demo'', Identities = [''OrdererMSP'' \<mapsto> \<lparr>SecretNamespace = ''ns'', SecretName = ''wallet'',
       SecretKey = ''id.yaml''\<rparr>], AdminPeerOrganizations = [],
     PeerOrganizations = [\<lparr>porg_MSPID = ''Org1MSP'', porg_CAName = ''org1-ca'', porg_CANamespace = ''default'',
       porg_TLSCACert = [], porg_SignCACert = []\<rparr>],
     ExternalPeerOrganizations = [], ChannelConfig = Some config_one,
     AdminOrdererOrganizations = Some [''OrdererMSP''],
     OrdererOrganizations = [\<lparr>oorg_MSPID = ''OrdererMSP'', oorg_CAName = [], oorg_CANamespace = [],
       oorg_TLSCACert = ''t'', oorg_SignCACert = ''s'', oorg_RevocationList = [],
       oorg_OrdererEndpoints = [''orderer0:443''], OrderersToJoin = [], ExternalOrderersToJoin = []\<rparr>],
     ExternalOrdererOrganizations = [],
     Consenters = [\<lparr>spec_consenter_Host = ''orderer0'', spec_consenter_Port = 443, spec_consenter_TLSCert = ''c''\<rparr>]\<rparr>"

lemmas spec_one_defs = spec_one_def config_one_def ord_one_def app_one_def

lemma map_spec_one:
  fixes w :: 'w
  shows "\<exists>ch. mapToConfigTX plain_lib spec_one w = (Ok ch, w)
     \<and> OrdererType (channel_Orderer ch) = OrdererConsensusEtcdraft"
proof -
  let ?L = "plain_lib :: 'w channel_lib"
  have ca: "\<exists>c. GetCertAuthByName (lib_cluster ?L) ''org1-ca'' ''default'' w = (Ok c, w) \<and> CA_Object c = ca_one"
    by (simp add: GetCertAuthByName_def GetClusterCAs_def search_def cluster_of_def ca_one_def MapClusterCA_def
        GetCAPublicURL_def GetCAHostPort_def io_simps Let_def plain_lib_def)
  have parse: "parse_cert ?L s = Ok \<lparr>Raw = s\<rparr>" if "s \<noteq> []" for s
    using that by (simp add: parse_cert_def ParseX509Certificate_def plain_lib_def)
  have clients: "kube_client ?L = io_return ()" "operator_client ?L = io_return ()"
    by (simp_all add: plain_lib_def)
  have po: "\<exists>orgs. map_peer_organizations ?L spec_one w = (Ok orgs, w)"
    using ca by (auto simp: map_peer_organizations_def map_peer_organization_def certs_of_ca_def spec_one_def
        io_simps parse ca_one_def)
  have oo: "\<exists>orgs. map_orderer_organizations ?L spec_one w = (Ok orgs, w)"
    by (simp add: map_orderer_organizations_def map_orderer_organization_def certs_given_def spec_one_def
        io_simps parse)
  have ords: "\<exists>oc. map_orderer ?L spec_one ord_one orgs = Ok oc \<and> OrdererType oc = OrdererConsensusEtcdraft" for orgs
    by (simp add: map_orderer_def map_consensus_def map_batch_timeout_def ord_one_def spec_one_def parse
        map_raft_consenter_def OrdererConsensusBFT_def OrdererConsensusEtcdraft_def)
  have apps: "\<exists>a. map_application spec_one config_one orgs = Ok a" for orgs
    by (simp add: map_application_def config_one_def)
  obtain oorgs porgs where "map_orderer_organizations ?L spec_one w = (Ok oorgs, w)"
    "map_peer_organizations ?L spec_one w = (Ok porgs, w)" using oo po by blast
  moreover obtain oc where "map_orderer ?L spec_one ord_one oorgs = Ok oc"
    "OrdererType oc = OrdererConsensusEtcdraft" using ords by blast
  moreover obtain a where "map_application spec_one config_one porgs = Ok a" using apps by blast
  moreover have "ChannelConfig spec_one = Some config_one" "cc_Orderer config_one = Some ord_one"
    by (simp_all add: spec_one_def config_one_def)
  ultimately show ?thesis
    by (simp add: mapToConfigTX_def clients io_bind_apply io_lift_apply io_return_apply)
qed

theorem mapToConfigTX_structure_witness:
  "\<exists>ch. mapToConfigTX plain_lib spec_one () = (Ok ch, ())
     \<and> map org_Name (app_Organizations (channel_Application ch)) = [''Org1MSP'']
     \<and> map (Host \<circ> consenter_Address) (raft_Consenters (ord_EtcdRaft (channel_Orderer ch))) = [''orderer0'']"
proof -
  obtain ch where ch: "mapToConfigTX plain_lib spec_one () = (Ok ch, ())"
    and t: "OrdererType (channel_Orderer ch) = OrdererConsensusEtcdraft"
    using map_spec_one [of "()"] by blast
  show ?thesis
    using ch t mapToConfigTX_structure [OF ch]
    by (auto simp: spec_one_def OrdererConsensusBFT_def OrdererConsensusEtcdraft_def list_all2_Cons1)
qed


text \<open>
  When the translation can crash.  If the clients and parsers do not panic, it panics only on a
  resource without a channel configuration, without its orderer or application section, or of type
  BFT without BFT options.  A resource without an application section, which the resource definition
  declares optional, never yields a configuration: the section is dereferenced before the code asks
  whether it is there.
\<close>
theorem mapToConfigTX_panics_only:
  assumes "lib_quiet L"
  shows "(panics (fst (mapToConfigTX L spec w)) \<longrightarrow> (case ChannelConfig spec of None \<Rightarrow> True
       | Some config \<Rightarrow> cc_Application config = None \<or> (case cc_Orderer config of None \<Rightarrow> True
           | Some ord \<Rightarrow> ordc_OrdererType ord = OrdererConsensusBFT \<and> ordc_SmartBFT ord = None)))
    \<and> (\<forall>config. ChannelConfig spec = Some config \<and> cc_Application config = None \<longrightarrow>
         \<not> is_ok (fst (mapToConfigTX L spec w)))"
proof -
  have quiet: "no_panic (mapToConfigTX L spec)"
    if "ChannelConfig spec = Some config" "cc_Application config = Some app" "cc_Orderer config = Some ord"
      "\<not> (ordc_OrdererType ord = OrdererConsensusBFT \<and> ordc_SmartBFT ord = None)" for config app ord
  proof -
    have "\<not> panics (map_orderer L spec ord oorgs)" for oorgs
      using map_orderer_panics [OF assms] that(4) by blast
    moreover have "\<not> panics (map_application spec config porgs)" for porgs
      using that(2) by (simp add: map_application_def)
    moreover have "no_panic (kube_client L)" "no_panic (operator_client L)"
      using assms by (simp_all add: lib_quiet_def)
    ultimately show ?thesis unfolding mapToConfigTX_def that option.case
      by (intro no_panic_intros organizations_quiet assms)
  qed
  have "panics (fst (mapToConfigTX L spec w)) \<longrightarrow> (case ChannelConfig spec of None \<Rightarrow> True
       | Some config \<Rightarrow> cc_Application config = None \<or> (case cc_Orderer config of None \<Rightarrow> True
           | Some ord \<Rightarrow> ordc_OrdererType ord = OrdererConsensusBFT \<and> ordc_SmartBFT ord = None))"
  proof (cases "ChannelConfig spec")
    case (Some config)
    show ?thesis
    proof (cases "cc_Application config = None \<or> cc_Orderer config = None")
      case False
      then obtain app ord where "cc_Application config = Some app" "cc_Orderer config = Some ord" by auto
      then show ?thesis using quiet [OF Some, of app ord]
        by (cases "ordc_OrdererType ord = OrdererConsensusBFT \<and> ordc_SmartBFT ord = None") (auto simp: Some no_panic_def)
    qed (auto simp: Some split: option.split)
  qed simp
  moreover have "False" if c: "ChannelConfig spec = Some config" "cc_Application config = None"
      and ok: "is_ok (fst (mapToConfigTX L spec w))" for config
  proof -
    obtain ch w' where "mapToConfigTX L spec w = (Ok ch, w')"
      using ok by (metis is_ok_iff prod.collapse)
    from mapToConfigTX_Ok [OF this] c show False by auto
  qed
  ultimately show ?thesis by blast
qed

lemma plain_lib_quiet: "lib_quiet plain_lib"
  by (auto simp: lib_quiet_def plain_lib_def cluster_of_def intro: no_panic_intros)

definition spec_no_app :: FabricMainChannelSpec where
  "spec_no_app = spec_one\<lparr>ChannelConfig := Some (config_one\<lparr>cc_Application := None\<rparr>)\<rparr>"

theorem mapToConfigTX_panics_only_witness:
  "\<not> panics (fst (mapToConfigTX plain_lib spec_one ())) \<and> \<not> is_ok (fst (mapToConfigTX plain_lib spec_no_app ()))"
  using mapToConfigTX_panics_only [OF plain_lib_quiet, of spec_one "()"]
    mapToConfigTX_panics_only [OF plain_lib_quiet, of spec_no_app "()"]
  by (simp add: spec_no_app_def spec_one_defs OrdererConsensusBFT_def)

text \<open>
  Which policies a new channel gets.  The application's policies are exactly those of the
  resource when it has any, each name with the type and rule of its last entry, and the defaults
  otherwise; the orderer's and the channel's own policies are always the defaults, whatever the
  resource says under \<open>orderer.policies\<close> and \<open>policies\<close>.  The administrators of a section are any one
  administrator of the admin organizations; without admin organizations the rule is ``MAJORITY
  Admins'', but under the type \<open>Signature\<close>.
\<close>
theorem mapToConfigTX_policies:
  assumes "mapToConfigTX L spec w = (Ok ch, w')" and "ChannelConfig spec = Some config"
    and "cc_Application config = Some app"
  shows "app_Policies (channel_Application ch) = (case appc_Policies app of
        Some ps \<Rightarrow> map_option (\<lambda>c. \<lparr>policy_Type = pc_Type c, policy_Rule = pc_Rule c\<rparr>) \<circ> map_of (rev ps)
      | None \<Rightarrow> application_policies spec)
    \<and> ord_Policies (channel_Orderer ch) = orderer_policies spec
    \<and> channel_Policies ch = default_channel_policies
    \<and> application_policies spec ''Admins'' = Some (Signature (if AdminPeerOrganizations spec = []
         then ''MAJORITY Admins'' else admin_rule (AdminPeerOrganizations spec)))
    \<and> orderer_policies spec ''Admins'' = Some (Signature (case AdminOrdererOrganizations spec of
         None \<Rightarrow> ''MAJORITY Admins'' | Some orgs \<Rightarrow> admin_rule orgs))"
proof -
  have mp: "mapPolicy ps = map_option (\<lambda>c. \<lparr>policy_Type = pc_Type c, policy_Rule = pc_Rule c\<rparr>) \<circ> map_of (rev ps)" for ps
  proof (induction ps rule: rev_induct)
    case (snoc p ps)
    then show ?case by (cases p) (auto simp: mapPolicy_def)
  qed (auto simp: mapPolicy_def)
  obtain ord oorgs porgs where "map_orderer L spec ord oorgs = Ok (channel_Orderer ch)"
    and "map_application spec config porgs = Ok (channel_Application ch)"
    and "channel_Policies ch = default_channel_policies"
    using mapToConfigTX_Ok [OF assms(1)] assms(2) by auto
  then show ?thesis
    using assms(3) by (auto simp: map_orderer_Ok map_application_Ok mp application_policies_def orderer_policies_def
        application_admin_rule_def orderer_admin_rule_def split: option.split)
qed

theorem mapToConfigTX_policies_witness:
  "\<exists>ch. mapToConfigTX plain_lib spec_one () = (Ok ch, ())
     \<and> app_Policies (channel_Application ch) ''Admins'' = Some (Signature ''MAJORITY Admins'')
     \<and> ord_Policies (channel_Orderer ch) ''Admins''
       = Some (Signature (''OR('' @ [CHR 0x27] @ ''OrdererMSP.admin'' @ [CHR 0x27] @ '')''))"
proof -
  obtain ch where ch: "mapToConfigTX plain_lib spec_one () = (Ok ch, ())" using map_spec_one [of "()"] by blast
  show ?thesis
    using ch mapToConfigTX_policies [OF ch, of config_one app_one]
    by (simp add: spec_one_defs admin_rule_def quoted_def)
qed

text \<open>
  C40. Which consensus sections are accepted: Raft when the certificate of every consenter parses, and
  BFT with at least five consenters whose three certificates parse and with BFT options.  Any other
  type is refused, and so is BFT with exactly four consenters, under the message that at least four
  are needed.
\<close>
theorem map_consensus_accepts:
  "(is_ok (map_consensus L spec ord) \<longleftrightarrow>
      ordc_OrdererType ord = OrdererConsensusEtcdraft
        \<and> list_all (\<lambda>c. is_ok (parse_cert L (spec_consenter_TLSCert c))) (Consenters spec)
    \<or> ordc_OrdererType ord = OrdererConsensusBFT \<and> 5 \<le> length (ordc_ConsenterMapping ord)
        \<and> ordc_SmartBFT ord \<noteq> None
        \<and> list_all (\<lambda>c. is_ok (parse_cert L (item_Identity c)) \<and> is_ok (parse_cert L (item_ClientTlsCert c))
             \<and> is_ok (parse_cert L (item_ServerTlsCert c))) (ordc_ConsenterMapping ord))
   \<and> map_consensus L spec (ord\<lparr>ordc_OrdererType := OrdererConsensusBFT, ordc_ConsenterMapping := [a, b, c, d]\<rparr>)
      = Err (ErrorString ''consenter mapping needs to be at least 4'')"
proof -
  have bft: "is_ok (map_bft_consenter L c) \<longleftrightarrow> is_ok (parse_cert L (item_Identity c))
      \<and> is_ok (parse_cert L (item_ClientTlsCert c)) \<and> is_ok (parse_cert L (item_ServerTlsCert c))" for c
    by (auto simp: map_bft_consenter_def is_ok_res_bind is_ok_iff)
  have raft: "is_ok (map_raft_consenter L c) \<longleftrightarrow> is_ok (parse_cert L (spec_consenter_TLSCert c))" for c
    by (auto simp: map_raft_consenter_def is_ok_res_bind is_ok_iff)
  have "is_ok (map_consensus L spec ord) \<longleftrightarrow>
      ordc_OrdererType ord = OrdererConsensusEtcdraft \<and> is_ok (res_map (map_raft_consenter L) (Consenters spec))
    \<or> ordc_OrdererType ord = OrdererConsensusBFT \<and> 5 \<le> length (ordc_ConsenterMapping ord)
        \<and> ordc_SmartBFT ord \<noteq> None \<and> is_ok (res_map (map_bft_consenter L) (ordc_ConsenterMapping ord))"
    unfolding is_ok_iff map_consensus_Ok by auto
  then show ?thesis unfolding is_ok_res_map bft raft list_all_iff by (simp add: map_consensus_def)
qed

end
