(* ===== verification/Host_Port.thy ===== *)
theory Host_Port imports Prelude begin

text \<open>
  The functions of Go's standard library through which the controllers take addresses apart:
  \<open>net.SplitHostPort\<close> and \<open>strconv.Atoi\<close>, with the errors they return, and their inverse \<open>%s:%d\<close>.
\<close>

section \<open>strconv.Atoi\<close>

definition is_digit :: "char \<Rightarrow> bool" where
  "is_digit c \<longleftrightarrow> 48 \<le> (of_char c :: nat) \<and> (of_char c :: nat) \<le> 57"

definition digits_value :: "string \<Rightarrow> nat" where
  "digits_value ds = fold (\<lambda>c n. 10 * n + (of_char c - 48)) ds 0"

definition atoi_error :: "string \<Rightarrow> string \<Rightarrow> go_error" where
  "atoi_error s why = ErrorString (''strconv.Atoi: parsing '' @ [CHR 0x22] @ s @ [CHR 0x22] @ '': '' @ why)"

text \<open>An optional sign, then one or more digits; 64 bits.\<close>

definition Atoi :: "string \<Rightarrow> int res" where
  "Atoi s =
     (let (neg, ds) = (case s of c # cs \<Rightarrow> if c = CHR ''-'' then (True, cs) else if c = CHR ''+'' then (False, cs)
            else (False, s) | [] \<Rightarrow> (False, s));
          n = int (digits_value ds); v = (if neg then - n else n)
      in if ds = [] \<or> \<not> list_all is_digit ds then Err (atoi_error s ''invalid syntax'')
         else if v < - (2 ^ 63) \<or> v \<ge> 2 ^ 63 then Err (atoi_error s ''value out of range'')
         else Ok v)"

section \<open>net.SplitHostPort\<close>

definition addr_error :: "string \<Rightarrow> string \<Rightarrow> go_error" where
  "addr_error hostport why = ErrorString (if hostport = [] then why else ''address '' @ hostport @ '': '' @ why)"

text \<open>Everything before the last colon and everything after it.\<close>

definition split_last_colon :: "string \<Rightarrow> (string \<times> string) option" where
  "split_last_colon s = (if CHR '':'' \<notin> set s then None
     else Some (rev (tl (dropWhile (\<lambda>c. c \<noteq> CHR '':'') (rev s))), rev (takeWhile (\<lambda>c. c \<noteq> CHR '':'') (rev s))))"

text \<open>
  The port starts after the last colon.  With a leading bracket the first closing bracket has to
  stand just before that colon; otherwise the host has no colon, and no bracket may be left over.
\<close>

definition SplitHostPort :: "string \<Rightarrow> (string \<times> string) res" where
  "SplitHostPort hostport = (case split_last_colon hostport of
       None \<Rightarrow> Err (addr_error hostport ''missing port in address'')
     | Some (before, port) \<Rightarrow>
         (if hd hostport = CHR ''['' then
            (let inner = takeWhile (\<lambda>c. c \<noteq> CHR '']'') (tl hostport);
                 rest = dropWhile (\<lambda>c. c \<noteq> CHR '']'') (tl hostport)
             in if rest = [] then Err (addr_error hostport ''missing ']' in address'')
                else if tl rest = [] then Err (addr_error hostport ''missing port in address'')
                else if tl rest \<noteq> CHR '':'' # port then
                  (if hd (tl rest) = CHR '':'' then Err (addr_error hostport ''too many colons in address'')
                   else Err (addr_error hostport ''missing port in address''))
                else if CHR ''['' \<in> set (tl hostport) then Err (addr_error hostport ''unexpected '[' in address'')
                else if CHR '']'' \<in> set port then Err (addr_error hostport ''unexpected ']' in address'')
                else Ok (inner, port))
          else if CHR '':'' \<in> set before then Err (addr_error hostport ''too many colons in address'')
          else if CHR ''['' \<in> set hostport then Err (addr_error hostport ''unexpected '[' in address'')
          else if CHR '']'' \<in> set hostport then Err (addr_error hostport ''unexpected ']' in address'')
          else Ok (before, port)))"

text \<open>An address in one string.\<close>

definition join_host_port :: "string \<Rightarrow> int \<Rightarrow> string" where
  "join_host_port host port = host @ '':'' @ itoa port"

section \<open>Round trips\<close>

lemma digit_char: "d < 10 \<Longrightarrow> is_digit (char_of (48 + d)) \<and> (of_char (char_of (48 + d)) :: nat) = 48 + d" for d :: nat
  by (simp add: is_digit_def)

lemma digits_value_snoc: "digits_value (ds @ [c]) = 10 * digits_value ds + (of_char c - 48)"
  by (simp add: digits_value_def)

lemma nat_digits_props:
  "nat_digits n \<noteq> [] \<and> list_all is_digit (nat_digits n) \<and> digits_value (nat_digits n) = n"
proof (induction n rule: nat_digits.induct)
  case (1 n)
  show ?case
  proof (cases "n < 10")
    case True
    then show ?thesis using digit_char [of n] by (simp add: nat_digits.simps [of n] digits_value_def)
  next
    case False
    with 1 digit_char [of "n mod 10"] show ?thesis
      by (simp add: nat_digits.simps [of n] digits_value_snoc)
  qed
qed

lemma digit_not_special:
  "is_digit c \<Longrightarrow> c \<noteq> CHR ''-'' \<and> c \<noteq> CHR ''+'' \<and> c \<noteq> CHR '':'' \<and> c \<noteq> CHR ''['' \<and> c \<noteq> CHR '']''"
  by (auto simp: is_digit_def)

lemma nat_digits_special:
  "c \<in> set (nat_digits n) \<Longrightarrow> c \<noteq> CHR ''-'' \<and> c \<noteq> CHR ''+'' \<and> c \<noteq> CHR '':'' \<and> c \<noteq> CHR ''['' \<and> c \<noteq> CHR '']''"
  using nat_digits_props [of n] digit_not_special by (auto simp: list_all_iff)

lemma Atoi_itoa:
  assumes "0 \<le> port" and "port < 2 ^ 63"
  shows "Atoi (itoa port) = Ok port"
proof -
  obtain c cs where ds: "nat_digits (nat port) = c # cs" using nat_digits_props by (cases "nat_digits (nat port)") auto
  have "c \<noteq> CHR ''-''" "c \<noteq> CHR ''+''" using nat_digits_special [of c "nat port"] ds by auto
  then show ?thesis
    using nat_digits_props [of "nat port"] assms by (simp add: Atoi_def itoa_def ds Let_def)
qed

lemma split_last_colon_join:
  assumes "CHR '':'' \<notin> set port"
  shows "split_last_colon (host @ CHR '':'' # port) = Some (host, port)"
proof -
  have "\<forall>c \<in> set (rev port). c \<noteq> CHR '':''" using assms by auto
  then have "takeWhile (\<lambda>c. c \<noteq> CHR '':'') (rev port @ CHR '':'' # rev host) = rev port"
    and "dropWhile (\<lambda>c. c \<noteq> CHR '':'') (rev port @ CHR '':'' # rev host) = CHR '':'' # rev host"
    by (subst takeWhile_append2 dropWhile_append2; simp)+
  then show ?thesis by (simp add: split_last_colon_def)
qed

lemma SplitHostPort_plain:
  assumes "{CHR '':'', CHR ''['', CHR '']''} \<inter> (set host \<union> set port) = {}"
  shows "SplitHostPort (host @ CHR '':'' # port) = Ok (host, port)"
proof -
  have "hd (host @ CHR '':'' # port) \<noteq> CHR ''[''" using assms by (cases host) auto
  then show ?thesis using assms by (simp add: SplitHostPort_def split_last_colon_join)
qed

text \<open>Host names and IPv4 addresses have none of the three special characters.\<close>

definition plain_host :: "string \<Rightarrow> bool" where
  "plain_host h \<longleftrightarrow> {CHR '':'', CHR ''['', CHR '']''} \<inter> set h = {}"

lemma SplitHostPort_join:
  assumes "plain_host host" and "0 \<le> port"
  shows "SplitHostPort (join_host_port host port) = Ok (host, itoa port)"
proof -
  have "{CHR '':'', CHR ''['', CHR '']''} \<inter> set (itoa port) = {}"
    using assms(2) nat_digits_special by (fastforce simp: itoa_def)
  then show ?thesis using assms(1) SplitHostPort_plain [of host "itoa port"]
    by (simp add: join_host_port_def plain_host_def Int_Un_distrib)
qed

end
