(* ===== verification/Channel_Update.thy ===== *)
theory Channel_Update imports Channel_Config Host_Port begin

text \<open>
  Bringing an existing channel in line with its resource: \<open>updateApplicationChannelConfigTx\<close>,
  \<open>updateChannelConfigTx\<close> and \<open>updateOrdererChannelConfigTx\<close> of \<open>mainchannel_controller.go\<close>.  They edit a
  configuration transaction of the library \<open>fabric-config\<close> in place; its methods are the parameter
  \<open>configtx\<close>, and the transaction is the world.
\<close>

record 'w configtx =
  app_Configuration :: "('w, Application) io"
  app_SetPolicies :: "(string \<rightharpoonup> Policy) \<Rightarrow> ('w, unit) io"
  app_RemoveOrganization :: "string \<Rightarrow> ('w, unit) io"
  app_SetOrganization :: "ChannelOrganization \<Rightarrow> ('w, unit) io"
  app_ACLs :: "('w, (string \<times> string) list) io"
  app_RemoveACLs :: "string list \<Rightarrow> ('w, unit) io"
  app_SetACLs :: "(string \<times> string) list \<Rightarrow> ('w, unit) io"
  app_RemoveCapability :: "string \<Rightarrow> ('w, unit) io"
  app_AddCapability :: "string \<Rightarrow> ('w, unit) io"
  chan_Capabilities :: "('w, string list) io"
  chan_RemoveCapability :: "string \<Rightarrow> ('w, unit) io"
  chan_AddCapability :: "string \<Rightarrow> ('w, unit) io"
  ord_Configuration :: "('w, Orderer) io"
  ord_SetConfiguration :: "Orderer \<Rightarrow> ('w, unit) io"
  ord_SetPolicies :: "(string \<rightharpoonup> Policy) \<Rightarrow> ('w, unit) io"
  ord_SetPolicy :: "string \<Rightarrow> Policy option \<Rightarrow> ('w, unit) io"
  ord_AddConsenter :: "Consenter \<Rightarrow> ('w, unit) io"
  ord_RemoveConsenter :: "Consenter \<Rightarrow> ('w, unit) io"
  ord_SetConsenterMapping :: "BFTConsenter list \<Rightarrow> ('w, unit) io"
  raft_SetElectionInterval :: "32 word \<Rightarrow> ('w, unit) io"
  raft_SetHeartbeatTick :: "32 word \<Rightarrow> ('w, unit) io"
  raft_SetTickInterval :: "string \<Rightarrow> ('w, unit) io"
  raft_SetSnapshotIntervalSize :: "32 word \<Rightarrow> ('w, unit) io"
  raft_SetMaxInflightBlocks :: "32 word \<Rightarrow> ('w, unit) io"
  ord_SetConsensusState :: "string \<Rightarrow> ('w, unit) io"
  ord_RemoveOrganization :: "string \<Rightarrow> ('w, unit) io"
  ord_SetOrganization :: "ChannelOrganization \<Rightarrow> ('w, unit) io"
  ordorg_Configuration :: "string \<Rightarrow> ('w, ChannelOrganization) io"
  ordorg_RemoveEndpoint :: "string \<Rightarrow> Address \<Rightarrow> ('w, unit) io"
  ordorg_SetEndpoint :: "string \<Rightarrow> Address \<Rightarrow> ('w, unit) io"
  ordorg_SetMSP :: "string \<Rightarrow> MSP \<Rightarrow> ('w, unit) io"
  batch_SetMaxMessageCount :: "32 word \<Rightarrow> ('w, unit) io"
  batch_SetAbsoluteMaxBytes :: "32 word \<Rightarrow> ('w, unit) io"
  batch_SetPreferredMaxBytes :: "32 word \<Rightarrow> ('w, unit) io"
  ord_SetBatchTimeout :: "int \<Rightarrow> ('w, unit) io"
  ord_RemoveCapability :: "string \<Rightarrow> ('w, unit) io"
  ord_AddCapability :: "string \<Rightarrow> ('w, unit) io"

section \<open>Shared loops\<close>

text \<open>Removing the capabilities of one list and adding those of another.\<close>

definition remove_capabilities :: "(string \<Rightarrow> ('w, unit) io) \<Rightarrow> string list \<Rightarrow> ('w, unit) io" where
  "remove_capabilities remove = io_for (\<lambda>c. io_wrap (''failed to remove capability '' @ c) (remove c))"

definition add_capabilities :: "(string \<Rightarrow> ('w, unit) io) \<Rightarrow> string list \<Rightarrow> ('w, unit) io" where
  "add_capabilities add = io_for (\<lambda>c. io_wrap (''failed to add capability '' @ c) (add c))"

text \<open>Is there an organization of that name?\<close>

definition has_org :: "string \<Rightarrow> ChannelOrganization list \<Rightarrow> bool" where
  "has_org name orgs = list_ex (\<lambda>o'. org_Name o' = name) orgs"

text \<open>The organizations of the channel that the new configuration does not have are removed.\<close>

definition remove_organizations ::
  "(string \<Rightarrow> ('w, unit) io) \<Rightarrow> ChannelOrganization list \<Rightarrow> ChannelOrganization list \<Rightarrow> ('w, unit) io" where
  "remove_organizations remove current new =
     io_for (\<lambda>o'. if has_org (org_Name o') new then io_return () else remove (org_Name o')) current"

section \<open>The application section\<close>

definition add_app_organizations ::
  "'w configtx \<Rightarrow> ChannelOrganization list \<Rightarrow> ChannelOrganization list \<Rightarrow> ('w, unit) io" where
  "add_app_organizations C current new =
     io_for (\<lambda>o'. if has_org (org_Name o') current then io_return ()
       else io_wrap (''failed to set organization '' @ org_Name o') (app_SetOrganization C o')) new"

definition update_acls :: "'w configtx \<Rightarrow> (string \<times> string) list option \<Rightarrow> ('w, unit) io" where
  "update_acls C acls = (case acls of
       None \<Rightarrow> io_return ()
     | Some new \<Rightarrow>
         io_bind (io_wrap ''failed to get current ACLs'' (app_ACLs C)) (\<lambda>_.
         io_bind (io_wrap ''failed to remove ACLs'' (app_RemoveACLs C (map fst new))) (\<lambda>_.
           io_wrap ''failed to set ACLs'' (app_SetACLs C new))))"

definition updateApplicationChannelConfigTx :: "'w configtx \<Rightarrow> Channel \<Rightarrow> ('w, unit) io" where
  "updateApplicationChannelConfigTx C new =
     (let app' = channel_Application new in
      io_bind (io_wrap ''failed to set application'' (app_SetPolicies C (app_Policies app'))) (\<lambda>_.
      io_bind (io_wrap ''failed to get application configuration'' (app_Configuration C)) (\<lambda>app.
      io_bind (remove_organizations (app_RemoveOrganization C) (app_Organizations app) (app_Organizations app')) (\<lambda>_.
      io_bind (add_app_organizations C (app_Organizations app) (app_Organizations app')) (\<lambda>_.
      io_bind (io_wrap ''failed to set application policies'' (app_SetPolicies C (app_Policies app'))) (\<lambda>_.
      io_bind (update_acls C (ACLs app')) (\<lambda>_.
      io_bind (remove_capabilities (app_RemoveCapability C) (app_Capabilities app)) (\<lambda>_.
        add_capabilities (app_AddCapability C) (app_Capabilities app')))))))))"

section \<open>The channel group\<close>

definition updateChannelConfigTx :: "'w configtx \<Rightarrow> Channel \<Rightarrow> ('w, unit) io" where
  "updateChannelConfigTx C new =
     io_bind (io_wrap ''failed to get application capabilities'' (chan_Capabilities C)) (\<lambda>currentCapabilities.
     io_bind (remove_capabilities (chan_RemoveCapability C) currentCapabilities) (\<lambda>_.
       add_capabilities (chan_AddCapability C) (channel_Capabilities new)))"

section \<open>The orderer section\<close>

definition consenter_name :: "Consenter \<Rightarrow> string" where
  "consenter_name c = join_host_port (Host (consenter_Address c)) (Port (consenter_Address c))"

definition same_address :: "Consenter \<Rightarrow> Consenter \<Rightarrow> bool" where
  "same_address c d \<longleftrightarrow> Host (consenter_Address d) = Host (consenter_Address c)
     \<and> Port (consenter_Address d) = Port (consenter_Address c)"

text \<open>
  A consenter of the channel: removed when no new one has its address, replaced when the first that
  has it has other certificates.
\<close>

definition update_consenter :: "'w configtx \<Rightarrow> Consenter list \<Rightarrow> Consenter \<Rightarrow> ('w, unit) io" where
  "update_consenter C new c = (case find (same_address c) new of
       None \<Rightarrow> io_wrap (''failed to remove consenter '' @ consenter_name c) (ord_RemoveConsenter C c)
     | Some d \<Rightarrow>
         if Raw (ClientTLSCert d) \<noteq> Raw (ClientTLSCert c) \<or> Raw (ServerTLSCert d) \<noteq> Raw (ServerTLSCert c)
         then io_bind (io_wrap (''failed to remove consenter '' @ consenter_name c @ '' for cert update'')
               (ord_RemoveConsenter C c)) (\<lambda>_.
             io_wrap (''failed to add updated consenter '' @ consenter_name c) (ord_AddConsenter C d))
         else io_return ())"

definition update_consenters :: "'w configtx \<Rightarrow> Consenter list \<Rightarrow> Consenter list \<Rightarrow> ('w, unit) io" where
  "update_consenters C current new =
     io_bind (io_for (update_consenter C new) current) (\<lambda>_.
       io_for (\<lambda>d. if list_ex (\<lambda>c. same_address c d) current then io_return ()
          else io_wrap (''failed to add consenter '' @ consenter_name d) (ord_AddConsenter C d)) new)"

definition set_raft_options :: "'w configtx \<Rightarrow> EtcdRaftOptions \<Rightarrow> ('w, unit) io" where
  "set_raft_options C o' =
     io_bind (io_wrap ''failed to set election interval'' (raft_SetElectionInterval C (ElectionTick o'))) (\<lambda>_.
     io_bind (io_wrap ''failed to set heartbeat tick'' (raft_SetHeartbeatTick C (HeartbeatTick o'))) (\<lambda>_.
     io_bind (io_wrap ''failed to set tick interval'' (raft_SetTickInterval C (TickInterval o'))) (\<lambda>_.
     io_bind (io_wrap ''failed to set snapshot interval size''
        (raft_SetSnapshotIntervalSize C (SnapshotIntervalSize o'))) (\<lambda>_.
       io_wrap ''failed to set max inflight blocks'' (raft_SetMaxInflightBlocks C (MaxInflightBlocks o'))))))"

text \<open>The branch on the type of the new configuration.\<close>

definition update_consensus :: "'w configtx \<Rightarrow> Orderer \<Rightarrow> Orderer \<Rightarrow> ('w, unit) io" where
  "update_consensus C ord new =
     (if OrdererType new = OrdererConsensusEtcdraft then
        io_bind (io_wrap ''failed to set application'' (ord_SetPolicies C (ord_Policies new))) (\<lambda>_.
        io_bind (update_consenters C (raft_Consenters (ord_EtcdRaft ord)) (raft_Consenters (ord_EtcdRaft new))) (\<lambda>_.
          set_raft_options C (EtcdRaft_Options (ord_EtcdRaft new))))
      else if OrdererType new = OrdererConsensusBFT then
        io_bind (io_wrap ''failed to set orderer configuration'' (ord_SetConfiguration C new)) (\<lambda>_.
          io_wrap ''failed to set consenter mapping'' (ord_SetConsenterMapping C (ConsenterMapping new)))
      else io_return ())"

text \<open>The branch on the type the channel has: on BFT the policies but \<open>BlockValidation\<close> are set.\<close>

definition update_bft_policies :: "'w configtx \<Rightarrow> Orderer \<Rightarrow> Orderer \<Rightarrow> ('w, unit) io" where
  "update_bft_policies C ord new =
     (if OrdererType ord = OrdererConsensusBFT then
        io_bind (io_wrap ''failed to set orderer configuration'' (ord_SetConfiguration C new)) (\<lambda>_.
        io_bind (io_wrap ''failed to set policy admin for orderer''
           (ord_SetPolicy C ''Admins'' (ord_Policies new ''Admins''))) (\<lambda>_.
        io_bind (io_wrap ''failed to set policy writers for orderer''
           (ord_SetPolicy C ''Writers'' (ord_Policies new ''Writers''))) (\<lambda>_.
          io_wrap ''failed to set policy readers for orderer''
           (ord_SetPolicy C ''Readers'' (ord_Policies new ''Readers'')))))
      else io_return ())"

definition update_state :: "'w configtx \<Rightarrow> Orderer \<Rightarrow> ('w, unit) io" where
  "update_state C new =
     (if ConsensusState new \<noteq> [] then
        ord_SetConsensusState C (if ConsensusState new = ConsensusStateMaintenance
          then ConsensusStateMaintenance else ConsensusStateNormal)
      else io_return ())"

text \<open>An endpoint \<open>host:port\<close> as an address.\<close>

definition parse_endpoint :: "string \<Rightarrow> Address res" where
  "parse_endpoint endpoint =
     res_bind (res_wrap (''failed to split host and port for endpoint '' @ endpoint) (SplitHostPort endpoint))
       (\<lambda>(host, portStr).
     res_bind (res_wrap (''failed to convert port '' @ portStr @ '' to int'') (Atoi portStr)) (\<lambda>port.
       Ok \<lparr>Host = host, Port = port\<rparr>))"

definition for_endpoints ::
  "(Address \<Rightarrow> ('w, unit) io) \<Rightarrow> string \<Rightarrow> string list \<Rightarrow> ('w, unit) io" where
  "for_endpoints act msg = io_for (\<lambda>endpoint. io_bind (io_lift (parse_endpoint endpoint)) (\<lambda>a.
     io_wrap (msg @ endpoint) (act a)))"

text \<open>An ordering organization the channel has: endpoints replaced, revocation list replaced.\<close>

definition update_orderer_organization :: "'w configtx \<Rightarrow> ChannelOrganization \<Rightarrow> ('w, unit) io" where
  "update_orderer_organization C organization =
     (let name = org_Name organization in
      io_bind (io_wrap ''failed to get orderer organization configuration'' (ordorg_Configuration C name)) (\<lambda>ordConfig.
      io_bind (for_endpoints (ordorg_RemoveEndpoint C name) ''failed to remove endpoint ''
         (OrdererEndpoints ordConfig)) (\<lambda>_.
      io_bind (for_endpoints (ordorg_SetEndpoint C name) ''failed to add endpoint ''
         (OrdererEndpoints organization)) (\<lambda>_.
        io_wrap (''failed to set organization '' @ name) (ordorg_SetMSP C name
          (org_MSP ordConfig\<lparr>RevocationList := RevocationList (org_MSP organization)\<rparr>))))))"

definition set_orderer_organizations ::
  "'w configtx \<Rightarrow> ChannelOrganization list \<Rightarrow> ChannelOrganization list \<Rightarrow> ('w, unit) io" where
  "set_orderer_organizations C current new =
     io_for (\<lambda>o'. if has_org (org_Name o') current then update_orderer_organization C o'
       else io_wrap (''failed to set organization '' @ org_Name o') (ord_SetOrganization C o')) new"

definition update_batch :: "'w configtx \<Rightarrow> Orderer \<Rightarrow> ('w, unit) io" where
  "update_batch C new =
     io_bind (io_wrap ''failed to set max message count''
        (batch_SetMaxMessageCount C (MaxMessageCount (ord_BatchSize new)))) (\<lambda>_.
     io_bind (io_wrap ''failed to set absolute max bytes''
        (batch_SetAbsoluteMaxBytes C (AbsoluteMaxBytes (ord_BatchSize new)))) (\<lambda>_.
     io_bind (io_wrap ''failed to set preferred max bytes''
        (batch_SetPreferredMaxBytes C (PreferredMaxBytes (ord_BatchSize new)))) (\<lambda>_.
       io_wrap ''failed to set batch timeout'' (ord_SetBatchTimeout C (BatchTimeout new)))))"

text \<open>The capabilities that are removed are those of the new configuration.\<close>

definition update_orderer_capabilities :: "'w configtx \<Rightarrow> Orderer \<Rightarrow> ('w, unit) io" where
  "update_orderer_capabilities C new =
     io_bind (remove_capabilities (ord_RemoveCapability C) (ord_Capabilities new)) (\<lambda>_.
       add_capabilities (ord_AddCapability C) (ord_Capabilities new))"

definition updateOrdererChannelConfigTx :: "'w configtx \<Rightarrow> Channel \<Rightarrow> ('w, unit) io" where
  "updateOrdererChannelConfigTx C new' =
     (let new = channel_Orderer new' in
      io_bind (io_wrap ''failed to get application configuration'' (ord_Configuration C)) (\<lambda>ord.
      io_bind (io_wrap ''failed to get current orderer configuration'' (ord_Configuration C)) (\<lambda>_.
      io_bind (update_consensus C ord new) (\<lambda>_.
      io_bind (update_bft_policies C ord new) (\<lambda>_.
      io_bind (update_state C new) (\<lambda>_.
      io_bind (remove_organizations (ord_RemoveOrganization C) (ord_Organizations ord) (ord_Organizations new)) (\<lambda>_.
      io_bind (set_orderer_organizations C (ord_Organizations ord) (ord_Organizations new)) (\<lambda>_.
      io_bind (update_batch C new) (\<lambda>_.
      io_bind (update_orderer_capabilities C new) (\<lambda>_.
      io_bind (io_wrap ''failed to get orderer configuration'' (ord_Configuration C)) (\<lambda>_.
        io_return ())))))))))))"

end
