(* ===== verification/Views.thy ===== *)
theory Views imports Prelude begin

text \<open>
  Effects seen through a view: a call of a library whose state is hidden is specified by what it does
  to a view of that state.  The rules compose such specifications along the code: sequences, error
  wrappers, reads and loops.
\<close>

text \<open>From the view \<open>v\<close> the call ends without an error in the view \<open>v'\<close>; or it reads something.\<close>

definition does :: "('w \<Rightarrow> 'v) \<Rightarrow> ('w, unit) io \<Rightarrow> 'v \<Rightarrow> 'v \<Rightarrow> bool" where
  "does view m v v' \<longleftrightarrow> (\<forall>w. view w = v \<longrightarrow> (\<exists>w'. m w = (Ok (), w') \<and> view w' = v'))"

definition reads :: "('w \<Rightarrow> 'v) \<Rightarrow> ('w, 'a) io \<Rightarrow> 'v \<Rightarrow> ('a \<Rightarrow> bool) \<Rightarrow> bool" where
  "reads view m v P \<longleftrightarrow> (\<forall>w. view w = v \<longrightarrow> (\<exists>a. m w = (Ok a, w) \<and> P a))"

definition refuses :: "('w \<Rightarrow> 'v) \<Rightarrow> ('w, unit) io \<Rightarrow> 'v \<Rightarrow> bool" where
  "refuses view m v \<longleftrightarrow> (\<forall>w. view w = v \<longrightarrow> (\<exists>e. m w = (Err e, w)))"

lemma does_return [intro]: "does view (io_return ()) v v"
  by (simp add: does_def io_return_apply)

lemma does_bind: "does view m v v1 \<Longrightarrow> does view m' v1 v2 \<Longrightarrow> does view (io_bind m (\<lambda>_. m')) v v2"
  unfolding does_def by (auto simp: io_bind_apply)

lemma does_wrap: "does view m v v' \<Longrightarrow> does view (io_wrap t m) v v'"
  unfolding does_def by (auto simp: io_wrap_apply)

lemma does_read: "reads view m v P \<Longrightarrow> (\<And>a. P a \<Longrightarrow> does view (f a) v v') \<Longrightarrow> does view (io_bind m f) v v'"
  unfolding does_def reads_def by (fastforce simp: io_bind_apply)

lemma reads_wrap: "reads view m v P \<Longrightarrow> reads view (io_wrap t m) v P"
  unfolding reads_def by (auto simp: io_wrap_apply)

lemma does_lift: "r = Ok a \<Longrightarrow> does view (f a) v v' \<Longrightarrow> does view (io_bind (io_lift r) f) v v'"
  by (simp add: does_def io_bind_apply io_lift_apply)

text \<open>A loop follows a fold on the views.\<close>

lemma does_for:
  assumes "\<And>x v. x \<in> set xs \<Longrightarrow> does view (f x) v (g x v)"
  shows "does view (io_for f xs) v (fold g xs v)"
  using assms
proof (induction xs arbitrary: v)
  case (Cons x xs)
  then show ?case by (auto intro!: does_bind)
qed auto

text \<open>The same when an iteration relies on what the earlier ones left.\<close>

lemma does_for_inv:
  assumes "\<And>ys x zs. xs = ys @ x # zs \<Longrightarrow> does view (f x) (I ys) (I (ys @ [x]))"
  shows "does view (io_for f xs) (I []) (I xs)"
proof -
  have "xs = ys @ zs \<Longrightarrow> does view (io_for f zs) (I ys) (I xs)" for ys zs
  proof (induction zs arbitrary: ys)
    case (Cons z zs)
    then have "does view (f z) (I ys) (I (ys @ [z]))" using assms [of ys z zs] by simp
    moreover have "does view (io_for f zs) (I (ys @ [z])) (I xs)" using Cons by simp
    ultimately show ?case by (auto intro: does_bind)
  qed (auto simp: does_return)
  from this [of "[]" xs] show ?thesis by simp
qed

lemma refuses_bind: "refuses view m v \<Longrightarrow> refuses view (io_bind m f) v"
  by (auto simp: refuses_def io_bind_apply)

lemma refuses_wrap: "refuses view m v \<Longrightarrow> refuses view (io_wrap t m) v"
  unfolding refuses_def by (auto simp: io_wrap_apply)

end
