(* ===== verification/Channel_Diff.thy ===== *)
theory Channel_Diff imports Channel_Update Views begin

text \<open>
  What the edits of \<open>Channel_Update\<close> achieve.  A configuration transaction is seen through a view of
  its contents; the documented effect of each library method on the view is a hypothesis, and the
  theorems say what the view is after the controller's loops, whatever the order in which the library
  lists organizations, capabilities and consenters.
\<close>

section \<open>Views\<close>

record application_view =
  va_orgs :: "string \<rightharpoonup> ChannelOrganization"
  va_policies :: "string \<rightharpoonup> Policy"
  va_acls :: "string \<rightharpoonup> string"
  va_caps :: "string set"

record orderer_view =
  vo_type :: string
  vo_orgs :: "string \<rightharpoonup> ChannelOrganization"
  vo_policies :: "string \<rightharpoonup> Policy"
  vo_caps :: "string set"
  vo_consenters :: "Consenter set"
  vo_raft :: EtcdRaftOptions
  vo_state :: string
  vo_batch :: BatchSize
  vo_timeout :: int

record channel_view =
  view_app :: application_view
  view_caps :: "string set"
  view_ord :: orderer_view


definition on_app :: "(application_view \<Rightarrow> application_view) \<Rightarrow> channel_view \<Rightarrow> channel_view" where
  "on_app f v = v\<lparr>view_app := f (view_app v)\<rparr>"

definition on_ord :: "(orderer_view \<Rightarrow> orderer_view) \<Rightarrow> channel_view \<Rightarrow> channel_view" where
  "on_ord f v = v\<lparr>view_ord := f (view_ord v)\<rparr>"

lemma on_simps [simp]:
  "view_app (on_app f v) = f (view_app v)" "view_ord (on_app f v) = view_ord v" "view_caps (on_app f v) = view_caps v"
  "view_app (on_ord g v) = view_app v" "view_ord (on_ord g v) = g (view_ord v)" "view_caps (on_ord g v) = view_caps v"
  by (simp_all add: on_app_def on_ord_def)

section \<open>The documented effects\<close>

text \<open>
  A configuration read back lists every organization and every capability once.  Removing what is not
  there is an error for capabilities; setting an ACL sets it, and what becomes of the others is left
  open.
\<close>

definition lists_capabilities :: "string set \<Rightarrow> string list \<Rightarrow> bool" where
  "lists_capabilities caps cs \<longleftrightarrow> distinct cs \<and> set cs = caps"

definition lists_orgs :: "(string \<rightharpoonup> ChannelOrganization) \<Rightarrow> ChannelOrganization list \<Rightarrow> bool" where
  "lists_orgs m orgs \<longleftrightarrow> org_Name ` set orgs = dom m \<and> (\<forall>o' \<in> set orgs. m (org_Name o') = Some o')"

text \<open>Add and remove methods of the capabilities of a section, reached by \<open>get\<close> and \<open>upd\<close>.\<close>

definition capability_laws ::
  "('w \<Rightarrow> channel_view) \<Rightarrow> (string \<Rightarrow> ('w, unit) io) \<Rightarrow> (string \<Rightarrow> ('w, unit) io) \<Rightarrow> (channel_view \<Rightarrow> string set)
   \<Rightarrow> ((string set \<Rightarrow> string set) \<Rightarrow> channel_view \<Rightarrow> channel_view) \<Rightarrow> bool" where
  "capability_laws view add remove get upd \<longleftrightarrow>
     (\<forall>c v. does view (add c) v (upd (insert c) v))
   \<and> (\<forall>c v. c \<in> get v \<longrightarrow> does view (remove c) v (upd (\<lambda>s. s - {c}) v))
   \<and> (\<forall>c v. c \<notin> get v \<longrightarrow> refuses view (remove c) v)"

definition upd_app_caps :: "(string set \<Rightarrow> string set) \<Rightarrow> channel_view \<Rightarrow> channel_view" where
  "upd_app_caps f = on_app (va_caps_update f)"

definition upd_ord_caps :: "(string set \<Rightarrow> string set) \<Rightarrow> channel_view \<Rightarrow> channel_view" where
  "upd_ord_caps f = on_ord (vo_caps_update f)"

definition app_laws :: "'w configtx \<Rightarrow> ('w \<Rightarrow> channel_view) \<Rightarrow> bool" where
  "app_laws C view \<longleftrightarrow>
     (\<forall>v. reads view (app_Configuration C) v (\<lambda>a. lists_orgs (va_orgs (view_app v)) (app_Organizations a)
            \<and> lists_capabilities (va_caps (view_app v)) (app_Capabilities a)))
   \<and> (\<forall>ps v. does view (app_SetPolicies C ps) v (on_app (\<lambda>a. a\<lparr>va_policies := ps\<rparr>) v))
   \<and> (\<forall>n v. does view (app_RemoveOrganization C n) v (on_app (va_orgs_update (\<lambda>m. m(n := None))) v))
   \<and> (\<forall>o' v. does view (app_SetOrganization C o') v (on_app (va_orgs_update (\<lambda>m. m(org_Name o' \<mapsto> o'))) v))
   \<and> (\<forall>v. reads view (app_ACLs C) v (\<lambda>_. True))
   \<and> (\<forall>ks v. does view (app_RemoveACLs C ks) v (on_app (va_acls_update (\<lambda>m. m |` (- set ks))) v))
   \<and> (\<forall>acls. \<exists>set_acls. (\<forall>m k. k \<in> fst ` set acls \<longrightarrow> set_acls m k = map_of acls k)
        \<and> (\<forall>v. does view (app_SetACLs C acls) v (on_app (va_acls_update set_acls) v)))
   \<and> capability_laws view (app_AddCapability C) (app_RemoveCapability C) (va_caps \<circ> view_app) upd_app_caps"

definition chan_laws :: "'w configtx \<Rightarrow> ('w \<Rightarrow> channel_view) \<Rightarrow> bool" where
  "chan_laws C view \<longleftrightarrow> (\<forall>v. reads view (chan_Capabilities C) v (lists_capabilities (view_caps v)))
   \<and> capability_laws view (chan_AddCapability C) (chan_RemoveCapability C) view_caps view_caps_update"

definition consenter_laws :: "'w configtx \<Rightarrow> ('w \<Rightarrow> channel_view) \<Rightarrow> bool" where
  "consenter_laws C view \<longleftrightarrow>
     (\<forall>c v. does view (ord_AddConsenter C c) v (on_ord (vo_consenters_update (insert c)) v))
   \<and> (\<forall>c v. c \<in> vo_consenters (view_ord v) \<longrightarrow>
        does view (ord_RemoveConsenter C c) v (on_ord (vo_consenters_update (\<lambda>s. s - {c})) v))"

section \<open>Capabilities\<close>

lemma add_capabilities_does:
  assumes "capability_laws view add remove get upd" and "\<And>f g v. upd f (upd g v) = upd (f \<circ> g) v"
    and "\<And>v. upd (\<lambda>s. s) v = v"
  shows "does view (add_capabilities add cs) v (upd (\<lambda>s. s \<union> set cs) v)"
proof -
  have "does view (add_capabilities add cs) v (fold (\<lambda>c. upd (insert c)) cs v)"
    unfolding add_capabilities_def using assms(1)
    by (intro does_for does_wrap) (simp add: capability_laws_def)
  moreover have "fold (\<lambda>c. upd (insert c)) cs v = upd (\<lambda>s. s \<union> set cs) v" for v
  proof (induction cs arbitrary: v)
    case (Cons c cs)
    have "(\<lambda>s. s \<union> set cs) \<circ> insert c = (\<lambda>s. s \<union> set (c # cs))" by auto
    then show ?case by (simp add: Cons assms(2) del: list.set)
  qed (simp add: assms(3))
  ultimately show ?thesis by simp
qed

lemma remove_capabilities_does:
  assumes laws: "capability_laws view add remove get upd" and comp: "\<And>f g v. upd f (upd g v) = upd (f \<circ> g) v"
    and id: "\<And>v. upd (\<lambda>s. s) v = v" and get: "\<And>f v. get (upd f v) = f (get v)"
    and "distinct cs" and "set cs \<subseteq> get v"
  shows "does view (remove_capabilities remove cs) v (upd (\<lambda>s. s - set cs) v)"
proof -
  have "does view (io_for (\<lambda>c. io_wrap (''failed to remove capability '' @ c) (remove c)) cs)
      (upd (\<lambda>s. s - set []) v) (upd (\<lambda>s. s - set cs) v)"
  proof (rule does_for_inv)
    fix ys x zs
    assume xs: "cs = ys @ x # zs"
    have "x \<in> get (upd (\<lambda>s. s - set ys) v)" using assms(5,6) by (auto simp: xs get)
    then have "does view (remove x) (upd (\<lambda>s. s - set ys) v) (upd (\<lambda>s. s - {x}) (upd (\<lambda>s. s - set ys) v))"
      using laws by (simp add: capability_laws_def)
    moreover have "(\<lambda>s. s - {x}) \<circ> (\<lambda>s. s - set ys) = (\<lambda>s. s - set (ys @ [x]))" by auto
    ultimately show "does view (io_wrap (''failed to remove capability '' @ x) (remove x))
        (upd (\<lambda>s. s - set ys) v) (upd (\<lambda>s. s - set (ys @ [x])) v)"
      by (simp add: comp does_wrap)
  qed
  then show ?thesis by (simp add: remove_capabilities_def id)
qed

lemma remove_capabilities_refuses:
  assumes laws: "capability_laws view add remove get upd"
    and get: "\<And>f v. get (upd f v) = f (get v)" and "\<not> set cs \<subseteq> get v" and "view w = v"
  shows "\<exists>e w'. remove_capabilities remove cs w = (Err e, w')"
  using assms(3,4)
proof (induction cs arbitrary: v w)
  case (Cons c cs)
  show ?case
  proof (cases "c \<in> get v")
    case True
    then obtain w' where w': "remove c w = (Ok (), w')" "view w' = upd (\<lambda>s. s - {c}) v"
      using laws Cons.prems(2) by (fastforce simp: capability_laws_def does_def)
    have "\<not> set cs \<subseteq> get (upd (\<lambda>s. s - {c}) v)" using True Cons.prems(1) by (auto simp: get)
    from Cons.IH [OF this w'(2)] show ?thesis using w'(1)
      by (simp add: remove_capabilities_def io_bind_apply io_wrap_apply)
  next
    case False
    then obtain e where "remove c w = (Err e, w)"
      using laws Cons.prems(2) by (fastforce simp: capability_laws_def refuses_def)
    then show ?thesis by (simp add: remove_capabilities_def io_bind_apply io_wrap_apply)
  qed
qed simp


section \<open>Organizations\<close>

lemma has_org_iff: "has_org n orgs \<longleftrightarrow> n \<in> org_Name ` set orgs"
  by (auto simp: has_org_def list_ex_iff)

lemma remove_organizations_does:
  assumes "\<And>n v. does view (remove n) v (upd (\<lambda>m. m(n := None)) v)"
    and comp: "\<And>f g v. upd f (upd g v) = upd (f \<circ> g) v" and id: "\<And>v. upd (\<lambda>m. m) v = v"
  shows "does view (remove_organizations remove current new) v
    (upd (\<lambda>m. m |` (- (org_Name ` set current - org_Name ` set new))) v)"
proof -
  let ?I = "\<lambda>ys :: ChannelOrganization list. upd (\<lambda>m. m |` (- (org_Name ` set ys - org_Name ` set new))) v"
  have "does view (remove_organizations remove current new) (?I []) (?I current)"
    unfolding remove_organizations_def
  proof (rule does_for_inv [where I = ?I])
    fix ys x zs
    show "does view (if has_org (org_Name x) new then io_return () else remove (org_Name x)) (?I ys) (?I (ys @ [x]))"
    proof (cases "has_org (org_Name x) new")
      case True
      then have "org_Name ` set (ys @ [x]) - org_Name ` set new = org_Name ` set ys - org_Name ` set new"
        by (auto simp: has_org_iff)
      with True show ?thesis by (simp add: does_return del: set_append)
    next
      case False
      have eq: "(\<lambda>m. m(org_Name x := None)) \<circ> (\<lambda>m. m |` (- (org_Name ` set ys - org_Name ` set new)))
          = (\<lambda>m. m |` (- (org_Name ` set (ys @ [x]) - org_Name ` set new)))"
        using False by (auto simp: has_org_iff fun_eq_iff restrict_map_def)
      have "does view (remove (org_Name x)) (?I ys) (?I (ys @ [x]))"
        using assms(1) [of "org_Name x" "?I ys"] unfolding comp eq .
      then show ?thesis using False by simp
    qed
  qed
  then show ?thesis by (simp add: id restrict_map_def)
qed

lemma add_organizations_does:
  assumes "\<And>o' v. does view (add o') v (upd (\<lambda>m. m(org_Name o' \<mapsto> o')) v)"
    and "\<And>f g v. upd f (upd g v) = upd (f \<circ> g) v" and "\<And>v. upd (\<lambda>m. m) v = v"
    and "distinct (map org_Name new)"
  shows "does view (io_for (\<lambda>o'. if p o' then io_return () else add o') new) v
    (upd (\<lambda>m. m ++ map_of (map (\<lambda>o'. (org_Name o', o')) (filter (\<lambda>o'. \<not> p o') new))) v)"
  using assms(4)
proof (induction new arbitrary: v)
  case (Cons x xs)
  let ?m = "\<lambda>xs. map_of (map (\<lambda>o'. (org_Name o', o')) (filter (\<lambda>o'. \<not> p o') xs))"
  show ?case
  proof (cases "p x")
    case False
    have "?m xs (org_Name x) = None" using Cons.prems by (auto simp: map_of_eq_None_iff)
    then have "(\<lambda>m. m ++ ?m xs) \<circ> (\<lambda>m. m(org_Name x \<mapsto> x)) = (\<lambda>m. m ++ ?m (x # xs))"
      using False by (auto simp: fun_eq_iff map_add_def split: option.split)
    then have "does view (io_for (\<lambda>o'. if p o' then io_return () else add o') xs)
        (upd (\<lambda>m. m(org_Name x \<mapsto> x)) v) (upd (\<lambda>m. m ++ ?m (x # xs)) v)"
      using Cons.IH [of "upd (\<lambda>m. m(org_Name x \<mapsto> x)) v"] Cons.prems by (simp add: assms(2))
    with assms(1) [of x v] have "does view (io_bind (add x)
        (\<lambda>_. io_for (\<lambda>o'. if p o' then io_return () else add o') xs)) v (upd (\<lambda>m. m ++ ?m (x # xs)) v)"
      by (rule does_bind)
    then show ?thesis using False by (simp del: filter.simps list.map)
  qed (use Cons in \<open>auto intro!: does_bind [OF does_return]\<close>)
qed (simp add: does_return assms(3))

text \<open>
  The organizations after the update: those of the channel that the resource still names, as they
  were, and the resource's own where the channel had none.
\<close>

definition merged_orgs ::
  "(string \<rightharpoonup> ChannelOrganization) \<Rightarrow> ChannelOrganization list \<Rightarrow> string \<rightharpoonup> ChannelOrganization" where
  "merged_orgs old new n = (if n \<notin> org_Name ` set new then None
     else case old n of Some o' \<Rightarrow> Some o' | None \<Rightarrow> find (\<lambda>o'. org_Name o' = n) new)"

lemma map_of_filter_names:
  "map_of (map (\<lambda>o'. (org_Name o', o')) (filter (\<lambda>o'. P (org_Name o')) xs)) n
     = (if P n then find (\<lambda>o'. org_Name o' = n) xs else None)"
  by (induction xs) auto

lemma merged_orgs_eq:
  assumes "lists_orgs m current"
  shows "(m |` (- (org_Name ` set current - org_Name ` set new)))
      ++ map_of (map (\<lambda>o'. (org_Name o', o')) (filter (\<lambda>o'. \<not> has_org (org_Name o') current) new))
    = merged_orgs m new"
proof
  fix n
  have d: "n \<in> org_Name ` set current \<longleftrightarrow> m n \<noteq> None" using assms by (auto simp: lists_orgs_def domIff)
  have f: "map_of (map (\<lambda>o'. (org_Name o', o')) (filter (\<lambda>o'. \<not> has_org (org_Name o') current) new)) n
      = (if \<not> has_org n current then find (\<lambda>o'. org_Name o' = n) new else None)"
    by (rule map_of_filter_names)
  show "((m |` (- (org_Name ` set current - org_Name ` set new)))
      ++ map_of (map (\<lambda>o'. (org_Name o', o')) (filter (\<lambda>o'. \<not> has_org (org_Name o') current) new))) n
    = merged_orgs m new n"
  proof (cases "m n")
    case None
    then have c: "n \<notin> org_Name ` set current" using d by blast
    then show ?thesis
    proof (cases "n \<in> org_Name ` set new")
      case False
      then have "find (\<lambda>o'. org_Name o' = n) new = None" by (auto simp: find_None_iff)
      with None c False f show ?thesis by (simp add: map_add_def has_org_iff merged_orgs_def restrict_map_def)
    qed (use None c f in \<open>simp add: map_add_def has_org_iff merged_orgs_def restrict_map_def split: option.split\<close>)
  next
    case (Some o')
    then have "n \<in> org_Name ` set current" using d by blast
    then show ?thesis using Some f by (simp add: map_add_def has_org_iff merged_orgs_def restrict_map_def)
  qed
qed

definition upd_app_orgs ::
  "((string \<rightharpoonup> ChannelOrganization) \<Rightarrow> (string \<rightharpoonup> ChannelOrganization)) \<Rightarrow> channel_view \<Rightarrow> channel_view" where
  "upd_app_orgs f = on_app (va_orgs_update f)"

definition upd_ord_orgs ::
  "((string \<rightharpoonup> ChannelOrganization) \<Rightarrow> (string \<rightharpoonup> ChannelOrganization)) \<Rightarrow> channel_view \<Rightarrow> channel_view" where
  "upd_ord_orgs f = on_ord (vo_orgs_update f)"

lemmas upd_defs = upd_app_orgs_def upd_ord_orgs_def upd_app_caps_def upd_ord_caps_def on_app_def on_ord_def

lemma upd_compose:
  "upd_app_orgs f (upd_app_orgs g v) = upd_app_orgs (f \<circ> g) v"
  "upd_ord_orgs f (upd_ord_orgs g v) = upd_ord_orgs (f \<circ> g) v"
  "upd_app_caps h (upd_app_caps k v) = upd_app_caps (h \<circ> k) v"
  "upd_ord_caps h (upd_ord_caps k v) = upd_ord_caps (h \<circ> k) v"
  "view_caps_update h (view_caps_update k v) = view_caps_update (h \<circ> k) v"
  by (simp_all add: upd_defs comp_def)

lemma upd_id:
  "upd_app_orgs (\<lambda>m. m) v = v" "upd_ord_orgs (\<lambda>m. m) v = v" "upd_app_caps (\<lambda>s. s) v = v"
  "upd_ord_caps (\<lambda>s. s) v = v" "view_caps_update (\<lambda>s. s) v = v"
  by (simp_all add: upd_defs)

lemma upd_app_orgs_cong: "f (va_orgs (view_app v)) = g (va_orgs (view_app v)) \<Longrightarrow> upd_app_orgs f v = upd_app_orgs g v"
  and upd_ord_orgs_cong: "f (vo_orgs (view_ord v)) = g (vo_orgs (view_ord v)) \<Longrightarrow> upd_ord_orgs f v = upd_ord_orgs g v"
  by (simp_all add: upd_defs)

text \<open>The pieces of the application update.\<close>

lemma app_lawsD:
  assumes "app_laws C view"
  shows "reads view (app_Configuration C) v (\<lambda>a. lists_orgs (va_orgs (view_app v)) (app_Organizations a)
      \<and> lists_capabilities (va_caps (view_app v)) (app_Capabilities a))"
    and "does view (app_SetPolicies C ps) v (on_app (\<lambda>a. a\<lparr>va_policies := ps\<rparr>) v)"
    and "does view (app_RemoveOrganization C n) v (upd_app_orgs (\<lambda>m. m(n := None)) v)"
    and "does view (app_SetOrganization C o') v (upd_app_orgs (\<lambda>m. m(org_Name o' \<mapsto> o')) v)"
    and "capability_laws view (app_AddCapability C) (app_RemoveCapability C) (va_caps \<circ> view_app) upd_app_caps"
  using assms by (simp_all add: app_laws_def upd_app_orgs_def)

lemma update_acls_does:
  assumes "app_laws C view"
  shows "\<exists>f. (\<forall>v. does view (update_acls C acls) v (on_app (va_acls_update f) v))
    \<and> (\<forall>new k m. acls = Some new \<and> k \<in> fst ` set new \<longrightarrow> f m k = map_of new k)"
proof (cases acls)
  case None
  have e: "on_app (va_acls_update (\<lambda>m. m)) v = v" for v by (simp add: on_app_def)
  have "\<forall>v. does view (update_acls C acls) v (on_app (va_acls_update (\<lambda>m. m)) v)"
    unfolding e by (simp add: update_acls_def None does_return)
  with None show ?thesis by blast
next
  case (Some new)
  obtain g where g: "\<And>m k. k \<in> fst ` set new \<Longrightarrow> g m k = map_of new k"
    and set: "\<And>v. does view (app_SetACLs C new) v (on_app (va_acls_update g) v)"
    using assms unfolding app_laws_def by metis
  have remove: "does view (app_RemoveACLs C (map fst new)) v (on_app (va_acls_update (\<lambda>m. m |` (- fst ` set new))) v)" for v
  proof -
    have "does view (app_RemoveACLs C ks) v (on_app (va_acls_update (\<lambda>m. m |` (- set ks))) v)" for ks
      using assms unfolding app_laws_def by blast
    from this [of "map fst new"] show ?thesis by simp
  qed
  have read: "reads view (app_ACLs C) v (\<lambda>_. True)" for v using assms by (simp add: app_laws_def)
  let ?f = "\<lambda>m. g (m |` (- fst ` set new))"
  have "does view (update_acls C acls) v (on_app (va_acls_update ?f) v)" for v
    unfolding update_acls_def Some option.case
  proof (rule does_read [OF reads_wrap [OF read]], rule does_bind [OF does_wrap [OF remove] does_wrap])
    show "does view (app_SetACLs C new) (on_app (va_acls_update (\<lambda>m. m |` (- fst ` set new))) v)
        (on_app (va_acls_update ?f) v)"
      using set [of "on_app (va_acls_update (\<lambda>m. m |` (- fst ` set new))) v"] by (simp add: on_app_def comp_def)
  qed
  with Some g show ?thesis by (intro exI [of _ ?f]) auto
qed

lemma app_organizations_does:
  assumes laws: "app_laws C view" and "distinct (map org_Name new)"
    and lists: "lists_orgs (va_orgs (view_app v)) current"
  shows "does view (io_bind (remove_organizations (app_RemoveOrganization C) current new)
      (\<lambda>_. add_app_organizations C current new)) v (upd_app_orgs (\<lambda>m. merged_orgs m new) v)"
proof (rule does_bind)
  let ?X = "- (org_Name ` set current - org_Name ` set new)"
    and ?m = "map_of (map (\<lambda>o'. (org_Name o', o')) (filter (\<lambda>o'. \<not> has_org (org_Name o') current) new))"
  show "does view (remove_organizations (app_RemoveOrganization C) current new) v (upd_app_orgs (\<lambda>m. m |` ?X) v)"
    by (rule remove_organizations_does [where upd = upd_app_orgs, OF app_lawsD(3) [OF laws] upd_compose(1) upd_id(1)])
  have add: "does view (add_app_organizations C current new) u (upd_app_orgs (\<lambda>m. m ++ ?m) u)" for u
    unfolding add_app_organizations_def
    by (rule add_organizations_does [where upd = upd_app_orgs, OF does_wrap [OF app_lawsD(4) [OF laws]] upd_compose(1) upd_id(1) assms(2)])
  have eq: "upd_app_orgs (\<lambda>m. m ++ ?m) (upd_app_orgs (\<lambda>m. m |` ?X) v) = upd_app_orgs (\<lambda>m. merged_orgs m new) v"
    unfolding upd_compose(1) by (rule upd_app_orgs_cong) (use merged_orgs_eq [OF lists, of new] in simp)
  show "does view (add_app_organizations C current new) (upd_app_orgs (\<lambda>m. m |` ?X) v)
      (upd_app_orgs (\<lambda>m. merged_orgs m new) v)"
    using add [of "upd_app_orgs (\<lambda>m. m |` ?X) v"] unfolding eq .
qed

lemma replace_capabilities_does:
  assumes laws: "capability_laws view add remove get upd" and comp: "\<And>f g v. upd f (upd g v) = upd (f \<circ> g) v"
    and id: "\<And>v. upd (\<lambda>s. s) v = v" and get: "\<And>f v. get (upd f v) = f (get v)"
    and same: "\<And>f g v. f (get v) = g (get v) \<Longrightarrow> upd f v = upd g v"
    and "lists_capabilities (get v) cs"
  shows "does view (io_bind (remove_capabilities remove cs) (\<lambda>_. add_capabilities add new)) v (upd (\<lambda>_. set new) v)"
proof (rule does_bind)
  show "does view (remove_capabilities remove cs) v (upd (\<lambda>s. s - set cs) v)"
    using assms(6) by (intro remove_capabilities_does [OF laws comp id get]) (auto simp: lists_capabilities_def)
  have "does view (add_capabilities add new) u (upd (\<lambda>s. s \<union> set new) u)" for u
    using laws comp id by (rule add_capabilities_does)
  moreover have "upd (\<lambda>s. s \<union> set new) (upd (\<lambda>s. s - set cs) v) = upd (\<lambda>_. set new) v"
    unfolding comp using assms(6) by (intro same) (auto simp: lists_capabilities_def)
  ultimately show "does view (add_capabilities add new) (upd (\<lambda>s. s - set cs) v) (upd (\<lambda>_. set new) v)"
    by (metis (no_types))
qed

section \<open>Consenters\<close>

definition unique_addresses :: "Consenter list \<Rightarrow> bool" where
  "unique_addresses cs \<longleftrightarrow> distinct cs \<and> (\<forall>c \<in> set cs. \<forall>d \<in> set cs. same_address c d \<longrightarrow> c = d)"

lemma same_address_trans: "same_address c d \<Longrightarrow> same_address c' d \<Longrightarrow> same_address c c'"
  by (simp add: same_address_def)

lemma same_consenter:
  assumes "same_address c d" and "Raw (ClientTLSCert d) = Raw (ClientTLSCert c)" "Raw (ServerTLSCert d) = Raw (ServerTLSCert c)"
  shows "d = (c :: Consenter)"
  using assms by (auto simp: same_address_def intro!: Consenter.equality Address.equality certificate.equality)

text \<open>What the loop over the channel's consenters leaves of them.\<close>

definition kept :: "Consenter list \<Rightarrow> Consenter list \<Rightarrow> Consenter set" where
  "kept new cs = {d. \<exists>c \<in> set cs. find (same_address c) new = Some d}"

lemma update_consenter_does:
  assumes laws: "consenter_laws C view" and u: "unique_addresses (ys @ x # zs)"
  shows "does view (update_consenter C new x) (on_ord (vo_consenters_update (\<lambda>_. kept new ys \<union> set (x # zs))) v)
    (on_ord (vo_consenters_update (\<lambda>_. kept new (ys @ [x]) \<union> set zs)) v)"
proof -
  let ?S = "kept new ys \<union> set (x # zs)"
  let ?v = "on_ord (vo_consenters_update (\<lambda>_. ?S)) v"
  have fresh: "x \<notin> kept new ys" "x \<notin> set zs"
  proof -
    show "x \<notin> set zs" using u by (simp add: unique_addresses_def)
    show "x \<notin> kept new ys"
    proof
      assume "x \<in> kept new ys"
      then obtain c where "c \<in> set ys" "same_address c x" by (auto simp: kept_def dest: find_Some_set)
      then show False using u by (auto simp: unique_addresses_def)
    qed
  qed
  have remove: "does view (ord_RemoveConsenter C x) ?v (on_ord (vo_consenters_update (\<lambda>_. kept new ys \<union> set zs)) v)"
  proof -
    have "x \<in> vo_consenters (view_ord ?v)" by simp
    then have "does view (ord_RemoveConsenter C x) ?v (on_ord (vo_consenters_update (\<lambda>s. s - {x})) ?v)"
      using laws unfolding consenter_laws_def by blast
    moreover have "on_ord (vo_consenters_update (\<lambda>s. s - {x})) ?v = on_ord (vo_consenters_update (\<lambda>_. kept new ys \<union> set zs)) v"
      using fresh by (simp add: on_ord_def)
    ultimately show ?thesis by simp
  qed
  show ?thesis
  proof (cases "find (same_address x) new")
    case None
    then have "kept new (ys @ [x]) = kept new ys" by (auto simp: kept_def)
    with None remove show ?thesis by (simp add: update_consenter_def does_wrap)
  next
    case (Some d)
    then have k: "kept new (ys @ [x]) = insert d (kept new ys)" by (auto simp: kept_def)
    show ?thesis
    proof (cases "Raw (ClientTLSCert d) \<noteq> Raw (ClientTLSCert x) \<or> Raw (ServerTLSCert d) \<noteq> Raw (ServerTLSCert x)")
      case True
      have "does view (ord_AddConsenter C d) (on_ord (vo_consenters_update (\<lambda>_. kept new ys \<union> set zs)) v)
          (on_ord (vo_consenters_update (insert d)) (on_ord (vo_consenters_update (\<lambda>_. kept new ys \<union> set zs)) v))"
        using laws by (simp add: consenter_laws_def)
      then have "does view (ord_AddConsenter C d) (on_ord (vo_consenters_update (\<lambda>_. kept new ys \<union> set zs)) v)
          (on_ord (vo_consenters_update (\<lambda>_. kept new (ys @ [x]) \<union> set zs)) v)"
        by (simp add: on_ord_def comp_def k)
      then show ?thesis unfolding update_consenter_def Some option.case if_P [OF True]
        by (intro does_bind [OF does_wrap [OF remove]] does_wrap)
    next
      case False
      then have "d = x" using Some by (intro same_consenter) (auto dest: find_Some_set)
      then have "kept new (ys @ [x]) \<union> set zs = ?S" using k by auto
      with Some False show ?thesis by (simp add: update_consenter_def does_return)
    qed
  qed
qed

lemma add_consenters_does:
  assumes "consenter_laws C view"
  shows "does view (io_for (\<lambda>d. if p d then io_return () else io_wrap (t d) (ord_AddConsenter C d)) new) v
    (on_ord (vo_consenters_update (\<lambda>s. s \<union> set (filter (\<lambda>d. \<not> p d) new))) v)"
proof (induction new arbitrary: v)
  case (Cons d new)
  show ?case
  proof (cases "p d")
    case False
    have "does view (io_wrap (t d) (ord_AddConsenter C d)) v (on_ord (vo_consenters_update (insert d)) v)"
      using assms by (simp add: consenter_laws_def does_wrap)
    from does_bind [OF this Cons] False show ?thesis by (simp add: on_ord_def comp_def)
  qed (use does_bind [OF does_return Cons] in \<open>simp add: on_ord_def\<close>)
next
  case Nil
  have "on_ord (vo_consenters_update (\<lambda>s. s)) v = v" by (simp add: on_ord_def)
  then show ?case by (simp only: io_for.simps filter.simps list.set Un_empty_right does_return)
qed

lemma kept_and_added:
  assumes "unique_addresses new"
  shows "kept new cs \<union> set (filter (\<lambda>d. \<not> list_ex (\<lambda>c. same_address c d) cs) new) = set new"
proof -
  have "find (same_address c) new = Some d" if "c \<in> set cs" "same_address c d" "d \<in> set new" for c d
  proof (cases "find (same_address c) new")
    case None
    then show ?thesis using that by (auto simp: find_None_iff)
  next
    case (Some e)
    then have "e \<in> set new" "same_address c e" by (auto dest: find_Some_set)
    then have "e = d" using that assms by (auto simp: unique_addresses_def same_address_def)
    with Some show ?thesis by simp
  qed
  then show ?thesis by (auto simp: kept_def list_ex_iff dest: find_Some_set)
qed

lemma update_consenters_does:
  assumes laws: "consenter_laws C view" and "unique_addresses current" and new: "unique_addresses new"
    and "set current = vo_consenters (view_ord v)"
  shows "does view (update_consenters C current new) v (on_ord (vo_consenters_update (\<lambda>_. set new)) v)"
proof -
  let ?I = "\<lambda>ys. on_ord (vo_consenters_update (\<lambda>_. kept new ys \<union> set (drop (length ys) current))) v"
  have "does view (io_for (update_consenter C new) current) (?I []) (?I current)"
  proof (rule does_for_inv [where I = ?I])
    fix ys x zs
    assume xs: "current = ys @ x # zs"
    have "unique_addresses (ys @ x # zs)" using assms(2) xs by simp
    from update_consenter_does [OF laws this]
    show "does view (update_consenter C new x) (?I ys) (?I (ys @ [x]))" by (simp add: xs)
  qed
  moreover have "?I [] = v" using assms(4) by (simp add: kept_def on_ord_def)
  ultimately have first: "does view (io_for (update_consenter C new) current) v (?I current)" by (simp only:)
  have "on_ord (vo_consenters_update (\<lambda>s. s \<union> set (filter (\<lambda>d. \<not> list_ex (\<lambda>c. same_address c d) current) new)))
      (?I current) = on_ord (vo_consenters_update (\<lambda>_. set new)) v"
    using kept_and_added [OF new, of current] by (simp add: on_ord_def)
  then have second: "does view (io_for (\<lambda>d. if list_ex (\<lambda>c. same_address c d) current then io_return ()
      else io_wrap (''failed to add consenter '' @ consenter_name d) (ord_AddConsenter C d)) new)
      (?I current) (on_ord (vo_consenters_update (\<lambda>_. set new)) v)"
    using add_consenters_does [OF laws, of "\<lambda>d. list_ex (\<lambda>c. same_address c d) current"
      "\<lambda>d. ''failed to add consenter '' @ consenter_name d" new "?I current"] by (simp only:)
  show ?thesis unfolding update_consenters_def by (rule does_bind [OF first second])
qed

section \<open>The orderer section\<close>

definition endpoint :: "Address \<Rightarrow> string" where
  "endpoint a = join_host_port (Host a) (Port a)"

definition add_endpoint :: "string \<Rightarrow> string list \<Rightarrow> string list" where
  "add_endpoint e es = (if e \<in> set es then es else es @ [e])"

definition endpoint_laws :: "'w configtx \<Rightarrow> ('w \<Rightarrow> channel_view) \<Rightarrow> bool" where
  "endpoint_laws C view \<longleftrightarrow> (\<forall>n old v. vo_orgs (view_ord v) n = Some old \<longrightarrow>
     reads view (ordorg_Configuration C n) v (\<lambda>o'. o' = old)
   \<and> (\<forall>a. does view (ordorg_RemoveEndpoint C n a) v
        (upd_ord_orgs (\<lambda>m. m(n \<mapsto> old\<lparr>OrdererEndpoints := removeAll (endpoint a) (OrdererEndpoints old)\<rparr>)) v))
   \<and> (\<forall>a. does view (ordorg_SetEndpoint C n a) v
        (upd_ord_orgs (\<lambda>m. m(n \<mapsto> old\<lparr>OrdererEndpoints := add_endpoint (endpoint a) (OrdererEndpoints old)\<rparr>)) v))
   \<and> (\<forall>msp. does view (ordorg_SetMSP C n msp) v (upd_ord_orgs (\<lambda>m. m(n \<mapsto> old\<lparr>org_MSP := msp\<rparr>)) v)))"

definition ord_org_laws :: "'w configtx \<Rightarrow> ('w \<Rightarrow> channel_view) \<Rightarrow> bool" where
  "ord_org_laws C view \<longleftrightarrow> endpoint_laws C view
   \<and> (\<forall>n v. does view (ord_RemoveOrganization C n) v (upd_ord_orgs (\<lambda>m. m(n := None)) v))
   \<and> (\<forall>o' v. does view (ord_SetOrganization C o') v (upd_ord_orgs (\<lambda>m. m(org_Name o' \<mapsto> o')) v))"

text \<open>An endpoint of the form the library writes: parsing and printing it gives it back.\<close>

definition canonical :: "string \<Rightarrow> bool" where
  "canonical e \<longleftrightarrow> (case parse_endpoint e of Ok a \<Rightarrow> endpoint a = e | _ \<Rightarrow> False)"

lemma canonical_join:
  assumes "plain_host h" and "0 \<le> p" and "p < 2 ^ 63"
  shows "canonical (join_host_port h p)"
  using SplitHostPort_join [OF assms(1,2)] Atoi_itoa [OF assms(2,3)]
  by (simp add: canonical_def parse_endpoint_def endpoint_def)

lemma for_endpoints_does:
  assumes "\<And>ys e zs a. es = ys @ e # zs \<Longrightarrow> endpoint a = e \<Longrightarrow> does view (act a) (I ys) (I (ys @ [e]))"
    and "\<forall>e \<in> set es. canonical e"
  shows "does view (for_endpoints act msg es) (I []) (I es)"
  unfolding for_endpoints_def
proof (rule does_for_inv [where I = I])
  fix ys e zs
  assume es: "es = ys @ e # zs"
  then obtain a where a: "parse_endpoint e = Ok a" "endpoint a = e"
    using assms(2) by (auto simp: canonical_def split: res.splits)
  show "does view (io_bind (io_lift (parse_endpoint e)) (\<lambda>a. io_wrap (msg @ e) (act a))) (I ys) (I (ys @ [e]))"
    using a(1) does_wrap [OF assms(1) [OF es a(2)]] by (rule does_lift)
qed

text \<open>The stored organization with the endpoints and the revocation list of the resource's.\<close>

definition refresh_org :: "ChannelOrganization \<Rightarrow> ChannelOrganization \<Rightarrow> ChannelOrganization" where
  "refresh_org old o' = old\<lparr>OrdererEndpoints := OrdererEndpoints o',
     org_MSP := org_MSP old\<lparr>RevocationList := RevocationList (org_MSP o')\<rparr>\<rparr>"

lemma upd_ord_orgs_put:
  "vo_orgs (view_ord (upd_ord_orgs (\<lambda>m. m(n \<mapsto> x)) v)) n = Some x"
  "upd_ord_orgs (\<lambda>m. m(n \<mapsto> y)) (upd_ord_orgs (\<lambda>m. m(n \<mapsto> x)) v) = upd_ord_orgs (\<lambda>m. m(n \<mapsto> y)) v"
  "vo_orgs (view_ord v) n = Some x \<Longrightarrow> upd_ord_orgs (\<lambda>m. m(n \<mapsto> x)) v = v"
proof -
  show "upd_ord_orgs (\<lambda>m. m(n \<mapsto> y)) (upd_ord_orgs (\<lambda>m. m(n \<mapsto> x)) v) = upd_ord_orgs (\<lambda>m. m(n \<mapsto> y)) v"
    unfolding upd_compose(2) by (rule upd_ord_orgs_cong) simp
  show "upd_ord_orgs (\<lambda>m. m(n \<mapsto> x)) v = v" if "vo_orgs (view_ord v) n = Some x"
  proof -
    have "upd_ord_orgs (\<lambda>m. m(n \<mapsto> x)) v = upd_ord_orgs (\<lambda>m. m) v"
      using that by (intro upd_ord_orgs_cong) auto
    then show ?thesis by (simp add: upd_id)
  qed
qed (simp add: upd_defs)

lemma update_orderer_organization_does:
  assumes laws: "endpoint_laws C view" and old: "vo_orgs (view_ord v) (org_Name o') = Some old"
    and can: "\<forall>e \<in> set (OrdererEndpoints old) \<union> set (OrdererEndpoints o'). canonical e"
    and "distinct (OrdererEndpoints o')"
  shows "does view (update_orderer_organization C o') v (upd_ord_orgs (\<lambda>m. m(org_Name o' \<mapsto> refresh_org old o')) v)"
proof -
  let ?n = "org_Name o'" and ?es = "OrdererEndpoints old" and ?es' = "OrdererEndpoints o'"
  let ?with = "\<lambda>es. upd_ord_orgs (\<lambda>m. m(?n \<mapsto> old\<lparr>OrdererEndpoints := es\<rparr>)) v"
  have law: "vo_orgs (view_ord u) ?n = Some x \<Longrightarrow>
      does view (ordorg_RemoveEndpoint C ?n a) u (upd_ord_orgs (\<lambda>m. m(?n \<mapsto> x\<lparr>OrdererEndpoints := removeAll (endpoint a) (OrdererEndpoints x)\<rparr>)) u)"
    "vo_orgs (view_ord u) ?n = Some x \<Longrightarrow>
      does view (ordorg_SetEndpoint C ?n a) u (upd_ord_orgs (\<lambda>m. m(?n \<mapsto> x\<lparr>OrdererEndpoints := add_endpoint (endpoint a) (OrdererEndpoints x)\<rparr>)) u)"
    "vo_orgs (view_ord u) ?n = Some x \<Longrightarrow>
      does view (ordorg_SetMSP C ?n msp) u (upd_ord_orgs (\<lambda>m. m(?n \<mapsto> x\<lparr>org_MSP := msp\<rparr>)) u)"
    "reads view (ordorg_Configuration C ?n) v (\<lambda>o'. o' = old)" for u x a msp
    using laws old unfolding endpoint_laws_def by blast+
  let ?I = "\<lambda>ys. ?with (filter (\<lambda>e. e \<notin> set ys) ?es)"
  have "does view (for_endpoints (ordorg_RemoveEndpoint C ?n) ''failed to remove endpoint '' ?es) (?I []) (?I ?es)"
  proof (rule for_endpoints_does [where I = ?I])
    fix ys e zs a
    assume "endpoint a = e"
    moreover have "removeAll e (filter (\<lambda>e. e \<notin> set ys) ?es) = filter (\<lambda>x. x \<notin> set (ys @ [e])) ?es"
      by (auto simp: removeAll_filter_not_eq intro!: filter_cong)
    ultimately show "does view (ordorg_RemoveEndpoint C ?n a) (?I ys) (?I (ys @ [e]))"
      using law(1) [OF upd_ord_orgs_put(1), of a "old\<lparr>OrdererEndpoints := filter (\<lambda>e. e \<notin> set ys) ?es\<rparr>" v]
      by (simp add: upd_ord_orgs_put(2))
  qed (use can in auto)
  moreover have "?I [] = v" using upd_ord_orgs_put(3) [OF old] by simp
  moreover have "?I ?es = ?with []" by simp
  ultimately have remove: "does view (for_endpoints (ordorg_RemoveEndpoint C ?n) ''failed to remove endpoint '' ?es) v (?with [])"
    by (simp only:)
  have add: "does view (for_endpoints (ordorg_SetEndpoint C ?n) ''failed to add endpoint '' ?es') (?with []) (?with ?es')"
  proof (rule for_endpoints_does [where I = ?with])
    fix ys e zs a
    assume "?es' = ys @ e # zs" "endpoint a = e"
    then have "add_endpoint (endpoint a) ys = ys @ [e]" using assms(4) by (simp add: add_endpoint_def)
    then show "does view (ordorg_SetEndpoint C ?n a) (?with ys) (?with (ys @ [e]))"
      using law(2) [OF upd_ord_orgs_put(1), of a "old\<lparr>OrdererEndpoints := ys\<rparr>" v]
      by (simp add: upd_ord_orgs_put(2))
  qed (use can in auto)
  have msp: "does view (io_wrap t (ordorg_SetMSP C ?n (org_MSP old\<lparr>RevocationList := RevocationList (org_MSP o')\<rparr>)))
      (?with ?es') (upd_ord_orgs (\<lambda>m. m(?n \<mapsto> refresh_org old o')) v)" for t
    using does_wrap [OF law(3) [OF upd_ord_orgs_put(1), of _ "old\<lparr>OrdererEndpoints := ?es'\<rparr>" v]]
    by (simp add: upd_ord_orgs_put(2) refresh_org_def)
  show ?thesis unfolding update_orderer_organization_def Let_def
    by (rule does_read [OF reads_wrap [OF law(4)]]) (simp only:, intro does_bind [OF remove] does_bind [OF add] msp)
qed

text \<open>
  The ordering organizations after the update: exactly those the resource names; the ones the channel
  had are refreshed, the others are the resource's.
\<close>

definition refreshed_orgs ::
  "(string \<rightharpoonup> ChannelOrganization) \<Rightarrow> ChannelOrganization list \<Rightarrow> string \<rightharpoonup> ChannelOrganization" where
  "refreshed_orgs old new n = (case find (\<lambda>o'. org_Name o' = n) new of
       None \<Rightarrow> None
     | Some o' \<Rightarrow> Some (case old n of None \<Rightarrow> o' | Some x \<Rightarrow> refresh_org x o'))"

definition endpoints_ok :: "(string \<rightharpoonup> ChannelOrganization) \<Rightarrow> ChannelOrganization list \<Rightarrow> bool" where
  "endpoints_ok old new \<longleftrightarrow> distinct (map org_Name new)
     \<and> (\<forall>o' \<in> set new. distinct (OrdererEndpoints o') \<and> (\<forall>e \<in> set (OrdererEndpoints o'). canonical e))
     \<and> (\<forall>o' \<in> ran old. \<forall>e \<in> set (OrdererEndpoints o'). canonical e)"

lemma find_unique:
  "distinct (map f xs) \<Longrightarrow> x \<in> set xs \<Longrightarrow> find (\<lambda>y. f y = f x) xs = Some x"
  by (induction xs) auto

text \<open>The organizations when the loop has come to the end of \<open>ys\<close>.\<close>

definition refreshed_upto ::
  "(string \<rightharpoonup> ChannelOrganization) \<Rightarrow> ChannelOrganization list \<Rightarrow> string set \<Rightarrow> ChannelOrganization list
   \<Rightarrow> string \<rightharpoonup> ChannelOrganization" where
  "refreshed_upto old new X ys n = (if n \<in> org_Name ` set ys then refreshed_orgs old new n else (old |` X) n)"

lemma refreshed_upto_ends:
  "refreshed_upto old new X [] = old |` X"
  "lists_orgs old current \<Longrightarrow> refreshed_upto old new (- (org_Name ` set current - org_Name ` set new)) new = refreshed_orgs old new"
proof -
  assume lists: "lists_orgs old current"
  show "refreshed_upto old new (- (org_Name ` set current - org_Name ` set new)) new = refreshed_orgs old new"
  proof
    fix n
    show "refreshed_upto old new (- (org_Name ` set current - org_Name ` set new)) new n = refreshed_orgs old new n"
    proof (cases "n \<in> org_Name ` set new")
      case False
      then have "find (\<lambda>o'. org_Name o' = n) new = None" by (auto simp: find_None_iff)
      then show ?thesis using False lists
        by (auto simp: refreshed_upto_def refreshed_orgs_def restrict_map_def lists_orgs_def domIff)
    qed (simp add: refreshed_upto_def)
  qed
qed (rule ext, simp add: refreshed_upto_def)

lemma orderer_organizations_does:
  assumes laws: "ord_org_laws C view" and ok: "endpoints_ok (vo_orgs (view_ord v)) new"
    and lists: "lists_orgs (vo_orgs (view_ord v)) current"
  shows "does view (io_bind (remove_organizations (ord_RemoveOrganization C) current new)
      (\<lambda>_. set_orderer_organizations C current new)) v (upd_ord_orgs (\<lambda>m. refreshed_orgs m new) v)"
proof (rule does_bind)
  let ?old = "vo_orgs (view_ord v)" and ?X = "- (org_Name ` set current - org_Name ` set new)"
  have remove: "does view (ord_RemoveOrganization C n) v (upd_ord_orgs (\<lambda>m. m(n := None)) v)" for n v
    using laws by (simp add: ord_org_laws_def)
  show "does view (remove_organizations (ord_RemoveOrganization C) current new) v (upd_ord_orgs (\<lambda>m. m |` ?X) v)"
    by (rule remove_organizations_does [where upd = upd_ord_orgs, OF remove upd_compose(2) upd_id(2)])
  let ?m = "refreshed_upto ?old new ?X"
  let ?I = "\<lambda>ys :: ChannelOrganization list. upd_ord_orgs (\<lambda>_. ?m ys) v"
  have d: "n \<in> org_Name ` set current \<longleftrightarrow> ?old n \<noteq> None" for n using lists by (auto simp: lists_orgs_def domIff)
  have loop: "does view (set_orderer_organizations C current new) (?I []) (?I new)"
    unfolding set_orderer_organizations_def
  proof (rule does_for_inv [where I = ?I])
    fix ys x zs
    assume new: "new = ys @ x # zs"
    have names: "distinct (map org_Name new)" using ok by (simp add: endpoints_ok_def)
    then have fresh: "org_Name x \<notin> org_Name ` set ys" using new by auto
    have found: "find (\<lambda>o'. org_Name o' = org_Name x) new = Some x"
      using names by (rule find_unique) (simp add: new)
    have here: "vo_orgs (view_ord (?I ys)) (org_Name x) = ?old (org_Name x)"
      using fresh new by (simp add: upd_defs restrict_map_def refreshed_upto_def)
    have step: "upd_ord_orgs (\<lambda>m. m(org_Name x \<mapsto> y)) (?I ys) = ?I (ys @ [x])"
      if "refreshed_orgs ?old new (org_Name x) = Some y" for y
      unfolding upd_compose(2) using that by (intro upd_ord_orgs_cong) (auto simp: refreshed_upto_def)
    show "does view (if has_org (org_Name x) current then update_orderer_organization C x
        else io_wrap (''failed to set organization '' @ org_Name x) (ord_SetOrganization C x)) (?I ys) (?I (ys @ [x]))"
    proof (cases "?old (org_Name x)")
      case None
      then have "\<not> has_org (org_Name x) current" using d by (simp add: has_org_iff)
      moreover have "refreshed_orgs ?old new (org_Name x) = Some x" using None found by (simp add: refreshed_orgs_def)
      moreover have "does view (ord_SetOrganization C x) (?I ys) (upd_ord_orgs (\<lambda>m. m(org_Name x \<mapsto> x)) (?I ys))"
        using laws unfolding ord_org_laws_def by blast
      ultimately show ?thesis using step by (simp only: if_False) (rule does_wrap, simp only:)
    next
      case (Some old)
      then have "has_org (org_Name x) current" using d by (simp add: has_org_iff)
      moreover have "refreshed_orgs ?old new (org_Name x) = Some (refresh_org old x)"
        using Some found by (simp add: refreshed_orgs_def)
      moreover have "does view (update_orderer_organization C x) (?I ys)
          (upd_ord_orgs (\<lambda>m. m(org_Name x \<mapsto> refresh_org old x)) (?I ys))"
      proof (rule update_orderer_organization_does)
        show "endpoint_laws C view" using laws by (simp add: ord_org_laws_def)
        show "vo_orgs (view_ord (?I ys)) (org_Name x) = Some old" using here Some by simp
        show "\<forall>e \<in> set (OrdererEndpoints old) \<union> set (OrdererEndpoints x). canonical e"
          using ok Some new by (auto simp: endpoints_ok_def ran_def)
        show "distinct (OrdererEndpoints x)" using ok new by (auto simp: endpoints_ok_def)
      qed
      ultimately show ?thesis using step by (simp only: if_True)
    qed
  qed
  have "?I [] = upd_ord_orgs (\<lambda>m. m |` ?X) v" by (rule upd_ord_orgs_cong) (simp add: refreshed_upto_ends)
  moreover have "?I new = upd_ord_orgs (\<lambda>m. refreshed_orgs m new) v"
    by (rule upd_ord_orgs_cong) (rule refreshed_upto_ends(2) [OF lists])
  ultimately show "does view (set_orderer_organizations C current new) (upd_ord_orgs (\<lambda>m. m |` ?X) v)
      (upd_ord_orgs (\<lambda>m. refreshed_orgs m new) v)"
    using loop by (simp only:)
qed

definition raft_laws :: "'w configtx \<Rightarrow> ('w \<Rightarrow> channel_view) \<Rightarrow> bool" where
  "raft_laws C view \<longleftrightarrow>
     (\<forall>n v. does view (raft_SetElectionInterval C n) v (on_ord (vo_raft_update (\<lambda>o'. o'\<lparr>ElectionTick := n\<rparr>)) v))
   \<and> (\<forall>n v. does view (raft_SetHeartbeatTick C n) v (on_ord (vo_raft_update (\<lambda>o'. o'\<lparr>HeartbeatTick := n\<rparr>)) v))
   \<and> (\<forall>t v. does view (raft_SetTickInterval C t) v (on_ord (vo_raft_update (\<lambda>o'. o'\<lparr>TickInterval := t\<rparr>)) v))
   \<and> (\<forall>n v. does view (raft_SetSnapshotIntervalSize C n) v (on_ord (vo_raft_update (\<lambda>o'. o'\<lparr>SnapshotIntervalSize := n\<rparr>)) v))
   \<and> (\<forall>n v. does view (raft_SetMaxInflightBlocks C n) v (on_ord (vo_raft_update (\<lambda>o'. o'\<lparr>MaxInflightBlocks := n\<rparr>)) v))"

definition batch_laws :: "'w configtx \<Rightarrow> ('w \<Rightarrow> channel_view) \<Rightarrow> bool" where
  "batch_laws C view \<longleftrightarrow>
     (\<forall>n v. does view (batch_SetMaxMessageCount C n) v (on_ord (vo_batch_update (\<lambda>b. b\<lparr>MaxMessageCount := n\<rparr>)) v))
   \<and> (\<forall>n v. does view (batch_SetAbsoluteMaxBytes C n) v (on_ord (vo_batch_update (\<lambda>b. b\<lparr>AbsoluteMaxBytes := n\<rparr>)) v))
   \<and> (\<forall>n v. does view (batch_SetPreferredMaxBytes C n) v (on_ord (vo_batch_update (\<lambda>b. b\<lparr>PreferredMaxBytes := n\<rparr>)) v))
   \<and> (\<forall>t v. does view (ord_SetBatchTimeout C t) v (on_ord (\<lambda>o'. o'\<lparr>vo_timeout := t\<rparr>) v))"

definition ord_laws :: "'w configtx \<Rightarrow> ('w \<Rightarrow> channel_view) \<Rightarrow> bool" where
  "ord_laws C view \<longleftrightarrow>
     (\<forall>v. reads view (ord_Configuration C) v (\<lambda>o'. OrdererType o' = vo_type (view_ord v)
        \<and> lists_orgs (vo_orgs (view_ord v)) (ord_Organizations o')
        \<and> distinct (raft_Consenters (ord_EtcdRaft o'))
        \<and> set (raft_Consenters (ord_EtcdRaft o')) = vo_consenters (view_ord v)))
   \<and> (\<forall>ps v. does view (ord_SetPolicies C ps) v (on_ord (\<lambda>o'. o'\<lparr>vo_policies := ps\<rparr>) v))
   \<and> (\<forall>s v. does view (ord_SetConsensusState C s) v (on_ord (\<lambda>o'. o'\<lparr>vo_state := s\<rparr>) v))
   \<and> capability_laws view (ord_AddCapability C) (ord_RemoveCapability C) (vo_caps \<circ> view_ord) upd_ord_caps
   \<and> ord_org_laws C view \<and> consenter_laws C view \<and> raft_laws C view \<and> batch_laws C view"

lemma ord_lawsD:
  assumes "ord_laws C view"
  shows "reads view (ord_Configuration C) v (\<lambda>o'. OrdererType o' = vo_type (view_ord v)
        \<and> lists_orgs (vo_orgs (view_ord v)) (ord_Organizations o')
        \<and> distinct (raft_Consenters (ord_EtcdRaft o'))
        \<and> set (raft_Consenters (ord_EtcdRaft o')) = vo_consenters (view_ord v))"
    and "does view (ord_SetPolicies C ps) v (on_ord (\<lambda>o'. o'\<lparr>vo_policies := ps\<rparr>) v)"
    and "does view (ord_SetConsensusState C s) v (on_ord (\<lambda>o'. o'\<lparr>vo_state := s\<rparr>) v)"
    and "capability_laws view (ord_AddCapability C) (ord_RemoveCapability C) (vo_caps \<circ> view_ord) upd_ord_caps"
    and "ord_org_laws C view" and "consenter_laws C view" and "raft_laws C view" and "batch_laws C view"
  using assms by (simp_all add: ord_laws_def)

lemma set_raft_options_does:
  assumes "raft_laws C view"
  shows "does view (set_raft_options C o') v (on_ord (\<lambda>ord. ord\<lparr>vo_raft := o'\<rparr>) v)"
proof -
  let ?u = "\<lambda>f. on_ord (vo_raft_update f)"
  have laws: "does view (raft_SetElectionInterval C n) v (?u (\<lambda>o'. o'\<lparr>ElectionTick := n\<rparr>) v)"
    "does view (raft_SetHeartbeatTick C n) v (?u (\<lambda>o'. o'\<lparr>HeartbeatTick := n\<rparr>) v)"
    "does view (raft_SetTickInterval C t) v (?u (\<lambda>o'. o'\<lparr>TickInterval := t\<rparr>) v)"
    "does view (raft_SetSnapshotIntervalSize C n) v (?u (\<lambda>o'. o'\<lparr>SnapshotIntervalSize := n\<rparr>) v)"
    "does view (raft_SetMaxInflightBlocks C n) v (?u (\<lambda>o'. o'\<lparr>MaxInflightBlocks := n\<rparr>) v)" for n t v
    using assms by (simp_all add: raft_laws_def)
  have "does view (set_raft_options C o') v
    (?u (\<lambda>p. p\<lparr>MaxInflightBlocks := MaxInflightBlocks o'\<rparr>)
    (?u (\<lambda>p. p\<lparr>SnapshotIntervalSize := SnapshotIntervalSize o'\<rparr>)
    (?u (\<lambda>p. p\<lparr>TickInterval := TickInterval o'\<rparr>)
    (?u (\<lambda>p. p\<lparr>HeartbeatTick := HeartbeatTick o'\<rparr>)
    (?u (\<lambda>p. p\<lparr>ElectionTick := ElectionTick o'\<rparr>) v)))))"
    unfolding set_raft_options_def
    by (rule does_bind [OF does_wrap [OF laws(1)] does_bind [OF does_wrap [OF laws(2)]
      does_bind [OF does_wrap [OF laws(3)] does_bind [OF does_wrap [OF laws(4)] does_wrap [OF laws(5)]]]]])
  moreover have "(?u (\<lambda>p. p\<lparr>MaxInflightBlocks := MaxInflightBlocks o'\<rparr>)
    (?u (\<lambda>p. p\<lparr>SnapshotIntervalSize := SnapshotIntervalSize o'\<rparr>)
    (?u (\<lambda>p. p\<lparr>TickInterval := TickInterval o'\<rparr>)
    (?u (\<lambda>p. p\<lparr>HeartbeatTick := HeartbeatTick o'\<rparr>)
    (?u (\<lambda>p. p\<lparr>ElectionTick := ElectionTick o'\<rparr>) v))))) = on_ord (\<lambda>ord. ord\<lparr>vo_raft := o'\<rparr>) v"
    by (simp add: on_ord_def)
  ultimately show ?thesis by (simp only:)
qed

lemma update_batch_does:
  assumes "batch_laws C view"
  shows "does view (update_batch C new) v (on_ord (\<lambda>ord. ord\<lparr>vo_batch := ord_BatchSize new, vo_timeout := BatchTimeout new\<rparr>) v)"
proof -
  let ?u = "\<lambda>f. on_ord (vo_batch_update f)" and ?b = "ord_BatchSize new"
  have laws: "does view (batch_SetMaxMessageCount C n) v (?u (\<lambda>b. b\<lparr>MaxMessageCount := n\<rparr>) v)"
    "does view (batch_SetAbsoluteMaxBytes C n) v (?u (\<lambda>b. b\<lparr>AbsoluteMaxBytes := n\<rparr>) v)"
    "does view (batch_SetPreferredMaxBytes C n) v (?u (\<lambda>b. b\<lparr>PreferredMaxBytes := n\<rparr>) v)"
    "does view (ord_SetBatchTimeout C t) v (on_ord (\<lambda>o'. o'\<lparr>vo_timeout := t\<rparr>) v)" for n t v
    using assms by (simp_all add: batch_laws_def)
  have "does view (update_batch C new) v (on_ord (\<lambda>o'. o'\<lparr>vo_timeout := BatchTimeout new\<rparr>)
    (?u (\<lambda>b. b\<lparr>PreferredMaxBytes := PreferredMaxBytes ?b\<rparr>) (?u (\<lambda>b. b\<lparr>AbsoluteMaxBytes := AbsoluteMaxBytes ?b\<rparr>)
    (?u (\<lambda>b. b\<lparr>MaxMessageCount := MaxMessageCount ?b\<rparr>) v))))"
    unfolding update_batch_def
    by (rule does_bind [OF does_wrap [OF laws(1)] does_bind [OF does_wrap [OF laws(2)]
      does_bind [OF does_wrap [OF laws(3)] does_wrap [OF laws(4)]]]])
  moreover have "on_ord (\<lambda>o'. o'\<lparr>vo_timeout := BatchTimeout new\<rparr>)
    (?u (\<lambda>b. b\<lparr>PreferredMaxBytes := PreferredMaxBytes ?b\<rparr>) (?u (\<lambda>b. b\<lparr>AbsoluteMaxBytes := AbsoluteMaxBytes ?b\<rparr>)
    (?u (\<lambda>b. b\<lparr>MaxMessageCount := MaxMessageCount ?b\<rparr>) v)))
    = on_ord (\<lambda>ord. ord\<lparr>vo_batch := ?b, vo_timeout := BatchTimeout new\<rparr>) v"
    by (simp add: on_ord_def)
  ultimately show ?thesis by (simp only:)
qed

text \<open>The capabilities: present ones are removed and added again, an absent one stops the update.\<close>

lemma update_orderer_capabilities_does:
  assumes laws: "ord_laws C view" and d: "distinct (ord_Capabilities new)"
    and sub: "set (ord_Capabilities new) \<subseteq> vo_caps (view_ord v)"
  shows "does view (update_orderer_capabilities C new) v v"
proof -
  let ?cs = "ord_Capabilities new"
  have "does view (remove_capabilities (ord_RemoveCapability C) ?cs) v (upd_ord_caps (\<lambda>s. s - set ?cs) v)"
    by (rule remove_capabilities_does [OF ord_lawsD(4) [OF laws] upd_compose(4) upd_id(4) _ d])
       (use sub in \<open>simp_all add: upd_defs\<close>)
  moreover have "does view (add_capabilities (ord_AddCapability C) ?cs) u (upd_ord_caps (\<lambda>s. s \<union> set ?cs) u)" for u
    by (rule add_capabilities_does [OF ord_lawsD(4) [OF laws] upd_compose(4) upd_id(4)])
  moreover have "upd_ord_caps (\<lambda>s. s \<union> set ?cs) (upd_ord_caps (\<lambda>s. s - set ?cs) v) = v"
  proof -
    have "vo_caps (view_ord v) - set ?cs \<union> set ?cs = vo_caps (view_ord v)" using sub by auto
    then show ?thesis by (simp add: upd_defs)
  qed
  ultimately show ?thesis unfolding update_orderer_capabilities_def by (metis does_bind)
qed

lemma update_orderer_capabilities_fails:
  assumes laws: "ord_laws C view" and "\<not> set (ord_Capabilities new) \<subseteq> vo_caps (view_ord (view w))"
  shows "\<exists>e w'. update_orderer_capabilities C new w = (Err e, w')"
proof -
  have "\<exists>e w'. remove_capabilities (ord_RemoveCapability C) (ord_Capabilities new) w = (Err e, w')"
    by (rule remove_capabilities_refuses [OF ord_lawsD(4) [OF laws], where v = "view w"])
       (use assms(2) in \<open>simp_all add: upd_defs\<close>)
  then show ?thesis by (auto simp: update_orderer_capabilities_def io_bind_apply)
qed

text \<open>What the update makes of the orderer section of a Raft channel, but for the capabilities.\<close>

definition raft_target :: "Orderer \<Rightarrow> orderer_view \<Rightarrow> orderer_view" where
  "raft_target new ord = ord
     \<lparr>vo_orgs := refreshed_orgs (vo_orgs ord) (ord_Organizations new), vo_policies := ord_Policies new,
      vo_consenters := set (raft_Consenters (ord_EtcdRaft new)),
      vo_raft := EtcdRaft_Options (ord_EtcdRaft new), vo_state := ConsensusState new,
      vo_batch := ord_BatchSize new, vo_timeout := BatchTimeout new\<rparr>"

definition before_capabilities :: "'w configtx \<Rightarrow> Orderer \<Rightarrow> Orderer \<Rightarrow> ('w, unit) io" where
  "before_capabilities C ord new =
     io_bind (update_consensus C ord new) (\<lambda>_. io_bind (update_bft_policies C ord new) (\<lambda>_.
     io_bind (update_state C new) (\<lambda>_.
     io_bind (remove_organizations (ord_RemoveOrganization C) (ord_Organizations ord) (ord_Organizations new)) (\<lambda>_.
     io_bind (set_orderer_organizations C (ord_Organizations ord) (ord_Organizations new)) (\<lambda>_.
       update_batch C new)))))"

lemma raft_consensus_does:
  assumes laws: "ord_laws C view" and "OrdererType new = OrdererConsensusEtcdraft"
    and "unique_addresses (raft_Consenters (ord_EtcdRaft ord))" and "unique_addresses (raft_Consenters (ord_EtcdRaft new))"
    and "set (raft_Consenters (ord_EtcdRaft ord)) = vo_consenters (view_ord v)"
  shows "does view (update_consensus C ord new) v (on_ord (\<lambda>o'. o'\<lparr>vo_policies := ord_Policies new,
    vo_consenters := set (raft_Consenters (ord_EtcdRaft new)), vo_raft := EtcdRaft_Options (ord_EtcdRaft new)\<rparr>) v)"
proof -
  let ?v1 = "on_ord (\<lambda>o'. o'\<lparr>vo_policies := ord_Policies new\<rparr>) v"
  have "set (raft_Consenters (ord_EtcdRaft ord)) = vo_consenters (view_ord ?v1)" using assms(5) by simp
  note cons = update_consenters_does [OF ord_lawsD(6) [OF laws] assms(3,4) this]
  have "does view (update_consensus C ord new) v (on_ord (\<lambda>ord. ord\<lparr>vo_raft := EtcdRaft_Options (ord_EtcdRaft new)\<rparr>)
      (on_ord (vo_consenters_update (\<lambda>_. set (raft_Consenters (ord_EtcdRaft new)))) ?v1))"
    unfolding update_consensus_def if_P [OF assms(2)]
    by (rule does_bind [OF does_wrap [OF ord_lawsD(2) [OF laws]]
        does_bind [OF cons set_raft_options_does [OF ord_lawsD(7) [OF laws]]]])
  then show ?thesis by (simp add: on_ord_def)
qed

lemma update_state_does:
  assumes "ord_laws C view" and "ConsensusState new \<in> {ConsensusStateNormal, ConsensusStateMaintenance}"
  shows "does view (update_state C new) v (on_ord (\<lambda>ord. ord\<lparr>vo_state := ConsensusState new\<rparr>) v)"
  using assms(2) ord_lawsD(3) [OF assms(1)]
  by (auto simp: update_state_def ConsensusStateNormal_def ConsensusStateMaintenance_def)

lemma before_capabilities_does:
  assumes laws: "ord_laws C view" and t: "OrdererType ord = OrdererConsensusEtcdraft" "OrdererType new = OrdererConsensusEtcdraft"
    and u: "unique_addresses (raft_Consenters (ord_EtcdRaft ord))" "unique_addresses (raft_Consenters (ord_EtcdRaft new))"
      "set (raft_Consenters (ord_EtcdRaft ord)) = vo_consenters (view_ord v)"
    and state: "ConsensusState new \<in> {ConsensusStateNormal, ConsensusStateMaintenance}"
    and orgs: "endpoints_ok (vo_orgs (view_ord v)) (ord_Organizations new)"
      "lists_orgs (vo_orgs (view_ord v)) (ord_Organizations ord)"
  shows "does view (before_capabilities C ord new) v (on_ord (raft_target new) v)"
proof -
  let ?v1 = "on_ord (\<lambda>o'. o'\<lparr>vo_policies := ord_Policies new,
    vo_consenters := set (raft_Consenters (ord_EtcdRaft new)), vo_raft := EtcdRaft_Options (ord_EtcdRaft new)\<rparr>) v"
  let ?v2 = "on_ord (\<lambda>ord. ord\<lparr>vo_state := ConsensusState new\<rparr>) ?v1"
  have bft: "does view (update_bft_policies C ord new) ?v1 ?v1"
    using t(1) by (simp add: update_bft_policies_def does_return OrdererConsensusBFT_def OrdererConsensusEtcdraft_def)
  have "endpoints_ok (vo_orgs (view_ord ?v2)) (ord_Organizations new)"
    "lists_orgs (vo_orgs (view_ord ?v2)) (ord_Organizations ord)" using orgs by simp_all
  note tail = does_bind [OF orderer_organizations_does [OF ord_lawsD(5) [OF laws] this] update_batch_does [OF ord_lawsD(8) [OF laws]]]
  have "does view (before_capabilities C ord new) v (on_ord (\<lambda>ord. ord\<lparr>vo_batch := ord_BatchSize new, vo_timeout := BatchTimeout new\<rparr>)
      (upd_ord_orgs (\<lambda>m. refreshed_orgs m (ord_Organizations new)) ?v2))"
    unfolding before_capabilities_def
    by (rule does_bind [OF raft_consensus_does [OF laws t(2) u] does_bind [OF bft
        does_bind [OF update_state_does [OF laws state] tail [unfolded io_bind_assoc]]]])
  moreover have "on_ord (\<lambda>ord. ord\<lparr>vo_batch := ord_BatchSize new, vo_timeout := BatchTimeout new\<rparr>)
      (upd_ord_orgs (\<lambda>m. refreshed_orgs m (ord_Organizations new)) ?v2) = on_ord (raft_target new) v"
    by (simp add: on_ord_def upd_ord_orgs_def raft_target_def)
  ultimately show ?thesis by (simp only:)
qed

lemma updateOrdererChannelConfigTx_split:
  assumes "ord_Configuration C w = (Ok ord, w)"
  shows "updateOrdererChannelConfigTx C new w =
    io_bind (before_capabilities C ord (channel_Orderer new)) (\<lambda>_. io_bind (update_orderer_capabilities C (channel_Orderer new))
      (\<lambda>_. io_bind (io_wrap ''failed to get orderer configuration'' (ord_Configuration C)) (\<lambda>_. io_return ()))) w"
  by (simp add: updateOrdererChannelConfigTx_def before_capabilities_def Let_def io_bind_assoc)
     (simp add: io_bind_apply io_wrap_apply assms)

end
