(* ===== verification/Channel_Memory.thy ===== *)
theory Channel_Memory imports Channel_Diff begin

text \<open>
  A library that keeps the configuration of a channel in memory and has the documented effects: the
  hypotheses of the update theorems have an instance.
\<close>

definition in_app :: "(Application \<Rightarrow> Application) \<Rightarrow> (Channel, unit) io" where
  "in_app f = (\<lambda>ch. (Ok (), ch\<lparr>channel_Application := f (channel_Application ch)\<rparr>))"

definition in_ord :: "(Orderer \<Rightarrow> Orderer) \<Rightarrow> (Channel, unit) io" where
  "in_ord f = (\<lambda>ch. (Ok (), ch\<lparr>channel_Orderer := f (channel_Orderer ch)\<rparr>))"

definition named :: "ChannelOrganization list \<Rightarrow> string \<rightharpoonup> ChannelOrganization" where
  "named orgs = map_of (map (\<lambda>o'. (org_Name o', o')) orgs)"

definition listed :: "ChannelOrganization list \<Rightarrow> ChannelOrganization list" where
  "listed orgs = map (the \<circ> named orgs) (remdups (map org_Name orgs))"

definition put_org :: "ChannelOrganization \<Rightarrow> ChannelOrganization list \<Rightarrow> ChannelOrganization list" where
  "put_org o' orgs = o' # orgs"

definition drop_org :: "string \<Rightarrow> ChannelOrganization list \<Rightarrow> ChannelOrganization list" where
  "drop_org n orgs = filter (\<lambda>o'. org_Name o' \<noteq> n) orgs"

definition in_org :: "string \<Rightarrow> (ChannelOrganization \<Rightarrow> ChannelOrganization) \<Rightarrow> (Channel, unit) io" where
  "in_org n f = in_ord (ord_Organizations_update (map (\<lambda>o'. if org_Name o' = n then f o' else o')))"

text \<open>Removing one capability, an error if it is not there.\<close>

definition cap_remove :: "string \<Rightarrow> string list \<Rightarrow> (string list \<Rightarrow> Channel) \<Rightarrow> Channel \<Rightarrow> unit res \<times> Channel" where
  "cap_remove c cs put ch = (if c \<in> set cs then (Ok (), put (removeAll c cs))
     else (Err (ErrorString ''capability not set''), ch))"

definition mem :: "Channel configtx" where
  "mem = \<lparr>app_Configuration = (\<lambda>ch. (Ok ((channel_Application ch)
       \<lparr>app_Organizations := listed (app_Organizations (channel_Application ch)),
        app_Capabilities := remdups (app_Capabilities (channel_Application ch))\<rparr>), ch)),
     app_SetPolicies = (\<lambda>ps. in_app (\<lambda>a. a\<lparr>app_Policies := ps\<rparr>)),
     app_RemoveOrganization = (\<lambda>n. in_app (app_Organizations_update (drop_org n))),
     app_SetOrganization = (\<lambda>o'. in_app (app_Organizations_update (put_org o'))),
     app_ACLs = (\<lambda>ch. (Ok (case ACLs (channel_Application ch) of None \<Rightarrow> [] | Some l \<Rightarrow> l), ch)),
     app_RemoveACLs = (\<lambda>ks. in_app (ACLs_update (map_option (filter (\<lambda>kv. fst kv \<notin> set ks))))),
     app_SetACLs = (\<lambda>acls. in_app (ACLs_update (\<lambda>old. Some (acls @ (case old of None \<Rightarrow> [] | Some l \<Rightarrow> l))))),
     app_RemoveCapability = (\<lambda>c ch. cap_remove c (app_Capabilities (channel_Application ch))
       (\<lambda>cs. ch\<lparr>channel_Application := (channel_Application ch)\<lparr>app_Capabilities := cs\<rparr>\<rparr>) ch),
     app_AddCapability = (\<lambda>c. in_app (app_Capabilities_update (\<lambda>cs. cs @ [c]))),
     chan_Capabilities = (\<lambda>ch. (Ok (remdups (channel_Capabilities ch)), ch)),
     chan_RemoveCapability = (\<lambda>c ch. cap_remove c (channel_Capabilities ch)
       (\<lambda>cs. ch\<lparr>channel_Capabilities := cs\<rparr>) ch),
     chan_AddCapability = (\<lambda>c ch. (Ok (), ch\<lparr>channel_Capabilities := channel_Capabilities ch @ [c]\<rparr>)),
     ord_Configuration = (\<lambda>ch. (Ok ((channel_Orderer ch)
       \<lparr>ord_Organizations := listed (ord_Organizations (channel_Orderer ch)),
        ord_EtcdRaft := (ord_EtcdRaft (channel_Orderer ch))
          \<lparr>raft_Consenters := remdups (raft_Consenters (ord_EtcdRaft (channel_Orderer ch)))\<rparr>\<rparr>), ch)),
     ord_SetConfiguration = (\<lambda>o'. in_ord (\<lambda>_. o')),
     ord_SetPolicies = (\<lambda>ps. in_ord (\<lambda>o'. o'\<lparr>ord_Policies := ps\<rparr>)),
     ord_SetPolicy = (\<lambda>n p. in_ord (ord_Policies_update (\<lambda>m. m(n := p)))),
     ord_AddConsenter = (\<lambda>c. in_ord (ord_EtcdRaft_update (raft_Consenters_update (\<lambda>cs. cs @ [c])))),
     ord_RemoveConsenter = (\<lambda>c. in_ord (ord_EtcdRaft_update (raft_Consenters_update (removeAll c)))),
     ord_SetConsenterMapping = (\<lambda>m. in_ord (\<lambda>o'. o'\<lparr>ConsenterMapping := m\<rparr>)),
     raft_SetElectionInterval = (\<lambda>n. in_ord (ord_EtcdRaft_update (EtcdRaft_Options_update (\<lambda>o'. o'\<lparr>ElectionTick := n\<rparr>)))),
     raft_SetHeartbeatTick = (\<lambda>n. in_ord (ord_EtcdRaft_update (EtcdRaft_Options_update (\<lambda>o'. o'\<lparr>HeartbeatTick := n\<rparr>)))),
     raft_SetTickInterval = (\<lambda>n. in_ord (ord_EtcdRaft_update (EtcdRaft_Options_update (\<lambda>o'. o'\<lparr>TickInterval := n\<rparr>)))),
     raft_SetSnapshotIntervalSize = (\<lambda>n. in_ord (ord_EtcdRaft_update (EtcdRaft_Options_update (\<lambda>o'. o'\<lparr>SnapshotIntervalSize := n\<rparr>)))),
     raft_SetMaxInflightBlocks = (\<lambda>n. in_ord (ord_EtcdRaft_update (EtcdRaft_Options_update (\<lambda>o'. o'\<lparr>MaxInflightBlocks := n\<rparr>)))),
     ord_SetConsensusState = (\<lambda>s. in_ord (\<lambda>o'. o'\<lparr>ConsensusState := s\<rparr>)),
     ord_RemoveOrganization = (\<lambda>n. in_ord (ord_Organizations_update (drop_org n))),
     ord_SetOrganization = (\<lambda>o'. in_ord (ord_Organizations_update (put_org o'))),
     ordorg_Configuration = (\<lambda>n ch. (case named (ord_Organizations (channel_Orderer ch)) n of
         None \<Rightarrow> (Err (ErrorString ''no such organization''), ch) | Some o' \<Rightarrow> (Ok o', ch))),
     ordorg_RemoveEndpoint = (\<lambda>n a. in_org n (OrdererEndpoints_update (removeAll (endpoint a)))),
     ordorg_SetEndpoint = (\<lambda>n a. in_org n (OrdererEndpoints_update (add_endpoint (endpoint a)))),
     ordorg_SetMSP = (\<lambda>n msp. in_org n (\<lambda>o'. o'\<lparr>org_MSP := msp\<rparr>)),
     batch_SetMaxMessageCount = (\<lambda>n. in_ord (ord_BatchSize_update (\<lambda>b. b\<lparr>MaxMessageCount := n\<rparr>))),
     batch_SetAbsoluteMaxBytes = (\<lambda>n. in_ord (ord_BatchSize_update (\<lambda>b. b\<lparr>AbsoluteMaxBytes := n\<rparr>))),
     batch_SetPreferredMaxBytes = (\<lambda>n. in_ord (ord_BatchSize_update (\<lambda>b. b\<lparr>PreferredMaxBytes := n\<rparr>))),
     ord_SetBatchTimeout = (\<lambda>t. in_ord (\<lambda>o'. o'\<lparr>BatchTimeout := t\<rparr>)),
     ord_RemoveCapability = (\<lambda>c ch. cap_remove c (ord_Capabilities (channel_Orderer ch))
       (\<lambda>cs. ch\<lparr>channel_Orderer := (channel_Orderer ch)\<lparr>ord_Capabilities := cs\<rparr>\<rparr>) ch),
     ord_AddCapability = (\<lambda>c. in_ord (ord_Capabilities_update (\<lambda>cs. cs @ [c])))\<rparr>"

definition view_of_app :: "Application \<Rightarrow> application_view" where
  "view_of_app a = \<lparr>va_orgs = named (app_Organizations a), va_policies = app_Policies a,
     va_acls = (case ACLs a of None \<Rightarrow> Map.empty | Some l \<Rightarrow> map_of l), va_caps = set (app_Capabilities a)\<rparr>"

definition view_of_ord :: "Orderer \<Rightarrow> orderer_view" where
  "view_of_ord o' = \<lparr>vo_type = OrdererType o', vo_orgs = named (ord_Organizations o'), vo_policies = ord_Policies o',
     vo_caps = set (ord_Capabilities o'), vo_consenters = set (raft_Consenters (ord_EtcdRaft o')),
     vo_raft = EtcdRaft_Options (ord_EtcdRaft o'), vo_state = ConsensusState o', vo_batch = ord_BatchSize o',
     vo_timeout = BatchTimeout o'\<rparr>"

definition mem_view :: "Channel \<Rightarrow> channel_view" where
  "mem_view ch = \<lparr>view_app = view_of_app (channel_Application ch), view_caps = set (channel_Capabilities ch),
     view_ord = view_of_ord (channel_Orderer ch)\<rparr>"

lemma named_simps:
  "named (put_org o' orgs) = (named orgs)(org_Name o' \<mapsto> o')"
  "named (drop_org n orgs) = (named orgs)(n := None)"
proof -
  show "named (drop_org n orgs) = (named orgs)(n := None)"
    by (induction orgs) (auto simp: named_def drop_org_def)
qed (simp add: named_def put_org_def)

lemma named_map:
  assumes "\<And>o'. org_Name (f o') = org_Name o'" and "named orgs n = Some old"
  shows "named (map (\<lambda>o'. if org_Name o' = n then f o' else o') orgs) = (named orgs)(n \<mapsto> f old)"
proof -
  have "named (map (\<lambda>o'. if org_Name o' = n then f o' else o') orgs) k
      = (if k = n then map_option f (named orgs n) else named orgs k)" for k
    by (induction orgs) (auto simp: named_def assms(1))
  then show ?thesis using assms(2) by (simp add: fun_eq_iff)
qed

lemma lists_orgs_listed: "lists_orgs (named orgs) (listed orgs)"
proof -
  have named_name: "org_Name o' = n" if "named orgs n = Some o'" for n o'
    using that by (auto simp: named_def dest: map_of_SomeD)
  have dom: "dom (named orgs) = org_Name ` set orgs" by (simp add: named_def dom_map_of_conv_image_fst image_image)
  have mem: "\<exists>o'. named orgs n = Some o' \<and> org_Name o' = n" if "n \<in> org_Name ` set orgs" for n
    using that named_name dom by blast
  have "org_Name ` set (listed orgs) = dom (named orgs)"
    unfolding dom listed_def set_map set_remdups image_image comp_def using mem by force
  moreover have "\<forall>o' \<in> set (listed orgs). named orgs (org_Name o') = Some o'"
    unfolding listed_def using mem by force
  ultimately show ?thesis by (simp add: lists_orgs_def)
qed

text \<open>A call of the memory follows the view when its effect does.\<close>

lemma in_app_does:
  "(\<And>a. view_of_app (f a) = g (view_of_app a)) \<Longrightarrow> does mem_view (in_app f) v (on_app g v)"
  by (auto simp: does_def in_app_def mem_view_def on_app_def)

lemma in_ord_does:
  "(\<And>a. view_of_ord (f a) = g (view_of_ord a)) \<Longrightarrow> does mem_view (in_ord f) v (on_ord g v)"
  by (auto simp: does_def in_ord_def mem_view_def on_ord_def)

lemma in_org_does:
  assumes "\<And>o'. org_Name (f o') = org_Name o'" and "vo_orgs (view_ord v) n = Some old"
  shows "does mem_view (in_org n f) v (upd_ord_orgs (\<lambda>m. m(n \<mapsto> f old)) v)"
proof -
  have "view_of_ord (ord_Organizations_update (map (\<lambda>o'. if org_Name o' = n then f o' else o')) o')
      = vo_orgs_update (\<lambda>m. m(n \<mapsto> f old)) (view_of_ord o')" if "named (ord_Organizations o') n = Some old" for o'
    using named_map [OF assms(1) that] by (simp add: view_of_ord_def)
  then show ?thesis using assms(2)
    by (auto simp: does_def in_org_def in_ord_def mem_view_def upd_ord_orgs_def on_ord_def view_of_ord_def)
qed

section \<open>The effects\<close>

lemma mem_capability_laws:
  assumes add: "\<And>c v. does mem_view (add c) v (upd (insert c) v)"
    and rem: "\<And>c ch. remove c ch = cap_remove c (cs ch) (put ch) ch"
    and "\<And>ch. set (cs ch) = get (mem_view ch)"
    and "\<And>ch c. mem_view (put ch (removeAll c (cs ch))) = upd (\<lambda>s. s - {c}) (mem_view ch)"
  shows "capability_laws mem_view add remove get upd"
  using add assms(3,4) by (auto simp: capability_laws_def rem cap_remove_def does_def refuses_def)

lemma mem_app_caps:
  "capability_laws mem_view (app_AddCapability mem) (app_RemoveCapability mem) (va_caps \<circ> view_app) upd_app_caps"
proof (rule mem_capability_laws [where cs = "\<lambda>ch. app_Capabilities (channel_Application ch)"
    and put = "\<lambda>ch cs. ch\<lparr>channel_Application := (channel_Application ch)\<lparr>app_Capabilities := cs\<rparr>\<rparr>"])
  show "does mem_view (app_AddCapability mem c) v (upd_app_caps (insert c) v)" for c v
    unfolding upd_app_caps_def mem_def configtx.simps by (rule in_app_does) (simp add: view_of_app_def)
qed (simp_all add: mem_def mem_view_def view_of_app_def upd_app_caps_def on_app_def set_diff_eq)

lemma mem_ord_caps:
  "capability_laws mem_view (ord_AddCapability mem) (ord_RemoveCapability mem) (vo_caps \<circ> view_ord) upd_ord_caps"
proof (rule mem_capability_laws [where cs = "\<lambda>ch. ord_Capabilities (channel_Orderer ch)"
    and put = "\<lambda>ch cs. ch\<lparr>channel_Orderer := (channel_Orderer ch)\<lparr>ord_Capabilities := cs\<rparr>\<rparr>"])
  show "does mem_view (ord_AddCapability mem c) v (upd_ord_caps (insert c) v)" for c v
    unfolding upd_ord_caps_def mem_def configtx.simps by (rule in_ord_does) (simp add: view_of_ord_def)
qed (simp_all add: mem_def mem_view_def view_of_ord_def upd_ord_caps_def on_ord_def set_diff_eq)

lemma mem_chan_laws: "chan_laws mem mem_view"
proof -
  have "capability_laws mem_view (chan_AddCapability mem) (chan_RemoveCapability mem) view_caps view_caps_update"
    by (rule mem_capability_laws [where cs = channel_Capabilities and put = "\<lambda>ch cs. ch\<lparr>channel_Capabilities := cs\<rparr>"])
       (auto simp: mem_def mem_view_def does_def)
  then show ?thesis by (simp add: chan_laws_def reads_def mem_def mem_view_def lists_capabilities_def)
qed

lemma mem_app_laws: "app_laws mem mem_view"
proof -
  have "\<exists>set_acls. (\<forall>m k. k \<in> fst ` set acls \<longrightarrow> set_acls m k = map_of acls k)
      \<and> (\<forall>v. does mem_view (app_SetACLs mem acls) v (on_app (va_acls_update set_acls) v))" for acls
  proof (intro exI [of _ "\<lambda>m. m ++ map_of acls"] conjI allI impI)
    fix m :: "string \<rightharpoonup> string" and k
    assume "k \<in> fst ` set acls"
    then have "map_of acls k \<noteq> None" by (simp add: map_of_eq_None_iff)
    then show "(m ++ map_of acls) k = map_of acls k" by (auto simp: map_add_def)
  next
    show "does mem_view (app_SetACLs mem acls) v (on_app (va_acls_update (\<lambda>m. m ++ map_of acls)) v)" for v
      unfolding mem_def configtx.simps by (rule in_app_does) (simp add: view_of_app_def split: option.split)
  qed
  moreover have "map_of (filter (\<lambda>kv. fst kv \<notin> set ks) l) = map_of l |` (- set ks)" for ks and l :: "(string \<times> string) list"
    by (induction l) (auto simp: fun_eq_iff restrict_map_def)
  then have "does mem_view (app_RemoveACLs mem ks) v (on_app (va_acls_update (\<lambda>m. m |` (- set ks))) v)" for ks v
    unfolding mem_def configtx.simps by (intro in_app_does) (simp add: view_of_app_def split: option.split)
  moreover have "does mem_view (app_SetPolicies mem ps) v (on_app (\<lambda>a. a\<lparr>va_policies := ps\<rparr>) v)"
    "does mem_view (app_RemoveOrganization mem n) v (on_app (va_orgs_update (\<lambda>m. m(n := None))) v)"
    "does mem_view (app_SetOrganization mem o') v (on_app (va_orgs_update (\<lambda>m. m(org_Name o' \<mapsto> o'))) v)" for ps n o' v
    unfolding mem_def configtx.simps by (rule in_app_does, simp add: view_of_app_def named_simps)+
  moreover have "reads mem_view (app_Configuration mem) v (\<lambda>a. lists_orgs (va_orgs (view_app v)) (app_Organizations a)
      \<and> lists_capabilities (va_caps (view_app v)) (app_Capabilities a))" for v
    by (auto simp: reads_def mem_def mem_view_def view_of_app_def lists_capabilities_def lists_orgs_listed)
  moreover have "reads mem_view (app_ACLs mem) v (\<lambda>_. True)" for v by (simp add: reads_def mem_def)
  ultimately show ?thesis using mem_app_caps unfolding app_laws_def by blast
qed

lemma mem_consenter_laws: "consenter_laws mem mem_view"
proof -
  have "does mem_view (ord_AddConsenter mem c) v (on_ord (vo_consenters_update (insert c)) v)"
    "does mem_view (ord_RemoveConsenter mem c) v (on_ord (vo_consenters_update (\<lambda>s. s - {c})) v)" for c v
    unfolding mem_def configtx.simps by (rule in_ord_does, simp add: view_of_ord_def set_diff_eq)+
  then show ?thesis by (simp add: consenter_laws_def)
qed

lemma mem_raft_laws: "raft_laws mem mem_view"
proof -
  have "does mem_view (raft_SetElectionInterval mem n) v (on_ord (vo_raft_update (\<lambda>o'. o'\<lparr>ElectionTick := n\<rparr>)) v)"
    "does mem_view (raft_SetHeartbeatTick mem n) v (on_ord (vo_raft_update (\<lambda>o'. o'\<lparr>HeartbeatTick := n\<rparr>)) v)"
    "does mem_view (raft_SetTickInterval mem t) v (on_ord (vo_raft_update (\<lambda>o'. o'\<lparr>TickInterval := t\<rparr>)) v)"
    "does mem_view (raft_SetSnapshotIntervalSize mem n) v (on_ord (vo_raft_update (\<lambda>o'. o'\<lparr>SnapshotIntervalSize := n\<rparr>)) v)"
    "does mem_view (raft_SetMaxInflightBlocks mem n) v (on_ord (vo_raft_update (\<lambda>o'. o'\<lparr>MaxInflightBlocks := n\<rparr>)) v)"
    for n t v
    unfolding mem_def configtx.simps by (rule in_ord_does, simp add: view_of_ord_def)+
  then show ?thesis by (simp add: raft_laws_def)
qed

lemma mem_batch_laws: "batch_laws mem mem_view"
proof -
  have "does mem_view (batch_SetMaxMessageCount mem n) v (on_ord (vo_batch_update (\<lambda>b. b\<lparr>MaxMessageCount := n\<rparr>)) v)"
    "does mem_view (batch_SetAbsoluteMaxBytes mem n) v (on_ord (vo_batch_update (\<lambda>b. b\<lparr>AbsoluteMaxBytes := n\<rparr>)) v)"
    "does mem_view (batch_SetPreferredMaxBytes mem n) v (on_ord (vo_batch_update (\<lambda>b. b\<lparr>PreferredMaxBytes := n\<rparr>)) v)"
    "does mem_view (ord_SetBatchTimeout mem t) v (on_ord (\<lambda>o'. o'\<lparr>vo_timeout := t\<rparr>) v)" for n t v
    unfolding mem_def configtx.simps by (rule in_ord_does, simp add: view_of_ord_def)+
  then show ?thesis by (simp add: batch_laws_def)
qed

lemma mem_endpoint_laws: "endpoint_laws mem mem_view"
proof -
  have "reads mem_view (ordorg_Configuration mem n) v (\<lambda>o'. o' = old)"
    if "vo_orgs (view_ord v) n = Some old" for n old v
    using that by (auto simp: reads_def mem_def mem_view_def view_of_ord_def)
  moreover have "does mem_view (ordorg_RemoveEndpoint mem n a) v
      (upd_ord_orgs (\<lambda>m. m(n \<mapsto> old\<lparr>OrdererEndpoints := removeAll (endpoint a) (OrdererEndpoints old)\<rparr>)) v)"
    "does mem_view (ordorg_SetEndpoint mem n a) v
      (upd_ord_orgs (\<lambda>m. m(n \<mapsto> old\<lparr>OrdererEndpoints := add_endpoint (endpoint a) (OrdererEndpoints old)\<rparr>)) v)"
    "does mem_view (ordorg_SetMSP mem n msp) v (upd_ord_orgs (\<lambda>m. m(n \<mapsto> old\<lparr>org_MSP := msp\<rparr>)) v)"
    if "vo_orgs (view_ord v) n = Some old" for n old v a msp
  proof -
    have upd: "OrdererEndpoints_update f old = old\<lparr>OrdererEndpoints := f (OrdererEndpoints old)\<rparr>" for f by simp
    show "does mem_view (ordorg_RemoveEndpoint mem n a) v
      (upd_ord_orgs (\<lambda>m. m(n \<mapsto> old\<lparr>OrdererEndpoints := removeAll (endpoint a) (OrdererEndpoints old)\<rparr>)) v)"
      unfolding mem_def configtx.simps upd [symmetric] by (rule in_org_does) (use that in simp_all)
    show "does mem_view (ordorg_SetEndpoint mem n a) v
      (upd_ord_orgs (\<lambda>m. m(n \<mapsto> old\<lparr>OrdererEndpoints := add_endpoint (endpoint a) (OrdererEndpoints old)\<rparr>)) v)"
      unfolding mem_def configtx.simps upd [symmetric] by (rule in_org_does) (use that in simp_all)
    show "does mem_view (ordorg_SetMSP mem n msp) v (upd_ord_orgs (\<lambda>m. m(n \<mapsto> old\<lparr>org_MSP := msp\<rparr>)) v)"
      unfolding mem_def configtx.simps by (rule in_org_does) (use that in simp_all)
  qed
  ultimately show ?thesis unfolding endpoint_laws_def by blast
qed

lemma mem_ord_laws: "ord_laws mem mem_view"
proof -
  have orgs: "does mem_view (ord_RemoveOrganization mem n) v (upd_ord_orgs (\<lambda>m. m(n := None)) v)"
    "does mem_view (ord_SetOrganization mem o') v (upd_ord_orgs (\<lambda>m. m(org_Name o' \<mapsto> o')) v)" for n o' v
    unfolding mem_def configtx.simps upd_ord_orgs_def by (rule in_ord_does, simp add: view_of_ord_def named_simps)+
  have "ord_org_laws mem mem_view" using orgs mem_endpoint_laws by (simp add: ord_org_laws_def)
  moreover have "reads mem_view (ord_Configuration mem) v (\<lambda>o'. OrdererType o' = vo_type (view_ord v)
        \<and> lists_orgs (vo_orgs (view_ord v)) (ord_Organizations o')
        \<and> distinct (raft_Consenters (ord_EtcdRaft o'))
        \<and> set (raft_Consenters (ord_EtcdRaft o')) = vo_consenters (view_ord v))" for v
    by (auto simp: reads_def mem_def mem_view_def view_of_ord_def lists_orgs_listed)
  moreover have "does mem_view (ord_SetPolicies mem ps) v (on_ord (\<lambda>o'. o'\<lparr>vo_policies := ps\<rparr>) v)"
    "does mem_view (ord_SetConsensusState mem s) v (on_ord (\<lambda>o'. o'\<lparr>vo_state := s\<rparr>) v)" for ps s v
    unfolding mem_def configtx.simps by (rule in_ord_does, simp add: view_of_ord_def)+
  ultimately show ?thesis
    using mem_ord_caps mem_consenter_laws mem_raft_laws mem_batch_laws unfolding ord_laws_def by blast
qed

end
