(* ===== verification/Channel_Sections.thy ===== *)
theory Channel_Sections imports Channel_Diff begin

text \<open>
  The three update functions as transformations of the view of a channel: what each makes of its
  section, and that it leaves the others alone.
\<close>

text \<open>What a successful update of the application section leaves; other ACLs are left open.\<close>

definition app_target :: "Application \<Rightarrow> channel_view \<Rightarrow> channel_view \<Rightarrow> bool" where
  "app_target a v v' \<longleftrightarrow>
     va_orgs (view_app v') = merged_orgs (va_orgs (view_app v)) (app_Organizations a)
   \<and> va_policies (view_app v') = app_Policies a \<and> va_caps (view_app v') = set (app_Capabilities a)
   \<and> (\<forall>acls k. ACLs a = Some acls \<and> k \<in> fst ` set acls \<longrightarrow> va_acls (view_app v') k = map_of acls k)
   \<and> view_ord v' = view_ord v \<and> view_caps v' = view_caps v"

lemma update_application_does:
  assumes laws: "app_laws C view" and d: "distinct (map org_Name (app_Organizations (channel_Application new)))"
  shows "\<exists>v'. does view (updateApplicationChannelConfigTx C new) v v' \<and> app_target (channel_Application new) v v'"
proof -
  let ?a = "channel_Application new"
  obtain f where acls: "\<And>v. does view (update_acls C (ACLs ?a)) v (on_app (va_acls_update f) v)"
    and f: "\<And>acls k m. ACLs ?a = Some acls \<Longrightarrow> k \<in> fst ` set acls \<Longrightarrow> f m k = map_of acls k"
    using update_acls_does [OF laws, of "ACLs ?a"] by blast
  note policies = does_wrap [OF app_lawsD(2) [OF laws, of "app_Policies ?a"]]
  let ?v1 = "on_app (\<lambda>a. a\<lparr>va_policies := app_Policies ?a\<rparr>) v"
  let ?v2 = "upd_app_orgs (\<lambda>m. merged_orgs m (app_Organizations ?a)) ?v1"
  let ?v4 = "on_app (va_acls_update f) (on_app (\<lambda>a. a\<lparr>va_policies := app_Policies ?a\<rparr>) ?v2)"
  let ?v5 = "upd_app_caps (\<lambda>_. set (app_Capabilities ?a)) ?v4"
  have "does view (updateApplicationChannelConfigTx C new) v ?v5"
    unfolding updateApplicationChannelConfigTx_def Let_def
  proof (rule does_bind [OF policies], rule does_read [OF reads_wrap [OF app_lawsD(1) [OF laws]]], elim conjE)
    fix app
    assume orgs: "lists_orgs (va_orgs (view_app ?v1)) (app_Organizations app)"
      and caps: "lists_capabilities (va_caps (view_app ?v1)) (app_Capabilities app)"
    have "does view (io_bind (remove_capabilities (app_RemoveCapability C) (app_Capabilities app))
        (\<lambda>_. add_capabilities (app_AddCapability C) (app_Capabilities ?a))) ?v4 ?v5"
      using caps by (intro replace_capabilities_does [OF app_lawsD(5) [OF laws]] upd_compose upd_id)
        (simp_all add: upd_defs)
    then have tail: "does view (io_bind (io_wrap ''failed to set application policies'' (app_SetPolicies C (app_Policies ?a))) (\<lambda>_.
        io_bind (update_acls C (ACLs ?a)) (\<lambda>_. io_bind (remove_capabilities (app_RemoveCapability C) (app_Capabilities app))
        (\<lambda>_. add_capabilities (app_AddCapability C) (app_Capabilities ?a))))) ?v2 ?v5"
      by (intro does_bind [OF policies] does_bind [OF acls])
    show "does view (io_bind (remove_organizations (app_RemoveOrganization C) (app_Organizations app) (app_Organizations ?a)) (\<lambda>_.
        io_bind (add_app_organizations C (app_Organizations app) (app_Organizations ?a)) (\<lambda>_.
        io_bind (io_wrap ''failed to set application policies'' (app_SetPolicies C (app_Policies ?a))) (\<lambda>_.
        io_bind (update_acls C (ACLs ?a)) (\<lambda>_. io_bind (remove_capabilities (app_RemoveCapability C) (app_Capabilities app))
        (\<lambda>_. add_capabilities (app_AddCapability C) (app_Capabilities ?a))))))) ?v1 ?v5"
      using does_bind [OF app_organizations_does [OF laws d orgs] tail] by (simp add: io_bind_assoc)
  qed
  moreover have "app_target ?a v ?v5" using f by (auto simp: upd_defs app_target_def)
  ultimately show ?thesis by blast
qed

lemma update_channel_does:
  assumes "chan_laws C view"
  shows "does view (updateChannelConfigTx C new) v (v\<lparr>view_caps := set (channel_Capabilities new)\<rparr>)"
proof -
  have caps: "capability_laws view (chan_AddCapability C) (chan_RemoveCapability C) view_caps view_caps_update"
    and read: "reads view (chan_Capabilities C) v (lists_capabilities (view_caps v))"
    using assms by (simp_all add: chan_laws_def)
  have "does view (updateChannelConfigTx C new) v (view_caps_update (\<lambda>_. set (channel_Capabilities new)) v)"
    unfolding updateChannelConfigTx_def
  proof (rule does_read [OF reads_wrap [OF read]])
    fix cs
    assume "lists_capabilities (view_caps v) cs"
    then show "does view (io_bind (remove_capabilities (chan_RemoveCapability C) cs)
        (\<lambda>_. add_capabilities (chan_AddCapability C) (channel_Capabilities new)))
        v (view_caps_update (\<lambda>_. set (channel_Capabilities new)) v)"
      by (intro replace_capabilities_does [OF caps] upd_compose upd_id) simp_all
  qed
  then show ?thesis by simp
qed

text \<open>A Raft channel and a Raft resource, with one address per consenter and endpoints that parse.\<close>

definition raft_update_ok :: "channel_view \<Rightarrow> Channel \<Rightarrow> bool" where
  "raft_update_ok v new \<longleftrightarrow> vo_type (view_ord v) = OrdererConsensusEtcdraft
   \<and> OrdererType (channel_Orderer new) = OrdererConsensusEtcdraft
   \<and> ConsensusState (channel_Orderer new) \<in> {ConsensusStateNormal, ConsensusStateMaintenance}
   \<and> unique_addresses (raft_Consenters (ord_EtcdRaft (channel_Orderer new)))
   \<and> (\<forall>c \<in> vo_consenters (view_ord v). \<forall>d \<in> vo_consenters (view_ord v). same_address c d \<longrightarrow> c = d)
   \<and> endpoints_ok (vo_orgs (view_ord v)) (ord_Organizations (channel_Orderer new))
   \<and> distinct (ord_Capabilities (channel_Orderer new))"

lemma update_orderer_outcome:
  assumes laws: "ord_laws C view" and ok: "raft_update_ok (view w) new"
  shows "if set (ord_Capabilities (channel_Orderer new)) \<subseteq> vo_caps (view_ord (view w))
    then \<exists>w'. updateOrdererChannelConfigTx C new w = (Ok (), w') \<and> view w' = on_ord (raft_target (channel_Orderer new)) (view w)
    else \<exists>e w'. updateOrdererChannelConfigTx C new w = (Err e, w')"
proof -
  note t = ok [unfolded raft_update_ok_def, THEN conjunct1]
    and t' = ok [unfolded raft_update_ok_def, THEN conjunct2, THEN conjunct1]
  note r = ok [unfolded raft_update_ok_def, THEN conjunct2, THEN conjunct2]
  note state = r [THEN conjunct1] and new = r [THEN conjunct2, THEN conjunct1]
  note r' = r [THEN conjunct2, THEN conjunct2]
  note old = r' [THEN conjunct1] and orgs = r' [THEN conjunct2, THEN conjunct1] and caps = r' [THEN conjunct2, THEN conjunct2]
  let ?o = "channel_Orderer new"
  obtain ord where conf: "ord_Configuration C w = (Ok ord, w)"
    and ord: "OrdererType ord = OrdererConsensusEtcdraft" "lists_orgs (vo_orgs (view_ord (view w))) (ord_Organizations ord)"
      "distinct (raft_Consenters (ord_EtcdRaft ord))"
      "set (raft_Consenters (ord_EtcdRaft ord)) = vo_consenters (view_ord (view w))"
    using ord_lawsD(1) [OF laws, of "view w"] t by (auto simp: reads_def)
  have "unique_addresses (raft_Consenters (ord_EtcdRaft ord))" using ord(3,4) old by (simp add: unique_addresses_def)
  from before_capabilities_does [OF laws ord(1) t' this new ord(4) state orgs ord(2)]
  obtain w4 where b: "before_capabilities C ord ?o w = (Ok (), w4)" and w4: "view w4 = on_ord (raft_target ?o) (view w)"
    by (auto simp: does_def)
  have caps4: "vo_caps (view_ord (view w4)) = vo_caps (view_ord (view w))" by (simp add: w4 raft_target_def)
  have run: "updateOrdererChannelConfigTx C new w = io_bind (update_orderer_capabilities C ?o)
      (\<lambda>_. io_bind (io_wrap ''failed to get orderer configuration'' (ord_Configuration C)) (\<lambda>_. io_return ())) w4"
    unfolding updateOrdererChannelConfigTx_split [OF conf] io_bind_apply [of "before_capabilities C ord ?o"] b by simp
  show ?thesis
  proof (cases "set (ord_Capabilities ?o) \<subseteq> vo_caps (view_ord (view w))")
    case True
    then obtain w5 where c: "update_orderer_capabilities C ?o w4 = (Ok (), w5)" and w5: "view w5 = view w4"
      using update_orderer_capabilities_does [OF laws caps, of "view w4"] caps4 by (auto simp: does_def)
    obtain ord' where "ord_Configuration C w5 = (Ok ord', w5)"
      using ord_lawsD(1) [OF laws, of "view w5"] by (auto simp: reads_def)
    then show ?thesis using True w4 w5 c by (simp add: run io_bind_apply io_wrap_apply io_return_apply)
  next
    case False
    then obtain e w' where "update_orderer_capabilities C ?o w4 = (Err e, w')"
      using update_orderer_capabilities_fails [OF laws, of ?o w4] caps4 by auto
    then show ?thesis using False run by (simp add: io_bind_apply)
  qed
qed

end
