(* ===== verification/Reconciler.thy ===== *)
theory Reconciler imports Custom_Resource Cluster_Utils begin

text \<open>
  The frame every reconciler of a channel or of the chaincode lifecycle has: getting the resource,
  releasing it when it is being deleted, adding the finalizer, and then a sequence of steps each of
  which, when it fails, marks the resource as failed and returns what the write-back says.
\<close>

section \<open>Steps and their failure\<close>

text \<open>
  \<open>x, err := m; if err != nil \{ return fail(err) \}; k(x)\<close>.
\<close>

definition attempt :: "(go_error \<Rightarrow> ('w, 'b) io) \<Rightarrow> ('w, 'a) io \<Rightarrow> ('a \<Rightarrow> ('w, 'b) io) \<Rightarrow> ('w, 'b) io" where
  "attempt fail m k = io_try m k fail"

text \<open>\<open>r.setConditionStatus(ctx, p, FailedStatus, false, err, false); return r.updateCRStatusOrFailReconcile(ctx, r.Log, p)\<close>.\<close>

definition report_failure ::
  "(('w, 'a custom_resource_scheme) client \<Rightarrow> 'a custom_resource_scheme \<Rightarrow> string \<Rightarrow> bool
      \<Rightarrow> go_error option \<Rightarrow> bool \<Rightarrow> ('w, 'a custom_resource_scheme \<times> bool) io)
   \<Rightarrow> (('w, 'a custom_resource_scheme) client \<Rightarrow> 'a custom_resource_scheme \<Rightarrow> ('w, Result) io)
   \<Rightarrow> ('w, 'a custom_resource_scheme) client \<Rightarrow> 'a custom_resource_scheme \<Rightarrow> go_error \<Rightarrow> ('w, Result) io" where
  "report_failure setc upd K p err = io_bind (setc K p FailedStatus False (Some err) False) (\<lambda>(p', _). upd K p')"

text \<open>The status fields of a success, set locally: status, message and a true condition.\<close>

definition mark_running :: "time \<Rightarrow> string \<Rightarrow> 'a custom_resource_scheme \<Rightarrow> 'a custom_resource_scheme" where
  "mark_running now msg p =
     fst (put_condition now \<lparr>Type = RunningStatus, Status = ConditionTrue, Reason = [], Message = [],
         LastTransitionTime = 0\<rparr> (p\<lparr>crStatus := RunningStatus, crMessage := msg\<rparr>))"

section \<open>Getting the resource\<close>

text \<open>
  Follower channels and the chaincode resources: one that is gone or being deleted is not worked on,
  a failed get, release or update is returned, and only then the body runs.
\<close>

definition with_resource ::
  "('w, 'a custom_resource_scheme) client \<Rightarrow> string
   \<Rightarrow> ('a custom_resource_scheme \<Rightarrow> ('w, 'a custom_resource_scheme) io) \<Rightarrow> string \<times> string
   \<Rightarrow> ('a custom_resource_scheme \<Rightarrow> ('w, Result) io) \<Rightarrow> ('w, Result) io" where
  "with_resource K finalizer addFinalizer' req body =
     io_try (client_get K req)
       (\<lambda>p. if DeletionTimestamp p \<noteq> None
            then (if Contains (Finalizers p) finalizer
                  then io_bind (removeFinalizer K finalizer p) (\<lambda>_. io_return no_requeue)
                  else io_return no_requeue)
            else if \<not> Contains (Finalizers p) finalizer then io_bind (addFinalizer' p) body
            else body p)
       (\<lambda>err. if isNotFound err then io_return no_requeue else io_throw err)"

section \<open>Lemmas\<close>

lemma attempt_attempt:
  "attempt h m (\<lambda>x. attempt h (f x) k) = attempt h (io_bind m f) k"
  by (rule ext) (auto simp: attempt_def io_simps split: prod.split res.split)

lemma attempt_Ok: "m w = (Ok a, w') \<Longrightarrow> attempt h m k w = k a w'"
  and attempt_Err: "m w = (Err e, w') \<Longrightarrow> attempt h m k w = h e w'"
  and attempt_Panic: "m w = (Panic p, w') \<Longrightarrow> attempt h m k w = (Panic p, w')"
  by (simp_all add: attempt_def io_simps)

lemma attempt_return: "attempt h m (\<lambda>x. k (f x)) = attempt h (io_bind m (\<lambda>x. io_return (f x))) k"
  by (rule ext) (auto simp: attempt_def io_simps split: prod.split res.split)

text \<open>Every failing step of the channel controllers ends in a retry.\<close>

lemma report_failure_retried:
  "client_ok K \<Longrightarrow> retried (fst (report_failure FabricMainChannel_setConditionStatus
      FabricMainChannel_updateCRStatusOrFailReconcile K p e w))"
  "client_ok K \<Longrightarrow> retried (fst (report_failure FabricFollowerChannel_setConditionStatus
      FabricFollowerChannel_updateCRStatusOrFailReconcile K p e w))"
  "client_ok K \<Longrightarrow> retried (fst (report_failure FabricChaincodeApprove_setConditionStatus
      FabricChaincodeApprove_updateCRStatusOrFailReconcile K p e w))"
  "client_ok K \<Longrightarrow> retried (fst (report_failure FabricChaincodeCommit_setConditionStatus
      FabricChaincodeCommit_updateCRStatusOrFailReconcile K p e w))"
  "client_ok K \<Longrightarrow> retried (fst (report_failure FabricChaincodeInstall_setConditionStatus
      FabricChaincodeInstall_updateCRStatusOrFailReconcile K p e w))"
  by (simp_all add: report_failure_def mainchannel.report_retried [unfolded mainchannel.report_def]
      follower.report_retried [unfolded follower.report_def] approve.report_retried [unfolded approve.report_def]
      commit.report_retried [unfolded commit.report_def] install.report_retried [unfolded install.report_def])

lemma attempt_retried:
  assumes "\<And>e w. retried (fst (h e w))"
    and "\<And>a w'. m w = (Ok a, w') \<Longrightarrow> retried (fst (k a w'))"
  shows "retried (fst (attempt h m k w))"
proof (cases "m w")
  case (Pair r w')
  then show ?thesis using assms by (cases r) (auto simp: attempt_def io_simps)
qed

text \<open>A chain of attempts that ends without a retry got through each of them.\<close>

lemma attempt_stops:
  assumes "\<And>e w. retried (fst (h e w))" and "attempt h m k w = (r, w')" and "\<not> retried r"
  obtains a w1 where "m w = (Ok a, w1)" and "k a w1 = (r, w')"
proof (cases "m w")
  case (Pair s w1)
  then show ?thesis using assms that by (cases s) (auto simp: attempt_def io_simps, metis fst_conv)
qed

lemma bind_stops:
  assumes "io_bind m k w = (r, w')" and "\<not> retried r"
  obtains a w1 where "m w = (Ok a, w1)" and "k a w1 = (r, w')"
proof (cases "m w")
  case (Pair s w1)
  then show ?thesis using assms that by (cases s) (auto simp: io_simps)
qed

lemma try_stops:
  assumes "io_try m k h w = (r, w')" and "\<not> retried r"
  obtains (ok) a v where "m w = (Ok a, v)" "k a v = (r, w')" | (err) e v where "m w = (Err e, v)" "h e v = (r, w')"
  using assms by (cases "m w") (auto simp: io_try_apply split: res.splits)

lemma mark_running_simps [simp]:
  "crStatus (mark_running now msg p) = RunningStatus" "crMessage (mark_running now msg p) = msg"
  by (simp_all add: mark_running_def put_condition_simps)

lemma mark_running_condition:
  "\<exists>c. GetCondition (crConditions (mark_running now msg p)) RunningStatus = Some c \<and> IsTrue c"
proof -
  let ?c = "\<lparr>Type = RunningStatus, Status = ConditionTrue, Reason = [], Message = [], LastTransitionTime = 0\<rparr> :: Condition"
  show ?thesis using cond.get_put_status [of now ?c "crConditions p"]
    by (auto simp: mark_running_def put_condition_simps IsTrue_def)
qed

text \<open>What the frame does with a resource that is gone or being deleted, and with one that is not.\<close>

lemma with_resource_gone:
  "client_get K req w = (Err e, w') \<Longrightarrow> isNotFound e \<Longrightarrow> with_resource K fin add req body w = (Ok no_requeue, w')"
  by (simp add: with_resource_def io_simps)

lemma with_resource_deleted:
  assumes "client_get K req w = (Ok p, v)" and "DeletionTimestamp p \<noteq> None"
  shows "with_resource K fin add req body w =
     (if fin \<in> set (Finalizers p)
      then io_bind (removeFinalizer K fin p) (\<lambda>_. io_return no_requeue) v else (Ok no_requeue, v))"
  using assms by (simp add: with_resource_def io_simps)

lemma with_resource_live:
  assumes "client_get K req w = (Ok p, v)" and "DeletionTimestamp p = None" and "fin \<in> set (Finalizers p)"
  shows "with_resource K fin add req body w = body p v"
  using assms by (simp add: with_resource_def io_simps)

end
