(* ===== verification/Fabric_Resources.thy ===== *)
theory Fabric_Resources imports Channel_Spec begin

text \<open>
  The custom resources of follower channels and of the chaincode lifecycle, as \<open>hlf_types.go\<close> declares
  them.  Metadata and the status fields every resource has are those of \<open>custom_resource\<close>; the other
  status fields follow the specification.  A \<open>*int32\<close> is an optional integer: the code only copies it.
\<close>

section \<open>References and identities\<close>

record HLFIdentity =
  id_SecretName :: string
  id_SecretNamespace :: string
  id_SecretKey :: string

record FabricPeerInternalRef =
  pref_Name :: string
  pref_Namespace :: string

record FabricPeerExternalRef =
  pref_URL :: string
  pref_TLSCACert :: string

record FabricOrdererInternalRef =
  oref_Name :: string
  oref_Namespace :: string

record FabricOrdererExternalRef =
  oref_URL :: string
  oref_TLSCACert :: string

section \<open>Follower channels\<close>

record FabricFollowerChannelAnchorPeer =
  anchor_Host :: string
  anchor_Port :: int

text \<open>\<open>FabricFollowerChannelPeer\<close> and \<open>FabricFollowerChannelExternalPeer\<close> have the fields of the two
  peer references.\<close>

type_synonym FabricFollowerChannelPeer = FabricPeerInternalRef
type_synonym FabricFollowerChannelExternalPeer = FabricPeerExternalRef

record FabricFollowerChannelOrderer =
  follow_URL :: string
  follow_Certificate :: string

record FabricFollowerChannelSpec =
  fol_Name :: string
  fol_MSPID :: string
  fol_Orderers :: "FabricFollowerChannelOrderer list"
  PeersToJoin :: "FabricFollowerChannelPeer list"
  ExternalPeersToJoin :: "FabricFollowerChannelExternalPeer list"
  fol_AnchorPeers :: "FabricFollowerChannelAnchorPeer list"
  fol_HLFIdentity :: HLFIdentity
  fol_RevocationList :: "string list"

record FabricFollowerChannel = custom_resource +
  fol_Spec :: FabricFollowerChannelSpec

section \<open>Chaincode\<close>

record PrivateDataCollectionEndorsementPolicy =
  pdce_ChannelConfigPolicy :: string
  pdce_SignaturePolicy :: string

record PrivateDataCollection =
  pdc_Name :: string
  pdc_Policy :: string
  pdc_RequiredPeerCount :: "int option"
  pdc_MaxPeerCount :: "int option"
  pdc_BlockToLive :: "64 word"
  pdc_MemberOnlyRead :: bool
  pdc_MemberOnlyWrite :: bool
  pdc_EndorsementPolicy :: "PrivateDataCollectionEndorsementPolicy option"

text \<open>\<open>FabricChaincodeApproveSpec\<close>; that of a commit lacks \<open>PackageID\<close>.  \<open>Sequence\<close> is an \<open>int64\<close> that
  is compared and copied.\<close>

record FabricChaincodeCommitSpec =
  cc_ChaincodeName :: string
  cc_ChannelName :: string
  cc_Version :: string
  cc_Sequence :: int
  cc_EndorsementPolicy :: string
  cc_PrivateDataCollections :: "PrivateDataCollection list"
  cc_InitRequired :: bool
  cc_HLFIdentity :: HLFIdentity
  cc_MSPID :: string
  cc_Peers :: "FabricPeerInternalRef list"
  cc_ExternalPeers :: "FabricPeerExternalRef list"
  cc_Orderers :: "FabricOrdererInternalRef list"
  cc_ExternalOrderers :: "FabricOrdererExternalRef list"

record FabricChaincodeApproveSpec = FabricChaincodeCommitSpec +
  cc_PackageID :: string

record FabricChaincodeApprove = custom_resource +
  app_Spec :: FabricChaincodeApproveSpec
  app_TransactionID :: string

record FabricChaincodeCommit = custom_resource +
  com_Spec :: FabricChaincodeCommitSpec
  com_TransactionID :: string

record ChaincodePackageTLS =
  Required :: bool

record ChaincodePackage =
  pkg_Name :: string
  pkg_Address :: string
  pkg_Type :: string
  pkg_DialTimeout :: string
  pkg_TLS :: "ChaincodePackageTLS option"

record FabricChaincodeInstallSpec =
  ins_Peers :: "FabricPeerInternalRef list"
  ins_ExternalPeers :: "FabricPeerExternalRef list"
  ins_MSPID :: string
  ins_HLFIdentity :: HLFIdentity
  ins_ChaincodePackage :: ChaincodePackage

record FailedPeer =
  failed_Name :: string
  failed_Reason :: string

record InstalledPeer =
  installed_Name :: string

record FabricChaincodeInstall = custom_resource +
  ins_Spec :: FabricChaincodeInstallSpec
  PackageID :: string
  FailedPeers :: "FailedPeer list"
  InstalledPeers :: "InstalledPeer list"

end
