(* ===== verification/Network_Config.thy ===== *)
theory Network_Config imports Fabric_Resources begin

text \<open>
  \<open>pkg/nc/nc.go\<close>: the network configurations the operator hands to the Fabric SDK.  Each generator
  collects organizations, peers and orderers and renders them with the template \<open>tmplGoConfig\<close>; parsing
  and executing the template is \<open>text/template\<close>'s, so it is a parameter.
\<close>

section \<open>The data of the template\<close>

record nc_CA =
  nca_Name :: string
  nca_URL :: string
  nca_EnrollID :: string
  nca_EnrollSecret :: string
  nca_CAName :: string
  nca_TLSCert :: string

record nc_Org =
  norg_MSPID :: string
  norg_CertAuths :: "string list"
  norg_Peers :: "string list"
  norg_Orderers :: "string list"

record nc_Peer =
  npeer_Name :: string
  npeer_URL :: string
  npeer_TLSCACert :: string

record nc_Orderer =
  nord_URL :: string
  nord_Name :: string
  nord_TLSCACert :: string

record network_data =
  nd_Peers :: "nc_Peer list"
  nd_Orderers :: "nc_Orderer list"
  nd_Organizations :: "nc_Org list"
  nd_CertAuths :: "nc_CA list"
  nd_Organization :: string
  nd_Internal :: bool

text \<open>The typed client of the operator's resources, and the template.\<close>

record 'w hlf_client =
  hlf_cluster :: "'w cluster"
  hlf_get_peer :: "string \<Rightarrow> string \<Rightarrow> ('w, FabricPeer) io"
  hlf_get_orderer :: "string \<Rightarrow> string \<Rightarrow> ('w, FabricOrdererNode) io"
  hlf_get_ca :: "string \<Rightarrow> string \<Rightarrow> ('w, FabricCA) io"
  template_Parse :: "(network_data \<Rightarrow> string res) res"

section \<open>Peers and orderers\<close>

definition grpcs :: "string \<Rightarrow> string" where
  "grpcs host = ''grpcs://'' @ host"

definition internal_peer :: "'w hlf_client \<Rightarrow> FabricPeerInternalRef \<Rightarrow> ('w, nc_Peer) io" where
  "internal_peer H ref =
     io_bind (hlf_get_peer H (pref_Namespace ref) (pref_Name ref)) (\<lambda>fabricPeer.
     io_bind (GetPeerPublicURL (hlf_cluster H) fabricPeer) (\<lambda>peerHost.
       io_return \<lparr>npeer_Name = FabricPeer_FullName fabricPeer, npeer_URL = grpcs peerHost,
         npeer_TLSCACert = peer_TLSCACert fabricPeer\<rparr>))"

definition external_peer :: "FabricPeerExternalRef \<Rightarrow> nc_Peer" where
  "external_peer ref = \<lparr>npeer_Name = pref_URL ref, npeer_URL = pref_URL ref, npeer_TLSCACert = pref_TLSCACert ref\<rparr>"

definition network_peers ::
  "'w hlf_client \<Rightarrow> FabricPeerInternalRef list \<Rightarrow> FabricPeerExternalRef list \<Rightarrow> ('w, nc_Peer list) io" where
  "network_peers H refs externals =
     io_bind (io_map (internal_peer H) refs) (\<lambda>peers. io_return (peers @ map external_peer externals))"

definition internal_orderer :: "'w hlf_client \<Rightarrow> FabricOrdererInternalRef \<Rightarrow> ('w, nc_Orderer) io" where
  "internal_orderer H ref =
     io_bind (hlf_get_orderer H (oref_Namespace ref) (oref_Name ref)) (\<lambda>fabricOrderer.
     io_bind (GetOrdererPublicURL (hlf_cluster H) fabricOrderer) (\<lambda>ordererHost.
       io_return \<lparr>nord_URL = grpcs ordererHost, nord_Name = FabricOrdererNode_FullName fabricOrderer,
         nord_TLSCACert = node_TlsCert fabricOrderer\<rparr>))"

definition external_orderer :: "FabricOrdererExternalRef \<Rightarrow> nc_Orderer" where
  "external_orderer ref = \<lparr>nord_URL = oref_URL ref, nord_Name = oref_URL ref, nord_TLSCACert = oref_TLSCACert ref\<rparr>"

definition network_orderers ::
  "'w hlf_client \<Rightarrow> FabricOrdererInternalRef list \<Rightarrow> FabricOrdererExternalRef list \<Rightarrow> ('w, nc_Orderer list) io" where
  "network_orderers H refs externals =
     io_bind (io_map (internal_orderer H) refs) (\<lambda>nodes. io_return (nodes @ map external_orderer externals))"

definition bare_org :: "string \<Rightarrow> nc_Org" where
  "bare_org mspID = \<lparr>norg_MSPID = mspID, norg_CertAuths = [], norg_Peers = [], norg_Orderers = []\<rparr>"

section \<open>The generators\<close>

definition render :: "'w hlf_client \<Rightarrow> ('w, network_data) io \<Rightarrow> ('w, string) io" where
  "render H data = io_bind (io_lift (template_Parse H)) (\<lambda>tmpl. io_bind data (\<lambda>d. io_lift (tmpl d)))"

text \<open>A main channel: an entry per organization; an orderer per endpoint of an ordering organization.\<close>

definition endpoint_orderer :: "string \<Rightarrow> string \<Rightarrow> nc_Orderer" where
  "endpoint_orderer tlsCACert endpoint =
     \<lparr>nord_URL = grpcs endpoint, nord_Name = endpoint, nord_TLSCACert = tlsCACert\<rparr>"

definition orderer_org_network ::
  "'w hlf_client \<Rightarrow> FabricMainChannelOrdererOrganization \<Rightarrow> ('w, nc_Org \<times> nc_Orderer list) io" where
  "orderer_org_network H ordOrg =
     io_bind (if oorg_TLSCACert ordOrg \<noteq> [] then io_return (oorg_TLSCACert ordOrg)
        else io_bind (hlf_get_ca H (oorg_CANamespace ordOrg) (oorg_CAName ordOrg)) (\<lambda>ca. io_return (TLSCACert ca)))
       (\<lambda>tlsCACert. io_return
         ((bare_org (oorg_MSPID ordOrg))\<lparr>norg_Orderers := oorg_OrdererEndpoints ordOrg\<rparr>,
          map (endpoint_orderer tlsCACert) (oorg_OrdererEndpoints ordOrg)))"

definition external_orderer_org_network ::
  "FabricMainChannelExternalOrdererOrganization \<Rightarrow> nc_Org \<times> nc_Orderer list" where
  "external_orderer_org_network ordOrg =
     ((bare_org (xord_MSPID ordOrg))\<lparr>norg_Orderers := xord_OrdererEndpoints ordOrg\<rparr>,
      map (endpoint_orderer (xord_TLSRootCert ordOrg)) (xord_OrdererEndpoints ordOrg))"

definition main_network :: "'w hlf_client \<Rightarrow> FabricMainChannelSpec \<Rightarrow> string \<Rightarrow> ('w, network_data) io" where
  "main_network H spec mspID =
     io_bind (io_map (orderer_org_network H) (OrdererOrganizations spec)) (\<lambda>ordOrgs.
       let ords = ordOrgs @ map external_orderer_org_network (ExternalOrdererOrganizations spec)
       in io_return \<lparr>nd_Peers = [], nd_Orderers = concat (map snd ords),
            nd_Organizations = map (bare_org \<circ> porg_MSPID) (PeerOrganizations spec)
              @ map (bare_org \<circ> xpeer_MSPID) (ExternalPeerOrganizations spec) @ map fst ords,
            nd_CertAuths = [], nd_Organization = mspID, nd_Internal = False\<rparr>)"

definition GenerateNetworkConfig :: "'w hlf_client \<Rightarrow> FabricMainChannelSpec \<Rightarrow> string \<Rightarrow> ('w, string) io" where
  "GenerateNetworkConfig H spec mspID = render H (main_network H spec mspID)"

text \<open>The chaincode resources: one organization with the peers, and for a commit the orderers, of the
  resource.\<close>

definition commit_network ::
  "'w hlf_client \<Rightarrow> 'a FabricChaincodeCommitSpec_scheme \<Rightarrow> string \<Rightarrow> ('w, network_data) io" where
  "commit_network H spec mspID =
     io_bind (network_peers H (cc_Peers spec) (cc_ExternalPeers spec)) (\<lambda>peers.
     io_bind (network_orderers H (cc_Orderers spec) (cc_ExternalOrderers spec)) (\<lambda>orderers.
       io_return \<lparr>nd_Peers = peers, nd_Orderers = orderers,
         nd_Organizations = [(bare_org (cc_MSPID spec))\<lparr>norg_Peers := map npeer_Name peers,
            norg_Orderers := map nord_Name orderers\<rparr>],
         nd_CertAuths = [], nd_Organization = mspID, nd_Internal = False\<rparr>))"

definition approve_network ::
  "'w hlf_client \<Rightarrow> 'a FabricChaincodeCommitSpec_scheme \<Rightarrow> string \<Rightarrow> ('w, network_data) io" where
  "approve_network H spec mspID =
     io_bind (network_peers H (cc_Peers spec) (cc_ExternalPeers spec)) (\<lambda>peers.
     io_bind (network_orderers H (cc_Orderers spec) (cc_ExternalOrderers spec)) (\<lambda>orderers.
       io_return \<lparr>nd_Peers = peers, nd_Orderers = orderers,
         nd_Organizations = [(bare_org mspID)\<lparr>norg_Peers := map npeer_Name peers\<rparr>],
         nd_CertAuths = [], nd_Organization = mspID, nd_Internal = False\<rparr>))"

definition install_network ::
  "'w hlf_client \<Rightarrow> FabricChaincodeInstallSpec \<Rightarrow> string \<Rightarrow> ('w, network_data) io" where
  "install_network H spec mspID =
     io_bind (network_peers H (ins_Peers spec) (ins_ExternalPeers spec)) (\<lambda>peers.
       io_return \<lparr>nd_Peers = peers, nd_Orderers = [],
         nd_Organizations = [(bare_org (ins_MSPID spec))\<lparr>norg_Peers := map npeer_Name peers\<rparr>],
         nd_CertAuths = [], nd_Organization = mspID, nd_Internal = False\<rparr>)"

definition follower_network ::
  "'w hlf_client \<Rightarrow> FabricFollowerChannelSpec \<Rightarrow> string \<Rightarrow> ('w, network_data) io" where
  "follower_network H spec mspID =
     io_bind (network_peers H (PeersToJoin spec) (ExternalPeersToJoin spec)) (\<lambda>peers.
       io_return \<lparr>nd_Peers = peers,
         nd_Orderers = map (\<lambda>o'. \<lparr>nord_URL = follow_URL o', nord_Name = follow_URL o',
            nord_TLSCACert = follow_Certificate o'\<rparr>) (fol_Orderers spec),
         nd_Organizations = [(bare_org (fol_MSPID spec))\<lparr>norg_Peers := map npeer_Name peers\<rparr>],
         nd_CertAuths = [], nd_Organization = mspID, nd_Internal = False\<rparr>)"

definition GenerateNetworkConfigForChaincodeCommit where
  "GenerateNetworkConfigForChaincodeCommit H spec mspID = render H (commit_network H spec mspID)"
definition GenerateNetworkConfigForChaincodeApprove where
  "GenerateNetworkConfigForChaincodeApprove H spec mspID = render H (approve_network H spec mspID)"
definition GenerateNetworkConfigForChaincodeInstall where
  "GenerateNetworkConfigForChaincodeInstall H spec mspID = render H (install_network H spec mspID)"
definition GenerateNetworkConfigForFollower where
  "GenerateNetworkConfigForFollower H spec mspID = render H (follower_network H spec mspID)"

section \<open>Lemmas\<close>

text \<open>Every name an organization refers to is defined in the section of the peers or of the orderers.\<close>

definition resolves :: "network_data \<Rightarrow> bool" where
  "resolves d \<longleftrightarrow> (\<forall>org \<in> set (nd_Organizations d).
     set (norg_Peers org) \<subseteq> npeer_Name ` set (nd_Peers d)
     \<and> set (norg_Orderers org) \<subseteq> nord_Name ` set (nd_Orderers d))"

text \<open>The name under which a peer of the cluster is listed, and that the operator uses as target.\<close>

definition peer_target :: "FabricPeerInternalRef \<Rightarrow> string" where
  "peer_target r = full_name (pref_Name r) (pref_Namespace r)"

text \<open>The API server answers a request with the object of that name and namespace.\<close>

definition gets_named :: "'w hlf_client \<Rightarrow> bool" where
  "gets_named H \<longleftrightarrow> (\<forall>ns n w p w'. hlf_get_peer H ns n w = (Ok p, w') \<longrightarrow> peer_Name p = n \<and> peer_Namespace p = ns)"

named_theorems generators \<open>the data of the network configurations\<close>

lemmas [generators] = main_network_def commit_network_def approve_network_def install_network_def follower_network_def

lemma generated_iff: "fst (m w) = Ok d \<longleftrightarrow> (\<exists>w'. m w = (Ok d, w'))"
  by (cases "m w") auto

lemma bare_org_simps [simp]:
  "norg_Peers (bare_org m) = []" "norg_Orderers (bare_org m) = []" "norg_MSPID (bare_org m) = m"
  by (simp_all add: bare_org_def)

lemma endpoint_orderer_name [simp]: "nord_Name (endpoint_orderer c e) = e"
  by (simp add: endpoint_orderer_def)

lemma orderer_org_network_Ok:
  assumes "orderer_org_network H o' w = (Ok (org, ords), w')"
  shows "norg_Peers org = []" "norg_Orderers org = map nord_Name ords" "map nord_Name ords = oorg_OrdererEndpoints o'"
  using assms by (auto simp: orderer_org_network_def io_bind_Ok_iff io_return_apply comp_def split: if_splits)

lemma external_orderer_org_network_simps:
  "norg_Peers (fst (external_orderer_org_network o')) = []"
  "norg_Orderers (fst (external_orderer_org_network o')) = map nord_Name (snd (external_orderer_org_network o'))"
  by (simp_all add: external_orderer_org_network_def comp_def)

text \<open>A list of organizations with their orderers resolves against the orderers together.\<close>

definition own_orderers :: "nc_Org \<times> nc_Orderer list \<Rightarrow> bool" where
  "own_orderers x \<longleftrightarrow> norg_Peers (fst x) = [] \<and> norg_Orderers (fst x) = map nord_Name (snd x)"

lemma own_orderers_resolve:
  assumes "\<forall>x \<in> set xs. own_orderers x" and "org \<in> set (map fst xs)"
  shows "norg_Peers org = [] \<and> set (norg_Orderers org) \<subseteq> nord_Name ` set (concat (map snd xs))"
  using assms by (fastforce simp: own_orderers_def)

lemma main_network_resolves:
  assumes "main_network H spec msp w = (Ok d, w')"
  shows "resolves d"
proof -
  obtain ordOrgs where m: "io_map (orderer_org_network H) (OrdererOrganizations spec) w = (Ok ordOrgs, w')"
    and d: "d = \<lparr>nd_Peers = [],
        nd_Orderers = concat (map snd (ordOrgs @ map external_orderer_org_network (ExternalOrdererOrganizations spec))),
        nd_Organizations = map (bare_org \<circ> porg_MSPID) (PeerOrganizations spec)
          @ map (bare_org \<circ> xpeer_MSPID) (ExternalPeerOrganizations spec)
          @ map fst (ordOrgs @ map external_orderer_org_network (ExternalOrdererOrganizations spec)),
        nd_CertAuths = [], nd_Organization = msp, nd_Internal = False\<rparr>"
    using assms by (auto simp: main_network_def io_bind_Ok_iff io_return_apply Let_def)
  define xs where "xs = ordOrgs @ map external_orderer_org_network (ExternalOrdererOrganizations spec)"
  have "own_orderers x" if "x \<in> set ordOrgs" for x
    using list_all2_in_set [OF io_map_Ok [OF m] that]
    by (cases x) (auto simp: own_orderers_def dest: orderer_org_network_Ok)
  then have "\<forall>x \<in> set xs. own_orderers x"
    by (auto simp: xs_def own_orderers_def external_orderer_org_network_simps)
  note own = own_orderers_resolve [OF this]
  have bare: "norg_Peers org = [] \<and> norg_Orderers org = []" if "org \<in> set (map (bare_org \<circ> f) l)" for org f and l :: "'z list"
    using that by auto
  have "norg_Peers org = [] \<and> set (norg_Orderers org) \<subseteq> nord_Name ` set (concat (map snd xs))"
    if "org \<in> set (nd_Organizations d)" for org
    using that own bare unfolding d xs_def [symmetric] network_data.select_convs set_append Un_iff by (metis empty_set empty_subsetI)
  then show ?thesis unfolding resolves_def d xs_def [symmetric] by simp
qed

lemma internal_peer_name:
  assumes "gets_named H" and "internal_peer H r v = (Ok q, v')"
  shows "npeer_Name q = peer_target r"
proof -
  obtain p u where "hlf_get_peer H (pref_Namespace r) (pref_Name r) v = (Ok p, u)" and "npeer_Name q = FabricPeer_FullName p"
    using assms(2) by (auto simp: internal_peer_def io_bind_Ok_iff io_return_apply)
  moreover from this assms(1) have "peer_Name p = pref_Name r \<and> peer_Namespace p = pref_Namespace r"
    unfolding gets_named_def by blast
  ultimately show ?thesis by (simp add: peer_target_def FabricPeer_FullName_def)
qed

lemma network_peers_Ok:
  assumes "gets_named H" and "network_peers H refs ext w = (Ok ps, w')"
  shows "map npeer_Name ps = map peer_target refs @ map pref_URL ext"
proof -
  obtain qs where m: "io_map (internal_peer H) refs w = (Ok qs, w')" and ps: "ps = qs @ map external_peer ext"
    using assms(2) by (auto simp: network_peers_def io_bind_Ok_iff io_return_apply)
  have "list_all2 (\<lambda>r q. npeer_Name q = peer_target r) refs qs"
    using io_map_Ok [OF m] by (rule list_all2_mono) (auto intro: internal_peer_name [OF assms(1)])
  then have "map npeer_Name qs = map peer_target refs" by (induction rule: list_all2_induct) auto
  then show ?thesis by (simp add: ps external_peer_def comp_def)
qed

section \<open>Properties\<close>


text \<open>
  The peers the operator addresses are in the configuration it addresses them with: the section
  of the peers lists the peers of the resource in order, those of the cluster under
  \<open>name.namespace\<close> and the external ones under their URL, and these are the target names the
  controllers compute from the resource itself.
\<close>
theorem network_targets_listed:
  assumes "gets_named H"
  shows "(follower_network H follower msp w = (Ok d, w') \<longrightarrow>
      map npeer_Name (nd_Peers d) = map peer_target (PeersToJoin follower) @ map pref_URL (ExternalPeersToJoin follower))
    \<and> (install_network H install msp w = (Ok d, w') \<longrightarrow>
      map npeer_Name (nd_Peers d) = map peer_target (ins_Peers install) @ map pref_URL (ins_ExternalPeers install))
    \<and> (approve_network H commit msp w = (Ok d, w') \<or> commit_network H commit msp w = (Ok d, w') \<longrightarrow>
      map npeer_Name (nd_Peers d) = map peer_target (cc_Peers commit) @ map pref_URL (cc_ExternalPeers commit))"
  using network_peers_Ok [OF assms]
  by (auto simp: commit_network_def approve_network_def install_network_def follower_network_def
      io_bind_Ok_iff io_return_apply)

text \<open>A cluster with one peer and one ordering node, reached through Istio.\<close>

definition orderer_one :: FabricOrdererNode where
  "orderer_one = \<lparr>node_Name = ''ord0'', node_Namespace = ''ns'', node_MspID = ''OrdererMSP'',
     node_Istio = Some \<lparr>istio_Port = 443, istio_Hosts = [''ord0.org'']\<rparr>, node_Traefik = None, node_GatewayApi = None,
     AdminIstio = Some \<lparr>istio_Port = 443, istio_Hosts = [''admin.ord0.org'']\<rparr>, AdminTraefik = None, AdminPort = 0,
     node_NodePort = 0, node_TlsCert = ''ordtls'', node_TLSCACert = ''ordca'', node_TlsAdminCert = ''ordadmin''\<rparr>"

definition hlf_one :: "'w hlf_client" where
  "hlf_one = \<lparr>hlf_cluster = cluster_of [ca_one] [peer_one],
     hlf_get_peer = (\<lambda>ns n. if n = ''peer0'' \<and> ns = ''ns'' then io_return peer_one else io_throw (NotFound n)),
     hlf_get_orderer = (\<lambda>ns n. if n = ''ord0'' \<and> ns = ''ns'' then io_return orderer_one else io_throw (NotFound n)),
     hlf_get_ca = (\<lambda>ns n. if n = ''org1-ca'' \<and> ns = ''default'' then io_return ca_one else io_throw (NotFound n)),
     template_Parse = Ok (\<lambda>d. Ok ''organizations: ...'')\<rparr>"

definition follower_one :: FabricFollowerChannelSpec where
  "follower_one = \<lparr>fol_Name = ''demo'', fol_MSPID = ''Org1MSP'', fol_Orderers = [\<lparr>follow_URL = ''grpcs://ord0:443'', follow_Certificate = ''c''\<rparr>],
     PeersToJoin = [\<lparr>pref_Name = ''peer0'', pref_Namespace = ''ns''\<rparr>],
     ExternalPeersToJoin = [\<lparr>pref_URL = ''grpcs://x:443'', pref_TLSCACert = ''x''\<rparr>],
     fol_AnchorPeers = [\<lparr>anchor_Host = ''peer0'', anchor_Port = 443\<rparr>],
     fol_HLFIdentity = \<lparr>id_SecretName = ''admin'', id_SecretNamespace = ''ns'', id_SecretKey = ''user.yaml''\<rparr>,
     fol_RevocationList = []\<rparr>"

lemma gets_named_one: "gets_named hlf_one"
  by (auto simp: gets_named_def hlf_one_def peer_one_def io_simps)

lemma follower_network_one: "\<exists>d. follower_network hlf_one follower_one ''Org1MSP'' () = (Ok d, ())"
  by (simp add: follower_network_def network_peers_def internal_peer_def hlf_one_def follower_one_def peer_one_def
      GetPeerPublicURL_def GetPeerHostPort_def io_simps)


theorem network_targets_listed_witness:
  "\<exists>d. follower_network hlf_one follower_one ''Org1MSP'' () = (Ok d, ())
     \<and> map npeer_Name (nd_Peers d) = [''peer0.ns'', ''grpcs://x:443'']"
  using follower_network_one network_targets_listed [OF gets_named_one, of follower_one "''Org1MSP''" "()" _ "()"]
  by (auto simp: follower_one_def peer_target_def full_name_def)

end
