(* ===== verification/Fabric_SDK.thy ===== *)
theory Fabric_SDK imports Reconciler Network_Config Channel_Update begin

text \<open>
  The Fabric SDK and the Kubernetes objects the reconcilers read and write beside their resource, as a
  parameter: one field per call the code makes.  Values of the library's types that the code only
  passes on are wrapped names.  A configuration block has the type \<open>'b\<close>, a configuration \<open>'c\<close>, and a
  configuration transaction of \<open>fabric-config\<close>, which the update functions edit in place, \<open>'x\<close>.
\<close>

section \<open>The interface\<close>

datatype sdk = SDK string
datatype sdk_backend = ConfigBackend string
datatype crypto_suite = CryptoSuite string
datatype endpoint_config = EndpointConfig string
datatype identity_manager = IdentityManager string
datatype signing_identity = SigningIdentity string
datatype res_client = ResClient string
datatype config_signature = ConfigSignature string
datatype envelope = Envelope string
datatype signature_policy = SignaturePolicyEnvelope string

text \<open>The identity stored in a secret, as YAML.\<close>

record identity =
  CertPem :: string
  KeyPem :: string

record config_update =
  ChannelId :: string
  ConfigChange :: string

record config_map =
  cm_Name :: string
  cm_Namespace :: string
  cm_Data :: "(string \<rightharpoonup> string) option"

datatype timeout_type = ResMgmt | PeerResponse

datatype request_option =
    WithTimeout timeout_type int
  | WithRetry int int int
  | WithOrdererEndpoint string
  | WithTargetEndpoints string
  | WithConfigSignatures "config_signature list"

text \<open>Requests and answers of the chaincode lifecycle.\<close>

datatype application_policy = ApplicationSignaturePolicy signature_policy | ChannelConfigPolicyReference string

record CollectionConfig =
  coll_Name :: string
  MemberOrgsPolicy :: signature_policy
  coll_RequiredPeerCount :: int
  MaximumPeerCount :: int
  coll_BlockToLive :: "64 word"
  coll_MemberOnlyRead :: bool
  coll_MemberOnlyWrite :: bool
  coll_EndorsementPolicy :: "application_policy option"

record LifecycleCCRequest =
  lc_Name :: string
  lc_Version :: string
  lc_Sequence :: int
  EndorsementPlugin :: string
  ValidationPlugin :: string
  lc_SignaturePolicy :: "signature_policy option"
  lc_CollectionConfig :: "CollectionConfig list option"
  lc_InitRequired :: bool

record LifecycleApproveCCRequest = LifecycleCCRequest +
  lc_PackageID :: string

record approved_cc =
  approved_PackageID :: string
  approved_Sequence :: int

record ('w, 'b, 'c, 'x) fabric_sdk =
  fabsdk_New :: "string \<Rightarrow> ('w, sdk) io"
  sdk_Config :: "sdk \<Rightarrow> ('w, sdk_backend) io"
  GetSuiteByConfig :: "sdk_backend \<Rightarrow> ('w, crypto_suite) io"
  fab_ConfigFromBackend :: "sdk_backend \<Rightarrow> ('w, endpoint_config) io"
  NewIdentityManager :: "string \<Rightarrow> crypto_suite \<Rightarrow> endpoint_config \<Rightarrow> ('w, identity_manager) io"
  im_CreateSigningIdentity :: "identity_manager \<Rightarrow> string \<Rightarrow> string \<Rightarrow> ('w, signing_identity) io"
  resmgmt_New :: "sdk \<Rightarrow> signing_identity \<Rightarrow> string \<Rightarrow> ('w, res_client) io"
  QueryConfigBlockFromOrderer :: "res_client \<Rightarrow> string \<Rightarrow> request_option list \<Rightarrow> ('w, 'b) io"
  ExtractConfigFromBlock :: "'b \<Rightarrow> 'c res"
  NewApplicationChannelGenesisBlock :: "Channel \<Rightarrow> string \<Rightarrow> 'b res"
  block_Marshal :: "'b \<Rightarrow> string res"
  config_JSON :: "'c \<Rightarrow> string res"
  update_JSON :: "config_update \<Rightarrow> string res"
  configtx_New :: "'c \<Rightarrow> 'x"
  transaction :: "'x configtx"
  UpdatedConfig :: "'x \<Rightarrow> 'c"
  CalculateConfigUpdate :: "string \<Rightarrow> 'c \<Rightarrow> 'c \<Rightarrow> config_update res"
  update_Marshal :: "config_update \<Rightarrow> string res"
  update_Unmarshal :: "string \<Rightarrow> config_update res"
  CreateSignedEnvelope :: "string \<Rightarrow> string \<Rightarrow> envelope res"
  envelope_Marshal :: "envelope \<Rightarrow> string res"
  CreateConfigSignature :: "res_client \<Rightarrow> signing_identity \<Rightarrow> string \<Rightarrow> ('w, config_signature) io"
  SaveChannel :: "res_client \<Rightarrow> string \<Rightarrow> string \<Rightarrow> request_option list \<Rightarrow> ('w, string) io"
  JoinChannel :: "res_client \<Rightarrow> string \<Rightarrow> request_option list \<Rightarrow> ('w, unit) io"
  secrets_Get :: "string \<Rightarrow> string \<Rightarrow> ('w, string \<rightharpoonup> string) io"
  yaml_Unmarshal :: "string \<Rightarrow> identity res"
  configMaps_Get :: "string \<Rightarrow> string \<Rightarrow> ('w, config_map) io"
  configMaps_Create :: "string \<Rightarrow> config_map \<Rightarrow> ('w, config_map) io"
  configMaps_Update :: "string \<Rightarrow> config_map \<Rightarrow> ('w, config_map) io"
  time_Sleep :: "int \<Rightarrow> 'w \<Rightarrow> 'w"

definition io_sleep :: "('w, 'b, 'c, 'x) fabric_sdk \<Rightarrow> int \<Rightarrow> ('w, unit) io" where
  "io_sleep S d = (\<lambda>w. (Ok (), time_Sleep S d w))"

section \<open>Identities\<close>

text \<open>The secret, its key, the identity in it.\<close>

definition secret_identity ::
  "('w, 'b, 'c, 'x) fabric_sdk \<Rightarrow> string \<Rightarrow> string \<Rightarrow> string \<Rightarrow> ('w, identity) io" where
  "secret_identity S ns name key =
     io_bind (secrets_Get S ns name) (\<lambda>data.
       case data key of
         None \<Rightarrow> io_throw (ErrorString (''secret key '' @ key @ '' not found''))
       | Some secretData \<Rightarrow> io_lift (yaml_Unmarshal S secretData))"

definition createSigningIdentity ::
  "('w, 'b, 'c, 'x) fabric_sdk \<Rightarrow> sdk \<Rightarrow> string \<Rightarrow> identity \<Rightarrow> ('w, signing_identity) io" where
  "createSigningIdentity S sdk mspID id' =
     io_bind (sdk_Config S sdk) (\<lambda>sdkConfig.
     io_bind (GetSuiteByConfig S sdkConfig) (\<lambda>cryptoSuite.
     io_bind (fab_ConfigFromBackend S sdkConfig) (\<lambda>endpointConfig.
     io_bind (NewIdentityManager S mspID cryptoSuite endpointConfig) (\<lambda>identityManager.
       im_CreateSigningIdentity S identityManager (KeyPem id') (CertPem id')))))"

section \<open>Configuration updates\<close>

text \<open>\<open>CreateConfigUpdateEnvelope\<close>, which the two channel controllers and the helpers each have a copy of.\<close>

definition CreateConfigUpdateEnvelope ::
  "('w, 'b, 'c, 'x) fabric_sdk \<Rightarrow> string \<Rightarrow> config_update \<Rightarrow> string res" where
  "CreateConfigUpdateEnvelope S channelID configUpdate =
     res_bind (update_Marshal S (configUpdate\<lparr>ChannelId := channelID\<rparr>)) (\<lambda>configUpdateData.
     res_bind (CreateSignedEnvelope S channelID configUpdateData) (\<lambda>envelope.
       envelope_Marshal S envelope))"

definition no_differences :: string where
  "no_differences = ''no differences detected between original and updated config''"

text \<open>Running an edit of a configuration transaction, which no one else holds.\<close>

definition edit :: "'x \<Rightarrow> ('x, 'a) io \<Rightarrow> ('w, 'a \<times> 'x) io" where
  "edit tx m = (case m tx of (Ok a, tx') \<Rightarrow> io_return (a, tx') | (Err e, tx') \<Rightarrow> io_throw e
     | (Panic p, tx') \<Rightarrow> io_panic p)"

section \<open>Configuration maps\<close>

text \<open>\<open>channel.json\<close> in a map, created when there is none; writing to the data of a map without data is a
  write to a nil map.\<close>

definition createOrUpdateConfigMap ::
  "('w, 'b, 'c, 'x) fabric_sdk \<Rightarrow> string \<Rightarrow> string \<Rightarrow> string \<Rightarrow> ('w, unit) io" where
  "createOrUpdateConfigMap S name namespace data =
     io_try (configMaps_Get S namespace name)
       (\<lambda>configMap. case cm_Data configMap of
            None \<Rightarrow> io_panic ''assignment to entry in nil map''
          | Some old \<Rightarrow> io_bind (configMaps_Update S namespace
              (configMap\<lparr>cm_Data := Some (old(''channel.json'' \<mapsto> data))\<rparr>)) (\<lambda>_. io_return ()))
       (\<lambda>err. if isNotFound err
          then io_bind (configMaps_Create S namespace \<lparr>cm_Name = name, cm_Namespace = namespace,
              cm_Data = Some [''channel.json'' \<mapsto> data]\<rparr>) (\<lambda>_. io_return ())
          else io_throw err)"

section \<open>Lemmas\<close>

lemma edit_Ok: "m tx = (Ok a, tx') \<Longrightarrow> edit tx m w = (Ok (a, tx'), w)"
  and edit_Err: "m tx = (Err e, tx') \<Longrightarrow> edit tx m w = (Err e, w)"
  by (simp_all add: edit_def io_simps)

lemma edit_eq_Ok: "edit tx m w = (Ok y, w') \<longleftrightarrow> m tx = (Ok (fst y), snd y) \<and> w' = w"
  by (cases y) (auto simp: edit_def io_simps split: prod.split res.split)

end
