(* ===== verification/Osnadmin.thy ===== *)
theory Osnadmin imports Prelude begin

text \<open>
  \<open>kubectl-hlf/cmd/helpers/osnadmin\<close>: the channel participation API of an ordering node over HTTP, as the
  main channel controller and the command line call it.  Building requests and multipart bodies and
  sending them are the standard library's; they are the parameter \<open>http\<close>.
\<close>

datatype cert_pool = CertPool string
datatype tls_certificate = TLSCertificate string

record tls_config =
  RootCAs :: cert_pool
  Certificates :: "tls_certificate list"
  InsecureSkipVerify :: bool

record http_request =
  req_Method :: string
  req_URL :: string
  req_ContentType :: string
  req_Body :: string

text \<open>A response: its status, and what reading its body to the end gives.\<close>

record http_response =
  StatusCode :: int
  resp_Body :: "string res"

record 'w http =
  http_NewRequest :: "string \<Rightarrow> string \<Rightarrow> string \<Rightarrow> http_request res"
  http_Do :: "tls_config \<Rightarrow> http_request \<Rightarrow> ('w, http_response) io"
  multipart_form :: "string \<Rightarrow> string \<Rightarrow> string \<Rightarrow> (string \<times> string) res"

definition httpClient :: "cert_pool \<Rightarrow> tls_certificate \<Rightarrow> tls_config" where
  "httpClient caCertPool tlsClientCert =
     \<lparr>RootCAs = caCertPool, Certificates = [tlsClientCert], InsecureSkipVerify = True\<rparr>"

definition httpDo :: "'w http \<Rightarrow> http_request \<Rightarrow> cert_pool \<Rightarrow> tls_certificate \<Rightarrow> ('w, http_response) io" where
  "httpDo N req caCertPool tlsClientCert = http_Do N (httpClient caCertPool tlsClientCert) req"

definition httpGet :: "'w http \<Rightarrow> string \<Rightarrow> cert_pool \<Rightarrow> tls_certificate \<Rightarrow> ('w, http_response) io" where
  "httpGet N url caCertPool tlsClientCert =
     io_bind (io_lift (http_NewRequest N ''GET'' url [])) (\<lambda>req. http_Do N (httpClient caCertPool tlsClientCert) req)"

definition createJoinRequest :: "'w http \<Rightarrow> string \<Rightarrow> string \<Rightarrow> http_request res" where
  "createJoinRequest N url blockBytes =
     res_bind (multipart_form N ''config-block'' ''config.block'' blockBytes) (\<lambda>(joinBody, contentType).
     res_bind (http_NewRequest N ''POST'' url joinBody) (\<lambda>req. Ok (req\<lparr>req_ContentType := contentType\<rparr>)))"

definition channels_url :: "string \<Rightarrow> string" where
  "channels_url osnURL = osnURL @ ''/participation/v1/channels''"

definition Join :: "'w http \<Rightarrow> string \<Rightarrow> string \<Rightarrow> cert_pool \<Rightarrow> tls_certificate \<Rightarrow> ('w, http_response) io" where
  "Join N osnURL blockBytes caCertPool tlsClientCert =
     io_bind (io_lift (createJoinRequest N (channels_url osnURL) blockBytes)) (\<lambda>req.
       httpDo N req caCertPool tlsClientCert)"

definition ListAllChannels :: "'w http \<Rightarrow> string \<Rightarrow> cert_pool \<Rightarrow> tls_certificate \<Rightarrow> ('w, http_response) io" where
  "ListAllChannels N osnURL caCertPool tlsClientCert = httpGet N (channels_url osnURL) caCertPool tlsClientCert"

definition ListSingleChannel ::
  "'w http \<Rightarrow> string \<Rightarrow> string \<Rightarrow> cert_pool \<Rightarrow> tls_certificate \<Rightarrow> ('w, http_response) io" where
  "ListSingleChannel N osnURL channelID caCertPool tlsClientCert =
     httpGet N (channels_url osnURL @ ''/'' @ channelID) caCertPool tlsClientCert"

definition Remove :: "'w http \<Rightarrow> string \<Rightarrow> string \<Rightarrow> cert_pool \<Rightarrow> tls_certificate \<Rightarrow> ('w, http_response) io" where
  "Remove N osnURL channelID caCertPool tlsClientCert =
     io_bind (io_lift (http_NewRequest N ''DELETE'' (channels_url osnURL @ ''/'' @ channelID) [])) (\<lambda>req.
       httpDo N req caCertPool tlsClientCert)"

end
