(* ===== verification/Main_Channel.thy ===== *)
theory Main_Channel imports Fabric_SDK Osnadmin begin

text \<open>
  \<open>FabricMainChannelReconciler\<close>: bringing a channel of ordering nodes in line with its resource.  One
  definition per method of \<open>mainchannel_controller.go\<close>, in its order.  Closing the SDK and response
  bodies and logging have no effect here.
\<close>

record ('w, 'b, 'c, 'x) operator =
  op_client :: "('w, FabricMainChannel) client"
  op_lib :: "'w channel_lib"
  op_hlf :: "'w hlf_client"
  op_sdk :: "('w, 'b, 'c, 'x) fabric_sdk"
  op_http :: "'w http"
  AppendCertsFromPEM :: "string \<Rightarrow> cert_pool option"
  X509KeyPair :: "string \<Rightarrow> string \<Rightarrow> tls_certificate res"

section \<open>Getting the resource\<close>

text \<open>
  The methods below change the object they are given and may then fail, so they return the object and
  the error.  A resource that is being deleted is released; the method then returns nil, as it does for
  one that is gone, and the caller goes on.
\<close>

definition and_error :: "'p \<Rightarrow> ('w, 'p) io \<Rightarrow> ('w, 'p \<times> go_error option) io" where
  "and_error p m = io_try m (\<lambda>p'. io_return (p', None)) (\<lambda>e. io_return (p, Some e))"

definition handleDeletion ::
  "('w, 'b, 'c, 'x) operator \<Rightarrow> FabricMainChannel \<Rightarrow> ('w, FabricMainChannel \<times> go_error option) io" where
  "handleDeletion M p =
     (if Contains (Finalizers p) mainChannelFinalizer
      then and_error (p\<lparr>Finalizers := remove_finalizer (op_client M) mainChannelFinalizer (Finalizers p)\<rparr>)
        (removeFinalizer (op_client M) mainChannelFinalizer p)
      else io_return (p, None))"

definition empty_spec :: FabricMainChannelSpec where
  "empty_spec = \<lparr>spec_Name = [], Identities = Map.empty, AdminPeerOrganizations = [], PeerOrganizations = [],
     ExternalPeerOrganizations = [], ChannelConfig = None, AdminOrdererOrganizations = None,
     OrdererOrganizations = [], ExternalOrdererOrganizations = [], Consenters = []\<rparr>"

text \<open>\<open>\&hlfv1alpha1.FabricMainChannel\{\}\<close>.\<close>

definition empty_channel :: FabricMainChannel where
  "empty_channel = \<lparr>crName = [], crNamespace = [], Finalizers = [], DeletionTimestamp = None, crConditions = [],
     crMessage = [], crStatus = [], Spec = empty_spec\<rparr>"

definition handleInitialSetup ::
  "('w, 'b, 'c, 'x) operator \<Rightarrow> string \<times> string \<Rightarrow> ('w, FabricMainChannel \<times> go_error option) io" where
  "handleInitialSetup M req =
     io_try (client_get (op_client M) req)
       (\<lambda>p. if DeletionTimestamp p \<noteq> None then handleDeletion M p
            else if \<not> Contains (Finalizers p) mainChannelFinalizer
            then and_error (p\<lparr>Finalizers := add_finalizer (op_client M) mainChannelFinalizer (Finalizers p)\<rparr>)
              (FabricMainChannel_addFinalizer (op_client M) p)
            else io_return (p, None))
       (\<lambda>err. if isNotFound err then io_return (empty_channel, None) else io_return (empty_channel, Some err))"

definition getClientSets :: "('w, 'b, 'c, 'x) operator \<Rightarrow> ('w, unit) io" where
  "getClientSets M = io_bind (kube_client (op_lib M)) (\<lambda>_. operator_client (op_lib M))"

section \<open>The SDK and the identities\<close>

definition setupSDK :: "('w, 'b, 'c, 'x) operator \<Rightarrow> FabricMainChannelSpec \<Rightarrow> ('w, sdk) io" where
  "setupSDK M spec =
     io_bind (io_wrap ''failed to generate network config'' (GenerateNetworkConfig (op_hlf M) spec []))
       (\<lambda>networkConfig. fabsdk_New (op_sdk M) networkConfig)"

text \<open>The identity to sign with: \<open>MSP-sign\<close>, else the plain MSP.\<close>

definition sign_identity :: "FabricMainChannelSpec \<Rightarrow> string \<Rightarrow> FabricMainChannelIdentity res" where
  "sign_identity spec mspID = (case Identities spec (mspID @ ''-sign'') of
       Some idConfig \<Rightarrow> Ok idConfig
     | None \<Rightarrow> (case Identities spec mspID of
         Some idConfig \<Rightarrow> Ok idConfig
       | None \<Rightarrow> Err (ErrorString (''identity not found for MSPID '' @ mspID @ '' or '' @ mspID @ ''-sign''))))"

definition channel_identity ::
  "('w, 'b, 'c, 'x) operator \<Rightarrow> FabricMainChannelIdentity \<Rightarrow> ('w, identity) io" where
  "channel_identity M idConfig =
     secret_identity (op_sdk M) (SecretNamespace idConfig) (SecretName idConfig) (SecretKey idConfig)"

text \<open>A resource management client that acts as that organization.\<close>

definition admin_client ::
  "('w, 'b, 'c, 'x) operator \<Rightarrow> sdk \<Rightarrow> FabricMainChannelSpec \<Rightarrow> string \<Rightarrow> ('w, res_client \<times> signing_identity) io" where
  "admin_client M sdk spec mspID =
     io_bind (io_lift (sign_identity spec mspID)) (\<lambda>idConfig.
     io_bind (channel_identity M idConfig) (\<lambda>id'.
     io_bind (createSigningIdentity (op_sdk M) sdk mspID id') (\<lambda>signingIdentity.
     io_bind (resmgmt_New (op_sdk M) sdk signingIdentity mspID) (\<lambda>resClient.
       io_return (resClient, signingIdentity)))))"

definition setupResClient ::
  "('w, 'b, 'c, 'x) operator \<Rightarrow> sdk \<Rightarrow> FabricMainChannelSpec \<Rightarrow> ('w, res_client) io" where
  "setupResClient M sdk spec = (case AdminOrdererOrganizations spec of
       Some (firstAdminOrgMSPID # _) \<Rightarrow>
         io_bind (admin_client M sdk spec firstAdminOrgMSPID) (\<lambda>(resClient, _). io_return resClient)
     | _ \<Rightarrow> io_panic ''index out of range [0] with length 0'')"

section \<open>Joining ordering nodes\<close>

definition tls_ca_of ::
  "('w, 'b, 'c, 'x) operator \<Rightarrow> FabricMainChannelOrdererOrganization \<Rightarrow> ('w, string) io" where
  "tls_ca_of M ordererOrg =
     (if oorg_CAName ordererOrg \<noteq> [] \<and> oorg_CANamespace ordererOrg \<noteq> []
      then io_bind (GetCertAuthByName (hlf_cluster (op_hlf M)) (oorg_CAName ordererOrg) (oorg_CANamespace ordererOrg))
        (\<lambda>certAuth. io_return (TLSCACert (CA_Object certAuth)))
      else if oorg_TLSCACert ordererOrg \<noteq> [] \<and> oorg_SignCACert ordererOrg \<noteq> []
      then io_return (oorg_TLSCACert ordererOrg)
      else io_return [])"

definition getCertPool ::
  "('w, 'b, 'c, 'x) operator \<Rightarrow> FabricMainChannelOrdererOrganization \<Rightarrow> ('w, cert_pool) io" where
  "getCertPool M ordererOrg =
     io_bind (tls_ca_of M ordererOrg) (\<lambda>tlsCACert. case AppendCertsFromPEM M tlsCACert of
         None \<Rightarrow> io_throw (ErrorString (''couldn'' @ [CHR 0x27] @ ''t append certs from org '' @ oorg_MSPID ordererOrg))
       | Some certPool \<Rightarrow> io_return certPool)"

definition getTLSClientCert ::
  "('w, 'b, 'c, 'x) operator \<Rightarrow> FabricMainChannelOrdererOrganization \<Rightarrow> FabricMainChannelSpec
   \<Rightarrow> ('w, tls_certificate) io" where
  "getTLSClientCert M ordererOrg spec =
     io_bind (io_lift (case Identities spec (oorg_MSPID ordererOrg @ ''-tls'') of
         Some idConfig \<Rightarrow> Ok idConfig
       | None \<Rightarrow> (case Identities spec (oorg_MSPID ordererOrg) of
           Some idConfig \<Rightarrow> Ok idConfig
         | None \<Rightarrow> Err (ErrorString (''identity not found for MSPID '' @ oorg_MSPID ordererOrg)))))
       (\<lambda>idConfig.
     io_bind (channel_identity M idConfig) (\<lambda>id'. io_lift (X509KeyPair M (CertPem id') (KeyPem id'))))"

definition join_refused :: "string \<Rightarrow> string \<Rightarrow> int \<Rightarrow> string \<Rightarrow> go_error" where
  "join_refused osnUrl channel code body = ErrorString (''response from orderer '' @ osnUrl
     @ '' trying to join to the channel '' @ channel @ '': '' @ itoa code @ '', response: '' @ body)"

text \<open>Asking one node to join: 405 says it has, 201 that it now has.\<close>

definition join_orderer ::
  "('w, 'b, 'c, 'x) operator \<Rightarrow> FabricMainChannelSpec \<Rightarrow> string \<Rightarrow> cert_pool \<Rightarrow> tls_certificate \<Rightarrow> string
   \<Rightarrow> ('w, unit) io" where
  "join_orderer M spec blockBytes certPool tlsClientCert osnUrl =
     io_bind (Join (op_http M) osnUrl blockBytes certPool tlsClientCert) (\<lambda>chResponse.
       if StatusCode chResponse = 405 then io_return ()
       else io_bind (io_lift (resp_Body chResponse)) (\<lambda>responseData.
         if StatusCode chResponse \<noteq> 201
         then io_throw (join_refused osnUrl (spec_Name spec) (StatusCode chResponse) responseData)
         else io_return ()))"

definition joinExternalOrderers ::
  "('w, 'b, 'c, 'x) operator \<Rightarrow> FabricMainChannelOrdererOrganization \<Rightarrow> FabricMainChannelSpec \<Rightarrow> string
   \<Rightarrow> cert_pool \<Rightarrow> tls_certificate \<Rightarrow> ('w, unit) io" where
  "joinExternalOrderers M ordererOrg spec blockBytes certPool tlsClientCert =
     io_for (\<lambda>cc. let osnUrl = ''https://'' @ host_port (join_Host cc, join_AdminPort cc) in
       io_bind (ListSingleChannel (op_http M) osnUrl (spec_Name spec) certPool tlsClientCert) (\<lambda>chInfoResponse.
         if StatusCode chInfoResponse = 200 then io_return ()
         else join_orderer M spec blockBytes certPool tlsClientCert osnUrl))
     (ExternalOrderersToJoin ordererOrg)"

definition joinInternalOrderers ::
  "('w, 'b, 'c, 'x) operator \<Rightarrow> FabricMainChannelOrdererOrganization \<Rightarrow> FabricMainChannelSpec \<Rightarrow> string
   \<Rightarrow> cert_pool \<Rightarrow> tls_certificate \<Rightarrow> ('w, unit) io" where
  "joinInternalOrderers M ordererOrg spec blockBytes certPool tlsClientCert =
     io_for (\<lambda>cc.
       io_bind (hlf_get_orderer (op_hlf M) (join_Namespace cc) (join_Name cc)) (\<lambda>ordererNode.
       io_bind (GetOrdererAdminHostAndPort (hlf_cluster (op_hlf M)) ordererNode) (\<lambda>hp.
         join_orderer M spec blockBytes certPool tlsClientCert (''https://'' @ host_port hp))))
     (OrderersToJoin ordererOrg)"

definition joinOrderers :: "('w, 'b, 'c, 'x) operator \<Rightarrow> FabricMainChannelSpec \<Rightarrow> string \<Rightarrow> ('w, unit) io" where
  "joinOrderers M spec blockBytes =
     io_for (\<lambda>ordererOrg.
       io_bind (getCertPool M ordererOrg) (\<lambda>certPool.
       io_bind (getTLSClientCert M ordererOrg spec) (\<lambda>tlsClientCert.
       io_bind (joinExternalOrderers M ordererOrg spec blockBytes certPool tlsClientCert) (\<lambda>_.
         joinInternalOrderers M ordererOrg spec blockBytes certPool tlsClientCert))))
     (OrdererOrganizations spec)"

definition createNewChannel :: "('w, 'b, 'c, 'x) operator \<Rightarrow> FabricMainChannelSpec \<Rightarrow> ('w, string) io" where
  "createNewChannel M spec =
     io_bind (mapToConfigTX (op_lib M) spec) (\<lambda>channelConfig.
     io_bind (io_lift (NewApplicationChannelGenesisBlock (op_sdk M) channelConfig (spec_Name spec))) (\<lambda>block.
       io_lift (block_Marshal (op_sdk M) block)))"

section \<open>The configuration on the ordering nodes\<close>

definition retry_opts :: request_option where
  "retry_opts = WithRetry 3 (1 * Second) (10 * Second)"

definition setupResmgmtOptions :: "FabricMainChannelSpec \<Rightarrow> request_option list \<times> string list" where
  "setupResmgmtOptions spec =
     ([WithTimeout ResMgmt (30 * Second), retry_opts], concat (map oorg_OrdererEndpoints (OrdererOrganizations spec)))"

text \<open>The loop over the endpoints, with the last error.\<close>

definition all_failed :: "go_error option \<Rightarrow> go_error" where
  "all_failed lastErr = ErrorString (''failed to query config block from all orderers, last error: ''
     @ (case lastErr of None \<Rightarrow> ''<nil>'' | Some e \<Rightarrow> error_text e))"

fun query_endpoints ::
  "(string \<Rightarrow> ('w, 'b) io) \<Rightarrow> string list \<Rightarrow> go_error option \<Rightarrow> ('w, 'b) io" where
  "query_endpoints query [] lastErr = io_throw (all_failed lastErr)"
| "query_endpoints query (endpoint # rest) lastErr =
     io_try (query endpoint) io_return (\<lambda>err. query_endpoints query rest (Some err))"

definition queryConfigBlockFromOrdererWithRoundRobin ::
  "('w, 'b, 'c, 'x) operator \<Rightarrow> res_client \<Rightarrow> string \<Rightarrow> string list \<Rightarrow> request_option list \<Rightarrow> ('w, 'b) io" where
  "queryConfigBlockFromOrdererWithRoundRobin M resClient channelID ordererEndpoints resmgmtOptions =
     (if ordererEndpoints = [] then io_throw (ErrorString ''no orderer endpoints available'')
      else query_endpoints (\<lambda>endpoint. QueryConfigBlockFromOrderer (op_sdk M) resClient channelID
          ([WithOrdererEndpoint endpoint, retry_opts] @ resmgmtOptions)) ordererEndpoints None)"

definition fetchOrdererChannelBlock ::
  "('w, 'b, 'c, 'x) operator \<Rightarrow> res_client \<Rightarrow> FabricMainChannelSpec \<Rightarrow> ('w, 'b) io" where
  "fetchOrdererChannelBlock M resClient spec =
     (case setupResmgmtOptions spec of (options, endpoints) \<Rightarrow>
        io_wrap (''failed to get block from channel '' @ spec_Name spec)
          (queryConfigBlockFromOrdererWithRoundRobin M resClient (spec_Name spec) endpoints options))"

definition fetchConfigBlock ::
  "('w, 'b, 'c, 'x) operator \<Rightarrow> res_client \<Rightarrow> FabricMainChannelSpec \<Rightarrow> ('w, string) io" where
  "fetchConfigBlock M resClient spec =
     io_bind (fetchOrdererChannelBlock M resClient spec) (\<lambda>channelBlock. io_lift (block_Marshal (op_sdk M) channelBlock))"

section \<open>Signatures\<close>

definition mc_createConfigSignature ::
  "('w, 'b, 'c, 'x) operator \<Rightarrow> sdk \<Rightarrow> FabricMainChannelSpec \<Rightarrow> string \<Rightarrow> string \<Rightarrow> ('w, config_signature) io" where
  "mc_createConfigSignature M sdk spec channelConfigBytes mspID =
     io_bind (admin_client M sdk spec mspID) (\<lambda>(resClient, signingIdentity).
       CreateConfigSignature (op_sdk M) resClient signingIdentity channelConfigBytes)"

definition collectConfigSignatures ::
  "('w, 'b, 'c, 'x) operator \<Rightarrow> FabricMainChannelSpec \<Rightarrow> sdk \<Rightarrow> string \<Rightarrow> ('w, config_signature list) io" where
  "collectConfigSignatures M spec sdk channelConfigBytes =
     io_bind (io_map (mc_createConfigSignature M sdk spec channelConfigBytes)
         (case AdminOrdererOrganizations spec of None \<Rightarrow> [] | Some admins \<Rightarrow> admins)) (\<lambda>orderers.
     io_bind (io_map (mc_createConfigSignature M sdk spec channelConfigBytes) (AdminPeerOrganizations spec)) (\<lambda>peers.
       io_return (orderers @ peers)))"

section \<open>The update\<close>

text \<open>Which sections are edited depends on whether the channel is, or is about to be, in maintenance.\<close>

definition edit_config :: "'x configtx \<Rightarrow> string \<Rightarrow> Channel \<Rightarrow> ('x, unit) io" where
  "edit_config C state new =
     (let isMaintenanceMode = state = ConsensusStateMaintenance;
          switchingToMaintenanceMode = \<not> isMaintenanceMode \<and> ConsensusState (channel_Orderer new) = ConsensusStateMaintenance
      in io_bind (if \<not> isMaintenanceMode \<and> \<not> switchingToMaintenanceMode
           then io_wrap ''failed to update application channel config'' (updateApplicationChannelConfigTx C new)
           else io_return ()) (\<lambda>_.
         io_bind (if \<not> switchingToMaintenanceMode
           then io_wrap ''failed to update channel config'' (updateChannelConfigTx C new)
           else io_return ()) (\<lambda>_.
         io_wrap ''failed to update orderer channel config'' (updateOrdererChannelConfigTx C new))))"

text \<open>Signing the update and sending it.\<close>

definition submit_update ::
  "('w, 'b, 'c, 'x) operator \<Rightarrow> FabricMainChannelSpec \<Rightarrow> res_client \<Rightarrow> request_option list \<Rightarrow> sdk \<Rightarrow> config_update
   \<Rightarrow> ('w, unit) io" where
  "submit_update M spec resClient resmgmtOptions sdk configUpdate =
     io_bind (io_wrap ''error creating config update envelope''
       (io_lift (CreateConfigUpdateEnvelope (op_sdk M) (spec_Name spec) configUpdate))) (\<lambda>channelConfigBytes.
     io_bind (io_wrap ''error unmarshalling channel config bytes to json''
       (io_lift (update_JSON (op_sdk M) (configUpdate\<lparr>ChannelId := spec_Name spec\<rparr>)))) (\<lambda>_.
     io_bind (collectConfigSignatures M spec sdk channelConfigBytes) (\<lambda>configSignatures.
     io_bind (io_wrap ''error saving channel configuration''
       (SaveChannel (op_sdk M) resClient (spec_Name spec) channelConfigBytes
         (WithConfigSignatures configSignatures # resmgmtOptions))) (\<lambda>_.
       io_return ()))))"

definition updateChannelConfig ::
  "('w, 'b, 'c, 'x) operator \<Rightarrow> FabricMainChannelSpec \<Rightarrow> res_client \<Rightarrow> request_option list \<Rightarrow> sdk \<Rightarrow> ('w, unit) io" where
  "updateChannelConfig M spec resClient resmgmtOptions sdk =
     (let S = op_sdk M; C = transaction S in
     io_bind (fetchOrdererChannelBlock M resClient spec) (\<lambda>ordererChannelBlock.
     io_bind (io_wrap ''failed to extract config from channel block''
       (io_lift (ExtractConfigFromBlock S ordererChannelBlock))) (\<lambda>cfgBlock.
     io_bind (io_wrap ''failed to get orderer configuration'' (edit (configtx_New S cfgBlock) (ord_Configuration C)))
       (\<lambda>(ordererConfig, currentConfigTx).
     io_bind (io_wrap ''error mapping channel to configtx channel'' (mapToConfigTX (op_lib M) spec)) (\<lambda>newConfigTx.
     io_bind (edit currentConfigTx (edit_config C (ConsensusState ordererConfig) newConfigTx)) (\<lambda>(_, updatedConfigTx).
     case CalculateConfigUpdate S (spec_Name spec) cfgBlock (UpdatedConfig S updatedConfigTx) of
       Ok configUpdate \<Rightarrow> submit_update M spec resClient resmgmtOptions sdk configUpdate
     | Err err \<Rightarrow> (if \<not> str_contains (error_text err) no_differences
         then io_throw (Wrapped ''error calculating config update'' err) else io_return ())
     | Panic p \<Rightarrow> io_panic p))))))"

section \<open>Saving the configuration, and the end\<close>

definition saveChannelConfig ::
  "('w, 'b, 'c, 'x) operator \<Rightarrow> FabricMainChannel \<Rightarrow> res_client \<Rightarrow> ('w, unit) io" where
  "saveChannelConfig M p resClient =
     (let S = op_sdk M in
     io_bind (fetchOrdererChannelBlock M resClient (Spec p)) (\<lambda>ordererChannelBlock.
     io_bind (io_wrap ''error extracting the config from block''
       (io_lift (ExtractConfigFromBlock S ordererChannelBlock))) (\<lambda>cmnConfig.
     io_bind (io_wrap ''error converting block to JSON'' (io_lift (config_JSON S cmnConfig))) (\<lambda>buf.
     io_bind (kube_client (op_lib M)) (\<lambda>_.
       createOrUpdateConfigMap S (crName p @ ''-config'') ''default'' buf)))))"

definition handleReconcileError ::
  "('w, 'b, 'c, 'x) operator \<Rightarrow> FabricMainChannel \<Rightarrow> go_error \<Rightarrow> ('w, Result) io" where
  "handleReconcileError M = report_failure FabricMainChannel_setConditionStatus
     FabricMainChannel_updateCRStatusOrFailReconcile (op_client M)"

definition finalizeReconcile :: "('w, 'b, 'c, 'x) operator \<Rightarrow> FabricMainChannel \<Rightarrow> ('w, Result) io" where
  "finalizeReconcile M p = (\<lambda>w.
     io_bind (status_update (op_client M) (mark_running (clock_now (op_client M) w) ''Channel setup completed'' p))
       (\<lambda>p'. io_bind (FabricMainChannel_setConditionStatus (op_client M) p' RunningStatus True None False)
         (\<lambda>(p'', _). FabricMainChannel_updateCRStatusOrFailReconcile (op_client M) p'')) w)"

text \<open>A channel no ordering node serves is created: the genesis block, the joins, a pause, the query again.\<close>

definition create_and_join ::
  "('w, 'b, 'c, 'x) operator \<Rightarrow> FabricMainChannelSpec \<Rightarrow> res_client \<Rightarrow> string list \<Rightarrow> request_option list
   \<Rightarrow> ('w, 'b) io" where
  "create_and_join M spec resClient endpoints options =
     io_bind (io_wrap ''failed to create new channel'' (createNewChannel M spec)) (\<lambda>blockBytes.
     io_bind (io_wrap ''failed to join orderers to channel'' (joinOrderers M spec blockBytes)) (\<lambda>_.
     io_bind (io_sleep (op_sdk M) (5 * Second)) (\<lambda>_.
       io_wrap ''failed to get config block after creating channel''
         (queryConfigBlockFromOrdererWithRoundRobin M resClient (spec_Name spec) endpoints options))))"

text \<open>The steps after the resource has been got, and \<open>Reconcile\<close>.\<close>

definition reconcile_channel :: "('w, 'b, 'c, 'x) operator \<Rightarrow> FabricMainChannel \<Rightarrow> ('w, Result) io" where
  "reconcile_channel M p =
     (let spec = Spec p; fail = handleReconcileError M p in
       attempt fail (getClientSets M) (\<lambda>_.
       attempt fail (setupSDK M spec) (\<lambda>sdk.
       attempt fail (setupResClient M sdk spec) (\<lambda>resClient.
       case setupResmgmtOptions spec of (options, endpoints) \<Rightarrow>
       attempt fail
         (io_catch (queryConfigBlockFromOrdererWithRoundRobin M resClient (spec_Name spec) endpoints options)
            (\<lambda>_. create_and_join M spec resClient endpoints options)) (\<lambda>channelBlock.
       attempt fail (updateChannelConfig M spec resClient options sdk) (\<lambda>_.
       io_bind (io_sleep (op_sdk M) (3 * Second)) (\<lambda>_.
       attempt fail (saveChannelConfig M p resClient) (\<lambda>_.
         finalizeReconcile M p))))))))"

definition Reconcile_main :: "('w, 'b, 'c, 'x) operator \<Rightarrow> string \<times> string \<Rightarrow> ('w, Result) io" where
  "Reconcile_main M req =
     io_bind (handleInitialSetup M req) (\<lambda>(p, err). case err of
       Some e \<Rightarrow> handleReconcileError M p e
     | None \<Rightarrow> reconcile_channel M p)"

end
