(* ===== verification/Main_Channel_Correct.thy ===== *)
theory Main_Channel_Correct imports Main_Channel Channel_Sections Views begin

text \<open>
  What the main channel controller does: querying the ordering nodes in turn, joining them, editing and
  submitting the configuration, and the outcomes of a reconciliation.
\<close>

section \<open>Querying the ordering nodes\<close>

text \<open>Queries that answer without changing anything.\<close>

definition last_error :: "(string \<Rightarrow> 'b res) \<Rightarrow> string list \<Rightarrow> go_error option \<Rightarrow> go_error option" where
  "last_error ans es prev = fold (\<lambda>e err. case ans e of Err x \<Rightarrow> Some x | _ \<Rightarrow> err) es prev"

lemma last_error_Cons: "last_error ans (e # es) prev = last_error ans es (case ans e of Err x \<Rightarrow> Some x | _ \<Rightarrow> prev)"
  by (simp add: last_error_def)

lemma query_endpoints_find:
  assumes "\<And>e. e \<in> set es \<Longrightarrow> query e w = (ans e, w) \<and> \<not> panics (ans e)"
  shows "query_endpoints query es prev w = (case find (\<lambda>e. is_ok (ans e)) es of
      Some e \<Rightarrow> (ans e, w) | None \<Rightarrow> (Err (all_failed (last_error ans es prev)), w))"
  using assms
proof (induction es arbitrary: prev)
  case (Cons e es)
  have e: "query e w = (ans e, w)" "\<not> panics (ans e)" using Cons.prems [of e] by simp_all
  have IH: "query_endpoints query es prev w = (case find (\<lambda>e. is_ok (ans e)) es of
      Some e \<Rightarrow> (ans e, w) | None \<Rightarrow> (Err (all_failed (last_error ans es prev)), w))" for prev
    using Cons by simp
  show ?case using e by (cases "ans e") (simp_all add: io_simps IH last_error_Cons split: option.split)
qed (simp add: io_simps last_error_def)

section \<open>Joining the ordering nodes\<close>

text \<open>
  The channel participation API for one channel: \<open>joined\<close> is the genesis block each node has joined it
  with.  A join is accepted once (201) and refused afterwards (405); asking for the channel finds it
  (200) exactly on the nodes that have it.
\<close>

definition osn_laws :: "'w http \<Rightarrow> string \<Rightarrow> ('w \<Rightarrow> string \<rightharpoonup> string) \<Rightarrow> bool" where
  "osn_laws N ch joined \<longleftrightarrow>
     (\<forall>m url b. http_NewRequest N m url b = Ok \<lparr>req_Method = m, req_URL = url, req_ContentType = [], req_Body = b\<rparr>)
   \<and> (\<forall>blk. \<exists>body ct. multipart_form N ''config-block'' ''config.block'' blk = Ok (body, ct))
   \<and> (\<forall>cfg osn blk body ct w. multipart_form N ''config-block'' ''config.block'' blk = Ok (body, ct) \<longrightarrow>
        (\<exists>resp w'. http_Do N cfg \<lparr>req_Method = ''POST'', req_URL = channels_url osn, req_ContentType = ct, req_Body = body\<rparr> w
           = (Ok resp, w')
         \<and> (if joined w osn = None
            then StatusCode resp = 201 \<and> is_ok (resp_Body resp) \<and> joined w' = (joined w)(osn \<mapsto> blk)
            else StatusCode resp = 405 \<and> joined w' = joined w)))
   \<and> (\<forall>cfg osn w. \<exists>resp w'. http_Do N cfg \<lparr>req_Method = ''GET'', req_URL = channels_url osn @ ''/'' @ ch,
           req_ContentType = [], req_Body = []\<rparr> w = (Ok resp, w')
         \<and> joined w' = joined w \<and> (StatusCode resp = 200 \<longleftrightarrow> joined w osn \<noteq> None))"

lemma osn_lawsD:
  assumes "osn_laws N ch joined"
  shows "http_NewRequest N m url b = Ok \<lparr>req_Method = m, req_URL = url, req_ContentType = [], req_Body = b\<rparr>"
    and "\<exists>body ct. multipart_form N ''config-block'' ''config.block'' blk = Ok (body, ct)"
    and "multipart_form N ''config-block'' ''config.block'' blk = Ok (body, ct) \<Longrightarrow> \<exists>resp w'.
        http_Do N cfg \<lparr>req_Method = ''POST'', req_URL = channels_url osn, req_ContentType = ct, req_Body = body\<rparr> w
           = (Ok resp, w')
      \<and> (if joined w osn = None
         then StatusCode resp = 201 \<and> is_ok (resp_Body resp) \<and> joined w' = (joined w)(osn \<mapsto> blk)
         else StatusCode resp = 405 \<and> joined w' = joined w)"
    and "\<exists>resp w'. http_Do N cfg \<lparr>req_Method = ''GET'', req_URL = channels_url osn @ ''/'' @ ch,
           req_ContentType = [], req_Body = []\<rparr> w = (Ok resp, w')
      \<and> joined w' = joined w \<and> (StatusCode resp = 200 \<longleftrightarrow> joined w osn \<noteq> None)"
  using assms unfolding osn_laws_def by blast+

definition join_one :: "string \<Rightarrow> string \<Rightarrow> (string \<rightharpoonup> string) \<Rightarrow> string \<rightharpoonup> string" where
  "join_one blk u J = (if J u = None then J(u \<mapsto> blk) else J)"

lemma join_one_fold: "fold (join_one blk) us J = (\<lambda>u. if u \<in> set us \<and> J u = None then Some blk else J u)"
  by (induction us arbitrary: J) (auto simp: join_one_def fun_eq_iff)

lemma Join_joins:
  assumes "osn_laws N ch joined"
  shows "\<exists>resp w'. Join N osn blk pool cert w = (Ok resp, w') \<and> joined w' = join_one blk osn (joined w)
    \<and> (StatusCode resp = 405 \<or> StatusCode resp = 201 \<and> is_ok (resp_Body resp))"
proof -
  obtain body ct where form: "multipart_form N ''config-block'' ''config.block'' blk = Ok (body, ct)"
    using osn_lawsD(2) [OF assms] by blast
  obtain resp w' where d: "http_Do N (httpClient pool cert) \<lparr>req_Method = ''POST'', req_URL = channels_url osn,
      req_ContentType = ct, req_Body = body\<rparr> w = (Ok resp, w')"
    and r: "if joined w osn = None
      then StatusCode resp = 201 \<and> is_ok (resp_Body resp) \<and> joined w' = (joined w)(osn \<mapsto> blk)
      else StatusCode resp = 405 \<and> joined w' = joined w"
    using osn_lawsD(3) [OF assms form] by blast
  have "createJoinRequest N (channels_url osn) blk
      = Ok \<lparr>req_Method = ''POST'', req_URL = channels_url osn, req_ContentType = ct, req_Body = body\<rparr>"
    by (simp add: createJoinRequest_def form osn_lawsD(1) [OF assms])
  then have "Join N osn blk pool cert w = (Ok resp, w')"
    by (simp add: Join_def io_bind_apply io_lift_apply httpDo_def d)
  then show ?thesis using r by (auto simp: join_one_def split: if_splits)
qed

lemma join_orderer_does:
  assumes "osn_laws (op_http M) ch joined"
  shows "does joined (join_orderer M spec blk pool cert osn) J (join_one blk osn J)"
  unfolding does_def
proof (intro allI impI)
  fix w
  assume "joined w = J"
  obtain resp w' where "Join (op_http M) osn blk pool cert w = (Ok resp, w')" "joined w' = join_one blk osn (joined w)"
    "StatusCode resp = 405 \<or> StatusCode resp = 201 \<and> is_ok (resp_Body resp)"
    using Join_joins [OF assms] by blast
  then show "\<exists>w'. join_orderer M spec blk pool cert osn w = (Ok (), w') \<and> joined w' = join_one blk osn J"
    using \<open>joined w = J\<close> by (auto simp: join_orderer_def io_simps is_ok_iff)
qed

definition external_url :: "FabricMainChannelExternalOrdererNode \<Rightarrow> string" where
  "external_url cc = ''https://'' @ host_port (join_Host cc, join_AdminPort cc)"

lemma joinExternalOrderers_does:
  assumes "osn_laws (op_http M) (spec_Name spec) joined"
  shows "does joined (joinExternalOrderers M o' spec blk pool cert) J
    (fold (join_one blk) (map external_url (ExternalOrderersToJoin o')) J)"
proof -
  have "does joined (let osnUrl = ''https://'' @ host_port (join_Host cc, join_AdminPort cc) in
       io_bind (ListSingleChannel (op_http M) osnUrl (spec_Name spec) pool cert) (\<lambda>chInfoResponse.
         if StatusCode chInfoResponse = 200 then io_return ()
         else join_orderer M spec blk pool cert osnUrl)) J (join_one blk (external_url cc) J)" for cc J
    unfolding does_def
  proof (intro allI impI)
    fix w
    assume J: "joined w = J"
    obtain resp w1 where d: "http_Do (op_http M) (httpClient pool cert) \<lparr>req_Method = ''GET'',
        req_URL = channels_url (external_url cc) @ ''/'' @ spec_Name spec, req_ContentType = [], req_Body = []\<rparr> w = (Ok resp, w1)"
      and r: "joined w1 = joined w" "StatusCode resp = 200 \<longleftrightarrow> joined w (external_url cc) \<noteq> None"
      using osn_lawsD(4) [OF assms] by blast
    have l: "ListSingleChannel (op_http M) (external_url cc) (spec_Name spec) pool cert w = (Ok resp, w1)"
      using d by (simp add: ListSingleChannel_def httpGet_def io_bind_apply io_lift_apply osn_lawsD(1) [OF assms])
    show "\<exists>w'. (let osnUrl = ''https://'' @ host_port (join_Host cc, join_AdminPort cc) in
       io_bind (ListSingleChannel (op_http M) osnUrl (spec_Name spec) pool cert) (\<lambda>chInfoResponse.
         if StatusCode chInfoResponse = 200 then io_return ()
         else join_orderer M spec blk pool cert osnUrl)) w = (Ok (), w') \<and> joined w' = join_one blk (external_url cc) J"
      unfolding external_url_def [symmetric] Let_def io_bind_apply l
      using J r join_orderer_does [OF assms, of spec blk pool cert "external_url cc" J, unfolded does_def]
      by (cases "StatusCode resp = 200") (auto simp: io_simps join_one_def)
  qed
  then show ?thesis unfolding joinExternalOrderers_def fold_map comp_def by (intro does_for)
qed

text \<open>The nodes of the cluster have an administration address.\<close>

definition admin_addresses ::
  "'w hlf_client \<Rightarrow> (FabricMainChannelOrdererNode \<Rightarrow> string \<times> int) \<Rightarrow> FabricMainChannelOrdererNode set \<Rightarrow> bool" where
  "admin_addresses H addr ccs \<longleftrightarrow> (\<forall>cc \<in> ccs. \<forall>w. \<exists>n. hlf_get_orderer H (join_Namespace cc) (join_Name cc) w = (Ok n, w)
     \<and> GetOrdererAdminHostAndPort (hlf_cluster H) n w = (Ok (addr cc), w))"

definition internal_url ::
  "(FabricMainChannelOrdererNode \<Rightarrow> string \<times> int) \<Rightarrow> FabricMainChannelOrdererNode \<Rightarrow> string" where
  "internal_url addr cc = ''https://'' @ host_port (addr cc)"

lemma joinInternalOrderers_does:
  assumes "osn_laws (op_http M) (spec_Name spec) joined" and "admin_addresses (op_hlf M) addr (set (OrderersToJoin o'))"
  shows "does joined (joinInternalOrderers M o' spec blk pool cert) J
    (fold (join_one blk) (map (internal_url addr) (OrderersToJoin o')) J)"
  unfolding joinInternalOrderers_def fold_map comp_def
proof (rule does_for)
  fix cc J
  assume "cc \<in> set (OrderersToJoin o')"
  show "does joined (io_bind (hlf_get_orderer (op_hlf M) (join_Namespace cc) (join_Name cc)) (\<lambda>ordererNode.
       io_bind (GetOrdererAdminHostAndPort (hlf_cluster (op_hlf M)) ordererNode) (\<lambda>hp.
         join_orderer M spec blk pool cert (''https://'' @ host_port hp)))) J (join_one blk (internal_url addr cc) J)"
    unfolding does_def
  proof (intro allI impI)
    fix w
    assume "joined w = J"
    obtain n where n: "hlf_get_orderer (op_hlf M) (join_Namespace cc) (join_Name cc) w = (Ok n, w)"
      "GetOrdererAdminHostAndPort (hlf_cluster (op_hlf M)) n w = (Ok (addr cc), w)"
      using assms(2) \<open>cc \<in> _\<close> unfolding admin_addresses_def by blast
    show "\<exists>w'. io_bind (hlf_get_orderer (op_hlf M) (join_Namespace cc) (join_Name cc)) (\<lambda>ordererNode.
       io_bind (GetOrdererAdminHostAndPort (hlf_cluster (op_hlf M)) ordererNode) (\<lambda>hp.
         join_orderer M spec blk pool cert (''https://'' @ host_port hp))) w = (Ok (), w')
       \<and> joined w' = join_one blk (internal_url addr cc) J"
      using join_orderer_does [OF assms(1), of spec blk pool cert "internal_url addr cc" J] \<open>joined w = J\<close>
      by (simp add: does_def io_bind_apply n internal_url_def)
  qed
qed

text \<open>All the nodes a resource asks to join, by URL.\<close>

definition org_urls ::
  "(FabricMainChannelOrdererNode \<Rightarrow> string \<times> int) \<Rightarrow> FabricMainChannelOrdererOrganization \<Rightarrow> string list" where
  "org_urls addr o' = map external_url (ExternalOrderersToJoin o') @ map (internal_url addr) (OrderersToJoin o')"

lemma fold_concat_map: "fold (\<lambda>x. fold f (g x)) xs s = fold f (concat (map g xs)) s"
  by (induction xs arbitrary: s) auto

definition join_urls ::
  "(FabricMainChannelOrdererNode \<Rightarrow> string \<times> int) \<Rightarrow> FabricMainChannelSpec \<Rightarrow> string list" where
  "join_urls addr spec = concat (map (org_urls addr) (OrdererOrganizations spec))"

text \<open>The TLS material of an organization can be got, and getting it changes nothing.\<close>

definition tls_ready :: "('w, 'b, 'c, 'x) operator \<Rightarrow> FabricMainChannelSpec \<Rightarrow> bool" where
  "tls_ready M spec \<longleftrightarrow> (\<forall>o' \<in> set (OrdererOrganizations spec). \<forall>w. \<exists>pool cert.
     getCertPool M o' w = (Ok pool, w) \<and> getTLSClientCert M o' spec w = (Ok cert, w))"

lemma joinOrderers_does:
  assumes laws: "osn_laws (op_http M) (spec_Name spec) joined" and tls: "tls_ready M spec"
    and addr: "admin_addresses (op_hlf M) addr (\<Union>o' \<in> set (OrdererOrganizations spec). set (OrderersToJoin o'))"
  shows "does joined (joinOrderers M spec blk) J (fold (join_one blk) (join_urls addr spec) J)"
  unfolding joinOrderers_def join_urls_def fold_concat_map [symmetric]
proof (rule does_for)
  fix o' J
  assume o': "o' \<in> set (OrdererOrganizations spec)"
  have a: "admin_addresses (op_hlf M) addr (set (OrderersToJoin o'))"
    using addr o' unfolding admin_addresses_def by blast
  show "does joined (io_bind (getCertPool M o') (\<lambda>certPool. io_bind (getTLSClientCert M o' spec) (\<lambda>tlsClientCert.
      io_bind (joinExternalOrderers M o' spec blk certPool tlsClientCert) (\<lambda>_.
        joinInternalOrderers M o' spec blk certPool tlsClientCert)))) J (fold (join_one blk) (org_urls addr o') J)"
    unfolding does_def
  proof (intro allI impI)
    fix w
    assume w: "joined w = J"
    obtain pool cert where g: "getCertPool M o' w = (Ok pool, w)" "getTLSClientCert M o' spec w = (Ok cert, w)"
      using tls o' unfolding tls_ready_def by blast
    have "does joined (io_bind (joinExternalOrderers M o' spec blk pool cert) (\<lambda>_.
        joinInternalOrderers M o' spec blk pool cert)) J (fold (join_one blk) (org_urls addr o') J)"
      unfolding org_urls_def fold_append comp_def
      by (rule does_bind [OF joinExternalOrderers_does [OF laws] joinInternalOrderers_does [OF laws a]])
    then show "\<exists>w'. io_bind (getCertPool M o') (\<lambda>certPool. io_bind (getTLSClientCert M o' spec) (\<lambda>tlsClientCert.
      io_bind (joinExternalOrderers M o' spec blk certPool tlsClientCert) (\<lambda>_.
        joinInternalOrderers M o' spec blk certPool tlsClientCert))) w = (Ok (), w')
        \<and> joined w' = fold (join_one blk) (org_urls addr o') J"
      using w by (simp add: does_def io_bind_apply g)
  qed
qed

section \<open>Editing the configuration\<close>

text \<open>What the edit leaves, outside and inside maintenance.\<close>

definition edited :: "bool \<Rightarrow> bool \<Rightarrow> Channel \<Rightarrow> channel_view \<Rightarrow> channel_view \<Rightarrow> bool" where
  "edited maintenance switching new v v' \<longleftrightarrow>
     view_ord v' = raft_target (channel_Orderer new) (view_ord v)
   \<and> view_caps v' = (if switching then view_caps v else set (channel_Capabilities new))
   \<and> (if maintenance \<or> switching then view_app v' = view_app v
      else va_orgs (view_app v') = merged_orgs (va_orgs (view_app v)) (app_Organizations (channel_Application new))
        \<and> va_policies (view_app v') = app_Policies (channel_Application new)
        \<and> va_caps (view_app v') = set (app_Capabilities (channel_Application new)))"

definition switches_to_maintenance :: "string \<Rightarrow> Channel \<Rightarrow> bool" where
  "switches_to_maintenance state new \<longleftrightarrow>
     state \<noteq> ConsensusStateMaintenance \<and> ConsensusState (channel_Orderer new) = ConsensusStateMaintenance"

definition edit_laws :: "'x configtx \<Rightarrow> ('x \<Rightarrow> channel_view) \<Rightarrow> bool" where
  "edit_laws C view \<longleftrightarrow> app_laws C view \<and> chan_laws C view \<and> ord_laws C view"

lemma raft_update_ok_ord: "view_ord v = view_ord v' \<Longrightarrow> raft_update_ok v new \<longleftrightarrow> raft_update_ok v' new"
  by (simp add: raft_update_ok_def)

lemma edit_config_does:
  assumes laws: "edit_laws C view" and ok: "raft_update_ok (view x) new"
    and d: "distinct (map org_Name (app_Organizations (channel_Application new)))"
  shows "if set (ord_Capabilities (channel_Orderer new)) \<subseteq> vo_caps (view_ord (view x))
    then \<exists>x'. edit_config C state new x = (Ok (), x')
      \<and> edited (state = ConsensusStateMaintenance) (switches_to_maintenance state new) new (view x) (view x')
    else \<exists>e x'. edit_config C state new x = (Err e, x')"
proof -
  have l: "app_laws C view" "chan_laws C view" "ord_laws C view" using laws by (simp_all add: edit_laws_def)
  let ?s = "switches_to_maintenance state new" and ?m = "state = ConsensusStateMaintenance"
  obtain x1 where x1: "(if \<not> ?m \<and> \<not> ?s
      then io_wrap ''failed to update application channel config'' (updateApplicationChannelConfigTx C new)
      else io_return ()) x = (Ok (), x1)"
    and v1: "if ?m \<or> ?s then view x1 = view x else app_target (channel_Application new) (view x) (view x1)"
  proof (cases "?m \<or> ?s")
    case True
    then show thesis using that [of x] by (auto simp: io_return_apply)
  next
    case False
    obtain x' where "updateApplicationChannelConfigTx C new x = (Ok (), x')"
      "app_target (channel_Application new) (view x) (view x')"
      using update_application_does [OF l(1) d, of "view x"] by (auto simp: does_def)
    then show thesis using that [of x'] False by (simp add: io_wrap_apply)
  qed
  have o1: "view_ord (view x1) = view_ord (view x)" "view_caps (view x1) = view_caps (view x)"
    using v1 by (simp_all add: app_target_def split: if_splits)
  obtain x2 where x2: "(if \<not> ?s then io_wrap ''failed to update channel config'' (updateChannelConfigTx C new)
      else io_return ()) x1 = (Ok (), x2)"
    and v2: "view x2 = (if ?s then view x1 else (view x1)\<lparr>view_caps := set (channel_Capabilities new)\<rparr>)"
    using update_channel_does [OF l(2), of new "view x1"]
    by (cases ?s) (auto simp: does_def io_wrap_apply io_return_apply)
  have o2: "view_ord (view x2) = view_ord (view x)" by (simp add: v2 o1)
  have run: "edit_config C state new x
      = io_wrap ''failed to update orderer channel config'' (updateOrdererChannelConfigTx C new) x2"
    unfolding edit_config_def Let_def switches_to_maintenance_def [symmetric]
    by (subst io_bind_at [where m = "if _ then _ else _", OF x1], subst io_bind_at [where m = "if _ then _ else _", OF x2]) simp
  note out = update_orderer_outcome [OF l(3), of x2 new, unfolded raft_update_ok_ord [OF o2] o2, OF ok]
  show ?thesis
  proof (cases "set (ord_Capabilities (channel_Orderer new)) \<subseteq> vo_caps (view_ord (view x))")
    case True
    then obtain x3 where x3: "updateOrdererChannelConfigTx C new x2 = (Ok (), x3)"
      and v3: "view x3 = on_ord (raft_target (channel_Orderer new)) (view x2)" using out by auto
    have "edited ?m ?s new (view x) (view x3)"
      using v1 by (auto simp: edited_def v3 on_ord_def o2 v2 o1 app_target_def)
    then show ?thesis using True by (simp add: run io_wrap_apply x3)
  next
    case False
    then show ?thesis using out by (auto simp: run io_wrap_apply)
  qed
qed

end
