(* ===== verification/Operator_Memory.thy ===== *)
theory Operator_Memory imports Fabric_SDK Channel_Memory begin

text \<open>
  An SDK, a Kubernetes client and a channel in memory, on which the hypotheses of the properties of the
  controllers hold.
\<close>

text \<open>The network has one channel; the SDK and the secrets are constant.\<close>

definition channel_live :: Channel where
  "channel_live =
     \<lparr>channel_Orderer = \<lparr>OrdererType = OrdererConsensusEtcdraft,
        ord_Organizations = [mapOrdererOrg ''OrdererMSP'' [''orderer1:443''] None None []],
        ConsenterMapping = [], SmartBFT = None,
        ord_EtcdRaft = \<lparr>raft_Consenters = [], EtcdRaft_Options = default_raft_options\<rparr>,
        ord_Policies = Map.empty, ord_Capabilities = [''V2_0''], ConsensusState = ConsensusStateNormal,
        ord_BatchSize = \<lparr>MaxMessageCount = 100, AbsoluteMaxBytes = 1024, PreferredMaxBytes = 512\<rparr>,
        BatchTimeout = 2 * Second\<rparr>,
      channel_Application = \<lparr>app_Organizations = [], app_Capabilities = [], app_Policies = Map.empty, ACLs = None\<rparr>,
      channel_Capabilities = [], channel_Policies = default_channel_policies\<rparr>"

definition identity_one :: identity where
  "identity_one = \<lparr>CertPem = ''cert'', KeyPem = ''key''\<rparr>"

definition sdk_one :: "('w, Channel, Channel, Channel) fabric_sdk" where
  "sdk_one = \<lparr>fabsdk_New = (\<lambda>s. io_return (SDK s)), sdk_Config = (\<lambda>_. io_return (ConfigBackend [])),
     GetSuiteByConfig = (\<lambda>_. io_return (CryptoSuite [])), fab_ConfigFromBackend = (\<lambda>_. io_return (EndpointConfig [])),
     NewIdentityManager = (\<lambda>m _ _. io_return (IdentityManager m)),
     im_CreateSigningIdentity = (\<lambda>_ k c. io_return (SigningIdentity c)),
     resmgmt_New = (\<lambda>_ _ m. io_return (ResClient m)),
     QueryConfigBlockFromOrderer = (\<lambda>_ _ opts. if opts = [] \<or> hd opts = WithOrdererEndpoint ''orderer0:443''
        then io_return channel_live else io_throw (ErrorString ''not found'')),
     ExtractConfigFromBlock = Ok, NewApplicationChannelGenesisBlock = (\<lambda>c _. Ok c),
     block_Marshal = (\<lambda>_. Ok ''block''), config_JSON = (\<lambda>_. Ok ''{}''), update_JSON = (\<lambda>_. Ok ''{}''),
     configtx_New = (\<lambda>c. c), transaction = mem, UpdatedConfig = (\<lambda>c. c),
     CalculateConfigUpdate = (\<lambda>ch _ _. Ok \<lparr>ChannelId = ch, ConfigChange = ''delta''\<rparr>),
     update_Marshal = (\<lambda>u. Ok (ConfigChange u)), update_Unmarshal = (\<lambda>s. Ok \<lparr>ChannelId = [], ConfigChange = s\<rparr>),
     CreateSignedEnvelope = (\<lambda>_ d. Ok (Envelope d)), envelope_Marshal = (\<lambda>_. Ok ''envelope''),
     CreateConfigSignature = (\<lambda>_ _ s. io_return (ConfigSignature s)),
     SaveChannel = (\<lambda>_ _ _ _. io_return ''tx''), JoinChannel = (\<lambda>_ _ _. io_return ()),
     secrets_Get = (\<lambda>_ _. io_return [''id.yaml'' \<mapsto> ''identity'']), yaml_Unmarshal = (\<lambda>_. Ok identity_one),
     configMaps_Get = (\<lambda>_ n. io_throw (NotFound n)), configMaps_Create = (\<lambda>_ m. io_return m),
     configMaps_Update = (\<lambda>_ m. io_return m), time_Sleep = (\<lambda>_ w. w)\<rparr>"

definition client_one :: "'a custom_resource_scheme \<Rightarrow> ('w, 'a custom_resource_scheme) client" where
  "client_one p = \<lparr>clock_now = (\<lambda>_. 7), client_get = (\<lambda>(_, n). if n = crName p then io_return p else io_throw (NotFound n)),
     client_update = io_return, status_update = io_return, status_patch = (\<lambda>_. io_return),
     add_finalizer = (\<lambda>f fs. if f \<in> set fs then fs else fs @ [f]),
     remove_finalizer = (\<lambda>f fs. filter (\<lambda>g. g \<noteq> f) fs)\<rparr>"

lemma client_one_ok: "client_ok (client_one p)"
  by (auto simp: client_ok_def update_ok_def patch_ok_def finalizers_ok_def client_one_def io_return_apply)

end
