(* ===== verification/Main_Channel_Properties.thy ===== *)
theory Main_Channel_Properties imports Main_Channel_Correct Operator_Memory begin

text \<open>
  The properties of the main channel controller, and an operator in memory on which their hypotheses
  hold.
\<close>

section \<open>An operator and its ordering nodes\<close>

text \<open>Ordering nodes that remember the block they joined with, by URL.\<close>

definition api_path :: string where "api_path = ''/participation/v1/channels''"

definition node_of :: "string \<Rightarrow> string \<Rightarrow> string" where
  "node_of sfx url = take (length url - length sfx) url"

definition response :: "int \<Rightarrow> http_response" where
  "response code = \<lparr>StatusCode = code, resp_Body = Ok []\<rparr>"

definition nodes :: "string \<Rightarrow> (string \<rightharpoonup> string) http" where
  "nodes ch = \<lparr>http_NewRequest = (\<lambda>m url b. Ok \<lparr>req_Method = m, req_URL = url, req_ContentType = [], req_Body = b\<rparr>),
     http_Do = (\<lambda>_ r J. if req_Method r = ''POST''
        then (let osn = node_of api_path (req_URL r) in
              if J osn = None then (Ok (response 201), J(osn \<mapsto> req_Body r)) else (Ok (response 405), J))
        else (Ok (response (if J (node_of (api_path @ ''/'' @ ch) (req_URL r)) = None then 404 else 200)), J)),
     multipart_form = (\<lambda>_ _ b. Ok (b, ''multipart/form-data''))\<rparr>"

definition operator_one :: "'w http \<Rightarrow> FabricMainChannel \<Rightarrow> ('w, Channel, Channel, Channel) operator" where
  "operator_one N p = \<lparr>op_client = client_one p, op_lib = plain_lib, op_hlf = hlf_one, op_sdk = sdk_one, op_http = N,
     AppendCertsFromPEM = Some \<circ> CertPool, X509KeyPair = (\<lambda>c _. Ok (TLSCertificate c))\<rparr>"

definition channel_one :: FabricMainChannel where
  "channel_one = \<lparr>crName = ''demo'', crNamespace = [], Finalizers = [mainChannelFinalizer], DeletionTimestamp = None,
     crConditions = [], crMessage = [], crStatus = [], Spec = spec_one\<rparr>"

lemma operator_one_simps [simp]:
  "op_client (operator_one N p) = client_one p" "op_lib (operator_one N p) = plain_lib"
  "op_hlf (operator_one N p) = hlf_one" "op_sdk (operator_one N p) = sdk_one" "op_http (operator_one N p) = N"
  "AppendCertsFromPEM (operator_one N p) = Some \<circ> CertPool"
  "X509KeyPair (operator_one N p) = (\<lambda>c _. Ok (TLSCertificate c))"
  by (simp_all add: operator_one_def)

lemma node_of_append: "node_of s (osn @ s) = osn"
  by (simp add: node_of_def)

lemma nodes_laws: "osn_laws (nodes ch) ch (\<lambda>J. J)"
proof -
  have p: "channels_url osn = osn @ api_path" "channels_url osn @ ''/'' @ ch = osn @ (api_path @ ''/'' @ ch)" for osn
    by (simp_all add: channels_url_def api_path_def)
  show ?thesis
    unfolding osn_laws_def p node_of_append
    by (intro conjI allI impI)
      (auto simp: nodes_def node_of_append response_def Let_def split: if_splits)
qed

text \<open>What the resource of the example is translated to.\<close>

lemma spec_one_channel:
  fixes w :: 'w
  assumes "mapToConfigTX plain_lib spec_one w = (Ok ch, w')"
  shows "OrdererType (channel_Orderer ch) = OrdererConsensusEtcdraft" and "ConsensusState (channel_Orderer ch) = ConsensusStateNormal"
    and "length (raft_Consenters (ord_EtcdRaft (channel_Orderer ch))) = 1"
    and "ord_Capabilities (channel_Orderer ch) = [''V2_0'']" and "channel_Capabilities ch = [''V2_0'']"
    and "length (app_Organizations (channel_Application ch)) = 1"
    and "map OrdererEndpoints (ord_Organizations (channel_Orderer ch)) = [[''orderer0:443'']]"
proof -
  let ?L = "plain_lib :: 'w channel_lib"
  have cc: "ChannelConfig spec_one = Some config_one" "cc_Orderer config_one = Some ord_one"
    by (simp_all add: spec_one_def config_one_def)
  obtain v1 v2 v3 oorgs porgs where o': "map_orderer_organizations ?L spec_one v1 = (Ok oorgs, v2)"
    and ord: "map_orderer ?L spec_one ord_one oorgs = Ok (channel_Orderer ch)"
    and p: "map_peer_organizations ?L spec_one v3 = (Ok porgs, w')"
    and app: "map_application spec_one config_one porgs = Ok (channel_Application ch)"
    and caps: "channel_Capabilities ch = cc_Capabilities config_one"
    using mapToConfigTX_Ok [OF assms] by (auto simp: cc)
  obtain c t where c: "map_consensus ?L spec_one ord_one = Ok c"
    and oc: "OrdererType (channel_Orderer ch) = cons_Type c" "ord_Organizations (channel_Orderer ch) = oorgs"
      "ord_EtcdRaft (channel_Orderer ch) = cons_EtcdRaft c" "ord_Capabilities (channel_Orderer ch) = ordc_Capabilities ord_one"
      "ConsensusState (channel_Orderer ch) = consensus_state ord_one"
    using ord unfolding map_orderer_Ok by auto
  obtain cs where cs: "res_map (map_raft_consenter ?L) (Consenters spec_one) = Ok cs"
    and c': "c = \<lparr>cons_Type = OrdererConsensusEtcdraft, cons_Mapping = [], cons_SmartBFT = None,
            cons_EtcdRaft = \<lparr>raft_Consenters = cs, EtcdRaft_Options = raft_options spec_one\<rparr>\<rparr>"
    using c unfolding map_consensus_Ok by (auto simp: ord_one_def OrdererConsensusBFT_def)
  show "OrdererType (channel_Orderer ch) = OrdererConsensusEtcdraft" by (simp add: oc c')
  show "length (raft_Consenters (ord_EtcdRaft (channel_Orderer ch))) = 1"
    using res_map_Ok_length [OF cs] by (simp add: oc c' spec_one_def)
  show "ConsensusState (channel_Orderer ch) = ConsensusStateNormal"
    by (simp add: oc consensus_state_def ord_one_def ConsensusStateMaintenance_def)
  show "ord_Capabilities (channel_Orderer ch) = [''V2_0'']" "channel_Capabilities ch = [''V2_0'']"
    by (simp_all add: oc caps ord_one_def config_one_def)
  show "length (app_Organizations (channel_Application ch)) = 1"
    using map_peer_organizations_Ok [OF p] app
    by (auto simp: map_application_Ok spec_one_def dest: arg_cong [where f = length])
  show "map OrdererEndpoints (ord_Organizations (channel_Orderer ch)) = [[''orderer0:443'']]"
    using o' by (auto simp: oc map_orderer_organizations_def spec_one_def io_bind_Ok_iff io_return_apply
        dest: map_organization_Ok(1))
qed

lemma spec_one_names: "spec_Name spec_one = ''demo''" "setupResmgmtOptions spec_one = ([WithTimeout ResMgmt (30 * Second), retry_opts], [''orderer0:443''])"
  by (simp_all add: spec_one_def setupResmgmtOptions_def)

lemma query_one:
  "queryConfigBlockFromOrdererWithRoundRobin (operator_one N p) rc ''demo'' [''orderer0:443''] opts w = (Ok channel_live, w)"
  by (simp add: queryConfigBlockFromOrdererWithRoundRobin_def io_simps sdk_one_def)

lemma fetch_one: "fetchOrdererChannelBlock (operator_one N p) rc spec_one w = (Ok channel_live, w)"
  by (simp add: fetchOrdererChannelBlock_def spec_one_names io_wrap_apply query_one)

lemma raft_update_ok_one:
  fixes w :: 'w
  assumes "mapToConfigTX plain_lib spec_one w = (Ok ch, w')"
  shows "raft_update_ok (mem_view channel_live) ch"
proof -
  have "itoa 443 = ''443''" by code_simp
  then have can: "canonical ''orderer0:443''" "canonical ''orderer1:443''"
    using canonical_join [of "''orderer0''" 443] canonical_join [of "''orderer1''" 443]
    by (simp_all add: join_host_port_def plain_host_def)
  obtain c where "raft_Consenters (ord_EtcdRaft (channel_Orderer ch)) = [c]"
    using spec_one_channel(3) [OF assms] by (auto simp: length_Suc_conv)
  moreover obtain org where "ord_Organizations (channel_Orderer ch) = [org]" "OrdererEndpoints org = [''orderer0:443'']"
    using spec_one_channel(7) [OF assms] by auto
  moreover have "view_ord (mem_view channel_live) = view_of_ord (channel_Orderer channel_live)" by (simp add: mem_view_def)
  moreover have "ran (vo_orgs (view_of_ord (channel_Orderer channel_live)))
      = {mapOrdererOrg ''OrdererMSP'' [''orderer1:443''] None None []}"
    by (auto simp: view_of_ord_def channel_live_def named_def mapOrdererOrg_def ran_def split: if_splits)
  ultimately show ?thesis
    using spec_one_channel(1,2,4) [OF assms] can
    by (simp add: raft_update_ok_def unique_addresses_def endpoints_ok_def view_of_ord_def channel_live_def mapOrdererOrg_def)
qed

lemma edit_one:
  fixes w :: 'w
  assumes "mapToConfigTX plain_lib spec_one w = (Ok ch, w')"
  shows "edit_laws mem mem_view" and "distinct (map org_Name (app_Organizations (channel_Application ch)))"
    and "set (ord_Capabilities (channel_Orderer ch)) \<subseteq> vo_caps (view_ord (mem_view channel_live))"
proof -
  show "edit_laws mem mem_view" by (simp add: edit_laws_def mem_app_laws mem_chan_laws mem_ord_laws)
  obtain org where "app_Organizations (channel_Application ch) = [org]"
    using spec_one_channel(6) [OF assms] by (auto simp: length_Suc_conv)
  then show "distinct (map org_Name (app_Organizations (channel_Application ch)))" by simp
  show "set (ord_Capabilities (channel_Orderer ch)) \<subseteq> vo_caps (view_ord (mem_view channel_live))"
    using spec_one_channel(4) [OF assms] by (simp add: mem_view_def view_of_ord_def channel_live_def)
qed

lemma read_one: "\<exists>oc. ord_Configuration mem channel_live = (Ok oc, channel_live) \<and> ConsensusState oc = ConsensusStateNormal"
  by (simp add: mem_def channel_live_def)

lemma submit_one: "submit_update (operator_one N p) spec_one rc opts sdk u w = (Ok (), w)"
  by (simp add: submit_update_def CreateConfigUpdateEnvelope_def collectConfigSignatures_def mc_createConfigSignature_def
      admin_client_def sign_identity_def channel_identity_def secret_identity_def createSigningIdentity_def
      spec_one_def sdk_one_def io_simps)

section \<open>The run of an update\<close>

lemma updateChannelConfig_run:
  assumes "fetchOrdererChannelBlock M rc spec w = (Ok b, w1)" and "ExtractConfigFromBlock (op_sdk M) b = Ok c"
    and read: "ord_Configuration (transaction (op_sdk M)) (configtx_New (op_sdk M) c) = (Ok oc, configtx_New (op_sdk M) c)"
    and "mapToConfigTX (op_lib M) spec w1 = (Ok new, w2)"
  shows "updateChannelConfig M spec rc opts sdk w =
     io_bind (edit (configtx_New (op_sdk M) c) (edit_config (transaction (op_sdk M)) (ConsensusState oc) new)) (\<lambda>(_, x).
      case CalculateConfigUpdate (op_sdk M) (spec_Name spec) c (UpdatedConfig (op_sdk M) x) of
        Ok u \<Rightarrow> submit_update M spec rc opts sdk u
      | Err e \<Rightarrow> (if \<not> str_contains (error_text e) no_differences
          then io_throw (Wrapped ''error calculating config update'' e) else io_return ())
      | Panic p \<Rightarrow> io_panic p) w2"
  by (simp add: updateChannelConfig_def Let_def io_bind_apply io_wrap_apply io_lift_apply assms
      edit_Ok [where m = "ord_Configuration (transaction (op_sdk M))", OF read])

section \<open>Properties\<close>

text \<open>
  The query of the configuration block goes through the ordering nodes in the order of the
  resource and returns the first answer; when none answers the error carries that of the last node,
  and without any endpoint there is an error of its own.
\<close>
theorem queryConfigBlock_round_robin:
  assumes "\<forall>e \<in> set eps. QueryConfigBlockFromOrderer (op_sdk M) rc ch ([WithOrdererEndpoint e, retry_opts] @ opts) w
      = (ans e, w) \<and> \<not> panics (ans e)"
  shows "queryConfigBlockFromOrdererWithRoundRobin M rc ch eps opts w = (case find (\<lambda>e. is_ok (ans e)) eps of
      Some e \<Rightarrow> (ans e, w)
    | None \<Rightarrow> (Err (if eps = [] then ErrorString ''no orderer endpoints available''
        else all_failed (case ans (last eps) of Err x \<Rightarrow> Some x | _ \<Rightarrow> None)), w))"
proof (cases "eps = []")
  case False
  have "last_error ans eps None = (case ans (last eps) of Err x \<Rightarrow> Some x | _ \<Rightarrow> None)"
    if "find (\<lambda>e. is_ok (ans e)) eps = None"
  proof -
    have "\<not> is_ok (ans (last eps)) \<and> \<not> panics (ans (last eps))" using that assms False by (simp add: find_None_iff)
    then obtain x where x: "ans (last eps) = Err x" by (cases "ans (last eps)") simp_all
    have "last_error ans (butlast eps @ [last eps]) None = Some x" by (simp add: last_error_def x)
    then show ?thesis using False x by simp
  qed
  then show ?thesis using False assms
    by (simp add: queryConfigBlockFromOrdererWithRoundRobin_def query_endpoints_find [where ans = ans] split: option.split)
qed (simp add: queryConfigBlockFromOrdererWithRoundRobin_def io_throw_apply)

theorem queryConfigBlock_round_robin_witness:
  "queryConfigBlockFromOrdererWithRoundRobin (operator_one (nodes ''demo'') channel_one) (ResClient ''m'') ''demo''
      [''orderer9:443'', ''orderer0:443''] [] Map.empty = (Ok channel_live, Map.empty)"
proof -
  let ?ans = "\<lambda>e. if e = ''orderer0:443'' then Ok channel_live else Err (ErrorString ''not found'')"
  show ?thesis
    using queryConfigBlock_round_robin [where M = "operator_one (nodes ''demo'') channel_one" and rc = "ResClient ''m''" and ch = "''demo''"
        and eps = "[''orderer9:443'', ''orderer0:443'']" and opts = "[]" and w = Map.empty and ans = ?ans]
    by (simp add: sdk_one_def io_simps)
qed

text \<open>
  C10. Joining the ordering nodes.  When the TLS material of every ordering organization can be read
  and the nodes of the cluster have an address, joining succeeds, and afterwards exactly the nodes
  the resource names, external ones under their host and port and those of the cluster under their
  administration address, have joined with the new block, except that a node which had joined
  already keeps the block it has.
\<close>
theorem joinOrderers_correct:
  assumes "osn_laws (op_http M) (spec_Name spec) joined" and "tls_ready M spec"
    and "admin_addresses (op_hlf M) addr (\<Union>o' \<in> set (OrdererOrganizations spec). set (OrderersToJoin o'))"
  shows "\<exists>w'. joinOrderers M spec blk w = (Ok (), w')
    \<and> joined w' = (\<lambda>u. if u \<in> set (join_urls addr spec) \<and> joined w u = None then Some blk else joined w u)"
  using joinOrderers_does [OF assms, of blk "joined w"] unfolding join_one_fold by (simp add: does_def)

text \<open>One external node and one of the cluster; the external one has joined before.\<close>

definition spec_join :: FabricMainChannelSpec where
  "spec_join = spec_one\<lparr>OrdererOrganizations := [(hd (OrdererOrganizations spec_one))
     \<lparr>OrderersToJoin := [\<lparr>join_Name = ''ord0'', join_Namespace = ''ns''\<rparr>],
      ExternalOrderersToJoin := [\<lparr>join_Host = ''x.org'', join_AdminPort = 443\<rparr>]\<rparr>]\<rparr>"

lemma tls_ready_join: "tls_ready (operator_one N p) spec_join"
  by (simp add: tls_ready_def spec_join_def spec_one_def getCertPool_def tls_ca_of_def getTLSClientCert_def
      channel_identity_def secret_identity_def sdk_one_def io_simps)

definition admin_of :: "FabricMainChannelOrdererNode \<Rightarrow> string \<times> int" where
  "admin_of cc = (''admin.ord0.org'', 443)"

lemma admin_addresses_join:
  "admin_addresses hlf_one admin_of (\<Union>o' \<in> set (OrdererOrganizations spec_join). set (OrderersToJoin o'))"
  by (simp add: admin_addresses_def spec_join_def spec_one_def hlf_one_def orderer_one_def admin_of_def
      GetOrdererAdminHostAndPort_def io_simps)

theorem joinOrderers_correct_witness:
  "\<exists>J. joinOrderers (operator_one (nodes ''demo'') channel_one) spec_join ''new'' [''https://x.org:443'' \<mapsto> ''old''] = (Ok (), J)
     \<and> J ''https://x.org:443'' = Some ''old'' \<and> J ''https://admin.ord0.org:443'' = Some ''new'' \<and> J ''https://other:443'' = None"
proof -
  have name: "spec_Name spec_join = ''demo''" by (simp add: spec_join_def spec_one_def)
  have "itoa 443 = ''443''" by code_simp
  then have urls: "join_urls admin_of spec_join = [''https://x.org:443'', ''https://admin.ord0.org:443'']"
    by (simp add: join_urls_def org_urls_def external_url_def internal_url_def spec_join_def spec_one_def admin_of_def host_port_def)
  show ?thesis
    using joinOrderers_correct [where M = "operator_one (nodes ''demo'') channel_one" and spec = spec_join
        and joined = "\<lambda>J. J" and addr = admin_of and blk = "''new''" and w = "[''https://x.org:443'' \<mapsto> ''old'']"]
    by (auto simp: name nodes_laws tls_ready_join admin_addresses_join urls)
qed



text \<open>The outcome of the last step, and of a whole reconciliation that is not retried.\<close>

lemma finalize_stops:
  assumes "client_ok (op_client M)" and "finalizeReconcile M p w = (r, w')" and "\<not> retried r"
  shows "r = Ok no_requeue \<and> (\<exists>q v p'. status_update (op_client M) p' v = (Ok q, w') \<and> crStatus p' = RunningStatus
    \<and> (\<exists>c. GetCondition (crConditions p') RunningStatus = Some c \<and> IsTrue c))"
proof -
  let ?K = "op_client M"
  obtain p1 w1 where r: "io_bind (FabricMainChannel_setConditionStatus ?K p1 RunningStatus True None False)
        (\<lambda>(p'', _). FabricMainChannel_updateCRStatusOrFailReconcile ?K p'') w1 = (r, w')"
    by (rule bind_stops [OF assms(2) [unfolded finalizeReconcile_def] assms(3)])
  obtain p2 b w2 where s: "FabricMainChannel_setConditionStatus ?K p1 RunningStatus True None False w1 = (Ok (p2, b), w2)"
    and p2: "crStatus p2 = RunningStatus" "\<exists>c. GetCondition (crConditions p2) RunningStatus = Some c \<and> Status c = statusStr False True"
    using mainchannel.setc_status [OF assms(1), of p1 RunningStatus True None False w1] by blast
  have u: "FabricMainChannel_updateCRStatusOrFailReconcile ?K p2 w2 = (r, w')" using r by (simp add: io_bind_apply s)
  consider q v where "status_update ?K p2 w2 = (Ok q, v)" "crStatus q = RunningStatus" | e v where "status_update ?K p2 w2 = (Err e, v)"
    using client_ok_update [OF assms(1), of p2 w2] p2(1) by auto
  then show ?thesis
  proof cases
    case 1
    then have "r = Ok no_requeue" "v = w'"
      using u by (auto simp: FabricMainChannel_updateCRStatusOrFailReconcile_def io_try_apply io_return_apply deployment_status_defs)
    then show ?thesis using 1(1) p2 by (auto simp: IsTrue_def statusStr_def)
  next
    case 2
    then show ?thesis using u assms(3) by (auto simp: FabricMainChannel_updateCRStatusOrFailReconcile_def io_try_apply io_throw_apply)
  qed
qed

text \<open>
  C5. A channel is only reported as done when it is done.  If a reconciliation ends in a result that
  the work queue does not retry, then every step of it succeeded: the resource was got, the clients
  and the SDK were set up, the channel was found on the ordering nodes or created and joined, its
  configuration was updated, and the configuration was saved; and the last thing the operator did was
  to write the status ``RUNNING'' with a true condition.
\<close>
theorem Reconcile_main_completes:
  assumes ok: "client_ok (op_client M)" and run: "Reconcile_main M req w = (r, w')" and stop: "\<not> retried r"
  shows "r = Ok no_requeue \<and> (\<exists>p sdk rc b w0 w1 w2 w3 w4 w5 w6.
      handleInitialSetup M req w = (Ok (p, None), w0) \<and> getClientSets M w0 = (Ok (), w1)
    \<and> setupSDK M (Spec p) w1 = (Ok sdk, w2) \<and> setupResClient M sdk (Spec p) w2 = (Ok rc, w3)
    \<and> (case setupResmgmtOptions (Spec p) of (options, endpoints) \<Rightarrow>
         (queryConfigBlockFromOrdererWithRoundRobin M rc (spec_Name (Spec p)) endpoints options w3 = (Ok b, w4)
          \<or> (\<exists>v e. queryConfigBlockFromOrdererWithRoundRobin M rc (spec_Name (Spec p)) endpoints options w3 = (Err e, v)
               \<and> create_and_join M (Spec p) rc endpoints options v = (Ok b, w4)))
       \<and> updateChannelConfig M (Spec p) rc options sdk w4 = (Ok (), w5))
    \<and> saveChannelConfig M p rc (time_Sleep (op_sdk M) (3 * Second) w5) = (Ok (), w6))
    \<and> (\<exists>p' v q. status_update (op_client M) p' v = (Ok q, w') \<and> crStatus p' = RunningStatus
       \<and> (\<exists>c. GetCondition (crConditions p') RunningStatus = Some c \<and> IsTrue c))"
proof -
  have h: "retried (fst (handleReconcileError M p e v))" for p e v
    unfolding handleReconcileError_def by (rule report_failure_retried(1) [OF ok])
  obtain pe w0 where i: "handleInitialSetup M req w = (Ok pe, w0)"
    and k: "(case pe of (p, err) \<Rightarrow> case err of Some e \<Rightarrow> handleReconcileError M p e | None \<Rightarrow> reconcile_channel M p) w0 = (r, w')"
    using bind_stops [OF run [unfolded Reconcile_main_def] stop] .
  obtain p where pe: "pe = (p, None)" using k stop h [of "fst pe" _ w0] by (cases pe; cases "snd pe") (auto, metis fst_conv)
  obtain options endpoints where o': "setupResmgmtOptions (Spec p) = (options, endpoints)" by fastforce
  have hp: "\<And>e v. retried (fst (handleReconcileError M p e v))" by (rule h)
  note steps = k [unfolded pe prod.case option.case reconcile_channel_def Let_def o']
  obtain w1 w2 sdk w3 rc w4 b w5 w6 where "getClientSets M w0 = (Ok (), w1)" "setupSDK M (Spec p) w1 = (Ok sdk, w2)"
    "setupResClient M sdk (Spec p) w2 = (Ok rc, w3)"
    and q: "io_catch (queryConfigBlockFromOrdererWithRoundRobin M rc (spec_Name (Spec p)) endpoints options)
      (\<lambda>_. create_and_join M (Spec p) rc endpoints options) w3 = (Ok b, w4)"
    "updateChannelConfig M (Spec p) rc options sdk w4 = (Ok (), w5)"
    "saveChannelConfig M p rc (time_Sleep (op_sdk M) (3 * Second) w5) = (Ok (), w6)"
    and f: "finalizeReconcile M p w6 = (r, w')"
  proof -
    from steps show thesis
      by (elim attempt_stops [OF hp _ stop] bind_stops [OF _ stop]) (rule that; auto simp: io_sleep_def)
  qed
  moreover have "queryConfigBlockFromOrdererWithRoundRobin M rc (spec_Name (Spec p)) endpoints options w3 = (Ok b, w4)
      \<or> (\<exists>v e. queryConfigBlockFromOrdererWithRoundRobin M rc (spec_Name (Spec p)) endpoints options w3 = (Err e, v)
           \<and> create_and_join M (Spec p) rc endpoints options v = (Ok b, w4))"
    using q(1) by (auto simp: io_catch_apply split: prod.splits res.splits)
  ultimately show ?thesis using finalize_stops [OF ok f stop] i pe o' by auto
qed

text \<open>The steps of the example, and its whole run.\<close>

lemma steps_one:
  "handleInitialSetup (operator_one N channel_one) (''default'', ''demo'') w = (Ok (channel_one, None), w)"
  "getClientSets (operator_one N p) w = (Ok (), w)" "\<exists>sdk. setupSDK (operator_one N p) spec_one w = (Ok sdk, w)"
  "\<exists>rc. setupResClient (operator_one N p) sdk spec_one w = (Ok rc, w)"
  "saveChannelConfig (operator_one N channel_one) channel_one rc w = (Ok (), w)"
proof -
  show "handleInitialSetup (operator_one N channel_one) (''default'', ''demo'') w = (Ok (channel_one, None), w)"
    by (simp add: handleInitialSetup_def client_one_def channel_one_def io_simps)
  show "getClientSets (operator_one N p) w = (Ok (), w)" by (simp add: getClientSets_def plain_lib_def io_simps)
  show "\<exists>sdk. setupSDK (operator_one N p) spec_one w = (Ok sdk, w)"
    by (simp add: setupSDK_def GenerateNetworkConfig_def render_def main_network_def orderer_org_network_def hlf_one_def
        spec_one_def sdk_one_def io_simps Let_def)
  show "\<exists>rc. setupResClient (operator_one N p) sdk spec_one w = (Ok rc, w)"
    by (simp add: setupResClient_def admin_client_def sign_identity_def channel_identity_def secret_identity_def
        createSigningIdentity_def spec_one_def sdk_one_def io_simps)
  have "Spec channel_one = spec_one" by (simp add: channel_one_def)
  then show "saveChannelConfig (operator_one N channel_one) channel_one rc w = (Ok (), w)"
    by (simp add: saveChannelConfig_def Let_def io_bind_apply io_wrap_apply io_lift_apply fetch_one
        createOrUpdateConfigMap_def plain_lib_def sdk_one_def io_simps)
qed

lemma update_one:
  fixes w :: 'w
  shows "updateChannelConfig (operator_one N channel_one) spec_one rc opts sdk w = (Ok (), w)"
proof -
  let ?M = "operator_one N channel_one :: ('w, Channel, Channel, Channel) operator"
  obtain ch where ch: "mapToConfigTX plain_lib spec_one w = (Ok ch, w)" using map_spec_one [of w] by blast
  obtain oc where oc: "ord_Configuration mem channel_live = (Ok oc, channel_live)" using read_one by blast
  have one: "transaction sdk_one = mem" "\<And>c. configtx_New sdk_one c = c" "\<And>b. ExtractConfigFromBlock sdk_one b = Ok b"
    "\<And>a b c. CalculateConfigUpdate sdk_one a b c = Ok \<lparr>ChannelId = a, ConfigChange = ''delta''\<rparr>" by (simp_all add: sdk_one_def)
  obtain x where x: "edit_config mem (ConsensusState oc) ch channel_live = (Ok (), x)"
    using edit_config_does [OF edit_one(1) [OF ch] raft_update_ok_one [OF ch] edit_one(2) [OF ch], of "ConsensusState oc"] edit_one(3) [OF ch]
    by auto
  show ?thesis
    using updateChannelConfig_run [of ?M rc spec_one w channel_live w channel_live oc ch w opts sdk]
    by (simp add: one fetch_one oc ch io_bind_apply edit_Ok [where m = "edit_config mem (ConsensusState oc) ch", OF x] submit_one)
qed

lemma finalize_one: "finalizeReconcile (operator_one N p) p w = (Ok no_requeue, w)"
proof -
  have s: "crStatus (mark_running now msg q) = RunningStatus" for now msg and q :: FabricMainChannel by simp
  have c: "status_update (client_one q) x v = (Ok x, v)" for q x and v :: 'a by (simp add: client_one_def io_return_apply)
  have ne: "RunningStatus \<noteq> FailedStatus" by (simp add: deployment_status_defs)
  show ?thesis
    by (simp add: finalizeReconcile_def io_bind_apply c FabricMainChannel_setConditionStatus_def setConditionStatus_def
        set_status_same [OF s] put_condition_def FabricMainChannel_updateCRStatusOrFailReconcile_def io_try_apply
        ne io_return_apply)
qed

lemma run_one:
  fixes w :: 'w
  shows "Reconcile_main (operator_one N channel_one) (''default'', ''demo'') w = (Ok no_requeue, w)"
proof -
  let ?M = "operator_one N channel_one :: ('w, Channel, Channel, Channel) operator"
  have spec: "Spec channel_one = spec_one" by (simp add: channel_one_def)
  obtain sdk rc where k: "setupSDK ?M spec_one w = (Ok sdk, w)" "setupResClient ?M sdk spec_one w = (Ok rc, w)"
    using steps_one(3) [of N channel_one w] steps_one(4) [of N channel_one _ w] by blast
  have sleep: "io_sleep sdk_one d v = (Ok (), v)" for d and v :: 'w by (simp add: io_sleep_def sdk_one_def)
  have "reconcile_channel ?M channel_one w = (Ok no_requeue, w)"
    unfolding reconcile_channel_def Let_def spec spec_one_names prod.case
    by (simp add: steps_one(2,5) k update_one attempt_def io_try_apply io_catch_apply query_one io_bind_apply sleep finalize_one)
  then show ?thesis by (simp add: Reconcile_main_def io_bind_apply steps_one(1))
qed

theorem Reconcile_main_completes_witness:
  "\<exists>p' v q. status_update (client_one channel_one) p' v = (Ok q, [''https://ord0:443'' \<mapsto> ''block'']) \<and> crStatus p' = RunningStatus"
  using Reconcile_main_completes [where M = "operator_one (nodes ''demo'') channel_one" and req = "(''default'', ''demo'')"
      and w = "[''https://ord0:443'' \<mapsto> ''block'']" and w' = "[''https://ord0:443'' \<mapsto> ''block'']" and r = "Ok no_requeue"]
  by (auto simp: run_one client_one_ok no_requeue_def)

text \<open>
  C39. A resource that is gone or being deleted is reconciled all the same.  When the resource is not
  found, the steps run on an empty one, and once the SDK is set up the reconciler panics, because the
  list of administrators it takes the first of is empty.  A resource that is being deleted goes
  through all the steps, joining ordering nodes and updating the channel included, after its
  finalizer has been removed, or when it has none.
\<close>
theorem Reconcile_main_ignores_absence:
  "(client_get (op_client M) req w = (Err e, w1) \<and> isNotFound e \<longrightarrow>
      Reconcile_main M req w = reconcile_channel M empty_channel w1
    \<and> (getClientSets M w1 = (Ok (), w2) \<and> setupSDK M empty_spec w2 = (Ok sdk, w3) \<longrightarrow>
        fst (Reconcile_main M req w) = Panic ''index out of range [0] with length 0''))
   \<and> (client_get (op_client M) req w = (Ok p, w1) \<and> DeletionTimestamp p \<noteq> None \<longrightarrow>
      (if mainChannelFinalizer \<in> set (Finalizers p)
       then removeFinalizer (op_client M) mainChannelFinalizer p w1 = (Ok p', w2) \<longrightarrow>
         Reconcile_main M req w = reconcile_channel M p' w2
       else Reconcile_main M req w = reconcile_channel M p w1))"
proof -
  have "reconcile_channel M empty_channel w1 = (Panic ''index out of range [0] with length 0'', w3)"
    if "getClientSets M w1 = (Ok (), w2)" "setupSDK M empty_spec w2 = (Ok sdk, w3)"
  proof -
    have spec: "Spec empty_channel = empty_spec" by (simp add: empty_channel_def)
    have "setupResClient M sdk empty_spec w3 = (Panic ''index out of range [0] with length 0'', w3)"
      by (simp add: setupResClient_def empty_spec_def io_panic_apply)
    then show ?thesis
      by (simp add: reconcile_channel_def Let_def spec 
        attempt_Ok [where m = "getClientSets M", OF that(1)] attempt_Ok [where m = "setupSDK M empty_spec", OF that(2)] attempt_Panic)
  qed
  then show ?thesis
    by (auto simp: Reconcile_main_def handleInitialSetup_def handleDeletion_def and_error_def io_bind_apply io_try_apply
        io_return_apply)
qed

theorem Reconcile_main_ignores_absence_witness:
  "fst (Reconcile_main (operator_one (nodes ''demo'') channel_one) (''default'', ''other'') Map.empty)
     = Panic ''index out of range [0] with length 0''"
proof -
  let ?M = "operator_one (nodes ''demo'') channel_one" and ?w = "Map.empty :: string \<rightharpoonup> string"
  have get: "client_get (op_client ?M) (''default'', ''other'') ?w = (Err (NotFound ''other''), ?w)"
    by (simp add: client_one_def channel_one_def io_simps)
  have sdk: "setupSDK ?M empty_spec ?w = (Ok (SDK ''organizations: ...''), ?w)"
    by (simp add: setupSDK_def GenerateNetworkConfig_def render_def main_network_def hlf_one_def empty_spec_def sdk_one_def
        io_simps Let_def)
  have e: "isNotFound (NotFound ''other'')" by simp
  show ?thesis
    using Reconcile_main_ignores_absence [of ?M "(''default'', ''other'')" ?w "NotFound ''other''" ?w ?w "SDK ''organizations: ...''" ?w
        channel_one channel_one, THEN conjunct1, THEN mp, OF conjI [OF get e], THEN conjunct2, THEN mp, OF conjI [OF steps_one(2) sdk]] .
qed

end
