(* ===== verification/Follower_Channel.thy ===== *)
theory Follower_Channel imports Fabric_SDK begin

text \<open>
  \<open>FabricFollowerChannelReconciler\<close>: the peers of one organization join a channel, its anchor peers and
  its revocation list are set, and the configuration is saved.  \<open>Reconcile\<close> is one function in the code;
  each definition below is a stretch of it, in its order.
\<close>

text \<open>The methods of \<open>configtx\<close> this controller uses beside those of the main channel's.\<close>

record 'x organization_tx =
  org_AnchorPeers :: "string \<Rightarrow> ('x, Address list) io"
  org_RemoveAnchorPeer :: "string \<Rightarrow> Address \<Rightarrow> ('x, unit) io"
  org_AddAnchorPeer :: "string \<Rightarrow> Address \<Rightarrow> ('x, unit) io"
  apporg_Configuration :: "string \<Rightarrow> ('x, ChannelOrganization) io"
  ComputeMarshaledUpdate :: "string \<Rightarrow> 'x \<Rightarrow> string res"

record ('w, 'b, 'c, 'x) follower_operator =
  fo_client :: "('w, FabricFollowerChannel) client"
  fo_lib :: "'w channel_lib"
  fo_hlf :: "'w hlf_client"
  fo_sdk :: "('w, 'b, 'c, 'x) fabric_sdk"
  fo_tx :: "'x organization_tx"

section \<open>Joining the peers\<close>

definition follower_setup ::
  "('w, 'b, 'c, 'x) follower_operator \<Rightarrow> FabricFollowerChannelSpec \<Rightarrow> ('w, res_client) io" where
  "follower_setup M spec =
     (let S = fo_sdk M; mspID = fol_MSPID spec; idConfig = fol_HLFIdentity spec in
     io_bind (kube_client (fo_lib M)) (\<lambda>_.
     io_bind (operator_client (fo_lib M)) (\<lambda>_.
     io_bind (io_wrap ''failed to generate network config''
       (GenerateNetworkConfigForFollower (fo_hlf M) spec mspID)) (\<lambda>networkConfig.
     io_bind (fabsdk_New S networkConfig) (\<lambda>sdk.
     io_bind (secret_identity S (id_SecretNamespace idConfig) (id_SecretName idConfig) (id_SecretKey idConfig)) (\<lambda>id'.
     io_bind (createSigningIdentity S sdk mspID id') (\<lambda>signingIdentity.
       resmgmt_New S sdk signingIdentity mspID)))))))"

definition join_peer ::
  "('w, 'b, 'c, 'x) fabric_sdk \<Rightarrow> res_client \<Rightarrow> string \<Rightarrow> string \<Rightarrow> ('w, unit) io" where
  "join_peer S resClient channel target =
     io_catch (JoinChannel S resClient channel [WithTargetEndpoints target])
       (\<lambda>err. if str_contains (error_text err) ''already exists'' then io_return () else io_throw err)"

definition join_peers ::
  "('w, 'b, 'c, 'x) fabric_sdk \<Rightarrow> res_client \<Rightarrow> FabricFollowerChannelSpec \<Rightarrow> ('w, unit) io" where
  "join_peers S resClient spec =
     io_bind (io_for (\<lambda>peer. join_peer S resClient (fol_Name spec) (full_name (pref_Name peer) (pref_Namespace peer)))
       (PeersToJoin spec)) (\<lambda>_.
     io_for (\<lambda>peer. join_peer S resClient (fol_Name spec) (pref_URL peer)) (ExternalPeersToJoin spec))"

section \<open>Editing the organization\<close>

text \<open>
  Removing the anchor peers one by one.  When one cannot be removed, the code asks for the anchor
  peers again into a new variable \<open>err\<close>, and that is the one it reports: the loop ends in
  \<open>Some err\<close>, where \<open>err\<close> is what that second call gave.
\<close>

fun remove_anchor_peers ::
  "'x organization_tx \<Rightarrow> string \<Rightarrow> Address list \<Rightarrow> ('x, go_error option option) io" where
  "remove_anchor_peers T mspID [] = io_return None"
| "remove_anchor_peers T mspID (anchorPeer # rest) =
     io_try (org_RemoveAnchorPeer T mspID anchorPeer)
       (\<lambda>_. remove_anchor_peers T mspID rest)
       (\<lambda>_. io_try (org_AnchorPeers T mspID) (\<lambda>_. io_return (Some None)) (\<lambda>err. io_return (Some (Some err))))"

definition add_anchor_peers ::
  "'x organization_tx \<Rightarrow> string \<Rightarrow> FabricFollowerChannelAnchorPeer list \<Rightarrow> ('x, unit) io" where
  "add_anchor_peers T mspID = io_for (\<lambda>a. org_AddAnchorPeer T mspID \<lparr>Host = anchor_Host a, Port = anchor_Port a\<rparr>)"

definition set_revocation_list ::
  "('w, 'b, 'c, 'x) follower_operator \<Rightarrow> FabricFollowerChannelSpec \<Rightarrow> ('x, unit) io" where
  "set_revocation_list M spec =
     io_bind (io_lift (res_map (parse_crl (fo_lib M)) (fol_RevocationList spec))) (\<lambda>revocationList.
     io_bind (apporg_Configuration (fo_tx M) (fol_MSPID spec)) (\<lambda>org.
       app_SetOrganization (transaction (fo_sdk M))
         (org\<lparr>org_MSP := (org_MSP org)\<lparr>RevocationList := revocationList\<rparr>\<rparr>)))"

definition maintenance_error :: go_error where
  "maintenance_error = ErrorString ''the orderer is in maintenance mode''"

definition edit_organization ::
  "('w, 'b, 'c, 'x) follower_operator \<Rightarrow> FabricFollowerChannelSpec \<Rightarrow> ('x, go_error option option) io" where
  "edit_organization M spec =
     (let T = fo_tx M; mspID = fol_MSPID spec in
     io_bind (ord_Configuration (transaction (fo_sdk M))) (\<lambda>ordererConfig.
     if ConsensusState ordererConfig = ConsensusStateMaintenance then io_throw maintenance_error
     else io_bind (org_AnchorPeers T mspID) (\<lambda>anchorPeers.
     io_bind (remove_anchor_peers T mspID anchorPeers) (\<lambda>failure. case failure of
         Some err \<Rightarrow> io_return (Some err)
       | None \<Rightarrow>
           io_bind (add_anchor_peers T mspID (fol_AnchorPeers spec)) (\<lambda>_.
           io_bind (set_revocation_list M spec) (\<lambda>_. io_return None))))))"

text \<open>Getting the configuration and editing it.\<close>

definition edited_config ::
  "('w, 'b, 'c, 'x) follower_operator \<Rightarrow> FabricFollowerChannelSpec \<Rightarrow> res_client
   \<Rightarrow> ('w, go_error option option \<times> 'x) io" where
  "edited_config M spec resClient =
     (let S = fo_sdk M in
     io_bind (io_wrap (''failed to get block from channel '' @ fol_Name spec)
       (QueryConfigBlockFromOrderer S resClient (fol_Name spec) [])) (\<lambda>block.
     io_bind (io_lift (ExtractConfigFromBlock S block)) (\<lambda>cfgBlock.
     io_bind (io_wrap ''error converting block to JSON'' (io_lift (config_JSON S cfgBlock))) (\<lambda>_.
       edit (configtx_New S cfgBlock) (edit_organization M spec)))))"

section \<open>Sending and saving it\<close>

definition submit_organization ::
  "('w, 'b, 'c, 'x) follower_operator \<Rightarrow> FabricFollowerChannelSpec \<Rightarrow> res_client \<Rightarrow> 'x \<Rightarrow> ('w, unit) io" where
  "submit_organization M spec resClient cftxGen =
     (let S = fo_sdk M in
     io_bind (io_lift (config_JSON S (UpdatedConfig S cftxGen))) (\<lambda>_.
     case ComputeMarshaledUpdate (fo_tx M) (fol_Name spec) cftxGen of
       Err err \<Rightarrow> (if \<not> str_contains (error_text err) no_differences
         then io_throw (Wrapped ''error calculating config update'' err) else io_return ())
     | Ok configUpdateBytes \<Rightarrow>
         io_bind (io_lift (update_Unmarshal S configUpdateBytes)) (\<lambda>configUpdate.
         io_bind (io_lift (CreateConfigUpdateEnvelope S (fol_Name spec) configUpdate)) (\<lambda>channelConfigBytes.
         io_bind (SaveChannel S resClient (fol_Name spec) channelConfigBytes []) (\<lambda>_. io_return ())))
     | Panic p \<Rightarrow> io_panic p))"

definition follower_config_map ::
  "('w, 'b, 'c, 'x) fabric_sdk \<Rightarrow> string \<Rightarrow> string \<Rightarrow> string \<Rightarrow> ('w, unit) io" where
  "follower_config_map S name namespace data =
     io_try (configMaps_Get S namespace name)
       (\<lambda>configMap. case cm_Data configMap of
            None \<Rightarrow> io_panic ''assignment to entry in nil map''
          | Some old \<Rightarrow> io_bind (io_wrap ''error updating config map'' (configMaps_Update S namespace
              (configMap\<lparr>cm_Data := Some (old(''channel.json'' \<mapsto> data))\<rparr>))) (\<lambda>_. io_return ()))
       (\<lambda>err. if isNotFound err
          then io_bind (io_wrap ''error creating config map'' (configMaps_Create S namespace
              \<lparr>cm_Name = name, cm_Namespace = namespace, cm_Data = Some [''channel.json'' \<mapsto> data]\<rparr>)) (\<lambda>_. io_return ())
          else io_throw (Wrapped ''error getting configmap'' err))"

definition save_organization ::
  "('w, 'b, 'c, 'x) follower_operator \<Rightarrow> FabricFollowerChannel \<Rightarrow> res_client \<Rightarrow> ('w, unit) io" where
  "save_organization M p resClient =
     (let S = fo_sdk M in
     io_bind (io_wrap ''error fetching block from orderer''
       (QueryConfigBlockFromOrderer S resClient (fol_Name (fol_Spec p)) [])) (\<lambda>ordererChannelBlock.
     io_bind (io_wrap ''error extracting the config from block''
       (io_lift (ExtractConfigFromBlock S ordererChannelBlock))) (\<lambda>cmnConfig.
     io_bind (io_wrap ''error converting block to JSON'' (io_lift (config_JSON S cmnConfig))) (\<lambda>buf.
       follower_config_map S (crName p @ ''-follower-config'') ''default'' buf))))"

section \<open>Reconcile\<close>

text \<open>The error branch, whose error may be nil.\<close>

definition follower_report ::
  "('w, 'b, 'c, 'x) follower_operator \<Rightarrow> FabricFollowerChannel \<Rightarrow> go_error option \<Rightarrow> ('w, Result) io" where
  "follower_report M p err =
     io_bind (FabricFollowerChannel_setConditionStatus (fo_client M) p FailedStatus False err False)
       (\<lambda>(p', _). FabricFollowerChannel_updateCRStatusOrFailReconcile (fo_client M) p')"

definition follower_done :: "('w, 'b, 'c, 'x) follower_operator \<Rightarrow> FabricFollowerChannel \<Rightarrow> ('w, Result) io" where
  "follower_done M p = (\<lambda>w.
     (let q = mark_running (clock_now (fo_client M) w) ''Peers and anchor peers completed'' p in
      io_try (status_update (fo_client M) q)
        (FabricFollowerChannel_updateCRStatusOrFailReconcile (fo_client M)) (\<lambda>err. follower_report M q (Some err))) w)"

definition reconcile_follower ::
  "('w, 'b, 'c, 'x) follower_operator \<Rightarrow> FabricFollowerChannel \<Rightarrow> ('w, Result) io" where
  "reconcile_follower M p =
     (let spec = fol_Spec p; fail = follower_report M p \<circ> Some in
      attempt fail (follower_setup M spec) (\<lambda>resClient.
      attempt fail (join_peers (fo_sdk M) resClient spec) (\<lambda>_.
      attempt fail (edited_config M spec resClient) (\<lambda>(failure, cftxGen). case failure of
          Some err \<Rightarrow> follower_report M p err
        | None \<Rightarrow>
            attempt fail (submit_organization M spec resClient cftxGen) (\<lambda>_.
            attempt fail (save_organization M p resClient) (\<lambda>_. follower_done M p))))))"

definition Reconcile_follower ::
  "('w, 'b, 'c, 'x) follower_operator \<Rightarrow> string \<times> string \<Rightarrow> ('w, Result) io" where
  "Reconcile_follower M req =
     with_resource (fo_client M) followerChannelFinalizer (FabricFollowerChannel_addFinalizer (fo_client M)) req
       (reconcile_follower M)"

end
