(* ===== verification/Follower_Channel_Correct.thy ===== *)
theory Follower_Channel_Correct imports Follower_Channel Views Operator_Memory begin

text \<open>
  What the follower channel controller does to the organization, and when it reports success.
\<close>

section \<open>The organization, as its transaction shows it\<close>

text \<open>
  The documented effects of the methods on the organization \<open>msp\<close>: reading its anchor peers and its
  configuration, removing and adding one anchor peer, replacing the organization.  The channel is not in
  maintenance when its orderer section does not say so.
\<close>

definition add_anchor :: "Address \<Rightarrow> Address list \<Rightarrow> Address list" where
  "add_anchor a as = (if a \<in> set as then as else as @ [a])"

definition organization_laws ::
  "'x organization_tx \<Rightarrow> 'x configtx \<Rightarrow> string \<Rightarrow> ('x \<Rightarrow> ChannelOrganization) \<Rightarrow> bool" where
  "organization_laws T C msp view \<longleftrightarrow>
     (\<forall>v. reads view (org_AnchorPeers T msp) v (\<lambda>as. as = AnchorPeers v))
   \<and> (\<forall>a v. does view (org_RemoveAnchorPeer T msp a) v (v\<lparr>AnchorPeers := removeAll a (AnchorPeers v)\<rparr>))
   \<and> (\<forall>a v. does view (org_AddAnchorPeer T msp a) v (v\<lparr>AnchorPeers := add_anchor a (AnchorPeers v)\<rparr>))
   \<and> (\<forall>v. reads view (apporg_Configuration T msp) v (\<lambda>o'. o' = v))
   \<and> (\<forall>o' v. org_Name o' = org_Name v \<longrightarrow> does view (app_SetOrganization C o') v o')"

lemma organization_lawsD:
  assumes "organization_laws T C msp view"
  shows "reads view (org_AnchorPeers T msp) v (\<lambda>as. as = AnchorPeers v)"
    and "does view (org_RemoveAnchorPeer T msp a) v (v\<lparr>AnchorPeers := removeAll a (AnchorPeers v)\<rparr>)"
    and "does view (org_AddAnchorPeer T msp a) v (v\<lparr>AnchorPeers := add_anchor a (AnchorPeers v)\<rparr>)"
    and "reads view (apporg_Configuration T msp) v (\<lambda>o'. o' = v)"
    and "org_Name o' = org_Name v \<Longrightarrow> does view (app_SetOrganization C o') v o'"
  using assms unfolding organization_laws_def by blast+

lemma filter_removeAll: "filter (\<lambda>b. b \<notin> set as) (removeAll a l) = filter (\<lambda>b. b \<notin> set (a # as)) l"
  by (induction l) auto

lemma remove_anchor_peers_does:
  assumes "organization_laws T C msp view"
  shows "\<exists>x'. remove_anchor_peers T msp as x = (Ok None, x')
    \<and> view x' = (view x)\<lparr>AnchorPeers := filter (\<lambda>a. a \<notin> set as) (AnchorPeers (view x))\<rparr>"
proof (induction as arbitrary: x)
  case Nil
  then show ?case by (simp add: io_return_apply)
next
  case (Cons a as)
  obtain x1 where x1: "org_RemoveAnchorPeer T msp a x = (Ok (), x1)"
    and v1: "view x1 = (view x)\<lparr>AnchorPeers := removeAll a (AnchorPeers (view x))\<rparr>"
    using organization_lawsD(2) [OF assms, of a "view x"] by (auto simp: does_def)
  obtain x2 where x2: "remove_anchor_peers T msp as x1 = (Ok None, x2)"
    and "view x2 = (view x1)\<lparr>AnchorPeers := filter (\<lambda>a. a \<notin> set as) (AnchorPeers (view x1))\<rparr>"
    using Cons.IH [of x1] by blast
  then have "view x2 = (view x)\<lparr>AnchorPeers := filter (\<lambda>b. b \<notin> set (a # as)) (AnchorPeers (view x))\<rparr>"
    unfolding filter_removeAll [symmetric] by (simp add: v1)
  then show ?case by (simp add: io_try_apply x1 x2)
qed

lemma add_anchor_peers_does:
  assumes "organization_laws T C msp view"
  shows "does view (add_anchor_peers T msp as) v
    (v\<lparr>AnchorPeers := fold (\<lambda>a. add_anchor \<lparr>Host = anchor_Host a, Port = anchor_Port a\<rparr>) as (AnchorPeers v)\<rparr>)"
proof -
  have "fold (\<lambda>a v. v\<lparr>AnchorPeers := add_anchor \<lparr>Host = anchor_Host a, Port = anchor_Port a\<rparr> (AnchorPeers v)\<rparr>) as v
      = v\<lparr>AnchorPeers := fold (\<lambda>a. add_anchor \<lparr>Host = anchor_Host a, Port = anchor_Port a\<rparr>) as (AnchorPeers v)\<rparr>"
    for v :: ChannelOrganization
    by (induction as arbitrary: v) simp_all
  then show ?thesis
    using does_for [of as view "\<lambda>a. org_AddAnchorPeer T msp \<lparr>Host = anchor_Host a, Port = anchor_Port a\<rparr>"
        "\<lambda>a v. v\<lparr>AnchorPeers := add_anchor \<lparr>Host = anchor_Host a, Port = anchor_Port a\<rparr> (AnchorPeers v)\<rparr>" v]
      organization_lawsD(3) [OF assms]
    by (simp add: add_anchor_peers_def)
qed

lemma set_revocation_list_does:
  assumes "organization_laws (fo_tx M) (transaction (fo_sdk M)) (fol_MSPID spec) view"
    and "res_map (parse_crl (fo_lib M)) (fol_RevocationList spec) = Ok crls"
  shows "does view (set_revocation_list M spec) v (v\<lparr>org_MSP := (org_MSP v)\<lparr>RevocationList := crls\<rparr>\<rparr>)"
  unfolding set_revocation_list_def
proof (intro does_lift [OF assms(2)] does_read [OF organization_lawsD(4) [OF assms(1)]])
  fix org
  assume "org = v"
  then show "does view (app_SetOrganization (transaction (fo_sdk M)) (org\<lparr>org_MSP := (org_MSP org)\<lparr>RevocationList := crls\<rparr>\<rparr>)) v
      (v\<lparr>org_MSP := (org_MSP v)\<lparr>RevocationList := crls\<rparr>\<rparr>)"
    using organization_lawsD(5) [OF assms(1), of "v\<lparr>org_MSP := (org_MSP v)\<lparr>RevocationList := crls\<rparr>\<rparr>" v] by simp
qed

text \<open>The anchor peers of the resource, each once, in its order.\<close>

definition anchors :: "FabricFollowerChannelSpec \<Rightarrow> Address list" where
  "anchors spec = fold (\<lambda>a. add_anchor \<lparr>Host = anchor_Host a, Port = anchor_Port a\<rparr>) (fol_AnchorPeers spec) []"

lemma anchors_set:
  "set (anchors spec) = (\<lambda>a. \<lparr>Host = anchor_Host a, Port = anchor_Port a\<rparr>) ` set (fol_AnchorPeers spec)
   \<and> distinct (anchors spec)"
proof -
  have "set (fold (\<lambda>a. add_anchor \<lparr>Host = anchor_Host a, Port = anchor_Port a\<rparr>) as l)
      = set l \<union> (\<lambda>a. \<lparr>Host = anchor_Host a, Port = anchor_Port a\<rparr>) ` set as
    \<and> (distinct l \<longrightarrow> distinct (fold (\<lambda>a. add_anchor \<lparr>Host = anchor_Host a, Port = anchor_Port a\<rparr>) as l))" for as l
    by (induction as arbitrary: l) (auto simp: add_anchor_def)
  from this [of "fol_AnchorPeers spec" "[]"] show ?thesis by (simp add: anchors_def)
qed

lemma edit_organization_does:
  assumes laws: "organization_laws (fo_tx M) (transaction (fo_sdk M)) (fol_MSPID spec) view"
    and crls: "res_map (parse_crl (fo_lib M)) (fol_RevocationList spec) = Ok crls"
    and read: "ord_Configuration (transaction (fo_sdk M)) x = (Ok oc, x)"
    and "ConsensusState oc \<noteq> ConsensusStateMaintenance"
  shows "\<exists>x'. edit_organization M spec x = (Ok None, x')
      \<and> view x' = (view x)\<lparr>AnchorPeers := anchors spec, org_MSP := (org_MSP (view x))\<lparr>RevocationList := crls\<rparr>\<rparr>"
proof -
  obtain old where old: "org_AnchorPeers (fo_tx M) (fol_MSPID spec) x = (Ok old, x)" "old = AnchorPeers (view x)"
    using organization_lawsD(1) [OF laws, of "view x"] by (auto simp: reads_def)
  obtain x1 where x1: "remove_anchor_peers (fo_tx M) (fol_MSPID spec) old x = (Ok None, x1)" "view x1 = (view x)\<lparr>AnchorPeers := []\<rparr>"
    using remove_anchor_peers_does [OF laws, of old x] old(2) by auto
  obtain x2 where x2: "add_anchor_peers (fo_tx M) (fol_MSPID spec) (fol_AnchorPeers spec) x1 = (Ok (), x2)"
    and v2: "view x2 = (view x)\<lparr>AnchorPeers := anchors spec\<rparr>"
    using add_anchor_peers_does [OF laws, of "fol_AnchorPeers spec" "view x1"] x1(2) by (auto simp: does_def anchors_def)
  obtain x3 where x3: "set_revocation_list M spec x2 = (Ok (), x3)"
    and "view x3 = (view x)\<lparr>AnchorPeers := anchors spec, org_MSP := (org_MSP (view x))\<lparr>RevocationList := crls\<rparr>\<rparr>"
    using set_revocation_list_does [OF laws crls, of "view x2", unfolded does_def, rule_format, OF refl] v2 by auto
  then show ?thesis
    using assms(4) by (simp add: edit_organization_def Let_def io_bind_apply read old(1) x1(1) x2 io_return_apply)
qed

text \<open>Every report of the follower controller is retried, and its last step ends in a written status.\<close>

lemma follower_report_retried: "client_ok (fo_client M) \<Longrightarrow> retried (fst (follower_report M q e v))"
  using follower.setc_status [of "fo_client M" q FailedStatus False e False v] follower.upd_failed [of "fo_client M"]
  by (fastforce simp: follower_report_def io_bind_apply)

lemma follower_done_stops:
  assumes ok: "client_ok (fo_client M)" and d: "follower_done M p w = (r, w')" and stop: "\<not> retried r"
  shows "\<exists>p' v q. status_update (fo_client M) p' v = (Ok q, w') \<and> crStatus p' = RunningStatus"
proof -
  let ?K = "fo_client M" and ?q = "mark_running (clock_now (fo_client M) w) ''Peers and anchor peers completed'' p"
  have h: "retried (fst (follower_report M ?q (Some e) v))" for e v by (rule follower_report_retried [OF ok])
  obtain p' v where u: "status_update ?K ?q w = (Ok p', v)" "FabricFollowerChannel_updateCRStatusOrFailReconcile ?K p' v = (r, w')"
    using d stop by (auto simp: follower_done_def Let_def attempt_def [symmetric] elim!: attempt_stops [OF h])
  have s: "crStatus p' = RunningStatus" using client_ok_update [OF ok, of ?q w] u(1) by auto
  then show ?thesis using u(2) stop
    by (cases "status_update ?K p' v")
      (auto simp: FabricFollowerChannel_updateCRStatusOrFailReconcile_def io_try_apply io_throw_apply io_return_apply
        split: res.splits if_splits)
qed

section \<open>Properties\<close>

text \<open>
  C25. What the follower controller makes of the organization.  Outside maintenance the edit succeeds
  and the organization has exactly the anchor peers of the resource, each once, and exactly its
  revocation lists; everything else of the organization stays.  In maintenance it is refused and
  nothing is edited.
\<close>
theorem edit_organization_correct:
  assumes laws: "organization_laws (fo_tx M) (transaction (fo_sdk M)) (fol_MSPID spec) view"
    and crls: "res_map (parse_crl (fo_lib M)) (fol_RevocationList spec) = Ok crls"
    and read: "ord_Configuration (transaction (fo_sdk M)) x = (Ok oc, x)"
  shows "if ConsensusState oc = ConsensusStateMaintenance then edit_organization M spec x = (Err maintenance_error, x)
    else \<exists>x' as. edit_organization M spec x = (Ok None, x')
      \<and> view x' = (view x)\<lparr>AnchorPeers := as, org_MSP := (org_MSP (view x))\<lparr>RevocationList := crls\<rparr>\<rparr>
      \<and> set as = (\<lambda>a. \<lparr>Host = anchor_Host a, Port = anchor_Port a\<rparr>) ` set (fol_AnchorPeers spec) \<and> distinct as"
proof (cases "ConsensusState oc = ConsensusStateMaintenance")
  case False
  then show ?thesis using edit_organization_does [OF laws crls read] anchors_set [of spec] by auto
qed (simp add: edit_organization_def Let_def io_bind_apply read io_throw_apply)

text \<open>An organization that is the first of the application section in memory.\<close>

definition first_org :: "Channel \<Rightarrow> ChannelOrganization" where
  "first_org ch = hd (app_Organizations (channel_Application ch))"

definition in_first :: "(ChannelOrganization \<Rightarrow> ChannelOrganization) \<Rightarrow> (Channel, unit) io" where
  "in_first f = in_app (app_Organizations_update (\<lambda>os. f (hd os) # tl os))"

definition organization_mem :: "Channel organization_tx" where
  "organization_mem = \<lparr>org_AnchorPeers = (\<lambda>_ ch. (Ok (AnchorPeers (first_org ch)), ch)),
     org_RemoveAnchorPeer = (\<lambda>_ a. in_first (AnchorPeers_update (removeAll a))),
     org_AddAnchorPeer = (\<lambda>_ a. in_first (AnchorPeers_update (add_anchor a))),
     apporg_Configuration = (\<lambda>_ ch. (Ok (first_org ch), ch)), ComputeMarshaledUpdate = (\<lambda>_ _. Ok ''delta'')\<rparr>"

lemma organization_mem_laws: "organization_laws organization_mem mem msp first_org"
  by (simp add: organization_laws_def reads_def does_def organization_mem_def mem_def in_first_def in_app_def first_org_def put_org_def)

definition follower_channel :: FabricFollowerChannel where
  "follower_channel = \<lparr>crName = ''follow'', crNamespace = [], Finalizers = [followerChannelFinalizer], DeletionTimestamp = None,
     crConditions = [], crMessage = [], crStatus = [],
     fol_Spec = follower_one\<lparr>fol_HLFIdentity := (fol_HLFIdentity follower_one)\<lparr>id_SecretKey := ''id.yaml''\<rparr>\<rparr>\<rparr>"

definition follower_op :: "(unit, Channel, Channel, Channel) follower_operator" where
  "follower_op = \<lparr>fo_client = client_one follower_channel, fo_lib = plain_lib, fo_hlf = hlf_one, fo_sdk = sdk_one,
     fo_tx = organization_mem\<rparr>"

definition old_anchor :: Channel where
  "old_anchor = channel_live\<lparr>channel_Application := (channel_Application channel_live)\<lparr>app_Organizations :=
     [(mapPeerOrg ''Org1MSP'' None None)\<lparr>AnchorPeers := [\<lparr>Host = ''old'', Port = 443\<rparr>]\<rparr>]\<rparr>\<rparr>"

theorem edit_organization_correct_witness:
  "\<exists>x'. edit_organization follower_op (fol_Spec follower_channel) old_anchor = (Ok None, x')
     \<and> AnchorPeers (first_org x') = [\<lparr>Host = ''peer0'', Port = 443\<rparr>]"
proof -
  let ?spec = "fol_Spec follower_channel"
  have op: "fo_tx follower_op = organization_mem" "fo_sdk follower_op = sdk_one" "fo_lib follower_op = plain_lib" "transaction sdk_one = mem"
    by (simp_all add: follower_op_def sdk_one_def)
  obtain oc where oc: "ord_Configuration mem old_anchor = (Ok oc, old_anchor)" "ConsensusState oc = ConsensusStateNormal"
    by (simp add: mem_def old_anchor_def channel_live_def)
  have crls: "res_map (parse_crl plain_lib) (fol_RevocationList ?spec) = Ok []"
    and as: "fol_AnchorPeers ?spec = [\<lparr>anchor_Host = ''peer0'', anchor_Port = 443\<rparr>]"
    by (simp_all add: follower_channel_def follower_one_def)
  have n: "ConsensusStateNormal \<noteq> ConsensusStateMaintenance" by (simp add: ConsensusStateMaintenance_def ConsensusStateNormal_def)
  have one: "as = [a]" if "set as = {a}" "distinct as" for as and a :: Address
    using that by (cases as; cases "tl as") auto
  show ?thesis
    using edit_organization_correct [where M = follower_op and spec = ?spec and view = first_org and x = old_anchor and oc = oc and crls = "[]"]
    by (auto simp: op organization_mem_laws oc crls as n dest: one)
qed

text \<open>
  C28. When the follower controller is done.  If a live resource that has its finalizer is reconciled
  to a result the work queue does not retry, then every peer of the resource has joined the channel or
  had joined it, the organization was edited without being refused, the update was sent or found
  unnecessary, the configuration was saved, and the last status written is ``RUNNING''.
\<close>
theorem Reconcile_follower_completes:
  assumes ok: "client_ok (fo_client M)" and run: "Reconcile_follower M req w = (r, w')" and stop: "\<not> retried r"
    and get: "client_get (fo_client M) req w = (Ok p, w0)" "DeletionTimestamp p = None" "followerChannelFinalizer \<in> set (Finalizers p)"
  shows "\<exists>rc w1 w2 w3 w4 w5 x. follower_setup M (fol_Spec p) w0 = (Ok rc, w1)
    \<and> join_peers (fo_sdk M) rc (fol_Spec p) w1 = (Ok (), w2)
    \<and> edited_config M (fol_Spec p) rc w2 = (Ok (None, x), w3)
    \<and> submit_organization M (fol_Spec p) rc x w3 = (Ok (), w4) \<and> save_organization M p rc w4 = (Ok (), w5)
    \<and> (\<exists>p' v q. status_update (fo_client M) p' v = (Ok q, w') \<and> crStatus p' = RunningStatus)"
proof -
  have h: "retried (fst ((follower_report M p \<circ> Some) e v))" for e v
    using report_failure_retried(2) [OF ok, of p e v] by (simp add: follower_report_def report_failure_def)
  note h' = follower_report_retried [OF ok]
  have "reconcile_follower M p w0 = (r, w')"
    using run get by (simp add: Reconcile_follower_def with_resource_live)
  note steps = this [unfolded reconcile_follower_def Let_def]
  obtain rc w1 w2 f x w3 where a: "follower_setup M (fol_Spec p) w0 = (Ok rc, w1)"
    "join_peers (fo_sdk M) rc (fol_Spec p) w1 = (Ok (), w2)" "edited_config M (fol_Spec p) rc w2 = (Ok (f, x), w3)"
    and k: "(case f of Some err \<Rightarrow> follower_report M p err
        | None \<Rightarrow> attempt (follower_report M p \<circ> Some) (submit_organization M (fol_Spec p) rc x) (\<lambda>_.
            attempt (follower_report M p \<circ> Some) (save_organization M p rc) (\<lambda>_. follower_done M p))) w3 = (r, w')"
    using steps by (elim attempt_stops [OF h _ stop]) (auto split: prod.splits)
  have f: "f = None" using k stop h' [of p _ w3] by (cases f) (auto, metis fst_conv)
  obtain w4 w5 where b: "submit_organization M (fol_Spec p) rc x w3 = (Ok (), w4)" "save_organization M p rc w4 = (Ok (), w5)"
    and d: "follower_done M p w5 = (r, w')"
    using k [unfolded f option.case] by (elim attempt_stops [OF h _ stop]) auto
  have "\<exists>p' v q. status_update (fo_client M) p' v = (Ok q, w') \<and> crStatus p' = RunningStatus"
    by (rule follower_done_stops [OF ok d stop])
  then show ?thesis using a b f by blast
qed

lemma follower_run:
  "Reconcile_follower follower_op (''ns'', ''follow'') () = (Ok no_requeue, ())"
proof -
  let ?M = follower_op and ?spec = "fol_Spec follower_channel"
  have op: "fo_tx ?M = organization_mem" "fo_sdk ?M = sdk_one" "fo_lib ?M = plain_lib" "fo_hlf ?M = hlf_one" "transaction sdk_one = mem"
    "fo_client ?M = client_one follower_channel" by (simp_all add: follower_op_def sdk_one_def)
  have ready: "\<exists>rc. follower_setup ?M ?spec () = (Ok rc, ())"
  proof -
    obtain d where "follower_network hlf_one follower_one ''Org1MSP'' () = (Ok d, ())" using follower_network_one by blast
    moreover have "follower_network (hlf_one :: unit hlf_client) ?spec = follower_network hlf_one follower_one"
      "fol_MSPID ?spec = ''Org1MSP''" "id_SecretKey (fol_HLFIdentity ?spec) = ''id.yaml''"
      by (auto simp: follower_network_def follower_channel_def follower_one_def fun_eq_iff)
    moreover have "template_Parse (hlf_one :: unit hlf_client) = Ok (\<lambda>d. Ok ''organizations: ...'')" by (simp add: hlf_one_def)
    ultimately show ?thesis
      by (simp add: follower_setup_def Let_def op GenerateNetworkConfigForFollower_def render_def io_simps plain_lib_def
          secret_identity_def createSigningIdentity_def sdk_one_def)
  qed
  have join: "join_peers sdk_one rc ?spec () = (Ok (), ())" for rc
    by (simp add: join_peers_def join_peer_def sdk_one_def io_simps follower_channel_def follower_one_def)
  have crls: "res_map (parse_crl (fo_lib ?M)) (fol_RevocationList ?spec) = Ok []"
    by (simp add: op follower_channel_def follower_one_def)
  have laws: "organization_laws (fo_tx ?M) (transaction (fo_sdk ?M)) (fol_MSPID ?spec) first_org"
    by (simp add: op organization_mem_laws)
  obtain oc where oc: "ord_Configuration mem channel_live = (Ok oc, channel_live)" "ConsensusState oc \<noteq> ConsensusStateMaintenance"
    by (simp add: mem_def channel_live_def ConsensusStateMaintenance_def ConsensusStateNormal_def)
  obtain x where "edit_organization ?M ?spec channel_live = (Ok None, x)"
    using edit_organization_does [OF laws crls, of channel_live oc] oc by (auto simp: op)
  then have config: "edited_config ?M ?spec rc () = (Ok (None, x), ())" for rc
    by (simp add: edited_config_def Let_def op io_simps edit_Ok [where m = "edit_organization ?M ?spec"] sdk_one_def)
  have rest: "submit_organization ?M ?spec rc x () = (Ok (), ())" "save_organization ?M follower_channel rc () = (Ok (), ())" for rc
    by (simp_all add: submit_organization_def save_organization_def follower_config_map_def CreateConfigUpdateEnvelope_def
        Let_def op io_simps sdk_one_def organization_mem_def)
  have ne: "RunningStatus \<noteq> FailedStatus" by (simp add: deployment_status_defs)
  have fin: "follower_done ?M follower_channel () = (Ok no_requeue, ())"
    by (simp add: follower_done_def Let_def op client_one_def io_simps FabricFollowerChannel_updateCRStatusOrFailReconcile_def ne)
  obtain rc where rc: "follower_setup ?M ?spec () = (Ok rc, ())" using ready by blast
  have "reconcile_follower ?M follower_channel () = (Ok no_requeue, ())"
    unfolding reconcile_follower_def Let_def
    by (simp add: attempt_def io_try_apply rc op join config rest fin)
  moreover have "client_get (fo_client ?M) (''ns'', ''follow'') () = (Ok follower_channel, ())"
    by (simp add: op client_one_def follower_channel_def io_simps)
  ultimately show ?thesis
    by (simp add: Reconcile_follower_def with_resource_live [where p = follower_channel and v = "()"] follower_channel_def)
qed

theorem Reconcile_follower_completes_witness:
  "\<exists>p' v q. status_update (client_one follower_channel) p' v = (Ok q, ()) \<and> crStatus p' = RunningStatus"
proof -
  have K: "fo_client follower_op = client_one follower_channel" by (simp add: follower_op_def)
  have p: "DeletionTimestamp follower_channel = None" "followerChannelFinalizer \<in> set (Finalizers follower_channel)"
    by (simp_all add: follower_channel_def)
  have get: "client_get (client_one follower_channel) (''ns'', ''follow'') () = (Ok follower_channel, ())"
    by (simp add: client_one_def follower_channel_def io_simps)
  have stop: "\<not> retried (Ok no_requeue)" by (simp add: no_requeue_def)
  show ?thesis
    using Reconcile_follower_completes [of follower_op, unfolded K, OF client_one_ok follower_run stop get p] by blast
qed

text \<open>
  Why an anchor peer could not be removed is not reported.  When the first removal fails but the
  anchor peers can still be read, the edit stops with the error of that second read, which is nil, and
  the report of a resource that had failed before leaves its message as it was and writes a condition
  without reason and message.
\<close>
theorem anchor_peer_error_lost:
  assumes "ord_Configuration (transaction (fo_sdk M)) x = (Ok oc, x)" and "ConsensusState oc \<noteq> ConsensusStateMaintenance"
    and "org_AnchorPeers (fo_tx M) (fol_MSPID spec) x = (Ok (a # as), x)"
    and "org_RemoveAnchorPeer (fo_tx M) (fol_MSPID spec) a x = (Err e, x1)"
    and "org_AnchorPeers (fo_tx M) (fol_MSPID spec) x1 = (Ok left, x2)" and "crStatus p = FailedStatus"
  shows "edit_organization M spec x = (Ok (Some None), x2)
    \<and> (\<exists>p' b c. FabricFollowerChannel_setConditionStatus (fo_client M) p FailedStatus False None False w = (Ok (p', b), w)
        \<and> crMessage p' = crMessage p \<and> GetCondition (crConditions p') FailedStatus = Some c
        \<and> Reason c = [] \<and> Message c = [])"
proof -
  have "FabricFollowerChannel_setConditionStatus (fo_client M) p FailedStatus False None False w
      = (Ok (put_condition (clock_now (fo_client M) w) (condition_of FailedStatus (statusStr False False) None) p), w)"
    by (simp add: FabricFollowerChannel_setConditionStatus_def setConditionStatus_def set_status_same assms(6))
  moreover have "crMessage (fst (put_condition (clock_now (fo_client M) w) (condition_of FailedStatus (statusStr False False) None) p)) = crMessage p"
    by (simp add: put_condition_simps)
  moreover have "edit_organization M spec x = (Ok (Some None), x2)"
    by (simp add: edit_organization_def Let_def io_bind_apply io_try_apply io_return_apply assms)
  ultimately show ?thesis
    using stored_condition [of "clock_now (fo_client M) w" FailedStatus "statusStr False False" None p]
    by (cases "put_condition (clock_now (fo_client M) w) (condition_of FailedStatus (statusStr False False) None) p") auto
qed

definition stubborn_op :: "(unit, Channel, Channel, Channel) follower_operator" where
  "stubborn_op = follower_op\<lparr>fo_tx := organization_mem
     \<lparr>org_RemoveAnchorPeer := (\<lambda>_ _ ch. (Err (ErrorString ''malformed anchor peers''), ch))\<rparr>\<rparr>"

theorem anchor_peer_error_lost_witness:
  "edit_organization stubborn_op (fol_Spec follower_channel) old_anchor = (Ok (Some None), old_anchor)"
  using anchor_peer_error_lost [where M = stubborn_op and spec = "fol_Spec follower_channel" and x = old_anchor
      and a = "\<lparr>Host = ''old'', Port = 443\<rparr>" and as = "[]" and e = "ErrorString ''malformed anchor peers''"
      and ?x1.0 = old_anchor and ?x2.0 = old_anchor and p = "follower_channel\<lparr>crStatus := FailedStatus\<rparr>"
      and left = "[\<lparr>Host = ''old'', Port = 443\<rparr>]" and w = "()"]
  by (simp add: stubborn_op_def follower_op_def organization_mem_def sdk_one_def mem_def old_anchor_def channel_live_def first_org_def
      ConsensusStateMaintenance_def ConsensusStateNormal_def)

end
