(* ===== verification/Chaincode_Package.thy ===== *)
theory Chaincode_Package imports Prelude begin

text \<open>
  Packaging a chaincode that runs as a service: \<open>generateChaincodePackage\<close> and its helpers in
  \<open>controllers/chaincode/install\<close>.  The operating system, \<open>encoding/json\<close>, \<open>archive/tar\<close> and
  \<open>compress/gzip\<close> are the parameter \<open>files\<close>; an open file is known by its path.
\<close>

record Metadata =
  meta_Type :: string
  meta_Label :: string

record Connection =
  conn_Address :: string
  conn_DialTimeout :: string
  conn_TLSRequired :: bool

record ChaincodePackageOptions =
  opt_ChaincodeName :: string
  opt_ChaincodeLabel :: string
  opt_Address :: string

record tar_header =
  header_Name :: string
  header_Attributes :: string

datatype file_info = FileInfo string string

record 'w files =
  os_MkdirTemp :: "string \<Rightarrow> string \<Rightarrow> ('w, string) io"
  os_RemoveAll :: "string \<Rightarrow> ('w, unit) io"
  os_TempDir :: string
  os_Create :: "string \<Rightarrow> ('w, unit) io"
  os_Open :: "string \<Rightarrow> ('w, unit) io"
  os_Rename :: "string \<Rightarrow> string \<Rightarrow> ('w, unit) io"
  os_ReadFile :: "string \<Rightarrow> ('w, string) io"
  file_Write :: "string \<Rightarrow> string \<Rightarrow> ('w, unit) io"
  file_Stat :: "string \<Rightarrow> ('w, file_info) io"
  tar_FileInfoHeader :: "file_info \<Rightarrow> tar_header res"
  tar_WriteHeader :: "string \<Rightarrow> tar_header \<Rightarrow> ('w, unit) io"
  io_Copy :: "string \<Rightarrow> string \<Rightarrow> ('w, unit) io"
  archive_Close :: "string \<Rightarrow> ('w, unit) io"
  encode_Metadata :: "Metadata \<Rightarrow> string res"
  encode_Connection :: "Connection \<Rightarrow> string res"
  filepath_Join :: "string \<Rightarrow> string \<Rightarrow> string"
  filepath_Base :: "string \<Rightarrow> string"
  UnixNano :: "'w \<Rightarrow> int"

text \<open>\<open>defer f()\<close>: it runs on every way out, and its own error is dropped.\<close>

definition deferred :: "('w, unit) io \<Rightarrow> ('w, 'a) io \<Rightarrow> ('w, 'a) io" where
  "deferred f m = (\<lambda>w. case m w of (r, w') \<Rightarrow> (r, snd (f w')))"

text \<open>\<open>fmt.Errorf\<close> with \<open>\%w\<close> renders and unwraps as \<open>errors.Wrap\<close> does.\<close>

definition writeJSONFile :: "'w files \<Rightarrow> string \<Rightarrow> string res \<Rightarrow> ('w, unit) io" where
  "writeJSONFile F filePath encoded =
     io_bind (os_Create F filePath) (\<lambda>_. io_bind (io_lift encoded) (\<lambda>text. file_Write F filePath text))"

definition addFileToTar :: "'w files \<Rightarrow> string \<Rightarrow> string \<Rightarrow> ('w, unit) io" where
  "addFileToTar F tw filename =
     io_bind (os_Open F filename) (\<lambda>_.
     io_bind (file_Stat F filename) (\<lambda>info.
     io_bind (io_lift (tar_FileInfoHeader F info)) (\<lambda>header.
     io_bind (tar_WriteHeader F tw (header\<lparr>header_Name := filepath_Base F filename\<rparr>)) (\<lambda>_.
       io_Copy F tw filename))))"

definition createTarGz :: "'w files \<Rightarrow> string list \<Rightarrow> string \<Rightarrow> ('w, unit) io" where
  "createTarGz F inputFiles outputFile =
     io_bind (os_Create F outputFile) (\<lambda>_.
       deferred (archive_Close F outputFile) (io_for (addFileToTar F outputFile) inputFiles))"

text \<open>The two files a package is made of, and the package itself.\<close>

definition package_metadata :: "ChaincodePackageOptions \<Rightarrow> Metadata" where
  "package_metadata options = \<lparr>meta_Type = ''ccaas'', meta_Label = opt_ChaincodeLabel options\<rparr>"

definition package_connection :: "ChaincodePackageOptions \<Rightarrow> Connection" where
  "package_connection options =
     \<lparr>conn_Address = opt_Address options, conn_DialTimeout = ''10s'', conn_TLSRequired = False\<rparr>"

definition final_path :: "'w files \<Rightarrow> int \<Rightarrow> string" where
  "final_path F nanos = filepath_Join F (os_TempDir F) (''chaincode_'' @ itoa nanos @ ''.tgz'')"

definition fill_package :: "'w files \<Rightarrow> string \<Rightarrow> ChaincodePackageOptions \<Rightarrow> ('w, string) io" where
  "fill_package F outputDir options =
     (let metadataPath = filepath_Join F outputDir ''metadata.json'';
          connectionPath = filepath_Join F outputDir ''connection.json'';
          codeTarPath = filepath_Join F outputDir ''code.tar.gz'';
          chaincodeTarPath = filepath_Join F outputDir ''chaincode.tgz'' in
      io_bind (io_wrap ''failed to write metadata.json''
        (writeJSONFile F metadataPath (encode_Metadata F (package_metadata options)))) (\<lambda>_.
      io_bind (io_wrap ''failed to write connection.json''
        (writeJSONFile F connectionPath (encode_Connection F (package_connection options)))) (\<lambda>_.
      io_bind (io_wrap ''failed to create code.tar.gz'' (createTarGz F [connectionPath] codeTarPath)) (\<lambda>_.
      io_bind (io_wrap ''failed to create chaincode.tgz''
        (createTarGz F [metadataPath, codeTarPath] chaincodeTarPath)) (\<lambda>_ w.
      let finalPath = final_path F (UnixNano F w) in
      io_bind (io_wrap ''failed to move chaincode.tgz'' (os_Rename F chaincodeTarPath finalPath))
        (\<lambda>_. io_return finalPath) w)))))"

definition generateChaincodePackage :: "'w files \<Rightarrow> ChaincodePackageOptions \<Rightarrow> ('w, string) io" where
  "generateChaincodePackage F options =
     io_bind (io_wrap ''failed to create temp dir'' (os_MkdirTemp F [] ''chaincode_package'')) (\<lambda>outputDir.
       deferred (os_RemoveAll F outputDir) (fill_package F outputDir options))"

end
