(* ===== verification/Chaincode_Lifecycle.thy ===== *)
theory Chaincode_Lifecycle imports Fabric_SDK Chaincode_Package begin

text \<open>
  The chaincode lifecycle: the controllers of \<open>controllers/chaincode/approve\<close>, \<open>commit\<close> and \<open>install\<close>, and the
  translation of private data collections in \<open>kubectl-hlf/cmd/helpers/mappers.go\<close> they share.
\<close>

text \<open>
  The calls of the lifecycle the controllers make; an error comes without a transaction.  Of a committed
  definition only the sequence is read.
\<close>

record ('w, 'b, 'c, 'x) lifecycle =
  ch_lib :: "'w channel_lib"
  ch_hlf :: "'w hlf_client"
  ch_sdk :: "('w, 'b, 'c, 'x) fabric_sdk"
  ch_files :: "'w files"
  LifecycleQueryCommittedCC :: "res_client \<Rightarrow> string \<Rightarrow> string \<Rightarrow> request_option list \<Rightarrow> ('w, int list) io"
  LifecycleQueryApprovedCC :: "res_client \<Rightarrow> string \<Rightarrow> string \<Rightarrow> int \<Rightarrow> request_option list \<Rightarrow> ('w, approved_cc) io"
  LifecycleApproveCC :: "res_client \<Rightarrow> string \<Rightarrow> LifecycleApproveCCRequest \<Rightarrow> request_option list \<Rightarrow> ('w, string) io"
  LifecycleCommitCC :: "res_client \<Rightarrow> string \<Rightarrow> LifecycleCCRequest \<Rightarrow> request_option list \<Rightarrow> ('w, string) io"
  LifecycleInstallCC :: "res_client \<Rightarrow> string \<Rightarrow> string \<Rightarrow> request_option list \<Rightarrow> ('w, unit) io"
  ComputePackageID :: "string \<Rightarrow> string \<Rightarrow> string"
  policydsl_FromString :: "string \<Rightarrow> signature_policy res"
  collections_Marshal :: "PrivateDataCollection list \<Rightarrow> string res"
  collections_Unmarshal :: "string \<Rightarrow> PrivateDataCollection list res"

section \<open>Policies and collections\<close>

definition both_policies :: go_error where
  "both_policies = ErrorString (''cannot specify both '' @ [CHR 0x22] @ ''--signature-policy'' @ [CHR 0x22]
     @ '' and '' @ [CHR 0x22] @ ''--channel-config-policy'' @ [CHR 0x22])"

definition getApplicationPolicy ::
  "('w, 'b, 'c, 'x) lifecycle \<Rightarrow> string \<Rightarrow> string \<Rightarrow> application_policy option res" where
  "getApplicationPolicy L signaturePolicy channelConfigPolicy =
     (if signaturePolicy = [] \<and> channelConfigPolicy = [] then Ok None
      else if signaturePolicy \<noteq> [] \<and> channelConfigPolicy \<noteq> [] then Err both_policies
      else if signaturePolicy \<noteq> [] then (case policydsl_FromString L signaturePolicy of
          Ok sp \<Rightarrow> Ok (Some (ApplicationSignaturePolicy sp))
        | Err e \<Rightarrow> Err (ErrorString (''invalid signature policy: '' @ signaturePolicy))
        | Panic p \<Rightarrow> Panic p)
      else Ok (Some (ChannelConfigPolicyReference channelConfigPolicy)))"

text \<open>\<open>EndorsementPolicy\<close> of a collection; the text of the error renders the two strings.\<close>

definition collection_policy ::
  "('w, 'b, 'c, 'x) lifecycle \<Rightarrow> PrivateDataCollectionEndorsementPolicy option \<Rightarrow> application_policy option res" where
  "collection_policy L policy = (case policy of
       None \<Rightarrow> Ok None
     | Some ep \<Rightarrow> res_wrap (''invalid endorsement policy ['' @ pdce_ChannelConfigPolicy ep @ '' '' @ pdce_SignaturePolicy ep @ '']'')
         (getApplicationPolicy L (pdce_SignaturePolicy ep) (pdce_ChannelConfigPolicy ep)))"

definition collection_config ::
  "('w, 'b, 'c, 'x) lifecycle \<Rightarrow> PrivateDataCollection \<Rightarrow> CollectionConfig res" where
  "collection_config L c =
     res_bind (res_wrap (''invalid policy '' @ pdc_Policy c) (policydsl_FromString L (pdc_Policy c))) (\<lambda>p.
     res_bind (collection_policy L (pdc_EndorsementPolicy c)) (\<lambda>ep.
       Ok \<lparr>coll_Name = pdc_Name c, MemberOrgsPolicy = p,
         coll_RequiredPeerCount = (case pdc_RequiredPeerCount c of None \<Rightarrow> 0 | Some n \<Rightarrow> n),
         MaximumPeerCount = (case pdc_MaxPeerCount c of None \<Rightarrow> 1 | Some n \<Rightarrow> n),
         coll_BlockToLive = pdc_BlockToLive c, coll_MemberOnlyRead = pdc_MemberOnlyRead c,
         coll_MemberOnlyWrite = pdc_MemberOnlyWrite c, coll_EndorsementPolicy = ep\<rparr>))"

definition GetCollectionConfigFromBytes ::
  "('w, 'b, 'c, 'x) lifecycle \<Rightarrow> string \<Rightarrow> CollectionConfig list res" where
  "GetCollectionConfigFromBytes L bytes =
     res_bind (res_wrap ''could not parse the collection configuration'' (collections_Unmarshal L bytes))
       (res_map (collection_config L))"

text \<open>What approve and commit make of the policy and the collections of their resource.\<close>

definition endorsement_policy ::
  "('w, 'b, 'c, 'x) lifecycle \<Rightarrow> string \<Rightarrow> signature_policy option res" where
  "endorsement_policy L policy =
     (if policy \<noteq> [] then res_bind (policydsl_FromString L policy) (\<lambda>sp. Ok (Some sp)) else Ok None)"

definition collection_configs ::
  "('w, 'b, 'c, 'x) lifecycle \<Rightarrow> PrivateDataCollection list \<Rightarrow> CollectionConfig list option res" where
  "collection_configs L collections =
     res_bind (if collections \<noteq> [] then res_bind (collections_Marshal L collections) (GetCollectionConfigFromBytes L)
       else Ok []) (\<lambda>ccs. Ok (if ccs = [] then None else Some ccs))"

section \<open>The client\<close>

text \<open>A secret without the key gives nil and no error.\<close>

definition getResmgmtBasedOnIdentity ::
  "('w, 'b, 'c, 'x) lifecycle \<Rightarrow> HLFIdentity \<Rightarrow> string \<Rightarrow> string \<Rightarrow> ('w, res_client option) io" where
  "getResmgmtBasedOnIdentity L idConfig networkConfig mspID =
     (let S = ch_sdk L in
     io_bind (fabsdk_New S networkConfig) (\<lambda>sdk.
     io_bind (secrets_Get S (id_SecretNamespace idConfig) (id_SecretName idConfig)) (\<lambda>data.
     case data (id_SecretKey idConfig) of
       None \<Rightarrow> io_return None
     | Some secretData \<Rightarrow>
         io_bind (io_lift (yaml_Unmarshal S secretData)) (\<lambda>id'.
         io_bind (createSigningIdentity S sdk mspID id') (\<lambda>signingIdentity.
         io_bind (resmgmt_New S sdk signingIdentity mspID) (\<lambda>resClient. io_return (Some resClient)))))))"

definition nil_dereference :: string where
  "nil_dereference = ''invalid memory address or nil pointer dereference''"

text \<open>A method of a nil client panics, and so does the deferred \<open>sdk.Close()\<close> of a nil SDK, whatever the
  function was about to return.\<close>

definition on_client :: "res_client option \<Rightarrow> (res_client \<Rightarrow> ('w, 'a) io) \<Rightarrow> ('w, 'a) io" where
  "on_client rc f = (case rc of None \<Rightarrow> io_panic nil_dereference | Some c \<Rightarrow> f c)"

definition defer_close :: "res_client option \<Rightarrow> ('w, 'a) io \<Rightarrow> ('w, 'a) io" where
  "defer_close rc m = (\<lambda>w. case rc of Some _ \<Rightarrow> m w | None \<Rightarrow> (Panic nil_dereference, snd (m w)))"

definition lifecycle_client ::
  "('w, 'b, 'c, 'x) lifecycle \<Rightarrow> ('w, string) io \<Rightarrow> HLFIdentity \<Rightarrow> string \<Rightarrow> ('w, res_client option) io" where
  "lifecycle_client L generate idConfig mspID =
     io_bind (kube_client (ch_lib L)) (\<lambda>_.
     io_bind (operator_client (ch_lib L)) (\<lambda>_.
     io_bind generate (\<lambda>networkConfig.
       io_wrap ''failed to get resmgmt'' (getResmgmtBasedOnIdentity L idConfig networkConfig mspID))))"

definition long_timeouts :: "request_option list" where
  "long_timeouts = [WithTimeout ResMgmt (20 * Minute), WithTimeout PeerResponse (20 * Minute)]"

section \<open>Approving\<close>

definition approve_report ::
  "('w, FabricChaincodeApprove) client \<Rightarrow> FabricChaincodeApprove \<Rightarrow> go_error \<Rightarrow> ('w, Result) io" where
  "approve_report = report_failure FabricChaincodeApprove_setConditionStatus
     FabricChaincodeApprove_updateCRStatusOrFailReconcile"

text \<open>The first peer, of the cluster or external; none if there is neither.\<close>

definition peer_target_of :: "'a FabricChaincodeCommitSpec_scheme \<Rightarrow> string" where
  "peer_target_of spec = (case cc_Peers spec of
       p # _ \<Rightarrow> full_name (pref_Name p) (pref_Namespace p)
     | [] \<Rightarrow> (case cc_ExternalPeers spec of p # _ \<Rightarrow> pref_URL p | [] \<Rightarrow> []))"

definition already_committed ::
  "('w, 'b, 'c, 'x) lifecycle \<Rightarrow> FabricChaincodeApproveSpec \<Rightarrow> res_client option \<Rightarrow> string \<Rightarrow> ('w, bool) io" where
  "already_committed L spec rc target =
     (if cc_Sequence spec > 1
      then io_bind (io_wrap ''failed to query committed chaincode'' (on_client rc (\<lambda>c.
          LifecycleQueryCommittedCC L c (cc_ChannelName spec) (cc_ChaincodeName spec) [WithTargetEndpoints target])))
        (\<lambda>info. case info of [] \<Rightarrow> io_panic ''index out of range [0] with length 0''
           | lastSequence # _ \<Rightarrow> io_return (cc_Sequence spec \<le> lastSequence))
      else io_return False)"

definition must_approve ::
  "('w, 'b, 'c, 'x) lifecycle \<Rightarrow> FabricChaincodeApproveSpec \<Rightarrow> res_client option \<Rightarrow> string \<Rightarrow> ('w, bool) io" where
  "must_approve L spec rc target =
     io_try (on_client rc (\<lambda>c. LifecycleQueryApprovedCC L c (cc_ChannelName spec) (cc_ChaincodeName spec)
         (cc_Sequence spec) [WithTargetEndpoints target]))
       (\<lambda>current. io_return (approved_PackageID current \<noteq> cc_PackageID spec \<or> approved_Sequence current \<noteq> cc_Sequence spec))
       (\<lambda>err. io_return True)"

definition approve_request ::
  "FabricChaincodeApproveSpec \<Rightarrow> signature_policy option \<Rightarrow> CollectionConfig list option \<Rightarrow> LifecycleApproveCCRequest" where
  "approve_request spec sp ccs =
     \<lparr>lc_Name = cc_ChaincodeName spec, lc_Version = cc_Version spec, lc_Sequence = cc_Sequence spec,
      EndorsementPlugin = ''escc'', ValidationPlugin = ''vscc'', lc_SignaturePolicy = sp, lc_CollectionConfig = ccs,
      lc_InitRequired = cc_InitRequired spec, lc_PackageID = cc_PackageID spec\<rparr>"

text \<open>Errors that mean that the definition is there already.\<close>

definition redefined :: "go_error \<Rightarrow> bool" where
  "redefined err \<longleftrightarrow> str_contains (error_text err) ''attempted to redefine uncommitted''
     \<or> str_contains (error_text err) ''attempted to redefine the current committed''"

definition approve_chaincode ::
  "('w, 'b, 'c, 'x) lifecycle \<Rightarrow> FabricChaincodeApproveSpec \<Rightarrow> res_client option \<Rightarrow> string
   \<Rightarrow> LifecycleApproveCCRequest \<Rightarrow> ('w, string) io" where
  "approve_chaincode L spec rc target request =
     io_catch (on_client rc (\<lambda>c. LifecycleApproveCC L c (cc_ChannelName spec) request
         (WithTargetEndpoints target # long_timeouts)))
       (\<lambda>err. if redefined err then io_return [] else io_throw (Wrapped ''failed to approve chaincode'' err))"

text \<open>A success: the status is set locally and written.\<close>

definition approve_running ::
  "('w, FabricChaincodeApprove) client \<Rightarrow> FabricChaincodeApprove \<Rightarrow> string \<Rightarrow> ('w, Result) io" where
  "approve_running K p msg = (\<lambda>w. FabricChaincodeApprove_updateCRStatusOrFailReconcile K
     (mark_running (clock_now K w) msg p) w)"

definition reconcile_approve ::
  "('w, 'b, 'c, 'x) lifecycle \<Rightarrow> ('w, FabricChaincodeApprove) client \<Rightarrow> FabricChaincodeApprove
   \<Rightarrow> res_client option \<Rightarrow> ('w, Result) io" where
  "reconcile_approve L K p rc =
     (let spec = app_Spec p; fail = approve_report K p; target = peer_target_of spec in
      attempt fail (io_lift (endorsement_policy L (cc_EndorsementPolicy spec))) (\<lambda>sp.
      attempt fail (io_lift (collection_configs L (cc_PrivateDataCollections spec))) (\<lambda>ccs.
      if target = [] then fail (ErrorString ''peerTarget is empty'')
      else attempt fail (already_committed L spec rc target) (\<lambda>committed.
        if committed then approve_running K p ''Chaincode already committed''
        else io_bind (must_approve L spec rc target) (\<lambda>mustApprove.
          if \<not> mustApprove
          then io_bind (FabricChaincodeApprove_setConditionStatus K p RunningStatus False
              (Some (ErrorString ''chaincode already approved'')) False)
            (\<lambda>(p', _). FabricChaincodeApprove_updateCRStatusOrFailReconcile K p')
          else attempt fail (approve_chaincode L spec rc target (approve_request spec sp ccs)) (\<lambda>txID.
            approve_running K (if txID \<noteq> [] then p\<lparr>app_TransactionID := txID\<rparr> else p) ''Chaincode approved''))))))"

definition Reconcile_approve ::
  "('w, 'b, 'c, 'x) lifecycle \<Rightarrow> ('w, FabricChaincodeApprove) client \<Rightarrow> string \<times> string \<Rightarrow> ('w, Result) io" where
  "Reconcile_approve L K req =
     with_resource K chaincodeApproveFinalizer (FabricChaincodeApprove_addFinalizer K) req (\<lambda>p.
       attempt (approve_report K p)
         (lifecycle_client L (GenerateNetworkConfigForChaincodeApprove (ch_hlf L) (app_Spec p) (cc_MSPID (app_Spec p)))
            (cc_HLFIdentity (app_Spec p)) (cc_MSPID (app_Spec p)))
         (\<lambda>rc. defer_close rc (reconcile_approve L K p rc)))"

section \<open>Committing\<close>

definition commit_report ::
  "('w, FabricChaincodeCommit) client \<Rightarrow> FabricChaincodeCommit \<Rightarrow> go_error \<Rightarrow> ('w, Result) io" where
  "commit_report = report_failure FabricChaincodeCommit_setConditionStatus
     FabricChaincodeCommit_updateCRStatusOrFailReconcile"

definition commit_request ::
  "'a FabricChaincodeCommitSpec_scheme \<Rightarrow> signature_policy option \<Rightarrow> CollectionConfig list option \<Rightarrow> LifecycleCCRequest" where
  "commit_request spec sp ccs =
     \<lparr>lc_Name = cc_ChaincodeName spec, lc_Version = cc_Version spec, lc_Sequence = cc_Sequence spec,
      EndorsementPlugin = ''escc'', ValidationPlugin = ''vscc'', lc_SignaturePolicy = sp, lc_CollectionConfig = ccs,
      lc_InitRequired = cc_InitRequired spec\<rparr>"

definition commit_chaincode ::
  "('w, 'b, 'c, 'x) lifecycle \<Rightarrow> FabricChaincodeCommitSpec \<Rightarrow> res_client option \<Rightarrow> LifecycleCCRequest \<Rightarrow> ('w, unit) io" where
  "commit_chaincode L spec rc request =
     io_try (on_client rc (\<lambda>c. LifecycleCommitCC L c (cc_ChannelName spec) request long_timeouts))
       (\<lambda>txID. io_return ())
       (\<lambda>err. if str_contains (error_text err) ''new definition must be sequence'' then io_return () else io_throw err)"

definition reconcile_commit ::
  "('w, 'b, 'c, 'x) lifecycle \<Rightarrow> ('w, FabricChaincodeCommit) client \<Rightarrow> FabricChaincodeCommit
   \<Rightarrow> res_client option \<Rightarrow> ('w, Result) io" where
  "reconcile_commit L K p rc =
     (let spec = com_Spec p; fail = commit_report K p in
      attempt fail (io_lift (endorsement_policy L (cc_EndorsementPolicy spec))) (\<lambda>sp.
      attempt fail (io_lift (collection_configs L (cc_PrivateDataCollections spec))) (\<lambda>ccs.
      attempt fail (commit_chaincode L spec rc (commit_request spec sp ccs)) (\<lambda>_ w.
        FabricChaincodeCommit_updateCRStatusOrFailReconcile K
          (mark_running (clock_now K w) ''Chaincode committed'' p) w))))"

definition Reconcile_commit ::
  "('w, 'b, 'c, 'x) lifecycle \<Rightarrow> ('w, FabricChaincodeCommit) client \<Rightarrow> string \<times> string \<Rightarrow> ('w, Result) io" where
  "Reconcile_commit L K req =
     with_resource K chaincodeCommitFinalizer (FabricChaincodeCommit_addFinalizer K) req (\<lambda>p.
       attempt (commit_report K p)
         (lifecycle_client L (GenerateNetworkConfigForChaincodeCommit (ch_hlf L) (com_Spec p) (cc_MSPID (com_Spec p)))
            (cc_HLFIdentity (com_Spec p)) (cc_MSPID (com_Spec p)))
         (\<lambda>rc. defer_close rc (reconcile_commit L K p rc)))"

section \<open>Installing\<close>

definition install_report ::
  "('w, FabricChaincodeInstall) client \<Rightarrow> FabricChaincodeInstall \<Rightarrow> go_error \<Rightarrow> ('w, Result) io" where
  "install_report = report_failure FabricChaincodeInstall_setConditionStatus
     FabricChaincodeInstall_updateCRStatusOrFailReconcile"

definition install_targets :: "FabricChaincodeInstallSpec \<Rightarrow> string list" where
  "install_targets spec = map (\<lambda>p. full_name (pref_Name p) (pref_Namespace p)) (ins_Peers spec)
     @ map pref_URL (ins_ExternalPeers spec)"

text \<open>One peer after the other; a failure is noted and the loop goes on.\<close>

fun install_peers ::
  "('w, 'b, 'c, 'x) lifecycle \<Rightarrow> res_client option \<Rightarrow> string \<Rightarrow> string \<Rightarrow> string list
   \<Rightarrow> FailedPeer list \<times> InstalledPeer list \<Rightarrow> ('w, FailedPeer list \<times> InstalledPeer list) io" where
  "install_peers L rc label pkg [] acc = io_return acc"
| "install_peers L rc label pkg (peerName # rest) (failed, installed) =
     io_try (on_client rc (\<lambda>c. LifecycleInstallCC L c label pkg (WithTargetEndpoints peerName # long_timeouts)))
       (\<lambda>_. install_peers L rc label pkg rest (failed, installed @ [\<lparr>installed_Name = peerName\<rparr>]))
       (\<lambda>err. install_peers L rc label pkg rest
          (failed @ [\<lparr>failed_Name = peerName, failed_Reason = error_text err\<rparr>], installed))"

text \<open>The whole status is replaced, conditions and message included.\<close>

definition installed_status ::
  "time \<Rightarrow> string \<Rightarrow> FailedPeer list \<times> InstalledPeer list \<Rightarrow> FabricChaincodeInstall \<Rightarrow> FabricChaincodeInstall" where
  "installed_status now packageID peers p =
     mark_running now [] (p\<lparr>crConditions := [], PackageID := packageID, FailedPeers := fst peers,
       InstalledPeers := snd peers\<rparr>)"

definition install_package ::
  "('w, 'b, 'c, 'x) lifecycle \<Rightarrow> ChaincodePackage \<Rightarrow> ('w, string) io" where
  "install_package L pkg =
     io_bind (io_wrap ''failed to generate chaincode package'' (generateChaincodePackage (ch_files L)
        \<lparr>opt_ChaincodeName = pkg_Name pkg, opt_ChaincodeLabel = pkg_Name pkg, opt_Address = pkg_Address pkg\<rparr>)) (\<lambda>path.
       io_wrap ''failed to read chaincode package'' (os_ReadFile (ch_files L) path))"

definition reconcile_install ::
  "('w, 'b, 'c, 'x) lifecycle \<Rightarrow> ('w, FabricChaincodeInstall) client \<Rightarrow> FabricChaincodeInstall
   \<Rightarrow> res_client option \<Rightarrow> ('w, Result) io" where
  "reconcile_install L K p rc =
     (let spec = ins_Spec p; label = pkg_Name (ins_ChaincodePackage spec) in
      attempt (install_report K p) (install_package L (ins_ChaincodePackage spec)) (\<lambda>pkg.
      io_bind (install_peers L rc label pkg (install_targets spec) ([], [])) (\<lambda>peers w.
        FabricChaincodeInstall_updateCRStatusOrFailReconcile K
          (installed_status (clock_now K w) (ComputePackageID L label pkg) peers p) w)))"

definition Reconcile_install ::
  "('w, 'b, 'c, 'x) lifecycle \<Rightarrow> ('w, FabricChaincodeInstall) client \<Rightarrow> string \<times> string \<Rightarrow> ('w, Result) io" where
  "Reconcile_install L K req =
     with_resource K chaincodeInstallFinalizer (FabricChaincodeInstall_addFinalizer K) req (\<lambda>p.
       attempt (install_report K p)
         (lifecycle_client L (io_wrap ''failed to generate network config''
             (GenerateNetworkConfigForChaincodeInstall (ch_hlf L) (ins_Spec p) (ins_MSPID (ins_Spec p))))
            (ins_HLFIdentity (ins_Spec p)) (ins_MSPID (ins_Spec p)))
         (\<lambda>rc. defer_close rc (reconcile_install L K p rc)))"

end
