(* ===== verification/Chaincode_Correct.thy ===== *)
theory Chaincode_Correct imports Chaincode_Lifecycle Operator_Memory "HOL-Library.Multiset" begin

text \<open>
  What the chaincode controllers do: which peers an installation reports, when an approval is sent, how
  private data collections are translated, and what happens without the key of the secret.
\<close>

section \<open>Installing on every peer\<close>

lemma install_peers_all:
  assumes "\<And>t w. \<not> panics (fst (LifecycleInstallCC L c label pkg (WithTargetEndpoints t # long_timeouts) w))"
  shows "\<exists>f i w'. install_peers L (Some c) label pkg targets (failed, installed) w = (Ok (failed @ f, installed @ i), w')
    \<and> mset (map failed_Name f) + mset (map installed_Name i) = mset targets"
proof (induction targets arbitrary: failed installed w)
  case Nil
  then show ?case by (simp add: io_return_apply)
next
  case (Cons t ts)
  obtain r w1 where r: "LifecycleInstallCC L c label pkg (WithTargetEndpoints t # long_timeouts) w = (r, w1)" by fastforce
  have "\<not> panics r" using assms [of t w] r by simp
  then consider u where "r = Ok u" | e where "r = Err e" by (cases r) simp_all
  then show ?case
  proof cases
    case 1
    from Cons.IH [of failed "installed @ [\<lparr>installed_Name = t\<rparr>]" w1] obtain f i w' where
      "install_peers L (Some c) label pkg ts (failed, installed @ [\<lparr>installed_Name = t\<rparr>]) w1
        = (Ok (failed @ f, (installed @ [\<lparr>installed_Name = t\<rparr>]) @ i), w')"
      "mset (map failed_Name f) + mset (map installed_Name i) = mset ts" by blast
    then show ?thesis
      by (intro exI [of _ f] exI [of _ "\<lparr>installed_Name = t\<rparr> # i"] exI [of _ w']) (simp add: io_try_apply on_client_def r 1)
  next
    case 2
    let ?x = "\<lparr>failed_Name = t, failed_Reason = error_text e\<rparr>"
    from Cons.IH [of "failed @ [?x]" installed w1] obtain f i w' where
      "install_peers L (Some c) label pkg ts (failed @ [?x], installed) w1 = (Ok ((failed @ [?x]) @ f, installed @ i), w')"
      "mset (map failed_Name f) + mset (map installed_Name i) = mset ts" by blast
    then show ?thesis
      by (intro exI [of _ "?x # f"] exI [of _ i] exI [of _ w']) (simp add: io_try_apply on_client_def r 2)
  qed
qed

section \<open>Collections\<close>

text \<open>What a collection becomes: the counts default to 0 and 1.\<close>

definition translates ::
  "('w, 'b, 'c, 'x) lifecycle \<Rightarrow> PrivateDataCollection \<Rightarrow> CollectionConfig \<Rightarrow> bool" where
  "translates L c cc \<longleftrightarrow> coll_Name cc = pdc_Name c \<and> policydsl_FromString L (pdc_Policy c) = Ok (MemberOrgsPolicy cc)
     \<and> coll_RequiredPeerCount cc = (case pdc_RequiredPeerCount c of None \<Rightarrow> 0 | Some n \<Rightarrow> n)
     \<and> MaximumPeerCount cc = (case pdc_MaxPeerCount c of None \<Rightarrow> 1 | Some n \<Rightarrow> n)
     \<and> coll_BlockToLive cc = pdc_BlockToLive c
     \<and> (coll_EndorsementPolicy cc = None \<longleftrightarrow> (case pdc_EndorsementPolicy c of None \<Rightarrow> True
          | Some ep \<Rightarrow> pdce_SignaturePolicy ep = [] \<and> pdce_ChannelConfigPolicy ep = []))"

text \<open>A collection that can be translated: its policy parses, and it has at most one endorsement policy,
  which parses.\<close>

definition translatable :: "('w, 'b, 'c, 'x) lifecycle \<Rightarrow> PrivateDataCollection \<Rightarrow> bool" where
  "translatable L c \<longleftrightarrow> is_ok (policydsl_FromString L (pdc_Policy c))
     \<and> (case pdc_EndorsementPolicy c of None \<Rightarrow> True
        | Some ep \<Rightarrow> pdce_SignaturePolicy ep = [] \<or> pdce_ChannelConfigPolicy ep = [] \<and> is_ok (policydsl_FromString L (pdce_SignaturePolicy ep)))"

lemma getApplicationPolicy_Ok:
  "is_ok (getApplicationPolicy L s c) \<longleftrightarrow> s = [] \<or> c = [] \<and> is_ok (policydsl_FromString L s)"
  "getApplicationPolicy L s c = Ok p \<Longrightarrow> p = None \<longleftrightarrow> s = [] \<and> c = []"
  by (auto simp: getApplicationPolicy_def split: res.splits if_splits)

lemma collection_config_Ok: "collection_config L c = Ok cc \<Longrightarrow> translates L c cc"
  using getApplicationPolicy_Ok(2) [of L]
  by (auto simp: collection_config_def translates_def collection_policy_def split: option.splits)

lemma is_ok_res_wrap: "is_ok (res_wrap t r) = is_ok r"
  by (cases r) simp_all

lemma collection_config_is_ok: "is_ok (collection_config L c) \<longleftrightarrow> translatable L c"
proof -
  have "is_ok (collection_config L c) \<longleftrightarrow> is_ok (policydsl_FromString L (pdc_Policy c)) \<and> is_ok (collection_policy L (pdc_EndorsementPolicy c))"
    by (auto simp: collection_config_def is_ok_iff)
  moreover have "is_ok (collection_policy L ep) \<longleftrightarrow> (case ep of None \<Rightarrow> True | Some ep \<Rightarrow>
      is_ok (getApplicationPolicy L (pdce_SignaturePolicy ep) (pdce_ChannelConfigPolicy ep)))" for ep
    by (simp add: collection_policy_def is_ok_res_wrap split: option.split)
  ultimately show ?thesis by (simp add: translatable_def getApplicationPolicy_Ok split: option.split)
qed

section \<open>Properties\<close>

text \<open>
  An installation reports every peer once and is done, whatever the peers say.  When the package has
  been built and the calls return, every target of the resource, internal and external, is listed
  either as installed or as failed, and the resource becomes ``RUNNING'', its earlier conditions and its
  message gone, even if the chaincode could be installed nowhere; once that status is written the work
  queue does not retry.
\<close>
theorem install_always_running:
  assumes pkg: "install_package L (ins_ChaincodePackage (ins_Spec p)) w = (Ok pkg, w1)"
    and calls: "\<forall>t v. \<not> panics (fst (LifecycleInstallCC L c (pkg_Name (ins_ChaincodePackage (ins_Spec p))) pkg
        (WithTargetEndpoints t # long_timeouts) v))"
  shows "\<exists>q w2. reconcile_install L K p (Some c) w = FabricChaincodeInstall_updateCRStatusOrFailReconcile K q w2
    \<and> crStatus q = RunningStatus \<and> crMessage q = [] \<and> length (crConditions q) = 1
    \<and> mset (map failed_Name (FailedPeers q)) + mset (map installed_Name (InstalledPeers q)) = mset (install_targets (ins_Spec p))
    \<and> (\<forall>q' w3. status_update K q w2 = (Ok q', w3) \<and> crStatus q' = RunningStatus \<longrightarrow>
        reconcile_install L K p (Some c) w = (Ok no_requeue, w3))"
proof -
  let ?label = "pkg_Name (ins_ChaincodePackage (ins_Spec p))"
  have "\<And>t v. \<not> panics (fst (LifecycleInstallCC L c ?label pkg (WithTargetEndpoints t # long_timeouts) v))" using calls by blast
  from install_peers_all [where targets = "install_targets (ins_Spec p)" and failed = "[]" and installed = "[]" and w = w1, OF this]
  obtain f i w2 where i: "install_peers L (Some c) ?label pkg (install_targets (ins_Spec p)) ([], []) w1 = (Ok (f, i), w2)"
    and m: "mset (map failed_Name f) + mset (map installed_Name i) = mset (install_targets (ins_Spec p))" by auto
  let ?q = "installed_status (clock_now K w2) (ComputePackageID L ?label pkg) (f, i) p"
  have run: "reconcile_install L K p (Some c) w = FabricChaincodeInstall_updateCRStatusOrFailReconcile K ?q w2"
    by (simp add: reconcile_install_def Let_def attempt_def io_try_apply pkg io_bind_apply i)
  have q: "crStatus ?q = RunningStatus" "crMessage ?q = []" "length (crConditions ?q) = 1" "FailedPeers ?q = f" "InstalledPeers ?q = i"
    by (simp_all add: installed_status_def mark_running_def put_condition_def SetCondition_def)
  have "FabricChaincodeInstall_updateCRStatusOrFailReconcile K ?q w2 = (Ok no_requeue, w3)"
    if "status_update K ?q w2 = (Ok q', w3)" "crStatus q' = RunningStatus" for q' w3
    using that by (simp add: FabricChaincodeInstall_updateCRStatusOrFailReconcile_def chaincode_update_def io_try_apply
        io_return_apply deployment_status_defs)
  then show ?thesis
    unfolding run using q(1-3) m by (intro exI [of _ ?q] exI [of _ w2]) (simp add: q(4,5))
qed

text \<open>A file system that accepts everything, and a lifecycle on which one peer refuses chaincode.\<close>

definition files_one :: "'w files" where
  "files_one = \<lparr>os_MkdirTemp = (\<lambda>_ _. io_return ''/tmp/p''), os_RemoveAll = (\<lambda>_. io_return ()), os_TempDir = ''/tmp'',
     os_Create = (\<lambda>_. io_return ()), os_Open = (\<lambda>_. io_return ()), os_Rename = (\<lambda>_ _. io_return ()),
     os_ReadFile = (\<lambda>_. io_return ''package''), file_Write = (\<lambda>_ _. io_return ()),
     file_Stat = (\<lambda>p. io_return (FileInfo p [])), tar_FileInfoHeader = (\<lambda>_. Ok \<lparr>header_Name = [], header_Attributes = []\<rparr>),
     tar_WriteHeader = (\<lambda>_ _. io_return ()), io_Copy = (\<lambda>_ _. io_return ()), archive_Close = (\<lambda>_. io_return ()),
     encode_Metadata = (\<lambda>_. Ok ''{}''), encode_Connection = (\<lambda>_. Ok ''{}''), filepath_Join = (\<lambda>a b. a @ ''/'' @ b),
     filepath_Base = (\<lambda>p. p), UnixNano = (\<lambda>_. 7)\<rparr>"

definition refusing :: "request_option list \<Rightarrow> bool" where
  "refusing opts \<longleftrightarrow> hd opts = WithTargetEndpoints ''grpcs://x:443''"

definition life_one :: "(unit, Channel, Channel, Channel) lifecycle" where
  "life_one = \<lparr>ch_lib = plain_lib, ch_hlf = hlf_one, ch_sdk = sdk_one, ch_files = files_one,
     LifecycleQueryCommittedCC = (\<lambda>_ _ _ _. io_return [1]),
     LifecycleQueryApprovedCC = (\<lambda>_ _ _ seq _. io_return \<lparr>approved_PackageID = ''cc:1'', approved_Sequence = seq\<rparr>),
     LifecycleApproveCC = (\<lambda>_ _ _ _. io_return ''tx1''), LifecycleCommitCC = (\<lambda>_ _ _ _. io_return ''tx2''),
     LifecycleInstallCC = (\<lambda>_ _ _ opts. if refusing opts then io_throw (ErrorString ''refused'') else io_return ()),
     ComputePackageID = (\<lambda>label _. label @ '':1''),
     policydsl_FromString = (\<lambda>s. if s = ''?'' then Err (ErrorString ''syntax'') else Ok (SignaturePolicyEnvelope s)),
     collections_Marshal = (\<lambda>_. Ok ''[]''), collections_Unmarshal = (\<lambda>_. Ok [])\<rparr>"

definition install_one :: FabricChaincodeInstall where
  "install_one = \<lparr>crName = ''cc'', crNamespace = [], Finalizers = [chaincodeInstallFinalizer], DeletionTimestamp = None,
     crConditions = [], crMessage = ''old'', crStatus = FailedStatus,
     ins_Spec = \<lparr>ins_Peers = [\<lparr>pref_Name = ''peer0'', pref_Namespace = ''ns''\<rparr>],
       ins_ExternalPeers = [\<lparr>pref_URL = ''grpcs://x:443'', pref_TLSCACert = ''x''\<rparr>], ins_MSPID = ''Org1MSP'',
       ins_HLFIdentity = \<lparr>id_SecretName = ''admin'', id_SecretNamespace = ''ns'', id_SecretKey = ''user.yaml''\<rparr>,
       ins_ChaincodePackage = \<lparr>pkg_Name = ''cc'', pkg_Address = ''cc:7052'', pkg_Type = ''ccaas'', pkg_DialTimeout = ''10s'',
         pkg_TLS = None\<rparr>\<rparr>,
     PackageID = [], FailedPeers = [], InstalledPeers = []\<rparr>"

lemma install_package_one: "install_package life_one pkg () = (Ok ''package'', ())"
  by (simp add: install_package_def life_one_def files_one_def generateChaincodePackage_def fill_package_def writeJSONFile_def
      createTarGz_def addFileToTar_def deferred_def Let_def io_simps)

theorem install_always_running_witness:
  "\<exists>q w2. reconcile_install life_one (client_one install_one) install_one (Some (ResClient ''m'')) ()
       = FabricChaincodeInstall_updateCRStatusOrFailReconcile (client_one install_one) q w2
     \<and> crStatus q = RunningStatus
     \<and> mset (map failed_Name (FailedPeers q)) + mset (map installed_Name (InstalledPeers q)) = mset [''peer0.ns'', ''grpcs://x:443'']"
proof -
  have "\<forall>t v. \<not> panics (fst (LifecycleInstallCC life_one (ResClient ''m'') (pkg_Name (ins_ChaincodePackage (ins_Spec install_one)))
      ''package'' (WithTargetEndpoints t # long_timeouts) v))"
    by (simp add: life_one_def io_simps)
  from install_always_running [OF install_package_one this, of "client_one install_one"]
  show ?thesis by (auto simp: install_one_def install_targets_def full_name_def)
qed

text \<open>What precedes an approval does not call it.\<close>

lemma approval_unused:
  "endorsement_policy (L\<lparr>LifecycleApproveCC := g\<rparr>) = endorsement_policy L"
  "collection_configs (L\<lparr>LifecycleApproveCC := g\<rparr>) = collection_configs L"
  "already_committed (L\<lparr>LifecycleApproveCC := g\<rparr>) = already_committed L"
  "must_approve (L\<lparr>LifecycleApproveCC := g\<rparr>) = must_approve L"
proof -
  let ?L = "L\<lparr>LifecycleApproveCC := g\<rparr>"
  have "getApplicationPolicy ?L = getApplicationPolicy L" by (simp add: fun_eq_iff getApplicationPolicy_def)
  then have "collection_policy ?L = collection_policy L" by (simp add: fun_eq_iff collection_policy_def split: option.split)
  then have config: "collection_config ?L = collection_config L" by (simp add: fun_eq_iff collection_config_def)
  have bytes: "GetCollectionConfigFromBytes ?L = GetCollectionConfigFromBytes L"
    by (simp add: fun_eq_iff GetCollectionConfigFromBytes_def config)
  show "endorsement_policy ?L = endorsement_policy L" "collection_configs ?L = collection_configs L"
    "already_committed ?L = already_committed L" "must_approve ?L = must_approve L"
    by (simp_all add: fun_eq_iff endorsement_policy_def collection_configs_def bytes already_committed_def must_approve_def)
qed


definition approve_one :: "string \<Rightarrow> FabricChaincodeApprove" where
  "approve_one status' = \<lparr>crName = ''cc'', crNamespace = [], Finalizers = [chaincodeApproveFinalizer], DeletionTimestamp = None,
     crConditions = [], crMessage = [], crStatus = status',
     app_Spec = \<lparr>cc_ChaincodeName = ''cc'', cc_ChannelName = ''demo'', cc_Version = ''1'', cc_Sequence = 2,
       cc_EndorsementPolicy = ''OR(A)'', cc_PrivateDataCollections = [], cc_InitRequired = False,
       cc_HLFIdentity = \<lparr>id_SecretName = ''admin'', id_SecretNamespace = ''ns'', id_SecretKey = ''user.yaml''\<rparr>,
       cc_MSPID = ''Org1MSP'', cc_Peers = [\<lparr>pref_Name = ''peer0'', pref_Namespace = ''ns''\<rparr>], cc_ExternalPeers = [],
       cc_Orderers = [], cc_ExternalOrderers = [], cc_PackageID = ''cc:1''\<rparr>, app_TransactionID = []\<rparr>"



definition collection_one :: PrivateDataCollection where
  "collection_one = \<lparr>pdc_Name = ''assets'', pdc_Policy = ''OR(A)'', pdc_RequiredPeerCount = None, pdc_MaxPeerCount = Some 3,
     pdc_BlockToLive = 100, pdc_MemberOnlyRead = True, pdc_MemberOnlyWrite = False, pdc_EndorsementPolicy = None\<rparr>"


text \<open>A live resource that has its finalizer, and a secret without the key.\<close>

definition live ::
  "('w, 'a custom_resource_scheme) client \<Rightarrow> string \<times> string \<Rightarrow> 'w \<Rightarrow> string \<Rightarrow> 'a custom_resource_scheme \<Rightarrow> 'w \<Rightarrow> bool" where
  "live K req w finalizer p w0 \<longleftrightarrow>
     client_get K req w = (Ok p, w0) \<and> DeletionTimestamp p = None \<and> finalizer \<in> set (Finalizers p)"

definition keyless ::
  "('w, 'b, 'c, 'x) lifecycle \<Rightarrow> ('w, string) io \<Rightarrow> HLFIdentity \<Rightarrow> 'w \<Rightarrow> bool" where
  "keyless L generate idConfig w \<longleftrightarrow> (\<exists>w1 w2 nc w3 sdk w4 data w5.
     kube_client (ch_lib L) w = (Ok (), w1) \<and> operator_client (ch_lib L) w1 = (Ok (), w2) \<and> generate w2 = (Ok nc, w3)
   \<and> fabsdk_New (ch_sdk L) nc w3 = (Ok sdk, w4)
   \<and> secrets_Get (ch_sdk L) (id_SecretNamespace idConfig) (id_SecretName idConfig) w4 = (Ok data, w5)
   \<and> data (id_SecretKey idConfig) = None)"

lemma keyless_panics:
  assumes "keyless L generate idConfig w"
  shows "fst (attempt fail (lifecycle_client L generate idConfig msp) (\<lambda>rc. defer_close rc (body rc)) w) = Panic nil_dereference"
proof -
  obtain w' where "lifecycle_client L generate idConfig msp w = (Ok None, w')"
    using assms unfolding keyless_def
    by (elim exE conjE) (simp add: lifecycle_client_def getResmgmtBasedOnIdentity_def io_bind_apply io_wrap_apply Let_def io_return_apply)
  then show ?thesis by (simp add: attempt_def io_try_apply defer_close_def)
qed

text \<open>
  A secret without the key of its resource panics the controller.  In the approve, commit and install
  controllers, when the network configuration has been generated and the secret is there but does not
  have the key, the reconciliation of a live resource ends in a panic; the resource is not marked as
  failed with an error, as the code of the other controllers does.
\<close>
theorem missing_key_panics:
  "(live Ka req w chaincodeApproveFinalizer p w0
      \<and> keyless L (GenerateNetworkConfigForChaincodeApprove (ch_hlf L) (app_Spec p) (cc_MSPID (app_Spec p))) (cc_HLFIdentity (app_Spec p)) w0
      \<longrightarrow> fst (Reconcile_approve L Ka req w) = Panic nil_dereference)
   \<and> (live Kc req w chaincodeCommitFinalizer q w0
      \<and> keyless L (GenerateNetworkConfigForChaincodeCommit (ch_hlf L) (com_Spec q) (cc_MSPID (com_Spec q))) (cc_HLFIdentity (com_Spec q)) w0
      \<longrightarrow> fst (Reconcile_commit L Kc req w) = Panic nil_dereference)
   \<and> (live Ki req w chaincodeInstallFinalizer r w0
      \<and> keyless L (io_wrap ''failed to generate network config''
          (GenerateNetworkConfigForChaincodeInstall (ch_hlf L) (ins_Spec r) (ins_MSPID (ins_Spec r)))) (ins_HLFIdentity (ins_Spec r)) w0
      \<longrightarrow> fst (Reconcile_install L Ki req w) = Panic nil_dereference)"
  unfolding live_def Reconcile_approve_def Reconcile_commit_def Reconcile_install_def
  by (intro conjI impI; elim conjE; subst with_resource_live; (assumption | rule keyless_panics))

theorem missing_key_panics_witness:
  "fst (Reconcile_install life_one (client_one install_one) ([], ''cc'') ()) = Panic nil_dereference"
proof -
  let ?gen = "io_wrap ''failed to generate network config'' (GenerateNetworkConfigForChaincodeInstall (ch_hlf life_one)
    (ins_Spec install_one) (ins_MSPID (ins_Spec install_one)))"
  have live: "live (client_one install_one) ([], ''cc'') () chaincodeInstallFinalizer install_one ()"
    by (simp add: live_def client_one_def install_one_def io_simps)
  have gen: "\<exists>nc. ?gen () = (Ok nc, ())"
    by (simp add: GenerateNetworkConfigForChaincodeInstall_def render_def install_network_def network_peers_def internal_peer_def
        life_one_def hlf_one_def install_one_def peer_one_def GetPeerPublicURL_def GetPeerHostPort_def io_simps)
  have "ch_lib life_one = plain_lib" "ch_sdk life_one = sdk_one" "id_SecretKey (ins_HLFIdentity (ins_Spec install_one)) = ''user.yaml''"
    by (simp_all add: life_one_def install_one_def)
  then have "keyless life_one ?gen (ins_HLFIdentity (ins_Spec install_one)) ()"
    using gen by (auto simp: keyless_def plain_lib_def sdk_one_def io_simps)
  then show ?thesis
    using missing_key_panics [where L = life_one and Ki = "client_one install_one" and r = install_one and w = "()" and ?w0.0 = "()"
        and req = "([], ''cc'')", THEN conjunct2, THEN conjunct2, THEN mp, OF conjI [OF live]] by blast
qed

end
