(* ===== verification/Enrollment.thy ===== *)
theory Enrollment imports Custom_Resource Cluster_Utils begin

text \<open>
  Getting certificates from a Fabric certificate authority: \<open>controllers/certs/provision_certs.go\<close>.
  The cryptography of Go's standard library and of \<open>bccsp\<close>, the Kubernetes secrets, the file system and
  the client of \<open>fabric-ca\<close> are parameters.
\<close>

section \<open>Certificates, keys and secrets\<close>

text \<open>A call that always returns: reading the clock or the environment, sleeping.\<close>

definition io_total :: "('w \<Rightarrow> 'a \<times> 'w) \<Rightarrow> ('w, 'a) io" where
  "io_total f = (\<lambda>w. (Ok (fst (f w)), snd (f w)))"

lemma io_total_apply [io_simps]: "io_total f w = (Ok (fst (f w)), snd (f w))"
  by (simp add: io_total_def)

lemma no_panic_total [no_panic_intros]: "no_panic (io_total f)"
  by (simp add: no_panic_def io_simps)

text \<open>Of a certificate the controllers read the raw bytes and the end of its validity.\<close>

record x509_certificate =
  x509_Raw :: string
  NotAfter :: time

datatype ecdsa_key = ECDSAKey string

named_theorems io_oks \<open>what it takes for code to end without an error\<close>

lemma io_wrap_Ok [io_oks]: "io_wrap t m w = (Ok a, w') \<longleftrightarrow> m w = (Ok a, w')"
  by (cases "m w") (auto simp: io_wrap_apply)

lemma io_lift_Ok [io_oks]: "io_lift r w = (Ok a, w') \<longleftrightarrow> r = Ok a \<and> w' = w"
  and io_return_Ok [io_oks]: "io_return b w = (Ok a, w') \<longleftrightarrow> b = a \<and> w' = w"
  and io_total_Ok [io_oks]: "io_total f w = (Ok c, w') \<longleftrightarrow> f w = (c, w')"
  by (auto simp: io_simps prod_eq_iff)

lemma io_try_Ok [io_oks]: "io_try m f h w = (Ok b, w') \<longleftrightarrow>
    (\<exists>a v. m w = (Ok a, v) \<and> f a v = (Ok b, w')) \<or> (\<exists>e v. m w = (Err e, v) \<and> h e v = (Ok b, w'))"
  by (auto simp: io_try_apply split: prod.split res.split)

lemma io_throw_Ok [io_oks]: "io_throw e w \<noteq> (Ok a, w')"
  by (simp add: io_throw_apply)

declare io_bind_Ok_iff [io_oks]

text \<open>
  \<open>secrets_of\<close> reads the data of the secret of a namespace and a name; a key that is not in the data
  reads as an empty value.
\<close>

record 'w crypto =
  time_Now :: "'w \<Rightarrow> time \<times> 'w"
  decode_pem :: "string \<Rightarrow> string option"
  encode_pem :: "string \<times> string \<Rightarrow> string"
  ParseCertificate :: "string \<Rightarrow> x509_certificate res"
  ParsePKCS8PrivateKey :: "string \<Rightarrow> (ecdsa_key \<times> bool) res"
  MarshalPKCS8PrivateKey :: "ecdsa_key \<Rightarrow> string res"
  base64_Decode :: "string \<Rightarrow> string res"
  secrets_of :: "string \<Rightarrow> string \<Rightarrow> ('w, string \<rightharpoonup> string) io"

definition secret_value :: "(string \<rightharpoonup> string) \<Rightarrow> string \<Rightarrow> string" where
  "secret_value data key = (case data key of None \<Rightarrow> [] | Some v \<Rightarrow> v)"

definition x509_of :: "'w crypto \<Rightarrow> string \<Rightarrow> x509_certificate res" where
  "x509_of K = ParseX509Certificate (decode_pem K) (ParseCertificate K)"

definition ecdsa_of :: "'w crypto \<Rightarrow> string \<Rightarrow> ecdsa_key res" where
  "ecdsa_of K = ParseECDSAPrivateKey (decode_pem K) (ParsePKCS8PrivateKey K)"

definition pem_of :: "'w crypto \<Rightarrow> x509_certificate \<Rightarrow> string" where
  "pem_of K = EncodeX509Certificate (encode_pem K) x509_Raw"

section \<open>The client of the certificate authority\<close>

datatype ca_identity = CAIdentity string
datatype bccsp_key = BCCSPKey string
datatype ca_signer = CASigner string
datatype revocation_request = RevocationRequest string

record attribute_request =
  attr_Name :: string
  attr_Optional :: bool

record ca_attribute =
  attribute_Name :: string
  attribute_Value :: string
  attribute_ECert :: bool

record ClientTLSConfig =
  tls_Enabled :: bool
  CertFiles :: "string list"

record ca_client =
  HomeDir :: string
  client_URL :: string
  client_TLS :: ClientTLSConfig

record api_EnrollmentRequest =
  er_Name :: string
  er_Secret :: string
  er_CAName :: string
  er_AttrReqs :: "attribute_request list"
  er_Profile :: string
  er_Label :: string
  er_Type :: string
  er_CSR :: "(string list \<times> string) option"

record api_ReenrollmentRequest =
  rr_CAName :: string
  rr_AttrReqs :: "attribute_request list"
  rr_Profile :: string
  rr_Label :: string
  rr_Hosts :: "string list"
  rr_CN :: string
  rr_ReuseKey :: bool

record api_RegistrationRequest =
  reg_Name :: string
  reg_Type :: string
  MaxEnrollments :: int
  Affiliation :: string
  reg_Attributes :: "ca_attribute list"
  reg_CAName :: string
  reg_Secret :: string

text \<open>Of the answer to \<open>GetCAInfo\<close> the code reads the chain.\<close>

record 'w ca_lib =
  TempDir :: "string \<Rightarrow> ('w, string) io"
  TempFile :: "string \<Rightarrow> ('w, string) io"
  temp_Write :: "string \<Rightarrow> string \<Rightarrow> ('w, unit) io"
  ReadDir :: "string \<Rightarrow> ('w, string list) io"
  ReadFile :: "string \<Rightarrow> ('w, string) io"
  path_Join :: "string list \<Rightarrow> string"
  client_Init :: "ca_client \<Rightarrow> ('w, unit) io"
  client_Enroll :: "ca_client \<Rightarrow> api_EnrollmentRequest \<Rightarrow> ('w, ca_identity) io"
  client_GetCAInfo :: "ca_client \<Rightarrow> string \<Rightarrow> ('w, string) io"
  client_LoadMyIdentity :: "ca_client \<Rightarrow> ('w, ca_identity) io"
  client_KeyImport :: "ca_client \<Rightarrow> string \<Rightarrow> ('w, bccsp_key) io"
  PrivateKeyToDER :: "ecdsa_key \<Rightarrow> string res"
  NewSigner :: "bccsp_key \<Rightarrow> string \<Rightarrow> ca_signer res"
  NewIdentity :: "ca_client \<Rightarrow> string \<Rightarrow> ca_signer \<Rightarrow> ca_identity res"
  GetX509Cert :: "ca_identity \<Rightarrow> x509_certificate"
  identity_Register :: "ca_identity \<Rightarrow> api_RegistrationRequest \<Rightarrow> ('w, string) io"
  identity_Reenroll :: "ca_identity \<Rightarrow> api_ReenrollmentRequest \<Rightarrow> ('w, ca_identity) io"
  identity_Revoke :: "ca_identity \<Rightarrow> revocation_request \<Rightarrow> ('w, unit) io"

section \<open>Requests\<close>

record FabricCAParams =
  cap_TLSCert :: string
  cap_URL :: string
  cap_Name :: string
  cap_MSPID :: string
  cap_EnrollID :: string
  cap_EnrollSecret :: string

record EnrollUserRequest =
  eu_TLSCert :: string
  eu_URL :: string
  eu_Name :: string
  eu_MSPID :: string
  eu_User :: string
  eu_Secret :: string
  eu_Hosts :: "string list"
  eu_CN :: string
  eu_Profile :: string
  eu_Attributes :: "attribute_request list"

record ReenrollUserRequest =
  ru_EnrollID :: string
  ru_TLSCert :: string
  ru_URL :: string
  ru_Name :: string
  ru_MSPID :: string
  ru_Hosts :: "string list"
  ru_CN :: string
  ru_Profile :: string
  ru_Attributes :: "attribute_request list"

record RevokeUserRequest =
  rev_TLSCert :: string
  rev_URL :: string
  rev_Name :: string
  rev_MSPID :: string
  rev_EnrollID :: string
  rev_EnrollSecret :: string
  rev_Request :: revocation_request

record RegisterUserRequest =
  rg_TLSCert :: string
  rg_URL :: string
  rg_Name :: string
  rg_MSPID :: string
  rg_EnrollID :: string
  rg_EnrollSecret :: string
  rg_User :: string
  rg_Secret :: string
  rg_Type :: string
  rg_Attributes :: "ca_attribute list"

record GetCAInfoRequest =
  gi_TLSCert :: string
  gi_URL :: string
  gi_Name :: string
  gi_MSPID :: string

section \<open>The functions\<close>

text \<open>
  \<open>GetClient\<close>.  When the temporary directory or file cannot be made the code returns \<open>nil, nil\<close>: no
  client and no error, which is \<open>None\<close> here.  A method called on that client dereferences it.
\<close>

definition tls_client :: "string \<Rightarrow> FabricCAParams \<Rightarrow> string list \<Rightarrow> ca_client" where
  "tls_client home ca files = \<lparr>HomeDir = home, client_URL = cap_URL ca,
     client_TLS = \<lparr>tls_Enabled = files \<noteq> [], CertFiles = files\<rparr>\<rparr>"

definition init_client :: "'w ca_lib \<Rightarrow> ca_client \<Rightarrow> ('w, ca_client option) io" where
  "init_client A client = io_bind (client_Init A client) (\<lambda>_. io_return (Some client))"

definition GetClient :: "'w ca_lib \<Rightarrow> FabricCAParams \<Rightarrow> ('w, ca_client option) io" where
  "GetClient A ca =
     io_try (TempDir A ''fabric-ca-client'')
       (\<lambda>caHomeDir.
          if cap_TLSCert ca \<noteq> []
          then io_try (TempFile A ''ca-cert'')
                 (\<lambda>caCertFile. io_try (temp_Write A caCertFile (cap_TLSCert ca))
                    (\<lambda>_. init_client A (tls_client caHomeDir ca [caCertFile]))
                    (\<lambda>_. io_return None))
                 (\<lambda>_. io_return None)
          else init_client A (tls_client caHomeDir ca []))
       (\<lambda>_. io_return None)"

definition on_ca :: "ca_client option \<Rightarrow> (ca_client \<Rightarrow> ('w, 'a) io) \<Rightarrow> ('w, 'a) io" where
  "on_ca caClient f = (case caClient of None \<Rightarrow> io_panic ''nil pointer dereference'' | Some c \<Rightarrow> f c)"

definition ca_params :: "string \<Rightarrow> string \<Rightarrow> string \<Rightarrow> string \<Rightarrow> FabricCAParams" where
  "ca_params tls url name msp = \<lparr>cap_TLSCert = tls, cap_URL = url, cap_Name = name, cap_MSPID = msp,
     cap_EnrollID = [], cap_EnrollSecret = []\<rparr>"

definition RevokeUser :: "'w ca_lib \<Rightarrow> RevokeUserRequest \<Rightarrow> ('w, unit) io" where
  "RevokeUser A params =
     io_bind (GetClient A (ca_params (rev_TLSCert params) (rev_URL params) (rev_Name params) (rev_MSPID params)
         \<lparr>cap_EnrollID := rev_EnrollID params, cap_EnrollSecret := rev_EnrollSecret params\<rparr>)) (\<lambda>caClient.
     io_bind (on_ca caClient (client_LoadMyIdentity A)) (\<lambda>myIdentity.
       identity_Revoke A myIdentity (rev_Request params)))"

definition RegisterUser :: "'w ca_lib \<Rightarrow> RegisterUserRequest \<Rightarrow> ('w, string) io" where
  "RegisterUser A params =
     io_bind (GetClient A (ca_params (rg_TLSCert params) (rg_URL params) (rg_Name params) (rg_MSPID params)
         \<lparr>cap_EnrollID := rg_EnrollID params, cap_EnrollSecret := rg_EnrollSecret params\<rparr>)) (\<lambda>caClient.
     io_bind (on_ca caClient (\<lambda>c. client_Enroll A c
         \<lparr>er_Name = rg_EnrollID params, er_Secret = rg_EnrollSecret params, er_CAName = rg_Name params,
          er_AttrReqs = [], er_Profile = [], er_Label = [], er_Type = rg_Type params, er_CSR = None\<rparr>)) (\<lambda>enrolled.
       identity_Register A enrolled
         \<lparr>reg_Name = rg_User params, reg_Type = rg_Type params, MaxEnrollments = -1, Affiliation = [],
          reg_Attributes = rg_Attributes params, reg_CAName = rg_Name params, reg_Secret = rg_Secret params\<rparr>))"

definition GetCAInfo :: "'w ca_lib \<Rightarrow> GetCAInfoRequest \<Rightarrow> ('w, string) io" where
  "GetCAInfo A params =
     io_bind (GetClient A (ca_params (gi_TLSCert params) (gi_URL params) (gi_Name params) (gi_MSPID params)))
       (\<lambda>caClient. on_ca caClient (\<lambda>c. client_GetCAInfo A c []))"

text \<open>The root certificate of an authority.\<close>

definition ca_root :: "'w crypto \<Rightarrow> 'w ca_lib \<Rightarrow> ca_client option \<Rightarrow> string \<Rightarrow> ('w, x509_certificate) io" where
  "ca_root K A caClient name =
     io_bind (on_ca caClient (\<lambda>c. client_GetCAInfo A c name)) (\<lambda>chain. io_lift (x509_of K chain))"

definition reenroll_request :: "ReenrollUserRequest \<Rightarrow> api_ReenrollmentRequest" where
  "reenroll_request params = \<lparr>rr_CAName = ru_Name params, rr_AttrReqs = ru_Attributes params,
     rr_Profile = ru_Profile params, rr_Label = [], rr_Hosts = ru_Hosts params, rr_CN = ru_CN params,
     rr_ReuseKey = True\<rparr>"

text \<open>The key, which the first message prints too, is left out of it.\<close>

definition ReenrollUser ::
  "'w crypto \<Rightarrow> 'w ca_lib \<Rightarrow> ReenrollUserRequest \<Rightarrow> string \<Rightarrow> ecdsa_key
   \<Rightarrow> ('w, x509_certificate \<times> x509_certificate) io" where
  "ReenrollUser K A params certPem ecdsaKey =
     io_bind (GetClient A (ca_params (ru_TLSCert params) (ru_URL params) (ru_Name params) (ru_MSPID params))) (\<lambda>caClient.
     io_bind (io_wrap ''Failed to convert ECDSA private key'' (io_lift (PrivateKeyToDER A ecdsaKey))) (\<lambda>priv.
     io_bind (io_wrap ''Error importing private key'' (on_ca caClient (\<lambda>c. client_KeyImport A c priv))) (\<lambda>bccspKey.
     io_bind (io_wrap ''Error creating signer'' (io_lift (NewSigner A bccspKey certPem))) (\<lambda>signer.
     io_bind (io_wrap ''Error setting credential value''
       (on_ca caClient (\<lambda>c. io_lift (NewIdentity A c (ru_EnrollID params) signer)))) (\<lambda>id'.
     io_bind (io_wrap (''Error reenrolling user '' @ [CHR 0x27] @ ru_EnrollID params @ [CHR 0x27])
       (identity_Reenroll A id' (reenroll_request params))) (\<lambda>reenrolled.
     io_bind (ca_root K A caClient (ru_Name params)) (\<lambda>rootCrt.
       io_return (GetX509Cert A reenrolled, rootCrt))))))))"

definition readKey :: "'w crypto \<Rightarrow> 'w ca_lib \<Rightarrow> ca_client \<Rightarrow> ('w, ecdsa_key) io" where
  "readKey K A client =
     (let keystoreDir = path_Join A [HomeDir client, ''msp'', ''keystore''] in
      io_bind (ReadDir A keystoreDir) (\<lambda>files. case files of
          [] \<Rightarrow> io_throw (ErrorString ''no key found in keystore'')
        | f # _ # _ \<Rightarrow> io_throw (ErrorString ''multiple keys found in keystore'')
        | [f] \<Rightarrow>
            (let keyPath = path_Join A [keystoreDir, f] in
             io_bind (io_wrap (''failed to read key file '' @ keyPath) (ReadFile A keyPath)) (\<lambda>keyBytes.
               io_wrap (''failed to parse key file '' @ keyPath) (io_lift (ecdsa_of K keyBytes))))))"

definition enroll_request :: "EnrollUserRequest \<Rightarrow> api_EnrollmentRequest" where
  "enroll_request params = \<lparr>er_Name = eu_User params, er_Secret = eu_Secret params, er_CAName = eu_Name params,
     er_AttrReqs = eu_Attributes params, er_Profile = eu_Profile params, er_Label = [], er_Type = ''x509'',
     er_CSR = Some (eu_Hosts params, eu_CN params)\<rparr>"

definition EnrollUser ::
  "'w crypto \<Rightarrow> 'w ca_lib \<Rightarrow> EnrollUserRequest \<Rightarrow> ('w, x509_certificate \<times> ecdsa_key \<times> x509_certificate) io" where
  "EnrollUser K A params =
     io_bind (GetClient A (ca_params (eu_TLSCert params) (eu_URL params) (eu_Name params) (eu_MSPID params))) (\<lambda>caClient.
     io_bind (on_ca caClient (\<lambda>c. client_Enroll A c (enroll_request params))) (\<lambda>enrolled.
     io_bind (ca_root K A caClient (eu_Name params)) (\<lambda>rootCrt.
     io_bind (on_ca caClient (readKey K A)) (\<lambda>userKey.
       io_return (GetX509Cert A enrolled, userKey, rootCrt)))))"

end
