(* ===== verification/Vault_PKI.thy ===== *)
theory Vault_PKI imports Enrollment begin

text \<open>
  The same services from a HashiCorp Vault: \<open>controllers/certs_vault/provision_certs.go\<close>.  The Vault
  client, the generation of keys and the signing of certificates are the parameter \<open>vault_lib\<close>.
\<close>

section \<open>Configuration\<close>

text \<open>Of the configuration of a Vault, the fields the code reads.\<close>

record VaultSecretRef =
  vsr_Name :: string
  vsr_Namespace :: string
  vsr_Key :: string

record VaultSpecConf =
  vault_URL :: string
  TokenSecretRef :: "VaultSecretRef option"
  vault_Role :: string
  SecretIdSecretRef :: "VaultSecretRef option"
  ServerCert :: string
  vault_ServerName :: string
  ClientCert :: string
  ClientKeySecretRef :: "VaultSecretRef option"
  vault_CACert :: string
  TLSSkipVerify :: bool
  vault_Timeout :: string
  MaxRetries :: int

record VaultPKICertificateRequest =
  PKI :: string
  pki_Role :: string
  TTL :: string

record VaultComponent =
  vc_Request :: VaultPKICertificateRequest
  vc_Vault :: VaultSpecConf

record FabricCASubject =
  subject_CN :: string
  subject_C :: string
  subject_ST :: string
  subject_O :: string
  subject_L :: string
  subject_OU :: string

section \<open>The Vault client\<close>

datatype vault_client = VaultClient string

text \<open>JSON values of requests and answers; the code only tells strings from others.\<close>

datatype vault_value = VString string | VBool bool | VOther

record vault_tls =
  vt_ServerName :: string
  ClientCertificate :: string
  ClientCertificateKey :: string
  ServerCertificate :: string
  vt_InsecureSkipVerify :: bool

text \<open>The options the client is made with; \<open>None\<close> is the time-out of the default configuration.\<close>

record vault_config =
  vault_Address :: string
  RequestTimeout :: "int option"
  RetryMax :: int
  vault_TLS :: vault_tls

record certificate_template =
  SerialNumber :: int
  template_Subject :: FabricCASubject
  NotBefore :: time
  template_NotAfter :: time
  KeyUsage :: "string list"
  ExtKeyUsage :: "string list"
  BasicConstraintsValid :: bool
  IsCA :: bool

record 'w vault_lib =
  vault_New :: "vault_config \<Rightarrow> ('w, vault_client) io"
  SetToken :: "string \<Rightarrow> vault_client \<Rightarrow> vault_client"
  vault_Write :: "vault_client \<Rightarrow> string \<Rightarrow> (string \<rightharpoonup> vault_value) \<Rightarrow> ('w, string \<rightharpoonup> vault_value) io"
  KvV2Read :: "vault_client \<Rightarrow> string \<Rightarrow> ('w, (string \<rightharpoonup> vault_value) option) io"
  KvV2Write :: "vault_client \<Rightarrow> string \<Rightarrow> (string \<rightharpoonup> vault_value) \<Rightarrow> ('w, unit) io"
  vault_ParseDuration :: "string \<Rightarrow> int res"
  GenerateKey :: "('w, ecdsa_key) io"
  rand_Serial :: "('w, int) io"
  AddDate :: "int \<Rightarrow> int \<Rightarrow> int \<Rightarrow> time \<Rightarrow> time"
  CreateCertificateRequest :: "string \<Rightarrow> string list \<Rightarrow> ecdsa_key \<Rightarrow> ('w, string) io"
  CreateCertificate :: "certificate_template \<Rightarrow> ecdsa_key \<Rightarrow> ('w, string) io"
  ParseECPrivateKey :: "string \<Rightarrow> ecdsa_key res"
  MarshalECPrivateKey :: "ecdsa_key \<Rightarrow> string res"
  InClusterConfig :: "('w, unit) io"
  NewForConfig :: "('w, unit) io"

section \<open>GetClient\<close>

definition no_tls :: vault_tls where
  "no_tls = \<lparr>vt_ServerName = [], ClientCertificate = [], ClientCertificateKey = [], ServerCertificate = [],
     vt_InsecureSkipVerify = False\<rparr>"

definition namespace_or_default :: "string \<Rightarrow> string" where
  "namespace_or_default ns = (if ns = [] then ''default'' else ns)"

text \<open>A key of a secret, which has to be there.\<close>

definition referenced :: "'w crypto \<Rightarrow> string \<Rightarrow> string \<Rightarrow> VaultSecretRef \<Rightarrow> ('w, string) io" where
  "referenced K failed where' ref =
     io_bind (io_wrap failed (secrets_of K (namespace_or_default (vsr_Namespace ref)) (vsr_Name ref))) (\<lambda>data.
       case data (vsr_Key ref) of
         None \<Rightarrow> io_throw (ErrorString (''key '' @ vsr_Key ref @ '' not found in '' @ where'))
       | Some v \<Rightarrow> io_return v)"

definition vault_tls_of :: "'w crypto \<Rightarrow> VaultSpecConf \<Rightarrow> ('w, vault_tls) io" where
  "vault_tls_of K spec = (case (ClientCert spec \<noteq> [], ClientKeySecretRef spec) of
       (True, Some ref) \<Rightarrow>
         io_bind (referenced K ''failed to get client key secret'' ''the secret'' ref) (\<lambda>clientKey.
         io_return \<lparr>vt_ServerName = vault_ServerName spec, ClientCertificate = ClientCert spec,
           ClientCertificateKey = clientKey, ServerCertificate = ServerCert spec,
           vt_InsecureSkipVerify = TLSSkipVerify spec\<rparr>)
     | _ \<Rightarrow> io_return
         (if TLSSkipVerify spec then no_tls\<lparr>vt_InsecureSkipVerify := True\<rparr>
          else if vault_CACert spec \<noteq> [] then no_tls\<lparr>ServerCertificate := vault_CACert spec,
                 vt_InsecureSkipVerify := TLSSkipVerify spec\<rparr>
          else no_tls))"

definition vault_timeout :: "'w vault_lib \<Rightarrow> VaultSpecConf \<Rightarrow> int option res" where
  "vault_timeout V spec = (if vault_Timeout spec \<noteq> []
     then res_bind (res_wrap ''invalid timeout format'' (vault_ParseDuration V (vault_Timeout spec))) (\<lambda>t. Ok (Some t))
     else Ok None)"

definition authenticate :: "'w crypto \<Rightarrow> 'w vault_lib \<Rightarrow> VaultSpecConf \<Rightarrow> vault_client \<Rightarrow> ('w, vault_client) io" where
  "authenticate K V spec client =
     (let other = (if vault_Role spec \<noteq> [] \<and> SecretIdSecretRef spec \<noteq> None
          then io_throw (ErrorString ''role and secretId not implemented yet'')
          else io_throw (ErrorString ''no authentication method provided for Vault'')) in
      case TokenSecretRef spec of
        Some ref \<Rightarrow> (if vsr_Name ref \<noteq> []
          then io_bind (referenced K ''failed to get token secret'' ''token secret'' ref)
                 (\<lambda>token. io_return (SetToken V token client))
          else other)
      | None \<Rightarrow> other)"

definition vault_GetClient :: "'w crypto \<Rightarrow> 'w vault_lib \<Rightarrow> VaultSpecConf \<Rightarrow> ('w, vault_client) io" where
  "vault_GetClient K V spec =
     io_bind (vault_tls_of K spec) (\<lambda>tls.
     io_bind (io_lift (vault_timeout V spec)) (\<lambda>timeout.
     io_bind (io_wrap ''failed to create Vault client'' (vault_New V
         \<lparr>vault_Address = vault_URL spec, RequestTimeout = timeout, RetryMax = MaxRetries spec, vault_TLS = tls\<rparr>))
       (authenticate K V spec)))"

section \<open>Users\<close>

record vault_EnrollUserRequest =
  ve_MSPID :: string
  ve_User :: string
  ve_Hosts :: "string list"
  ve_CN :: string

record vault_ReenrollUserRequest =
  vr_EnrollID :: string
  vr_MSPID :: string
  vr_Hosts :: "string list"
  vr_CN :: string

text \<open>\<open>secret.Data[key].(string)\<close>, which panics on anything else.\<close>

definition must_string :: "vault_value option \<Rightarrow> string res" where
  "must_string v = (case v of Some (VString s) \<Rightarrow> Ok s | _ \<Rightarrow> Panic ''interface conversion'')"

definition pem_certificate :: "'w crypto \<Rightarrow> string \<Rightarrow> string \<Rightarrow> string \<Rightarrow> x509_certificate res" where
  "pem_certificate K decode_failed parse_failed pem = (case decode_pem K pem of
       None \<Rightarrow> Err (ErrorString decode_failed)
     | Some der \<Rightarrow> res_wrap parse_failed (ParseCertificate K der))"

text \<open>The certificate and the certificate of its issuer in an answer of the PKI engine.\<close>

definition issued :: "'w crypto \<Rightarrow> (string \<rightharpoonup> vault_value) \<Rightarrow> (x509_certificate \<times> x509_certificate) res" where
  "issued K data =
     res_bind (must_string (data ''certificate'')) (\<lambda>certPEM.
     res_bind (pem_certificate K ''failed to decode certificate PEM'' ''failed to parse certificate'' certPEM) (\<lambda>cert.
     res_bind (must_string (data ''issuing_ca'')) (\<lambda>caPEM.
     res_bind (pem_certificate K ''failed to decode CA certificate PEM'' ''failed to parse CA certificate'' caPEM) (\<lambda>caCert.
       Ok (cert, caCert)))))"

definition with_ttl :: "VaultPKICertificateRequest \<Rightarrow> (string \<rightharpoonup> vault_value) \<Rightarrow> (string \<rightharpoonup> vault_value)" where
  "with_ttl request m = (if TTL request \<noteq> [] then m(''ttl'' \<mapsto> VString (TTL request)) else m)"

definition reissue_data :: "VaultPKICertificateRequest \<Rightarrow> vault_ReenrollUserRequest \<Rightarrow> (string \<rightharpoonup> vault_value)" where
  "reissue_data request params =
     (let csrData = [''common_name'' \<mapsto> VString (vr_EnrollID params), ''key_type'' \<mapsto> VString ''ec''];
          csrData = (if vr_Hosts params \<noteq> [] then csrData(''alt_names'' \<mapsto> VString (join_with '','' (vr_Hosts params))) else csrData);
          csrData = (if vr_CN params \<noteq> [] then csrData(''common_name'' \<mapsto> VString (vr_CN params)) else csrData)
      in with_ttl request csrData)"

text \<open>The certificate in PEM form and the key are arguments of the code that it does not read.\<close>

definition vault_ReenrollUser ::
  "'w crypto \<Rightarrow> 'w vault_lib \<Rightarrow> VaultSpecConf \<Rightarrow> VaultPKICertificateRequest \<Rightarrow> vault_ReenrollUserRequest
   \<Rightarrow> string \<Rightarrow> ecdsa_key \<Rightarrow> ('w, x509_certificate \<times> x509_certificate) io" where
  "vault_ReenrollUser K V spec request params certPem ecdsaKey =
     io_bind (vault_GetClient K V spec) (\<lambda>vaultClient.
     io_bind (io_wrap ''failed to issue certificate from Vault PKI''
       (vault_Write V vaultClient ''pki/issue/fabric'' (reissue_data request params))) (\<lambda>secret.
       io_lift (issued K secret)))"

definition sign_data :: "VaultPKICertificateRequest \<Rightarrow> string \<Rightarrow> string \<Rightarrow> (string \<rightharpoonup> vault_value)" where
  "sign_data request csrPEM commonName =
     with_ttl request [''csr'' \<mapsto> VString csrPEM, ''common_name'' \<mapsto> VString commonName,
       ''use_csr_common_name'' \<mapsto> VBool True, ''use_csr_sans'' \<mapsto> VBool True]"

definition vault_EnrollUser ::
  "'w crypto \<Rightarrow> 'w vault_lib \<Rightarrow> VaultSpecConf \<Rightarrow> VaultPKICertificateRequest \<Rightarrow> vault_EnrollUserRequest
   \<Rightarrow> ('w, x509_certificate \<times> ecdsa_key \<times> x509_certificate) io" where
  "vault_EnrollUser K V vaultConf request params =
     io_bind (vault_GetClient K V vaultConf) (\<lambda>vaultClient.
     io_bind (io_wrap ''failed to generate private key'' (GenerateKey V)) (\<lambda>privateKey.
     let commonName = (if ve_CN params \<noteq> [] then ve_CN params else ve_User params) in
     io_bind (io_wrap ''failed to create CSR'' (CreateCertificateRequest V commonName (ve_Hosts params) privateKey)) (\<lambda>csrDER.
     io_bind (io_wrap ''failed to sign CSR with Vault PKI''
       (vault_Write V vaultClient (PKI request @ ''/sign/'' @ pki_Role request)
         (sign_data request (encode_pem K (''CERTIFICATE REQUEST'', csrDER)) commonName))) (\<lambda>secret.
     io_bind (io_lift (issued K secret)) (\<lambda>(cert, caCert). io_return (cert, privateKey, caCert))))))"

section \<open>What is not implemented\<close>

definition convertToVaultConfig :: "FabricCAParams \<Rightarrow> VaultSpecConf" where
  "convertToVaultConfig params = \<lparr>vault_URL = cap_URL params, TokenSecretRef = None, vault_Role = [],
     SecretIdSecretRef = None, ServerCert = cap_TLSCert params, vault_ServerName = [], ClientCert = [],
     ClientKeySecretRef = None, vault_CACert = [], TLSSkipVerify = True, vault_Timeout = [], MaxRetries = 0\<rparr>"

definition not_implemented :: "'w crypto \<Rightarrow> 'w vault_lib \<Rightarrow> FabricCAParams \<Rightarrow> string \<Rightarrow> ('w, 'a) io" where
  "not_implemented K V params what =
     io_bind (io_wrap ''failed to get in-cluster config'' (InClusterConfig V)) (\<lambda>_.
     io_bind (io_wrap ''failed to create Kubernetes client'' (NewForConfig V)) (\<lambda>_.
     io_bind (vault_GetClient K V (convertToVaultConfig params)) (\<lambda>_.
       io_throw (ErrorString (what @ '' functionality not implemented for Vault yet'')))))"

definition vault_RevokeUser :: "'w crypto \<Rightarrow> 'w vault_lib \<Rightarrow> RevokeUserRequest \<Rightarrow> ('w, unit) io" where
  "vault_RevokeUser K V params = not_implemented K V
     \<lparr>cap_TLSCert = rev_TLSCert params, cap_URL = rev_URL params, cap_Name = rev_Name params,
      cap_MSPID = rev_MSPID params, cap_EnrollID = rev_EnrollID params, cap_EnrollSecret = rev_EnrollSecret params\<rparr>
     ''RevokeUser''"

definition vault_RegisterUser :: "'w crypto \<Rightarrow> 'w vault_lib \<Rightarrow> RegisterUserRequest \<Rightarrow> ('w, string) io" where
  "vault_RegisterUser K V params = not_implemented K V
     \<lparr>cap_TLSCert = rg_TLSCert params, cap_URL = rg_URL params, cap_Name = rg_Name params,
      cap_MSPID = rg_MSPID params, cap_EnrollID = rg_EnrollID params, cap_EnrollSecret = rg_EnrollSecret params\<rparr>
     ''RegisterUser''"

definition vault_GetCAInfo :: "'w crypto \<Rightarrow> 'w vault_lib \<Rightarrow> GetCAInfoRequest \<Rightarrow> ('w, string) io" where
  "vault_GetCAInfo K V params = not_implemented K V
     (ca_params (gi_TLSCert params) (gi_URL params) (gi_Name params) (gi_MSPID params)) ''GetCAInfo''"

section \<open>Certificate authorities\<close>

record CreateCARequest =
  cc_CAName :: string
  cc_Subject :: FabricCASubject
  cc_Serial :: "int option"

definition string_field :: "(string \<rightharpoonup> vault_value) \<Rightarrow> string \<Rightarrow> string \<Rightarrow> string res" where
  "string_field data key failed = (case data key of Some (VString s) \<Rightarrow> Ok s | _ \<Rightarrow> Err (ErrorString failed))"

text \<open>The authority a Vault already holds.\<close>

definition stored_ca :: "'w crypto \<Rightarrow> 'w vault_lib \<Rightarrow> (string \<rightharpoonup> vault_value) \<Rightarrow> (x509_certificate \<times> ecdsa_key) res" where
  "stored_ca K V data =
     res_bind (string_field data ''certificate'' ''failed to retrieve certificate from Vault'') (\<lambda>certPEM.
     res_bind (string_field data ''private_key'' ''failed to retrieve private key from Vault'') (\<lambda>keyPEM.
     res_bind (pem_certificate K ''failed to parse certificate PEM'' ''failed to parse certificate'' certPEM) (\<lambda>cert.
     res_bind (case decode_pem K keyPEM of
         None \<Rightarrow> Err (ErrorString ''failed to parse private key PEM'')
       | Some der \<Rightarrow> res_wrap ''failed to parse private key'' (ParseECPrivateKey V der)) (\<lambda>key.
       Ok (cert, key)))))"

definition ca_template :: "'w vault_lib \<Rightarrow> FabricCASubject \<Rightarrow> int \<Rightarrow> time \<Rightarrow> time \<Rightarrow> certificate_template" where
  "ca_template V subject serial before after = \<lparr>SerialNumber = serial, template_Subject = subject,
     NotBefore = AddDate V 0 0 (-1) before, template_NotAfter = AddDate V 10 0 0 after,
     KeyUsage = [''KeyEncipherment'', ''DigitalSignature'', ''CertSign''],
     ExtKeyUsage = [''ServerAuth'', ''ClientAuth''], BasicConstraintsValid = True, IsCA = True\<rparr>"

definition ca_path :: "string \<Rightarrow> string" where
  "ca_path name = ''secret/data/hlf-ca/'' @ name"

text \<open>A new self-signed authority, which is stored before it is returned.\<close>

definition new_ca ::
  "'w crypto \<Rightarrow> 'w vault_lib \<Rightarrow> CreateCARequest \<Rightarrow> vault_client \<Rightarrow> ('w, x509_certificate \<times> ecdsa_key) io" where
  "new_ca K V req client =
     io_bind (case cc_Serial req of Some n \<Rightarrow> io_return n
       | None \<Rightarrow> io_wrap ''failed to generate serial number'' (rand_Serial V)) (\<lambda>serialNumber.
     io_bind (io_wrap ''failed to generate private key'' (GenerateKey V)) (\<lambda>caPrivKey.
     io_bind (io_total (time_Now K)) (\<lambda>before. io_bind (io_total (time_Now K)) (\<lambda>after.
     io_bind (io_wrap ''failed to create certificate''
       (CreateCertificate V (ca_template V (cc_Subject req) serialNumber before after) caPrivKey)) (\<lambda>certBytes.
     io_bind (io_wrap ''failed to marshal private key'' (io_lift (MarshalECPrivateKey V caPrivKey))) (\<lambda>privKeyBytes.
     io_bind (io_wrap ''failed to store CA in Vault'' (KvV2Write V client (ca_path (cc_CAName req))
       [''certificate'' \<mapsto> VString (encode_pem K (''CERTIFICATE'', certBytes)),
        ''private_key'' \<mapsto> VString (encode_pem K (''EC PRIVATE KEY'', privKeyBytes))])) (\<lambda>_.
     io_bind (io_wrap ''failed to parse certificate'' (io_lift (ParseCertificate K certBytes))) (\<lambda>crt.
       io_return (crt, caPrivKey)))))))))"

definition CreateCA ::
  "'w crypto \<Rightarrow> 'w vault_lib \<Rightarrow> CreateCARequest \<Rightarrow> vault_client \<Rightarrow> ('w, x509_certificate \<times> ecdsa_key) io" where
  "CreateCA K V req vaultClient =
     io_try (KvV2Read V vaultClient (ca_path (cc_CAName req)))
       (\<lambda>secret. case secret of
            Some data \<Rightarrow> io_lift (stored_ca K V data)
          | None \<Rightarrow> new_ca K V req vaultClient)
       (\<lambda>_. new_ca K V req vaultClient)"

definition CreateDefaultCAWithVault ::
  "'w crypto \<Rightarrow> 'w vault_lib \<Rightarrow> vault_client \<Rightarrow> CreateCARequest \<Rightarrow> ('w, x509_certificate \<times> ecdsa_key) io" where
  "CreateDefaultCAWithVault K V vaultClient caReq = CreateCA K V caReq vaultClient"

end
