(* ===== verification/Node_Crypto.thy ===== *)
theory Node_Crypto imports Vault_PKI Cluster_Lookup begin

text \<open>
  The certificates of peers and ordering nodes: reading those a node has from its secrets, enrolling for
  new ones and renewing them, with a Fabric certificate authority or with Vault.  The peer and the
  ordering node controller have a copy of each function; what the copies share is stated once, and each
  controller has its own definition where they differ.
\<close>

section \<open>The enrolment of a node\<close>

record SecretRefNSKey =
  srk_Name :: string
  srk_Namespace :: string
  srk_Key :: string

record Catls =
  Cacert :: string
  catls_SecretRef :: "SecretRefNSKey option"

record ExternalCertificate =
  ext_SecretName :: string
  ext_SecretNamespace :: string
  RootCertificateKey :: string
  CertificateKey :: string
  PrivateKeyKey :: string

record Component =
  Cahost :: string
  Caname :: string
  Caport :: int
  comp_Catls :: "Catls option"
  Enrollid :: string
  Enrollsecret :: string
  comp_External :: "ExternalCertificate option"
  comp_Vault :: "VaultComponent option"

record Csr =
  csr_Hosts :: "string list"
  csr_CN :: string

text \<open>\<open>TLSComponent\<close> has the fields of \<open>Component\<close> and the certificate request.\<close>

record TLSComponent = Component +
  tls_Csr :: Csr

record Enrollment =
  enr_Component :: Component
  enr_TLS :: TLSComponent

record 'w pki =
  pki_crypto :: "'w crypto"
  pki_ca :: "'w ca_lib"
  pki_vault :: "'w vault_lib"

text \<open>A certificate, its key and the certificate of its issuer.\<close>

type_synonym material = "x509_certificate \<times> ecdsa_key \<times> x509_certificate"

section \<open>What a node has\<close>

text \<open>\<open>getExistingTLSCrypto\<close>, the same in both controllers; the peer's second pair differs in the secret.\<close>

definition tls_from ::
  "'w crypto \<Rightarrow> string \<Rightarrow> string \<Rightarrow> string \<Rightarrow> ('w, material) io" where
  "tls_from K secretName rootName namespace =
     io_bind (secrets_of K namespace secretName) (\<lambda>secret.
     io_bind (secrets_of K namespace rootName) (\<lambda>rootCertSecret.
     io_bind (io_lift (ecdsa_of K (secret_value secret ''tls.key''))) (\<lambda>key.
     io_bind (io_lift (x509_of K (secret_value secret ''tls.crt''))) (\<lambda>crt.
     io_bind (io_lift (x509_of K (secret_value rootCertSecret ''cacert.pem''))) (\<lambda>rootCrt.
       io_return (crt, key, rootCrt))))))"

definition getExistingTLSCrypto :: "'w crypto \<Rightarrow> string \<Rightarrow> string \<Rightarrow> ('w, material) io" where
  "getExistingTLSCrypto K chartName namespace =
     tls_from K (chartName @ ''-tls'') (chartName @ ''-tlsrootcert'') namespace"

definition getExistingTLSOPSCrypto :: "'w crypto \<Rightarrow> string \<Rightarrow> string \<Rightarrow> ('w, material) io" where
  "getExistingTLSOPSCrypto K chartName namespace =
     tls_from K (chartName @ ''-tls-ops'') (chartName @ ''-tlsrootcert'') namespace"

text \<open>The signing material; the ordering node's copy adds the chart to the errors of parsing.\<close>

definition sign_from ::
  "'w crypto \<Rightarrow> (string \<Rightarrow> x509_certificate res \<Rightarrow> x509_certificate res) \<Rightarrow> (ecdsa_key res \<Rightarrow> ecdsa_key res)
   \<Rightarrow> string \<Rightarrow> string \<Rightarrow> ('w, material) io" where
  "sign_from K note_crt note_key chartName namespace =
     io_bind (secrets_of K namespace (chartName @ ''-idcert'')) (\<lambda>secretCrt.
     io_bind (secrets_of K namespace (chartName @ ''-idkey'')) (\<lambda>secretKey.
     io_bind (secrets_of K namespace (chartName @ ''-cacert'')) (\<lambda>secretRootCrt.
     io_bind (io_lift (note_crt ''certificate'' (x509_of K (secret_value secretCrt ''cert.pem'')))) (\<lambda>crt.
     io_bind (io_lift (note_crt ''root certificate'' (x509_of K (secret_value secretRootCrt ''cacert.pem'')))) (\<lambda>rootCrt.
     io_bind (io_lift (note_key (ecdsa_of K (secret_value secretKey ''key.pem'')))) (\<lambda>key.
       io_return (crt, key, rootCrt)))))))"

definition peer_getExistingSignCrypto :: "'w crypto \<Rightarrow> string \<Rightarrow> string \<Rightarrow> ('w, material) io" where
  "peer_getExistingSignCrypto K = sign_from K (\<lambda>_ r. r) (\<lambda>r. r)"

definition orderer_getExistingSignCrypto :: "'w crypto \<Rightarrow> string \<Rightarrow> string \<Rightarrow> ('w, material) io" where
  "orderer_getExistingSignCrypto K chartName =
     sign_from K (\<lambda>what. res_wrap (''failed to parse '' @ what @ '' for '' @ chartName))
       (res_wrap (''failed to parse private key for '' @ chartName)) chartName"

text \<open>The ordering node's administration endpoint, with the root of its clients as a fourth value.\<close>

definition getExistingTLSAdminCrypto ::
  "'w crypto \<Rightarrow> string \<Rightarrow> string \<Rightarrow> ('w, x509_certificate \<times> ecdsa_key \<times> x509_certificate \<times> x509_certificate) io" where
  "getExistingTLSAdminCrypto K chartName namespace =
     io_bind (secrets_of K namespace (chartName @ ''-admin'')) (\<lambda>secret.
     io_bind (io_lift (ecdsa_of K (secret_value secret ''tls.key''))) (\<lambda>key.
     io_bind (io_lift (x509_of K (secret_value secret ''tls.crt''))) (\<lambda>crt.
     io_bind (io_lift (x509_of K (secret_value secret ''cacert.crt''))) (\<lambda>rootCrt.
     io_bind (io_lift (x509_of K (secret_value secret ''clientcacert.crt''))) (\<lambda>clientRootCrt.
       io_return (crt, key, rootCrt, clientRootCrt))))))"

text \<open>Certificates the user provides in a secret.\<close>

definition external_material :: "'w crypto \<Rightarrow> string \<Rightarrow> ExternalCertificate \<Rightarrow> ('w, material) io" where
  "external_material K what ext =
     io_bind (io_wrap (''failed to get secret '' @ ext_SecretName ext)
       (secrets_of K (ext_SecretNamespace ext) (ext_SecretName ext))) (\<lambda>secret.
     io_bind (io_wrap (''failed to parse '' @ what @ '' certificate'')
       (io_lift (x509_of K (secret_value secret (CertificateKey ext))))) (\<lambda>crt.
     io_bind (io_wrap (''failed to parse '' @ what @ '' root certificate'')
       (io_lift (x509_of K (secret_value secret (RootCertificateKey ext))))) (\<lambda>rootCrt.
     io_bind (io_wrap (''failed to parse '' @ what @ '' private key'')
       (io_lift (ecdsa_of K (secret_value secret (PrivateKeyKey ext))))) (\<lambda>key.
       io_return (crt, key, rootCrt)))))"

section \<open>Requests\<close>

definition getCertBytesFromCATLS :: "'w crypto \<Rightarrow> Catls option \<Rightarrow> ('w, string) io" where
  "getCertBytesFromCATLS K caTls = (case caTls of
       None \<Rightarrow> io_panic ''nil pointer dereference''
     | Some c \<Rightarrow>
         if Cacert c \<noteq> [] then io_lift (base64_Decode K (Cacert c))
         else (case catls_SecretRef c of
             Some ref \<Rightarrow> io_bind (secrets_of K (srk_Namespace ref) (srk_Name ref))
               (\<lambda>secret. io_return (secret_value secret (srk_Key ref)))
           | None \<Rightarrow> io_throw (ErrorString ''invalid ca tls'')))"

definition ca_url :: "'a Component_scheme \<Rightarrow> string" where
  "ca_url enrollment = ''https://'' @ Cahost enrollment @ '':'' @ itoa (Caport enrollment)"

definition fabric_ca_request ::
  "'w crypto \<Rightarrow> 'a Component_scheme \<Rightarrow> string \<Rightarrow> string list \<Rightarrow> string \<Rightarrow> string \<Rightarrow> ('w, EnrollUserRequest) io" where
  "fabric_ca_request K enrollment mspID hosts cn profile =
     io_bind (getCertBytesFromCATLS K (comp_Catls enrollment)) (\<lambda>cacert.
       io_return \<lparr>eu_TLSCert = cacert, eu_URL = ca_url enrollment, eu_Name = Caname enrollment, eu_MSPID = mspID,
         eu_User = Enrollid enrollment, eu_Secret = Enrollsecret enrollment, eu_Hosts = hosts, eu_CN = cn,
         eu_Profile = profile, eu_Attributes = []\<rparr>)"

definition fabric_ca_rerequest ::
  "'w crypto \<Rightarrow> 'a Component_scheme \<Rightarrow> string \<Rightarrow> string list \<Rightarrow> string \<Rightarrow> ('w, ReenrollUserRequest) io" where
  "fabric_ca_rerequest K enrollment mspID hosts profile =
     io_bind (getCertBytesFromCATLS K (comp_Catls enrollment)) (\<lambda>cacert.
       io_return \<lparr>ru_EnrollID = Enrollid enrollment, ru_TLSCert = cacert, ru_URL = ca_url enrollment,
         ru_Name = Caname enrollment, ru_MSPID = mspID, ru_Hosts = hosts, ru_CN = [], ru_Profile = profile,
         ru_Attributes = []\<rparr>)"

definition vault_request :: "'a Component_scheme \<Rightarrow> string \<Rightarrow> string \<Rightarrow> string list \<Rightarrow> vault_EnrollUserRequest" where
  "vault_request enrollment name mspID hosts =
     \<lparr>ve_MSPID = mspID, ve_User = Enrollid enrollment, ve_Hosts = hosts, ve_CN = name\<rparr>"

definition vault_rerequest :: "string \<Rightarrow> string \<Rightarrow> string list \<Rightarrow> vault_ReenrollUserRequest" where
  "vault_rerequest name mspID hosts = \<lparr>vr_EnrollID = [], vr_MSPID = mspID, vr_Hosts = hosts, vr_CN = name\<rparr>"

section \<open>Enrolling and renewing\<close>

definition CredentialStoreVault :: string where "CredentialStoreVault = ''vault''"

text \<open>\<open>&enrollment.Vault.Vault\<close>, which panics without a Vault section.\<close>

definition on_vault :: "'a Component_scheme \<Rightarrow> (VaultComponent \<Rightarrow> ('w, 'b) io) \<Rightarrow> ('w, 'b) io" where
  "on_vault enrollment f = (case comp_Vault enrollment of
      None \<Rightarrow> io_panic ''nil pointer dereference'' | Some v \<Rightarrow> f v)"

definition enroll_with ::
  "'w pki \<Rightarrow> string \<Rightarrow> 'a Component_scheme \<Rightarrow> vault_EnrollUserRequest \<Rightarrow> ('w, EnrollUserRequest) io \<Rightarrow> ('w, material) io" where
  "enroll_with P store enrollment vaultRequest caRequest =
     (if store = CredentialStoreVault
      then on_vault enrollment (\<lambda>v.
        vault_EnrollUser (pki_crypto P) (pki_vault P) (vc_Vault v) (vc_Request v) vaultRequest)
      else io_bind caRequest (EnrollUser (pki_crypto P) (pki_ca P)))"

text \<open>Renewing returns the key it was given.\<close>

definition reenroll_with ::
  "'w pki \<Rightarrow> string \<Rightarrow> 'a Component_scheme \<Rightarrow> vault_ReenrollUserRequest \<Rightarrow> ('w, ReenrollUserRequest) io
   \<Rightarrow> string \<Rightarrow> ecdsa_key \<Rightarrow> ('w, material) io" where
  "reenroll_with P store enrollment vaultRequest caRequest certPem key =
     io_bind
       (if store = CredentialStoreVault
        then on_vault enrollment (\<lambda>v.
          vault_ReenrollUser (pki_crypto P) (pki_vault P) (vc_Vault v) (vc_Request v) vaultRequest certPem key)
        else io_bind caRequest (\<lambda>req. ReenrollUser (pki_crypto P) (pki_ca P) req certPem key))
       (\<lambda>(cert, rootCert). io_return (cert, key, rootCert))"

section \<open>PEM\<close>

definition EncodePrivateKey :: "'w crypto \<Rightarrow> ecdsa_key \<Rightarrow> string res" where
  "EncodePrivateKey K key =
     res_bind (MarshalPKCS8PrivateKey K key) (\<lambda>encoded. Ok (encode_pem K (''PRIVATE KEY'', encoded)))"

end
