(* ===== verification/Helm_Release.thy ===== *)
theory Helm_Release imports Node_Crypto Lease_Lock begin

text \<open>
  The Helm release behind a peer or an ordering node, and the Kubernetes objects around it: repairing a
  release that was left pending, installing, upgrading and removing it, the status of its pods, and the
  lock around the renewal of certificates.  The two controllers share these stretches of code word by
  word.  Helm and the Kubernetes API server are parameters.
\<close>

section \<open>Helm\<close>

datatype helm_chart = HelmChart string

record helm_release =
  hr_Name :: string
  hr_Version :: int
  hr_Status :: string
  hr_Manifest :: string

record helm_options =
  ho_Wait :: bool
  ho_Timeout :: int
  ho_MaxHistory :: int
  ho_Namespace :: string

text \<open>
  An object of a manifest; a deployment is one of the group \<open>apps/v1\<close>, with its number of replicas when
  it says so.
\<close>

datatype manifest_object = DeploymentObject string "int option" | ServiceObject string | OtherObject string

text \<open>
  The calls of Helm.  \<open>LocateChart\<close> returns a path even with an error.  Chart values are marshalled to
  JSON and read back as a map, which stays the text here.
\<close>

record ('w, 'c) helm =
  helm_Init :: "string \<Rightarrow> ('w, unit) io"
  helm_Status :: "string \<Rightarrow> ('w, helm_release) io"
  ErrReleaseNotFound :: go_error
  helm_Rollback :: "string \<Rightarrow> int \<Rightarrow> ('w, unit) io"
  helm_History :: "string \<Rightarrow> ('w, helm_release list) io"
  helm_Get :: "string \<Rightarrow> ('w, helm_release) io"
  LocateChart :: "string \<Rightarrow> ('w, string \<times> go_error option) io"
  NameAndChart :: "string list \<Rightarrow> (string \<times> string) res"
  loader_Load :: "string \<Rightarrow> ('w, helm_chart) io"
  helm_Upgrade :: "helm_options \<Rightarrow> string \<Rightarrow> helm_chart \<Rightarrow> string \<Rightarrow> ('w, helm_release) io"
  helm_Install :: "helm_options \<Rightarrow> string \<Rightarrow> helm_chart \<Rightarrow> string \<Rightarrow> ('w, helm_release) io"
  helm_Uninstall :: "helm_options \<Rightarrow> string \<Rightarrow> ('w, unit) io"
  chart_Marshal :: "'c \<Rightarrow> string res"
  values_Unmarshal :: "string \<Rightarrow> string res"
  decode_yaml :: "string \<Rightarrow> manifest_object res"

definition StatusDeployed :: string where "StatusDeployed = ''deployed''"
definition StatusPendingUpgrade :: string where "StatusPendingUpgrade = ''pending-upgrade''"
definition StatusPendingRollback :: string where "StatusPendingRollback = ''pending-rollback''"

text \<open>\<open>errors.Is\<close>.\<close>

fun errors_Is :: "go_error \<Rightarrow> go_error \<Rightarrow> bool" where
  "errors_Is (Wrapped m e) target = (Wrapped m e = target \<or> errors_Is e target)"
| "errors_Is e target = (e = target)"

section \<open>The Kubernetes API\<close>

datatype pod_phase = PodPending | PodRunning | PodSucceeded | PodFailed | PodUnknown | NoPhase

record pod =
  pod_Conditions :: "PodCondition list option"
  pod_Phase :: pod_phase

record service_port =
  sp_Name :: string
  sp_Protocol :: string
  sp_Port :: int
  sp_TargetPort :: int
  sp_NodePort :: int

record k8s_service =
  svc_Name :: string
  svc_Namespace :: string
  svc_Labels :: "string \<rightharpoonup> string"
  svc_Type :: string
  svc_Ports :: "service_port list"
  svc_Selector :: "string \<rightharpoonup> string"

text \<open>Of a deployment the code reads the number of ready replicas.\<close>

record 'w kube =
  GetClientKubeWithConf :: "('w, unit) io"
  kube_nodes :: "('w, node_addresses list) io"
  deployments_Get :: "string \<Rightarrow> string \<Rightarrow> ('w, int) io"
  pods_List :: "string \<Rightarrow> string \<Rightarrow> ('w, pod list) io"
  services_Get :: "string \<Rightarrow> string \<Rightarrow> ('w, k8s_service) io"
  services_Create :: "string \<Rightarrow> k8s_service \<Rightarrow> ('w, k8s_service) io"
  services_Update :: "string \<Rightarrow> k8s_service \<Rightarrow> ('w, k8s_service) io"
  services_Delete :: "string \<Rightarrow> string \<Rightarrow> ('w, unit) io"
  leases_Get :: "string \<Rightarrow> string \<Rightarrow> ('w, Lease) io"
  leases_Create :: "string \<Rightarrow> Lease \<Rightarrow> ('w, Lease) io"
  leases_Update :: "string \<Rightarrow> Lease \<Rightarrow> ('w, Lease) io"
  lease_Now :: "'w \<Rightarrow> time \<times> 'w"
  Setenv :: "string \<Rightarrow> string \<Rightarrow> ('w, unit) io"
  Getenv :: "string \<Rightarrow> 'w \<Rightarrow> string \<times> 'w"
  Sleep :: "int \<Rightarrow> 'w \<Rightarrow> unit \<times> 'w"

section \<open>The operator\<close>

text \<open>
  The fields of a reconciler: the client for its kind of resource, the generated client that reads the
  resource anew, Helm, Kubernetes, the certificate services and the flags of the operator.
\<close>

record ('w, 'p, 'c) node_operator =
  no_client :: "('w, 'p) client"
  no_NewForConfig :: "('w, unit) io"
  no_Get :: "string \<Rightarrow> string \<Rightarrow> ('w, 'p) io"
  no_helm :: "('w, 'c) helm"
  no_kube :: "'w kube"
  no_pki :: "'w pki"
  ChartPath :: string
  AutoRenewCertificates :: bool
  AutoRenewCertificatesDelta :: int
  RenewCertificatesReenroll :: bool
  no_Wait :: bool
  no_Timeout :: int
  no_MaxHistory :: int

text \<open>The status of the two kinds of resources that have certificates.\<close>

record cert_resource = custom_resource +
  LastCertificateUpdate :: "time option"
  SignCert :: string
  TlsCert :: string
  TlsCACert :: string
  SignCACert :: string
  NodePort :: int
  CertRenewalLeaseHeld :: bool

section \<open>Releases\<close>

definition newActionCfg :: "('w, 'p, 'c) node_operator \<Rightarrow> string \<Rightarrow> ('w, unit) io" where
  "newActionCfg M namespace =
     io_bind (Setenv (no_kube M) ''HELM_NAMESPACE'' namespace) (\<lambda>_. helm_Init (no_helm M) namespace)"

text \<open>Whether the release is there, and its status.\<close>

definition release_status :: "('w, 'c) helm \<Rightarrow> string \<Rightarrow> ('w, helm_release option) io" where
  "release_status H releaseName =
     io_try (helm_Status H releaseName) (\<lambda>st. io_return (Some st))
       (\<lambda>err. if errors_Is err (ErrReleaseNotFound H) then io_return None else io_throw err)"

text \<open>
  The last deployed revision of a history that is sorted by revision, newest first.  Only the revision
  number is used, so the order of equal ones does not matter.
\<close>

definition rollback_target :: "helm_release list \<Rightarrow> int option" where
  "rollback_target history = map_option hr_Version
     (find (\<lambda>h. hr_Status h = StatusDeployed) (sort_key (\<lambda>h. - hr_Version h) history))"

definition repair_release :: "('w, 'c) helm \<Rightarrow> string \<Rightarrow> helm_release \<Rightarrow> ('w, unit) io" where
  "repair_release H releaseName st =
     (if hr_Status st = StatusPendingUpgrade then helm_Rollback H releaseName (hr_Version st - 1)
      else if hr_Status st = StatusPendingRollback then
        io_bind (helm_History H releaseName) (\<lambda>history.
          case rollback_target history of
            Some version \<Rightarrow> helm_Rollback H releaseName version
          | None \<Rightarrow> io_return ())
      else io_return ())"

definition find_release :: "('w, 'c) helm \<Rightarrow> string \<Rightarrow> ('w, helm_release option) io" where
  "find_release H releaseName =
     io_bind (release_status H releaseName) (\<lambda>st. case st of
         None \<Rightarrow> io_return None
       | Some r \<Rightarrow> io_bind (repair_release H releaseName r) (\<lambda>_. io_return (Some r)))"

text \<open>The values of a chart.\<close>

definition chart_values :: "('w, 'c) helm \<Rightarrow> 'c \<Rightarrow> string res" where
  "chart_values H c = res_bind (chart_Marshal H c) (values_Unmarshal H)"

text \<open>
  Upgrading.  The peer's copy goes on with the path after an error of \<open>LocateChart\<close>; the ordering
  node's returns the error.
\<close>

definition upgrade_release ::
  "bool \<Rightarrow> ('w, 'p, 'c) node_operator \<Rightarrow> helm_options \<Rightarrow> string \<Rightarrow> string \<Rightarrow> 'c \<Rightarrow> ('w, unit) io" where
  "upgrade_release strict M opts ns releaseName c =
     (let H = no_helm M in
     io_bind (io_lift (chart_values H c)) (\<lambda>inInterface.
     io_bind (Setenv (no_kube M) ''HELM_NAMESPACE'' ns) (\<lambda>_.
     io_bind (LocateChart H (ChartPath M)) (\<lambda>(chartPath, err).
     case (strict, err) of
       (True, Some e) \<Rightarrow> io_throw e
     | _ \<Rightarrow>
         io_bind (loader_Load H chartPath) (\<lambda>ch.
         io_bind (helm_Upgrade H opts releaseName ch inInterface) (\<lambda>_. io_return ()))))))"

text \<open>
  Removing.  The code compares the message with ''Release not loaded'' and returns nil when they differ.
\<close>

definition uninstall_release :: "('w, 'p, 'c) node_operator \<Rightarrow> string \<Rightarrow> ('w, unit) io" where
  "uninstall_release M releaseName =
     io_try (helm_Uninstall (no_helm M)
         \<lparr>ho_Wait = no_Wait M, ho_Timeout = no_Timeout M, ho_MaxHistory = 0, ho_Namespace = []\<rparr> releaseName)
       io_return
       (\<lambda>err. if error_text err \<noteq> ''Release not loaded'' then io_return () else io_throw err)"

section \<open>Manifests and pods\<close>

text \<open>A loop that threads a value and returns at the first error.\<close>

fun io_fold :: "('a \<Rightarrow> 's \<Rightarrow> ('w, 's) io) \<Rightarrow> 'a list \<Rightarrow> 's \<Rightarrow> ('w, 's) io" where
  "io_fold f [] s = io_return s"
| "io_fold f (x # xs) s = io_bind (f x s) (io_fold f xs)"

text \<open>\<open>strings.Split\<close> for a separator that is not empty.\<close>

function strings_Split :: "string \<Rightarrow> string \<Rightarrow> string \<Rightarrow> string list" where
  "strings_Split sep acc [] = [rev acc]"
| "strings_Split sep acc (c # cs) =
     (if sep \<noteq> [] \<and> has_prefix (c # cs) sep
      then rev acc # strings_Split sep [] (drop (length sep) (c # cs))
      else strings_Split sep (c # acc) cs)"
  by pat_completeness auto

termination by (relation "measure (\<lambda>(sep, acc, s). length s)") auto

definition ParseK8sYaml :: "(string \<Rightarrow> 'o res) \<Rightarrow> string \<Rightarrow> 'o list" where
  "ParseK8sYaml decode fileR =
     concat (map (\<lambda>f. if f = [CHR 0x0A] \<or> f = [] then []
        else (case decode f of Ok obj \<Rightarrow> [obj] | _ \<Rightarrow> [])) (strings_Split ''---'' [] fileR))"

text \<open>What one pod makes of the status found so far.\<close>

definition pod_status :: "pod \<Rightarrow> string \<Rightarrow> string" where
  "pod_status item st =
     (if IsPodReadyConditionTrue (pod_Conditions item) then RunningStatus
      else (case pod_Phase item of
          PodPending \<Rightarrow> PendingStatus
        | PodSucceeded \<Rightarrow> st
        | PodRunning \<Rightarrow> RunningStatus
        | PodFailed \<Rightarrow> FailedStatus
        | PodUnknown \<Rightarrow> UnknownStatus
        | NoPhase \<Rightarrow> st))"

definition deployment_status ::
  "'w kube \<Rightarrow> string \<Rightarrow> string \<Rightarrow> string \<Rightarrow> int option \<Rightarrow> string \<Rightarrow> ('w, string) io" where
  "deployment_status U ns releaseName name replicas st =
     io_bind (deployments_Get U ns name) (\<lambda>ready.
     io_bind (pods_List U ns (''release='' @ releaseName)) (\<lambda>items.
       if items \<noteq> [] then io_return (fold pod_status items st)
       else (case replicas of
           None \<Rightarrow> io_panic ''nil pointer dereference''
         | Some n \<Rightarrow> io_return (if ready = n then RunningStatus else PendingStatus))))"

section \<open>The lock around a renewal\<close>

definition lease_holder :: "'w kube \<Rightarrow> string \<Rightarrow> string \<Rightarrow> ('w, string) io" where
  "lease_holder U kind name = io_bind (io_total (Getenv U ''POD_NAME'')) (\<lambda>pod.
     io_return (if pod = [] then kind @ ''-'' @ name @ ''-lock'' else pod))"

definition renewal_lease :: "string \<Rightarrow> string" where
  "renewal_lease kind = kind @ ''-cert-renewal-global-lock''"

text \<open>Errors of the release and of the update that follows it are logged only.\<close>

definition release_if_held ::
  "('w, 'a cert_resource_scheme) client \<Rightarrow> 'w kube \<Rightarrow> string \<Rightarrow> string \<Rightarrow> 'a cert_resource_scheme
   \<Rightarrow> ('w, 'a cert_resource_scheme) io" where
  "release_if_held K U kind ns p =
     (if CertRenewalLeaseHeld p \<and> crStatus p = RunningStatus
      then io_bind (lease_holder U kind (crName p)) (\<lambda>holderIdentity.
           io_bind (io_catch (ReleaseLease (leases_Get U ns) (leases_Update U ns) (renewal_lease kind) holderIdentity)
               (\<lambda>_. io_return ())) (\<lambda>_.
           let p' = p\<lparr>CertRenewalLeaseHeld := False\<rparr> in
           io_catch (status_update K p') (\<lambda>_. io_return p')))
      else io_return p)"

text \<open>The loop: so many attempts, a second of sleep after each that failed.\<close>

fun try_acquire :: "nat \<Rightarrow> ('w, bool) io \<Rightarrow> ('w, unit) io \<Rightarrow> ('w, bool) io" where
  "try_acquire 0 acquire sleep = io_return False"
| "try_acquire (Suc n) acquire sleep =
     io_bind (io_catch acquire (\<lambda>_. io_return False)) (\<lambda>ok.
       if ok then io_return True else io_bind sleep (\<lambda>_. try_acquire n acquire sleep))"

definition acquire_renewal_lease :: "'w kube \<Rightarrow> string \<Rightarrow> string \<Rightarrow> string \<Rightarrow> ('w, bool) io" where
  "acquire_renewal_lease U kind ns name =
     io_bind (lease_holder U kind name) (\<lambda>holderIdentity.
       try_acquire 5
         (AcquireLease (io_total (lease_Now U)) (leases_Get U ns) (leases_Create U ns) (leases_Update U ns)
            (renewal_lease kind) ns holderIdentity 120)
         (io_total (Sleep U Second)))"

text \<open>The flag that says the lease is held, written back; an error of the update is logged only.\<close>

definition mark_held ::
  "('w, 'a cert_resource_scheme) client \<Rightarrow> 'a cert_resource_scheme \<Rightarrow> ('w, 'a cert_resource_scheme) io" where
  "mark_held K p = (let p' = p\<lparr>CertRenewalLeaseHeld := True\<rparr> in io_catch (status_update K p') (\<lambda>_. io_return p'))"

section \<open>Certificates that end soon\<close>

text \<open>Automatic renewal, when the operator is configured for it.\<close>

definition expires_soon :: "('w, 'p, 'c) node_operator \<Rightarrow> x509_certificate \<Rightarrow> ('w, bool) io" where
  "expires_soon M tlsCert =
     (if AutoRenewCertificates M
      then io_bind (io_total (time_Now (pki_crypto (no_pki M)))) (\<lambda>now.
        io_return (NotAfter tlsCert < now + AutoRenewCertificatesDelta M))
      else io_return False)"

end
