(* ===== verification/Node_Chart.thy ===== *)
theory Node_Chart imports Helm_Release begin

text \<open>
  The values the charts of peers and ordering nodes have in common: routes, monitoring, the gRPC proxy
  and host aliases, as \<open>controllers/peer/types.go\<close> and \<open>controllers/ordnode/types.go\<close> declare them and
  both \<open>GetConfig\<close> and \<open>getConfig\<close> fill them.  Objects of the Kubernetes API that are only copied are
  wrapped names.
\<close>

datatype k8s_object = K8s string

section \<open>The resource\<close>

record FabricIstioSpec = FabricIstio +
  istio_IngressGateway :: string

record TraefikMiddleware =
  middleware_Name :: string
  middleware_Namespace :: string

record FabricTraefikSpec = FabricTraefik +
  traefik_Entrypoints :: "string list"
  traefik_Middlewares :: "TraefikMiddleware list"

record FabricGatewayApiSpec = FabricGatewayApi +
  gateway_GatewayName :: string
  gateway_GatewayNamespace :: string

record ServiceMonitorSpec =
  mon_Enabled :: bool
  mon_Labels :: "string \<rightharpoonup> string"
  mon_SampleLimit :: int
  mon_Interval :: string
  mon_ScrapeTimeout :: string

record GRPCProxySpec =
  gp_Enabled :: bool
  gp_Image :: string
  gp_Tag :: string
  gp_Istio :: FabricIstioSpec
  gp_ImagePullPolicy :: string
  gp_Resources :: "k8s_object option"
  gp_ImagePullSecrets :: "k8s_object list"

record HostAlias =
  IP :: string
  Hostnames :: "string list"

record StorageSpec =
  sto_Size :: string
  sto_StorageClass :: string
  sto_AccessMode :: string

section \<open>The chart\<close>

record Istio =
  Istio_Port :: int
  Istio_Hosts :: "string list"
  Istio_IngressGateway :: string

record Traefik =
  Traefik_Entrypoints :: "string list"
  Traefik_Middlewares :: "TraefikMiddleware list"
  Traefik_Hosts :: "string list"

record GatewayApi =
  GatewayApi_Port :: int
  GatewayApi_Hosts :: "string list"
  GatewayName :: string
  GatewayNamespace :: string

record ServiceMonitor =
  Monitor_Enabled :: bool
  Monitor_Labels :: "string \<rightharpoonup> string"
  Monitor_Interval :: string
  Monitor_ScrapeTimeout :: string
  Monitor_Scheme :: string
  Relabelings :: "k8s_object list"
  TargetLabels :: "k8s_object list"
  MetricRelabelings :: "k8s_object list"
  Monitor_SampleLimit :: int

record GRPCProxy =
  Proxy_Enabled :: bool
  Proxy_Image :: string
  Proxy_Tag :: string
  Proxy_PullPolicy :: string
  Proxy_ImagePullSecrets :: "k8s_object list"
  Proxy_Istio :: Istio
  Proxy_Resources :: "k8s_object option"

record chart_image =
  Repository :: string
  Image_Tag :: string
  Image_PullPolicy :: string

record Persistence =
  Persistence_Enabled :: bool
  StorageClass :: string
  AccessMode :: string
  Size :: string

record chart_tls =
  chart_Cert :: string
  chart_Key :: string

section \<open>Filling it\<close>

definition no_istio :: Istio where
  "no_istio = \<lparr>Istio_Port = 0, Istio_Hosts = [], Istio_IngressGateway = []\<rparr>"

definition istio_values :: "FabricIstioSpec option \<Rightarrow> Istio" where
  "istio_values spec = (case spec of
       Some i \<Rightarrow> (let gateway = istio_IngressGateway i;
                      gateway = (if gateway = [] then ''ingressgateway'' else gateway)
                  in \<lparr>Istio_Port = istio_Port i, Istio_Hosts = istio_Hosts i, Istio_IngressGateway = gateway\<rparr>)
     | None \<Rightarrow> no_istio)"

definition traefik_values :: "FabricTraefikSpec option \<Rightarrow> Traefik" where
  "traefik_values spec = (case spec of
       Some t \<Rightarrow> \<lparr>Traefik_Entrypoints = traefik_Entrypoints t,
         Traefik_Middlewares = map (\<lambda>m. \<lparr>middleware_Name = middleware_Name m, middleware_Namespace = middleware_Namespace m\<rparr>)
           (traefik_Middlewares t),
         Traefik_Hosts = traefik_Hosts t\<rparr>
     | None \<Rightarrow> \<lparr>Traefik_Entrypoints = [], Traefik_Middlewares = [], Traefik_Hosts = []\<rparr>)"

text \<open>
  The name and the namespace of a gateway.  As in the code an empty namespace sets the name, and the
  namespace stays empty.
\<close>

definition gateway_names :: "string \<Rightarrow> string \<Rightarrow> string \<times> string" where
  "gateway_names name namespace =
     (let gatewayApiName = name; gatewayApiNamespace = namespace;
          gatewayApiName = (if gatewayApiName = [] then ''hlf-gateway'' else gatewayApiName);
          gatewayApiName = (if gatewayApiNamespace = [] then ''default'' else gatewayApiName)
      in (gatewayApiName, gatewayApiNamespace))"

definition no_gateway :: GatewayApi where
  "no_gateway = \<lparr>GatewayApi_Port = 443, GatewayApi_Hosts = [], GatewayName = [], GatewayNamespace = []\<rparr>"

definition gateway_with :: "FabricGatewayApiSpec \<Rightarrow> string \<Rightarrow> GatewayApi" where
  "gateway_with g namespace = (case gateway_names (gateway_GatewayName g) namespace of
     (name, ns) \<Rightarrow> \<lparr>GatewayApi_Port = gateway_Port g, GatewayApi_Hosts = gateway_Hosts g, GatewayName = name,
       GatewayNamespace = ns\<rparr>)"

definition gateway_values :: "FabricGatewayApiSpec option \<Rightarrow> GatewayApi" where
  "gateway_values spec = (case spec of
       Some g \<Rightarrow> gateway_with g (gateway_GatewayNamespace g) | None \<Rightarrow> no_gateway)"

definition no_monitor :: ServiceMonitor where
  "no_monitor = \<lparr>Monitor_Enabled = False, Monitor_Labels = Map.empty, Monitor_Interval = [],
     Monitor_ScrapeTimeout = [], Monitor_Scheme = [], Relabelings = [], TargetLabels = [], MetricRelabelings = [],
     Monitor_SampleLimit = 0\<rparr>"

definition monitor_values :: "ServiceMonitorSpec option \<Rightarrow> ServiceMonitor" where
  "monitor_values spec = (case spec of
       Some m \<Rightarrow> (if mon_Enabled m
         then \<lparr>Monitor_Enabled = mon_Enabled m, Monitor_Labels = mon_Labels m, Monitor_Interval = mon_Interval m,
           Monitor_ScrapeTimeout = mon_ScrapeTimeout m, Monitor_Scheme = ''http'', Relabelings = [],
           TargetLabels = [], MetricRelabelings = [], Monitor_SampleLimit = mon_SampleLimit m\<rparr>
         else no_monitor)
     | None \<Rightarrow> no_monitor)"

definition no_proxy :: GRPCProxy where
  "no_proxy = \<lparr>Proxy_Enabled = False, Proxy_Image = [], Proxy_Tag = [], Proxy_PullPolicy = [],
     Proxy_ImagePullSecrets = [], Proxy_Istio = no_istio, Proxy_Resources = None\<rparr>"

text \<open>
  As in the code the pull policy is the image.  Only the ordering node's chart has resources; the peer's
  proxy has no such field, and \<open>None\<close> here.
\<close>

definition proxy_values :: "bool \<Rightarrow> GRPCProxySpec option \<Rightarrow> GRPCProxy" where
  "proxy_values with_resources spec = (case spec of
       Some g \<Rightarrow> (if gp_Enabled g
         then \<lparr>Proxy_Enabled = gp_Enabled g, Proxy_Image = gp_Image g, Proxy_Tag = gp_Tag g,
           Proxy_PullPolicy = gp_Image g, Proxy_ImagePullSecrets = gp_ImagePullSecrets g,
           Proxy_Istio = \<lparr>Istio_Port = istio_Port (gp_Istio g), Istio_Hosts = istio_Hosts (gp_Istio g),
             Istio_IngressGateway = istio_IngressGateway (gp_Istio g)\<rparr>,
           Proxy_Resources = (if with_resources then gp_Resources g else None)\<rparr>
         else no_proxy)
     | None \<Rightarrow> no_proxy)"

definition host_aliases :: "HostAlias list \<Rightarrow> HostAlias list" where
  "host_aliases = map (\<lambda>a. \<lparr>IP = IP a, Hostnames = Hostnames a\<rparr>)"

definition persistence_values :: "StorageSpec \<Rightarrow> Persistence" where
  "persistence_values s = \<lparr>Persistence_Enabled = True, StorageClass = sto_StorageClass s,
     AccessMode = sto_AccessMode s, Size = sto_Size s\<rparr>"

end
