(* ===== verification/Peer_Chart.thy ===== *)
theory Peer_Chart imports Node_Chart begin

text \<open>
  The peer: its resource, the certificates it gets and the values of its chart (\<open>GetConfig\<close> and what it
  calls in \<open>controllers/peer/peer_controller.go\<close>, \<open>controllers/peer/types.go\<close>).
\<close>

section \<open>The resource\<close>

record ExternalBuilderSpec =
  builder_Name :: string
  builder_Path :: string
  PropagateEnvironment :: "string list"

record FabricPeerCouchdbExporter =
  exp_Enabled :: bool
  exp_Image :: string
  exp_Tag :: string
  exp_ImagePullPolicy :: string

record FabricPeerExternalCouchDB =
  xdb_Enabled :: bool
  xdb_Host :: string
  xdb_Port :: int

record FabricPeerCouchDB =
  db_User :: string
  db_Password :: string
  db_Image :: string
  db_Tag :: string
  db_PullPolicy :: string
  ExternalCouchDB :: "FabricPeerExternalCouchDB option"

record FabricFSServer =
  fs_Image :: string
  fs_Tag :: string
  fs_PullPolicy :: string

record FabricPeerSpecGossip =
  gs_ExternalEndpoint :: string
  gs_Bootstrap :: string
  gs_Endpoint :: string
  gs_UseLeaderElection :: bool
  gs_OrgLeader :: bool
  gs_ReconnectInterval :: string
  gs_AliveExpirationTimeout :: string
  gs_AliveTimeInterval :: string
  gs_ResponseWaitTime :: string

record PeerResources =
  res_Peer :: "k8s_object option"
  res_CouchDB :: "k8s_object option"
  res_Chaincode :: "k8s_object option"
  res_CouchDBExporter :: "k8s_object option"
  res_Proxy :: "k8s_object option"

record FabricPeerLogging =
  log_Level :: string
  log_Peer :: string
  log_Cauthdsl :: string
  log_Gossip :: string
  log_Grpc :: string
  log_Ledger :: string
  log_Msp :: string
  log_Policies :: string

record FabricPeerStorage =
  st_CouchDB :: StorageSpec
  st_Peer :: StorageSpec
  st_Chaincode :: StorageSpec

record FabricPeerSpec =
  ps_PodAnnotations :: "string \<rightharpoonup> string"
  ps_PodLabels :: "string \<rightharpoonup> string"
  ps_DeliveryClientaddressOverrides :: "k8s_object list"
  ps_Volumes :: "k8s_object list"
  ps_PeerVolumeMounts :: "k8s_object list"
  ps_UpdateCertificateTime :: "time option"
  ps_Affinity :: "k8s_object option"
  ps_ServiceMonitor :: "ServiceMonitorSpec option"
  ps_HostAliases :: "HostAlias list"
  ps_NodeSelector :: "k8s_object option"
  ps_CouchDBExporter :: "FabricPeerCouchdbExporter option"
  ps_GRPCProxy :: "GRPCProxySpec option"
  ps_Replicas :: int
  ps_DockerSocketPath :: string
  ps_Image :: string
  ps_ExternalBuilders :: "ExternalBuilderSpec list"
  ps_GatewayApi :: "FabricGatewayApiSpec option"
  ps_Traefik :: "FabricTraefikSpec option"
  ps_Istio :: "FabricIstioSpec option"
  ps_Gossip :: FabricPeerSpecGossip
  ps_ExternalEndpoint :: string
  ps_Tag :: string
  ps_ImagePullPolicy :: string
  ps_ExternalChaincodeBuilder :: bool
  ps_CouchDB :: FabricPeerCouchDB
  ps_FSServer :: "FabricFSServer option"
  ps_ImagePullSecrets :: "k8s_object list"
  ps_MspID :: string
  ps_Enrollment :: Enrollment
  ps_ServiceType :: string
  ps_StateDb :: string
  ps_Storage :: FabricPeerStorage
  ps_Logging :: FabricPeerLogging
  ps_Resources :: PeerResources
  ps_Hosts :: "string list"
  ps_Tolerations :: "k8s_object list"
  ps_Env :: "k8s_object list"
  ps_CredentialStore :: string

record FabricPeerResource = cert_resource +
  peer_Spec :: FabricPeerSpec

section \<open>Certificates\<close>

definition peer_tls_hosts :: "TLSComponent \<Rightarrow> FabricPeerSpec \<Rightarrow> string list" where
  "peer_tls_hosts enrollment spec = csr_Hosts (tls_Csr enrollment) @ ps_Hosts spec"

definition peer_getEnrollRequestForFabricCA ::
  "'w crypto \<Rightarrow> Component \<Rightarrow> FabricPeerResource \<Rightarrow> ('w, EnrollUserRequest) io" where
  "peer_getEnrollRequestForFabricCA K enrollment conf =
     fabric_ca_request K enrollment (ps_MspID (peer_Spec conf)) [] (crName conf) []"

definition peer_getEnrollRequestForFabricCATLS ::
  "'w crypto \<Rightarrow> TLSComponent \<Rightarrow> FabricPeerResource \<Rightarrow> string \<Rightarrow> ('w, EnrollUserRequest) io" where
  "peer_getEnrollRequestForFabricCATLS K enrollment conf profile =
     fabric_ca_request K enrollment (ps_MspID (peer_Spec conf)) (peer_tls_hosts enrollment (peer_Spec conf))
       (Enrollid enrollment) profile"

definition peer_getEnrollRequestForVault :: "Component \<Rightarrow> FabricPeerResource \<Rightarrow> vault_EnrollUserRequest" where
  "peer_getEnrollRequestForVault component conf =
     vault_request component (crName conf) (ps_MspID (peer_Spec conf)) []"

definition peer_getEnrollRequestForVaultTLS :: "TLSComponent \<Rightarrow> FabricPeerResource \<Rightarrow> vault_EnrollUserRequest" where
  "peer_getEnrollRequestForVaultTLS tls conf =
     vault_request tls (crName conf) (ps_MspID (peer_Spec conf)) (peer_tls_hosts tls (peer_Spec conf))"

definition peer_getReenrollRequestForFabricCA ::
  "'w crypto \<Rightarrow> Component \<Rightarrow> FabricPeerSpec \<Rightarrow> ('w, ReenrollUserRequest) io" where
  "peer_getReenrollRequestForFabricCA K enrollment conf = fabric_ca_rerequest K enrollment (ps_MspID conf) [] []"

definition peer_getReenrollRequestForFabricCATLS ::
  "'w crypto \<Rightarrow> TLSComponent \<Rightarrow> FabricPeerSpec \<Rightarrow> string \<Rightarrow> ('w, ReenrollUserRequest) io" where
  "peer_getReenrollRequestForFabricCATLS K enrollment conf profile =
     fabric_ca_rerequest K enrollment (ps_MspID conf) (peer_tls_hosts enrollment conf) profile"

definition peer_getReenrollRequestForVault :: "FabricPeerResource \<Rightarrow> vault_ReenrollUserRequest" where
  "peer_getReenrollRequestForVault conf = vault_rerequest (crName conf) (ps_MspID (peer_Spec conf)) []"

definition peer_getReenrollRequestForVaultTLS :: "TLSComponent \<Rightarrow> FabricPeerResource \<Rightarrow> vault_ReenrollUserRequest" where
  "peer_getReenrollRequestForVaultTLS tls conf =
     vault_rerequest (crName conf) (ps_MspID (peer_Spec conf)) (peer_tls_hosts tls (peer_Spec conf))"

definition peer_CreateTLSCryptoMaterial ::
  "'w pki \<Rightarrow> FabricPeerResource \<Rightarrow> TLSComponent \<Rightarrow> ('w, material) io" where
  "peer_CreateTLSCryptoMaterial P conf enrollment =
     enroll_with P (ps_CredentialStore (peer_Spec conf)) enrollment (peer_getEnrollRequestForVaultTLS enrollment conf)
       (peer_getEnrollRequestForFabricCATLS (pki_crypto P) enrollment conf ''tls'')"

definition peer_CreateTLSOPSCryptoMaterial ::
  "'w pki \<Rightarrow> FabricPeerResource \<Rightarrow> TLSComponent \<Rightarrow> ('w, material) io" where
  "peer_CreateTLSOPSCryptoMaterial P conf enrollment =
     enroll_with P (ps_CredentialStore (peer_Spec conf)) enrollment (peer_getEnrollRequestForVaultTLS enrollment conf)
       (peer_getEnrollRequestForFabricCATLS (pki_crypto P) enrollment conf ''tls'')"

definition peer_CreateSignCryptoMaterial ::
  "'w pki \<Rightarrow> FabricPeerResource \<Rightarrow> Component \<Rightarrow> ('w, material) io" where
  "peer_CreateSignCryptoMaterial P conf enrollment =
     enroll_with P (ps_CredentialStore (peer_Spec conf)) enrollment (peer_getEnrollRequestForVault enrollment conf)
       (peer_getEnrollRequestForFabricCA (pki_crypto P) enrollment conf)"

definition peer_ReenrollSignCryptoMaterial ::
  "'w pki \<Rightarrow> FabricPeerResource \<Rightarrow> Component \<Rightarrow> string \<Rightarrow> ecdsa_key \<Rightarrow> ('w, material) io" where
  "peer_ReenrollSignCryptoMaterial P conf enrollment signCertPem privateKey =
     reenroll_with P (ps_CredentialStore (peer_Spec conf)) enrollment (peer_getReenrollRequestForVault conf)
       (peer_getReenrollRequestForFabricCA (pki_crypto P) enrollment (peer_Spec conf)) signCertPem privateKey"

definition peer_ReenrollTLSCryptoMaterial ::
  "'w pki \<Rightarrow> FabricPeerResource \<Rightarrow> TLSComponent \<Rightarrow> string \<Rightarrow> ecdsa_key \<Rightarrow> ('w, material) io" where
  "peer_ReenrollTLSCryptoMaterial P conf enrollment tlsCertPem tlsKey =
     reenroll_with P (ps_CredentialStore (peer_Spec conf)) enrollment (peer_getReenrollRequestForVaultTLS enrollment conf)
       (peer_getReenrollRequestForFabricCATLS (pki_crypto P) enrollment (peer_Spec conf) ''tls'') tlsCertPem tlsKey"

section \<open>Which certificates the chart gets\<close>

text \<open>
  Renewing one pair: an expired certificate is enrolled for anew, one that is still valid is renewed when
  the operator renews and otherwise enrolled for, and a renewal that is refused for its credentials
  falls back to enrolling.
\<close>

definition refresh_material ::
  "'w crypto \<Rightarrow> bool \<Rightarrow> string \<Rightarrow> ('w, material) io \<Rightarrow> ('w, material) io \<Rightarrow> (string \<Rightarrow> ecdsa_key \<Rightarrow> ('w, material) io)
   \<Rightarrow> ('w, material) io" where
  "refresh_material K renewCertificatesReenroll what existing create reenroll =
     io_bind (io_wrap (''failed to get existing '' @ what @ '' crypto material'') existing) (\<lambda>(cert, key, rootCert).
     io_bind (io_total (time_Now K)) (\<lambda>now.
       if NotAfter cert < now then create
       else if renewCertificatesReenroll
       then io_catch (reenroll (pem_of K cert) key)
              (\<lambda>err. if str_contains (error_text err) ''Authentication failure'' then create
                     else io_throw (Wrapped (''failed to reenroll '' @ what @ '' crypto material'') err))
       else create))"

text \<open>
  One pair of the chart: the user's, a renewed one, the existing one, or, when that cannot be read for
  whatever reason, a new one.
\<close>

definition choose_material ::
  "'w crypto \<Rightarrow> bool \<Rightarrow> bool \<Rightarrow> string \<Rightarrow> ExternalCertificate option \<Rightarrow> ('w, material) io \<Rightarrow> ('w, material) io
   \<Rightarrow> (string \<Rightarrow> ecdsa_key \<Rightarrow> ('w, material) io) \<Rightarrow> ('w, material) io" where
  "choose_material K refreshCerts renewCertificatesReenroll what external existing create reenroll =
     (case external of
        Some ext \<Rightarrow> external_material K what ext
      | None \<Rightarrow> if refreshCerts
          then refresh_material K renewCertificatesReenroll what existing create reenroll
          else io_catch existing (\<lambda>_. create))"

definition peer_tls_material ::
  "'w pki \<Rightarrow> FabricPeerResource \<Rightarrow> string \<Rightarrow> string \<Rightarrow> bool \<Rightarrow> bool \<Rightarrow> ('w, material) io" where
  "peer_tls_material P conf chartName namespace refreshCerts renewCertificatesReenroll =
     (let tlsParams = enr_TLS (ps_Enrollment (peer_Spec conf)); K = pki_crypto P in
      choose_material K refreshCerts renewCertificatesReenroll ''tls'' (comp_External tlsParams)
        (getExistingTLSCrypto K chartName namespace)
        (peer_CreateTLSCryptoMaterial P conf tlsParams)
        (peer_ReenrollTLSCryptoMaterial P conf tlsParams))"

text \<open>The operations endpoint gets a new pair at every renewal.\<close>

definition peer_ops_material ::
  "'w pki \<Rightarrow> FabricPeerResource \<Rightarrow> string \<Rightarrow> string \<Rightarrow> bool \<Rightarrow> ('w, material) io" where
  "peer_ops_material P conf chartName namespace refreshCerts =
     (let tlsParams = enr_TLS (ps_Enrollment (peer_Spec conf)) in
      if refreshCerts then peer_CreateTLSOPSCryptoMaterial P conf tlsParams
      else io_catch (getExistingTLSOPSCrypto (pki_crypto P) chartName namespace)
             (\<lambda>_. peer_CreateTLSOPSCryptoMaterial P conf tlsParams))"

definition peer_sign_material ::
  "'w pki \<Rightarrow> FabricPeerResource \<Rightarrow> string \<Rightarrow> string \<Rightarrow> bool \<Rightarrow> bool \<Rightarrow> ('w, material) io" where
  "peer_sign_material P conf chartName namespace refreshCerts renewCertificatesReenroll =
     (let signParams = enr_Component (ps_Enrollment (peer_Spec conf)); K = pki_crypto P in
      choose_material K refreshCerts renewCertificatesReenroll ''sign'' (comp_External signParams)
        (peer_getExistingSignCrypto K chartName namespace)
        (peer_CreateSignCryptoMaterial P conf signParams)
        (peer_ReenrollSignCryptoMaterial P conf signParams))"

section \<open>The values of the chart\<close>

record CouchDBExternal =
  Xdb_Enabled :: bool
  Xdb_Host :: string
  Xdb_Port :: int

record CouchDB =
  Couch_External :: CouchDBExternal
  Couch_Image :: string
  Couch_Tag :: string
  Couch_PullPolicy :: string

record CouchDBExporter =
  Exporter_Enabled :: bool
  Exporter_Image :: string
  Exporter_Tag :: string
  Exporter_PullPolicy :: string

record Gossip =
  Gossip_Bootstrap :: string
  Gossip_Endpoint :: string
  Gossip_ExternalEndpoint :: string
  Gossip_OrgLeader :: bool
  Gossip_UseLeaderElection :: bool
  Gossip_ReconnectInterval :: string
  Gossip_AliveExpirationTimeout :: string
  Gossip_AliveTimeInterval :: string
  Gossip_ResponseWaitTime :: string

record chart_peer =
  DatabaseType :: string
  Peer_MspID :: string
  Peer_Gossip :: Gossip
  TLS_Server_Enabled :: bool
  TLS_Client_Enabled :: bool

record PeerPersistence =
  Pers_Peer :: Persistence
  Pers_CouchDB :: Persistence
  Pers_Chaincode :: Persistence

record FabricPeerChart =
  DeliveryClientaddressOverrides :: "k8s_object list"
  Volumes :: "k8s_object list"
  PeerVolumeMounts :: "k8s_object list"
  PodLabels :: "string \<rightharpoonup> string"
  PodAnnotations :: "string \<rightharpoonup> string"
  EnvVars :: "k8s_object list"
  Replicas :: int
  ImagePullSecrets :: "k8s_object list"
  pch_GatewayApi :: GatewayApi
  pch_Istio :: Istio
  pch_Traefik :: Traefik
  pch_Image :: chart_image
  pch_Proxy :: GRPCProxy
  pch_ServiceMonitor :: ServiceMonitor
  pch_ExternalBuilders :: "ExternalBuilderSpec list"
  DockerSocketPath :: string
  pch_CouchDBExporter :: CouchDBExporter
  pch_CouchDB :: CouchDB
  pch_FSServer :: FabricFSServer
  pch_Peer :: chart_peer
  ExternalChaincodeBuilder :: bool
  CouchdbPassword :: string
  CouchdbUsername :: string
  Rbac_Ns :: string
  pch_Cert :: string
  pch_Key :: string
  pch_Hosts :: "string list"
  pch_TLS :: chart_tls
  OPSTLS :: chart_tls
  pch_Cacert :: string
  IntCacert :: string
  Tlsrootcert :: string
  pch_Resources :: PeerResources
  pch_NodeSelector :: "k8s_object option"
  pch_Tolerations :: "k8s_object list"
  pch_Affinity :: "k8s_object option"
  ExternalHost :: string
  FullnameOverride :: string
  pch_HostAliases :: "HostAlias list"
  Service_Type :: string
  pch_Persistence :: PeerPersistence
  pch_Logging :: FabricPeerLogging

definition PeerPortName :: string where "PeerPortName = ''peer''"

fun getRequestNodePort :: "service_port list \<Rightarrow> int res" where
  "getRequestNodePort [] = Err (ErrorString [])"
| "getRequestNodePort (port # ports) =
     (if sp_Name port = PeerPortName then Ok (sp_NodePort port) else getRequestNodePort ports)"

definition external_endpoint :: "'w kube \<Rightarrow> FabricPeerSpec \<Rightarrow> k8s_service \<Rightarrow> ('w, string) io" where
  "external_endpoint U spec svc =
     (if ps_ExternalEndpoint spec \<noteq> [] then io_return (ps_ExternalEndpoint spec)
      else io_bind (io_lift (getRequestNodePort (svc_Ports svc))) (\<lambda>requestNodePort.
           io_bind (GetPublicIPKubernetes (kube_nodes U)) (\<lambda>publicIP.
             io_return (publicIP @ '':'' @ itoa requestNodePort))))"

definition DefaultImagePullPolicy :: string where "DefaultImagePullPolicy = ''IfNotPresent''"
definition DefaultFSServerImage :: string where "DefaultFSServerImage = ''quay.io/kfsoftware/fs-peer''"
definition DefaultFSServerVersion :: string where "DefaultFSServerVersion = ''amd64-2.2.0-0.0.1''"
definition DefaultCouchDBImage :: string where "DefaultCouchDBImage = ''couchdb''"
definition DefaultCouchDBVersion :: string where "DefaultCouchDBVersion = ''3.1.1''"

definition or_default :: "string \<Rightarrow> string \<Rightarrow> string" where
  "or_default s d = (if s = [] then d else s)"

definition state_db :: "string \<Rightarrow> string" where
  "state_db db = (if db = ''couchdb'' then ''CouchDB'' else if db = ''leveldb'' then ''goleveldb''
     else if db = ''pg'' then ''pg'' else ''goleveldb'')"

definition exporter_values :: "FabricPeerCouchdbExporter option \<Rightarrow> CouchDBExporter" where
  "exporter_values spec =
     (let off = \<lparr>Exporter_Enabled = False, Exporter_Image = [], Exporter_Tag = [], Exporter_PullPolicy = []\<rparr> in
      case spec of
        Some e \<Rightarrow> (if exp_Enabled e
          then \<lparr>Exporter_Enabled = exp_Enabled e, Exporter_Image = exp_Image e, Exporter_Tag = exp_Tag e,
            Exporter_PullPolicy = exp_ImagePullPolicy e\<rparr> else off)
      | None \<Rightarrow> off)"

definition couchdb_values :: "FabricPeerCouchDB \<Rightarrow> CouchDB" where
  "couchdb_values spec =
     (let none = \<lparr>Xdb_Enabled = False, Xdb_Host = [], Xdb_Port = 0\<rparr>;
          external = (case ExternalCouchDB spec of
              Some x \<Rightarrow> (if xdb_Enabled x then \<lparr>Xdb_Enabled = True, Xdb_Host = xdb_Host x, Xdb_Port = xdb_Port x\<rparr> else none)
            | None \<Rightarrow> none);
          given = (db_Image spec \<noteq> [] \<and> db_Tag spec \<noteq> [])
      in \<lparr>Couch_External = external,
          Couch_Image = (if given then db_Image spec else DefaultCouchDBImage),
          Couch_Tag = (if given then db_Tag spec else DefaultCouchDBVersion),
          Couch_PullPolicy = or_default (db_PullPolicy spec) DefaultImagePullPolicy\<rparr>)"

definition fs_server_values :: "FabricFSServer option \<Rightarrow> FabricFSServer" where
  "fs_server_values spec =
     (let default = \<lparr>fs_Image = DefaultFSServerImage, fs_Tag = DefaultFSServerVersion,
            fs_PullPolicy = DefaultImagePullPolicy\<rparr> in
      case spec of
        Some f \<Rightarrow> (if fs_Image f \<noteq> [] \<and> fs_Tag f \<noteq> []
          then \<lparr>fs_Image = fs_Image f, fs_Tag = fs_Tag f, fs_PullPolicy = fs_PullPolicy f\<rparr> else default)
      | None \<Rightarrow> default)"

definition gossip_values :: "FabricPeerSpecGossip \<Rightarrow> string \<Rightarrow> Gossip" where
  "gossip_values g externalEndpoint = \<lparr>Gossip_Bootstrap = gs_Bootstrap g,
     Gossip_Endpoint = or_default (gs_Endpoint g) externalEndpoint,
     Gossip_ExternalEndpoint = or_default (gs_ExternalEndpoint g) externalEndpoint,
     Gossip_OrgLeader = gs_OrgLeader g, Gossip_UseLeaderElection = gs_UseLeaderElection g,
     Gossip_ReconnectInterval = gs_ReconnectInterval g, Gossip_AliveExpirationTimeout = gs_AliveExpirationTimeout g,
     Gossip_AliveTimeInterval = gs_AliveTimeInterval g, Gossip_ResponseWaitTime = gs_ResponseWaitTime g\<rparr>"

definition peer_chart ::
  "'w crypto \<Rightarrow> FabricPeerResource \<Rightarrow> string \<Rightarrow> material \<Rightarrow> material \<Rightarrow> material
   \<Rightarrow> string \<Rightarrow> string \<Rightarrow> string \<Rightarrow> string \<Rightarrow> FabricPeerChart" where
  "peer_chart K conf namespace tls ops sign tlsKeyPem opsKeyPem signKeyPem externalEndpoint =
     (let spec = peer_Spec conf; (tlsCert, _, tlsRootCert) = tls; (opsCert, _, _) = ops; (signCert, _, signRootCert) = sign in
      \<lparr>DeliveryClientaddressOverrides = ps_DeliveryClientaddressOverrides spec, Volumes = ps_Volumes spec,
       PeerVolumeMounts = ps_PeerVolumeMounts spec, PodLabels = ps_PodLabels spec,
       PodAnnotations = ps_PodAnnotations spec, EnvVars = ps_Env spec, Replicas = ps_Replicas spec,
       ImagePullSecrets = ps_ImagePullSecrets spec, pch_GatewayApi = gateway_values (ps_GatewayApi spec),
       pch_Istio = istio_values (ps_Istio spec), pch_Traefik = traefik_values (ps_Traefik spec),
       pch_Image = \<lparr>Repository = ps_Image spec, Image_Tag = ps_Tag spec,
         Image_PullPolicy = or_default (ps_ImagePullPolicy spec) DefaultImagePullPolicy\<rparr>,
       pch_Proxy = proxy_values False (ps_GRPCProxy spec), pch_ServiceMonitor = monitor_values (ps_ServiceMonitor spec),
       pch_ExternalBuilders = map (\<lambda>b. \<lparr>builder_Name = builder_Name b, builder_Path = builder_Path b,
         PropagateEnvironment = PropagateEnvironment b\<rparr>) (ps_ExternalBuilders spec),
       DockerSocketPath = ps_DockerSocketPath spec, pch_CouchDBExporter = exporter_values (ps_CouchDBExporter spec),
       pch_CouchDB = couchdb_values (ps_CouchDB spec), pch_FSServer = fs_server_values (ps_FSServer spec),
       pch_Peer = \<lparr>DatabaseType = state_db (ps_StateDb spec), Peer_MspID = ps_MspID spec,
         Peer_Gossip = gossip_values (ps_Gossip spec) externalEndpoint, TLS_Server_Enabled = True,
         TLS_Client_Enabled = False\<rparr>,
       ExternalChaincodeBuilder = ps_ExternalChaincodeBuilder spec, CouchdbPassword = db_Password (ps_CouchDB spec),
       CouchdbUsername = db_User (ps_CouchDB spec), Rbac_Ns = namespace, pch_Cert = pem_of K signCert,
       pch_Key = signKeyPem, pch_Hosts = ps_Hosts spec,
       pch_TLS = \<lparr>chart_Cert = pem_of K tlsCert, chart_Key = tlsKeyPem\<rparr>,
       OPSTLS = \<lparr>chart_Cert = pem_of K opsCert, chart_Key = opsKeyPem\<rparr>, pch_Cacert = pem_of K signRootCert,
       IntCacert = [], Tlsrootcert = pem_of K tlsRootCert, pch_Resources = ps_Resources spec,
       pch_NodeSelector = ps_NodeSelector spec, pch_Tolerations = ps_Tolerations spec, pch_Affinity = ps_Affinity spec,
       ExternalHost = externalEndpoint, FullnameOverride = crName conf,
       pch_HostAliases = host_aliases (ps_HostAliases spec), Service_Type = ps_ServiceType spec,
       pch_Persistence = \<lparr>Pers_Peer = persistence_values (st_Peer (ps_Storage spec)),
         Pers_CouchDB = persistence_values (st_CouchDB (ps_Storage spec)),
         Pers_Chaincode = persistence_values (st_Chaincode (ps_Storage spec))\<rparr>,
       pch_Logging = ps_Logging spec\<rparr>)"

text \<open>The pairs are chosen first, then the keys are encoded, then the address is found.\<close>

definition peer_GetConfig ::
  "('w, FabricPeerResource, FabricPeerChart) node_operator \<Rightarrow> FabricPeerResource \<Rightarrow> string \<Rightarrow> string
   \<Rightarrow> k8s_service \<Rightarrow> bool \<Rightarrow> ('w, FabricPeerChart) io" where
  "peer_GetConfig M conf chartName namespace svc refreshCerts =
     (let P = no_pki M; K = pki_crypto P; reenroll = RenewCertificatesReenroll M in
      io_bind (peer_tls_material P conf chartName namespace refreshCerts reenroll) (\<lambda>tls.
      io_bind (peer_ops_material P conf chartName namespace refreshCerts) (\<lambda>ops.
      io_bind (peer_sign_material P conf chartName namespace refreshCerts reenroll) (\<lambda>sign.
      io_bind (io_lift (EncodePrivateKey K (fst (snd tls)))) (\<lambda>tlsKeyPem.
      io_bind (io_lift (EncodePrivateKey K (fst (snd ops)))) (\<lambda>opsKeyPem.
      io_bind (io_lift (EncodePrivateKey K (fst (snd sign)))) (\<lambda>signKeyPem.
      io_bind (external_endpoint (no_kube M) (peer_Spec conf) svc) (\<lambda>externalEndpoint.
        io_return (peer_chart K conf namespace tls ops sign tlsKeyPem opsKeyPem signKeyPem externalEndpoint)))))))))"

end
