(* ===== verification/Peer_Controller.thy ===== *)
theory Peer_Controller imports Peer_Chart Reconciler begin

text \<open>
  \<open>FabricPeerReconciler\<close>: the Helm release of a peer, its service, its certificates and its status.
  \<open>Reconcile\<close> is one function in the code; each definition below is a stretch of it, in its order.
  Metrics and logging have no effect here.
\<close>

type_synonym 'w peer_operator = "('w, FabricPeerResource, FabricPeerChart) node_operator"

definition peer_fail :: "'w peer_operator \<Rightarrow> FabricPeerResource \<Rightarrow> go_error \<Rightarrow> ('w, Result) io" where
  "peer_fail M = report_failure FabricPeer_setConditionStatus FabricPeer_updateCRStatusOrFailReconcile (no_client M)"

text \<open>The zero value, the resource before it is read.\<close>

definition zero_component :: Component where
  "zero_component = \<lparr>Cahost = [], Caname = [], Caport = 0, comp_Catls = None, Enrollid = [], Enrollsecret = [],
     comp_External = None, comp_Vault = None\<rparr>"

definition zero_enrollment :: Enrollment where
  "zero_enrollment = \<lparr>enr_Component = zero_component,
     enr_TLS = Component.extend zero_component (TLSComponent.fields \<lparr>csr_Hosts = [], csr_CN = []\<rparr>)\<rparr>"

definition zero_storage :: StorageSpec where
  "zero_storage = \<lparr>sto_Size = [], sto_StorageClass = [], sto_AccessMode = []\<rparr>"

definition empty_peer_spec :: FabricPeerSpec where
  "empty_peer_spec = \<lparr>ps_PodAnnotations = Map.empty, ps_PodLabels = Map.empty, ps_DeliveryClientaddressOverrides = [],
     ps_Volumes = [], ps_PeerVolumeMounts = [], ps_UpdateCertificateTime = None, ps_Affinity = None,
     ps_ServiceMonitor = None, ps_HostAliases = [], ps_NodeSelector = None, ps_CouchDBExporter = None,
     ps_GRPCProxy = None, ps_Replicas = 0, ps_DockerSocketPath = [], ps_Image = [], ps_ExternalBuilders = [],
     ps_GatewayApi = None, ps_Traefik = None, ps_Istio = None,
     ps_Gossip = \<lparr>gs_ExternalEndpoint = [], gs_Bootstrap = [], gs_Endpoint = [], gs_UseLeaderElection = False,
       gs_OrgLeader = False, gs_ReconnectInterval = [], gs_AliveExpirationTimeout = [], gs_AliveTimeInterval = [],
       gs_ResponseWaitTime = []\<rparr>,
     ps_ExternalEndpoint = [], ps_Tag = [], ps_ImagePullPolicy = [], ps_ExternalChaincodeBuilder = False,
     ps_CouchDB = \<lparr>db_User = [], db_Password = [], db_Image = [], db_Tag = [], db_PullPolicy = [], ExternalCouchDB = None\<rparr>,
     ps_FSServer = None, ps_ImagePullSecrets = [], ps_MspID = [], ps_Enrollment = zero_enrollment, ps_ServiceType = [],
     ps_StateDb = [], ps_Storage = \<lparr>st_CouchDB = zero_storage, st_Peer = zero_storage, st_Chaincode = zero_storage\<rparr>,
     ps_Logging = \<lparr>log_Level = [], log_Peer = [], log_Cauthdsl = [], log_Gossip = [], log_Grpc = [], log_Ledger = [],
       log_Msp = [], log_Policies = []\<rparr>,
     ps_Resources = \<lparr>res_Peer = None, res_CouchDB = None, res_Chaincode = None, res_CouchDBExporter = None, res_Proxy = None\<rparr>,
     ps_Hosts = [], ps_Tolerations = [], ps_Env = [], ps_CredentialStore = []\<rparr>"

definition empty_peer :: FabricPeerResource where
  "empty_peer = \<lparr>crName = [], crNamespace = [], Finalizers = [], DeletionTimestamp = None, crConditions = [],
     crMessage = [], crStatus = [], LastCertificateUpdate = None, SignCert = [], TlsCert = [], TlsCACert = [],
     SignCACert = [], NodePort = 0, CertRenewalLeaseHeld = False, peer_Spec = empty_peer_spec\<rparr>"

section \<open>Service and release\<close>

definition PeerPortName443 :: string where "PeerPortName443 = ''peer-443''"
definition ChaincodePortName :: string where "ChaincodePortName = ''chaincode''"
definition EventPortName :: string where "EventPortName = ''event''"
definition OperationsPortName :: string where "OperationsPortName = ''operations''"

definition tcp_port :: "string \<Rightarrow> int \<Rightarrow> int \<Rightarrow> service_port" where
  "tcp_port name port target =
     \<lparr>sp_Name = name, sp_Protocol = ''TCP'', sp_Port = port, sp_TargetPort = target, sp_NodePort = 0\<rparr>"

definition peer_ports :: "service_port list" where
  "peer_ports = [tcp_port PeerPortName443 443 7051, tcp_port PeerPortName 7051 7051,
     tcp_port ChaincodePortName 7052 7052, tcp_port EventPortName 7053 7053, tcp_port OperationsPortName 9443 9443]"

definition createPeerService :: "'w kube \<Rightarrow> string \<Rightarrow> FabricPeerResource \<Rightarrow> ('w, k8s_service) io" where
  "createPeerService U chartName peer =
     (let releaseName = crName peer; ns = namespace_or_default (crNamespace peer);
          labels = [''app'' \<mapsto> chartName, ''release'' \<mapsto> releaseName];
          svcType = ps_ServiceType (peer_Spec peer) in
      io_try (services_Get U ns releaseName)
        (\<lambda>svc. services_Update U ns (svc\<lparr>svc_Type := svcType, svc_Ports := peer_ports, svc_Selector := labels\<rparr>))
        (\<lambda>err. if isNotFound err
           then services_Create U ns \<lparr>svc_Name = releaseName, svc_Namespace = ns, svc_Labels = labels,
             svc_Type = svcType, svc_Ports = peer_ports, svc_Selector = labels\<rparr>
           else io_throw err))"

text \<open>Errors of deleting the service are logged only.\<close>

definition finalizePeer :: "'w peer_operator \<Rightarrow> FabricPeerResource \<Rightarrow> ('w, unit) io" where
  "finalizePeer M peer =
     (let U = no_kube M; ns = namespace_or_default (crNamespace peer) in
      io_bind (GetClientKubeWithConf U) (\<lambda>_.
      io_bind (io_catch (services_Delete U ns (crName peer)) (\<lambda>_. io_return ())) (\<lambda>_.
      io_bind (newActionCfg M ns) (\<lambda>_. uninstall_release M (crName peer)))))"

definition peer_upgradeChart :: "'w peer_operator \<Rightarrow> string \<Rightarrow> string \<Rightarrow> FabricPeerChart \<Rightarrow> ('w, unit) io" where
  "peer_upgradeChart M = upgrade_release False M
     \<lparr>ho_Wait = no_Wait M, ho_Timeout = no_Timeout M, ho_MaxHistory = no_MaxHistory M, ho_Namespace = []\<rparr>"

section \<open>The state of a peer\<close>

record node_state =
  state_Status :: string
  state_TlsCert :: string
  state_TlsCACert :: string
  state_SignCert :: string
  state_SignCACert :: string
  state_NodePort :: int

definition peer_object_status :: "'w kube \<Rightarrow> string \<Rightarrow> string \<Rightarrow> manifest_object \<Rightarrow> string \<Rightarrow> ('w, string) io" where
  "peer_object_status U ns releaseName object st = (case object of
       DeploymentObject name replicas \<Rightarrow> deployment_status U ns releaseName name replicas st
     | _ \<Rightarrow> io_return st)"

definition GetPeerState ::
  "'w peer_operator \<Rightarrow> string \<Rightarrow> string \<Rightarrow> k8s_service \<Rightarrow> ('w, node_state) io" where
  "GetPeerState M releaseName ns svc =
     (let U = no_kube M; K = pki_crypto (no_pki M) in
      io_bind (helm_Get (no_helm M) releaseName) (\<lambda>rel.
      io_bind (GetClientKubeWithConf U) (\<lambda>_.
      let ns = namespace_or_default ns in
      io_bind (io_fold (peer_object_status U ns releaseName) (ParseK8sYaml (decode_yaml (no_helm M)) (hr_Manifest rel))
        PendingStatus) (\<lambda>st.
      let port = fold (\<lambda>port np. if sp_Name port = PeerPortName then sp_NodePort port else np) (svc_Ports svc) 0 in
      io_bind (getExistingTLSCrypto K releaseName ns) (\<lambda>(tlsCrt, _, rootTlsCrt).
      io_bind (peer_getExistingSignCrypto K releaseName ns) (\<lambda>(signCrt, _, rootSignCrt).
        io_return \<lparr>state_Status = st, state_TlsCert = pem_of K tlsCrt, state_TlsCACert = pem_of K rootTlsCrt,
          state_SignCert = pem_of K signCrt, state_SignCACert = pem_of K rootSignCrt, state_NodePort = port\<rparr>))))))"

section \<open>Updating\<close>

text \<open>
  Whether the certificates are due: the user asked after the last renewal, or asked and there was none
  yet, or the operator renews by itself and the certificate ends within its period.  The request is read
  from the resource read anew, \<open>node\<close>, except for the comparison, which reads it from the one at hand.
\<close>

definition peer_renewal_asked :: "FabricPeerResource \<Rightarrow> FabricPeerResource \<Rightarrow> bool res" where
  "peer_renewal_asked p node =
     (case (LastCertificateUpdate node, ps_UpdateCertificateTime (peer_Spec node)) of
        (Some renewed, Some _) \<Rightarrow> (case ps_UpdateCertificateTime (peer_Spec p) of
            None \<Rightarrow> Panic ''nil pointer dereference'' | Some t \<Rightarrow> Ok (renewed < t))
      | (None, Some _) \<Rightarrow> Ok True
      | (_, None) \<Rightarrow> Ok False)"

definition peer_renewal_needed ::
  "'w peer_operator \<Rightarrow> string \<Rightarrow> string \<Rightarrow> FabricPeerResource \<Rightarrow> FabricPeerResource \<Rightarrow> ('w, bool) io" where
  "peer_renewal_needed M releaseName ns p node =
     io_bind (io_lift (peer_renewal_asked p node)) (\<lambda>asked.
     io_bind (getExistingTLSCrypto (pki_crypto (no_pki M)) releaseName ns) (\<lambda>(tlsCert, _, _).
     io_bind (expires_soon M tlsCert) (\<lambda>soon. io_return (asked \<or> soon))))"

text \<open>The resource is changed by \<open>setConditionStatus\<close> whether or not the update then fails.\<close>

definition peer_updateCerts ::
  "'w peer_operator \<Rightarrow> string \<Rightarrow> string \<Rightarrow> k8s_service \<Rightarrow> FabricPeerResource
   \<Rightarrow> ('w, FabricPeerResource \<times> go_error option) io" where
  "peer_updateCerts M releaseName ns svc p =
     io_bind (FabricPeer_setConditionStatus (no_client M) p UpdatingCertificates False None False) (\<lambda>(p, _).
     io_try (peer_GetConfig M p releaseName ns svc True)
       (\<lambda>config. io_try (peer_upgradeChart M ns releaseName config)
          (\<lambda>_. io_return (p, None)) (\<lambda>err. io_return (p, Some err)))
       (\<lambda>err. io_return (p, Some err)))"

definition peer_renew ::
  "'w peer_operator \<Rightarrow> string \<Rightarrow> string \<Rightarrow> k8s_service \<Rightarrow> FabricPeerResource
   \<Rightarrow> (FabricPeerResource \<Rightarrow> time option \<Rightarrow> int \<Rightarrow> ('w, Result) io) \<Rightarrow> ('w, Result) io" where
  "peer_renew M releaseName ns svc p finish =
     io_bind (acquire_renewal_lease (no_kube M) ''peer'' ns (crName p)) (\<lambda>acquired.
     if \<not> acquired then io_return (requeue_after (10 * Second))
     else io_bind (mark_held (no_client M) p) (\<lambda>p.
          io_bind (FabricPeer_setConditionStatus (no_client M) p UpdatingCertificates False None False) (\<lambda>(p, _).
          io_bind (peer_updateCerts M releaseName ns svc p) (\<lambda>(p, failure). case failure of
              Some err \<Rightarrow> peer_fail M p err
            | None \<Rightarrow> io_bind (io_total (time_Now (pki_crypto (no_pki M)))) (\<lambda>now.
                finish p (Some (now + Minute * 5)) (Minute * 5))))))"

definition peer_upgrade ::
  "'w peer_operator \<Rightarrow> string \<Rightarrow> string \<Rightarrow> k8s_service \<Rightarrow> helm_release \<Rightarrow> FabricPeerResource
   \<Rightarrow> (FabricPeerResource \<Rightarrow> ('w, Result) io) \<Rightarrow> ('w, Result) io" where
  "peer_upgrade M releaseName ns svc helmStatus p finish =
     attempt (peer_fail M p) (peer_GetConfig M p releaseName ns svc False) (\<lambda>c.
     if hr_Status helmStatus \<noteq> StatusPendingUpgrade
     then attempt (peer_fail M p) (peer_upgradeChart M ns releaseName c) (\<lambda>_. finish p)
     else finish p)"

text \<open>\<open>reflect.DeepEqual\<close> on the status.\<close>

definition cert_status_of :: "'a cert_resource_scheme \<Rightarrow> Conditions \<times> string \<times> string \<times> time option
    \<times> (string \<times> string \<times> string \<times> string) \<times> int \<times> bool" where
  "cert_status_of p = (crConditions p, crMessage p, crStatus p, LastCertificateUpdate p,
     (SignCert p, TlsCert p, TlsCACert p, SignCACert p), NodePort p, CertRenewalLeaseHeld p)"

definition observed :: "time \<Rightarrow> node_state \<Rightarrow> time option \<Rightarrow> 'a cert_resource_scheme \<Rightarrow> 'a cert_resource_scheme" where
  "observed now s renewed p =
     fst (put_condition now \<lparr>Type = state_Status s, Status = ConditionTrue, Reason = [], Message = [], LastTransitionTime = 0\<rparr>
       (p\<lparr>crStatus := state_Status s, crMessage := [], TlsCert := state_TlsCert s, TlsCACert := state_TlsCACert s,
          SignCert := state_SignCert s, SignCACert := state_SignCACert s, NodePort := state_NodePort s,
          LastCertificateUpdate := renewed\<rparr>))"

definition peer_requeue :: "string \<Rightarrow> int \<Rightarrow> Result" where
  "peer_requeue st requeueAfter =
     (if st = PendingStatus then requeue_after (10 * Second)
      else if st = FailedStatus \<or> st = RunningStatus \<or> st = UpdatingCertificates then requeue_after requeueAfter
      else requeue_after (2 * Second))"

definition peer_finish ::
  "'w peer_operator \<Rightarrow> string \<Rightarrow> string \<Rightarrow> k8s_service \<Rightarrow> time option \<Rightarrow> int \<Rightarrow> FabricPeerResource \<Rightarrow> ('w, Result) io" where
  "peer_finish M releaseName ns svc renewed requeueAfter p =
     attempt (peer_fail M p) (GetPeerState M releaseName ns svc) (\<lambda>s w.
       (let q = observed (clock_now (no_client M) w) s renewed p in
        if cert_status_of q \<noteq> cert_status_of p
        then attempt (peer_fail M p) (status_update (no_client M) q)
               (\<lambda>_. io_return (peer_requeue (state_Status s) requeueAfter)) w
        else io_return (peer_requeue (state_Status s) requeueAfter) w))"

definition update_peer ::
  "'w peer_operator \<Rightarrow> string \<Rightarrow> string \<Rightarrow> k8s_service \<Rightarrow> helm_release \<Rightarrow> FabricPeerResource \<Rightarrow> ('w, Result) io" where
  "update_peer M releaseName ns svc helmStatus p =
     attempt (peer_fail M p) (no_NewForConfig M) (\<lambda>_.
     attempt (peer_fail M p) (no_Get M ns (crName p)) (\<lambda>node.
     io_bind (peer_renewal_needed M releaseName ns p node) (\<lambda>needed.
     io_bind (release_if_held (no_client M) (no_kube M) ''peer'' ns p) (\<lambda>p.
       if needed
       then peer_renew M releaseName ns svc p (\<lambda>p renewed requeueAfter. peer_finish M releaseName ns svc renewed requeueAfter p)
       else peer_upgrade M releaseName ns svc helmStatus p
              (peer_finish M releaseName ns svc (LastCertificateUpdate node) (Minute * 60))))))"

section \<open>Installing\<close>

definition deployed :: "time \<Rightarrow> 'a cert_resource_scheme \<Rightarrow> 'a cert_resource_scheme" where
  "deployed now p = fst (put_condition now
     \<lparr>Type = ''DEPLOYED'', Status = ConditionTrue, Reason = [], Message = [], LastTransitionTime = 0\<rparr>
     (p\<lparr>crStatus := PendingStatus\<rparr>))"

definition install_peer ::
  "'w peer_operator \<Rightarrow> string \<times> string \<Rightarrow> k8s_service \<Rightarrow> FabricPeerResource \<Rightarrow> ('w, Result) io" where
  "install_peer M req svc p =
     (let (ns, releaseName) = req; H = no_helm M in
      attempt (peer_fail M p) (io_lift (NameAndChart H [releaseName, ChartPath M])) (\<lambda>(name, chart).
      attempt (peer_fail M p) (loader_Load H chart) (\<lambda>ch.
      attempt (peer_fail M p) (peer_GetConfig M p name ns svc False) (\<lambda>c.
      attempt (peer_fail M p) (io_lift (chart_values H c)) (\<lambda>inInterface.
      attempt (peer_fail M p) (helm_Install H
        \<lparr>ho_Wait = no_Wait M, ho_Timeout = no_Timeout M, ho_MaxHistory = 0, ho_Namespace = []\<rparr> name ch inInterface) (\<lambda>_.
      attempt (peer_fail M p) (client_get (no_client M) req) (\<lambda>p w.
        (let q = deployed (clock_now (no_client M) w) p in
         attempt (peer_fail M q) (status_update (no_client M) q)
           (\<lambda>_. io_return (requeue_after (10 * Second)))) w)))))))"

section \<open>Reconcile\<close>

definition with_store :: "FabricPeerResource \<Rightarrow> FabricPeerResource" where
  "with_store p = (if ps_CredentialStore (peer_Spec p) = []
     then p\<lparr>peer_Spec := (peer_Spec p)\<lparr>ps_CredentialStore := ''kubernetes''\<rparr>\<rparr> else p)"

definition peer_chart_name :: string where "peer_chart_name = ''hlf-peer''"

definition reconcile_peer :: "'w peer_operator \<Rightarrow> string \<times> string \<Rightarrow> FabricPeerResource \<Rightarrow> ('w, Result) io" where
  "reconcile_peer M req p =
     (let (ns, releaseName) = req; p = with_store p in
      io_bind (find_release (no_helm M) releaseName) (\<lambda>helmStatus.
      attempt (peer_fail M p) (GetClientKubeWithConf (no_kube M)) (\<lambda>_.
      attempt (peer_fail M p) (createPeerService (no_kube M) peer_chart_name p) (\<lambda>svc.
      case helmStatus of
        Some st \<Rightarrow> update_peer M releaseName ns svc st p
      | None \<Rightarrow> install_peer M req svc p))))"

definition release_peer :: "'w peer_operator \<Rightarrow> FabricPeerResource \<Rightarrow> ('w, Result) io" where
  "release_peer M p =
     (if Contains (Finalizers p) peerFinalizer
      then attempt (peer_fail M p) (finalizePeer M p) (\<lambda>_.
        let p' = p\<lparr>Finalizers := remove_finalizer (no_client M) peerFinalizer (Finalizers p)\<rparr> in
        attempt (peer_fail M p') (client_update (no_client M) p') (\<lambda>_. io_return no_requeue))
      else io_return no_requeue)"

definition Reconcile_peer :: "'w peer_operator \<Rightarrow> string \<times> string \<Rightarrow> ('w, Result) io" where
  "Reconcile_peer M req =
     attempt (peer_fail M empty_peer) (newActionCfg M (fst req)) (\<lambda>_.
     io_try (client_get (no_client M) req)
       (\<lambda>p. if DeletionTimestamp p \<noteq> None then release_peer M p
            else if \<not> Contains (Finalizers p) peerFinalizer
            then attempt (peer_fail M (p\<lparr>Finalizers := [peerFinalizer]\<rparr>)) (FabricPeer_addFinalizer (no_client M) p)
                   (reconcile_peer M req)
            else reconcile_peer M req p)
       (\<lambda>err. if isNotFound err then io_return no_requeue else peer_fail M empty_peer err))"

end
