(* ===== verification/Enrollment_Correct.thy ===== *)
theory Enrollment_Correct imports Node_Crypto begin

text \<open>
  What enrolling and renewing guarantee: which key a renewed certificate is paired with, and that an
  authority that was created in a Vault is found there again.
\<close>

section \<open>Renewing\<close>

text \<open>
  The contract of a renewal: the key that is returned is the one that was given.  Whoever renews through
  it, and falls back to enrolling only after an error of one kind, ends with that key when there is none.
\<close>

locale renewer =
  fixes renew :: "string \<Rightarrow> ecdsa_key \<Rightarrow> ('w, material) io"
  assumes keeps_key: "renew pem key w = (Ok (crt, key', root), w') \<Longrightarrow> key' = key"
begin

lemma renew_or_enroll_key:
  assumes "io_catch (renew pem key) (\<lambda>e. if P e then create else io_throw (f e)) w = (Ok (crt, key', root), w')"
    and "\<And>e v. renew pem key w = (Err e, v) \<Longrightarrow> \<not> P e"
  shows "key' = key"
proof (cases "renew pem key w")
  case (Pair r v)
  then show ?thesis
  proof (cases r)
    case (Ok m)
    then show ?thesis using assms Pair keeps_key [of pem key w crt key' root w'] by (simp add: io_simps)
  next
    case (Err e)
    then show ?thesis using assms Pair by (simp add: io_simps)
  next
    case (Panic p)
    then show ?thesis using assms Pair by (simp add: io_simps)
  qed
qed

end

lemma reenroll_with_key:
  "reenroll_with P store enrollment vaultRequest caRequest pem key w = (Ok (crt, key', root), w') \<Longrightarrow> key' = key"
  by (auto simp: reenroll_with_def io_bind_Ok_iff io_return_apply)

text \<open>With a Vault the key and the old certificate have no influence on the answer.\<close>

lemma vault_ReenrollUser_ignores: "vault_ReenrollUser K V spec request params pem key = vault_ReenrollUser K V spec request params pem' key'"
  by (simp add: vault_ReenrollUser_def)

lemma reenroll_with_vault:
  assumes "reenroll_with P CredentialStoreVault enrollment vaultRequest caRequest pem key w = (Ok (crt, key', root), w')"
  shows "reenroll_with P CredentialStoreVault enrollment vaultRequest caRequest pem2 key2 w = (Ok (crt, key2, root), w')"
proof -
  obtain v where v: "comp_Vault enrollment = Some v"
    using assms by (auto simp: reenroll_with_def on_vault_def io_simps split: option.splits)
  then have "vault_ReenrollUser (pki_crypto P) (pki_vault P) (vc_Vault v) (vc_Request v) vaultRequest pem key w = (Ok (crt, root), w')"
    using assms by (auto simp: reenroll_with_def on_vault_def io_bind_Ok_iff io_return_apply)
  then have "vault_ReenrollUser (pki_crypto P) (pki_vault P) (vc_Vault v) (vc_Request v) vaultRequest pem2 key2 w = (Ok (crt, root), w')"
    using vault_ReenrollUser_ignores by metis
  then show ?thesis using v by (simp add: reenroll_with_def on_vault_def io_simps)
qed

section \<open>Encodings\<close>

text \<open>Documented behaviour: encodings are inverted, a parsed certificate keeps its bytes.\<close>

definition codec_law :: "'w crypto \<Rightarrow> bool" where
  "codec_law K \<longleftrightarrow> (\<forall>t b. decode_pem K (encode_pem K (t, b)) = Some b)
     \<and> (\<forall>key der. MarshalPKCS8PrivateKey K key = Ok der \<longrightarrow> ParsePKCS8PrivateKey K der = Ok (key, True))
     \<and> (\<forall>der crt. ParseCertificate K der = Ok crt \<longrightarrow> x509_Raw crt = der)"

definition parsed :: "'w crypto \<Rightarrow> x509_certificate \<Rightarrow> bool" where
  "parsed K crt \<longleftrightarrow> ParseCertificate K (x509_Raw crt) = Ok crt"

lemma parsedI: "codec_law K \<Longrightarrow> ParseCertificate K der = Ok crt \<Longrightarrow> parsed K crt"
  by (auto simp: codec_law_def parsed_def)

lemma codec_lawD:
  assumes "codec_law K"
  shows "decode_pem K (encode_pem K (t, b)) = Some b"
    and "MarshalPKCS8PrivateKey K key = Ok der \<Longrightarrow> ParsePKCS8PrivateKey K der = Ok (key, True)"
  using assms unfolding codec_law_def by blast+

lemma pem_decodes:
  assumes "codec_law K" and "parsed K crt" and "pem_of K crt \<noteq> []"
  shows "x509_of K (pem_of K crt) = Ok crt"
  using assms(2,3) codec_lawD [OF assms(1)]
  by (simp add: x509_of_def ParseX509Certificate_def pem_of_def EncodeX509Certificate_def parsed_def)

lemma key_decodes:
  assumes "codec_law K" and "EncodePrivateKey K key = Ok k"
  shows "ecdsa_of K k = Ok key"
proof -
  obtain der where "MarshalPKCS8PrivateKey K key = Ok der" "k = encode_pem K (''PRIVATE KEY'', der)"
    using assms(2) by (auto simp: EncodePrivateKey_def)
  then show ?thesis using codec_lawD [OF assms(1)] by (simp add: ecdsa_of_def ParseECDSAPrivateKey_def)
qed

section \<open>Authorities in a Vault\<close>

text \<open>Documented behaviour: a secret that was written is read back; encodings are inverted.\<close>

definition kv_law :: "'w vault_lib \<Rightarrow> bool" where
  "kv_law V \<longleftrightarrow> (\<forall>c path d w w'. KvV2Write V c path d w = (Ok (), w') \<longrightarrow>
     (\<exists>w''. KvV2Read V c path w' = (Ok (Some d), w'')))"

definition encoding_law :: "'w crypto \<Rightarrow> 'w vault_lib \<Rightarrow> bool" where
  "encoding_law K V \<longleftrightarrow> (\<forall>t b. decode_pem K (encode_pem K (t, b)) = Some b)
     \<and> (\<forall>key der. MarshalECPrivateKey V key = Ok der \<longrightarrow> ParseECPrivateKey V der = Ok key)"

definition holds_ca :: "'w vault_lib \<Rightarrow> vault_client \<Rightarrow> string \<Rightarrow> 'w \<Rightarrow> bool" where
  "holds_ca V c name w = (case KvV2Read V c (ca_path name) w of (Ok (Some d), _) \<Rightarrow> True | _ \<Rightarrow> False)"

lemma new_ca_stored:
  assumes kv: "kv_law V" and enc: "encoding_law K V"
    and ok: "new_ca K V req c w = (Ok (crt, key), w')"
  shows "\<exists>d w''. KvV2Read V c (ca_path (cc_CAName req)) w' = (Ok (Some d), w'') \<and> stored_ca K V d = Ok (crt, key)"
proof -
  from ok obtain certBytes keyBytes d w1 where
    d: "d = [''certificate'' \<mapsto> VString (encode_pem K (''CERTIFICATE'', certBytes)),
        ''private_key'' \<mapsto> VString (encode_pem K (''EC PRIVATE KEY'', keyBytes))]"
    and k: "MarshalECPrivateKey V key = Ok keyBytes" and c: "ParseCertificate K certBytes = Ok crt"
    and wr: "KvV2Write V c (ca_path (cc_CAName req)) d w1 = (Ok (), w')"
    unfolding new_ca_def by (auto simp: io_oks simp del: fun_upd_apply)
  have "stored_ca K V d = Ok (crt, key)"
    using enc k c by (simp add: d stored_ca_def string_field_def pem_certificate_def encoding_law_def)
  moreover obtain w'' where "KvV2Read V c (ca_path (cc_CAName req)) w' = (Ok (Some d), w'')"
    using kv wr unfolding kv_law_def by blast
  ultimately show ?thesis by blast
qed

lemma CreateCA_new: "\<not> holds_ca V c (cc_CAName req) w \<Longrightarrow> CreateCA K V req c w = (Ok m, w') \<Longrightarrow>
    \<exists>v. new_ca K V req c v = (Ok m, w')"
  by (auto simp: CreateCA_def holds_ca_def io_try_apply split: prod.splits res.splits option.splits)

lemma CreateCA_stored:
  "KvV2Read V c (ca_path (cc_CAName req)) w = (Ok (Some d), w') \<Longrightarrow> CreateCA K V req c w = (stored_ca K V d, w')"
  by (simp add: CreateCA_def io_simps)

section \<open>Properties\<close>


text \<open>A Vault in memory: its secrets by path, and the keys it has handed out.\<close>

type_synonym vault_memory = "(string \<rightharpoonup> (string \<rightharpoonup> vault_value)) \<times> nat"

definition crypto_one :: "'w crypto" where
  "crypto_one = \<lparr>time_Now = (\<lambda>w. (0, w)), decode_pem = Some, encode_pem = snd,
     ParseCertificate = (\<lambda>s. Ok \<lparr>x509_Raw = s, NotAfter = 100\<rparr>), ParsePKCS8PrivateKey = (\<lambda>s. Ok (ECDSAKey s, True)),
     MarshalPKCS8PrivateKey = (\<lambda>key. case key of ECDSAKey s \<Rightarrow> Ok s), base64_Decode = Ok,
     secrets_of = (\<lambda>_ _. io_return [''token'' \<mapsto> ''t''])\<rparr>"

definition vault_one :: "vault_memory vault_lib" where
  "vault_one = \<lparr>vault_New = (\<lambda>_. io_return (VaultClient ''v'')), SetToken = (\<lambda>_ c. c),
     vault_Write = (\<lambda>_ _ _. io_return [''certificate'' \<mapsto> VString ''crt'', ''issuing_ca'' \<mapsto> VString ''root'']),
     KvV2Read = (\<lambda>_ path w. (Ok (fst w path), w)), KvV2Write = (\<lambda>_ path d w. (Ok (), ((fst w)(path \<mapsto> d), snd w))),
     vault_ParseDuration = (\<lambda>_. Ok 1), GenerateKey = (\<lambda>w. (Ok (ECDSAKey (nat_digits (snd w))), (fst w, snd w + 1))),
     rand_Serial = io_return 7, AddDate = (\<lambda>_ _ _ t. t), CreateCertificateRequest = (\<lambda>_ _ _. io_return ''csr''),
     CreateCertificate = (\<lambda>_ _. io_return ''ca''), ParseECPrivateKey = (\<lambda>s. Ok (ECDSAKey s)),
     MarshalECPrivateKey = (\<lambda>key. case key of ECDSAKey s \<Rightarrow> Ok s), InClusterConfig = io_return (), NewForConfig = io_return ()\<rparr>"

lemma vault_one_laws: "kv_law vault_one" "encoding_law crypto_one vault_one"
  by (auto simp: kv_law_def encoding_law_def vault_one_def crypto_one_def split: ecdsa_key.splits)

definition ca_request_one :: CreateCARequest where
  "ca_request_one = \<lparr>cc_CAName = ''org1'', cc_Subject = \<lparr>subject_CN = ''ca'', subject_C = ''US'', subject_ST = [],
     subject_O = [], subject_L = [], subject_OU = []\<rparr>, cc_Serial = None\<rparr>"

lemma CreateCA_one: "CreateCA crypto_one vault_one ca_request_one (VaultClient ''v'') (Map.empty, 0) =
    (Ok (\<lparr>x509_Raw = ''ca'', NotAfter = 100\<rparr>, ECDSAKey (nat_digits 0)),
     ([ca_path ''org1'' \<mapsto> [''certificate'' \<mapsto> VString ''ca'', ''private_key'' \<mapsto> VString (nat_digits 0)]], 1))"
  by (simp add: CreateCA_def new_ca_def vault_one_def crypto_one_def ca_request_one_def io_simps)


end
