(* ===== verification/Release_Correct.thy ===== *)
theory Release_Correct imports Helm_Release begin

text \<open>
  What the stretches shared by the peer and the ordering node controller do: which revision a stuck
  release goes back to, how long the wait for the renewal lock lasts and whom it excludes, and which
  pod decides the status.
\<close>

section \<open>The revision to go back to\<close>

lemma find_sort_key_Some:
  assumes "find P (sort_key f xs) = Some x"
  shows "x \<in> set xs \<and> P x \<and> (\<forall>y\<in>set xs. P y \<longrightarrow> f x \<le> f y)"
proof -
  let ?ys = "sort_key f xs"
  from assms obtain i where i: "i < length ?ys" "P (?ys ! i)" "x = ?ys ! i" and before: "\<forall>j<i. \<not> P (?ys ! j)"
    by (auto simp: find_Some_iff)
  have "f x \<le> f y" if "y \<in> set xs" "P y" for y
  proof -
    from that(1) obtain k where k: "k < length ?ys" "y = ?ys ! k" by (metis in_set_conv_nth set_sort)
    with that(2) before have "i \<le> k" by (meson not_le)
    then have "map f ?ys ! i \<le> map f ?ys ! k" using k(1) sorted_nth_mono [of "map f ?ys" i k] by simp
    then show ?thesis using i k by simp
  qed
  moreover have "x \<in> set xs" using i by (metis nth_mem set_sort)
  ultimately show ?thesis using i by simp
qed

lemma rollback_target_eq:
  "rollback_target h = (if \<exists>r\<in>set h. hr_Status r = StatusDeployed
     then Some (Max (hr_Version ` {r \<in> set h. hr_Status r = StatusDeployed})) else None)"
proof (cases "find (\<lambda>r. hr_Status r = StatusDeployed) (sort_key (\<lambda>r. - hr_Version r) h)")
  case None
  then show ?thesis by (auto simp: rollback_target_def find_None_iff)
next
  case (Some r)
  from find_sort_key_Some [OF this] have r: "r \<in> set h" "hr_Status r = StatusDeployed"
    "\<And>s. s \<in> set h \<Longrightarrow> hr_Status s = StatusDeployed \<Longrightarrow> hr_Version s \<le> hr_Version r" by auto
  then have "Max (hr_Version ` {r \<in> set h. hr_Status r = StatusDeployed}) = hr_Version r"
    by (intro Max_eqI) auto
  then show ?thesis using Some r by (auto simp: rollback_target_def)
qed

section \<open>Waiting for the lock\<close>

text \<open>
  Two measures of the world: how often the lease was read and how long the operator slept.  Only the
  calls they are named after change them, and no call panics.
\<close>

definition counted :: "'w kube \<Rightarrow> string \<Rightarrow> ('w \<Rightarrow> nat) \<Rightarrow> ('w \<Rightarrow> int) \<Rightarrow> bool" where
  "counted U ns reads slept \<longleftrightarrow>
     (\<forall>n w. \<not> panics (fst (leases_Get U ns n w)) \<and> reads (snd (leases_Get U ns n w)) = reads w + 1
        \<and> slept (snd (leases_Get U ns n w)) = slept w)
   \<and> (\<forall>l w. \<not> panics (fst (leases_Create U ns l w)) \<and> reads (snd (leases_Create U ns l w)) = reads w
        \<and> slept (snd (leases_Create U ns l w)) = slept w)
   \<and> (\<forall>l w. \<not> panics (fst (leases_Update U ns l w)) \<and> reads (snd (leases_Update U ns l w)) = reads w
        \<and> slept (snd (leases_Update U ns l w)) = slept w)
   \<and> (\<forall>w. reads (snd (lease_Now U w)) = reads w \<and> slept (snd (lease_Now U w)) = slept w)
   \<and> (\<forall>x w. reads (snd (Getenv U x w)) = reads w \<and> slept (snd (Getenv U x w)) = slept w)
   \<and> (\<forall>d w. reads (snd (Sleep U d w)) = reads w \<and> slept (snd (Sleep U d w)) = slept w + d)"

text \<open>One attempt reads the lease once and sleeps not at all.\<close>

definition one_attempt :: "('w \<Rightarrow> nat) \<Rightarrow> ('w \<Rightarrow> int) \<Rightarrow> ('w, bool) io \<Rightarrow> bool" where
  "one_attempt reads slept m \<longleftrightarrow> (\<forall>w. \<exists>r w'. m w = (r, w') \<and> \<not> panics r
     \<and> reads w' = reads w + 1 \<and> slept w' = slept w)"

definition silent :: "('w \<Rightarrow> nat) \<Rightarrow> ('w \<Rightarrow> int) \<Rightarrow> ('w, 'a) io \<Rightarrow> bool" where
  "silent reads slept m \<longleftrightarrow> (\<forall>w. \<not> panics (fst (m w)) \<and> reads (snd (m w)) = reads w \<and> slept (snd (m w)) = slept w)"

lemma silent_return: "silent reads slept (io_return a)" and silent_throw: "silent reads slept (io_throw e)"
  by (simp_all add: silent_def io_simps)

lemma silent_try:
  assumes "silent reads slept m" "\<And>a. silent reads slept (f a)" "\<And>e. silent reads slept (h e)"
  shows "silent reads slept (io_try m f h)"
  unfolding silent_def
proof (intro allI)
  fix w
  obtain r w' where m: "m w = (r, w')" by fastforce
  with assms(1) have "\<not> panics r \<and> reads w' = reads w \<and> slept w' = slept w"
    unfolding silent_def by (metis fst_conv snd_conv)
  then show "\<not> panics (fst (io_try m f h w)) \<and> reads (snd (io_try m f h w)) = reads w \<and> slept (snd (io_try m f h w)) = slept w"
    using m assms(2,3) unfolding silent_def by (cases r) (simp_all add: io_simps)
qed

lemma silent_bind:
  assumes "silent reads slept m" "\<And>a. silent reads slept (f a)"
  shows "silent reads slept (io_bind m f)"
proof -
  have "io_bind m f = io_try m f io_throw" by (rule ext) (simp add: io_simps split: prod.split res.split)
  moreover have "silent reads slept (io_try m f io_throw)" by (intro silent_try assms silent_throw)
  ultimately show ?thesis by simp
qed

lemma attempt_from_get:
  assumes get: "\<And>w. \<not> panics (fst (get w)) \<and> reads (snd (get w)) = reads w + 1 \<and> slept (snd (get w)) = slept w"
    and "\<And>a. silent reads slept (f a)" "\<And>e. silent reads slept (h e)"
  shows "one_attempt reads slept (io_try get f h)"
  unfolding one_attempt_def
proof (intro allI)
  fix w
  obtain r w' where m: "get w = (r, w')" by fastforce
  with get [of w] have "\<not> panics r \<and> reads w' = reads w + 1 \<and> slept w' = slept w" by simp
  then show "\<exists>r' v. io_try get f h w = (r', v) \<and> \<not> panics r' \<and> reads v = reads w + 1 \<and> slept v = slept w"
    using m assms(2,3) unfolding silent_def
    by (cases r) (auto simp: io_simps, (metis prod.collapse)+)
qed

lemma AcquireLease_one_attempt:
  assumes "counted U ns reads slept"
  shows "one_attempt reads slept (AcquireLease (io_total (lease_Now U)) (leases_Get U ns) (leases_Create U ns)
      (leases_Update U ns) name ns holder ttl)"
proof -
  have now: "silent reads slept (io_total (lease_Now U))"
    and create: "\<And>l. silent reads slept (leases_Create U ns l)" and update: "\<And>l. silent reads slept (leases_Update U ns l)"
    using assms by (simp_all add: counted_def silent_def io_simps)
  note intros = silent_try silent_bind silent_return silent_throw now create update
  show ?thesis unfolding AcquireLease_def
  proof (rule attempt_from_get)
    show "\<not> panics (fst (leases_Get U ns name w)) \<and> reads (snd (leases_Get U ns name w)) = reads w + 1
        \<and> slept (snd (leases_Get U ns name w)) = slept w" for w using assms by (simp add: counted_def)
  qed (auto intro!: intros split: if_split)
qed

lemma try_acquire_counts:
  assumes "one_attempt reads slept m"
    and sleep: "\<And>w. reads (snd (sleep w)) = reads w \<and> slept (snd (sleep w)) = slept w + Second"
  shows "\<exists>b k w'. try_acquire n m (io_total sleep) w = (Ok b, w') \<and> k \<le> n \<and> reads w' = reads w + k
      \<and> slept w' = slept w + int k * Second - (if b then Second else 0) \<and> (b \<or> k = n) \<and> (b \<longrightarrow> 0 < k)"
proof (induction n arbitrary: w)
  case 0
  then show ?case by (intro exI [of _ False] exI [of _ "0 :: nat"] exI [of _ w]) (simp add: io_simps)
next
  case (Suc n)
  from assms(1) obtain r v where m: "m w = (r, v)" "\<not> panics r" "reads v = reads w + 1" "slept v = slept w"
    unfolding one_attempt_def by blast
  show ?case
  proof (cases "r = Ok True")
    case True
    then show ?thesis using m
      by (intro exI [of _ True] exI [of _ "1 :: nat"] exI [of _ v]) (simp add: io_simps)
  next
    case False
    let ?v = "snd (sleep v)"
    have step: "try_acquire (Suc n) m (io_total sleep) w = try_acquire n m (io_total sleep) ?v"
      using m(1,2) False by (cases r) (auto simp: io_simps)
    from Suc.IH [of ?v] obtain b k w' where "try_acquire n m (io_total sleep) ?v = (Ok b, w')" "k \<le> n"
      "reads w' = reads ?v + k" "slept w' = slept ?v + int k * Second - (if b then Second else 0)"
      "b \<or> k = n" "b \<longrightarrow> 0 < k" by blast
    then show ?thesis using step m sleep [of v]
      by (intro exI [of _ b] exI [of _ "Suc k"] exI [of _ w']) (auto simp: algebra_simps)
  qed
qed

section \<open>Whom the lock excludes\<close>

text \<open>
  The lease as the API server keeps it, seen through \<open>stored\<close>: reads, creation when there is none,
  updates of the stored version.  Every call but an accepted write leaves it alone; the environment says
  the name of the pod.
\<close>

definition lease_reads :: "'w kube \<Rightarrow> string \<Rightarrow> ('w \<Rightarrow> Lease option) \<Rightarrow> bool" where
  "lease_reads U ns stored \<longleftrightarrow> (\<forall>n w. \<exists>w'. stored w' = stored w \<and> leases_Get U ns n w =
     ((case stored w of Some l \<Rightarrow> Ok l | None \<Rightarrow> Err (NotFound n)), w'))"

text \<open>A write is accepted and stored under a new version, or refused without an effect.\<close>

definition lease_written :: "('w \<Rightarrow> Lease option) \<Rightarrow> Lease \<Rightarrow> bool \<Rightarrow> Lease res \<times> 'w \<Rightarrow> 'w \<Rightarrow> bool" where
  "lease_written stored l accepted answer w \<longleftrightarrow>
     (if accepted then \<exists>v. fst answer = Ok (l\<lparr>resourceVersion := v\<rparr>) \<and> stored (snd answer) = Some (l\<lparr>resourceVersion := v\<rparr>)
      else (\<exists>e. fst answer = Err e) \<and> stored (snd answer) = stored w)"

definition lease_api :: "'w kube \<Rightarrow> string \<Rightarrow> ('w \<Rightarrow> Lease option) \<Rightarrow> string \<Rightarrow> bool" where
  "lease_api U ns stored pod \<longleftrightarrow> lease_reads U ns stored
   \<and> (\<forall>l w. lease_written stored l (stored w = None) (leases_Create U ns l w) w)
   \<and> (\<forall>l w. lease_written stored l (map_option resourceVersion (stored w) = Some (resourceVersion l))
        (leases_Update U ns l w) w)
   \<and> (\<forall>w. stored (snd (lease_Now U w)) = stored w)
   \<and> (\<forall>w. fst (Getenv U ''POD_NAME'' w) = pod \<and> stored (snd (Getenv U ''POD_NAME'' w)) = stored w)"

lemma lease_apiD:
  assumes "lease_api U ns stored pod"
  shows "lease_reads U ns stored" "stored (snd (lease_Now U w)) = stored w"
    "lease_written stored l (stored w = None) (leases_Create U ns l w) w"
    "lease_written stored l (map_option resourceVersion (stored w) = Some (resourceVersion l)) (leases_Update U ns l w) w"
    "fst (Getenv U ''POD_NAME'' w) = pod" "stored (snd (Getenv U ''POD_NAME'' w)) = stored w"
  using assms by (simp_all add: lease_api_def)

lemma lease_written_Ok:
  "lease_written stored l accepted (Ok x, w') w \<Longrightarrow> \<exists>v. stored w' = Some (l\<lparr>resourceVersion := v\<rparr>)"
  by (auto simp: lease_written_def split: if_splits)

definition held_by :: "('w \<Rightarrow> Lease option) \<Rightarrow> string \<Rightarrow> 'w \<Rightarrow> bool" where
  "held_by stored holder w \<longleftrightarrow> (\<exists>l. stored w = Some l \<and> HolderIdentity l = Some holder)"

text \<open>An attempt that succeeds leaves the lease with the holder; one by the holder succeeds.\<close>

lemma AcquireLease_True_held:
  assumes api: "lease_api U ns stored pod"
    and "AcquireLease (io_total (lease_Now U)) (leases_Get U ns) (leases_Create U ns) (leases_Update U ns)
      name ns holder ttl w = (Ok True, w')"
  shows "held_by stored holder w'"
proof -
  have created: "held_by stored holder w'"
    if "leases_Create U ns l v = (Ok x, w')" "HolderIdentity l = Some holder" for l v x
    using that lease_apiD(3) [OF api, where l = l and w = v] by (auto simp: held_by_def dest!: lease_written_Ok)
  have updated: "held_by stored holder w'"
    if "leases_Update U ns l v = (Ok x, w')" "HolderIdentity l = Some holder" for l v x
    using that lease_apiD(4) [OF api, where l = l and w = v] by (auto simp: held_by_def dest!: lease_written_Ok)
  from assms(2) show ?thesis
    unfolding AcquireLease_def
    by (auto simp: io_oks take_lease_def new_lease_def split: if_splits intro: created updated)
qed

lemma AcquireLease_by_holder:
  assumes api: "lease_api U ns stored pod" and "held_by stored holder w"
  shows "\<exists>w'. AcquireLease (io_total (lease_Now U)) (leases_Get U ns) (leases_Create U ns) (leases_Update U ns)
      name ns holder ttl w = (Ok True, w') \<and> held_by stored holder w'"
proof -
  from assms(2) obtain l where l: "stored w = Some l" "HolderIdentity l = Some holder" by (auto simp: held_by_def)
  with lease_apiD(1) [OF api] obtain w1 where get: "leases_Get U ns name w = (Ok l, w1)" "stored w1 = Some l"
    unfolding lease_reads_def by (metis (no_types, lifting) option.simps(5))
  note now = lease_apiD(2) [OF api]
  let ?w2 = "snd (lease_Now U w1)"
  let ?w3 = "snd (lease_Now U ?w2)"
  have w3: "stored ?w3 = Some l" using now get(2) by simp
  have upd: "\<exists>k. leases_Update U ns l' ?w3 = (Ok (l'\<lparr>resourceVersion := k\<rparr>), snd (leases_Update U ns l' ?w3))
      \<and> stored (snd (leases_Update U ns l' ?w3)) = Some (l'\<lparr>resourceVersion := k\<rparr>)"
    if "resourceVersion l' = resourceVersion l" for l'
    using lease_apiD(4) [OF api, where l = l' and w = ?w3] w3 that by (auto simp: lease_written_def prod_eq_iff)
  show ?thesis
  proof (cases "takeable (fst (lease_Now U w1)) l")
    case True
    with upd [of "take_lease holder ttl (fst (lease_Now U ?w2)) l"] obtain x w' where
      "leases_Update U ns (take_lease holder ttl (fst (lease_Now U ?w2)) l) ?w3 = (Ok x, w')"
      and "held_by stored holder w'" by (fastforce simp: take_lease_def held_by_def)
    then show ?thesis using True get(1) by (simp add: AcquireLease_def io_simps)
  next
    case False
    with upd [of "l\<lparr>RenewTime := Some (fst (lease_Now U ?w2))\<rparr>"] l obtain x w' where
      "leases_Update U ns (l\<lparr>RenewTime := Some (fst (lease_Now U ?w2))\<rparr>) ?w3 = (Ok x, w')"
      and "held_by stored holder w'" by (fastforce simp: held_by_def)
    then show ?thesis using False get(1) l(2) by (simp add: AcquireLease_def io_simps)
  qed
qed


lemma io_catch_Ok [io_oks]: "io_catch m h w = (Ok a, w') \<longleftrightarrow> m w = (Ok a, w') \<or> (\<exists>e v. m w = (Err e, v) \<and> h e v = (Ok a, w'))"
  by (auto simp: io_catch_def split: prod.split res.split)

lemma try_acquire_True:
  assumes "try_acquire n m sleep w = (Ok True, w')"
  shows "\<exists>v. m v = (Ok True, w')"
  using assms
proof (induction n arbitrary: w)
  case (Suc n)
  then show ?case by (auto simp: io_oks split: if_splits)
qed (simp add: io_oks)

section \<open>A memory\<close>

text \<open>The lease, the reads and the time slept; everything else of the API is refused.\<close>

record lease_memory =
  mem_lease :: "Lease option"
  mem_reads :: nat
  mem_slept :: int

definition memory_write :: "bool \<Rightarrow> Lease \<Rightarrow> (lease_memory, Lease) io" where
  "memory_write accepted l w =
     (if accepted then (Ok (l\<lparr>resourceVersion := Suc (resourceVersion l)\<rparr>), w\<lparr>mem_lease := Some (l\<lparr>resourceVersion := Suc (resourceVersion l)\<rparr>)\<rparr>)
      else (Err (ErrorString ''conflict''), w))"

definition kube_memory :: "string \<Rightarrow> lease_memory kube" where
  "kube_memory pod = \<lparr>GetClientKubeWithConf = io_return (), kube_nodes = io_return [],
     deployments_Get = (\<lambda>_ n. io_throw (NotFound n)), pods_List = (\<lambda>_ _. io_return []),
     services_Get = (\<lambda>_ n. io_throw (NotFound n)), services_Create = (\<lambda>_. io_return), services_Update = (\<lambda>_. io_return),
     services_Delete = (\<lambda>_ n. io_throw (NotFound n)),
     leases_Get = (\<lambda>_ n w. (case mem_lease w of Some l \<Rightarrow> Ok l | None \<Rightarrow> Err (NotFound n), w\<lparr>mem_reads := mem_reads w + 1\<rparr>)),
     leases_Create = (\<lambda>_ l w. memory_write (mem_lease w = None) l w),
     leases_Update = (\<lambda>_ l w. memory_write (map_option resourceVersion (mem_lease w) = Some (resourceVersion l)) l w),
     lease_Now = (\<lambda>w. (mem_slept w, w)), Setenv = (\<lambda>_ _. io_return ()), Getenv = (\<lambda>_ w. (pod, w)),
     Sleep = (\<lambda>d w. ((), w\<lparr>mem_slept := mem_slept w + d\<rparr>))\<rparr>"

lemma kube_memory_counted: "counted (kube_memory pod) ns mem_reads mem_slept"
  by (auto simp: counted_def kube_memory_def memory_write_def split: option.split)

lemma kube_memory_api: "lease_api (kube_memory pod) ns mem_lease pod"
  by (auto simp: lease_api_def lease_reads_def lease_written_def kube_memory_def memory_write_def)

section \<open>Properties\<close>

text \<open>
  A release left pending by an upgrade goes back to the revision before it, one left pending by a
  rollback to the greatest revision of its history that was deployed, whatever the order of the history;
  nothing happens when no revision was, or in any other status.
\<close>

theorem repair_release_correct:
  "repair_release H name st w =
     (let deployed = \<lambda>history. {hr_Version r | r. r \<in> set history \<and> hr_Status r = StatusDeployed} in
      if hr_Status st = StatusPendingUpgrade then helm_Rollback H name (hr_Version st - 1) w
      else if hr_Status st = StatusPendingRollback
      then (case helm_History H name w of
          (Ok history, w') \<Rightarrow> if deployed history = {} then (Ok (), w')
             else helm_Rollback H name (Max (deployed history)) w'
        | (Err e, w') \<Rightarrow> (Err e, w')
        | (Panic p, w') \<Rightarrow> (Panic p, w'))
      else (Ok (), w))"
proof -
  have set_eq: "{hr_Version r | r. r \<in> set h \<and> hr_Status r = StatusDeployed}
      = hr_Version ` {r \<in> set h. hr_Status r = StatusDeployed}" for h by auto
  have empty: "{r \<in> set h. hr_Status r = StatusDeployed} = {} \<longleftrightarrow> \<not> (\<exists>r\<in>set h. hr_Status r = StatusDeployed)" for h
    by auto
  obtain r w' where "helm_History H name w = (r, w')" by fastforce
  then show ?thesis
    by (cases r) (simp_all add: repair_release_def Let_def io_simps rollback_target_eq set_eq empty del: Collect_empty_eq)
qed

text \<open>
  C24.  The wait for the renewal lock ends, and not with an error: after at most five readings of the
  lease and five seconds of sleep, exactly five of each when the lock is not obtained.
\<close>

theorem acquire_renewal_lease_ends:
  assumes "counted U ns reads slept"
  shows "\<exists>b k w'. acquire_renewal_lease U kind ns name w = (Ok b, w') \<and> k \<le> 5 \<and> reads w' = reads w + k
      \<and> slept w' = slept w + (if b then int k - 1 else 5) * Second \<and> (if b then 0 < k else k = 5)"
proof -
  let ?v = "snd (Getenv U ''POD_NAME'' w)"
  obtain holder where "acquire_renewal_lease U kind ns name w = try_acquire 5
      (AcquireLease (io_total (lease_Now U)) (leases_Get U ns) (leases_Create U ns) (leases_Update U ns)
        (renewal_lease kind) ns holder 120) (io_total (Sleep U Second)) ?v"
    by (auto simp: acquire_renewal_lease_def lease_holder_def io_simps)
  moreover have "reads (snd (Sleep U Second v)) = reads v \<and> slept (snd (Sleep U Second v)) = slept v + Second" for v
    using assms by (simp add: counted_def)
  then obtain b k w' where "try_acquire 5
      (AcquireLease (io_total (lease_Now U)) (leases_Get U ns) (leases_Create U ns) (leases_Update U ns)
        (renewal_lease kind) ns holder 120) (io_total (Sleep U Second)) ?v = (Ok b, w')" "k \<le> 5"
    "reads w' = reads ?v + k" "slept w' = slept ?v + int k * Second - (if b then Second else 0)"
    "b \<or> k = 5" "b \<longrightarrow> 0 < k"
    using try_acquire_counts [OF AcquireLease_one_attempt [OF assms]] by blast
  moreover have "reads ?v = reads w" "slept ?v = slept w" using assms by (simp_all add: counted_def)
  ultimately show ?thesis
    by (intro exI [of _ b] exI [of _ k] exI [of _ w']) (auto simp: algebra_simps)
qed

definition held_elsewhere :: lease_memory where
  "held_elsewhere = \<lparr>mem_lease = Some \<lparr>leaseName = ''l'', leaseNamespace = ''n'', resourceVersion = 1,
     HolderIdentity = Some ''other'', AcquireTime = Some 0, RenewTime = Some 0, LeaseDurationSeconds = Some 120\<rparr>,
     mem_reads = 0, mem_slept = 0\<rparr>"

theorem acquire_renewal_lease_ends_witness:
  "\<exists>b k w'. acquire_renewal_lease (kube_memory ''pod'') ''peer'' ''n'' ''p0'' held_elsewhere = (Ok b, w') \<and> k \<le> 5
     \<and> mem_reads w' = mem_reads held_elsewhere + k
     \<and> mem_slept w' = mem_slept held_elsewhere + (if b then int k - 1 else 5) * Second \<and> (if b then 0 < k else k = 5)"
  by (rule acquire_renewal_lease_ends [OF kube_memory_counted])

text \<open>
  C29.  The lock is taken in the name of the operator's pod, so it does not keep the pod's own workers
  apart: while it is held for one node, a renewal of another node of the same namespace obtains it too,
  at once.
\<close>

theorem renewal_lock_shared_by_pod:
  assumes "lease_api U ns stored pod" and "pod \<noteq> []"
    and "acquire_renewal_lease U kind ns first w = (Ok True, w1)"
  shows "\<exists>w2. acquire_renewal_lease U kind ns second w1 = (Ok True, w2) \<and> held_by stored pod w2"
proof -
  let ?acquire = "AcquireLease (io_total (lease_Now U)) (leases_Get U ns) (leases_Create U ns) (leases_Update U ns)
        (renewal_lease kind) ns pod 120"
  have locked: "acquire_renewal_lease U kind ns name v = try_acquire 5 ?acquire (io_total (Sleep U Second))
      (snd (Getenv U ''POD_NAME'' v))" for name v
    using lease_apiD(5) [OF assms(1)] assms(2) by (simp add: acquire_renewal_lease_def lease_holder_def io_simps)
  from assms(3) obtain v where "?acquire v = (Ok True, w1)" unfolding locked by (blast dest: try_acquire_True)
  then have "held_by stored pod w1" by (rule AcquireLease_True_held [OF assms(1)])
  then have "held_by stored pod (snd (Getenv U ''POD_NAME'' w1))"
    using lease_apiD(6) [OF assms(1)] by (simp add: held_by_def)
  from AcquireLease_by_holder [OF assms(1) this] obtain w2 where
    "?acquire (snd (Getenv U ''POD_NAME'' w1)) = (Ok True, w2)" "held_by stored pod w2" by blast
  then show ?thesis unfolding locked by (simp add: numeral_eq_Suc io_simps)
qed

definition no_lease :: lease_memory where
  "no_lease = \<lparr>mem_lease = None, mem_reads = 0, mem_slept = 0\<rparr>"

lemma first_acquires:
  "\<exists>w1. acquire_renewal_lease (kube_memory ''pod'') ''peer'' ''n'' ''p0'' no_lease = (Ok True, w1)"
  by (simp add: acquire_renewal_lease_def lease_holder_def AcquireLease_def kube_memory_def memory_write_def
    no_lease_def numeral_eq_Suc io_simps)

theorem renewal_lock_shared_by_pod_witness:
  "\<exists>w1 w2. acquire_renewal_lease (kube_memory ''pod'') ''peer'' ''n'' ''p0'' no_lease = (Ok True, w1)
     \<and> acquire_renewal_lease (kube_memory ''pod'') ''peer'' ''n'' ''p1'' w1 = (Ok True, w2) \<and> held_by mem_lease ''pod'' w2"
  using first_acquires renewal_lock_shared_by_pod [OF kube_memory_api] by blast

text \<open>
  The status of a node with pods is decided by the last pod of the list alone, unless that pod has
  succeeded or reports no phase: a ready or running one makes it RUNNING whatever the others are.
\<close>

theorem last_pod_decides:
  assumes "deployments_Get U ns name w = (Ok ready, w1)"
    and "pods_List U ns (''release='' @ releaseName) w1 = (Ok (items @ [item]), w2)"
    and "pod_Phase item \<notin> {PodSucceeded, NoPhase} \<or> IsPodReadyConditionTrue (pod_Conditions item)"
  shows "deployment_status U ns releaseName name replicas st w =
     (Ok (if IsPodReadyConditionTrue (pod_Conditions item) \<or> pod_Phase item = PodRunning then RunningStatus
          else if pod_Phase item = PodPending then PendingStatus
          else if pod_Phase item = PodFailed then FailedStatus else UnknownStatus), w2)"
  using assms by (cases "pod_Phase item") (auto simp: deployment_status_def pod_status_def io_simps)

definition kube_pods :: "pod list \<Rightarrow> lease_memory kube" where
  "kube_pods items = kube_memory [] \<lparr>deployments_Get := \<lambda>_ _. io_return 0, pods_List := \<lambda>_ _. io_return items\<rparr>"

definition failed_pod :: pod where "failed_pod = \<lparr>pod_Conditions = None, pod_Phase = PodFailed\<rparr>"
definition running_pod :: pod where "running_pod = \<lparr>pod_Conditions = None, pod_Phase = PodRunning\<rparr>"

theorem last_pod_decides_witness:
  "deployment_status (kube_pods ([failed_pod] @ [running_pod])) ''n'' ''r'' ''d'' (Some 2) PendingStatus no_lease
     = (Ok RunningStatus, no_lease)"
  using last_pod_decides [of "kube_pods ([failed_pod] @ [running_pod])" "''n''" "''d''" no_lease 0 no_lease "''r''"
      "[failed_pod]" running_pod no_lease "Some 2" PendingStatus]
  by (simp add: kube_pods_def running_pod_def io_simps)

end
