(* ===== verification/Node_Memory.thy ===== *)
theory Node_Memory imports Peer_Controller Enrollment_Correct Release_Correct begin

text \<open>
  Concrete services for the instances of the node controllers' theorems: an authority, a Vault, Helm and
  a client that answer at once, over the memory that holds the lease.
\<close>

section \<open>An operator in memory\<close>

definition crypto_two :: "'w crypto" where
  "crypto_two = crypto_one\<lparr>secrets_of := \<lambda>_ _. io_return [''tls.key'' \<mapsto> ''key'', ''tls.crt'' \<mapsto> ''crt'', ''cacert.pem'' \<mapsto> ''root'',
     ''cert.pem'' \<mapsto> ''crt'', ''key.pem'' \<mapsto> ''key'', ''cacert.crt'' \<mapsto> ''root'', ''clientcacert.crt'' \<mapsto> ''root'']\<rparr>"

definition mem_ca :: "'w ca_lib" where
  "mem_ca = \<lparr>TempDir = (\<lambda>_. io_return ''/tmp/d''), TempFile = (\<lambda>_. io_return ''/tmp/f''), temp_Write = (\<lambda>_ _. io_return ()),
     ReadDir = (\<lambda>_. io_return [''key'']), ReadFile = (\<lambda>_. io_return ''fresh''), path_Join = concat, client_Init = (\<lambda>_. io_return ()),
     client_Enroll = (\<lambda>_ _. io_return (CAIdentity ''new'')), client_GetCAInfo = (\<lambda>_ _. io_return ''root''),
     client_LoadMyIdentity = (\<lambda>_. io_return (CAIdentity ''me'')), client_KeyImport = (\<lambda>_ _. io_return (BCCSPKey ''k'')),
     PrivateKeyToDER = (\<lambda>_. Ok ''der''), NewSigner = (\<lambda>_ _. Ok (CASigner ''s'')), NewIdentity = (\<lambda>_ _ _. Ok (CAIdentity ''old'')),
     GetX509Cert = (\<lambda>i. case i of CAIdentity s \<Rightarrow> \<lparr>x509_Raw = s, NotAfter = 1000\<rparr>),
     identity_Register = (\<lambda>_ _. io_return ''secret''), identity_Reenroll = (\<lambda>_ _. io_return (CAIdentity ''renewed'')),
     identity_Revoke = (\<lambda>_ _. io_return ())\<rparr>"

definition vault_two :: "'w vault_lib" where
  "vault_two = \<lparr>vault_New = (\<lambda>_. io_return (VaultClient ''v'')), SetToken = (\<lambda>_ c. c),
     vault_Write = (\<lambda>_ _ _. io_return [''certificate'' \<mapsto> VString ''crt'', ''issuing_ca'' \<mapsto> VString ''root'']),
     KvV2Read = (\<lambda>_ _. io_return None), KvV2Write = (\<lambda>_ _ _. io_return ()), vault_ParseDuration = (\<lambda>_. Ok 1),
     GenerateKey = io_return (ECDSAKey ''k''), rand_Serial = io_return 7, AddDate = (\<lambda>_ _ _ t. t),
     CreateCertificateRequest = (\<lambda>_ _ _. io_return ''csr''), CreateCertificate = (\<lambda>_ _. io_return ''ca''),
     ParseECPrivateKey = (\<lambda>s. Ok (ECDSAKey s)), MarshalECPrivateKey = (\<lambda>_. Ok ''der''), InClusterConfig = io_return (),
     NewForConfig = io_return ()\<rparr>"

definition mem_helm :: "('w, 'c) helm" where
  "mem_helm = \<lparr>helm_Init = (\<lambda>_. io_return ()), helm_Status = (\<lambda>_. io_throw (NotFound ''release'')),
     ErrReleaseNotFound = NotFound ''release'', helm_Rollback = (\<lambda>_ _. io_return ()), helm_History = (\<lambda>_. io_return []),
     helm_Get = (\<lambda>_. io_throw (NotFound ''release'')), LocateChart = (\<lambda>p. io_return (p, None)), NameAndChart = (\<lambda>_. Ok (''p0'', ''chart'')),
     loader_Load = (\<lambda>p. io_return (HelmChart p)), helm_Upgrade = (\<lambda>_ _ _ _. io_throw (NotFound ''release'')),
     helm_Install = (\<lambda>_ n _ _. io_throw (ErrorString ''no room'')), helm_Uninstall = (\<lambda>_ _. io_return ()),
     chart_Marshal = (\<lambda>_. Ok ''json''), values_Unmarshal = Ok, decode_yaml = (\<lambda>s. Ok (OtherObject s))\<rparr>"

definition mem_client :: "'p \<Rightarrow> ('w, 'p) client" where
  "mem_client p = \<lparr>clock_now = (\<lambda>w. 0), client_get = (\<lambda>k. io_return p), client_update = io_return, status_update = io_return,
     status_patch = (\<lambda>_. io_return), add_finalizer = (\<lambda>f fs. if f \<in> set fs then fs else fs @ [f]),
     remove_finalizer = (\<lambda>f fs. filter (\<lambda>g. g \<noteq> f) fs)\<rparr>"

lemma mem_client_ok: "client_ok (mem_client p)"
  by (auto simp: client_ok_def update_ok_def patch_ok_def finalizers_ok_def mem_client_def io_simps)

definition mem_operator :: "'p \<Rightarrow> (lease_memory, 'p, 'c) node_operator" where
  "mem_operator p = \<lparr>no_client = mem_client p, no_NewForConfig = io_return (), no_Get = (\<lambda>_ _. io_return p), no_helm = mem_helm,
     no_kube = kube_memory ''pod'', no_pki = \<lparr>pki_crypto = crypto_two, pki_ca = mem_ca, pki_vault = vault_two\<rparr>,
     ChartPath = ''/charts'', AutoRenewCertificates = False, AutoRenewCertificatesDelta = 0, RenewCertificatesReenroll = True,
     no_Wait = False, no_Timeout = 0, no_MaxHistory = 0\<rparr>"

text \<open>A peer whose certificate authority is known, at a fixed address.\<close>

definition mem_enrollment :: Enrollment where
  "mem_enrollment = (let c = zero_component\<lparr>Cahost := ''ca'', Caport := 7054, comp_Catls := Some \<lparr>Cacert = ''pem'', catls_SecretRef = None\<rparr>\<rparr> in
     \<lparr>enr_Component = c, enr_TLS = Component.extend c (TLSComponent.fields \<lparr>csr_Hosts = [], csr_CN = []\<rparr>)\<rparr>)"

definition peer_p0 :: FabricPeerResource where
  "peer_p0 = empty_peer\<lparr>crName := ''p0'', peer_Spec := empty_peer_spec\<lparr>ps_Enrollment := mem_enrollment, ps_ExternalEndpoint := ''p0:7051'',
     ps_CredentialStore := ''kubernetes''\<rparr>\<rparr>"

section \<open>What is in its secrets\<close>

definition mem_material :: material where
  "mem_material = (\<lparr>x509_Raw = ''crt'', NotAfter = 100\<rparr>, ECDSAKey ''key'', \<lparr>x509_Raw = ''root'', NotAfter = 100\<rparr>)"

lemma mem_existing:
  "getExistingTLSCrypto crypto_two n ns w = (Ok mem_material, w)"
  "getExistingTLSOPSCrypto crypto_two n ns w = (Ok mem_material, w)"
  "peer_getExistingSignCrypto crypto_two n ns w = (Ok mem_material, w)"
  "orderer_getExistingSignCrypto crypto_two n ns w = (Ok mem_material, w)"
  "getExistingTLSAdminCrypto crypto_two n ns w =
     (Ok (\<lparr>x509_Raw = ''crt'', NotAfter = 100\<rparr>, ECDSAKey ''key'', \<lparr>x509_Raw = ''root'', NotAfter = 100\<rparr>, \<lparr>x509_Raw = ''root'', NotAfter = 100\<rparr>), w)"
  by (simp_all add: getExistingTLSCrypto_def getExistingTLSOPSCrypto_def peer_getExistingSignCrypto_def orderer_getExistingSignCrypto_def
    getExistingTLSAdminCrypto_def tls_from_def sign_from_def x509_of_def ecdsa_of_def ParseX509Certificate_def
    ParseECDSAPrivateKey_def secret_value_def crypto_two_def crypto_one_def mem_material_def io_simps)

lemma mem_encode: "EncodePrivateKey crypto_two (ECDSAKey k) = Ok k" "pem_of crypto_two crt = x509_Raw crt"
  by (simp_all add: EncodePrivateKey_def pem_of_def EncodeX509Certificate_def crypto_two_def crypto_one_def)

lemma clock_two: "time_Now crypto_two w = (0, w)"
  by (simp add: crypto_two_def crypto_one_def)

lemma mem_operator_simps:
  "no_pki (mem_operator p) = \<lparr>pki_crypto = crypto_two, pki_ca = mem_ca, pki_vault = vault_two\<rparr>"
  "no_client (mem_operator p) = mem_client p" "no_helm (mem_operator p) = mem_helm" "no_kube (mem_operator p) = kube_memory ''pod''"
  "no_NewForConfig (mem_operator p) = io_return ()" "no_Get (mem_operator p) = (\<lambda>_ _. io_return p)"
  "RenewCertificatesReenroll (mem_operator p)" "\<not> AutoRenewCertificates (mem_operator p)"
  by (simp_all add: mem_operator_def)

end
