(* ===== verification/Peer_Correct.thy ===== *)
theory Peer_Correct imports Node_Memory begin

text \<open>
  What the peer controller guarantees: an upgrade without a renewal leaves the certificates of a peer
  as they are, a renewal keeps the private keys, and a peer that is there is looked at again.
\<close>

section \<open>Renewals of the peer\<close>

interpretation peer_tls: renewer "peer_ReenrollTLSCryptoMaterial P conf enrollment" for P conf enrollment
  by unfold_locales (simp add: peer_ReenrollTLSCryptoMaterial_def reenroll_with_key)

interpretation peer_sign: renewer "peer_ReenrollSignCryptoMaterial P conf enrollment" for P conf enrollment
  by unfold_locales (simp add: peer_ReenrollSignCryptoMaterial_def reenroll_with_key)

lemma choose_existing:
  "existing w = (Ok m, w') \<Longrightarrow> choose_material K False reenroll what None existing create renew w = (Ok m, w')"
  by (simp add: choose_material_def io_simps)

text \<open>A pair that is still valid goes through the renewal when the operator renews.\<close>

lemma choose_renewed:
  assumes "existing w = (Ok (crt, key, root), w1)" and "fst (time_Now K w1) \<le> NotAfter crt"
  shows "choose_material K True True what None existing create renew w =
     io_catch (renew (pem_of K crt) key)
       (\<lambda>err. if str_contains (error_text err) ''Authentication failure'' then create
              else io_throw (Wrapped (''failed to reenroll '' @ what @ '' crypto material'') err)) (snd (time_Now K w1))"
  using assms by (simp add: choose_material_def refresh_material_def io_simps)

section \<open>The certificates of an upgrade\<close>

definition unchanged_certs :: "'w crypto \<Rightarrow> material \<Rightarrow> material \<Rightarrow> material \<Rightarrow> FabricPeerChart \<Rightarrow> bool" where
  "unchanged_certs K tls ops sign c \<longleftrightarrow>
     chart_Cert (pch_TLS c) = pem_of K (fst tls) \<and> Ok (chart_Key (pch_TLS c)) = EncodePrivateKey K (fst (snd tls))
   \<and> Tlsrootcert c = pem_of K (snd (snd tls))
   \<and> chart_Cert (OPSTLS c) = pem_of K (fst ops) \<and> Ok (chart_Key (OPSTLS c)) = EncodePrivateKey K (fst (snd ops))
   \<and> pch_Cert c = pem_of K (fst sign) \<and> Ok (pch_Key c) = EncodePrivateKey K (fst (snd sign))
   \<and> pch_Cacert c = pem_of K (snd (snd sign))"

lemma peer_chart_certs:
  assumes "EncodePrivateKey K (fst (snd tls)) = Ok a" "EncodePrivateKey K (fst (snd ops)) = Ok b"
    "EncodePrivateKey K (fst (snd sign)) = Ok c"
  shows "unchanged_certs K tls ops sign (peer_chart K conf ns tls ops sign a b c endpoint)"
  using assms by (simp add: unchanged_certs_def peer_chart_def Let_def split: prod.split)

lemma peer_GetConfig_certs:
  assumes "peer_GetConfig M conf chartName ns svc refresh w = (Ok c, w')"
  obtains tls ops sign w1 w2 w3 where
    "peer_tls_material (no_pki M) conf chartName ns refresh (RenewCertificatesReenroll M) w = (Ok tls, w1)"
    "peer_ops_material (no_pki M) conf chartName ns refresh w1 = (Ok ops, w2)"
    "peer_sign_material (no_pki M) conf chartName ns refresh (RenewCertificatesReenroll M) w2 = (Ok sign, w3)"
    "unchanged_certs (pki_crypto (no_pki M)) tls ops sign c"
proof -
  let ?K = "pki_crypto (no_pki M)"
  from assms obtain tls ops sign w1 w2 w3 w4 a b d endpoint where
    "peer_tls_material (no_pki M) conf chartName ns refresh (RenewCertificatesReenroll M) w = (Ok tls, w1)"
    "peer_ops_material (no_pki M) conf chartName ns refresh w1 = (Ok ops, w2)"
    "peer_sign_material (no_pki M) conf chartName ns refresh (RenewCertificatesReenroll M) w2 = (Ok sign, w3)"
    "EncodePrivateKey ?K (fst (snd tls)) = Ok a" "EncodePrivateKey ?K (fst (snd ops)) = Ok b"
    "EncodePrivateKey ?K (fst (snd sign)) = Ok d" "c = peer_chart ?K conf ns tls ops sign a b d endpoint"
    unfolding peer_GetConfig_def Let_def by (auto simp: io_bind_Ok_iff io_lift_Ok io_return_Ok)
  then show thesis using that peer_chart_certs by blast
qed

section \<open>Properties of the certificates\<close>

text \<open>
  C9.  An upgrade without a renewal, of a peer whose certificates can be read from its secrets, gives
  the chart those very certificates and keys; the certificate authority and the Vault have no
  influence on it.
\<close>

theorem peer_upgrade_keeps_certificates:
  assumes "comp_External (enr_TLS (ps_Enrollment (peer_Spec conf))) = None"
    and "comp_External (enr_Component (ps_Enrollment (peer_Spec conf))) = None"
    and "getExistingTLSCrypto (pki_crypto (no_pki M)) chartName ns w = (Ok tls, w1)"
    and "getExistingTLSOPSCrypto (pki_crypto (no_pki M)) chartName ns w1 = (Ok ops, w2)"
    and "peer_getExistingSignCrypto (pki_crypto (no_pki M)) chartName ns w2 = (Ok sign, w3)"
  shows "peer_GetConfig (M\<lparr>no_pki := (no_pki M)\<lparr>pki_ca := A, pki_vault := V\<rparr>\<rparr>) conf chartName ns svc False w
       = peer_GetConfig M conf chartName ns svc False w
     \<and> (\<forall>c w'. peer_GetConfig M conf chartName ns svc False w = (Ok c, w') \<longrightarrow>
          unchanged_certs (pki_crypto (no_pki M)) tls ops sign c)"
proof -
  have tls: "peer_tls_material P conf chartName ns False b w = (Ok tls, w1)"
    and ops: "peer_ops_material P conf chartName ns False w1 = (Ok ops, w2)"
    and sign: "peer_sign_material P conf chartName ns False b w2 = (Ok sign, w3)"
    if "pki_crypto P = pki_crypto (no_pki M)" for P :: "'a pki" and b
    using assms that
    by (simp_all add: peer_tls_material_def peer_ops_material_def peer_sign_material_def choose_existing Let_def io_simps)
  show ?thesis
  proof (intro conjI allI impI)
    show "peer_GetConfig (M\<lparr>no_pki := (no_pki M)\<lparr>pki_ca := A, pki_vault := V\<rparr>\<rparr>) conf chartName ns svc False w
        = peer_GetConfig M conf chartName ns svc False w"
      by (simp add: peer_GetConfig_def Let_def io_bind_apply tls ops sign)
    show "unchanged_certs (pki_crypto (no_pki M)) tls ops sign c"
      if "peer_GetConfig M conf chartName ns svc False w = (Ok c, w')" for c w'
      by (rule peer_GetConfig_certs [OF that]) (simp add: tls ops sign)
  qed
qed

text \<open>A pair that is in the secrets and stays valid, and a renewal that is never refused for its credentials.\<close>

definition valid_pair :: "'w crypto \<Rightarrow> ('w, material) io \<Rightarrow> ecdsa_key \<Rightarrow> bool" where
  "valid_pair K existing key \<longleftrightarrow> (\<forall>v. \<exists>crt root v'. existing v = (Ok (crt, key, root), v') \<and> fst (time_Now K v') \<le> NotAfter crt)"

definition never_refused :: "(string \<Rightarrow> ecdsa_key \<Rightarrow> ('w, material) io) \<Rightarrow> bool" where
  "never_refused renew \<longleftrightarrow> (\<forall>pem key v e v'. renew pem key v = (Err e, v') \<longrightarrow>
     \<not> str_contains (error_text e) ''Authentication failure'')"

lemma renewed_key:
  assumes "renewer renew" and "valid_pair K existing key" and "never_refused renew"
    and "choose_material K True True what None existing create renew w = (Ok m, w')"
  shows "fst (snd m) = key"
proof -
  from assms(2) obtain crt root w1 where "existing w = (Ok (crt, key, root), w1)" "fst (time_Now K w1) \<le> NotAfter crt"
    unfolding valid_pair_def by blast
  then have caught: "io_catch (renew (pem_of K crt) key)
      (\<lambda>err. if str_contains (error_text err) ''Authentication failure'' then create
             else io_throw (Wrapped (''failed to reenroll '' @ what @ '' crypto material'') err)) (snd (time_Now K w1))
      = (Ok (fst m, fst (snd m), snd (snd m)), w')"
    using assms(4) by (simp add: choose_renewed)
  show ?thesis
    by (rule renewer.renew_or_enroll_key [OF assms(1) caught]) (use assms(3) in \<open>unfold never_refused_def, blast\<close>)
qed

text \<open>
  C13.  A renewal keeps the private keys.  When the operator renews instead of enrolling anew, the
  certificates are in the secrets and have not ended, and the authority accepts the old certificate,
  the chart gets the peer's own TLS and signing keys again.
\<close>

theorem peer_renewal_keeps_keys:
  assumes "RenewCertificatesReenroll M"
    and "comp_External (enr_TLS (ps_Enrollment (peer_Spec conf))) = None"
    and "comp_External (enr_Component (ps_Enrollment (peer_Spec conf))) = None"
    and "valid_pair (pki_crypto (no_pki M)) (getExistingTLSCrypto (pki_crypto (no_pki M)) chartName ns) tlsKey"
    and "valid_pair (pki_crypto (no_pki M)) (peer_getExistingSignCrypto (pki_crypto (no_pki M)) chartName ns) signKey"
    and "never_refused (peer_ReenrollTLSCryptoMaterial (no_pki M) conf (enr_TLS (ps_Enrollment (peer_Spec conf))))"
    and "never_refused (peer_ReenrollSignCryptoMaterial (no_pki M) conf (enr_Component (ps_Enrollment (peer_Spec conf))))"
    and "peer_GetConfig M conf chartName ns svc True w = (Ok c, w')"
  shows "EncodePrivateKey (pki_crypto (no_pki M)) tlsKey = Ok (chart_Key (pch_TLS c))
     \<and> EncodePrivateKey (pki_crypto (no_pki M)) signKey = Ok (pch_Key c)"
proof (rule peer_GetConfig_certs [OF assms(8)])
  fix tls ops sign w1 w2 w3
  assume "peer_tls_material (no_pki M) conf chartName ns True (RenewCertificatesReenroll M) w = (Ok tls, w1)"
    and "peer_sign_material (no_pki M) conf chartName ns True (RenewCertificatesReenroll M) w2 = (Ok sign, w3)"
    and same: "unchanged_certs (pki_crypto (no_pki M)) tls ops sign c"
  then have "fst (snd tls) = tlsKey" "fst (snd sign) = signKey"
    using assms(1-3) renewed_key [OF peer_tls.renewer_axioms assms(4,6)] renewed_key [OF peer_sign.renewer_axioms assms(5,7)]
    by (simp_all add: peer_tls_material_def peer_sign_material_def Let_def)
  then show ?thesis using same by (simp add: unchanged_certs_def)
qed

text \<open>
  With a Vault the certificate and the key of a renewal do not belong together: the answer does not
  depend on the key, so the certificate that is paired with one key is paired with any other just as well.
\<close>

theorem vault_renewal_ignores_key:
  assumes "ps_CredentialStore (peer_Spec conf) = CredentialStoreVault"
    and "peer_ReenrollTLSCryptoMaterial P conf enrollment pem key w = (Ok (crt, key, root), w')"
  shows "peer_ReenrollTLSCryptoMaterial P conf enrollment pem2 key2 w = (Ok (crt, key2, root), w')"
  using assms reenroll_with_vault by (simp add: peer_ReenrollTLSCryptoMaterial_def)

section \<open>Instances\<close>

abbreviation peer_M :: "lease_memory peer_operator" where "peer_M \<equiv> mem_operator peer_p0"

lemma peer_p0_simps:
  "comp_External (enr_TLS (ps_Enrollment (peer_Spec peer_p0))) = None"
  "comp_External (enr_Component (ps_Enrollment (peer_Spec peer_p0))) = None"
  by (simp_all add: peer_p0_def mem_enrollment_def zero_component_def Let_def Component.defs TLSComponent.defs)

definition svc_one :: k8s_service where
  "svc_one = \<lparr>svc_Name = ''p0'', svc_Namespace = ''n'', svc_Labels = Map.empty, svc_Type = ''ClusterIP'', svc_Ports = peer_ports,
     svc_Selector = Map.empty\<rparr>"

lemma GetConfig_one: "\<exists>c. peer_GetConfig peer_M peer_p0 ''p0'' ''n'' svc False w = (Ok c, w)"
  by (simp add: peer_GetConfig_def peer_tls_material_def peer_ops_material_def peer_sign_material_def choose_existing
    mem_operator_simps mem_existing peer_p0_simps mem_material_def mem_encode Let_def io_simps)
    (simp add: external_endpoint_def peer_p0_def io_simps)

theorem peer_upgrade_keeps_certificates_witness:
  "\<exists>c. peer_GetConfig peer_M peer_p0 ''p0'' ''n'' svc_one False no_lease = (Ok c, no_lease)
     \<and> unchanged_certs (crypto_two :: lease_memory crypto) mem_material mem_material mem_material c"
proof -
  obtain c where c: "peer_GetConfig peer_M peer_p0 ''p0'' ''n'' svc_one False no_lease = (Ok c, no_lease)"
    using GetConfig_one by blast
  have "unchanged_certs (pki_crypto (no_pki peer_M)) mem_material mem_material mem_material c"
    by (rule peer_upgrade_keeps_certificates [OF peer_p0_simps, THEN conjunct2, rule_format, OF _ _ _ c])
      (simp_all add: mem_operator_simps mem_existing)
  then show ?thesis using c by (simp add: mem_operator_simps)
qed

lemma peer_p0_enrolls:
  "peer_CreateTLSOPSCryptoMaterial \<lparr>pki_crypto = crypto_two, pki_ca = mem_ca, pki_vault = vault_two\<rparr> peer_p0
     (enr_TLS (ps_Enrollment (peer_Spec peer_p0))) w =
   (Ok (\<lparr>x509_Raw = ''new'', NotAfter = 1000\<rparr>, ECDSAKey ''fresh'', \<lparr>x509_Raw = ''root'', NotAfter = 100\<rparr>), w)"
  by (simp add: peer_CreateTLSOPSCryptoMaterial_def enroll_with_def peer_getEnrollRequestForFabricCATLS_def fabric_ca_request_def
    getCertBytesFromCATLS_def EnrollUser_def GetClient_def init_client_def on_ca_def ca_root_def readKey_def x509_of_def ecdsa_of_def
    ParseX509Certificate_def ParseECDSAPrivateKey_def mem_ca_def crypto_two_def crypto_one_def ca_params_def tls_client_def
    peer_p0_def mem_enrollment_def zero_component_def CredentialStoreVault_def Let_def Component.defs TLSComponent.defs io_simps)

lemma peer_p0_renews:
  "peer_ReenrollTLSCryptoMaterial \<lparr>pki_crypto = crypto_two, pki_ca = mem_ca, pki_vault = vault_two\<rparr> peer_p0
     (enr_TLS (ps_Enrollment (peer_Spec peer_p0))) pem key w =
   (Ok (\<lparr>x509_Raw = ''renewed'', NotAfter = 1000\<rparr>, key, \<lparr>x509_Raw = ''root'', NotAfter = 100\<rparr>), w)"
  "peer_ReenrollSignCryptoMaterial \<lparr>pki_crypto = crypto_two, pki_ca = mem_ca, pki_vault = vault_two\<rparr> peer_p0
     (enr_Component (ps_Enrollment (peer_Spec peer_p0))) pem key w =
   (Ok (\<lparr>x509_Raw = ''renewed'', NotAfter = 1000\<rparr>, key, \<lparr>x509_Raw = ''root'', NotAfter = 100\<rparr>), w)"
  by (simp_all add: peer_ReenrollTLSCryptoMaterial_def peer_ReenrollSignCryptoMaterial_def reenroll_with_def
    peer_getReenrollRequestForFabricCATLS_def peer_getReenrollRequestForFabricCA_def fabric_ca_rerequest_def
    getCertBytesFromCATLS_def ReenrollUser_def GetClient_def init_client_def on_ca_def ca_root_def x509_of_def
    ParseX509Certificate_def mem_ca_def crypto_two_def crypto_one_def ca_params_def tls_client_def
    peer_p0_def mem_enrollment_def zero_component_def CredentialStoreVault_def Let_def Component.defs TLSComponent.defs io_simps)

lemma refresh_one: "\<exists>c. peer_GetConfig peer_M peer_p0 ''p0'' ''n'' svc True w = (Ok c, w)"
  by (simp add: peer_GetConfig_def peer_tls_material_def peer_ops_material_def peer_sign_material_def choose_material_def
      refresh_material_def mem_operator_simps mem_existing peer_p0_simps peer_p0_enrolls peer_p0_renews mem_material_def
      mem_encode clock_two Let_def io_simps) (simp add: external_endpoint_def peer_p0_def io_simps)

theorem peer_renewal_keeps_keys_witness:
  "\<exists>c. peer_GetConfig peer_M peer_p0 ''p0'' ''n'' svc_one True no_lease = (Ok c, no_lease)
     \<and> chart_Key (pch_TLS c) = ''key'' \<and> pch_Key c = ''key''"
proof -
  obtain c where c: "peer_GetConfig peer_M peer_p0 ''p0'' ''n'' svc_one True no_lease = (Ok c, no_lease)"
    using refresh_one by blast
  have "EncodePrivateKey (pki_crypto (no_pki peer_M)) (ECDSAKey ''key'') = Ok (chart_Key (pch_TLS c))
     \<and> EncodePrivateKey (pki_crypto (no_pki peer_M)) (ECDSAKey ''key'') = Ok (pch_Key c)"
    by (rule peer_renewal_keeps_keys [OF _ peer_p0_simps _ _ _ _ c])
      (simp_all add: mem_operator_simps valid_pair_def never_refused_def mem_existing mem_material_def peer_p0_renews
        clock_two)
  note keys = this [unfolded mem_operator_simps pki.simps mem_encode res.inject]
  show ?thesis using c keys [THEN conjunct1, symmetric] keys [THEN conjunct2, symmetric] by blast
qed

text \<open>A peer with a Vault whose token is in a secret.\<close>

definition vault_component_one :: VaultComponent where
  "vault_component_one = \<lparr>vc_Request = \<lparr>PKI = ''pki'', pki_Role = ''peer'', TTL = []\<rparr>,
     vc_Vault = \<lparr>vault_URL = ''https://v'', TokenSecretRef = Some \<lparr>vsr_Name = ''t'', vsr_Namespace = [], vsr_Key = ''token''\<rparr>,
       vault_Role = [], SecretIdSecretRef = None, ServerCert = [], vault_ServerName = [], ClientCert = [], ClientKeySecretRef = None,
       vault_CACert = [], TLSSkipVerify = True, vault_Timeout = [], MaxRetries = 2\<rparr>\<rparr>"

definition tls_v0 :: TLSComponent where
  "tls_v0 = Component.extend (zero_component\<lparr>comp_Vault := Some vault_component_one\<rparr>) (TLSComponent.fields \<lparr>csr_Hosts = [], csr_CN = []\<rparr>)"

definition peer_v0 :: FabricPeerResource where
  "peer_v0 = empty_peer\<lparr>peer_Spec := empty_peer_spec\<lparr>ps_CredentialStore := CredentialStoreVault\<rparr>\<rparr>"

definition pki_v0 :: "lease_memory pki" where
  "pki_v0 = \<lparr>pki_crypto = crypto_one, pki_ca = mem_ca, pki_vault = vault_two\<rparr>"

lemma peer_v0_renews:
  "peer_ReenrollTLSCryptoMaterial pki_v0 peer_v0 tls_v0 ''pem'' (ECDSAKey ''old'') w =
     (Ok (\<lparr>x509_Raw = ''crt'', NotAfter = 100\<rparr>, ECDSAKey ''old'', \<lparr>x509_Raw = ''root'', NotAfter = 100\<rparr>), w)"
  by (simp add: peer_ReenrollTLSCryptoMaterial_def reenroll_with_def on_vault_def vault_ReenrollUser_def vault_GetClient_def
    vault_tls_of_def vault_timeout_def authenticate_def referenced_def issued_def must_string_def pem_certificate_def
    pki_v0_def peer_v0_def tls_v0_def vault_component_one_def vault_two_def crypto_one_def zero_component_def
    Component.defs TLSComponent.defs Let_def io_simps)

theorem vault_renewal_ignores_key_witness:
  "peer_ReenrollTLSCryptoMaterial pki_v0 peer_v0 tls_v0 ''pem'' (ECDSAKey ''other'') no_lease =
     (Ok (\<lparr>x509_Raw = ''crt'', NotAfter = 100\<rparr>, ECDSAKey ''other'', \<lparr>x509_Raw = ''root'', NotAfter = 100\<rparr>), no_lease)"
  by (rule vault_renewal_ignores_key [OF _ peer_v0_renews]) (simp add: peer_v0_def)

section \<open>Being looked at again\<close>

text \<open>Code whose every outcome is retried.\<close>

named_theorems retried_intros \<open>rules for code that is always retried\<close>

definition always_retried :: "('w, Result) io \<Rightarrow> bool" where
  "always_retried m \<longleftrightarrow> (\<forall>w. retried (fst (m w)))"

lemma always_retriedI: "(\<And>w. retried (fst (m w))) \<Longrightarrow> always_retried m"
  and always_retriedD: "always_retried m \<Longrightarrow> retried (fst (m w))"
  by (simp_all add: always_retried_def)

lemma always_retried_try [retried_intros]:
  assumes "\<And>a. always_retried (k a)" and "\<And>e. always_retried (h e)"
  shows "always_retried (io_try m k h)"
proof (rule always_retriedI)
  fix w
  obtain r v where "m w = (r, v)" by fastforce
  then show "retried (fst (io_try m k h w))" using assms by (cases r) (simp_all add: io_simps always_retriedD)
qed

lemma always_retried_attempt [retried_intros]:
  "(\<And>e. always_retried (h e)) \<Longrightarrow> (\<And>a. always_retried (k a)) \<Longrightarrow> always_retried (attempt h m k)"
  unfolding attempt_def by (rule always_retried_try)

lemma always_retried_bind [retried_intros]:
  assumes "\<And>a. always_retried (k a)"
  shows "always_retried (io_bind m k)"
proof (rule always_retriedI)
  fix w
  obtain r v where "m w = (r, v)" by fastforce
  then show "retried (fst (io_bind m k w))" using assms by (cases r) (simp_all add: io_simps always_retriedD)
qed

lemma always_retried_return [retried_intros]: "0 < RequeueAfter r \<Longrightarrow> always_retried (io_return r)"
  by (simp add: always_retried_def io_simps)

lemma always_retried_if [retried_intros]:
  "(b \<Longrightarrow> always_retried m) \<Longrightarrow> (\<not> b \<Longrightarrow> always_retried n) \<Longrightarrow> always_retried (if b then m else n)"
  by simp

lemma always_retried_option [retried_intros]:
  "(x = None \<Longrightarrow> always_retried m) \<Longrightarrow> (\<And>a. x = Some a \<Longrightarrow> always_retried (f a)) \<Longrightarrow> always_retried (case x of None \<Rightarrow> m | Some a \<Rightarrow> f a)"
  by (cases x) simp_all

lemma always_retried_pair [retried_intros]:
  "(\<And>a b. always_retried (f a b)) \<Longrightarrow> always_retried (case p of (a, b) \<Rightarrow> f a b)"
  by (cases p) simp

lemma peer_fail_retried [retried_intros]:
  "client_ok (no_client M) \<Longrightarrow> always_retried (peer_fail M p e)"
  by (rule always_retriedI) (simp add: peer_fail_def report_failure_def peer.report_retried [unfolded peer.report_def])

lemma requeue_positive [retried_intros]: "0 < d \<Longrightarrow> always_retried (io_return (requeue_after d))"
  by (intro retried_intros) (simp add: requeue_after_def)

lemma peer_requeue_positive: "0 < d \<Longrightarrow> 0 < RequeueAfter (peer_requeue st d)"
  by (simp add: peer_requeue_def requeue_after_def Second_def)

lemma peer_finish_retried [retried_intros]:
  assumes "client_ok (no_client M)" and "0 < d"
  shows "always_retried (peer_finish M releaseName ns svc renewed d p)"
proof -
  have step: "retried (fst (attempt (peer_fail M p) (status_update (no_client M) q)
      (\<lambda>_. io_return (peer_requeue st d)) w))" for q st w
    by (rule always_retriedD) (intro retried_intros peer_requeue_positive assms)
  have "always_retried (\<lambda>w. let q = observed (clock_now (no_client M) w) s renewed p in
      if cert_status_of q \<noteq> cert_status_of p
      then attempt (peer_fail M p) (status_update (no_client M) q) (\<lambda>_. io_return (peer_requeue (state_Status s) d)) w
      else io_return (peer_requeue (state_Status s) d) w)" for s
    using peer_requeue_positive [OF assms(2)] by (intro always_retriedI) (simp add: Let_def step io_simps)
  then show ?thesis unfolding peer_finish_def by (intro retried_intros assms)
qed

lemma update_peer_retried [retried_intros]:
  assumes "client_ok (no_client M)"
  shows "always_retried (update_peer M releaseName ns svc st p)"
  unfolding update_peer_def peer_renew_def peer_upgrade_def
  by (intro retried_intros assms) (simp_all add: Second_def Minute_def)

lemma install_peer_retried [retried_intros]:
  assumes "client_ok (no_client M)"
  shows "always_retried (install_peer M req svc p)"
proof -
  have step: "retried (fst (attempt (peer_fail M q) (status_update (no_client M) q) (\<lambda>_. io_return (requeue_after (10 * Second))) w))" for q w
    by (rule always_retriedD) (intro retried_intros assms, simp add: Second_def)
  have last: "always_retried (\<lambda>w. attempt (peer_fail M (deployed (clock_now (no_client M) w) p))
      (status_update (no_client M) (deployed (clock_now (no_client M) w) p)) (\<lambda>_. io_return (requeue_after (10 * Second))) w)" for p
    by (intro always_retriedI step)
  obtain ns releaseName where req: "req = (ns, releaseName)" by fastforce
  show ?thesis unfolding install_peer_def req Let_def prod.case by (intro retried_intros assms last)
qed

lemma reconcile_peer_retried [retried_intros]:
  assumes "client_ok (no_client M)"
  shows "always_retried (reconcile_peer M req p)"
  unfolding reconcile_peer_def Let_def by (cases req) (simp, intro retried_intros assms)

text \<open>
  C7.  A peer that is there is looked at again: the only reconciliations that ask for nothing are those
  of a peer that does not exist or is being deleted.  Every other one, successful or not, ends with an
  error, a panic or a time to look again.
\<close>

theorem Reconcile_peer_retried:
  assumes "client_ok (no_client M)" and "\<not> retried (fst (Reconcile_peer M req w))"
  shows "\<exists>w1. newActionCfg M (fst req) w = (Ok (), w1)
     \<and> (case fst (client_get (no_client M) req w1) of
          Ok p \<Rightarrow> DeletionTimestamp p \<noteq> None | Err e \<Rightarrow> isNotFound e | Panic t \<Rightarrow> False)"
proof -
  have fail: "retried (fst (peer_fail M p e v))" for p e v
    by (rule always_retriedD) (intro retried_intros assms(1))
  obtain w1 where cfg: "newActionCfg M (fst req) w = (Ok (), w1)"
    using assms(2) fail by (cases "newActionCfg M (fst req) w", rename_tac r v, case_tac r)
      (auto simp: Reconcile_peer_def attempt_def io_simps)
  have live: "retried (fst (Reconcile_peer M req w))"
    if "client_get (no_client M) req w1 = (Ok p, v)" "DeletionTimestamp p = None" for p v
  proof -
    have "always_retried (if \<not> Contains (Finalizers p) peerFinalizer
            then attempt (peer_fail M (p\<lparr>Finalizers := [peerFinalizer]\<rparr>)) (FabricPeer_addFinalizer (no_client M) p)
                   (reconcile_peer M req)
            else reconcile_peer M req p)" by (intro retried_intros assms(1))
    then show ?thesis using cfg that by (simp add: Reconcile_peer_def attempt_Ok io_simps always_retriedD)
  qed
  obtain r v where get: "client_get (no_client M) req w1 = (r, v)" by fastforce
  then show ?thesis using cfg assms(2) fail live
    by (cases r) (auto simp: Reconcile_peer_def attempt_Ok io_simps split: if_split_asm)
qed

theorem Reconcile_peer_retried_witness:
  "\<not> retried (fst (Reconcile_peer (mem_operator (peer_p0\<lparr>DeletionTimestamp := Some 1\<rparr>)) (''n'', ''p0'') no_lease))
   \<and> (\<exists>w1. newActionCfg (mem_operator (peer_p0\<lparr>DeletionTimestamp := Some 1\<rparr>) :: lease_memory peer_operator) ''n'' no_lease = (Ok (), w1))"
proof -
  let ?M = "mem_operator (peer_p0\<lparr>DeletionTimestamp := Some 1\<rparr>) :: lease_memory peer_operator"
  have gone: "\<not> retried (fst (Reconcile_peer ?M (''n'', ''p0'') no_lease))"
    by (simp add: Reconcile_peer_def newActionCfg_def mem_operator_simps mem_helm_def kube_memory_def mem_client_def
      attempt_def release_peer_def peer_p0_def empty_peer_def no_requeue_def io_simps)
  have "client_ok (no_client ?M)" by (simp add: mem_operator_simps mem_client_ok)
  from Reconcile_peer_retried [OF this gone] gone show ?thesis by auto
qed

end
