(* ===== verification/Orderer_Chart.thy ===== *)
theory Orderer_Chart imports Node_Chart begin

text \<open>
  The ordering node: its resource, the certificates it gets and the values of its chart (\<open>getConfig\<close> and
  what it calls in \<open>controllers/ordnode/ordnode_controller.go\<close>, \<open>controllers/ordnode/types.go\<close>).
\<close>

section \<open>The resource\<close>

record FabricOrdererNodeSpec =
  os_PodAnnotations :: "string \<rightharpoonup> string"
  os_PodLabels :: "string \<rightharpoonup> string"
  os_Tolerations :: "k8s_object list"
  os_GRPCProxy :: "GRPCProxySpec option"
  os_Affinity :: "k8s_object option"
  os_UpdateCertificateTime :: "time option"
  os_ServiceMonitor :: "ServiceMonitorSpec option"
  os_HostAliases :: "HostAlias list"
  os_NodeSelector :: "k8s_object option"
  os_Resources :: k8s_object
  os_Replicas :: int
  os_Image :: string
  os_Tag :: string
  os_PullPolicy :: string
  os_MspID :: string
  os_ImagePullSecrets :: "k8s_object list"
  os_Genesis :: string
  os_BootstrapMethod :: string
  os_ChannelParticipationEnabled :: bool
  os_Storage :: StorageSpec
  os_ServiceType :: string
  os_NodePortOperations :: int
  os_NodePortRequest :: int
  os_Secret :: "Enrollment option"
  os_GatewayApi :: "FabricGatewayApiSpec option"
  os_Istio :: "FabricIstioSpec option"
  os_Traefik :: "FabricTraefikSpec option"
  os_AdminGatewayApi :: "FabricGatewayApiSpec option"
  os_AdminIstio :: "FabricIstioSpec option"
  os_AdminTraefik :: "FabricTraefikSpec option"
  os_Env :: "k8s_object list"
  os_CredentialStore :: string

record FabricOrdererNodeResource = cert_resource +
  status_TlsAdminCert :: string
  status_OperationsPort :: int
  status_AdminPort :: int
  ord_Spec :: FabricOrdererNodeSpec

section \<open>Certificates\<close>

text \<open>The hosts of the certificate request and of every route but those of the gateway API.\<close>

definition orderer_tls_hosts :: "TLSComponent \<Rightarrow> FabricOrdererNodeSpec \<Rightarrow> string list" where
  "orderer_tls_hosts enrollment spec = csr_Hosts (tls_Csr enrollment)
     @ (case os_Istio spec of Some i \<Rightarrow> istio_Hosts i | None \<Rightarrow> [])
     @ (case os_Traefik spec of Some t \<Rightarrow> traefik_Hosts t | None \<Rightarrow> [])
     @ (case os_AdminIstio spec of Some i \<Rightarrow> istio_Hosts i | None \<Rightarrow> [])
     @ (case os_AdminTraefik spec of Some t \<Rightarrow> traefik_Hosts t | None \<Rightarrow> [])"

definition orderer_getEnrollRequestForFabricCA ::
  "'w crypto \<Rightarrow> Component \<Rightarrow> FabricOrdererNodeSpec \<Rightarrow> ('w, EnrollUserRequest) io" where
  "orderer_getEnrollRequestForFabricCA K enrollment spec = fabric_ca_request K enrollment (os_MspID spec) [] [] []"

definition orderer_getEnrollRequestForFabricCATLS ::
  "'w crypto \<Rightarrow> TLSComponent \<Rightarrow> FabricOrdererNodeSpec \<Rightarrow> string \<Rightarrow> ('w, EnrollUserRequest) io" where
  "orderer_getEnrollRequestForFabricCATLS K enrollment spec profile =
     fabric_ca_request K enrollment (os_MspID spec) (orderer_tls_hosts enrollment spec) (Enrollid enrollment) profile"

definition orderer_getEnrollRequestForVault :: "Component \<Rightarrow> FabricOrdererNodeResource \<Rightarrow> vault_EnrollUserRequest" where
  "orderer_getEnrollRequestForVault component conf = vault_request component (crName conf) (os_MspID (ord_Spec conf)) []"

definition orderer_getEnrollRequestForVaultTLS :: "TLSComponent \<Rightarrow> FabricOrdererNodeResource \<Rightarrow> vault_EnrollUserRequest" where
  "orderer_getEnrollRequestForVaultTLS tls conf =
     vault_request tls (crName conf) (os_MspID (ord_Spec conf)) (orderer_tls_hosts tls (ord_Spec conf))"

definition orderer_getReenrollRequestForFabricCA ::
  "'w crypto \<Rightarrow> Component \<Rightarrow> FabricOrdererNodeSpec \<Rightarrow> ('w, ReenrollUserRequest) io" where
  "orderer_getReenrollRequestForFabricCA K enrollment conf = fabric_ca_rerequest K enrollment (os_MspID conf) [] []"

definition orderer_getReenrollRequestForFabricCATLS ::
  "'w crypto \<Rightarrow> TLSComponent \<Rightarrow> FabricOrdererNodeSpec \<Rightarrow> string \<Rightarrow> ('w, ReenrollUserRequest) io" where
  "orderer_getReenrollRequestForFabricCATLS K enrollment conf profile =
     fabric_ca_rerequest K enrollment (os_MspID conf) (orderer_tls_hosts enrollment conf) profile"

definition orderer_getReenrollRequestForVault :: "FabricOrdererNodeResource \<Rightarrow> vault_ReenrollUserRequest" where
  "orderer_getReenrollRequestForVault conf = vault_rerequest (crName conf) (os_MspID (ord_Spec conf)) []"

definition orderer_getReenrollRequestForVaultTLS ::
  "TLSComponent \<Rightarrow> FabricOrdererNodeResource \<Rightarrow> vault_ReenrollUserRequest" where
  "orderer_getReenrollRequestForVaultTLS tls conf =
     vault_rerequest (crName conf) (os_MspID (ord_Spec conf)) (orderer_tls_hosts tls (ord_Spec conf))"

definition orderer_CreateTLSCryptoMaterial ::
  "'w pki \<Rightarrow> FabricOrdererNodeResource \<Rightarrow> TLSComponent \<Rightarrow> ('w, material) io" where
  "orderer_CreateTLSCryptoMaterial P conf enrollment =
     enroll_with P (os_CredentialStore (ord_Spec conf)) enrollment (orderer_getEnrollRequestForVaultTLS enrollment conf)
       (orderer_getEnrollRequestForFabricCATLS (pki_crypto P) enrollment (ord_Spec conf) ''tls'')"

definition orderer_ReenrollTLSCryptoMaterial ::
  "'w pki \<Rightarrow> FabricOrdererNodeResource \<Rightarrow> TLSComponent \<Rightarrow> string \<Rightarrow> ecdsa_key \<Rightarrow> ('w, material) io" where
  "orderer_ReenrollTLSCryptoMaterial P conf enrollment tlsCertPem tlsKey =
     reenroll_with P (os_CredentialStore (ord_Spec conf)) enrollment (orderer_getReenrollRequestForVaultTLS enrollment conf)
       (orderer_getReenrollRequestForFabricCATLS (pki_crypto P) enrollment (ord_Spec conf) ''tls'') tlsCertPem tlsKey"

text \<open>The administration endpoint's clients have the same root.\<close>

type_synonym admin_material = "x509_certificate \<times> ecdsa_key \<times> x509_certificate \<times> x509_certificate"

definition with_client_root :: "('w, material) io \<Rightarrow> ('w, admin_material) io" where
  "with_client_root m = io_bind m (\<lambda>(crt, key, rootCrt). io_return (crt, key, rootCrt, rootCrt))"

definition orderer_CreateTLSAdminCryptoMaterial ::
  "'w pki \<Rightarrow> FabricOrdererNodeResource \<Rightarrow> TLSComponent \<Rightarrow> ('w, admin_material) io" where
  "orderer_CreateTLSAdminCryptoMaterial P conf enrollment = with_client_root
     (enroll_with P (os_CredentialStore (ord_Spec conf)) enrollment (orderer_getEnrollRequestForVaultTLS enrollment conf)
       (orderer_getEnrollRequestForFabricCATLS (pki_crypto P) enrollment (ord_Spec conf) ''tls''))"

definition orderer_ReenrollTLSAdminCryptoMaterial ::
  "'w pki \<Rightarrow> FabricOrdererNodeResource \<Rightarrow> TLSComponent \<Rightarrow> string \<Rightarrow> ecdsa_key \<Rightarrow> ('w, admin_material) io" where
  "orderer_ReenrollTLSAdminCryptoMaterial P conf enrollment tlsCertPem tlsKey = with_client_root
     (reenroll_with P (os_CredentialStore (ord_Spec conf)) enrollment (orderer_getReenrollRequestForVaultTLS enrollment conf)
       (orderer_getReenrollRequestForFabricCATLS (pki_crypto P) enrollment (ord_Spec conf) ''tls'') tlsCertPem tlsKey)"

definition orderer_CreateSignCryptoMaterial ::
  "'w pki \<Rightarrow> FabricOrdererNodeResource \<Rightarrow> Component \<Rightarrow> ('w, material) io" where
  "orderer_CreateSignCryptoMaterial P conf enrollment =
     enroll_with P (os_CredentialStore (ord_Spec conf)) enrollment (orderer_getEnrollRequestForVault enrollment conf)
       (orderer_getEnrollRequestForFabricCA (pki_crypto P) enrollment (ord_Spec conf))"

definition orderer_ReenrollSignCryptoMaterial ::
  "'w pki \<Rightarrow> FabricOrdererNodeResource \<Rightarrow> Component \<Rightarrow> string \<Rightarrow> ecdsa_key \<Rightarrow> ('w, material) io" where
  "orderer_ReenrollSignCryptoMaterial P conf enrollment signCertPem privateKey =
     reenroll_with P (os_CredentialStore (ord_Spec conf)) enrollment (orderer_getReenrollRequestForVault conf)
       (orderer_getReenrollRequestForFabricCA (pki_crypto P) enrollment (ord_Spec conf)) signCertPem privateKey"

section \<open>Which certificates the chart gets\<close>

text \<open>
  Unlike the peer's, a pair that is renewed is always renewed with the existing one, expired or not, and
  there is no falling back.
\<close>

definition renew_or_create ::
  "bool \<Rightarrow> string \<Rightarrow> string \<Rightarrow> string \<Rightarrow> ('w, 'm) io \<Rightarrow> ('w, 'm) io \<Rightarrow> ('m \<Rightarrow> ('w, 'm) io) \<Rightarrow> ('w, 'm) io" where
  "renew_or_create refreshCerts get_failed renew_failed create_failed existing create renew =
     (if refreshCerts
      then io_bind (io_wrap get_failed existing) (\<lambda>m. io_wrap renew_failed (renew m))
      else io_catch existing (\<lambda>_. io_wrap create_failed create))"

definition orderer_tls_material ::
  "'w pki \<Rightarrow> FabricOrdererNodeResource \<Rightarrow> TLSComponent \<Rightarrow> string \<Rightarrow> string \<Rightarrow> bool \<Rightarrow> ('w, material) io" where
  "orderer_tls_material P conf tlsParams chartName namespace refreshCerts =
     (let K = pki_crypto P in
      case comp_External tlsParams of
        Some ext \<Rightarrow> external_material K ''tls'' ext
      | None \<Rightarrow> renew_or_create refreshCerts ''failed to get existing tls crypto material''
          ''failed to reenroll tls crypto material'' ''failed to create tls crypto material''
          (getExistingTLSCrypto K chartName namespace)
          (orderer_CreateTLSCryptoMaterial P conf tlsParams)
          (\<lambda>(crt, key, _). orderer_ReenrollTLSCryptoMaterial P conf tlsParams (pem_of K crt) key))"

definition orderer_admin_material ::
  "'w pki \<Rightarrow> FabricOrdererNodeResource \<Rightarrow> TLSComponent \<Rightarrow> string \<Rightarrow> string \<Rightarrow> bool \<Rightarrow> ('w, admin_material) io" where
  "orderer_admin_material P conf tlsParams chartName namespace refreshCerts =
     (let K = pki_crypto P in
      renew_or_create refreshCerts ''failed to get existing tls admin crypto material''
          ''failed to create tls admin crypto material'' ''failed to create tls admin crypto material''
          (getExistingTLSAdminCrypto K chartName namespace)
          (orderer_CreateTLSAdminCryptoMaterial P conf tlsParams)
          (\<lambda>(crt, key, _). orderer_ReenrollTLSAdminCryptoMaterial P conf tlsParams (pem_of K crt) key))"

definition orderer_sign_material ::
  "'w pki \<Rightarrow> FabricOrdererNodeResource \<Rightarrow> Component \<Rightarrow> string \<Rightarrow> string \<Rightarrow> bool \<Rightarrow> ('w, material) io" where
  "orderer_sign_material P conf signParams chartName namespace refreshCerts =
     (let K = pki_crypto P in
      case comp_External signParams of
        Some ext \<Rightarrow> external_material K ''sign'' ext
      | None \<Rightarrow> renew_or_create refreshCerts ''failed to get existing sign crypto material''
          ''failed to reenroll sign crypto material'' ''failed to create sign crypto material''
          (orderer_getExistingSignCrypto K chartName namespace)
          (orderer_CreateSignCryptoMaterial P conf signParams)
          (\<lambda>(crt, key, _). orderer_ReenrollSignCryptoMaterial P conf signParams (pem_of K crt) key))"

section \<open>The values of the chart\<close>

record ord_admin =
  admin_Cert :: string
  admin_Key :: string
  admin_RootCAs :: string
  admin_ClientRootCAs :: string

record ord_service =
  osvc_Type :: string
  osvc_Port :: int
  osvc_NodePort :: int
  osvc_PortOperations :: int
  osvc_NodePortOperations :: int

record ord_ord =
  ord_Type :: string
  ord_MspID :: string
  ord_ServerTLS :: bool
  ord_ClientTLS :: bool

record fabricOrdChart =
  och_PodLabels :: "string \<rightharpoonup> string"
  och_PodAnnotations :: "string \<rightharpoonup> string"
  och_GatewayApi :: GatewayApi
  och_Istio :: Istio
  och_Traefik :: Traefik
  och_AdminGatewayApi :: GatewayApi
  och_AdminIstio :: Istio
  och_AdminTraefik :: Traefik
  och_Replicas :: int
  och_Genesis :: string
  och_ChannelParticipationEnabled :: bool
  och_BootstrapMethod :: string
  och_Admin :: ord_admin
  och_Cacert :: string
  och_NodeSelector :: "k8s_object option"
  och_Tlsrootcert :: string
  och_AdminCert :: string
  och_Affinity :: "k8s_object option"
  och_Cert :: string
  och_Key :: string
  och_TLS :: chart_tls
  och_Tolerations :: "k8s_object list"
  och_Resources :: k8s_object
  och_FullnameOverride :: string
  och_HostAliases :: "HostAlias list"
  och_Service :: ord_service
  och_Image :: chart_image
  och_Persistence :: Persistence
  och_Ord :: ord_ord
  och_Clientcerts :: string
  och_Hosts :: "string list"
  och_LoggingSpec :: string
  och_ServiceMonitor :: ServiceMonitor
  och_EnvVars :: "k8s_object list"
  och_ImagePullSecrets :: "k8s_object list"
  och_Proxy :: GRPCProxy

text \<open>
  The route of the administration endpoint through the gateway API takes its namespace from the other
  route, and panics when there is none.
\<close>

definition admin_gateway_values :: "FabricOrdererNodeSpec \<Rightarrow> GatewayApi res" where
  "admin_gateway_values spec = (case os_AdminGatewayApi spec of
       None \<Rightarrow> Ok no_gateway
     | Some g \<Rightarrow> (case os_GatewayApi spec of
          None \<Rightarrow> Panic ''nil pointer dereference''
        | Some g' \<Rightarrow> Ok (gateway_with g (gateway_GatewayNamespace g'))))"

definition orderer_chart ::
  "'w crypto \<Rightarrow> FabricOrdererNodeResource \<Rightarrow> material \<Rightarrow> admin_material \<Rightarrow> material
   \<Rightarrow> string \<Rightarrow> string \<Rightarrow> string \<Rightarrow> GatewayApi \<Rightarrow> fabricOrdChart" where
  "orderer_chart K conf tls admin sign tlsKeyPem adminKeyPem signKeyPem adminGatewayApi =
     (let spec = ord_Spec conf; (tlsCert, _, tlsRootCert) = tls; (adminCert, _, adminRootCert, adminClientRootCert) = admin;
          (signCert, _, signRootCert) = sign in
      \<lparr>och_PodLabels = os_PodLabels spec, och_PodAnnotations = os_PodAnnotations spec,
       och_GatewayApi = gateway_values (os_GatewayApi spec), och_Istio = istio_values (os_Istio spec),
       och_Traefik = traefik_values (os_Traefik spec), och_AdminGatewayApi = adminGatewayApi,
       och_AdminIstio = istio_values (os_AdminIstio spec), och_AdminTraefik = traefik_values (os_AdminTraefik spec),
       och_Replicas = os_Replicas spec, och_Genesis = os_Genesis spec,
       och_ChannelParticipationEnabled = os_ChannelParticipationEnabled spec,
       och_BootstrapMethod = os_BootstrapMethod spec,
       och_Admin = \<lparr>admin_Cert = pem_of K adminCert, admin_Key = adminKeyPem, admin_RootCAs = pem_of K adminRootCert,
         admin_ClientRootCAs = pem_of K adminClientRootCert\<rparr>,
       och_Cacert = pem_of K signRootCert, och_NodeSelector = os_NodeSelector spec,
       och_Tlsrootcert = pem_of K tlsRootCert, och_AdminCert = [], och_Affinity = os_Affinity spec,
       och_Cert = pem_of K signCert, och_Key = signKeyPem,
       och_TLS = \<lparr>chart_Cert = pem_of K tlsCert, chart_Key = tlsKeyPem\<rparr>, och_Tolerations = os_Tolerations spec,
       och_Resources = os_Resources spec, och_FullnameOverride = crName conf,
       och_HostAliases = host_aliases (os_HostAliases spec),
       och_Service = \<lparr>osvc_Type = os_ServiceType spec, osvc_Port = 7050, osvc_NodePort = os_NodePortRequest spec,
         osvc_PortOperations = 9443, osvc_NodePortOperations = os_NodePortOperations spec\<rparr>,
       och_Image = \<lparr>Repository = os_Image spec, Image_Tag = os_Tag spec, Image_PullPolicy = os_PullPolicy spec\<rparr>,
       och_Persistence = persistence_values (os_Storage spec),
       och_Ord = \<lparr>ord_Type = ''etcdraft'', ord_MspID = os_MspID spec, ord_ServerTLS = True, ord_ClientTLS = False\<rparr>,
       och_Clientcerts = [], och_Hosts = [], och_LoggingSpec = ''info'',
       och_ServiceMonitor = monitor_values (os_ServiceMonitor spec), och_EnvVars = os_Env spec,
       och_ImagePullSecrets = os_ImagePullSecrets spec, och_Proxy = proxy_values True (os_GRPCProxy spec)\<rparr>)"

definition orderer_getConfig ::
  "('w, FabricOrdererNodeResource, fabricOrdChart) node_operator \<Rightarrow> FabricOrdererNodeResource \<Rightarrow> string \<Rightarrow> string
   \<Rightarrow> bool \<Rightarrow> ('w, fabricOrdChart) io" where
  "orderer_getConfig M conf chartName namespace refreshCerts = (case os_Secret (ord_Spec conf) of
       None \<Rightarrow> io_panic ''nil pointer dereference''
     | Some enrollment \<Rightarrow>
         (let P = no_pki M; K = pki_crypto P; tlsParams = enr_TLS enrollment; signParams = enr_Component enrollment in
          io_bind (orderer_tls_material P conf tlsParams chartName namespace refreshCerts) (\<lambda>tls.
          io_bind (orderer_admin_material P conf tlsParams chartName namespace refreshCerts) (\<lambda>admin.
          io_bind (orderer_sign_material P conf signParams chartName namespace refreshCerts) (\<lambda>sign.
          io_bind (io_wrap ''failed to encode tls private key'' (io_lift (EncodePrivateKey K (fst (snd tls))))) (\<lambda>tlsKeyPem.
          io_bind (io_wrap ''failed to encode admin private key'' (io_lift (EncodePrivateKey K (fst (snd admin))))) (\<lambda>adminKeyPem.
          io_bind (io_wrap ''failed to encode sign private key'' (io_lift (EncodePrivateKey K (fst (snd sign))))) (\<lambda>signKeyPem.
          io_bind (io_lift (admin_gateway_values (ord_Spec conf))) (\<lambda>adminGatewayApi.
            io_return (orderer_chart K conf tls admin sign tlsKeyPem adminKeyPem signKeyPem adminGatewayApi))))))))))"

end
