(* ===== verification/Orderer_Controller.thy ===== *)
theory Orderer_Controller imports Orderer_Chart Reconciler begin

text \<open>
  \<open>FabricOrdererNodeReconciler\<close>: the Helm release of an ordering node, its certificates and its status,
  and \<open>FabricOrderingServiceReconciler\<close>, which only reports that it is not supported.  Each definition
  is a stretch of \<open>Reconcile\<close>, in its order.  Metrics and logging have no effect here.
\<close>

type_synonym 'w orderer_operator = "('w, FabricOrdererNodeResource, fabricOrdChart) node_operator"

definition orderer_fail :: "'w orderer_operator \<Rightarrow> FabricOrdererNodeResource \<Rightarrow> go_error \<Rightarrow> ('w, Result) io" where
  "orderer_fail M = report_failure FabricOrdererNode_setConditionStatus
     FabricOrdererNode_updateCRStatusOrFailReconcile (no_client M)"

definition finalizeOrderer :: "'w orderer_operator \<Rightarrow> FabricOrdererNodeResource \<Rightarrow> ('w, unit) io" where
  "finalizeOrderer M m =
     io_bind (newActionCfg M (namespace_or_default (crNamespace m))) (\<lambda>_. uninstall_release M (crName m))"

definition upgradeChartWithWait ::
  "'w orderer_operator \<Rightarrow> string \<Rightarrow> string \<Rightarrow> fabricOrdChart \<Rightarrow> bool \<Rightarrow> int \<Rightarrow> ('w, unit) io" where
  "upgradeChartWithWait M ns releaseName c wait timeout = upgrade_release True M
     \<lparr>ho_Wait = wait, ho_Timeout = timeout, ho_MaxHistory = no_MaxHistory M, ho_Namespace = []\<rparr> ns releaseName c"

section \<open>The state of an ordering node\<close>

record orderer_state =
  ost_Status :: string
  ost_TlsCert :: string
  ost_TlsCACert :: string
  ost_TlsAdminCert :: string
  ost_SignCert :: string
  ost_SignCACert :: string
  ost_NodePort :: int
  ost_AdminPort :: int
  ost_OperationsPort :: int

definition orderer_port :: "service_port \<Rightarrow> orderer_state \<Rightarrow> orderer_state" where
  "orderer_port port r =
     (if sp_Name port = ''grpc'' then r\<lparr>ost_NodePort := sp_NodePort port\<rparr>
      else if sp_Name port = ''admin'' then r\<lparr>ost_AdminPort := sp_NodePort port\<rparr>
      else if sp_Name port = ''operations'' then r\<lparr>ost_OperationsPort := sp_NodePort port\<rparr>
      else r)"

definition orderer_object ::
  "'w kube \<Rightarrow> string \<Rightarrow> string \<Rightarrow> manifest_object \<Rightarrow> orderer_state \<Rightarrow> ('w, orderer_state) io" where
  "orderer_object U ns releaseName object r = (case object of
       DeploymentObject name replicas \<Rightarrow>
         io_bind (deployment_status U ns releaseName name replicas (ost_Status r)) (\<lambda>st. io_return (r\<lparr>ost_Status := st\<rparr>))
     | ServiceObject name \<Rightarrow>
         io_bind (services_Get U ns name) (\<lambda>svc. io_return (fold orderer_port (svc_Ports svc) r))
     | OtherObject _ \<Rightarrow> io_return r)"

definition GetOrdererState :: "'w orderer_operator \<Rightarrow> string \<Rightarrow> string \<Rightarrow> ('w, orderer_state) io" where
  "GetOrdererState M releaseName ns =
     (let U = no_kube M; K = pki_crypto (no_pki M) in
      io_bind (helm_Get (no_helm M) releaseName) (\<lambda>rel.
      io_bind (GetClientKubeWithConf U) (\<lambda>_.
      io_bind (getExistingTLSCrypto K releaseName ns) (\<lambda>(tlsCrt, _, rootTlsCrt).
      io_bind (getExistingTLSAdminCrypto K releaseName ns) (\<lambda>(tlsAdminCrt, _, _, _).
      io_bind (orderer_getExistingSignCrypto K releaseName ns) (\<lambda>(signCrt, _, rootSignCrt).
        io_fold (orderer_object U ns releaseName) (ParseK8sYaml (decode_yaml (no_helm M)) (hr_Manifest rel))
          \<lparr>ost_Status = RunningStatus, ost_TlsCert = pem_of K tlsCrt, ost_TlsCACert = pem_of K rootTlsCrt,
           ost_TlsAdminCert = pem_of K tlsAdminCrt, ost_SignCert = pem_of K signCrt,
           ost_SignCACert = pem_of K rootSignCrt, ost_NodePort = 0, ost_AdminPort = 0, ost_OperationsPort = 0\<rparr>))))))"

section \<open>Updating\<close>

definition orderer_renewal_asked :: "FabricOrdererNodeResource \<Rightarrow> FabricOrdererNodeResource \<Rightarrow> bool" where
  "orderer_renewal_asked p node =
     (case (LastCertificateUpdate node, os_UpdateCertificateTime (ord_Spec p)) of
        (Some renewed, Some t) \<Rightarrow> renewed < t
      | (None, Some _) \<Rightarrow> True
      | (_, None) \<Rightarrow> False)"

definition orderer_renewal_needed ::
  "'w orderer_operator \<Rightarrow> string \<Rightarrow> string \<Rightarrow> FabricOrdererNodeResource \<Rightarrow> FabricOrdererNodeResource \<Rightarrow> ('w, bool) io" where
  "orderer_renewal_needed M releaseName ns p node =
     io_bind (getExistingTLSCrypto (pki_crypto (no_pki M)) releaseName ns) (\<lambda>(tlsCert, _, _).
     io_bind (expires_soon M tlsCert) (\<lambda>soon. io_return (orderer_renewal_asked p node \<or> soon)))"

definition noted :: "string \<Rightarrow> go_error \<Rightarrow> go_error" where
  "noted what err = Wrapped (what @ error_text err) err"

definition orderer_updateCerts ::
  "'w orderer_operator \<Rightarrow> string \<Rightarrow> string \<Rightarrow> FabricOrdererNodeResource
   \<Rightarrow> ('w, FabricOrdererNodeResource \<times> go_error option) io" where
  "orderer_updateCerts M releaseName ns node =
     io_bind (FabricOrdererNode_setConditionStatus (no_client M) node UpdatingCertificates False None False) (\<lambda>(node, _).
     io_try (orderer_getConfig M node releaseName ns True)
       (\<lambda>config. io_try (upgradeChartWithWait M ns releaseName config True (5 * Minute))
          (\<lambda>_. io_return (node, None))
          (\<lambda>err. io_return (node, Some (noted ''Error upgrading the chart: '' err))))
       (\<lambda>err. io_return (node, Some (noted ''Error getting the config: '' err))))"

definition orderer_renew ::
  "'w orderer_operator \<Rightarrow> string \<Rightarrow> string \<Rightarrow> FabricOrdererNodeResource
   \<Rightarrow> (FabricOrdererNodeResource \<Rightarrow> time option \<Rightarrow> int \<Rightarrow> ('w, Result) io) \<Rightarrow> ('w, Result) io" where
  "orderer_renew M releaseName ns p finish =
     io_bind (acquire_renewal_lease (no_kube M) ''orderernode'' ns (crName p)) (\<lambda>acquired.
     if \<not> acquired then io_return (requeue_after (10 * Second))
     else io_bind (mark_held (no_client M) p) (\<lambda>p.
          io_bind (FabricOrdererNode_setConditionStatus (no_client M) p UpdatingCertificates False None False) (\<lambda>(p, _).
          io_bind (orderer_updateCerts M releaseName ns p) (\<lambda>(p, failure). case failure of
              Some err \<Rightarrow> orderer_fail M p err
            | None \<Rightarrow> io_bind (io_total (time_Now (pki_crypto (no_pki M)))) (\<lambda>now.
                finish p (Some (now + Minute * 5)) (Minute * 1))))))"

text \<open>A release that was pending is not upgraded, and looked at again soon.\<close>

definition orderer_upgrade ::
  "'w orderer_operator \<Rightarrow> string \<Rightarrow> string \<Rightarrow> helm_release \<Rightarrow> FabricOrdererNodeResource
   \<Rightarrow> (int \<Rightarrow> ('w, Result) io) \<Rightarrow> ('w, Result) io" where
  "orderer_upgrade M releaseName ns helmStatus p finish =
     (if hr_Status helmStatus \<noteq> StatusPendingUpgrade
      then io_bind (orderer_getConfig M p releaseName ns False) (\<lambda>c.
           attempt (orderer_fail M p) (upgradeChartWithWait M ns releaseName c False (5 * Minute)) (\<lambda>_.
             finish (Minute * 60)))
      else finish (Second * 10))"

definition orderer_status_of :: "FabricOrdererNodeResource \<Rightarrow> (Conditions \<times> string \<times> string \<times> time option)
    \<times> (string \<times> string \<times> string \<times> string \<times> string) \<times> (int \<times> int \<times> int) \<times> bool" where
  "orderer_status_of p = ((crConditions p, crMessage p, crStatus p, LastCertificateUpdate p),
     (SignCert p, TlsCert p, TlsCACert p, SignCACert p, status_TlsAdminCert p),
     (NodePort p, status_AdminPort p, status_OperationsPort p), CertRenewalLeaseHeld p)"

definition orderer_observed ::
  "time \<Rightarrow> orderer_state \<Rightarrow> time option \<Rightarrow> FabricOrdererNodeResource \<Rightarrow> FabricOrdererNodeResource" where
  "orderer_observed now s renewed p =
     fst (put_condition now \<lparr>Type = ost_Status s, Status = ConditionTrue, Reason = [], Message = [], LastTransitionTime = 0\<rparr>
       (p\<lparr>crStatus := ost_Status s, crMessage := [], NodePort := ost_NodePort s, TlsCert := ost_TlsCert s,
          SignCert := ost_SignCert s, SignCACert := ost_SignCACert s, TlsCACert := ost_TlsCACert s,
          status_TlsAdminCert := ost_TlsAdminCert s, status_AdminPort := ost_AdminPort s,
          status_OperationsPort := ost_OperationsPort s, LastCertificateUpdate := renewed\<rparr>))"

definition orderer_requeue :: "string \<Rightarrow> int \<Rightarrow> Result" where
  "orderer_requeue st requeueAfter =
     (if st = PendingStatus then requeue_after (10 * Second)
      else if st = RunningStatus \<or> st = UpdatingCertificates then requeue_after requeueAfter
      else if st = FailedStatus then requeue_after (10 * Second)
      else requeue_after (2 * Second))"

definition orderer_finish ::
  "'w orderer_operator \<Rightarrow> string \<Rightarrow> string \<Rightarrow> time option \<Rightarrow> int \<Rightarrow> FabricOrdererNodeResource \<Rightarrow> ('w, Result) io" where
  "orderer_finish M releaseName ns renewed requeueAfter p =
     io_bind (GetOrdererState M releaseName ns) (\<lambda>s w.
       (let q = orderer_observed (clock_now (no_client M) w) s renewed p in
        if orderer_status_of q \<noteq> orderer_status_of p
        then attempt (orderer_fail M p) (status_update (no_client M) q)
               (\<lambda>_. io_return (orderer_requeue (ost_Status s) requeueAfter)) w
        else io_return (orderer_requeue (ost_Status s) requeueAfter) w))"

definition update_orderer ::
  "'w orderer_operator \<Rightarrow> string \<Rightarrow> string \<Rightarrow> helm_release \<Rightarrow> FabricOrdererNodeResource \<Rightarrow> ('w, Result) io" where
  "update_orderer M releaseName ns helmStatus p =
     attempt (orderer_fail M p) (no_NewForConfig M) (\<lambda>_.
     attempt (orderer_fail M p) (no_Get M ns (crName p)) (\<lambda>node.
     io_bind (orderer_renewal_needed M releaseName ns p node) (\<lambda>needed.
     io_bind (release_if_held (no_client M) (no_kube M) ''orderernode'' ns p) (\<lambda>p.
       if needed
       then orderer_renew M releaseName ns p (\<lambda>p renewed requeueAfter. orderer_finish M releaseName ns renewed requeueAfter p)
       else orderer_upgrade M releaseName ns helmStatus p
              (\<lambda>requeueAfter. orderer_finish M releaseName ns (LastCertificateUpdate node) requeueAfter p)))))"

section \<open>Installing\<close>

text \<open>
  The status set after the installation is overwritten by the resource that is read again; what is
  written back is that resource as it was.
\<close>

definition install_orderer ::
  "'w orderer_operator \<Rightarrow> string \<times> string \<Rightarrow> FabricOrdererNodeResource \<Rightarrow> ('w, Result) io" where
  "install_orderer M req p =
     (let (ns, releaseName) = req; H = no_helm M; spec = ord_Spec p in
      io_bind (io_lift (NameAndChart H [releaseName, ChartPath M])) (\<lambda>(name, chart).
      io_bind (loader_Load H chart) (\<lambda>ch.
      io_bind (orderer_getConfig M p releaseName ns False) (\<lambda>c.
      io_bind (io_lift (chart_values H c)) (\<lambda>inInterface.
      if os_Genesis spec = [] \<and> os_BootstrapMethod spec \<noteq> ''none''
      then io_return (requeue_after (2 * Second))
      else attempt (orderer_fail M p) (helm_Install H
             \<lparr>ho_Wait = no_Wait M, ho_Timeout = no_Timeout M, ho_MaxHistory = 0, ho_Namespace = []\<rparr> name ch inInterface) (\<lambda>_.
           io_bind (client_get (no_client M) req) (\<lambda>p.
           io_bind (status_update (no_client M) p) (\<lambda>_. io_return (requeue_after (10 * Second))))))))))"

section \<open>Reconcile\<close>

definition orderer_with_store :: "FabricOrdererNodeResource \<Rightarrow> FabricOrdererNodeResource" where
  "orderer_with_store p = (if os_CredentialStore (ord_Spec p) = []
     then p\<lparr>ord_Spec := (ord_Spec p)\<lparr>os_CredentialStore := ''kubernetes''\<rparr>\<rparr> else p)"

definition reconcile_orderer ::
  "'w orderer_operator \<Rightarrow> string \<times> string \<Rightarrow> FabricOrdererNodeResource \<Rightarrow> ('w, Result) io" where
  "reconcile_orderer M req p =
     (let (ns, releaseName) = req; p = orderer_with_store p in
      io_bind (find_release (no_helm M) releaseName) (\<lambda>helmStatus.
      io_bind (GetClientKubeWithConf (no_kube M)) (\<lambda>_.
      case helmStatus of
        Some st \<Rightarrow> update_orderer M releaseName ns st p
      | None \<Rightarrow> install_orderer M req p)))"

definition release_orderer :: "'w orderer_operator \<Rightarrow> FabricOrdererNodeResource \<Rightarrow> ('w, Result) io" where
  "release_orderer M p =
     (if Contains (Finalizers p) ordererNodeFinalizer
      then io_bind (finalizeOrderer M p) (\<lambda>_.
        io_bind (client_update (no_client M)
            (p\<lparr>Finalizers := remove_finalizer (no_client M) ordererNodeFinalizer (Finalizers p)\<rparr>)) (\<lambda>_.
          io_return no_requeue))
      else io_return no_requeue)"

definition Reconcile_orderer :: "'w orderer_operator \<Rightarrow> string \<times> string \<Rightarrow> ('w, Result) io" where
  "Reconcile_orderer M req =
     io_bind (newActionCfg M (fst req)) (\<lambda>_.
     io_try (client_get (no_client M) req)
       (\<lambda>p. if DeletionTimestamp p \<noteq> None then release_orderer M p
            else if \<not> Contains (Finalizers p) ordererNodeFinalizer
            then io_bind (FabricOrdererNode_addFinalizer (no_client M) p) (reconcile_orderer M req)
            else reconcile_orderer M req p)
       (\<lambda>err. if isNotFound err then io_return no_requeue else io_throw err))"

section \<open>The ordering service\<close>

text \<open>Its \<open>Reconcile\<close> writes the status of a resource without a name.\<close>

definition empty_service :: custom_resource where
  "empty_service = \<lparr>crName = [], crNamespace = [], Finalizers = [], DeletionTimestamp = None, crConditions = [],
     crMessage = [], crStatus = []\<rparr>"

definition Reconcile_ordering_service :: "('w, custom_resource) client \<Rightarrow> string \<times> string \<Rightarrow> ('w, Result) io" where
  "Reconcile_ordering_service K req = (\<lambda>w.
     io_bind (status_update K (fst (put_condition (clock_now K w)
         \<lparr>Type = ''NOT_SUPPORTED'', Status = ConditionTrue, Reason = [], Message = [], LastTransitionTime = 0\<rparr>
         (empty_service\<lparr>crStatus := PendingStatus\<rparr>)))) (\<lambda>_. io_return no_requeue) w)"

end
