(* ===== verification/Orderer_Correct.thy ===== *)
theory Orderer_Correct imports Orderer_Controller Node_Memory begin

text \<open>
  What the ordering node controller guarantees and what it does not: a renewal keeps the three private
  keys of a node, a node whose administration endpoint alone has a gateway never gets a chart, and an
  upgrade that fails is not tried again.
\<close>

section \<open>Renewals of an ordering node\<close>

interpretation orderer_tls: renewer "orderer_ReenrollTLSCryptoMaterial P conf enrollment" for P conf enrollment
  by unfold_locales (simp add: orderer_ReenrollTLSCryptoMaterial_def reenroll_with_key)

interpretation orderer_sign: renewer "orderer_ReenrollSignCryptoMaterial P conf enrollment" for P conf enrollment
  by unfold_locales (simp add: orderer_ReenrollSignCryptoMaterial_def reenroll_with_key)

lemma admin_keeps_key:
  "orderer_ReenrollTLSAdminCryptoMaterial P conf enrollment pem key w = (Ok (crt, key', root, client), w') \<Longrightarrow> key' = key"
  by (auto simp: orderer_ReenrollTLSAdminCryptoMaterial_def with_client_root_def io_bind_Ok_iff io_return_Ok dest: reenroll_with_key)

lemma renewed_Ok:
  assumes "renew_or_create True a b c existing create renew w = (Ok m, w')"
  obtains m0 v where "existing w = (Ok m0, v)" "renew m0 v = (Ok m, w')"
  using assms by (auto simp: renew_or_create_def io_bind_Ok_iff io_wrap_Ok)

text \<open>A key that is in the secrets, whatever else happens.\<close>

definition stored_key :: "('w, 'm) io \<Rightarrow> ('m \<Rightarrow> ecdsa_key) \<Rightarrow> ecdsa_key \<Rightarrow> bool" where
  "stored_key existing key_of key \<longleftrightarrow> (\<forall>v m v'. existing v = (Ok m, v') \<longrightarrow> key_of m = key)"

lemma orderer_getConfig_keys:
  assumes "orderer_getConfig M conf chartName ns refresh w = (Ok c, w')"
  obtains enrollment tls admin sign w1 w2 w3 where "os_Secret (ord_Spec conf) = Some enrollment"
    "orderer_tls_material (no_pki M) conf (enr_TLS enrollment) chartName ns refresh w = (Ok tls, w1)"
    "orderer_admin_material (no_pki M) conf (enr_TLS enrollment) chartName ns refresh w1 = (Ok admin, w2)"
    "orderer_sign_material (no_pki M) conf (enr_Component enrollment) chartName ns refresh w2 = (Ok sign, w3)"
    "EncodePrivateKey (pki_crypto (no_pki M)) (fst (snd tls)) = Ok (chart_Key (och_TLS c))"
    "EncodePrivateKey (pki_crypto (no_pki M)) (fst (snd admin)) = Ok (admin_Key (och_Admin c))"
    "EncodePrivateKey (pki_crypto (no_pki M)) (fst (snd sign)) = Ok (och_Key c)"
    "admin_gateway_values (ord_Spec conf) = Ok (och_AdminGatewayApi c)"
proof -
  obtain enrollment where enr: "os_Secret (ord_Spec conf) = Some enrollment"
    using assms by (cases "os_Secret (ord_Spec conf)") (simp_all add: orderer_getConfig_def io_simps)
  let ?K = "pki_crypto (no_pki M)"
  from assms enr obtain tls admin sign w1 w2 w3 a b d g where
    m: "orderer_tls_material (no_pki M) conf (enr_TLS enrollment) chartName ns refresh w = (Ok tls, w1)"
    "orderer_admin_material (no_pki M) conf (enr_TLS enrollment) chartName ns refresh w1 = (Ok admin, w2)"
    "orderer_sign_material (no_pki M) conf (enr_Component enrollment) chartName ns refresh w2 = (Ok sign, w3)"
    and keys: "EncodePrivateKey ?K (fst (snd tls)) = Ok a" "EncodePrivateKey ?K (fst (snd admin)) = Ok b"
    "EncodePrivateKey ?K (fst (snd sign)) = Ok d" "admin_gateway_values (ord_Spec conf) = Ok g"
    and c: "c = orderer_chart ?K conf tls admin sign a b d g"
    unfolding orderer_getConfig_def Let_def
    by (auto simp: io_bind_Ok_iff io_wrap_Ok io_lift_Ok io_return_Ok simp del: split_paired_Ex)
  have "chart_Key (och_TLS c) = a" "admin_Key (och_Admin c) = b" "och_Key c = d" "och_AdminGatewayApi c = g"
    by (simp_all add: c orderer_chart_def Let_def split: prod.split)
  with keys show thesis by (intro that [OF enr m]) simp_all
qed

text \<open>
  C14.  A renewal of an ordering node keeps its private keys: whatever the authority answers, a chart that
  is made has the TLS, the administration and the signing key the secrets have; an expired certificate
  is renewed too, and there is no falling back to new keys.
\<close>

theorem orderer_renewal_keeps_keys:
  assumes "os_Secret (ord_Spec conf) = Some enrollment"
    and "comp_External (enr_TLS enrollment) = None" and "comp_External (enr_Component enrollment) = None"
    and "stored_key (getExistingTLSCrypto (pki_crypto (no_pki M)) chartName ns) (fst \<circ> snd) tlsKey"
    and "stored_key (getExistingTLSAdminCrypto (pki_crypto (no_pki M)) chartName ns) (fst \<circ> snd) adminKey"
    and "stored_key (orderer_getExistingSignCrypto (pki_crypto (no_pki M)) chartName ns) (fst \<circ> snd) signKey"
    and "orderer_getConfig M conf chartName ns True w = (Ok c, w')"
  shows "EncodePrivateKey (pki_crypto (no_pki M)) tlsKey = Ok (chart_Key (och_TLS c))
     \<and> EncodePrivateKey (pki_crypto (no_pki M)) adminKey = Ok (admin_Key (och_Admin c))
     \<and> EncodePrivateKey (pki_crypto (no_pki M)) signKey = Ok (och_Key c)"
proof (rule orderer_getConfig_keys [OF assms(7)])
  fix enrollment' tls admin sign w1 w2 w3
  assume enr: "os_Secret (ord_Spec conf) = Some enrollment'"
    and tls: "orderer_tls_material (no_pki M) conf (enr_TLS enrollment') chartName ns True w = (Ok tls, w1)"
    and admin: "orderer_admin_material (no_pki M) conf (enr_TLS enrollment') chartName ns True w1 = (Ok admin, w2)"
    and sign: "orderer_sign_material (no_pki M) conf (enr_Component enrollment') chartName ns True w2 = (Ok sign, w3)"
    and keys: "EncodePrivateKey (pki_crypto (no_pki M)) (fst (snd tls)) = Ok (chart_Key (och_TLS c))"
      "EncodePrivateKey (pki_crypto (no_pki M)) (fst (snd admin)) = Ok (admin_Key (och_Admin c))"
      "EncodePrivateKey (pki_crypto (no_pki M)) (fst (snd sign)) = Ok (och_Key c)"
  have "fst (snd tls) = tlsKey"
    using tls assms(1,2,4) enr by (cases tls) (auto simp: orderer_tls_material_def Let_def stored_key_def elim!: renewed_Ok dest!: orderer_tls.keeps_key, blast)
  moreover have "fst (snd admin) = adminKey"
    using admin assms(1,5) enr by (cases admin) (auto simp: orderer_admin_material_def Let_def stored_key_def elim!: renewed_Ok dest!: admin_keeps_key, blast)
  moreover have "fst (snd sign) = signKey"
    using sign assms(1,3,6) enr by (cases sign) (auto simp: orderer_sign_material_def Let_def stored_key_def elim!: renewed_Ok dest!: orderer_sign.keeps_key, blast)
  ultimately show ?thesis using keys by simp
qed

text \<open>
  A node whose administration endpoint has a route through the gateway API, and whose other endpoint
  has none, never gets a chart: the configuration is computed from the route that is not there.
\<close>

theorem orderer_admin_gateway_panics:
  assumes "os_AdminGatewayApi (ord_Spec conf) = Some g" and "os_GatewayApi (ord_Spec conf) = None"
  shows "orderer_getConfig M conf chartName ns refresh w \<noteq> (Ok c, w')"
proof
  assume "orderer_getConfig M conf chartName ns refresh w = (Ok c, w')"
  then obtain g' where "admin_gateway_values (ord_Spec conf) = Ok g'" by (rule orderer_getConfig_keys)
  then show False using assms by (simp add: admin_gateway_values_def)
qed

text \<open>
  When the upgrade of the chart of an ordering node fails and the failure could be written to its
  status, the node is not looked at again: no time is asked for and no error is returned.
\<close>

theorem orderer_upgrade_failure_not_retried:
  assumes "hr_Status st \<noteq> StatusPendingUpgrade"
    and "orderer_getConfig M p releaseName ns False w = (Ok c, w1)"
    and "upgradeChartWithWait M ns releaseName c False (5 * Minute) w1 = (Err e, w2)"
    and "orderer_upgrade M releaseName ns st p finish w = (Ok r, w')"
  shows "r = no_requeue \<and> \<not> retried (Ok r)"
proof -
  have "orderer_fail M p e w2 = (Ok r, w')" using assms by (simp add: orderer_upgrade_def attempt_Err io_simps)
  then have "r = no_requeue"
    by (auto simp: orderer_fail_def report_failure_def FabricOrdererNode_updateCRStatusOrFailReconcile_def update_no_requeue_def
      io_bind_Ok_iff io_try_Ok io_return_Ok io_throw_Ok)
  then show ?thesis by (simp add: no_requeue_def)
qed

section \<open>Instances\<close>

definition node_o0 :: FabricOrdererNodeResource where
  "node_o0 = \<lparr>crName = ''o0'', crNamespace = ''n'', Finalizers = [], DeletionTimestamp = None, crConditions = [], crMessage = [],
     crStatus = [], LastCertificateUpdate = None, SignCert = [], TlsCert = [], TlsCACert = [], SignCACert = [], NodePort = 0,
     CertRenewalLeaseHeld = False, status_TlsAdminCert = [], status_OperationsPort = 0, status_AdminPort = 0,
     ord_Spec = \<lparr>os_PodAnnotations = Map.empty, os_PodLabels = Map.empty, os_Tolerations = [], os_GRPCProxy = None, os_Affinity = None,
       os_UpdateCertificateTime = None, os_ServiceMonitor = None, os_HostAliases = [], os_NodeSelector = None, os_Resources = K8s [],
       os_Replicas = 1, os_Image = ''orderer'', os_Tag = ''2.5'', os_PullPolicy = [], os_MspID = ''OrdererMSP'', os_ImagePullSecrets = [],
       os_Genesis = [], os_BootstrapMethod = ''none'', os_ChannelParticipationEnabled = True, os_Storage = zero_storage,
       os_ServiceType = ''ClusterIP'', os_NodePortOperations = 0, os_NodePortRequest = 0, os_Secret = Some mem_enrollment,
       os_GatewayApi = None, os_Istio = None, os_Traefik = None, os_AdminGatewayApi = None, os_AdminIstio = None,
       os_AdminTraefik = None, os_Env = [], os_CredentialStore = ''kubernetes''\<rparr>\<rparr>"

abbreviation node_M :: "lease_memory orderer_operator" where "node_M \<equiv> mem_operator node_o0"

lemma node_o0_simps:
  "os_Secret (ord_Spec node_o0) = Some mem_enrollment" "os_CredentialStore (ord_Spec node_o0) = ''kubernetes''"
  "comp_External (enr_TLS mem_enrollment) = None" "comp_External (enr_Component mem_enrollment) = None"
  "comp_Catls (enr_TLS mem_enrollment) = Some \<lparr>Cacert = ''pem'', catls_SecretRef = None\<rparr>"
  "comp_Catls (enr_Component mem_enrollment) = Some \<lparr>Cacert = ''pem'', catls_SecretRef = None\<rparr>"
  "admin_gateway_values (ord_Spec node_o0) = Ok no_gateway"
  by (simp_all add: node_o0_def mem_enrollment_def zero_component_def admin_gateway_values_def Let_def Component.defs TLSComponent.defs)

lemma node_o0_renews:
  "reenroll_with \<lparr>pki_crypto = crypto_two, pki_ca = mem_ca, pki_vault = vault_two\<rparr> ''kubernetes'' enrollment vr
     (io_return req) pem key w =
   (Ok (\<lparr>x509_Raw = ''renewed'', NotAfter = 1000\<rparr>, key, \<lparr>x509_Raw = ''root'', NotAfter = 100\<rparr>), w)"
  by (simp add: reenroll_with_def ReenrollUser_def GetClient_def init_client_def on_ca_def ca_root_def x509_of_def
    ParseX509Certificate_def mem_ca_def crypto_two_def crypto_one_def ca_params_def tls_client_def CredentialStoreVault_def io_simps)

lemma rerequest_one: "comp_Catls enr = Some \<lparr>Cacert = ''pem'', catls_SecretRef = None\<rparr> \<Longrightarrow>
    fabric_ca_rerequest crypto_two enr msp hosts profile = io_return \<lparr>ru_EnrollID = Enrollid enr, ru_TLSCert = ''pem'',
      ru_URL = ca_url enr, ru_Name = Caname enr, ru_MSPID = msp, ru_Hosts = hosts, ru_CN = [], ru_Profile = profile,
      ru_Attributes = []\<rparr>"
  by (rule ext) (simp add: fabric_ca_rerequest_def getCertBytesFromCATLS_def crypto_two_def crypto_one_def io_simps)

lemma node_o0_materials:
  fixes w :: lease_memory
  defines "P \<equiv> \<lparr>pki_crypto = crypto_two, pki_ca = mem_ca, pki_vault = vault_two\<rparr> :: lease_memory pki"
  shows "\<exists>crt root. orderer_tls_material P node_o0 (enr_TLS mem_enrollment) ''o0'' ''n'' True w = (Ok (crt, ECDSAKey ''key'', root), w)"
    "\<exists>crt root client. orderer_admin_material P node_o0 (enr_TLS mem_enrollment) ''o0'' ''n'' True w = (Ok (crt, ECDSAKey ''key'', root, client), w)"
    "\<exists>crt root. orderer_sign_material P node_o0 (enr_Component mem_enrollment) ''o0'' ''n'' True w = (Ok (crt, ECDSAKey ''key'', root), w)"
  by (simp_all add: P_def orderer_tls_material_def orderer_admin_material_def orderer_sign_material_def renew_or_create_def
    orderer_ReenrollTLSCryptoMaterial_def orderer_ReenrollTLSAdminCryptoMaterial_def orderer_ReenrollSignCryptoMaterial_def
    with_client_root_def orderer_getReenrollRequestForFabricCATLS_def orderer_getReenrollRequestForFabricCA_def
    node_o0_simps mem_existing mem_material_def node_o0_renews rerequest_one Let_def io_simps)

lemma node_o0_config: "\<exists>c. orderer_getConfig node_M node_o0 ''o0'' ''n'' True w = (Ok c, w)"
proof -
  let ?P = "\<lparr>pki_crypto = crypto_two, pki_ca = mem_ca, pki_vault = vault_two\<rparr> :: lease_memory pki"
  obtain a b where tls: "orderer_tls_material ?P node_o0 (enr_TLS mem_enrollment) ''o0'' ''n'' True w = (Ok (a, ECDSAKey ''key'', b), w)"
    using node_o0_materials(1) by blast
  obtain c d e where admin: "orderer_admin_material ?P node_o0 (enr_TLS mem_enrollment) ''o0'' ''n'' True w = (Ok (c, ECDSAKey ''key'', d, e), w)"
    using node_o0_materials(2) by blast
  obtain f g where sign: "orderer_sign_material ?P node_o0 (enr_Component mem_enrollment) ''o0'' ''n'' True w = (Ok (f, ECDSAKey ''key'', g), w)"
    using node_o0_materials(3) by blast
  show ?thesis
    by (simp add: orderer_getConfig_def mem_operator_simps node_o0_simps tls admin sign mem_encode Let_def io_simps)
qed

theorem orderer_renewal_keeps_keys_witness:
  "\<exists>c. orderer_getConfig node_M node_o0 ''o0'' ''n'' True no_lease = (Ok c, no_lease)
     \<and> chart_Key (och_TLS c) = ''key'' \<and> admin_Key (och_Admin c) = ''key'' \<and> och_Key c = ''key''"
proof -
  obtain c where c: "orderer_getConfig node_M node_o0 ''o0'' ''n'' True no_lease = (Ok c, no_lease)"
    using node_o0_config by blast
  have "EncodePrivateKey (pki_crypto (no_pki node_M)) (ECDSAKey ''key'') = Ok (chart_Key (och_TLS c))
     \<and> EncodePrivateKey (pki_crypto (no_pki node_M)) (ECDSAKey ''key'') = Ok (admin_Key (och_Admin c))
     \<and> EncodePrivateKey (pki_crypto (no_pki node_M)) (ECDSAKey ''key'') = Ok (och_Key c)"
    by (rule orderer_renewal_keeps_keys [OF node_o0_simps(1,3,4) _ _ _ c])
      (simp_all add: stored_key_def mem_operator_simps mem_existing mem_material_def)
  note keys = this [unfolded mem_operator_simps pki.simps mem_encode res.inject]
  show ?thesis using c keys [THEN conjunct1, symmetric] keys [THEN conjunct2, THEN conjunct1, symmetric]
    keys [THEN conjunct2, THEN conjunct2, symmetric] by blast
qed

definition node_o1 :: FabricOrdererNodeResource where
  "node_o1 = node_o0\<lparr>ord_Spec := (ord_Spec node_o0)\<lparr>os_AdminGatewayApi := Some
     \<lparr>gateway_Port = 443, gateway_Hosts = [''admin''], gateway_GatewayName = ''gw'', gateway_GatewayNamespace = ''n''\<rparr>\<rparr>\<rparr>"

theorem orderer_admin_gateway_panics_witness:
  "\<nexists>c w'. orderer_getConfig node_M node_o1 ''o0'' ''n'' False no_lease = (Ok c, w')"
proof (intro notI, elim exE)
  fix c w'
  have "os_AdminGatewayApi (ord_Spec node_o1) = Some \<lparr>gateway_Port = 443, gateway_Hosts = [''admin''],
      gateway_GatewayName = ''gw'', gateway_GatewayNamespace = ''n''\<rparr>" "os_GatewayApi (ord_Spec node_o1) = None"
    by (simp_all add: node_o1_def node_o0_def)
  note never = orderer_admin_gateway_panics [OF this, of node_M "''o0''" "''n''" False no_lease c w']
  assume "orderer_getConfig node_M node_o1 ''o0'' ''n'' False no_lease = (Ok c, w')"
  with never show False by blast
qed

definition release_o0 :: helm_release where
  "release_o0 = \<lparr>hr_Name = ''o0'', hr_Version = 1, hr_Status = StatusDeployed, hr_Manifest = []\<rparr>"

lemma node_o0_config_kept: "\<exists>c. orderer_getConfig node_M node_o0 ''o0'' ''n'' False w = (Ok c, w)"
  by (simp add: orderer_getConfig_def orderer_tls_material_def orderer_admin_material_def orderer_sign_material_def
    renew_or_create_def mem_operator_simps node_o0_simps mem_existing mem_material_def mem_encode Let_def io_simps)

lemma node_o0_upgrade_fails: "upgradeChartWithWait node_M ''n'' ''o0'' c b d w = (Err (NotFound ''release''), w)"
  by (simp add: upgradeChartWithWait_def upgrade_release_def chart_values_def mem_operator_simps mem_helm_def kube_memory_def
    mem_operator_def io_simps)

lemma node_o0_fails: "orderer_fail node_M node_o0 e w = (Ok no_requeue, w)"
proof -
  have "crStatus node_o0 \<noteq> FailedStatus" by (simp add: node_o0_def FailedStatus_def)
  from set_status_patched [OF this, of "no_client node_M" w "node_o0\<lparr>crStatus := FailedStatus\<rparr>" w]
  show ?thesis
    by (simp add: orderer_fail_def report_failure_def mem_operator_simps FabricOrdererNode_setConditionStatus_def
      FabricOrdererNode_updateCRStatusOrFailReconcile_def update_no_requeue_def setConditionStatus_def mem_client_def
      io_simps split: prod.split)
qed

theorem orderer_upgrade_failure_not_retried_witness:
  "\<exists>r w'. orderer_upgrade node_M ''o0'' ''n'' release_o0 node_o0 (\<lambda>_. io_return no_requeue) no_lease = (Ok r, w') \<and> \<not> retried (Ok r)"
proof -
  obtain c where c: "orderer_getConfig node_M node_o0 ''o0'' ''n'' False no_lease = (Ok c, no_lease)"
    using node_o0_config_kept by blast
  have deployed: "hr_Status release_o0 \<noteq> StatusPendingUpgrade"
    by (simp add: release_o0_def StatusDeployed_def StatusPendingUpgrade_def)
  obtain r w' where r: "orderer_upgrade node_M ''o0'' ''n'' release_o0 node_o0 (\<lambda>_. io_return no_requeue) no_lease = (Ok r, w')"
    using c deployed
    by (auto simp: orderer_upgrade_def node_o0_upgrade_fails attempt_Err node_o0_fails io_simps)
  from orderer_upgrade_failure_not_retried [OF deployed c node_o0_upgrade_fails r] r show ?thesis by blast
qed

end
