(* ===== verification/Net_IP.thy ===== *)
theory Net_IP imports Prelude begin

text \<open>
  \<open>net.ParseIP\<close> of Go's standard library, which tells the addresses among the hosts of a certificate from
  the names.  An address is the list of its sixteen bytes; one of four bytes is kept in its IPv6 form.
\<close>

type_synonym net_IP = "nat list"

section \<open>Digits\<close>

definition dec_value :: "char \<Rightarrow> nat option" where
  "dec_value c = (let n = of_char c in if 48 \<le> n \<and> n \<le> 57 then Some (n - 48) else None)"

definition hex_value :: "char \<Rightarrow> nat option" where
  "hex_value c = (let n = of_char c in
     if 48 \<le> n \<and> n \<le> 57 then Some (n - 48)
     else if 97 \<le> n \<and> n \<le> 102 then Some (n - 87)
     else if 65 \<le> n \<and> n \<le> 70 then Some (n - 55) else None)"

section \<open>Four fields\<close>

text \<open>
  The loop of \<open>parseIPv4Fields\<close>: the fields so far, the value and the number of digits of the current
  one.  A dot after no digit is refused, which covers a leading dot and two in a row; a trailing one is
  refused at the end.
\<close>

fun ipv4_fields :: "nat list \<Rightarrow> nat \<Rightarrow> nat \<Rightarrow> string \<Rightarrow> nat list option" where
  "ipv4_fields fields val digLen [] = (if length fields = 3 \<and> digLen \<noteq> 0 then Some (fields @ [val]) else None)"
| "ipv4_fields fields val digLen (c # s) =
     (case dec_value c of
        Some d \<Rightarrow> (if digLen = 1 \<and> val = 0 \<or> val * 10 + d > 255 then None
          else ipv4_fields fields (val * 10 + d) (digLen + 1) s)
      | None \<Rightarrow> (if c = CHR ''.'' \<and> digLen \<noteq> 0 \<and> length fields < 3
          then ipv4_fields (fields @ [val]) 0 0 s else None))"

definition parseIPv4 :: "string \<Rightarrow> net_IP option" where
  "parseIPv4 s = map_option (\<lambda>fields. replicate 10 0 @ [255, 255] @ fields) (ipv4_fields [] 0 0 s)"

section \<open>Eight groups\<close>

text \<open>One group: at most four hexadecimal digits, and what follows them.\<close>

fun hex_group :: "nat \<Rightarrow> nat \<Rightarrow> string \<Rightarrow> (nat \<times> nat \<times> string) option" where
  "hex_group off acc [] = Some (off, acc, [])"
| "hex_group off acc (c # s) =
     (case hex_value c of
        Some d \<Rightarrow> (if off > 3 then None else hex_group (off + 1) (acc * 16 + d) s)
      | None \<Rightarrow> Some (off, acc, c # s))"

text \<open>
  The loop of \<open>parseIPv6\<close>, on the bytes so far and the place of the ellipsis: eight rounds at most.  The
  result has what is left of the text too.
\<close>

fun ipv6_groups :: "nat \<Rightarrow> net_IP \<Rightarrow> nat option \<Rightarrow> string \<Rightarrow> (net_IP \<times> nat option \<times> string) option" where
  "ipv6_groups 0 ip ellipsis s = Some (ip, ellipsis, s)"
| "ipv6_groups (Suc rounds) ip ellipsis s =
     (case hex_group 0 0 s of
        None \<Rightarrow> None
      | Some (off, acc, rest) \<Rightarrow>
          if off = 0 then None
          else if rest \<noteq> [] \<and> hd rest = CHR ''.'' then
            (if ellipsis = None \<and> length ip \<noteq> 12 \<or> length ip + 4 > 16 then None
             else (case ipv4_fields [] 0 0 s of
                 None \<Rightarrow> None | Some fields \<Rightarrow> Some (ip @ fields, ellipsis, [])))
          else (let ip = ip @ [acc div 256, acc mod 256] in
            case rest of
              [] \<Rightarrow> Some (ip, ellipsis, [])
            | [_] \<Rightarrow> None
            | c # d # more \<Rightarrow>
                if c \<noteq> CHR '':'' then None
                else if d = CHR '':'' then
                  (if ellipsis \<noteq> None then None
                   else if more = [] then Some (ip, Some (length ip), [])
                   else ipv6_groups rounds ip (Some (length ip)) more)
                else ipv6_groups rounds ip ellipsis (d # more)))"

text \<open>The ellipsis stands for at least one group of zeros.\<close>

definition expand_ellipsis :: "net_IP \<times> nat option \<times> string \<Rightarrow> net_IP option" where
  "expand_ellipsis r = (case r of (ip, ellipsis, s) \<Rightarrow>
     if s \<noteq> [] then None
     else (case ellipsis of
         None \<Rightarrow> if length ip = 16 then Some ip else None
       | Some e \<Rightarrow> if length ip < 16 then Some (take e ip @ replicate (16 - length ip) 0 @ drop e ip) else None))"

text \<open>An address with a zone is not an address for \<open>net.ParseIP\<close>.\<close>

definition parseIPv6 :: "string \<Rightarrow> net_IP option" where
  "parseIPv6 s =
     (if CHR ''%'' \<in> set s then None
      else if has_prefix s ''::'' then
        (if length s = 2 then Some (replicate 16 0)
         else Option.bind (ipv6_groups 8 [] (Some 0) (drop 2 s)) expand_ellipsis)
      else Option.bind (ipv6_groups 8 [] None s) expand_ellipsis)"

text \<open>The first dot, colon or percent sign decides.\<close>

definition ParseIP :: "string \<Rightarrow> net_IP option" where
  "ParseIP s = (case find (\<lambda>c. c = CHR ''.'' \<or> c = CHR '':'' \<or> c = CHR ''%'') s of
       None \<Rightarrow> None
     | Some c \<Rightarrow> if c = CHR ''.'' then parseIPv4 s else if c = CHR '':'' then parseIPv6 s else None)"

section \<open>Lemmas\<close>

text \<open>An address has sixteen bytes.\<close>

lemma ipv4_fields_length: "ipv4_fields fields val digLen s = Some out \<Longrightarrow> length out = 4"
  by (induction fields val digLen s rule: ipv4_fields.induct) (auto split: option.splits if_splits)

lemma ipv6_groups_ellipsis:
  "ipv6_groups n ip e s = Some (ip', e', s') \<Longrightarrow> (\<forall>i. e = Some i \<longrightarrow> i \<le> length ip) \<Longrightarrow>
     \<forall>i. e' = Some i \<longrightarrow> i \<le> length ip'"
proof (induction n ip e s rule: ipv6_groups.induct)
  case (2 rounds ip e s)
  then show ?case
    by (fastforce simp: Let_def dest: ipv4_fields_length split: option.splits if_splits list.splits prod.splits)
qed auto

lemma expand_ellipsis_length:
  "expand_ellipsis (ip, e, s) = Some out \<Longrightarrow> (\<forall>i. e = Some i \<longrightarrow> i \<le> length ip) \<Longrightarrow> length out = 16"
  by (auto simp: expand_ellipsis_def split: if_splits option.splits)

theorem ParseIP_length: "ParseIP s = Some ip \<Longrightarrow> length ip = 16"
proof -
  have "length out = 16" if "Option.bind (ipv6_groups 8 [] e t) expand_ellipsis = Some out" "e = None \<or> e = Some 0" for e t out
  proof -
    from that(1) obtain ip' e' s' where g: "ipv6_groups 8 [] e t = Some (ip', e', s')" "expand_ellipsis (ip', e', s') = Some out"
      by (auto simp: bind_eq_Some_conv)
    moreover have "\<forall>i. e = Some i \<longrightarrow> i \<le> length ([] :: nat list)" using that(2) by auto
    ultimately have "\<forall>i. e' = Some i \<longrightarrow> i \<le> length ip'" using ipv6_groups_ellipsis [OF g(1)] by simp
    then show ?thesis using expand_ellipsis_length [OF g(2)] by simp
  qed
  then show "ParseIP s = Some ip \<Longrightarrow> length ip = 16"
    by (auto simp: ParseIP_def parseIPv4_def parseIPv6_def dest: ipv4_fields_length split: option.splits if_splits)
qed

lemmas ipv6_groups_numeral = ipv6_groups.simps(2) [of "pred_numeral k" for k, folded numeral_eq_Suc]

lemmas ParseIP_simps = ParseIP_def parseIPv4_def parseIPv6_def has_prefix_def dec_value_def hex_value_def
    expand_ellipsis_def ipv6_groups_numeral

lemma ParseIP_examples:
  "ParseIP ''127.0.0.1'' = Some (replicate 10 0 @ [255, 255, 127, 0, 0, 1])"
  "ParseIP ''::1'' = Some (replicate 14 0 @ [0, 1])"
  "ParseIP ''::ffff:10.0.0.1'' = Some (replicate 10 0 @ [255, 255, 10, 0, 0, 1])"
  "ParseIP ''ca.example.com'' = None" "ParseIP ''localhost'' = None" "ParseIP ''10.0.0.01'' = None"
  "ParseIP ''10.0.0.256'' = None" "ParseIP ''1.2.3'' = None" "ParseIP ''::1%eth0'' = None" "ParseIP [] = None"
  by (simp_all add: ParseIP_simps)

end
