(* ===== verification/CA_Chart.thy ===== *)
theory CA_Chart imports Node_Chart Net_IP begin

text \<open>
  The certificate authority: its resource, the certificates it gets and the values of its chart
  (\<open>GetConfig\<close> and what it calls in \<open>controllers/ca/ca_controller.go\<close>, \<open>controllers/ca/types.go\<close>).  The
  cryptography is a parameter, as for the nodes.  Of a parsed certificate the controller also reads the
  names and addresses it is for, by \<open>cert_DNSNames\<close> and \<open>cert_IPAddresses\<close>.
\<close>

section \<open>The resource\<close>

record CorsSpec =
  cors_Enabled :: bool
  cors_Origins :: "string list"

record FabricCADatabase =
  cadb_Type :: string
  cadb_Datasource :: string

text \<open>The request for the PKI engine that this section may hold is never read.\<close>

record FabricCAVaultSpec =
  cav_Vault :: VaultSpecConf

record FabricCACFG =
  cfg_Identities_AllowRemove :: bool
  cfg_Affiliations_AllowRemove :: bool

record FabricCAMetricsStatsd =
  statsd_Network :: string
  statsd_Address :: string
  statsd_WriteInterval :: string
  statsd_Prefix :: string

record FabricCAMetrics =
  metrics_Provider :: string
  metrics_Statsd :: "FabricCAMetricsStatsd option"

record FabricCASigningDefault =
  sd_Expiry :: string
  sd_Usage :: "string list"

record FabricCASigningSignProfile =
  sp_Usage :: "string list"
  sp_Expiry :: string
  constraint_IsCA :: bool
  constraint_MaxPathLen :: int

record FabricCASigningTLSProfile =
  tp_Usage :: "string list"
  tp_Expiry :: string

record FabricCASigning =
  signing_Default :: FabricCASigningDefault
  profiles_CA :: FabricCASigningSignProfile
  profiles_TLS :: FabricCASigningTLSProfile

record FabricCAAffiliation =
  aff_Name :: string
  aff_Departments :: "string list"

record FabricCACrypto =
  crypto_Key :: string
  crypto_SecretRef :: "string option"
  crypto_Cert :: string
  crypto_Chain :: string

record FabricCABCCSP =
  bccsp_Default :: string
  bccsp_Hash :: string
  bccsp_Security :: string

record FabricCAIntermediate =
  parent_URL :: string
  parent_CAName :: string

record FabricCAIdentityAttrs =
  RegistrarRoles :: string
  DelegateRoles :: string
  attrs_Attributes :: string
  Revoker :: bool
  IntermediateCA :: bool
  GenCRL :: bool
  AffiliationMgr :: bool

record FabricCAIdentity =
  ident_Name :: string
  ident_Pass :: string
  ident_Type :: string
  ident_Affiliation :: string
  ident_Attrs :: FabricCAIdentityAttrs

record FabricCARegistry =
  registry_MaxEnrollments :: int
  registry_Identities :: "FabricCAIdentity list"

record FabricCANames =
  names_C :: string
  names_ST :: string
  names_O :: string
  names_L :: string
  names_OU :: string

record FabricCACSR =
  cacsr_CN :: string
  cacsr_Hosts :: "string list"
  cacsr_Names :: "FabricCANames list"
  cacsr_Expiry :: string
  cacsr_PathLength :: int

text \<open>Structs with one field are that field: the expiry of a revocation list, the name of a secret.\<close>

record FabricCAItemConf =
  conf_Name :: string
  conf_CFG :: FabricCACFG
  conf_Subject :: FabricCASubject
  conf_CSR :: FabricCACSR
  conf_Signing :: "FabricCASigning option"
  conf_CRL :: string
  conf_Registry :: FabricCARegistry
  conf_Intermediate :: FabricCAIntermediate
  conf_BCCSP :: FabricCABCCSP
  conf_Affiliations :: "FabricCAAffiliation list"
  conf_CA :: "FabricCACrypto option"

record FabricCASpec =
  cas_PodAnnotations :: "string \<rightharpoonup> string"
  cas_PodLabels :: "string \<rightharpoonup> string"
  cas_Affinity :: "k8s_object option"
  cas_Tolerations :: "k8s_object list"
  cas_ImagePullSecrets :: "k8s_object list"
  cas_NodeSelector :: "k8s_object option"
  cas_ServiceMonitor :: "ServiceMonitorSpec option"
  cas_GatewayApi :: "FabricGatewayApiSpec option"
  cas_Istio :: "FabricIstioSpec option"
  cas_Traefik :: "FabricTraefikSpec option"
  cas_Database :: FabricCADatabase
  cas_Hosts :: "string list"
  cas_ServiceType :: string
  cas_Image :: string
  cas_Version :: string
  cas_Debug :: bool
  cas_CLRSizeLimit :: int
  cas_TLS :: FabricCASubject
  cas_CA :: FabricCAItemConf
  cas_TLSCA :: FabricCAItemConf
  cas_Cors :: CorsSpec
  cas_Resources :: k8s_object
  cas_Storage :: StorageSpec
  cas_Metrics :: FabricCAMetrics
  cas_CredentialStore :: string
  cas_Vault :: "FabricCAVaultSpec option"
  cas_Env :: "k8s_object list"
  cas_Replicas :: "int option"

record FabricCAResource = custom_resource +
  castatus_NodePort :: int
  castatus_TlsCert :: string
  castatus_CACert :: string
  castatus_TLSCACert :: string
  ca_Spec :: FabricCASpec

section \<open>Certificates of an authority\<close>

record ca_certificate_template = certificate_template +
  DNSNames :: "string list"
  IPAddresses :: "net_IP list"
  SubjectKeyId :: string

record 'w x509_lib =
  cert_DNSNames :: "x509_certificate \<Rightarrow> string list"
  cert_IPAddresses :: "x509_certificate \<Rightarrow> net_IP list"
  x509_CreateCertificate :: "ca_certificate_template \<Rightarrow> ecdsa_key \<Rightarrow> ('w, string) io"
  elliptic_Marshal :: "ecdsa_key \<Rightarrow> string"
  Sum256 :: "string \<Rightarrow> string"

text \<open>The services an authority's certificates come from: those of the nodes and \<open>crypto/x509\<close>.\<close>

record 'w ca_services =
  svc_pki :: "'w pki"
  svc_x509 :: "'w x509_lib"

subsection \<open>What it has\<close>

text \<open>The controller's own parsers: both panic on a text without a PEM block.\<close>

definition ca_parseECDSAPrivateKey :: "'w crypto \<Rightarrow> string \<Rightarrow> ecdsa_key res" where
  "ca_parseECDSAPrivateKey K contents = (case decode_pem K contents of
       None \<Rightarrow> Panic ''nil pointer dereference''
     | Some der \<Rightarrow> res_bind (ParsePKCS8PrivateKey K der) (\<lambda>(key, is_ecdsa).
         if is_ecdsa then Ok key else Err (ErrorString ''private key is not of ECDSA type'')))"

definition ca_parseX509Certificate :: "'w crypto \<Rightarrow> string \<Rightarrow> x509_certificate res" where
  "ca_parseX509Certificate K contents = (case decode_pem K contents of
       None \<Rightarrow> Panic ''nil pointer dereference'' | Some der \<Rightarrow> ParseCertificate K der)"

type_synonym key_pair = "x509_certificate \<times> ecdsa_key"

definition pair_of :: "'w crypto \<Rightarrow> string \<Rightarrow> string \<Rightarrow> (string \<rightharpoonup> string) \<Rightarrow> key_pair res" where
  "pair_of K keyName certName secret =
     res_bind (ca_parseECDSAPrivateKey K (secret_value secret keyName)) (\<lambda>key.
     res_bind (ca_parseX509Certificate K (secret_value secret certName)) (\<lambda>crt. Ok (crt, key)))"

definition pair_in ::
  "'w crypto \<Rightarrow> string \<Rightarrow> string \<Rightarrow> string \<Rightarrow> string \<Rightarrow> ('w, key_pair) io" where
  "pair_in K keyName certName secretName namespace =
     io_bind (secrets_of K namespace secretName) (\<lambda>secret. io_lift (pair_of K keyName certName secret))"

definition ca_getExistingTLSCrypto :: "'w crypto \<Rightarrow> string \<Rightarrow> string \<Rightarrow> ('w, key_pair) io" where
  "ca_getExistingTLSCrypto K chartName = pair_in K ''tls.key'' ''tls.crt'' (chartName @ ''--tls-cryptomaterial'')"

definition getAlreadyExistingCrypto :: "'w crypto \<Rightarrow> string \<Rightarrow> string \<Rightarrow> ('w, key_pair) io" where
  "getAlreadyExistingCrypto K = pair_in K ''keyfile'' ''certfile''"

definition ca_getExistingSignCrypto :: "'w crypto \<Rightarrow> string \<Rightarrow> string \<Rightarrow> ('w, key_pair) io" where
  "ca_getExistingSignCrypto K chartName = pair_in K ''keyfile'' ''certfile'' (chartName @ ''--msp-cryptomaterial'')"

definition getExistingSignTLSCrypto :: "'w crypto \<Rightarrow> string \<Rightarrow> string \<Rightarrow> ('w, key_pair) io" where
  "getExistingSignTLSCrypto K chartName = pair_in K ''keyfile'' ''certfile'' (chartName @ ''--msp-tls-cryptomaterial'')"

subsection \<open>Names and addresses\<close>

definition getDNSNames :: "FabricCASpec \<Rightarrow> string list" where
  "getDNSNames spect = filter (\<lambda>host. ParseIP host = None) (cas_Hosts spect)"

definition loopback :: net_IP where
  "loopback = replicate 10 0 @ [255, 255, 127, 0, 0, 1]"

definition getIPAddresses :: "FabricCASpec \<Rightarrow> net_IP list" where
  "getIPAddresses spect = loopback # List.map_filter ParseIP (cas_Hosts spect)"

definition computeSKI :: "'w x509_lib \<Rightarrow> ecdsa_key \<Rightarrow> string" where
  "computeSKI X privKey = Sum256 X (elliptic_Marshal X privKey)"

text \<open>
  The code sorts the names and the addresses of the certificate and those of the specification and then
  compares the names only; the addresses appear in the log.  A slice without names is nil on both sides.
\<close>

definition doesCertNeedsToBeRenewed :: "'w x509_lib \<Rightarrow> x509_certificate \<Rightarrow> FabricCAResource \<Rightarrow> bool" where
  "doesCertNeedsToBeRenewed X tlsCert conf =
     (let tlsCertDNSNames = sort (cert_DNSNames X tlsCert);
          expectedDNSNames = sort (getDNSNames (ca_Spec conf))
      in tlsCertDNSNames \<noteq> expectedDNSNames)"

subsection \<open>New certificates\<close>

text \<open>The code never sets the common name of a TLS certificate.\<close>

definition tls_template ::
  "'w vault_lib \<Rightarrow> FabricCASpec \<Rightarrow> int \<Rightarrow> time \<Rightarrow> time \<Rightarrow> string list \<Rightarrow> string list \<Rightarrow> string \<Rightarrow> ca_certificate_template" where
  "tls_template V spec serialNumber before after usage ext ski =
     \<lparr>SerialNumber = serialNumber, template_Subject = (cas_TLS spec)\<lparr>subject_CN := []\<rparr>,
      NotBefore = AddDate V 0 0 (-1) before, template_NotAfter = AddDate V 10 0 0 after,
      KeyUsage = usage, ExtKeyUsage = ext, BasicConstraintsValid = True, IsCA = True,
      DNSNames = getDNSNames spec, IPAddresses = getIPAddresses spec, SubjectKeyId = ski\<rparr>"

text \<open>\<open>log.Fatalf\<close> ends the process.\<close>

definition or_exit :: "('w, 'a) io \<Rightarrow> ('w, 'a) io" where
  "or_exit m = io_catch m (\<lambda>_. io_panic ''exit status 1'')"

definition CreateDefaultTLSCert :: "'w ca_services \<Rightarrow> FabricCASpec \<Rightarrow> ('w, key_pair) io" where
  "CreateDefaultTLSCert S spec =
     (let K = pki_crypto (svc_pki S); V = pki_vault (svc_pki S); X = svc_x509 S in
      io_bind (or_exit (rand_Serial V)) (\<lambda>serialNumber.
      io_bind (GenerateKey V) (\<lambda>caPrivKey.
      io_bind (io_total (time_Now K)) (\<lambda>before. io_bind (io_total (time_Now K)) (\<lambda>after.
      io_bind (x509_CreateCertificate X (tls_template V spec serialNumber before after
          [''KeyEncipherment'', ''DigitalSignature'', ''CertSign'', ''CRLSign''] [''ClientAuth'', ''ServerAuth'']
          (computeSKI X caPrivKey)) caPrivKey) (\<lambda>caBytes.
      io_bind (io_lift (ParseCertificate K caBytes)) (\<lambda>crt. io_return (crt, caPrivKey))))))))"

text \<open>With a Vault the pair is also written there, under the organization of the subject.\<close>

definition CreateDefaultTLSWithVault :: "'w ca_services \<Rightarrow> FabricCASpec \<Rightarrow> ('w, key_pair) io" where
  "CreateDefaultTLSWithVault S spec =
     (let K = pki_crypto (svc_pki S); V = pki_vault (svc_pki S); X = svc_x509 S in
      case cas_Vault spec of None \<Rightarrow> io_panic ''nil pointer dereference'' | Some vault \<Rightarrow>
      io_bind (io_wrap ''failed to get Vault client'' (vault_GetClient K V (cav_Vault vault))) (\<lambda>vaultClient.
      io_bind (io_wrap ''failed to generate private key'' (GenerateKey V)) (\<lambda>caPrivKey.
      io_bind (io_wrap ''failed to marshal private key'' (io_lift (MarshalPKCS8PrivateKey K caPrivKey))) (\<lambda>privKeyBytes.
      io_bind (io_wrap ''failed to generate serial number'' (rand_Serial V)) (\<lambda>serialNumber.
      io_bind (io_total (time_Now K)) (\<lambda>before. io_bind (io_total (time_Now K)) (\<lambda>after.
      io_bind (io_wrap ''failed to create certificate'' (x509_CreateCertificate X
          (tls_template V spec serialNumber before after
            [''KeyEncipherment'', ''DigitalSignature'', ''CertSign''] [''ServerAuth'', ''ClientAuth''] []) caPrivKey)) (\<lambda>certBytes.
      io_bind (io_wrap ''failed to store CA in Vault'' (KvV2Write V vaultClient
          (''secret/data/hlf-ca/'' @ subject_O (cas_TLS spec) @ ''/tls'')
          [''certificate'' \<mapsto> VString (encode_pem K (''CERTIFICATE'', certBytes)),
           ''private_key'' \<mapsto> VString (encode_pem K (''PRIVATE KEY'', privKeyBytes))])) (\<lambda>_.
      io_bind (io_wrap ''failed to parse certificate'' (io_lift (ParseCertificate K certBytes))) (\<lambda>crt.
        io_return (crt, caPrivKey)))))))))))"

definition sign_template ::
  "'w vault_lib \<Rightarrow> 'w x509_lib \<Rightarrow> FabricCASubject \<Rightarrow> int \<Rightarrow> time \<Rightarrow> time \<Rightarrow> ecdsa_key \<Rightarrow> ca_certificate_template" where
  "sign_template V X subject serialNumber before after caPrivKey =
     \<lparr>SerialNumber = serialNumber, template_Subject = subject,
      NotBefore = AddDate V 0 0 (-1) before, template_NotAfter = AddDate V 10 0 0 after,
      KeyUsage = [''DigitalSignature'', ''CertSign'', ''CRLSign'', ''KeyEncipherment''],
      ExtKeyUsage = [''ClientAuth'', ''ServerAuth''], BasicConstraintsValid = True, IsCA = True,
      DNSNames = [], IPAddresses = [], SubjectKeyId = computeSKI X caPrivKey\<rparr>"

definition CreateDefaultCA :: "'w ca_services \<Rightarrow> FabricCAItemConf \<Rightarrow> ('w, key_pair) io" where
  "CreateDefaultCA S conf =
     (let K = pki_crypto (svc_pki S); V = pki_vault (svc_pki S); X = svc_x509 S in
      io_bind (or_exit (rand_Serial V)) (\<lambda>serialNumber.
      io_bind (GenerateKey V) (\<lambda>caPrivKey.
      io_bind (io_total (time_Now K)) (\<lambda>before. io_bind (io_total (time_Now K)) (\<lambda>after.
      io_bind (x509_CreateCertificate X (sign_template V X (conf_Subject conf) serialNumber before after caPrivKey)
          caPrivKey) (\<lambda>caBytes.
      io_bind (io_lift (ParseCertificate K caBytes)) (\<lambda>crt. io_return (crt, caPrivKey))))))))"

definition ca_CreateDefaultCAWithVault ::
  "'w ca_services \<Rightarrow> FabricCAResource \<Rightarrow> FabricCAItemConf \<Rightarrow> string \<Rightarrow> ('w, key_pair) io" where
  "ca_CreateDefaultCAWithVault S fabricCA conf caType =
     (let K = pki_crypto (svc_pki S); V = pki_vault (svc_pki S) in
      case cas_Vault (ca_Spec fabricCA) of None \<Rightarrow> io_panic ''nil pointer dereference'' | Some vault \<Rightarrow>
      io_bind (vault_GetClient K V (cav_Vault vault)) (\<lambda>vaultClient.
        CreateCA K V \<lparr>cc_CAName = crName fabricCA @ ''-'' @ caType @ ''-ca'', cc_Subject = conf_Subject conf, cc_Serial = None\<rparr>
          vaultClient))"

definition CredentialStoreKubernetes :: string where "CredentialStoreKubernetes = ''kubernetes''"

definition on_store :: "string \<Rightarrow> ('w, 'a) io \<Rightarrow> ('w, 'a) io \<Rightarrow> ('w, 'a) io" where
  "on_store kind kubernetes vault =
     (if kind = CredentialStoreKubernetes then kubernetes
      else if kind = CredentialStoreVault then vault
      else io_throw (ErrorString (''invalid credential store '' @ kind)))"

definition CreateDefaultCACommon ::
  "'w ca_services \<Rightarrow> FabricCAResource \<Rightarrow> FabricCAItemConf \<Rightarrow> string \<Rightarrow> ('w, key_pair) io" where
  "CreateDefaultCACommon S fabricCA conf caType =
     on_store (cas_CredentialStore (ca_Spec fabricCA)) (CreateDefaultCA S conf)
       (ca_CreateDefaultCAWithVault S fabricCA conf caType)"

definition CreateDefaultTLSCertCommon :: "'w ca_services \<Rightarrow> FabricCAResource \<Rightarrow> ('w, key_pair) io" where
  "CreateDefaultTLSCertCommon S fabricCA =
     on_store (cas_CredentialStore (ca_Spec fabricCA)) (CreateDefaultTLSCert S (ca_Spec fabricCA))
       (CreateDefaultTLSWithVault S (ca_Spec fabricCA))"

definition parseCrypto :: "'w crypto \<Rightarrow> string \<Rightarrow> string \<Rightarrow> key_pair res" where
  "parseCrypto K key cert =
     res_bind (base64_Decode K key) (\<lambda>keyBytes.
     res_bind (ecdsa_of K keyBytes) (\<lambda>pk.
     res_bind (base64_Decode K cert) (\<lambda>certBytes.
     res_bind (x509_of K certBytes) (\<lambda>x509Cert. Ok (x509Cert, pk)))))"

section \<open>Which certificates the chart gets\<close>

text \<open>Any error of reading the TLS pair, not only its absence, leads to a new one.\<close>

definition ca_tls_material ::
  "'w ca_services \<Rightarrow> FabricCAResource \<Rightarrow> string \<Rightarrow> string \<Rightarrow> ('w, key_pair) io" where
  "ca_tls_material S conf chartName namespace =
     io_try (ca_getExistingTLSCrypto (pki_crypto (svc_pki S)) chartName namespace)
       (\<lambda>(tlsCert, tlsKey). if doesCertNeedsToBeRenewed (svc_x509 S) tlsCert conf
          then CreateDefaultTLSCertCommon S conf else io_return (tlsCert, tlsKey))
       (\<lambda>_. CreateDefaultTLSCertCommon S conf)"

text \<open>What the specification gives of an authority: the name of a secret, or a pair.\<close>

definition given_ref :: "FabricCAItemConf \<Rightarrow> string option" where
  "given_ref item = (case conf_CA item of
       None \<Rightarrow> None
     | Some given \<Rightarrow> (case crypto_SecretRef given of
           None \<Rightarrow> None | Some name \<Rightarrow> if name \<noteq> [] then Some name else None))"

definition given_pair :: "FabricCAItemConf \<Rightarrow> (string \<times> string) option" where
  "given_pair item = (case conf_CA item of
       None \<Rightarrow> None
     | Some given \<Rightarrow> if crypto_Key given \<noteq> [] \<and> crypto_Cert given \<noteq> []
         then Some (crypto_Key given, crypto_Cert given) else None)"

text \<open>
  The pair of an authority: the one there is; else a reference to a secret, or the pair of the
  specification, or a new one.
\<close>

definition authority_material ::
  "'w ca_services \<Rightarrow> FabricCAResource \<Rightarrow> FabricCAItemConf \<Rightarrow> string \<Rightarrow> ('w, key_pair) io
   \<Rightarrow> ('w, string option \<times> key_pair option) io" where
  "authority_material S conf item caType existing =
     io_try existing (\<lambda>m. io_return (None, Some m))
       (\<lambda>_. case given_ref item of
            Some name \<Rightarrow> io_return (Some name, None)
          | None \<Rightarrow> io_bind
              (case given_pair item of
                 Some (key, cert) \<Rightarrow> io_lift (parseCrypto (pki_crypto (svc_pki S)) key cert)
               | None \<Rightarrow> CreateDefaultCACommon S conf item caType)
              (\<lambda>m. io_return (None, Some m)))"

section \<open>The chart\<close>

record FabricCAChartMetrics =
  chm_Provider :: string
  chm_Statsd :: FabricCAMetricsStatsd

record Msp =
  CARef :: "string option"
  TLSCARef :: "string option"
  Keyfile :: string
  Certfile :: string
  Chainfile :: string
  TLSCAKeyfile :: string
  TLSCACertfile :: string
  TLSCAChainfile :: string
  TlsKeyFile :: string
  TlsCertFile :: string

record FabricCAChartItemConf =
  chi_Name :: string
  chi_CFG :: FabricCACFG
  chi_CSR :: FabricCACSR
  chi_CRL :: string
  chi_Registry :: FabricCARegistry
  chi_Signing :: FabricCASigning
  chi_Intermediate :: FabricCAIntermediate
  chi_BCCSP :: FabricCABCCSP
  chi_Affiliations :: "FabricCAAffiliation list"

text \<open>The route of an authority has no gateway name; its volume has annotations.\<close>

record CAIstio =
  caistio_Port :: int
  caistio_Hosts :: "string list"

record CAPersistence = Persistence +
  Persistence_Annotations :: "string \<rightharpoonup> string"

record ca_chart_service =
  casvc_Type :: string
  casvc_Port :: int

record FabricCAChart =
  cach_PodLabels :: "string \<rightharpoonup> string"
  cach_PodAnnotations :: "string \<rightharpoonup> string"
  cach_Istio :: CAIstio
  cach_Traefik :: Traefik
  cach_GatewayApi :: GatewayApi
  cach_FullNameOverride :: string
  cach_Image :: chart_image
  cach_Service :: ca_chart_service
  cach_Persistence :: CAPersistence
  cach_Msp :: Msp
  cach_Database :: FabricCADatabase
  cach_Resources :: k8s_object
  cach_NodeSelector :: "k8s_object option"
  cach_Tolerations :: "k8s_object list"
  cach_Affinity :: "k8s_object option"
  cach_Metrics :: FabricCAChartMetrics
  cach_Debug :: bool
  cach_CLRSizeLimit :: int
  cach_Ca :: FabricCAChartItemConf
  cach_TLSCA :: FabricCAChartItemConf
  cach_Cors :: CorsSpec
  cach_ServiceMonitor :: ServiceMonitor
  cach_EnvVars :: "k8s_object list"
  cach_ImagePullSecrets :: "k8s_object list"
  cach_Replicas :: int

section \<open>Filling it\<close>

definition default_signing :: FabricCASigning where
  "default_signing =
     \<lparr>signing_Default = \<lparr>sd_Expiry = ''8760h'', sd_Usage = [''digital signature'']\<rparr>,
      profiles_CA = \<lparr>sp_Usage = [''cert sign'', ''crl sign''], sp_Expiry = ''43800h'', constraint_IsCA = True,
        constraint_MaxPathLen = 0\<rparr>,
      profiles_TLS = \<lparr>tp_Usage = [''signing'', ''key encipherment'', ''server auth'', ''client auth'', ''key agreement''],
        tp_Expiry = ''8760h''\<rparr>\<rparr>"

definition chart_identity :: "FabricCAIdentity \<Rightarrow> FabricCAIdentity" where
  "chart_identity i = (let a = ident_Attrs i in
     \<lparr>ident_Name = ident_Name i, ident_Pass = ident_Pass i, ident_Type = ident_Type i,
      ident_Affiliation = ident_Affiliation i,
      ident_Attrs = \<lparr>RegistrarRoles = RegistrarRoles a, DelegateRoles = DelegateRoles a,
        attrs_Attributes = attrs_Attributes a, Revoker = Revoker a, IntermediateCA = IntermediateCA a,
        GenCRL = GenCRL a, AffiliationMgr = AffiliationMgr a\<rparr>\<rparr>)"

definition chart_names :: "FabricCANames \<Rightarrow> FabricCANames" where
  "chart_names n = \<lparr>names_C = names_C n, names_ST = names_ST n, names_O = names_O n, names_L = names_L n,
     names_OU = names_OU n\<rparr>"

definition chart_signing :: "FabricCASigning option \<Rightarrow> FabricCASigning" where
  "chart_signing signing = (case signing of
       None \<Rightarrow> default_signing
     | Some g \<Rightarrow> (let d = signing_Default g; ca = profiles_CA g; tls = profiles_TLS g in
         \<lparr>signing_Default = \<lparr>sd_Expiry = sd_Expiry d, sd_Usage = sd_Usage d\<rparr>,
          profiles_CA = \<lparr>sp_Usage = sp_Usage ca, sp_Expiry = sp_Expiry ca, constraint_IsCA = constraint_IsCA ca,
            constraint_MaxPathLen = constraint_MaxPathLen ca\<rparr>,
          profiles_TLS = \<lparr>tp_Usage = tp_Usage tls, tp_Expiry = tp_Expiry tls\<rparr>\<rparr>))"

definition mapCRDItemConfToChart :: "FabricCAItemConf \<Rightarrow> FabricCAChartItemConf" where
  "mapCRDItemConfToChart conf =
     (let cfg = conf_CFG conf; csr = conf_CSR conf; registry = conf_Registry conf;
          parent = conf_Intermediate conf; bccsp = conf_BCCSP conf in
      \<lparr>chi_Name = conf_Name conf,
       chi_CFG = \<lparr>cfg_Identities_AllowRemove = cfg_Identities_AllowRemove cfg,
         cfg_Affiliations_AllowRemove = cfg_Affiliations_AllowRemove cfg\<rparr>,
       chi_CSR = \<lparr>cacsr_CN = cacsr_CN csr, cacsr_Hosts = cacsr_Hosts csr, cacsr_Names = map chart_names (cacsr_Names csr),
         cacsr_Expiry = cacsr_Expiry csr, cacsr_PathLength = cacsr_PathLength csr\<rparr>,
       chi_CRL = conf_CRL conf,
       chi_Registry = \<lparr>registry_MaxEnrollments = registry_MaxEnrollments registry,
         registry_Identities = map chart_identity (registry_Identities registry)\<rparr>,
       chi_Signing = chart_signing (conf_Signing conf),
       chi_Intermediate = \<lparr>parent_URL = parent_URL parent, parent_CAName = parent_CAName parent\<rparr>,
       chi_BCCSP = \<lparr>bccsp_Default = bccsp_Default bccsp, bccsp_Hash = bccsp_Hash bccsp, bccsp_Security = bccsp_Security bccsp\<rparr>,
       chi_Affiliations = map (\<lambda>a. \<lparr>aff_Name = aff_Name a, aff_Departments = aff_Departments a\<rparr>) (conf_Affiliations conf)\<rparr>)"

definition ca_istio_values :: "FabricIstioSpec option \<Rightarrow> CAIstio" where
  "ca_istio_values spec =
     (let istioPort = (case spec of Some i \<Rightarrow> if istio_Port i \<noteq> 0 then istio_Port i else 443 | None \<Rightarrow> 443);
          istioHosts = (case spec of Some i \<Rightarrow> if length (istio_Hosts i) > 0 then istio_Hosts i else [] | None \<Rightarrow> [])
      in \<lparr>caistio_Port = istioPort, caistio_Hosts = istioHosts\<rparr>)"

definition ca_gateway_values :: "FabricGatewayApiSpec option \<Rightarrow> GatewayApi" where
  "ca_gateway_values spec = (case spec of
       Some g \<Rightarrow> \<lparr>GatewayApi_Port = gateway_Port g, GatewayApi_Hosts = gateway_Hosts g,
         GatewayName = gateway_GatewayName g, GatewayNamespace = gateway_GatewayNamespace g\<rparr>
     | None \<Rightarrow> no_gateway)"

definition ca_statsd :: "FabricCASpec \<Rightarrow> FabricCAMetricsStatsd res" where
  "ca_statsd spec = (case metrics_Statsd (cas_Metrics spec) of
       None \<Rightarrow> Panic ''nil pointer dereference''
     | Some s \<Rightarrow> Ok \<lparr>statsd_Network = statsd_Network s, statsd_Address = statsd_Address s,
         statsd_WriteInterval = statsd_WriteInterval s, statsd_Prefix = statsd_Prefix s\<rparr>)"

definition chain_of :: "FabricCAItemConf \<Rightarrow> string" where
  "chain_of item = (case conf_CA item of None \<Rightarrow> [] | Some given \<Rightarrow> crypto_Chain given)"

text \<open>The PEM texts of a pair; those of a missing one are empty.\<close>

definition encode_cert :: "'w crypto \<Rightarrow> key_pair option \<Rightarrow> string" where
  "encode_cert K m = (case m of None \<Rightarrow> [] | Some (crt, _) \<Rightarrow> pem_of K crt)"

definition encode_key :: "'w crypto \<Rightarrow> key_pair option \<Rightarrow> string res" where
  "encode_key K m = (case m of None \<Rightarrow> Ok [] | Some (_, key) \<Rightarrow> EncodePrivateKey K key)"

definition ca_chart :: "FabricCAResource \<Rightarrow> Msp \<Rightarrow> FabricCAMetricsStatsd \<Rightarrow> FabricCAChart" where
  "ca_chart conf msp statsd = (let spec = ca_Spec conf in
     \<lparr>cach_PodLabels = cas_PodLabels spec, cach_PodAnnotations = cas_PodAnnotations spec,
      cach_Istio = ca_istio_values (cas_Istio spec), cach_Traefik = traefik_values (cas_Traefik spec),
      cach_GatewayApi = ca_gateway_values (cas_GatewayApi spec), cach_FullNameOverride = crName conf,
      cach_Image = \<lparr>Repository = cas_Image spec, Image_Tag = cas_Version spec, Image_PullPolicy = ''IfNotPresent''\<rparr>,
      cach_Service = \<lparr>casvc_Type = cas_ServiceType spec, casvc_Port = 7054\<rparr>,
      cach_Persistence = Persistence.extend (persistence_values (cas_Storage spec)) (CAPersistence.fields Map.empty),
      cach_Msp = msp,
      cach_Database = \<lparr>cadb_Type = cadb_Type (cas_Database spec), cadb_Datasource = cadb_Datasource (cas_Database spec)\<rparr>,
      cach_Resources = cas_Resources spec, cach_NodeSelector = cas_NodeSelector spec,
      cach_Tolerations = cas_Tolerations spec, cach_Affinity = cas_Affinity spec,
      cach_Metrics = \<lparr>chm_Provider = metrics_Provider (cas_Metrics spec), chm_Statsd = statsd\<rparr>,
      cach_Debug = cas_Debug spec, cach_CLRSizeLimit = cas_CLRSizeLimit spec,
      cach_Ca = mapCRDItemConfToChart (cas_CA spec), cach_TLSCA = mapCRDItemConfToChart (cas_TLSCA spec),
      cach_Cors = \<lparr>cors_Enabled = cors_Enabled (cas_Cors spec), cors_Origins = cors_Origins (cas_Cors spec)\<rparr>,
      cach_ServiceMonitor = monitor_values (cas_ServiceMonitor spec), cach_EnvVars = cas_Env spec,
      cach_ImagePullSecrets = cas_ImagePullSecrets spec,
      cach_Replicas = (case cas_Replicas spec of None \<Rightarrow> 1 | Some n \<Rightarrow> n)\<rparr>)"

definition ca_GetConfig ::
  "'w ca_services \<Rightarrow> FabricCAResource \<Rightarrow> string \<Rightarrow> string \<Rightarrow> ('w, FabricCAChart) io" where
  "ca_GetConfig S conf chartName namespace =
     (let K = pki_crypto (svc_pki S); spec = ca_Spec conf in
      io_bind (ca_tls_material S conf chartName namespace) (\<lambda>tls.
      io_bind (authority_material S conf (cas_CA spec) ''ca'' (ca_getExistingSignCrypto K chartName namespace)) (\<lambda>(caRef, sign).
      io_bind (authority_material S conf (cas_TLSCA spec) ''tlsca'' (getExistingSignTLSCrypto K chartName namespace)) (\<lambda>(caTLSSignRef, caTLSSign).
      io_bind (io_lift (EncodePrivateKey K (snd tls))) (\<lambda>tlsPEMEncodedPK.
      io_bind (io_lift (encode_key K sign)) (\<lambda>signPEMEncodedPK.
      io_bind (io_lift (encode_key K caTLSSign)) (\<lambda>caTLSSignPEMEncodedPK.
      io_bind (io_lift (ca_statsd spec)) (\<lambda>statsd.
        io_return (ca_chart conf
          \<lparr>CARef = caRef, TLSCARef = caTLSSignRef, Keyfile = signPEMEncodedPK, Certfile = encode_cert K sign,
           Chainfile = chain_of (cas_CA spec), TLSCAKeyfile = caTLSSignPEMEncodedPK,
           TLSCACertfile = encode_cert K caTLSSign, TLSCAChainfile = chain_of (cas_TLSCA spec),
           TlsKeyFile = tlsPEMEncodedPK, TlsCertFile = pem_of K (fst tls)\<rparr> statsd)))))))))"

section \<open>The secrets the chart makes\<close>

text \<open>
  The templates of \<open>charts/hlf-ca/templates\<close> for the three pairs: the name of the chart's objects, with
  \<open>trunc\<close>, \<open>trimSuffix\<close> and \<open>contains\<close>, and the data of each secret.  The values set no \<open>nameOverride\<close>.
\<close>

definition trim_dash :: "string \<Rightarrow> string" where
  "trim_dash s = (if s \<noteq> [] \<and> last s = CHR ''-'' then butlast s else s)"

definition ca_fullname :: "string \<Rightarrow> string \<Rightarrow> string" where
  "ca_fullname release override =
     trim_dash (take 63 (if override \<noteq> [] then override
       else if str_contains release ''hlf-ca'' then release else release @ ''-hlf-ca''))"

definition tls_cryptomaterial :: "Msp \<Rightarrow> (string \<rightharpoonup> string)" where
  "tls_cryptomaterial msp = [''tls.key'' \<mapsto> TlsKeyFile msp, ''tls.crt'' \<mapsto> TlsCertFile msp]"

definition msp_cryptomaterial :: "Msp \<Rightarrow> (string \<rightharpoonup> string) option" where
  "msp_cryptomaterial msp = (if CARef msp = None
     then Some [''keyfile'' \<mapsto> Keyfile msp, ''certfile'' \<mapsto> Certfile msp, ''chainfile'' \<mapsto> Chainfile msp] else None)"

definition msp_tls_cryptomaterial :: "Msp \<Rightarrow> (string \<rightharpoonup> string) option" where
  "msp_tls_cryptomaterial msp = (if TLSCARef msp = None
     then Some [''keyfile'' \<mapsto> TLSCAKeyfile msp, ''certfile'' \<mapsto> TLSCACertfile msp, ''chainfile'' \<mapsto> TLSCAChainfile msp]
     else None)"

definition ca_chart_secrets :: "string \<Rightarrow> FabricCAChart \<Rightarrow> string \<Rightarrow> (string \<rightharpoonup> string) option" where
  "ca_chart_secrets release c name =
     (let fullname = ca_fullname release (cach_FullNameOverride c); msp = cach_Msp c in
      if name = fullname @ ''--tls-cryptomaterial'' then Some (tls_cryptomaterial msp)
      else if name = fullname @ ''--msp-cryptomaterial'' then msp_cryptomaterial msp
      else if name = fullname @ ''--msp-tls-cryptomaterial'' then msp_tls_cryptomaterial msp
      else None)"

end
