(* ===== verification/CA_Controller.thy ===== *)
theory CA_Controller imports CA_Chart Reconciler begin

text \<open>
  \<open>FabricCAReconciler\<close>: the Helm release of a certificate authority and its status.  \<open>Reconcile\<close> is one
  function in the code; each definition below is a stretch of it, in its order.  Metrics and logging have
  no effect here.
\<close>

text \<open>The fields of the reconciler are among those of a node's; its certificates come from \<open>co_services\<close>.\<close>

record 'w ca_operator =
  co_node :: "('w, FabricCAResource, FabricCAChart) node_operator"
  co_services :: "'w ca_services"

definition ca_fail :: "'w ca_operator \<Rightarrow> FabricCAResource \<Rightarrow> go_error \<Rightarrow> ('w, Result) io" where
  "ca_fail M = report_failure FabricCA_setConditionStatus FabricCA_updateCRStatusOrFailReconcile
     (no_client (co_node M))"

definition finalizeCA :: "'w ca_operator \<Rightarrow> FabricCAResource \<Rightarrow> ('w, unit) io" where
  "finalizeCA M m =
     io_bind (newActionCfg (co_node M) (namespace_or_default (crNamespace m)))
       (\<lambda>_. uninstall_release (co_node M) (crName m))"

section \<open>The state of an authority\<close>

record ca_state =
  cast_Status :: string
  cast_TlsCert :: string
  cast_CACert :: string
  cast_TLSCACert :: string
  cast_NodeURL :: string
  cast_NodePort :: int
  cast_NodeHost :: string

text \<open>Go's cases do not fall through: a pod that runs without being ready leaves the status as it is.\<close>

definition ca_pod_status :: "pod \<Rightarrow> string \<Rightarrow> string" where
  "ca_pod_status item st =
     (if IsPodReadyConditionTrue (pod_Conditions item) then RunningStatus
      else (case pod_Phase item of
          PodPending \<Rightarrow> PendingStatus
        | PodFailed \<Rightarrow> FailedStatus
        | PodSucceeded \<Rightarrow> st
        | PodRunning \<Rightarrow> st
        | PodUnknown \<Rightarrow> UnknownStatus
        | NoPhase \<Rightarrow> st))"

definition ca_status_of_pods :: "FabricCAResource \<Rightarrow> int \<Rightarrow> pod list \<Rightarrow> string" where
  "ca_status_of_pods ca ready items =
     (if items \<noteq> [] then fold ca_pod_status items PendingStatus
      else (let replicas = (case cas_Replicas (ca_Spec ca) of None \<Rightarrow> 1 | Some n \<Rightarrow> n) in
        if ready = int32_of replicas then RunningStatus else PendingStatus))"

text \<open>The certificate that is reported: that of the secret the specification names, else the existing one.\<close>

definition reported_pair ::
  "'w crypto \<Rightarrow> FabricCAItemConf \<Rightarrow> string \<Rightarrow> ('w, key_pair) io \<Rightarrow> ('w, key_pair) io" where
  "reported_pair K item ns existing = (case given_ref item of
       Some name \<Rightarrow> getAlreadyExistingCrypto K name ns | None \<Rightarrow> existing)"

definition ca_certs_state ::
  "'w ca_operator \<Rightarrow> FabricCAResource \<Rightarrow> string \<Rightarrow> string \<Rightarrow> string \<Rightarrow> string \<Rightarrow> int \<Rightarrow> ('w, ca_state) io" where
  "ca_certs_state M ca releaseName ns st k8sIP nodePort =
     (let K = pki_crypto (svc_pki (co_services M)); spec = ca_Spec ca in
      io_bind (ca_getExistingTLSCrypto K releaseName ns) (\<lambda>(tlsCrt, _).
      io_bind (reported_pair K (cas_CA spec) ns (ca_getExistingSignCrypto K releaseName ns)) (\<lambda>(signCrt, _).
      io_bind (reported_pair K (cas_TLSCA spec) ns (getExistingSignTLSCrypto K releaseName ns)) (\<lambda>(tlsCACrt, _).
        io_return \<lparr>cast_Status = st, cast_TlsCert = pem_of K tlsCrt, cast_CACert = pem_of K signCrt,
          cast_TLSCACert = pem_of K tlsCACrt, cast_NodeURL = ''https://'' @ k8sIP @ '':'' @ itoa nodePort,
          cast_NodePort = nodePort, cast_NodeHost = k8sIP\<rparr>))))"

text \<open>\<open>svc.Spec.Ports[0]\<close>.\<close>

definition first_port :: "k8s_service \<Rightarrow> service_port res" where
  "first_port svc = (case svc_Ports svc of [] \<Rightarrow> Panic ''index out of range'' | port # _ \<Rightarrow> Ok port)"

definition GetCAState ::
  "'w ca_operator \<Rightarrow> FabricCAResource \<Rightarrow> string \<Rightarrow> string \<Rightarrow> ('w, ca_state) io" where
  "GetCAState M ca releaseName ns =
     (let U = no_kube (co_node M) in
      io_bind (GetPublicIPKubernetes (kube_nodes U)) (\<lambda>k8sIP.
      io_bind (deployments_Get U ns releaseName) (\<lambda>ready.
      io_bind (pods_List U ns (''release='' @ releaseName)) (\<lambda>items.
      io_bind (services_Get U ns releaseName) (\<lambda>svc.
      io_bind (io_lift (first_port svc)) (\<lambda>port.
        ca_certs_state M ca releaseName ns (ca_status_of_pods ca ready items) k8sIP (sp_NodePort port)))))))"

section \<open>Updating\<close>

text \<open>\<open>reflect.DeepEqual\<close> on the status.\<close>

definition ca_status_of :: "FabricCAResource \<Rightarrow> Conditions \<times> string \<times> string \<times> int \<times> string \<times> string \<times> string" where
  "ca_status_of p = (crConditions p, crMessage p, crStatus p, castatus_NodePort p, castatus_TlsCert p,
     castatus_CACert p, castatus_TLSCACert p)"

definition ca_observed :: "time \<Rightarrow> ca_state \<Rightarrow> FabricCAResource \<Rightarrow> FabricCAResource" where
  "ca_observed now s p =
     fst (put_condition now \<lparr>Type = cast_Status s, Status = ConditionTrue, Reason = [], Message = [], LastTransitionTime = 0\<rparr>
       (p\<lparr>crStatus := cast_Status s, crMessage := [], castatus_TlsCert := cast_TlsCert s,
          castatus_TLSCACert := cast_TLSCACert s, castatus_CACert := cast_CACert s, castatus_NodePort := cast_NodePort s\<rparr>))"

definition ca_requeue :: "string \<Rightarrow> Result" where
  "ca_requeue st =
     (if st = PendingStatus then requeue_after (10 * Second)
      else if st = RunningStatus then requeue_after (60 * Minute)
      else if st = FailedStatus then requeue_after (10 * Second)
      else no_requeue)"

text \<open>
  Upgrading the chart; only a failure of Helm itself is written into the status.  The path of the chart is
  used even when it was not found.
\<close>

definition ca_upgradeChart ::
  "'w ca_operator \<Rightarrow> string \<Rightarrow> string \<Rightarrow> FabricCAResource \<Rightarrow> ('w, Result) io \<Rightarrow> ('w, Result) io" where
  "ca_upgradeChart M releaseName ns hlf finish =
     (let N = co_node M; H = no_helm N in
      io_bind (ca_GetConfig (co_services M) hlf releaseName ns) (\<lambda>c.
      io_bind (io_lift (chart_values H c)) (\<lambda>inInterface.
      io_bind (LocateChart H (ChartPath N)) (\<lambda>(chartPath, _).
      io_bind (loader_Load H chartPath) (\<lambda>ch.
      attempt (ca_fail M hlf)
        (helm_Upgrade H \<lparr>ho_Wait = no_Wait N, ho_Timeout = no_Timeout N, ho_MaxHistory = no_MaxHistory N, ho_Namespace = []\<rparr>
          releaseName ch inInterface) (\<lambda>_. finish))))))"

definition ca_finish :: "'w ca_operator \<Rightarrow> ca_state \<Rightarrow> FabricCAResource \<Rightarrow> FabricCAResource \<Rightarrow> ('w, Result) io" where
  "ca_finish M s hlf fca =
     (if ca_status_of fca \<noteq> ca_status_of hlf
      then io_bind (status_update (no_client (co_node M)) fca) (\<lambda>_. io_return (ca_requeue (cast_Status s)))
      else io_return (ca_requeue (cast_Status s)))"

text \<open>The resource is read anew once its state is known, and worked on as it was read.\<close>

definition update_ca ::
  "'w ca_operator \<Rightarrow> string \<times> string \<Rightarrow> helm_release \<Rightarrow> FabricCAResource \<Rightarrow> ('w, Result) io" where
  "update_ca M req helmStatus hlf =
     (let (ns, releaseName) = req; K = no_client (co_node M) in
      io_bind (GetCAState M hlf releaseName ns) (\<lambda>s.
      io_try (client_get K req)
        (\<lambda>hlf w. (let fca = ca_observed (clock_now K w) s hlf in
           if hr_Status helmStatus \<noteq> StatusPendingUpgrade
           then ca_upgradeChart M releaseName ns hlf (ca_finish M s hlf fca) w
           else ca_finish M s hlf fca w))
        (\<lambda>err. if isNotFound err then io_return no_requeue else io_throw err)))"

section \<open>Installing\<close>

definition ca_deployed :: "time \<Rightarrow> FabricCAResource \<Rightarrow> FabricCAResource" where
  "ca_deployed now p = fst (put_condition now
     \<lparr>Type = ''DEPLOYED'', Status = ConditionTrue, Reason = [], Message = [], LastTransitionTime = 0\<rparr>
     (p\<lparr>crStatus := PendingStatus\<rparr>))"

definition install_ca :: "'w ca_operator \<Rightarrow> string \<times> string \<Rightarrow> FabricCAResource \<Rightarrow> ('w, Result) io" where
  "install_ca M req hlf =
     (let (ns, releaseName) = req; N = co_node M; H = no_helm N; K = no_client N in
      io_bind (io_lift (NameAndChart H [releaseName, ChartPath N])) (\<lambda>(name, chart).
      io_bind (loader_Load H chart) (\<lambda>ch.
      io_bind (ca_GetConfig (co_services M) hlf name ns) (\<lambda>c.
      io_bind (io_lift (chart_values H c)) (\<lambda>inInterface.
      attempt (ca_fail M hlf)
        (helm_Install H \<lparr>ho_Wait = no_Wait N, ho_Timeout = no_Timeout N, ho_MaxHistory = 0, ho_Namespace = []\<rparr> name ch inInterface)
        (\<lambda>_ w. io_bind (status_update K (ca_deployed (clock_now K w) hlf))
          (\<lambda>_. io_return (requeue_after (10 * Second))) w))))))"

section \<open>Reconcile\<close>

definition ca_with_store :: "FabricCAResource \<Rightarrow> FabricCAResource" where
  "ca_with_store p = (if cas_CredentialStore (ca_Spec p) = []
     then p\<lparr>ca_Spec := (ca_Spec p)\<lparr>cas_CredentialStore := ''kubernetes''\<rparr>\<rparr> else p)"

definition reconcile_ca :: "'w ca_operator \<Rightarrow> string \<times> string \<Rightarrow> FabricCAResource \<Rightarrow> ('w, Result) io" where
  "reconcile_ca M req hlf =
     io_bind (find_release (no_helm (co_node M)) (snd req)) (\<lambda>helmStatus.
     io_bind (GetClientKubeWithConf (no_kube (co_node M))) (\<lambda>_.
     let hlf = ca_with_store hlf in
     case helmStatus of
       Some st \<Rightarrow> update_ca M req st hlf
     | None \<Rightarrow> install_ca M req hlf))"

definition release_ca :: "'w ca_operator \<Rightarrow> FabricCAResource \<Rightarrow> ('w, Result) io" where
  "release_ca M hlf =
     (let K = no_client (co_node M) in
      if Contains (Finalizers hlf) caFinalizer
      then io_bind (finalizeCA M hlf) (\<lambda>_.
        io_bind (client_update K (hlf\<lparr>Finalizers := remove_finalizer K caFinalizer (Finalizers hlf)\<rparr>))
          (\<lambda>_. io_return no_requeue))
      else io_return no_requeue)"

definition Reconcile_ca :: "'w ca_operator \<Rightarrow> string \<times> string \<Rightarrow> ('w, Result) io" where
  "Reconcile_ca M req =
     (let K = no_client (co_node M) in
      io_bind (newActionCfg (co_node M) (fst req)) (\<lambda>_.
      io_try (client_get K req)
        (\<lambda>hlf. if DeletionTimestamp hlf \<noteq> None then release_ca M hlf
           else if \<not> Contains (Finalizers hlf) caFinalizer
           then io_bind (FabricCA_addFinalizer K hlf) (reconcile_ca M req)
           else reconcile_ca M req hlf)
        (\<lambda>err. if isNotFound err then io_return no_requeue else io_throw err)))"

end
