(* ===== verification/CA_Correct.thy ===== *)
theory CA_Correct imports CA_Controller Node_Memory begin

text \<open>
  What the controller of certificate authorities guarantees: the certificates and keys of an authority
  survive every later reconciliation, through the secrets that its chart makes; which change of the hosts
  renews the TLS certificate; and when an authority is looked at again.
\<close>

section \<open>Laws\<close>

text \<open>A certificate is for the names and addresses of its template.\<close>

definition template_law :: "'w crypto \<Rightarrow> 'w x509_lib \<Rightarrow> bool" where
  "template_law K X \<longleftrightarrow> (\<forall>t key w der w' crt. x509_CreateCertificate X t key w = (Ok der, w') \<longrightarrow>
     ParseCertificate K der = Ok crt \<longrightarrow> cert_DNSNames X crt = DNSNames t \<and> cert_IPAddresses X crt = IPAddresses t)"

text \<open>A chart that Helm has applied: its secrets are there, and the ones it leaves out are not.\<close>

definition chart_applied :: "'w crypto \<Rightarrow> string \<Rightarrow> string \<Rightarrow> FabricCAChart \<Rightarrow> 'w \<Rightarrow> bool" where
  "chart_applied K ns release c w \<longleftrightarrow> (\<forall>suffix\<in>{''--tls-cryptomaterial'', ''--msp-cryptomaterial'', ''--msp-tls-cryptomaterial''}.
     (case ca_chart_secrets release c (release @ suffix) of
        Some d \<Rightarrow> secrets_of K ns (release @ suffix) w = (Ok d, w)
      | None \<Rightarrow> \<exists>e. secrets_of K ns (release @ suffix) w = (Err e, w)))"

section \<open>Names\<close>

lemma sort_eq_iff: "sort xs = sort ys \<longleftrightarrow> mset xs = mset ys"
  by (metis mset_sort properties_for_sort sorted_sort)

lemma renewed_iff:
  "doesCertNeedsToBeRenewed X crt conf \<longleftrightarrow> mset (cert_DNSNames X crt) \<noteq> mset (getDNSNames (ca_Spec conf))"
  by (simp add: doesCertNeedsToBeRenewed_def sort_eq_iff)

section \<open>Pairs that can be read back\<close>

lemma pair_of_Ok: "pair_of K keyName certName secret = Ok (crt, key) \<Longrightarrow> \<exists>der. ParseCertificate K der = Ok crt"
  by (auto simp: pair_of_def ca_parseX509Certificate_def split: option.splits)

lemma pair_in_parsed: "codec_law K \<Longrightarrow> pair_in K a b n ns w = (Ok (crt, key), w') \<Longrightarrow> parsed K crt"
  by (auto simp: pair_in_def io_oks dest!: pair_of_Ok intro: parsedI)

lemma pair_of_encoded:
  assumes "codec_law K" and "parsed K crt" and "EncodePrivateKey K key = Ok k"
    and "secret_value d keyName = k" and "secret_value d certName = pem_of K crt"
  shows "pair_of K keyName certName d = Ok (crt, key)"
proof -
  obtain der where "MarshalPKCS8PrivateKey K key = Ok der" "k = encode_pem K (''PRIVATE KEY'', der)"
    using assms(3) by (auto simp: EncodePrivateKey_def)
  then have "ca_parseECDSAPrivateKey K k = Ok key"
    using codec_lawD [OF assms(1)] by (simp add: ca_parseECDSAPrivateKey_def)
  moreover have "ca_parseX509Certificate K (pem_of K crt) = Ok crt"
    using assms(2) codec_lawD [OF assms(1)]
    by (simp add: ca_parseX509Certificate_def pem_of_def EncodeX509Certificate_def parsed_def)
  ultimately show ?thesis using assms(4,5) by (simp add: pair_of_def)
qed

lemma template_lawD:
  "template_law K X \<Longrightarrow> x509_CreateCertificate X t key w = (Ok der, w') \<Longrightarrow> ParseCertificate K der = Ok crt \<Longrightarrow>
     cert_DNSNames X crt = DNSNames t \<and> cert_IPAddresses X crt = IPAddresses t"
  unfolding template_law_def by blast

lemma tls_template_names [simp]:
  "DNSNames (tls_template V spec n b a usage ext ski) = getDNSNames spec"
  "IPAddresses (tls_template V spec n b a usage ext ski) = getIPAddresses spec"
  by (simp_all add: tls_template_def)

lemma CreateDefaultTLSCert_Ok:
  assumes "codec_law (pki_crypto (svc_pki S))" and "template_law (pki_crypto (svc_pki S)) (svc_x509 S)"
    and "CreateDefaultTLSCert S spec w = (Ok (crt, key), w')"
  shows "parsed (pki_crypto (svc_pki S)) crt \<and> cert_DNSNames (svc_x509 S) crt = getDNSNames spec
     \<and> cert_IPAddresses (svc_x509 S) crt = getIPAddresses spec"
  using assms
  by (auto simp: CreateDefaultTLSCert_def Let_def io_oks dest!: template_lawD intro: parsedI)

lemma CreateDefaultTLSWithVault_Ok:
  assumes "codec_law (pki_crypto (svc_pki S))" and "template_law (pki_crypto (svc_pki S)) (svc_x509 S)"
    and "CreateDefaultTLSWithVault S spec w = (Ok (crt, key), w')"
  shows "parsed (pki_crypto (svc_pki S)) crt \<and> cert_DNSNames (svc_x509 S) crt = getDNSNames spec
     \<and> cert_IPAddresses (svc_x509 S) crt = getIPAddresses spec"
  using assms
  by (auto simp: CreateDefaultTLSWithVault_def Let_def io_oks io_panic_apply dest!: template_lawD
      intro: parsedI split: option.splits)

lemma on_store_Ok: "on_store kind a b w = (Ok m, w') \<Longrightarrow> a w = (Ok m, w') \<or> b w = (Ok m, w')"
  by (auto simp: on_store_def io_oks split: if_splits)

lemma CreateDefaultTLSCertCommon_Ok:
  assumes "codec_law (pki_crypto (svc_pki S))" and "template_law (pki_crypto (svc_pki S)) (svc_x509 S)"
    and "CreateDefaultTLSCertCommon S conf w = (Ok (crt, key), w')"
  shows "parsed (pki_crypto (svc_pki S)) crt \<and> cert_DNSNames (svc_x509 S) crt = getDNSNames (ca_Spec conf)
     \<and> cert_IPAddresses (svc_x509 S) crt = getIPAddresses (ca_Spec conf)"
  using on_store_Ok [OF assms(3) [unfolded CreateDefaultTLSCertCommon_def]]
    CreateDefaultTLSCert_Ok [OF assms(1,2)] CreateDefaultTLSWithVault_Ok [OF assms(1,2)] by blast

lemma CreateCA_parsed:
  assumes "codec_law K" and "CreateCA K V req c w = (Ok (crt, key), w')"
  shows "parsed K crt"
proof -
  have stored: "stored_ca K V d = Ok (crt, key) \<Longrightarrow> parsed K crt" for d
    by (auto simp: stored_ca_def pem_certificate_def intro: parsedI [OF assms(1)] split: option.splits)
  have new: "new_ca K V req c v = (Ok (crt, key), v') \<Longrightarrow> parsed K crt" for v v'
    by (auto simp: new_ca_def io_oks intro: parsedI [OF assms(1)])
  show ?thesis using assms(2) stored new
    by (auto simp: CreateCA_def io_oks split: option.splits)
qed

lemma CreateDefaultCACommon_parsed:
  assumes "codec_law (pki_crypto (svc_pki S))" and "CreateDefaultCACommon S conf item caType w = (Ok (crt, key), w')"
  shows "parsed (pki_crypto (svc_pki S)) crt"
proof -
  have "CreateDefaultCA S item w = (Ok (crt, key), w') \<Longrightarrow> ?thesis"
    by (auto simp: CreateDefaultCA_def Let_def io_oks intro: parsedI [OF assms(1)])
  moreover have "ca_CreateDefaultCAWithVault S conf item caType w = (Ok (crt, key), w') \<Longrightarrow> ?thesis"
    by (auto simp: ca_CreateDefaultCAWithVault_def Let_def io_oks io_panic_apply
        dest: CreateCA_parsed [OF assms(1)] split: option.splits)
  ultimately show ?thesis using on_store_Ok [OF assms(2) [unfolded CreateDefaultCACommon_def]] by blast
qed

lemma parseCrypto_parsed: "codec_law K \<Longrightarrow> parseCrypto K k c = Ok (crt, key) \<Longrightarrow> parsed K crt"
  by (auto simp: parseCrypto_def x509_of_def ParseX509Certificate_def intro: parsedI split: if_splits option.splits)

section \<open>What a chart gets\<close>

lemma ca_tls_material_Ok:
  assumes "codec_law (pki_crypto (svc_pki S))" and "template_law (pki_crypto (svc_pki S)) (svc_x509 S)"
    and "ca_tls_material S conf chartName ns w = (Ok (crt, key), w')"
  shows "parsed (pki_crypto (svc_pki S)) crt
     \<and> mset (cert_DNSNames (svc_x509 S) crt) = mset (getDNSNames (ca_Spec conf))"
proof -
  let ?K = "pki_crypto (svc_pki S)"
  have created: ?thesis if "CreateDefaultTLSCertCommon S conf v = (Ok (crt, key), w')" for v
    using CreateDefaultTLSCertCommon_Ok [OF assms(1,2) that] by simp
  have kept: ?thesis if "ca_getExistingTLSCrypto ?K chartName ns w = (Ok (crt, key), w')"
      "\<not> doesCertNeedsToBeRenewed (svc_x509 S) crt conf"
    using that pair_in_parsed [OF assms(1)] by (auto simp: renewed_iff ca_getExistingTLSCrypto_def)
  show ?thesis using assms(3) created kept
    by (auto simp: ca_tls_material_def io_oks split: if_splits)
qed

lemma authority_material_Ok:
  assumes "codec_law (pki_crypto (svc_pki S))"
    and existing: "\<And>crt key v v'. existing v = (Ok (crt, key), v') \<Longrightarrow> parsed (pki_crypto (svc_pki S)) crt"
    and "authority_material S conf item caType existing w = (Ok (ref, m), w')"
  shows "(case ref of None \<Rightarrow> \<exists>crt key. m = Some (crt, key) \<and> parsed (pki_crypto (svc_pki S)) crt
     | Some name \<Rightarrow> m = None \<and> given_ref item = Some name)"
  using assms(3) existing parseCrypto_parsed [OF assms(1)] CreateDefaultCACommon_parsed [OF assms(1)]
  by (auto simp: authority_material_def io_oks split: option.splits)

definition msp_of ::
  "'w crypto \<Rightarrow> FabricCASpec \<Rightarrow> string option \<Rightarrow> string option \<Rightarrow> key_pair \<Rightarrow> key_pair option \<Rightarrow> key_pair option
   \<Rightarrow> string \<Rightarrow> string \<Rightarrow> string \<Rightarrow> Msp" where
  "msp_of K spec r1 r2 tls sign tlsca k k1 k2 =
     \<lparr>CARef = r1, TLSCARef = r2, Keyfile = k1, Certfile = encode_cert K sign, Chainfile = chain_of (cas_CA spec),
      TLSCAKeyfile = k2, TLSCACertfile = encode_cert K tlsca, TLSCAChainfile = chain_of (cas_TLSCA spec),
      TlsKeyFile = k, TlsCertFile = pem_of K (fst tls)\<rparr>"

lemma ca_GetConfig_Ok:
  "ca_GetConfig S conf chartName ns w = (Ok c, w') \<longleftrightarrow>
   (let K = pki_crypto (svc_pki S); spec = ca_Spec conf in
    \<exists>tls w1 r1 sign w2 r2 tlsca k k1 k2 s.
      ca_tls_material S conf chartName ns w = (Ok tls, w1)
    \<and> authority_material S conf (cas_CA spec) ''ca'' (ca_getExistingSignCrypto K chartName ns) w1 = (Ok (r1, sign), w2)
    \<and> authority_material S conf (cas_TLSCA spec) ''tlsca'' (getExistingSignTLSCrypto K chartName ns) w2 = (Ok (r2, tlsca), w')
    \<and> EncodePrivateKey K (snd tls) = Ok k \<and> encode_key K sign = Ok k1 \<and> encode_key K tlsca = Ok k2
    \<and> ca_statsd spec = Ok s \<and> c = ca_chart conf (msp_of K spec r1 r2 tls sign tlsca k k1 k2) s)"
  unfolding ca_GetConfig_def Let_def msp_of_def by (auto simp: io_oks)

lemma ca_chart_msp [simp]: "cach_Msp (ca_chart conf msp s) = msp"
  and ca_chart_name [simp]: "cach_FullNameOverride (ca_chart conf msp s) = crName conf"
  by (simp_all add: ca_chart_def Let_def)

text \<open>What the secrets of an applied chart read as.\<close>

lemma chart_appliedD:
  assumes "chart_applied K ns release c w" and "ca_fullname release (cach_FullNameOverride c) = release"
  shows "secrets_of K ns (release @ ''--tls-cryptomaterial'') w = (Ok (tls_cryptomaterial (cach_Msp c)), w)"
    and "case msp_cryptomaterial (cach_Msp c) of
        Some d \<Rightarrow> secrets_of K ns (release @ ''--msp-cryptomaterial'') w = (Ok d, w)
      | None \<Rightarrow> \<exists>e. secrets_of K ns (release @ ''--msp-cryptomaterial'') w = (Err e, w)"
    and "case msp_tls_cryptomaterial (cach_Msp c) of
        Some d \<Rightarrow> secrets_of K ns (release @ ''--msp-tls-cryptomaterial'') w = (Ok d, w)
      | None \<Rightarrow> \<exists>e. secrets_of K ns (release @ ''--msp-tls-cryptomaterial'') w = (Err e, w)"
  using assms by (simp_all add: chart_applied_def ca_chart_secrets_def Let_def)

text \<open>An authority that came from a chart is found again, or referred to again.\<close>

lemma authority_again:
  assumes codec: "codec_law K" and K: "pki_crypto (svc_pki S) = K"
    and case1: "case ref of None \<Rightarrow> \<exists>crt key. m = Some (crt, key) \<and> parsed K crt | Some name \<Rightarrow> m = None"
    and key: "encode_key K m = Ok k"
    and given: "\<And>name. ref = Some name \<Longrightarrow> given_ref item = Some name"
    and secret: "case (if ref = None then Some d else None) of
        Some d \<Rightarrow> secrets_of K ns name w = (Ok d, w) | None \<Rightarrow> \<exists>e. secrets_of K ns name w = (Err e, w)"
    and d: "secret_value d ''keyfile'' = k" "secret_value d ''certfile'' = encode_cert K m"
  shows "authority_material S conf item caType (pair_in K ''keyfile'' ''certfile'' name ns) w = (Ok (ref, m), w)"
proof (cases ref)
  case None
  then obtain crt pk where m: "m = Some (crt, pk)" "parsed K crt" using case1 by auto
  then have "pair_of K ''keyfile'' ''certfile'' d = Ok (crt, pk)"
    using key d by (intro pair_of_encoded [OF codec]) (auto simp: encode_key_def encode_cert_def)
  then show ?thesis using None m(1) secret by (simp add: authority_material_def pair_in_def io_simps)
next
  case (Some n)
  then obtain e where "secrets_of K ns name w = (Err e, w)" "m = None" "given_ref item = Some n"
    using secret case1 given by auto
  then show ?thesis using Some by (simp add: authority_material_def pair_in_def io_simps)
qed

section \<open>Properties of the certificates\<close>

text \<open>
  C6.  An authority keeps its certificates and keys.  Once Helm has applied a chart of the authority, any
  later configuration of it, whatever else of the specification, the credential store, the Vault and the
  authorities have become, reads the same TLS, signing and TLS signing material back from the secrets
  of the chart and creates nothing, as long as the names among the hosts are the same and a reference to
  a secret is still there.
\<close>

theorem ca_certificates_survive:
  assumes codec: "codec_law (pki_crypto (svc_pki S))"
    and names: "template_law (pki_crypto (svc_pki S)) (svc_x509 S)"
    and first: "ca_GetConfig S conf release ns w = (Ok c, w1)"
    and applied: "chart_applied (pki_crypto (svc_pki S)) ns release c w2"
    and fullname: "ca_fullname release (crName conf) = release"
    and same: "pki_crypto (svc_pki S') = pki_crypto (svc_pki S)" "svc_x509 S' = svc_x509 S"
    and hosts: "mset (getDNSNames (ca_Spec conf')) = mset (getDNSNames (ca_Spec conf))"
    and refs: "\<And>name. CARef (cach_Msp c) = Some name \<Longrightarrow> given_ref (cas_CA (ca_Spec conf')) = Some name"
      "\<And>name. TLSCARef (cach_Msp c) = Some name \<Longrightarrow> given_ref (cas_TLSCA (ca_Spec conf')) = Some name"
    and statsd: "metrics_Statsd (cas_Metrics (ca_Spec conf')) \<noteq> None"
  shows "\<exists>c'. ca_GetConfig S' conf' release ns w2 = (Ok c', w2)
     \<and> cach_Msp c' = (cach_Msp c)\<lparr>Chainfile := chain_of (cas_CA (ca_Spec conf')),
          TLSCAChainfile := chain_of (cas_TLSCA (ca_Spec conf'))\<rparr>"
proof -
  let ?K = "pki_crypto (svc_pki S)" and ?X = "svc_x509 S"
  obtain crt key v1 r1 sign v2 r2 tlsca k k1 k2 s where
    tls: "ca_tls_material S conf release ns w = (Ok (crt, key), v1)"
    and ca: "authority_material S conf (cas_CA (ca_Spec conf)) ''ca'' (ca_getExistingSignCrypto ?K release ns) v1 = (Ok (r1, sign), v2)"
    and tca: "authority_material S conf (cas_TLSCA (ca_Spec conf)) ''tlsca'' (getExistingSignTLSCrypto ?K release ns) v2 = (Ok (r2, tlsca), w1)"
    and keys: "EncodePrivateKey ?K key = Ok k" "encode_key ?K sign = Ok k1" "encode_key ?K tlsca = Ok k2"
    and c: "c = ca_chart conf (msp_of ?K (ca_Spec conf) r1 r2 (crt, key) sign tlsca k k1 k2) s"
    using first unfolding ca_GetConfig_Ok Let_def by auto
  have msp: "cach_Msp c = msp_of ?K (ca_Spec conf) r1 r2 (crt, key) sign tlsca k k1 k2" by (simp add: c)
  note secrets = chart_appliedD [OF applied, unfolded msp, unfolded c ca_chart_name, OF fullname]
  have crt: "parsed ?K crt" "mset (cert_DNSNames ?X crt) = mset (getDNSNames (ca_Spec conf))"
    using ca_tls_material_Ok [OF codec names tls] by auto
  have "pair_of ?K ''tls.key'' ''tls.crt'' (tls_cryptomaterial (cach_Msp c)) = Ok (crt, key)"
    by (rule pair_of_encoded [OF codec crt(1) keys(1)]) (simp_all add: msp msp_of_def tls_cryptomaterial_def secret_value_def)
  then have tls': "ca_tls_material S' conf' release ns w2 = (Ok (crt, key), w2)"
    using secrets(1) crt(2) hosts same
    by (simp add: ca_tls_material_def ca_getExistingTLSCrypto_def pair_in_def renewed_iff msp io_simps)
  have ca': "authority_material S' conf' (cas_CA (ca_Spec conf')) ''ca'' (ca_getExistingSignCrypto ?K release ns) w2 = (Ok (r1, sign), w2)"
    unfolding ca_getExistingSignCrypto_def
    by (rule authority_again [OF codec same(1) _ keys(2), where d = "the (msp_cryptomaterial ((cach_Msp c)\<lparr>CARef := None\<rparr>))"])
      (use authority_material_Ok [OF codec _ ca] pair_in_parsed [OF codec] secrets(2) refs(1) in
        \<open>auto simp: msp msp_of_def msp_cryptomaterial_def secret_value_def ca_getExistingSignCrypto_def split: option.splits\<close>)
  have tca': "authority_material S' conf' (cas_TLSCA (ca_Spec conf')) ''tlsca'' (getExistingSignTLSCrypto ?K release ns) w2 = (Ok (r2, tlsca), w2)"
    unfolding getExistingSignTLSCrypto_def
    by (rule authority_again [OF codec same(1) _ keys(3), where d = "the (msp_tls_cryptomaterial ((cach_Msp c)\<lparr>TLSCARef := None\<rparr>))"])
      (use authority_material_Ok [OF codec _ tca] pair_in_parsed [OF codec] secrets(3) refs(2) in
        \<open>auto simp: msp msp_of_def msp_tls_cryptomaterial_def secret_value_def getExistingSignTLSCrypto_def split: option.splits\<close>)
  obtain s' where "ca_statsd (ca_Spec conf') = Ok s'" using statsd by (auto simp: ca_statsd_def)
  then show ?thesis using tls' ca' tca' keys same
    by (auto simp: ca_GetConfig_Ok Let_def msp msp_of_def)
qed

text \<open>
  C23.  The TLS certificate an authority has is kept exactly when its names are those among the hosts, in
  any order; otherwise the chart gets a new one for the names and the addresses of the hosts.  The
  addresses do not take part in the decision, so an address that is added to the hosts does not reach a
  certificate that exists.
\<close>

theorem ca_tls_renewed_by_names:
  assumes "codec_law (pki_crypto (svc_pki S))" and "template_law (pki_crypto (svc_pki S)) (svc_x509 S)"
    and existing: "ca_getExistingTLSCrypto (pki_crypto (svc_pki S)) release ns w = (Ok (crt, key), w1)"
    and ok: "ca_GetConfig S conf release ns w = (Ok c, w')"
  shows "if mset (cert_DNSNames (svc_x509 S) crt) = mset (filter (\<lambda>h. ParseIP h = None) (cas_Hosts (ca_Spec conf)))
     then TlsCertFile (cach_Msp c) = pem_of (pki_crypto (svc_pki S)) crt
       \<and> EncodePrivateKey (pki_crypto (svc_pki S)) key = Ok (TlsKeyFile (cach_Msp c))
     else \<exists>crt' key' w2. CreateDefaultTLSCertCommon S conf w1 = (Ok (crt', key'), w2)
       \<and> TlsCertFile (cach_Msp c) = pem_of (pki_crypto (svc_pki S)) crt'
       \<and> EncodePrivateKey (pki_crypto (svc_pki S)) key' = Ok (TlsKeyFile (cach_Msp c))
       \<and> cert_DNSNames (svc_x509 S) crt' = filter (\<lambda>h. ParseIP h = None) (cas_Hosts (ca_Spec conf))
       \<and> cert_IPAddresses (svc_x509 S) crt' = loopback # List.map_filter ParseIP (cas_Hosts (ca_Spec conf))"
proof -
  let ?K = "pki_crypto (svc_pki S)"
  obtain tls v where tls: "ca_tls_material S conf release ns w = (Ok tls, v)"
    and c: "TlsCertFile (cach_Msp c) = pem_of ?K (fst tls)" "EncodePrivateKey ?K (snd tls) = Ok (TlsKeyFile (cach_Msp c))"
    using ok unfolding ca_GetConfig_Ok Let_def by (auto simp: msp_of_def)
  have "if doesCertNeedsToBeRenewed (svc_x509 S) crt conf then CreateDefaultTLSCertCommon S conf w1 = (Ok tls, v) else tls = (crt, key)"
    using tls existing by (simp add: ca_tls_material_def io_simps split: if_splits)
  then show ?thesis using c CreateDefaultTLSCertCommon_Ok [OF assms(1,2)]
    by (cases tls) (auto simp: renewed_iff getDNSNames_def getIPAddresses_def split: if_splits)
qed

text \<open>
  The statistics section of the metrics is optional in the resource, but an authority without one never
  gets a chart.
\<close>

theorem missing_statsd_never_charted:
  assumes "metrics_Statsd (cas_Metrics (ca_Spec conf)) = None"
  shows "fst (ca_GetConfig S conf release ns w) \<noteq> Ok c"
  using assms ca_GetConfig_Ok [of S conf release ns w c]
  by (cases "ca_GetConfig S conf release ns w") (auto simp: ca_statsd_def Let_def)

lemma GetCAState_Ok:
  assumes "GetCAState M ca release ns w = (Ok s, w')"
  obtains ready items sign u u' v v' where "cast_Status s = ca_status_of_pods ca ready items"
    "pods_List (no_kube (co_node M)) ns (''release='' @ release) u = (Ok items, u')"
    "reported_pair (pki_crypto (svc_pki (co_services M))) (cas_CA (ca_Spec ca)) ns
       (ca_getExistingSignCrypto (pki_crypto (svc_pki (co_services M))) release ns) v = (Ok sign, v')"
    "cast_CACert s = pem_of (pki_crypto (svc_pki (co_services M))) (fst sign)"
proof -
  let ?K = "pki_crypto (svc_pki (co_services M))"
  from assms show thesis unfolding GetCAState_def Let_def
    by (auto simp: ca_certs_state_def Let_def io_oks intro: that)
qed

text \<open>
  When an authority that has its own signing pair is given a secret to use instead, the chart keeps the
  pair and makes no reference to the secret, while the status reports the certificate of the secret.
\<close>

theorem reported_authority_not_the_one_used:
  assumes "given_ref (cas_CA (ca_Spec conf)) = Some name"
    and "\<And>v. ca_getExistingSignCrypto (pki_crypto (svc_pki (co_services M))) release ns v = (Ok (crt, key), v)"
    and "\<And>v. getAlreadyExistingCrypto (pki_crypto (svc_pki (co_services M))) name ns v = (Ok (crt', key'), v)"
    and "ca_GetConfig (co_services M) conf release ns w = (Ok c, w1)"
    and "GetCAState M conf release ns w2 = (Ok s, w3)"
  shows "CARef (cach_Msp c) = None \<and> Certfile (cach_Msp c) = pem_of (pki_crypto (svc_pki (co_services M))) crt
     \<and> cast_CACert s = pem_of (pki_crypto (svc_pki (co_services M))) crt'"
proof -
  let ?S = "co_services M"
  let ?K = "pki_crypto (svc_pki ?S)"
  have "CARef (cach_Msp c) = None \<and> Certfile (cach_Msp c) = pem_of ?K crt"
    using assms(2,4) unfolding ca_GetConfig_Ok Let_def
    by (auto simp: msp_of_def authority_material_def io_simps encode_cert_def)
  moreover have "cast_CACert s = pem_of ?K crt'"
    using assms(1,3) GetCAState_Ok [OF assms(5)] by (metis (no_types, lifting) fst_conv option.simps(5) prod.inject reported_pair_def res.inject(1))
  ultimately show ?thesis by simp
qed

text \<open>
  C31.  With a Vault, the authorities of one name share their pair, whatever their namespaces and subjects:
  the second one gets the certificate and the key that were created for the first.
\<close>

theorem same_name_same_authority:
  assumes kv: "kv_law (pki_vault (svc_pki S))" and enc: "encoding_law (pki_crypto (svc_pki S)) (pki_vault (svc_pki S))"
    and ab: "crName a = crName b" "cas_Vault (ca_Spec a) = Some v" "cas_Vault (ca_Spec b) = Some v"
    and client: "\<And>u. vault_GetClient (pki_crypto (svc_pki S)) (pki_vault (svc_pki S)) (cav_Vault v) u = (Ok cl, u)"
    and none: "\<not> holds_ca (pki_vault (svc_pki S)) cl (crName a @ ''-'' @ caType @ ''-ca'') w"
    and first: "ca_CreateDefaultCAWithVault S a item caType w = (Ok (crt, key), w')"
  shows "\<exists>w''. ca_CreateDefaultCAWithVault S b item' caType w' = (Ok (crt, key), w'')"
proof -
  let ?K = "pki_crypto (svc_pki S)" and ?V = "pki_vault (svc_pki S)"
  let ?req = "\<lambda>item. \<lparr>cc_CAName = crName a @ ''-'' @ caType @ ''-ca'', cc_Subject = conf_Subject item, cc_Serial = None\<rparr>"
  have eq: "ca_CreateDefaultCAWithVault S a item caType u = CreateCA ?K ?V (?req item) cl u"
    "ca_CreateDefaultCAWithVault S b item' caType u = CreateCA ?K ?V (?req item') cl u" for u
    using ab client by (simp_all add: ca_CreateDefaultCAWithVault_def Let_def io_simps)
  have "\<not> holds_ca ?V cl (cc_CAName (?req item)) w" using none by simp
  from CreateCA_new [OF this first [unfolded eq(1)]] obtain u where "new_ca ?K ?V (?req item) cl u = (Ok (crt, key), w')" ..
  from new_ca_stored [OF kv enc this] obtain d w'' where
    "KvV2Read ?V cl (ca_path (cc_CAName (?req item'))) w' = (Ok (Some d), w'')" "stored_ca ?K ?V d = Ok (crt, key)" by auto
  from CreateCA_stored [OF this(1)] this(2) show ?thesis unfolding eq(2) by auto
qed

section \<open>Being looked at again\<close>

lemma fold_ca_pod_status:
  "st \<in> {PendingStatus, RunningStatus, FailedStatus, UnknownStatus} \<Longrightarrow>
     fold ca_pod_status items st \<in> {PendingStatus, RunningStatus, FailedStatus, UnknownStatus}"
  by (induction items arbitrary: st) (auto simp: ca_pod_status_def split: pod_phase.splits)

lemma GetCAState_status:
  "GetCAState M ca release ns w = (Ok s, w') \<Longrightarrow> cast_Status s \<in> {PendingStatus, RunningStatus, FailedStatus, UnknownStatus}"
  using fold_ca_pod_status [of PendingStatus] by (erule_tac GetCAState_Ok) (auto simp: ca_status_of_pods_def Let_def)

lemma ca_requeue_stops:
  "io_return (ca_requeue st) w = (r, w') \<Longrightarrow> \<not> retried r \<Longrightarrow>
     st \<in> {PendingStatus, RunningStatus, FailedStatus, UnknownStatus} \<Longrightarrow> st = UnknownStatus"
  by (auto simp: io_return_apply ca_requeue_def requeue_after_def Second_def Minute_def split: if_splits)

lemma ca_finish_stops:
  "ca_finish M s hlf fca w = (r, w') \<Longrightarrow> \<not> retried r \<Longrightarrow>
     cast_Status s \<in> {PendingStatus, RunningStatus, FailedStatus, UnknownStatus} \<Longrightarrow> cast_Status s = UnknownStatus"
  by (auto simp: ca_finish_def elim!: bind_stops dest!: ca_requeue_stops split: if_splits)

text \<open>Why a reconciliation may end without another one.\<close>

definition ca_gone :: "'w ca_operator \<Rightarrow> string \<times> string \<Rightarrow> bool" where
  "ca_gone M req \<longleftrightarrow> (\<exists>v e v'. client_get (no_client (co_node M)) req v = (Err e, v') \<and> isNotFound e)
     \<or> (\<exists>v p v'. client_get (no_client (co_node M)) req v = (Ok p, v') \<and> DeletionTimestamp p \<noteq> None)"

definition helm_failed :: "'w ca_operator \<Rightarrow> bool" where
  "helm_failed M \<longleftrightarrow> (\<exists>opts n ch vs v e v'. helm_Upgrade (no_helm (co_node M)) opts n ch vs v = (Err e, v')
     \<or> helm_Install (no_helm (co_node M)) opts n ch vs v = (Err e, v'))"

definition state_unknown :: "'w ca_operator \<Rightarrow> string \<times> string \<Rightarrow> bool" where
  "state_unknown M req \<longleftrightarrow> (\<exists>hlf v s v'. GetCAState M hlf (snd req) (fst req) v = (Ok s, v') \<and> cast_Status s = UnknownStatus)"

lemma ca_goneI:
  "client_get (no_client (co_node M)) req v = (Err e, v') \<Longrightarrow> isNotFound e \<Longrightarrow> ca_gone M req"
  "client_get (no_client (co_node M)) req v = (Ok p, v') \<Longrightarrow> DeletionTimestamp p \<noteq> None \<Longrightarrow> ca_gone M req"
  unfolding ca_gone_def by blast+

lemma helm_failedI:
  "helm_Upgrade (no_helm (co_node M)) opts n ch vs v = (Err e, v') \<Longrightarrow> helm_failed M"
  "helm_Install (no_helm (co_node M)) opts n ch vs v = (Err e, v') \<Longrightarrow> helm_failed M"
  unfolding helm_failed_def by blast+

lemma ca_upgradeChart_stops:
  assumes "ca_upgradeChart M release ns hlf finish w = (r, w')" and "\<not> retried r"
  shows "helm_failed M \<or> (\<exists>v. finish v = (r, w'))"
  using assms unfolding ca_upgradeChart_def Let_def attempt_def
  by (auto split: prod.splits elim!: bind_stops try_stops dest: helm_failedI)

lemma update_ca_stops:
  assumes "update_ca M req st hlf w = (r, w')" and "\<not> retried r"
  shows "ca_gone M req \<or> helm_failed M \<or> state_unknown M req"
proof -
  let ?K = "no_client (co_node M)"
  obtain ns release where req: "req = (ns, release)" by fastforce
  from assms obtain s v where s: "GetCAState M hlf release ns w = (Ok s, v)"
    and rest: "io_try (client_get ?K req)
        (\<lambda>hlf w. (let fca = ca_observed (clock_now ?K w) s hlf in
           if hr_Status st \<noteq> StatusPendingUpgrade
           then ca_upgradeChart M release ns hlf (ca_finish M s hlf fca) w
           else ca_finish M s hlf fca w))
        (\<lambda>err. if isNotFound err then io_return no_requeue else io_throw err) v = (r, w')"
    unfolding update_ca_def req Let_def prod.case by (elim bind_stops)
  have unknown: "state_unknown M req" if "ca_finish M s h f u = (r, w')" for h f u
    using s GetCAState_status [OF s] ca_finish_stops [OF that assms(2)] unfolding state_unknown_def req by auto
  from rest assms(2) show ?thesis
  proof (cases rule: try_stops)
    case (ok h u)
    then show ?thesis
      by (auto simp: Let_def split: if_splits dest: unknown dest!: ca_upgradeChart_stops [OF _ assms(2)])
  next
    case (err e u)
    then show ?thesis using assms(2) by (auto simp: ca_gone_def io_throw_apply split: if_splits)
  qed
qed

lemma install_ca_stops:
  assumes "install_ca M req hlf w = (r, w')" and "\<not> retried r"
  shows "helm_failed M"
proof -
  obtain ns release where req: "req = (ns, release)" by fastforce
  have late: "io_return (requeue_after (10 * Second)) v = (r, w') \<Longrightarrow> False" for v
    using assms(2) by (auto simp: io_return_apply requeue_after_def Second_def)
  show ?thesis using assms(1) unfolding install_ca_def req Let_def prod.case attempt_def
    by (elim bind_stops [OF _ assms(2)]) (auto simp: assms(2) split: prod.splits
      elim!: bind_stops [OF _ assms(2)] try_stops [OF _ assms(2)] dest: late helm_failedI)
qed


section \<open>Instances\<close>

text \<open>A memory of secrets by name, and a library that certifies one name or none.\<close>

type_synonym secret_memory = "string \<Rightarrow> (string \<rightharpoonup> string) option"

definition crypto_mem :: "secret_memory crypto" where
  "crypto_mem = crypto_one\<lparr>secrets_of := \<lambda>_ n w. (case w n of Some d \<Rightarrow> Ok d | None \<Rightarrow> Err (NotFound n), w)\<rparr>"

definition x509_one :: "'w x509_lib" where
  "x509_one = \<lparr>cert_DNSNames = (\<lambda>c. if x509_Raw c = ''tls'' then [''ca''] else []),
     cert_IPAddresses = (\<lambda>c. if x509_Raw c = ''tls'' then [loopback] else []),
     x509_CreateCertificate = (\<lambda>t _. if DNSNames t = [''ca''] \<and> IPAddresses t = [loopback] then io_return ''tls''
       else if DNSNames t = [] \<and> IPAddresses t = [] then io_return ''ca'' else io_throw (ErrorString ''unsupported'')),
     elliptic_Marshal = (\<lambda>k. case k of ECDSAKey s \<Rightarrow> s), Sum256 = rev\<rparr>"

definition services_mem :: "secret_memory ca_services" where
  "services_mem = \<lparr>svc_pki = \<lparr>pki_crypto = crypto_mem, pki_ca = mem_ca, pki_vault = vault_two\<rparr>, svc_x509 = x509_one\<rparr>"

lemma crypto_laws: "codec_law (crypto_one :: 'w crypto)" "codec_law crypto_mem"
  by (auto simp: codec_law_def crypto_mem_def crypto_one_def split: ecdsa_key.splits)

lemma template_law_mem: "template_law crypto_mem x509_one"
  by (auto simp: template_law_def x509_one_def crypto_mem_def crypto_one_def io_simps split: if_splits)

definition ca_item0 :: "string \<Rightarrow> FabricCAItemConf" where
  "ca_item0 name = \<lparr>conf_Name = name,
     conf_CFG = \<lparr>cfg_Identities_AllowRemove = True, cfg_Affiliations_AllowRemove = True\<rparr>,
     conf_Subject = \<lparr>subject_CN = name, subject_C = ''US'', subject_ST = [], subject_O = ''Org'', subject_L = [], subject_OU = []\<rparr>,
     conf_CSR = \<lparr>cacsr_CN = name, cacsr_Hosts = [''localhost''], cacsr_Names = [], cacsr_Expiry = ''131400h'', cacsr_PathLength = 0\<rparr>,
     conf_Signing = None, conf_CRL = ''24h'', conf_Registry = \<lparr>registry_MaxEnrollments = -1, registry_Identities = []\<rparr>,
     conf_Intermediate = \<lparr>parent_URL = [], parent_CAName = []\<rparr>,
     conf_BCCSP = \<lparr>bccsp_Default = ''SW'', bccsp_Hash = ''SHA2'', bccsp_Security = ''256''\<rparr>, conf_Affiliations = [], conf_CA = None\<rparr>"

definition ca_spec0 :: FabricCASpec where
  "ca_spec0 = \<lparr>cas_PodAnnotations = Map.empty, cas_PodLabels = Map.empty, cas_Affinity = None, cas_Tolerations = [],
     cas_ImagePullSecrets = [], cas_NodeSelector = None, cas_ServiceMonitor = None, cas_GatewayApi = None, cas_Istio = None,
     cas_Traefik = None, cas_Database = \<lparr>cadb_Type = ''sqlite3'', cadb_Datasource = ''fabric-ca-server.db''\<rparr>,
     cas_Hosts = [''ca''], cas_ServiceType = ''ClusterIP'', cas_Image = ''hyperledger/fabric-ca'', cas_Version = ''1.5'',
     cas_Debug = False, cas_CLRSizeLimit = 512000, cas_TLS = conf_Subject (ca_item0 ''tls''), cas_CA = ca_item0 ''ca'',
     cas_TLSCA = ca_item0 ''tlsca'', cas_Cors = \<lparr>cors_Enabled = False, cors_Origins = []\<rparr>, cas_Resources = K8s [],
     cas_Storage = zero_storage,
     cas_Metrics = \<lparr>metrics_Provider = ''disabled'', metrics_Statsd = Some \<lparr>statsd_Network = ''udp'', statsd_Address = [],
       statsd_WriteInterval = ''10s'', statsd_Prefix = []\<rparr>\<rparr>,
     cas_CredentialStore = ''kubernetes'', cas_Vault = None, cas_Env = [], cas_Replicas = Some 1\<rparr>"

definition ca_p0 :: FabricCAResource where
  "ca_p0 = \<lparr>crName = ''ca0'', crNamespace = ''n'', Finalizers = [caFinalizer], DeletionTimestamp = None, crConditions = [],
     crMessage = [], crStatus = [], castatus_NodePort = 0, castatus_TlsCert = [], castatus_CACert = [], castatus_TLSCACert = [],
     ca_Spec = ca_spec0\<rparr>"

text \<open>Later: another version, an address among the hosts, and a Vault that is not configured.\<close>

definition ca_p1 :: FabricCAResource where
  "ca_p1 = ca_p0\<lparr>ca_Spec := ca_spec0\<lparr>cas_Version := ''1.6'', cas_Hosts := [''10.0.0.1'', ''ca''], cas_CredentialStore := ''vault''\<rparr>\<rparr>"

lemma ca_hosts:
  "getDNSNames (ca_Spec ca_p0) = [''ca'']" "getDNSNames (ca_Spec ca_p1) = [''ca'']" "getIPAddresses ca_spec0 = [loopback]"
  by (simp_all add: getDNSNames_def getIPAddresses_def ca_p0_def ca_p1_def ca_spec0_def ParseIP_simps map_filter_simps)

definition msp0 :: Msp where
  "msp0 = \<lparr>CARef = None, TLSCARef = None, Keyfile = ''k'', Certfile = ''ca'', Chainfile = [], TLSCAKeyfile = ''k'',
     TLSCACertfile = ''ca'', TLSCAChainfile = [], TlsKeyFile = ''k'', TlsCertFile = ''tls''\<rparr>"

definition statsd0 :: FabricCAMetricsStatsd where
  "statsd0 = \<lparr>statsd_Network = ''udp'', statsd_Address = [], statsd_WriteInterval = ''10s'', statsd_Prefix = []\<rparr>"

lemma ca_p0_simps:
  "ca_Spec ca_p0 = ca_spec0" "crName ca_p0 = ''ca0''" "cas_CA ca_spec0 = ca_item0 ''ca''" "cas_TLSCA ca_spec0 = ca_item0 ''tlsca''"
  "cas_CredentialStore ca_spec0 = CredentialStoreKubernetes" "given_ref (ca_item0 n) = None" "given_pair (ca_item0 n) = None"
  "chain_of (ca_item0 n) = []" "ca_statsd ca_spec0 = Ok statsd0"
  by (simp_all add: ca_p0_def ca_spec0_def ca_item0_def CredentialStoreKubernetes_def given_ref_def given_pair_def chain_of_def
    ca_statsd_def statsd0_def)

definition pair_named :: "string \<Rightarrow> key_pair" where
  "pair_named raw = (\<lparr>x509_Raw = raw, NotAfter = 100\<rparr>, ECDSAKey ''k'')"

lemma mem_encodes: "EncodePrivateKey crypto_mem (ECDSAKey k) = Ok k" "pem_of crypto_mem crt = x509_Raw crt"
  by (simp_all add: EncodePrivateKey_def pem_of_def EncodeX509Certificate_def crypto_mem_def crypto_one_def)

lemma services_mem_simps: "pki_crypto (svc_pki services_mem) = crypto_mem" "svc_x509 services_mem = x509_one"
  "pki_vault (svc_pki services_mem) = vault_two"
  by (simp_all add: services_mem_def)

lemma services_mem_laws: "codec_law (pki_crypto (svc_pki services_mem))"
  "template_law (pki_crypto (svc_pki services_mem)) (svc_x509 services_mem)"
  by (simp_all add: services_mem_simps crypto_laws template_law_mem)

lemma mem_created:
  "CreateDefaultTLSCert services_mem ca_spec0 w = (Ok (pair_named ''tls''), w)"
  "CreateDefaultCA services_mem (ca_item0 n) w = (Ok (pair_named ''ca''), w)"
  using ca_hosts [unfolded ca_p0_simps]
  by (simp_all add: CreateDefaultTLSCert_def CreateDefaultCA_def services_mem_simps x509_one_def crypto_mem_def crypto_one_def
    vault_two_def or_exit_def sign_template_def pair_named_def Let_def io_simps)

lemma mem_absent:
  "pair_in crypto_mem a b n ns Map.empty = (Err (NotFound n), Map.empty)"
  by (simp add: pair_in_def crypto_mem_def io_simps)

lemma ca_p0_installs: "ca_GetConfig services_mem ca_p0 ''ca0'' ''n'' Map.empty = (Ok (ca_chart ca_p0 msp0 statsd0), Map.empty)"
proof -
  have "ca_tls_material services_mem ca_p0 ''ca0'' ''n'' Map.empty = (Ok (pair_named ''tls''), Map.empty)"
    by (simp add: ca_tls_material_def ca_getExistingTLSCrypto_def services_mem_simps mem_absent CreateDefaultTLSCertCommon_def
      on_store_def ca_p0_simps mem_created io_simps)
  moreover have "authority_material services_mem ca_p0 (ca_item0 n) t (pair_in crypto_mem a b c d) Map.empty =
      (Ok (None, Some (pair_named ''ca'')), Map.empty)" for n t a b c d
    by (simp add: authority_material_def mem_absent CreateDefaultCACommon_def on_store_def ca_p0_simps mem_created io_simps)
  moreover have "msp_of crypto_mem ca_spec0 None None (pair_named ''tls'') (Some (pair_named ''ca'')) (Some (pair_named ''ca'')) ''k'' ''k'' ''k'' = msp0"
    by (simp add: msp_of_def msp0_def pair_named_def encode_cert_def mem_encodes ca_p0_simps)
  ultimately show ?thesis unfolding ca_GetConfig_Ok Let_def services_mem_simps ca_p0_simps
    by (auto simp: ca_getExistingSignCrypto_def getExistingSignTLSCrypto_def pair_named_def encode_key_def mem_encodes)
qed

lemma ca_p1_simps:
  "cas_CA (ca_Spec ca_p1) = ca_item0 ''ca''" "cas_TLSCA (ca_Spec ca_p1) = ca_item0 ''tlsca''"
  "metrics_Statsd (cas_Metrics (ca_Spec ca_p1)) = Some statsd0" "cas_Hosts (ca_Spec ca_p1) = [''10.0.0.1'', ''ca'']"
  by (simp_all add: ca_p1_def ca_spec0_def statsd0_def)

text \<open>The secrets once Helm has applied the chart.\<close>

definition mem_secrets :: secret_memory where
  "mem_secrets = ca_chart_secrets ''ca0'' (ca_chart ca_p0 msp0 statsd0)"

lemma mem_applied: "chart_applied crypto_mem ''n'' ''ca0'' (ca_chart ca_p0 msp0 statsd0) mem_secrets"
  by (auto simp: chart_applied_def mem_secrets_def crypto_mem_def crypto_one_def split: option.split)

lemma mem_fullname: "ca_fullname ''ca0'' (crName ca_p0) = ''ca0''"
  by (simp add: ca_fullname_def trim_dash_def ca_p0_simps)

theorem ca_certificates_survive_witness:
  "\<exists>c. ca_GetConfig services_mem ca_p1 ''ca0'' ''n'' mem_secrets = (Ok c, mem_secrets) \<and> cach_Msp c = msp0"
proof -
  have "\<exists>c. ca_GetConfig services_mem ca_p1 ''ca0'' ''n'' mem_secrets = (Ok c, mem_secrets)
      \<and> cach_Msp c = (cach_Msp (ca_chart ca_p0 msp0 statsd0))\<lparr>Chainfile := chain_of (cas_CA (ca_Spec ca_p1)),
          TLSCAChainfile := chain_of (cas_TLSCA (ca_Spec ca_p1))\<rparr>"
    by (rule ca_certificates_survive [OF services_mem_laws ca_p0_installs mem_applied [folded services_mem_simps(1)] mem_fullname])
      (simp_all add: ca_hosts msp0_def ca_p1_simps)
  then show ?thesis by (simp add: ca_p1_simps ca_p0_simps msp0_def)
qed

lemma mem_pairs:
  "ca_getExistingTLSCrypto crypto_mem ''ca0'' ''n'' mem_secrets = (Ok (pair_named ''tls''), mem_secrets)"
  "ca_getExistingSignCrypto crypto_mem ''ca0'' ''n'' mem_secrets = (Ok (pair_named ''ca''), mem_secrets)"
  "getExistingSignTLSCrypto crypto_mem ''ca0'' ''n'' mem_secrets = (Ok (pair_named ''ca''), mem_secrets)"
proof -
  note secrets = chart_appliedD [OF mem_applied, unfolded ca_chart_name, OF mem_fullname, unfolded ca_chart_msp]
  note parts = pair_in_def pair_of_def crypto_mem_def crypto_one_def secret_value_def ca_parseECDSAPrivateKey_def
    ca_parseX509Certificate_def pair_named_def msp0_def tls_cryptomaterial_def msp_cryptomaterial_def msp_tls_cryptomaterial_def
  show "ca_getExistingTLSCrypto crypto_mem ''ca0'' ''n'' mem_secrets = (Ok (pair_named ''tls''), mem_secrets)"
    using secrets(1) by (simp add: ca_getExistingTLSCrypto_def parts io_simps)
  show "ca_getExistingSignCrypto crypto_mem ''ca0'' ''n'' mem_secrets = (Ok (pair_named ''ca''), mem_secrets)"
    using secrets(2) by (simp add: ca_getExistingSignCrypto_def parts io_simps)
  show "getExistingSignTLSCrypto crypto_mem ''ca0'' ''n'' mem_secrets = (Ok (pair_named ''ca''), mem_secrets)"
    using secrets(3) by (simp add: getExistingSignTLSCrypto_def parts io_simps)
qed

lemma ca_p1_reads: "\<exists>c. ca_GetConfig services_mem ca_p1 ''ca0'' ''n'' mem_secrets = (Ok c, mem_secrets)"
proof -
  have "ca_tls_material services_mem ca_p1 ''ca0'' ''n'' mem_secrets = (Ok (pair_named ''tls''), mem_secrets)"
    by (simp add: ca_tls_material_def services_mem_simps mem_pairs pair_named_def renewed_iff x509_one_def ca_hosts io_simps)
  then show ?thesis unfolding ca_GetConfig_Ok Let_def services_mem_simps
    by (auto simp: authority_material_def mem_pairs io_simps pair_named_def encode_key_def mem_encodes ca_statsd_def ca_p1_simps)
qed

theorem ca_tls_renewed_by_names_witness:
  "\<exists>c. ca_GetConfig services_mem ca_p1 ''ca0'' ''n'' mem_secrets = (Ok c, mem_secrets) \<and> TlsCertFile (cach_Msp c) = ''tls''
     \<and> cert_IPAddresses x509_one (fst (pair_named ''tls'')) \<noteq> getIPAddresses (ca_Spec ca_p1)"
proof -
  obtain c where c: "ca_GetConfig services_mem ca_p1 ''ca0'' ''n'' mem_secrets = (Ok c, mem_secrets)" using ca_p1_reads by blast
  have "filter (\<lambda>h. ParseIP h = None) (cas_Hosts (ca_Spec ca_p1)) = [''ca'']" using ca_hosts(2) by (simp add: getDNSNames_def)
  then have "TlsCertFile (cach_Msp c) = ''tls''"
    using ca_tls_renewed_by_names [OF services_mem_laws mem_pairs(1) [folded services_mem_simps(1), unfolded pair_named_def] c]
    by (simp add: services_mem_simps x509_one_def mem_encodes)
  with c show ?thesis by (auto simp: x509_one_def pair_named_def getIPAddresses_def ca_p1_simps ParseIP_simps map_filter_simps)
qed

definition ca_p2 :: FabricCAResource where
  "ca_p2 = ca_p0\<lparr>ca_Spec := ca_spec0\<lparr>cas_Metrics := \<lparr>metrics_Provider = ''prometheus'', metrics_Statsd = None\<rparr>\<rparr>\<rparr>"

theorem missing_statsd_never_charted_witness:
  "\<forall>c. fst (ca_GetConfig services_mem ca_p2 ''ca0'' ''n'' Map.empty) \<noteq> Ok c"
  by (intro allI missing_statsd_never_charted) (simp add: ca_p2_def)

text \<open>An operator over constant secrets: those of the authority, and the secret its user names.\<close>

definition crypto_const :: "'w crypto" where
  "crypto_const = crypto_one\<lparr>secrets_of := \<lambda>_ n. io_return (if n = ''mine'' then [''keyfile'' \<mapsto> ''k2'', ''certfile'' \<mapsto> ''c2'']
     else [''keyfile'' \<mapsto> ''k1'', ''certfile'' \<mapsto> ''c1'', ''tls.key'' \<mapsto> ''k'', ''tls.crt'' \<mapsto> ''tls''])\<rparr>"

definition ca_svc :: k8s_service where
  "ca_svc = \<lparr>svc_Name = ''ca0'', svc_Namespace = ''n'', svc_Labels = Map.empty, svc_Type = ''ClusterIP'',
     svc_Ports = [\<lparr>sp_Name = ''https'', sp_Protocol = ''TCP'', sp_Port = 7054, sp_TargetPort = 7054, sp_NodePort = 30054\<rparr>],
     svc_Selector = Map.empty\<rparr>"

definition ca_M :: "FabricCAResource \<Rightarrow> lease_memory ca_operator" where
  "ca_M p = \<lparr>co_node = (mem_operator p)\<lparr>no_kube := (kube_memory ''pod'')\<lparr>deployments_Get := \<lambda>_ _. io_return 1,
       services_Get := \<lambda>_ _. io_return ca_svc\<rparr>\<rparr>,
     co_services = \<lparr>svc_pki = \<lparr>pki_crypto = crypto_const, pki_ca = mem_ca, pki_vault = vault_two\<rparr>, svc_x509 = x509_one\<rparr>\<rparr>"

lemma ca_M_simps:
  "pki_crypto (svc_pki (co_services (ca_M p))) = crypto_const" "svc_x509 (co_services (ca_M p)) = x509_one"
  "no_client (co_node (ca_M p)) = mem_client p" "no_helm (co_node (ca_M p)) = mem_helm"
  by (simp_all add: ca_M_def mem_operator_def)

lemma long_name: "4 < length x \<Longrightarrow> n @ x \<noteq> (''mine'' :: string)"
  by (auto dest: arg_cong [where f = length])

lemma const_pairs:
  "ca_getExistingTLSCrypto crypto_const n ns v = (Ok (pair_named ''tls''), v)"
  "ca_getExistingSignCrypto crypto_const n ns v = (Ok (\<lparr>x509_Raw = ''c1'', NotAfter = 100\<rparr>, ECDSAKey ''k1''), v)"
  "getExistingSignTLSCrypto crypto_const n ns v = (Ok (\<lparr>x509_Raw = ''c1'', NotAfter = 100\<rparr>, ECDSAKey ''k1''), v)"
  "getAlreadyExistingCrypto crypto_const ''mine'' ns v = (Ok (\<lparr>x509_Raw = ''c2'', NotAfter = 100\<rparr>, ECDSAKey ''k2''), v)"
  by (simp_all add: ca_getExistingTLSCrypto_def ca_getExistingSignCrypto_def getExistingSignTLSCrypto_def
    getAlreadyExistingCrypto_def pair_in_def pair_of_def crypto_const_def crypto_one_def secret_value_def long_name
    ca_parseECDSAPrivateKey_def ca_parseX509Certificate_def pair_named_def io_simps)

lemma const_encodes: "EncodePrivateKey crypto_const (ECDSAKey k) = Ok k" "pem_of crypto_const crt = x509_Raw crt"
  by (simp_all add: EncodePrivateKey_def pem_of_def EncodeX509Certificate_def crypto_const_def crypto_one_def)

lemma const_config: "getDNSNames (ca_Spec p) = [''ca''] \<Longrightarrow> metrics_Statsd (cas_Metrics (ca_Spec p)) \<noteq> None \<Longrightarrow>
    \<exists>c. ca_GetConfig (co_services (ca_M q)) p n ns w = (Ok c, w)"
  by (auto simp: ca_GetConfig_Ok Let_def ca_M_simps ca_tls_material_def authority_material_def const_pairs pair_named_def
    renewed_iff x509_one_def encode_key_def const_encodes ca_statsd_def io_simps)

definition ca_p3 :: FabricCAResource where
  "ca_p3 = ca_p0\<lparr>ca_Spec := ca_spec0\<lparr>cas_CA := (ca_item0 ''ca'')\<lparr>conf_CA :=
     Some \<lparr>crypto_Key = [], crypto_SecretRef = Some ''mine'', crypto_Cert = [], crypto_Chain = []\<rparr>\<rparr>\<rparr>\<rparr>"

lemma ca_p3_simps: "given_ref (cas_CA (ca_Spec ca_p3)) = Some ''mine''" "given_ref (cas_TLSCA (ca_Spec ca_p3)) = None"
  "getDNSNames (ca_Spec ca_p3) = [''ca'']" "metrics_Statsd (cas_Metrics (ca_Spec ca_p3)) \<noteq> None"
  using ca_hosts(1) [unfolded getDNSNames_def ca_p0_simps]
  by (simp_all add: ca_p3_def given_ref_def ca_p0_simps getDNSNames_def ca_spec0_def ca_item0_def)

lemma ca_p3_state: "\<exists>s. GetCAState (ca_M ca_p3) ca_p3 ''ca0'' ''n'' no_lease = (Ok s, no_lease)"
proof -
  have "no_kube (co_node (ca_M ca_p3)) = (kube_memory ''pod'')\<lparr>deployments_Get := \<lambda>_ _. io_return 1, services_Get := \<lambda>_ _. io_return ca_svc\<rparr>"
    by (simp add: ca_M_def)
  then show ?thesis
    by (simp add: GetCAState_def ca_certs_state_def ca_M_simps kube_memory_def GetPublicIPKubernetes_def collect_addresses_def
      first_port_def ca_svc_def reported_pair_def ca_p3_simps const_pairs pair_named_def Let_def io_simps)
qed

theorem reported_authority_not_the_one_used_witness:
  "\<exists>c s. ca_GetConfig (co_services (ca_M ca_p3)) ca_p3 ''ca0'' ''n'' no_lease = (Ok c, no_lease)
     \<and> GetCAState (ca_M ca_p3) ca_p3 ''ca0'' ''n'' no_lease = (Ok s, no_lease)
     \<and> Certfile (cach_Msp c) = ''c1'' \<and> cast_CACert s = ''c2''"
proof -
  obtain c s where c: "ca_GetConfig (co_services (ca_M ca_p3)) ca_p3 ''ca0'' ''n'' no_lease = (Ok c, no_lease)"
    and s: "GetCAState (ca_M ca_p3) ca_p3 ''ca0'' ''n'' no_lease = (Ok s, no_lease)"
    using const_config [OF ca_p3_simps(3,4)] ca_p3_state by blast
  from reported_authority_not_the_one_used [of ca_p3 _ "ca_M ca_p3", unfolded ca_M_simps, OF ca_p3_simps(1) const_pairs(2,4) c s]
  show ?thesis using c s by (auto simp: const_encodes)
qed

text \<open>Two authorities of one name in two namespaces, and one Vault.\<close>

definition ca_vault :: FabricCAVaultSpec where
  "ca_vault = \<lparr>cav_Vault = \<lparr>vault_URL = ''https://v'', TokenSecretRef = Some \<lparr>vsr_Name = ''t'', vsr_Namespace = [], vsr_Key = ''token''\<rparr>,
     vault_Role = [], SecretIdSecretRef = None, ServerCert = [], vault_ServerName = [], ClientCert = [], ClientKeySecretRef = None,
     vault_CACert = [], TLSSkipVerify = True, vault_Timeout = [], MaxRetries = 2\<rparr>\<rparr>"

definition ca_v :: "string \<Rightarrow> FabricCAResource" where
  "ca_v ns = ca_p0\<lparr>crNamespace := ns, ca_Spec := ca_spec0\<lparr>cas_Vault := Some ca_vault, cas_CredentialStore := ''vault''\<rparr>\<rparr>"

definition services_vault :: "vault_memory ca_services" where
  "services_vault = \<lparr>svc_pki = \<lparr>pki_crypto = crypto_one, pki_ca = mem_ca, pki_vault = vault_one\<rparr>, svc_x509 = x509_one\<rparr>"

lemma ca_vault_client: "vault_GetClient crypto_one vault_one (cav_Vault ca_vault) u = (Ok (VaultClient ''v''), u)"
  by (simp add: vault_GetClient_def vault_tls_of_def vault_timeout_def authenticate_def referenced_def ca_vault_def vault_one_def
    crypto_one_def io_simps)

lemma services_vault_simps: "pki_crypto (svc_pki services_vault) = crypto_one" "pki_vault (svc_pki services_vault) = vault_one"
  by (simp_all add: services_vault_def)

lemma ca_v_creates: "\<exists>crt key w'. ca_CreateDefaultCAWithVault services_vault (ca_v ''one'') (ca_item0 ''ca'') ''ca'' (Map.empty, 0) = (Ok (crt, key), w')"
  by (simp add: ca_CreateDefaultCAWithVault_def services_vault_simps ca_v_def ca_vault_client Let_def CreateCA_def io_simps)
    (simp add: vault_one_def crypto_one_def new_ca_def io_simps)

theorem same_name_same_authority_witness:
  "\<exists>crt key w' w''. ca_CreateDefaultCAWithVault services_vault (ca_v ''one'') (ca_item0 ''ca'') ''ca'' (Map.empty, 0) = (Ok (crt, key), w')
     \<and> ca_CreateDefaultCAWithVault services_vault (ca_v ''two'') (ca_item0 ''other'') ''ca'' w' = (Ok (crt, key), w'')"
proof -
  obtain crt key w' where first: "ca_CreateDefaultCAWithVault services_vault (ca_v ''one'') (ca_item0 ''ca'') ''ca'' (Map.empty, 0) = (Ok (crt, key), w')"
    using ca_v_creates by blast
  have none: "\<not> holds_ca vault_one (VaultClient ''v'') n (Map.empty, 0)" for n
    by (simp add: holds_ca_def vault_one_def)
  from same_name_same_authority [OF vault_one_laws [folded services_vault_simps] _ _ _ ca_vault_client [folded services_vault_simps]
      none [folded services_vault_simps(2)] first, of "ca_v ''two''" "ca_item0 ''other''"]
  obtain w'' where "ca_CreateDefaultCAWithVault services_vault (ca_v ''two'') (ca_item0 ''other'') ''ca'' w' = (Ok (crt, key), w'')"
    by (auto simp: ca_v_def)
  with first show ?thesis by blast
qed


end
