(* ===== verification/Kube_Objects.thy ===== *)
theory Kube_Objects imports Prelude begin

text \<open>
  The clients of the Kubernetes API server the smaller controllers use: the operations on the objects of
  one kind, and secrets.
\<close>

text \<open>By namespace and name, or on the object itself.\<close>

record ('w, 'o) kube_objects =
  obj_Get :: "string \<Rightarrow> string \<Rightarrow> ('w, 'o) io"
  obj_Create :: "'o \<Rightarrow> ('w, 'o) io"
  obj_Update :: "'o \<Rightarrow> ('w, 'o) io"
  obj_Delete :: "string \<Rightarrow> string \<Rightarrow> ('w, unit) io"

record k8s_secret =
  sec_Name :: string
  sec_Namespace :: string
  sec_Data :: "string \<rightharpoonup> string"
  sec_Owners :: "string list"

end
