(* ===== verification/Identity_Controller.thy ===== *)
theory Identity_Controller imports Node_Crypto Reconciler Kube_Objects begin

text \<open>
  \<open>FabricIdentityReconciler\<close> (\<open>controllers/identity/identity_controller.go\<close>): an identity is registered
  with its certificate authority, enrolled or, when its certificate ends soon, renewed, and kept in a
  secret of its name.  \<open>Reconcile\<close> is one function in the code; each definition below is a stretch of it.
\<close>

section \<open>The resource\<close>

record FabricIdentityAttributeRequest =
  ar_Name :: string
  ar_Optional :: bool

record FabricIdentityAttributes =
  ia_Name :: string
  ia_Value :: string
  ia_ECert :: bool

record FabricIdentityRegister =
  ir_Enrollid :: string
  ir_Enrollsecret :: string
  ir_Type :: string
  ir_Affiliation :: string
  ir_MaxEnrollments :: int
  ir_Attributes :: "FabricIdentityAttributes list"

record FabricIdentitySpec =
  id_Cahost :: string
  id_Caname :: string
  id_Caport :: int
  id_Catls :: "Catls option"
  id_Enrollid :: string
  id_Enrollsecret :: string
  id_MSPID :: string
  id_AttributeRequest :: "FabricIdentityAttributeRequest list"
  id_Register :: "FabricIdentityRegister option"
  id_UpdateCertificateTime :: "time option"
  id_Vault :: "VaultComponent option"
  id_CredentialStore :: string

record FabricIdentityResource = custom_resource +
  id_Spec :: FabricIdentitySpec

text \<open>
  The reconciler with its clients.  \<open>SetControllerReference\<close> makes the identity the owner of the secret;
  \<open>user_yaml\<close> marshals a key and a certificate as a user of a network configuration.
\<close>

record 'w identity_operator =
  io_client :: "('w, FabricIdentityResource) client"
  io_pki :: "'w pki"
  io_GetClientKubeWithConf :: "('w, unit) io"
  secret_Get :: "string \<Rightarrow> string \<Rightarrow> ('w, k8s_secret) io"
  secret_Create :: "k8s_secret \<Rightarrow> ('w, k8s_secret) io"
  secret_Update :: "k8s_secret \<Rightarrow> ('w, k8s_secret) io"
  SetControllerReference :: "FabricIdentityResource \<Rightarrow> k8s_secret \<Rightarrow> k8s_secret res"
  user_yaml :: "string \<Rightarrow> string \<Rightarrow> string res"
  io_AutoRenewCertificates :: bool
  io_AutoRenewCertificatesDelta :: int

section \<open>Certificates\<close>

definition identity_url :: "FabricIdentitySpec \<Rightarrow> string" where
  "identity_url spec = ''https://'' @ id_Cahost spec @ '':'' @ itoa (id_Caport spec)"

definition identity_getEnrollRequestForFabricCA ::
  "'w crypto \<Rightarrow> FabricIdentityResource \<Rightarrow> ('w, EnrollUserRequest) io" where
  "identity_getEnrollRequestForFabricCA K conf = (let spec = id_Spec conf in
     io_bind (getCertBytesFromCATLS K (id_Catls spec)) (\<lambda>cacert.
       io_return \<lparr>eu_TLSCert = cacert, eu_URL = identity_url spec, eu_Name = id_Caname spec, eu_MSPID = id_MSPID spec,
         eu_User = id_Enrollid spec, eu_Secret = id_Enrollsecret spec, eu_Hosts = [], eu_CN = [], eu_Profile = [],
         eu_Attributes = []\<rparr>))"

definition identity_getEnrollRequestForVault :: "FabricIdentityResource \<Rightarrow> vault_EnrollUserRequest" where
  "identity_getEnrollRequestForVault conf =
     \<lparr>ve_MSPID = id_MSPID (id_Spec conf), ve_User = id_Enrollid (id_Spec conf), ve_Hosts = [], ve_CN = crName conf\<rparr>"

text \<open>The profile is an argument the code does not use.\<close>

definition identity_getReenrollRequestForFabricCA ::
  "'w crypto \<Rightarrow> FabricIdentityResource \<Rightarrow> string \<Rightarrow> ('w, ReenrollUserRequest) io" where
  "identity_getReenrollRequestForFabricCA K conf profile = (let spec = id_Spec conf in
     io_bind (getCertBytesFromCATLS K (id_Catls spec)) (\<lambda>cacert.
       io_return \<lparr>ru_EnrollID = id_Enrollid spec, ru_TLSCert = cacert, ru_URL = identity_url spec, ru_Name = id_Caname spec,
         ru_MSPID = id_MSPID spec, ru_Hosts = [], ru_CN = [], ru_Profile = [], ru_Attributes = []\<rparr>))"

definition identity_getReenrollRequestForVault :: "FabricIdentityResource \<Rightarrow> vault_ReenrollUserRequest" where
  "identity_getReenrollRequestForVault conf =
     \<lparr>vr_EnrollID = [], vr_MSPID = id_MSPID (id_Spec conf), vr_Hosts = [], vr_CN = crName conf\<rparr>"

text \<open>\<open>&conf.Spec.Vault.Vault\<close>, which panics without a Vault section.\<close>

definition identity_vault :: "FabricIdentityResource \<Rightarrow> (VaultComponent \<Rightarrow> ('w, 'b) io) \<Rightarrow> ('w, 'b) io" where
  "identity_vault conf f = (case id_Vault (id_Spec conf) of
      None \<Rightarrow> io_panic ''nil pointer dereference'' | Some v \<Rightarrow> f v)"

definition identity_CreateSignCryptoMaterial :: "'w pki \<Rightarrow> FabricIdentityResource \<Rightarrow> ('w, material) io" where
  "identity_CreateSignCryptoMaterial P conf =
     (if id_CredentialStore (id_Spec conf) = CredentialStoreVault
      then identity_vault conf (\<lambda>v. vault_EnrollUser (pki_crypto P) (pki_vault P) (vc_Vault v) (vc_Request v)
        (identity_getEnrollRequestForVault conf))
      else io_bind (identity_getEnrollRequestForFabricCA (pki_crypto P) conf) (EnrollUser (pki_crypto P) (pki_ca P)))"

definition identity_ReenrollSignCryptoMaterial ::
  "'w pki \<Rightarrow> FabricIdentityResource \<Rightarrow> string \<Rightarrow> ecdsa_key \<Rightarrow> ('w, material) io" where
  "identity_ReenrollSignCryptoMaterial P conf signCertPem privateKey =
     io_bind
       (if id_CredentialStore (id_Spec conf) = CredentialStoreVault
        then identity_vault conf (\<lambda>v. vault_ReenrollUser (pki_crypto P) (pki_vault P) (vc_Vault v) (vc_Request v)
          (identity_getReenrollRequestForVault conf) signCertPem privateKey)
        else io_bind (identity_getReenrollRequestForFabricCA (pki_crypto P) conf (id_Caname (id_Spec conf)))
          (\<lambda>req. ReenrollUser (pki_crypto P) (pki_ca P) req signCertPem privateKey))
       (\<lambda>(signCert, signRootCert). io_return (signCert, privateKey, signRootCert))"

section \<open>Registering\<close>

text \<open>An identity that is registered already is no error.  Affiliation and number of enrolments are not sent.\<close>

definition register_identity :: "'w identity_operator \<Rightarrow> FabricIdentityResource \<Rightarrow> ('w, unit) io" where
  "register_identity M p = (let spec = id_Spec p; P = io_pki M in
     case id_Register spec of
       Some r \<Rightarrow>
         (if id_CredentialStore spec = ''kubernetes''
          then io_bind (getCertBytesFromCATLS (pki_crypto P) (id_Catls spec)) (\<lambda>tlsCert.
            io_try (RegisterUser (pki_ca P)
                \<lparr>rg_TLSCert = tlsCert, rg_URL = identity_url spec, rg_Name = id_Caname spec, rg_MSPID = id_MSPID spec,
                 rg_EnrollID = ir_Enrollid r, rg_EnrollSecret = ir_Enrollsecret r, rg_User = id_Enrollid spec,
                 rg_Secret = id_Enrollsecret spec, rg_Type = ir_Type r,
                 rg_Attributes = map (\<lambda>a. \<lparr>attribute_Name = ia_Name a, attribute_Value = ia_Value a, attribute_ECert = ia_ECert a\<rparr>)
                   (ir_Attributes r)\<rparr>)
              (\<lambda>_. io_return ())
              (\<lambda>err. if str_contains (error_text err) ''already registered'' then io_return () else io_throw err))
          else io_return ())
     | None \<Rightarrow> io_return ())"

section \<open>The material\<close>

text \<open>
  What becomes of the search for material: it is there, the enrolment secret is refused, or another error.
\<close>

datatype identity_outcome = Have material | Refused | Failed go_error

definition read_identity :: "'w crypto \<Rightarrow> k8s_secret \<Rightarrow> material res" where
  "read_identity K secret =
     res_bind (x509_of K (secret_value (sec_Data secret) ''cert.pem'')) (\<lambda>x509Cert.
     res_bind (ecdsa_of K (secret_value (sec_Data secret) ''key.pem'')) (\<lambda>pk.
     res_bind (x509_of K (secret_value (sec_Data secret) ''root.pem'')) (\<lambda>rootCert.
       Ok (x509Cert, pk, rootCert))))"

definition identity_expires :: "'w identity_operator \<Rightarrow> x509_certificate \<Rightarrow> ('w, bool) io" where
  "identity_expires M crt =
     (if io_AutoRenewCertificates M
      then io_bind (io_total (time_Now (pki_crypto (io_pki M)))) (\<lambda>now.
        io_return (NotAfter crt < now + io_AutoRenewCertificatesDelta M))
      else io_return False)"

definition enroll_identity :: "'w identity_operator \<Rightarrow> FabricIdentityResource \<Rightarrow> ('w, identity_outcome) io" where
  "enroll_identity M p = io_try (identity_CreateSignCryptoMaterial (io_pki M) p) (\<lambda>m. io_return (Have m))
     (\<lambda>err. io_return (if str_contains (error_text err) ''Authentication failure'' then Refused else Failed err))"

definition renew_identity ::
  "'w identity_operator \<Rightarrow> FabricIdentityResource \<Rightarrow> material \<Rightarrow> ('w, identity_outcome) io" where
  "renew_identity M p m = (case m of (crt, pk, root) \<Rightarrow>
     io_try (identity_ReenrollSignCryptoMaterial (io_pki M) p (pem_of (pki_crypto (io_pki M)) crt) pk)
       (\<lambda>m. io_return (Have m))
       (\<lambda>err. if str_contains (error_text err) ''Authentication failure'' then enroll_identity M p
          else io_return (Failed err)))"

definition identity_material ::
  "'w identity_operator \<Rightarrow> FabricIdentityResource \<Rightarrow> k8s_secret option \<Rightarrow> ('w, identity_outcome) io" where
  "identity_material M p secret = (case secret of
       None \<Rightarrow> enroll_identity M p
     | Some s \<Rightarrow>
         io_try (io_lift (read_identity (pki_crypto (io_pki M)) s))
           (\<lambda>m. io_bind (identity_expires M (fst m)) (\<lambda>certificatesNeedToBeRenewed.
              if certificatesNeedToBeRenewed then renew_identity M p m else io_return (Have m)))
           (\<lambda>err. io_return (Failed err)))"

section \<open>Reconcile\<close>

definition identity_fail :: "'w identity_operator \<Rightarrow> FabricIdentityResource \<Rightarrow> go_error \<Rightarrow> ('w, Result) io" where
  "identity_fail M = report_failure FabricIdentity_setConditionStatus FabricIdentity_updateCRStatusOrFailReconcile (io_client M)"

definition identity_refused :: "'w identity_operator \<Rightarrow> FabricIdentityResource \<Rightarrow> ('w, Result) io" where
  "identity_refused M p =
     io_bind (FabricIdentity_setConditionStatus (io_client M) p FailedStatus False
         (Some (ErrorString ''enroll secret is not correct'')) False)
       (\<lambda>(p, _). FabricIdentity_updateCRStatusOrFailReconcileWithRequeue (io_client M) p False (0 * Second))"

definition identity_data :: "'w identity_operator \<Rightarrow> material \<Rightarrow> (string \<rightharpoonup> string) res" where
  "identity_data M m = (case m of (x509Cert, pk, rootCert) \<Rightarrow> let K = pki_crypto (io_pki M) in
     res_bind (EncodePrivateKey K pk) (\<lambda>pkBytes.
     res_bind (user_yaml M pkBytes (pem_of K x509Cert)) (\<lambda>userYaml.
       Ok [''cert.pem'' \<mapsto> pem_of K x509Cert, ''key.pem'' \<mapsto> pkBytes, ''root.pem'' \<mapsto> pem_of K rootCert,
           ''user.yaml'' \<mapsto> userYaml])))"

definition store_identity ::
  "'w identity_operator \<Rightarrow> FabricIdentityResource \<Rightarrow> k8s_secret option \<Rightarrow> (string \<rightharpoonup> string) \<Rightarrow> ('w, k8s_secret) io" where
  "store_identity M p secret data = (case secret of
       Some s \<Rightarrow> io_bind (io_lift (SetControllerReference M p (s\<lparr>sec_Data := data\<rparr>))) (secret_Update M)
     | None \<Rightarrow> io_bind (io_lift (SetControllerReference M p
         \<lparr>sec_Name = crName p, sec_Namespace = crNamespace p, sec_Data = data, sec_Owners = []\<rparr>)) (secret_Create M))"

definition identity_done :: "'w identity_operator \<Rightarrow> FabricIdentityResource \<Rightarrow> ('w, Result) io" where
  "identity_done M p w = (let q = mark_running (clock_now (io_client M) w) ''Identity Setup'' p in
     attempt (identity_fail M q) (status_update (io_client M) q) (\<lambda>_. io_return (requeue_after (120 * Minute))) w)"

definition find_secret :: "'w identity_operator \<Rightarrow> FabricIdentityResource \<Rightarrow> ('w, k8s_secret option) io" where
  "find_secret M p = io_try (secret_Get M (crNamespace p) (crName p)) (\<lambda>s. io_return (Some s))
     (\<lambda>err. if isNotFound err then io_return None else io_throw err)"

definition identity_with_store :: "FabricIdentityResource \<Rightarrow> FabricIdentityResource" where
  "identity_with_store p = (if id_CredentialStore (id_Spec p) = []
     then p\<lparr>id_Spec := (id_Spec p)\<lparr>id_CredentialStore := ''kubernetes''\<rparr>\<rparr> else p)"

text \<open>What follows the search for material.\<close>

definition identity_end ::
  "'w identity_operator \<Rightarrow> FabricIdentityResource \<Rightarrow> k8s_secret option \<Rightarrow> identity_outcome \<Rightarrow> ('w, Result) io" where
  "identity_end M p secret outcome = (case outcome of
       Failed err \<Rightarrow> identity_fail M p err
     | Refused \<Rightarrow> identity_refused M p
     | Have m \<Rightarrow>
         attempt (identity_fail M p) (io_lift (identity_data M m)) (\<lambda>data.
         attempt (identity_fail M p) (store_identity M p secret data) (\<lambda>_. identity_done M p)))"

definition reconcile_identity :: "'w identity_operator \<Rightarrow> FabricIdentityResource \<Rightarrow> ('w, Result) io" where
  "reconcile_identity M p = (let p = identity_with_store p in
     attempt (identity_fail M p) (io_GetClientKubeWithConf M) (\<lambda>_.
     attempt (identity_fail M p) (find_secret M p) (\<lambda>secret.
     attempt (identity_fail M p) (register_identity M p) (\<lambda>_.
     io_bind (identity_material M p secret) (identity_end M p secret)))))"

text \<open>Releasing an identity does nothing but remove its finalizer.\<close>

definition Reconcile_identity :: "'w identity_operator \<Rightarrow> string \<times> string \<Rightarrow> ('w, Result) io" where
  "Reconcile_identity M req =
     with_resource (io_client M) identityFinalizer (FabricIdentity_addFinalizer (io_client M)) req (reconcile_identity M)"

end
