(* ===== verification/Identity_Correct.thy ===== *)
theory Identity_Correct imports Identity_Controller Node_Memory begin

text \<open>
  What the identity controller guarantees: an identity that has a secret keeps its private key, what is
  written into the secret is read back, and only a refused enrolment secret ends the reconciliation.
\<close>

section \<open>Renewals\<close>

interpretation identity_sign: renewer "identity_ReenrollSignCryptoMaterial P conf" for P conf
  by unfold_locales (auto simp: identity_ReenrollSignCryptoMaterial_def io_oks)

text \<open>The certificates of the client library can be parsed again.\<close>

definition library_law :: "'w pki \<Rightarrow> bool" where
  "library_law P \<longleftrightarrow> (\<forall>i. parsed (pki_crypto P) (GetX509Cert (pki_ca P) i))"

lemma x509_of_parsed: "codec_law K \<Longrightarrow> x509_of K s = Ok crt \<Longrightarrow> parsed K crt"
  by (auto simp: x509_of_def ParseX509Certificate_def intro: parsedI split: if_splits option.splits)

lemma renewed_parsed:
  assumes codec: "codec_law (pki_crypto P)" and "library_law P"
    and "identity_ReenrollSignCryptoMaterial P conf pem key w = (Ok (crt, key', root), w')"
  shows "parsed (pki_crypto P) crt \<and> parsed (pki_crypto P) root"
proof -
  let ?K = "pki_crypto P"
  have "ReenrollUser ?K (pki_ca P) r pem key v = (Ok (crt, root), v') \<Longrightarrow> parsed ?K crt \<and> parsed ?K root" for r v v'
    using assms(2) by (auto simp: ReenrollUser_def ca_root_def library_law_def io_oks intro: x509_of_parsed [OF codec] parsedI [OF codec])
  moreover have "vault_ReenrollUser ?K V s r q pem key v = (Ok (crt, root), v') \<Longrightarrow> parsed ?K crt \<and> parsed ?K root" for V s r q v v'
    by (auto simp: vault_ReenrollUser_def issued_def pem_certificate_def io_oks intro: parsedI [OF codec] split: option.splits)
  ultimately show ?thesis using assms(3)
    by (auto simp: identity_ReenrollSignCryptoMaterial_def identity_vault_def io_oks io_panic_apply split: if_splits option.splits)
qed

section \<open>The secret\<close>

definition renewal_never_refused :: "'w identity_operator \<Rightarrow> FabricIdentityResource \<Rightarrow> bool" where
  "renewal_never_refused M p \<longleftrightarrow> (\<forall>pem key v e v'. identity_ReenrollSignCryptoMaterial (io_pki M) p pem key v = (Err e, v') \<longrightarrow>
     \<not> str_contains (error_text e) ''Authentication failure'')"

lemma renewal_never_refusedD:
  "renewal_never_refused M p \<Longrightarrow> identity_ReenrollSignCryptoMaterial (io_pki M) p pem key v = (Err e, v') \<Longrightarrow>
     \<not> str_contains (error_text e) ''Authentication failure''"
  unfolding renewal_never_refused_def by blast

lemma read_identity_written:
  assumes "codec_law (pki_crypto (io_pki M))" and "identity_data M (crt, key, root) = Ok data"
    and "parsed (pki_crypto (io_pki M)) crt" "parsed (pki_crypto (io_pki M)) root"
    and "pem_of (pki_crypto (io_pki M)) crt \<noteq> []" "pem_of (pki_crypto (io_pki M)) root \<noteq> []"
  shows "read_identity (pki_crypto (io_pki M)) (s\<lparr>sec_Data := data\<rparr>) = Ok (crt, key, root)"
  using assms(2) pem_decodes [OF assms(1,3,5)] pem_decodes [OF assms(1,4,6)] key_decodes [OF assms(1)]
  by (auto simp: identity_data_def Let_def read_identity_def secret_value_def)

text \<open>
  C15.  An identity keeps its private key.  A reconciliation that finds the secret of the identity and
  obtains material for it, the certificate renewed or not, writes data from which the next one reads that
  very material, with the key the secret had, unless the authority refuses the renewal; and a
  certificate that does not end within the period of the operator is written as it was.
\<close>

theorem identity_keeps_key:
  assumes codec: "codec_law (pki_crypto (io_pki M))" and lib: "library_law (io_pki M)"
    and read: "read_identity (pki_crypto (io_pki M)) s = Ok (crt, key, root)"
    and "renewal_never_refused M p"
    and have_m: "identity_material M p (Some s) w = (Ok (Have (crt', key', root')), w')"
    and data: "identity_data M (crt', key', root') = Ok data"
    and pem: "pem_of (pki_crypto (io_pki M)) crt' \<noteq> []" "pem_of (pki_crypto (io_pki M)) root' \<noteq> []"
  shows "read_identity (pki_crypto (io_pki M)) (s\<lparr>sec_Data := data\<rparr>) = Ok (crt', key', root') \<and> key' = key
     \<and> (fst (identity_expires M crt w) = Ok False \<longrightarrow> crt' = crt \<and> root' = root)"
proof -
  let ?K = "pki_crypto (io_pki M)"
  obtain b v where exp: "identity_expires M crt w = (Ok b, v)"
    by (cases "io_AutoRenewCertificates M") (auto simp: identity_expires_def io_simps)
  have parsed_old: "parsed ?K crt" "parsed ?K root"
    using read x509_of_parsed [OF codec] by (auto simp: read_identity_def)
  have "parsed ?K crt' \<and> parsed ?K root' \<and> key' = key \<and> (\<not> b \<longrightarrow> crt' = crt \<and> root' = root)"
  proof (cases b)
    case False
    then show ?thesis using have_m read exp parsed_old by (simp add: identity_material_def io_simps)
  next
    case True
    then have "renew_identity M p (crt, key, root) v = (Ok (Have (crt', key', root')), w')"
      using have_m read exp by (simp add: identity_material_def io_simps)
    then have "identity_ReenrollSignCryptoMaterial (io_pki M) p (pem_of ?K crt) key v = (Ok (crt', key', root'), w')"
      using assms(4) by (auto simp: renew_identity_def io_oks dest: renewal_never_refusedD split: if_splits)
    note renewed = this
    show ?thesis using True renewed_parsed [OF codec lib renewed] identity_sign.keeps_key [OF renewed] by simp
  qed
  then show ?thesis using exp read_identity_written [OF codec data _ _ pem] by simp
qed

section \<open>Being looked at again\<close>

lemma identity_fail_retried: "client_ok (io_client M) \<Longrightarrow> retried (fst (identity_fail M p e w))"
  by (simp add: identity_fail_def report_failure_def ident.report_retried [unfolded ident.report_def])

lemma identity_material_refused:
  "identity_material M p s u = (Ok Refused, u') \<Longrightarrow> \<exists>p' v e v'. identity_CreateSignCryptoMaterial (io_pki M) p' v = (Err e, v')
     \<and> str_contains (error_text e) ''Authentication failure''"
  by (auto simp: identity_material_def renew_identity_def enroll_identity_def io_oks split: option.splits if_splits)

lemma identity_done_retried: "client_ok (io_client M) \<Longrightarrow> retried (fst (identity_done M p u))"
  unfolding identity_done_def Let_def
  by (rule attempt_retried [OF identity_fail_retried]) (simp_all add: requeue_after_def Second_def Minute_def io_simps)

lemma reconcile_identity_stops:
  assumes ok: "client_ok (io_client M)" and r: "reconcile_identity M p u = (r, u')" and stop: "\<not> retried r"
  shows "\<exists>p' v e v'. identity_CreateSignCryptoMaterial (io_pki M) p' v = (Err e, v')
     \<and> str_contains (error_text e) ''Authentication failure''"
proof -
  let ?p = "identity_with_store p"
  note fail = identity_fail_retried [OF ok]
  obtain v0 where "attempt (identity_fail M ?p) (find_secret M ?p) (\<lambda>secret.
      attempt (identity_fail M ?p) (register_identity M ?p) (\<lambda>_.
      io_bind (identity_material M ?p secret) (identity_end M ?p secret))) v0 = (r, u')"
    using r unfolding reconcile_identity_def Let_def by (rule attempt_stops [OF fail _ stop])
  then obtain s va where "attempt (identity_fail M ?p) (register_identity M ?p) (\<lambda>_.
      io_bind (identity_material M ?p s) (identity_end M ?p s)) va = (r, u')"
    by (rule attempt_stops [OF fail _ stop])
  then obtain vb where "io_bind (identity_material M ?p s) (identity_end M ?p s) vb = (r, u')"
    by (rule attempt_stops [OF fail _ stop])
  then obtain o' v2 where m: "identity_material M ?p s vb = (Ok o', v2)" and rest: "identity_end M ?p s o' v2 = (r, u')"
    by (rule bind_stops [OF _ stop])
  show ?thesis
  proof (cases o')
    case (Have x)
    have "retried (fst (identity_end M ?p s (Have x) v2))"
      by (simp add: identity_end_def attempt_retried fail identity_done_retried [OF ok])
    then show ?thesis using rest stop Have by simp
  next
    case Refused
    show ?thesis by (rule identity_material_refused [OF m [unfolded Refused]])
  next
    case (Failed e)
    then show ?thesis using rest stop fail [of ?p e v2] by (simp add: identity_end_def)
  qed
qed


section \<open>An identity in memory\<close>

definition spec_alice :: FabricIdentitySpec where
  "spec_alice = \<lparr>id_Cahost = ''ca'', id_Caname = ''ca'', id_Caport = 7054, id_Catls = Some \<lparr>Cacert = ''pem'', catls_SecretRef = None\<rparr>,
     id_Enrollid = ''alice'', id_Enrollsecret = ''alicepw'', id_MSPID = ''Org1MSP'', id_AttributeRequest = [], id_Register = None,
     id_UpdateCertificateTime = None, id_Vault = None, id_CredentialStore = ''kubernetes''\<rparr>"

definition alice :: "time option \<Rightarrow> FabricIdentityResource" where
  "alice deleted = \<lparr>crName = ''alice'', crNamespace = ''ns'', Finalizers = [identityFinalizer],
     DeletionTimestamp = deleted, crConditions = [], crMessage = [], crStatus = [], id_Spec = spec_alice\<rparr>"

definition secret_alice :: k8s_secret where
  "secret_alice = \<lparr>sec_Name = ''alice'', sec_Namespace = ''ns'',
     sec_Data = [''cert.pem'' \<mapsto> ''crt'', ''key.pem'' \<mapsto> ''key'', ''root.pem'' \<mapsto> ''root''], sec_Owners = []\<rparr>"

definition mem_identity :: "time option \<Rightarrow> unit identity_operator" where
  "mem_identity deleted = \<lparr>io_client = mem_client (alice deleted),
     io_pki = \<lparr>pki_crypto = crypto_two,
       pki_ca = mem_ca\<lparr>GetX509Cert := \<lambda>i. case i of CAIdentity s \<Rightarrow> \<lparr>x509_Raw = s, NotAfter = 100\<rparr>\<rparr>, pki_vault = vault_two\<rparr>,
     io_GetClientKubeWithConf = io_return (), secret_Get = (\<lambda>_ _. io_return secret_alice), secret_Create = io_return,
     secret_Update = io_return, SetControllerReference = (\<lambda>p s. Ok (s\<lparr>sec_Owners := [crName p]\<rparr>)),
     user_yaml = (\<lambda>k c. Ok (k @ c)), io_AutoRenewCertificates = True, io_AutoRenewCertificatesDelta = 1000\<rparr>"

lemmas alice_defs = mem_identity_def alice_def spec_alice_def secret_alice_def crypto_two_def crypto_one_def mem_ca_def vault_two_def

lemma alice_laws: "codec_law (pki_crypto (io_pki (mem_identity d)))" "library_law (io_pki (mem_identity d))"
  by (auto simp: alice_defs codec_law_def library_law_def parsed_def split: ecdsa_key.splits ca_identity.splits)

lemma alice_renews:
  "identity_ReenrollSignCryptoMaterial (io_pki (mem_identity d)) (alice d) pem key w =
     (Ok (\<lparr>x509_Raw = ''renewed'', NotAfter = 100\<rparr>, key, \<lparr>x509_Raw = ''root'', NotAfter = 100\<rparr>), w)"
  by (simp add: identity_ReenrollSignCryptoMaterial_def identity_getReenrollRequestForFabricCA_def getCertBytesFromCATLS_def
    ReenrollUser_def GetClient_def init_client_def on_ca_def ca_root_def x509_of_def ParseX509Certificate_def ca_params_def
    tls_client_def CredentialStoreVault_def Let_def alice_defs io_simps)

lemma alice_reads:
  "read_identity (pki_crypto (io_pki (mem_identity d))) secret_alice =
     Ok (\<lparr>x509_Raw = ''crt'', NotAfter = 100\<rparr>, ECDSAKey ''key'', \<lparr>x509_Raw = ''root'', NotAfter = 100\<rparr>)"
  by (simp add: read_identity_def x509_of_def ecdsa_of_def ParseX509Certificate_def ParseECDSAPrivateKey_def secret_value_def alice_defs)

lemma alice_material:
  "identity_material (mem_identity d) (alice d) (Some secret_alice) w =
     (Ok (Have (\<lparr>x509_Raw = ''renewed'', NotAfter = 100\<rparr>, ECDSAKey ''key'', \<lparr>x509_Raw = ''root'', NotAfter = 100\<rparr>)), w)"
proof -
  have "identity_expires (mem_identity d) \<lparr>x509_Raw = ''crt'', NotAfter = 100\<rparr> w = (Ok True, w)"
    by (simp add: identity_expires_def alice_defs io_simps)
  then show ?thesis by (simp add: identity_material_def renew_identity_def alice_reads alice_renews io_simps)
qed

theorem identity_keeps_key_witness:
  "\<exists>data. identity_data (mem_identity None)
       (\<lparr>x509_Raw = ''renewed'', NotAfter = 100\<rparr>, ECDSAKey ''key'', \<lparr>x509_Raw = ''root'', NotAfter = 100\<rparr>) = Ok data
     \<and> read_identity (crypto_two :: unit crypto) (secret_alice\<lparr>sec_Data := data\<rparr>)
       = Ok (\<lparr>x509_Raw = ''renewed'', NotAfter = 100\<rparr>, ECDSAKey ''key'', \<lparr>x509_Raw = ''root'', NotAfter = 100\<rparr>)"
proof -
  let ?M = "mem_identity None" and ?m = "(\<lparr>x509_Raw = ''renewed'', NotAfter = 100\<rparr>, ECDSAKey ''key'', \<lparr>x509_Raw = ''root'', NotAfter = 100\<rparr>)"
  have K: "pki_crypto (io_pki ?M) = crypto_two" by (simp add: mem_identity_def)
  obtain data where data: "identity_data ?M ?m = Ok data"
    by (simp add: identity_data_def K mem_encode) (simp add: mem_identity_def)
  have never: "renewal_never_refused ?M (alice None)" by (simp add: renewal_never_refused_def alice_renews)
  have "read_identity (pki_crypto (io_pki ?M)) (secret_alice\<lparr>sec_Data := data\<rparr>) = Ok ?m"
    by (rule identity_keeps_key [OF alice_laws alice_reads never alice_material data, THEN conjunct1])
      (simp_all add: K mem_encode)
  then show ?thesis using data K by auto
qed


end
