(* ===== verification/Chaincode_Deploy.thy ===== *)
theory Chaincode_Deploy imports Node_Chart Node_Crypto Reconciler Kube_Objects begin

text \<open>
  \<open>FabricChaincodeDeployReconciler\<close> (\<open>controllers/chaincode/deploy/chaincode_deploy_controller.go\<close>): a
  chaincode server is a Kubernetes deployment with its service and, when it has credentials, a secret of
  certificates.  \<open>Reconcile\<close> is one function in the code; each definition below is a stretch of it.
\<close>

section \<open>The resource and its template\<close>

text \<open>Of an environment variable the code reads the name and the value.\<close>

record EnvVar =
  env_Name :: string
  env_Value :: string
  env_ValueFrom :: "k8s_object option"

record FabricChaincodeTemplateRef =
  tref_Name :: string
  tref_Namespace :: string

record FabricChaincodeTemplateSpec =
  ct_Annotations :: "string \<rightharpoonup> string"
  ct_Labels :: "string \<rightharpoonup> string"
  ct_PodAnnotations :: "string \<rightharpoonup> string"
  ct_PodLabels :: "string \<rightharpoonup> string"
  ct_ImagePullPolicy :: string
  ct_ImagePullSecrets :: "k8s_object list"
  ct_Command :: "string list"
  ct_Args :: "string list"
  ct_Affinity :: "k8s_object option"
  ct_Tolerations :: "k8s_object list"
  ct_Resources :: "k8s_object option"
  ct_Replicas :: int
  ct_Env :: "EnvVar list"
  ct_ChaincodeServerPort :: int
  ct_MspID :: string

record FabricChaincodeSpec =
  cc_Template :: "FabricChaincodeTemplateRef option"
  cc_Annotations :: "string \<rightharpoonup> string"
  cc_Labels :: "string \<rightharpoonup> string"
  cc_PodAnnotations :: "string \<rightharpoonup> string"
  cc_PodLabels :: "string \<rightharpoonup> string"
  cc_Image :: string
  cc_ImagePullPolicy :: string
  cc_PackageID :: string
  cc_ImagePullSecrets :: "k8s_object list"
  cc_Command :: "string list"
  cc_Args :: "string list"
  cc_Affinity :: "k8s_object option"
  cc_Tolerations :: "k8s_object list"
  cc_Resources :: "k8s_object option"
  cc_PodSecurityContext :: "k8s_object option"
  cc_SecurityContext :: "k8s_object option"
  cc_ServiceAccountName :: string
  cc_EnableServiceLinks :: bool
  cc_NodeSelector :: "string \<rightharpoonup> string"
  cc_Credentials :: "TLSComponent option"
  cc_Replicas :: int
  cc_Env :: "EnvVar list"
  cc_ChaincodeServerPort :: int
  cc_MspID :: string

record FabricChaincodeResource = custom_resource +
  cc_Spec :: FabricChaincodeSpec

text \<open>The loop over the template's variables; the list it looks in grows.\<close>

definition add_template_env :: "EnvVar \<Rightarrow> EnvVar list \<Rightarrow> EnvVar list" where
  "add_template_env env vars = (if env_Name env \<in> set (map env_Name vars) then vars else vars @ [env])"

definition template_env :: "EnvVar list \<Rightarrow> EnvVar list \<Rightarrow> EnvVar list" where
  "template_env own template = (if own = [] then template else fold add_template_env template own)"

definition ApplyDefaultValuesFromTemplate ::
  "FabricChaincodeTemplateSpec \<Rightarrow> FabricChaincodeSpec \<Rightarrow> FabricChaincodeSpec" where
  "ApplyDefaultValuesFromTemplate t s = s\<lparr>
     cc_ImagePullPolicy := (if cc_ImagePullPolicy s = [] then ct_ImagePullPolicy t else cc_ImagePullPolicy s),
     cc_ImagePullSecrets := (if cc_ImagePullSecrets s = [] then ct_ImagePullSecrets t else cc_ImagePullSecrets s),
     cc_Command := (if cc_Command s = [] then ct_Command t else cc_Command s),
     cc_Args := (if cc_Args s = [] then ct_Args t else cc_Args s),
     cc_Affinity := (if cc_Affinity s = None then ct_Affinity t else cc_Affinity s),
     cc_Tolerations := (if cc_Tolerations s = [] then ct_Tolerations t else cc_Tolerations s),
     cc_Resources := (if cc_Resources s = None then ct_Resources t else cc_Resources s),
     cc_Replicas := (if cc_Replicas s = 0 then ct_Replicas t else cc_Replicas s),
     cc_Env := template_env (cc_Env s) (ct_Env t),
     cc_ChaincodeServerPort := (if cc_ChaincodeServerPort s = 0 then ct_ChaincodeServerPort t else cc_ChaincodeServerPort s),
     cc_MspID := (if cc_MspID s = [] then ct_MspID t else cc_MspID s)\<rparr>"

section \<open>What it creates\<close>

record chaincode_secret =
  ccs_Name :: string
  ccs_Namespace :: string
  ccs_Labels :: "string \<rightharpoonup> string"
  ccs_Data :: "string \<rightharpoonup> string"

record VolumeMount =
  vm_Name :: string
  vm_ReadOnly :: bool
  vm_MountPath :: string

record Volume =
  vol_Name :: string
  vol_SecretName :: string

record TCPProbe =
  probe_Port :: int
  InitialDelaySeconds :: int
  TimeoutSeconds :: int
  PeriodSeconds :: int
  SuccessThreshold :: int
  FailureThreshold :: int

record Container =
  con_Env :: "EnvVar list"
  con_Name :: string
  con_Image :: string
  con_ImagePullPolicy :: string
  con_VolumeMounts :: "VolumeMount list"
  con_LivenessProbe :: TCPProbe
  con_SecurityContext :: "k8s_object option"
  con_ReadinessProbe :: TCPProbe
  con_Resources :: "k8s_object option"
  con_Command :: "string list"
  con_Args :: "string list"

record PodSpec =
  pod_Volumes :: "Volume list"
  pod_Containers :: "Container list"
  pod_RestartPolicy :: string
  pod_ImagePullSecrets :: "k8s_object list"
  pod_Affinity :: "k8s_object option"
  pod_Tolerations :: "k8s_object list"
  pod_NodeSelector :: "string \<rightharpoonup> string"
  pod_SecurityContext :: "k8s_object option"
  pod_EnableServiceLinks :: bool
  pod_ServiceAccountName :: string

record DeploymentSpec =
  ds_Replicas :: int
  ds_Selector :: "string \<rightharpoonup> string"
  ds_PodLabels :: "string \<rightharpoonup> string"
  ds_PodAnnotations :: "string \<rightharpoonup> string"
  ds_PodSpec :: PodSpec
  ds_Strategy :: string

record Deployment =
  dep_Name :: string
  dep_Namespace :: string
  dep_Labels :: "string \<rightharpoonup> string"
  dep_Annotations :: "string \<rightharpoonup> string"
  dep_Spec :: DeploymentSpec

record ServicePort =
  sp_Name :: string
  sp_Protocol :: string
  sp_Port :: int
  sp_TargetPort :: int

record ServiceSpec =
  ss_IPFamilies :: "string list"
  ss_Ports :: "ServicePort list"
  ss_Selector :: "string \<rightharpoonup> string"
  ss_Type :: string

record Service =
  svc_Name :: string
  svc_Namespace :: string
  svc_Spec :: ServiceSpec

text \<open>The reconciler with its clients; \<open>RFC3339\<close> formats an instant.\<close>

record 'w chaincode_operator =
  cco_client :: "('w, FabricChaincodeResource) client"
  operator_NewForConfig :: "('w, unit) io"
  templates_Get :: "string \<Rightarrow> string \<Rightarrow> ('w, FabricChaincodeTemplateSpec) io"
  kubernetes_NewForConfig :: "('w, unit) io"
  cco_secrets :: "('w, chaincode_secret) kube_objects"
  cco_deployments :: "('w, Deployment) kube_objects"
  cco_services :: "('w, Service) kube_objects"
  cco_crypto :: "'w crypto"
  cco_ca :: "'w ca_lib"
  RFC3339 :: "time \<Rightarrow> string"

section \<open>Names\<close>

definition getDeploymentName :: "FabricChaincodeResource \<Rightarrow> string" where
  "getDeploymentName p = crName p"

definition getServiceName :: "FabricChaincodeResource \<Rightarrow> string" where
  "getServiceName p = crName p"

definition getSecretName :: "FabricChaincodeResource \<Rightarrow> string" where
  "getSecretName p = crName p @ ''-certs''"

section \<open>Releasing\<close>

text \<open>An object that is not there any more is no error.\<close>

definition delete_if_there :: "('w, 'o) kube_objects \<Rightarrow> string \<Rightarrow> string \<Rightarrow> ('w, unit) io" where
  "delete_if_there kind ns n = io_try (obj_Delete kind ns n) (\<lambda>_. io_return ())
     (\<lambda>err. if isNotFound err then io_return () else io_throw err)"

definition finalizeChaincode :: "'w chaincode_operator \<Rightarrow> FabricChaincodeResource \<Rightarrow> ('w, unit) io" where
  "finalizeChaincode M m = (let ns = namespace_or_default (crNamespace m) in
     io_bind (kubernetes_NewForConfig M) (\<lambda>_.
     io_bind (delete_if_there (cco_deployments M) ns (getDeploymentName m)) (\<lambda>_.
     io_bind (delete_if_there (cco_services M) ns (getServiceName m)) (\<lambda>_.
       delete_if_there (cco_secrets M) ns (getSecretName m)))))"

section \<open>Certificates\<close>

record SecretChaincodeData =
  Updated :: bool
  Enabled :: bool
  cd_Certificate :: string
  cd_PrivateKey :: string
  cd_RootCert :: string

definition CertificateSecretKey :: string where "CertificateSecretKey = ''tls.crt''"
definition PrivateKeySecretKey :: string where "PrivateKeySecretKey = ''tls.key''"
definition RootCertSecretKey :: string where "RootCertSecretKey = ''tlsroot.crt''"

definition CreateChaincodeCryptoMaterial ::
  "'w crypto \<Rightarrow> 'w ca_lib \<Rightarrow> FabricChaincodeResource \<Rightarrow> string \<Rightarrow> string \<Rightarrow> string \<Rightarrow> string \<Rightarrow> string \<Rightarrow> string list
   \<Rightarrow> ('w, material) io" where
  "CreateChaincodeCryptoMaterial K A conf caName caurl enrollID enrollSecret tlsCertString hosts =
     EnrollUser K A \<lparr>eu_TLSCert = tlsCertString, eu_URL = caurl, eu_Name = caName, eu_MSPID = cc_MspID (cc_Spec conf),
       eu_User = enrollID, eu_Secret = enrollSecret, eu_Hosts = hosts, eu_CN = crName conf, eu_Profile = ''tls'',
       eu_Attributes = []\<rparr>"

text \<open>Whether a certificate cannot be read or ends within seven days.\<close>

definition chaincode_expiring :: "'w crypto \<Rightarrow> string \<Rightarrow> ('w, bool) io" where
  "chaincode_expiring K pem = io_try (io_lift (x509_of K pem))
     (\<lambda>crt. io_bind (io_total (time_Now K)) (\<lambda>now. io_return (NotAfter crt < now + 60 * Minute * 24 * 7)))
     (\<lambda>_. io_return True)"

text \<open>The second assignment to \<open>updateSecretData\<close> replaces the first.\<close>

definition update_needed :: "'w crypto \<Rightarrow> chaincode_secret \<Rightarrow> ('w, bool) io" where
  "update_needed K s =
     io_bind (chaincode_expiring K (secret_value (ccs_Data s) CertificateSecretKey)) (\<lambda>updateSecretData.
       io_return (\<not> (secret_value (ccs_Data s) CertificateSecretKey \<noteq> []
         \<and> secret_value (ccs_Data s) PrivateKeySecretKey \<noteq> [] \<and> secret_value (ccs_Data s) RootCertSecretKey \<noteq> [])))"

definition enroll_chaincode ::
  "'w chaincode_operator \<Rightarrow> FabricChaincodeResource \<Rightarrow> TLSComponent \<Rightarrow> ('w, SecretChaincodeData) io" where
  "enroll_chaincode M p cred = (let K = cco_crypto M in
     io_bind (case comp_Catls cred of
         None \<Rightarrow> io_panic ''nil pointer dereference''
       | Some c \<Rightarrow> io_lift (base64_Decode K (Cacert c))) (\<lambda>cacert.
     io_bind (io_try
         (CreateChaincodeCryptoMaterial K (cco_ca M) p (Caname cred) (ca_url cred) (Enrollid cred) (Enrollsecret cred)
           cacert (csr_Hosts (tls_Csr cred)))
         io_return (\<lambda>_. io_throw (ErrorString ''Failed to create chaincode crypto material''))) (\<lambda>(tlsCert, tlsKey, tlsRootCert).
     io_bind (io_lift (EncodePrivateKey K tlsKey)) (\<lambda>key.
       io_return \<lparr>Updated = True, Enabled = True, cd_Certificate = pem_of K tlsCert, cd_PrivateKey = key,
         cd_RootCert = pem_of K tlsRootCert\<rparr>))))"

definition stored_chaincode :: "chaincode_secret \<Rightarrow> SecretChaincodeData" where
  "stored_chaincode s = \<lparr>Updated = False, Enabled = True, cd_Certificate = secret_value (ccs_Data s) CertificateSecretKey,
     cd_PrivateKey = secret_value (ccs_Data s) PrivateKeySecretKey, cd_RootCert = secret_value (ccs_Data s) RootCertSecretKey\<rparr>"

definition chaincode_data :: "SecretChaincodeData \<Rightarrow> (string \<rightharpoonup> string)" where
  "chaincode_data d = [''tls.crt'' \<mapsto> cd_Certificate d, ''tlsroot.crt'' \<mapsto> cd_RootCert d, ''tls.key'' \<mapsto> cd_PrivateKey d]"

text \<open>
  The error of reading the secret is looked at only when the material is there: a secret that is not
  found is created, and any other error ends it.
\<close>

definition write_chaincode_secret ::
  "'w chaincode_operator \<Rightarrow> (string \<rightharpoonup> string) \<Rightarrow> string \<Rightarrow> FabricChaincodeResource \<Rightarrow> go_error + chaincode_secret
   \<Rightarrow> SecretChaincodeData \<Rightarrow> ('w, chaincode_secret) io" where
  "write_chaincode_secret M labels ns p found d = (case found of
       Inl err \<Rightarrow>
         (if isNotFound err
          then obj_Create (cco_secrets M) \<lparr>ccs_Name = getSecretName p, ccs_Namespace = ns, ccs_Labels = labels,
            ccs_Data = chaincode_data d\<rparr>
          else io_throw err)
     | Inr s \<Rightarrow> obj_Update (cco_secrets M) (s\<lparr>ccs_Data := chaincode_data d\<rparr>))"

definition chaincode_material ::
  "'w chaincode_operator \<Rightarrow> FabricChaincodeResource \<Rightarrow> TLSComponent \<Rightarrow> go_error + chaincode_secret
   \<Rightarrow> ('w, SecretChaincodeData) io" where
  "chaincode_material M p cred found = (case found of
       Inl err \<Rightarrow> enroll_chaincode M p cred
     | Inr s \<Rightarrow> io_bind (update_needed (cco_crypto M) s) (\<lambda>updateSecretData.
         if updateSecretData then enroll_chaincode M p cred else io_return (stored_chaincode s)))"

definition getCryptoMaterial ::
  "'w chaincode_operator \<Rightarrow> (string \<rightharpoonup> string) \<Rightarrow> string \<Rightarrow> FabricChaincodeResource \<Rightarrow> ('w, SecretChaincodeData) io" where
  "getCryptoMaterial M labels ns p = (case cc_Credentials (cc_Spec p) of
       None \<Rightarrow> io_return \<lparr>Updated = False, Enabled = False, cd_Certificate = [], cd_PrivateKey = [], cd_RootCert = []\<rparr>
     | Some cred \<Rightarrow>
         io_bind (kubernetes_NewForConfig M) (\<lambda>_.
         io_bind (io_try (obj_Get (cco_secrets M) ns (getSecretName p)) (\<lambda>s. io_return (Inr s)) (\<lambda>e. io_return (Inl e))) (\<lambda>found.
         io_bind (chaincode_material M p cred found) (\<lambda>d.
         io_bind (write_chaincode_secret M labels ns p found d) (\<lambda>_. io_return d)))))"

section \<open>The deployment\<close>

definition env_var :: "string \<Rightarrow> string \<Rightarrow> EnvVar" where
  "env_var name value = \<lparr>env_Name = name, env_Value = value, env_ValueFrom = None\<rparr>"

definition chaincode_address :: "FabricChaincodeSpec \<Rightarrow> string" where
  "chaincode_address spec = ''0.0.0.0:'' @ itoa (cc_ChaincodeServerPort spec)"

definition tls_env :: "bool \<Rightarrow> EnvVar list" where
  "tls_env enabled = (if enabled
     then [env_var ''CHAINCODE_TLS_DISABLED'' ''false'', env_var ''CORE_PEER_TLS_ENABLED'' ''true'',
       env_var ''CHAINCODE_TLS_KEY'' ''/config/certs/tls.key'', env_var ''CORE_CHAINCODE_TLS_KEY_FILE'' ''/config/certs/tls.key'',
       env_var ''CHAINCODE_TLS_CERT'' ''/config/certs/tls.crt'', env_var ''CORE_CHAINCODE_TLS_CERT_FILE'' ''/config/certs/tls.crt'',
       env_var ''CHAINCODE_CLIENT_CA_CERT'' ''/config/certs/tlsroot.crt'',
       env_var ''CORE_CHAINCODE_TLS_CLIENT_CACERT_FILE'' ''/config/certs/tlsroot.crt'']
     else [env_var ''CHAINCODE_TLS_DISABLED'' ''true'', env_var ''CORE_PEER_TLS_ENABLED'' ''false''])"

definition chaincode_env :: "FabricChaincodeSpec \<Rightarrow> bool \<Rightarrow> EnvVar list" where
  "chaincode_env spec enabled =
     [env_var ''CHAINCODE_ID'' (cc_PackageID spec), env_var ''CORE_CHAINCODE_ID'' (cc_PackageID spec),
      env_var ''CHAINCODE_SERVER_ADDRESS'' (chaincode_address spec), env_var ''CORE_CHAINCODE_ADDRESS'' (chaincode_address spec)]
     @ tls_env enabled @ cc_Env spec"

definition chaincode_probe :: "int \<Rightarrow> TCPProbe" where
  "chaincode_probe port = \<lparr>probe_Port = int32_of port, InitialDelaySeconds = 5, TimeoutSeconds = 1, PeriodSeconds = 5,
     SuccessThreshold = 1, FailureThreshold = 3\<rparr>"

definition chaincode_container :: "FabricChaincodeResource \<Rightarrow> bool \<Rightarrow> Container" where
  "chaincode_container p enabled = (let spec = cc_Spec p in
     \<lparr>con_Env = chaincode_env spec enabled, con_Name = ''chaincode'', con_Image = cc_Image spec,
      con_ImagePullPolicy = cc_ImagePullPolicy spec,
      con_VolumeMounts = (if enabled then [\<lparr>vm_Name = getSecretName p, vm_ReadOnly = True, vm_MountPath = ''/config/certs''\<rparr>] else []),
      con_LivenessProbe = chaincode_probe (cc_ChaincodeServerPort spec), con_SecurityContext = cc_SecurityContext spec,
      con_ReadinessProbe = chaincode_probe (cc_ChaincodeServerPort spec), con_Resources = cc_Resources spec,
      con_Command = cc_Command spec, con_Args = cc_Args spec\<rparr>)"

definition chaincode_pod :: "FabricChaincodeResource \<Rightarrow> bool \<Rightarrow> PodSpec" where
  "chaincode_pod p enabled = (let spec = cc_Spec p in
     \<lparr>pod_Volumes = (if enabled then [\<lparr>vol_Name = getSecretName p, vol_SecretName = getSecretName p\<rparr>] else []),
      pod_Containers = [chaincode_container p enabled], pod_RestartPolicy = ''Always'',
      pod_ImagePullSecrets = cc_ImagePullSecrets spec, pod_Affinity = cc_Affinity spec, pod_Tolerations = cc_Tolerations spec,
      pod_NodeSelector = cc_NodeSelector spec, pod_SecurityContext = cc_PodSecurityContext spec,
      pod_EnableServiceLinks = cc_EnableServiceLinks spec, pod_ServiceAccountName = cc_ServiceAccountName spec\<rparr>)"

definition chaincode_labels :: "FabricChaincodeResource \<Rightarrow> (string \<rightharpoonup> string)" where
  "chaincode_labels p = [''app'' \<mapsto> ''fabric-chaincode'', ''chaincode'' \<mapsto> crName p]"

text \<open>
  \<open>podLabels := labels\<close> copies the reference, so the labels of the pod are added to the one map that is
  also the selector, the labels of the deployment and the selector of the service.
\<close>

definition shared_labels :: "FabricChaincodeResource \<Rightarrow> (string \<rightharpoonup> string)" where
  "shared_labels p = chaincode_labels p ++ cc_PodLabels (cc_Spec p)"

definition chaincode_deployment :: "string \<Rightarrow> FabricChaincodeResource \<Rightarrow> bool \<Rightarrow> Deployment" where
  "chaincode_deployment ns p enabled = (let spec = cc_Spec p; labels = shared_labels p in
     \<lparr>dep_Name = crName p, dep_Namespace = ns, dep_Labels = labels, dep_Annotations = cc_Annotations spec,
      dep_Spec = \<lparr>ds_Replicas = int32_of (cc_Replicas spec), ds_Selector = labels, ds_PodLabels = labels,
        ds_PodAnnotations = cc_PodAnnotations spec, ds_PodSpec = chaincode_pod p enabled, ds_Strategy = ''RollingUpdate''\<rparr>\<rparr>)"

text \<open>An existing deployment gets the specification, and a new annotation when the certificates are new.\<close>

definition updated_deployment :: "'w chaincode_operator \<Rightarrow> bool \<Rightarrow> Deployment \<Rightarrow> Deployment \<Rightarrow> ('w, Deployment) io" where
  "updated_deployment M updated new old =
     (if updated
      then io_bind (io_total (time_Now (cco_crypto M))) (\<lambda>now. io_return (old\<lparr>dep_Spec := (dep_Spec new)\<lparr>ds_PodAnnotations :=
        (ds_PodAnnotations (dep_Spec new))(''hlf.kungfusoftware.es/updatedsecrettime'' \<mapsto> RFC3339 M now)\<rparr>\<rparr>))
      else io_return (old\<lparr>dep_Spec := dep_Spec new\<rparr>))"

definition deploy_chaincode ::
  "'w chaincode_operator \<Rightarrow> string \<Rightarrow> FabricChaincodeResource \<Rightarrow> SecretChaincodeData \<Rightarrow> ('w, Deployment) io" where
  "deploy_chaincode M ns p d = (let new = chaincode_deployment ns p (Enabled d) in
     io_try (obj_Get (cco_deployments M) ns (crName p))
       (\<lambda>old. io_bind (updated_deployment M (Updated d) new old)
          (\<lambda>dep. io_wrap ''failed to update the deployment'' (obj_Update (cco_deployments M) dep)))
       (\<lambda>err. if isNotFound err then obj_Create (cco_deployments M) new else io_throw err))"

section \<open>The service\<close>

definition chaincode_service_spec :: "FabricChaincodeResource \<Rightarrow> ServiceSpec" where
  "chaincode_service_spec p = \<lparr>ss_IPFamilies = [''IPv4''],
     ss_Ports = [\<lparr>sp_Name = ''chaincode'', sp_Protocol = ''TCP'', sp_Port = 7052, sp_TargetPort = 7052\<rparr>],
     ss_Selector = shared_labels p, ss_Type = ''ClusterIP''\<rparr>"

text \<open>
  What the service step ends with: the service is up to date, or the error the resource is marked as
  failed with, which is nil when the service has just been created.
\<close>

definition serve_chaincode ::
  "'w chaincode_operator \<Rightarrow> string \<Rightarrow> FabricChaincodeResource \<Rightarrow> ('w, go_error option + Service) io" where
  "serve_chaincode M ns p = (let spec = chaincode_service_spec p; failed = (\<lambda>err. io_return (Inl (Some err))) in
     io_try (obj_Get (cco_services M) ns (crName p))
       (\<lambda>s. io_try (obj_Update (cco_services M) (s\<lparr>svc_Spec := (svc_Spec s)\<lparr>ss_Ports := ss_Ports spec,
            ss_Type := ss_Type spec, ss_Selector := ss_Selector spec\<rparr>\<rparr>)) (\<lambda>s. io_return (Inr s)) failed)
       (\<lambda>err. if isNotFound err
          then io_try (obj_Create (cco_services M) \<lparr>svc_Name = crName p, svc_Namespace = ns, svc_Spec = spec\<rparr>)
            (\<lambda>_. io_return (Inl None)) failed
          else failed err))"

section \<open>Reconcile\<close>

definition chaincode_report ::
  "'w chaincode_operator \<Rightarrow> FabricChaincodeResource \<Rightarrow> string \<Rightarrow> bool \<Rightarrow> go_error option \<Rightarrow> ('w, Result) io" where
  "chaincode_report M p st flag err =
     io_bind (FabricChaincodeDeploy_setConditionStatus (cco_client M) p st flag err False)
       (\<lambda>(p', _). FabricChaincodeDeploy_updateCRStatusOrFailReconcile (cco_client M) p')"

definition chaincode_fail :: "'w chaincode_operator \<Rightarrow> FabricChaincodeResource \<Rightarrow> go_error \<Rightarrow> ('w, Result) io" where
  "chaincode_fail M p err = chaincode_report M p FailedStatus False (Some err)"

definition with_template :: "'w chaincode_operator \<Rightarrow> FabricChaincodeResource \<Rightarrow> ('w, FabricChaincodeResource) io" where
  "with_template M p = (case cc_Template (cc_Spec p) of
       None \<Rightarrow> io_return p
     | Some ref \<Rightarrow> io_bind (templates_Get M (tref_Namespace ref) (tref_Name ref))
         (\<lambda>t. io_return (p\<lparr>cc_Spec := ApplyDefaultValuesFromTemplate t (cc_Spec p)\<rparr>)))"

definition reconcile_chaincode :: "'w chaincode_operator \<Rightarrow> string \<Rightarrow> FabricChaincodeResource \<Rightarrow> ('w, Result) io" where
  "reconcile_chaincode M req_ns p =
     attempt (chaincode_fail M p) (operator_NewForConfig M) (\<lambda>_.
     attempt (chaincode_fail M p) (with_template M p) (\<lambda>p. let ns = namespace_or_default req_ns in
     attempt (chaincode_fail M p) (kubernetes_NewForConfig M) (\<lambda>_.
     attempt (chaincode_fail M p) (getCryptoMaterial M (chaincode_labels p) ns p) (\<lambda>cryptoData.
     attempt (chaincode_fail M p) (deploy_chaincode M ns p cryptoData) (\<lambda>_.
     io_bind (serve_chaincode M ns p) (\<lambda>served. case served of
         Inl err \<Rightarrow> chaincode_report M p FailedStatus False err
       | Inr _ \<Rightarrow> chaincode_report M p RunningStatus True None))))))"

definition release_chaincode :: "'w chaincode_operator \<Rightarrow> FabricChaincodeResource \<Rightarrow> ('w, Result) io" where
  "release_chaincode M p =
     (if Contains (Finalizers p) chaincodeFinalizer
      then io_bind (finalizeChaincode M p) (\<lambda>_.
        io_bind (removeFinalizer (cco_client M) chaincodeFinalizer p) (\<lambda>_. io_return no_requeue))
      else io_return no_requeue)"

definition Reconcile_chaincode :: "'w chaincode_operator \<Rightarrow> string \<times> string \<Rightarrow> ('w, Result) io" where
  "Reconcile_chaincode M req =
     io_try (client_get (cco_client M) req)
       (\<lambda>p. if DeletionTimestamp p \<noteq> None then release_chaincode M p
            else if \<not> Contains (Finalizers p) chaincodeFinalizer
            then io_bind (FabricChaincodeDeploy_addFinalizer (cco_client M) p) (reconcile_chaincode M (fst req))
            else reconcile_chaincode M (fst req) p)
       (\<lambda>err. if isNotFound err then io_return no_requeue else io_throw err)"

text \<open>
  What a change of a template asks for: a reconciliation of every chaincode there is, whatever template it
  names; none when they cannot be listed.
\<close>

definition enqueueRequestForOwningResource ::
  "('w, FabricChaincodeResource list) io \<Rightarrow> ('w, (string \<times> string) list) io" where
  "enqueueRequestForOwningResource list_all_chaincodes = io_try list_all_chaincodes
     (\<lambda>items. io_return (map (\<lambda>item. (crNamespace item, crName item)) items)) (\<lambda>_. io_return [])"

end
