(* ===== verification/Chaincode_Deploy_Correct.thy ===== *)
theory Chaincode_Deploy_Correct imports Chaincode_Deploy Node_Memory begin

text \<open>
  What the deployment controller of chaincodes guarantees: how a template completes a chaincode, which
  pods its deployment and its service select, that its certificates are kept, even when they end, and when
  it reports a chaincode as running.
\<close>

section \<open>Templates\<close>

lemma add_template_env_names:
  "env_Name ` set (fold add_template_env ts own) = env_Name ` set own \<union> env_Name ` set ts"
  by (induction ts arbitrary: own) (auto simp: add_template_env_def)

lemma fold_template_env_known:
  "env_Name ` set ts \<subseteq> env_Name ` set own \<Longrightarrow> fold add_template_env ts own = own"
  by (induction ts) (auto simp: add_template_env_def)

lemma fold_template_env_extra:
  "\<exists>extra. fold add_template_env ts own = own @ extra \<and> set extra \<subseteq> set ts
     \<and> env_Name ` set extra \<inter> env_Name ` set own = {} \<and> distinct (map env_Name extra)"
proof (induction ts arbitrary: own)
  case (Cons t ts)
  obtain extra where extra: "fold add_template_env ts (add_template_env t own) = add_template_env t own @ extra"
    "set extra \<subseteq> set ts" "env_Name ` set extra \<inter> env_Name ` set (add_template_env t own) = {}" "distinct (map env_Name extra)"
    using Cons by blast
  show ?case
  proof (cases "env_Name t \<in> set (map env_Name own)")
    case True
    then have same: "add_template_env t own = own" by (simp add: add_template_env_def)
    show ?thesis using extra unfolding same by (intro exI [of _ extra]) (auto simp: same)
  next
    case False
    then have new: "add_template_env t own = own @ [t]" by (simp add: add_template_env_def)
    show ?thesis using extra False unfolding new by (intro exI [of _ "t # extra"]) (auto simp: new)
  qed
qed simp

lemma template_env_again: "template_env (template_env own ts) ts = template_env own ts"
proof (cases "own = []")
  case True
  then show ?thesis by (simp add: template_env_def fold_template_env_known)
next
  case False
  obtain extra where "fold add_template_env ts own = own @ extra" using fold_template_env_extra by blast
  moreover have "fold add_template_env ts (fold add_template_env ts own) = fold add_template_env ts own"
    by (rule fold_template_env_known) (simp add: add_template_env_names)
  ultimately show ?thesis using False by (simp add: template_env_def)
qed


section \<open>Pods and services\<close>

text \<open>
  The API server refuses to change the selector of a deployment; reading the clock does not change its
  objects.
\<close>

definition selector_immutable :: "'w chaincode_operator \<Rightarrow> bool" where
  "selector_immutable M \<longleftrightarrow> (\<forall>ns n w w1 w2 old new. obj_Get (cco_deployments M) ns n w = (Ok old, w1) \<longrightarrow>
     w2 \<in> {w1, snd (time_Now (cco_crypto M) w1)} \<longrightarrow> dep_Name new = dep_Name old \<longrightarrow> dep_Namespace new = dep_Namespace old \<longrightarrow>
     ds_Selector (dep_Spec new) \<noteq> ds_Selector (dep_Spec old) \<longrightarrow> (\<exists>e w3. obj_Update (cco_deployments M) new w2 = (Err e, w3)))"

lemma selector_immutableD:
  assumes "selector_immutable M" and "obj_Get (cco_deployments M) ns n w = (Ok old, w1)"
    and "w2 \<in> {w1, snd (time_Now (cco_crypto M) w1)}" and "dep_Name new = dep_Name old" and "dep_Namespace new = dep_Namespace old"
    and "ds_Selector (dep_Spec new) \<noteq> ds_Selector (dep_Spec old)"
  shows "\<exists>e w3. obj_Update (cco_deployments M) new w2 = (Err e, w3)"
  using assms unfolding selector_immutable_def by blast

text \<open>
  C20.  The pod labels of a chaincode can never change.  Deployment and service select the pods by all
  their labels, those of the resource included, because the labels share one map; an existing deployment
  whose selector comes from other pod labels therefore cannot be updated: the deployment fails.
\<close>

theorem chaincode_pod_labels_frozen:
  assumes imm: "selector_immutable M" and got: "obj_Get (cco_deployments M) ns (crName p) w = (Ok old, w1)"
    and other: "ds_Selector (dep_Spec old) \<noteq> shared_labels p"
  shows "(\<exists>e w2. deploy_chaincode M ns p d w = (Err e, w2))
     \<and> ds_Selector (dep_Spec (chaincode_deployment ns p (Enabled d))) = ds_PodLabels (dep_Spec (chaincode_deployment ns p (Enabled d)))
     \<and> ss_Selector (chaincode_service_spec p) = ds_PodLabels (dep_Spec (chaincode_deployment ns p (Enabled d)))"
proof -
  let ?new = "chaincode_deployment ns p (Enabled d)"
  have sel: "ds_Selector (dep_Spec ?new) = shared_labels p" "ds_PodLabels (dep_Spec ?new) = shared_labels p"
    by (simp_all add: chaincode_deployment_def Let_def)
  have "\<exists>dep v. updated_deployment M (Updated d) ?new old w1 = (Ok dep, v) \<and> v \<in> {w1, snd (time_Now (cco_crypto M) w1)}
      \<and> dep_Name dep = dep_Name old \<and> dep_Namespace dep = dep_Namespace old \<and> ds_Selector (dep_Spec dep) = shared_labels p"
    by (cases "time_Now (cco_crypto M) w1") (auto simp: updated_deployment_def io_total_def io_simps sel)
  then obtain dep v e w3 where "updated_deployment M (Updated d) ?new old w1 = (Ok dep, v)"
    "obj_Update (cco_deployments M) dep v = (Err e, w3)"
    using selector_immutableD [OF imm got] other by metis
  then have "deploy_chaincode M ns p d w = (Err (Wrapped ''failed to update the deployment'' e), w3)"
    using got by (simp add: deploy_chaincode_def Let_def io_simps)
  then show ?thesis using sel by (simp add: chaincode_service_spec_def)
qed

section \<open>Certificates\<close>

text \<open>
  The secrets the API server holds in a world: reading gives them, creating and updating change one of
  them, and neither the clock nor making a client touches them.
\<close>

definition secrets_held :: "'w chaincode_operator \<Rightarrow> ('w \<Rightarrow> string \<times> string \<rightharpoonup> chaincode_secret) \<Rightarrow> bool" where
  "secrets_held M held \<longleftrightarrow>
     (\<forall>ns n w. obj_Get (cco_secrets M) ns n w = (case held w (ns, n) of Some s \<Rightarrow> Ok s | None \<Rightarrow> Err (NotFound n), w))
   \<and> (\<forall>s w. let key = (ccs_Namespace s, ccs_Name s) in
        (held w key = None \<longrightarrow> (\<exists>w'. obj_Create (cco_secrets M) s w = (Ok s, w') \<and> held w' = (held w)(key \<mapsto> s)))
      \<and> (held w key \<noteq> None \<longrightarrow> (\<exists>w'. obj_Update (cco_secrets M) s w = (Ok s, w') \<and> held w' = (held w)(key \<mapsto> s))))
   \<and> (\<forall>w ns n s. held w (ns, n) = Some s \<longrightarrow> ccs_Namespace s = ns \<and> ccs_Name s = n)
   \<and> (\<forall>w. held (snd (time_Now (cco_crypto M) w)) = held w)
   \<and> (\<forall>w. \<exists>w'. kubernetes_NewForConfig M w = (Ok (), w') \<and> held w' = held w)"

lemma secrets_heldD:
  assumes "secrets_held M held"
  shows "obj_Get (cco_secrets M) ns n w = (case held w (ns, n) of Some s \<Rightarrow> Ok s | None \<Rightarrow> Err (NotFound n), w)"
    and "held w (ccs_Namespace s, ccs_Name s) = None \<Longrightarrow>
      \<exists>w'. obj_Create (cco_secrets M) s w = (Ok s, w') \<and> held w' = (held w)((ccs_Namespace s, ccs_Name s) \<mapsto> s)"
    and "held w (ccs_Namespace s, ccs_Name s) \<noteq> None \<Longrightarrow>
      \<exists>w'. obj_Update (cco_secrets M) s w = (Ok s, w') \<and> held w' = (held w)((ccs_Namespace s, ccs_Name s) \<mapsto> s)"
    and "held w (ns, n) = Some s \<Longrightarrow> ccs_Namespace s = ns \<and> ccs_Name s = n"
    and "held (snd (time_Now (cco_crypto M) w)) = held w"
    and "\<exists>w'. kubernetes_NewForConfig M w = (Ok (), w') \<and> held w' = held w"
  using assms unfolding secrets_held_def Let_def by blast+

definition full_data :: "SecretChaincodeData \<Rightarrow> bool" where
  "full_data d \<longleftrightarrow> cd_Certificate d \<noteq> [] \<and> cd_PrivateKey d \<noteq> [] \<and> cd_RootCert d \<noteq> []"

lemma chaincode_data_stored:
  "stored_chaincode (s\<lparr>ccs_Data := chaincode_data d\<rparr>) = \<lparr>Updated = False, Enabled = True, cd_Certificate = cd_Certificate d,
     cd_PrivateKey = cd_PrivateKey d, cd_RootCert = cd_RootCert d\<rparr>"
  by (simp add: stored_chaincode_def chaincode_data_def secret_value_def CertificateSecretKey_def PrivateKeySecretKey_def RootCertSecretKey_def)

lemma stored_data: "stored_chaincode s = d \<Longrightarrow> ccs_Data s = chaincode_data d' \<Longrightarrow> d = d'\<lparr>Updated := False, Enabled := True\<rparr>"
  by (auto simp: stored_chaincode_def chaincode_data_def secret_value_def CertificateSecretKey_def PrivateKeySecretKey_def RootCertSecretKey_def)

text \<open>A full secret needs no update, whatever the certificate in it; finding out reads the clock at most.\<close>

lemma update_not_needed:
  assumes "full_data (stored_chaincode s)" and "\<not> panics (x509_of K (secret_value (ccs_Data s) CertificateSecretKey))"
  shows "\<exists>v. update_needed K s w = (Ok False, v) \<and> v \<in> {w, snd (time_Now K w)}"
  using assms
  by (cases "x509_of K (secret_value (ccs_Data s) CertificateSecretKey)"; cases "time_Now K w")
    (auto simp: update_needed_def chaincode_expiring_def full_data_def stored_chaincode_def io_total_def io_simps)

lemma full_secret_kept:
  assumes held: "secrets_held M held" and cred: "cc_Credentials (cc_Spec p) = Some cred"
    and s: "held w (ns, getSecretName p) = Some s" and full: "full_data (stored_chaincode s)"
    and "\<not> panics (x509_of (cco_crypto M) (secret_value (ccs_Data s) CertificateSecretKey))"
  shows "\<exists>w'. getCryptoMaterial M labels ns p w = (Ok (stored_chaincode s), w')
     \<and> held w' = (held w)((ns, getSecretName p) \<mapsto> s\<lparr>ccs_Data := chaincode_data (stored_chaincode s)\<rparr>)"
proof -
  let ?s' = "s\<lparr>ccs_Data := chaincode_data (stored_chaincode s)\<rparr>"
  obtain w1 where w1: "kubernetes_NewForConfig M w = (Ok (), w1)" "held w1 = held w" using secrets_heldD(6) [OF held] by blast
  have got: "obj_Get (cco_secrets M) ns (getSecretName p) w1 = (Ok s, w1)" using secrets_heldD(1) [OF held] w1(2) s by simp
  obtain w2 where w2: "update_needed (cco_crypto M) s w1 = (Ok False, w2)" "w2 \<in> {w1, snd (time_Now (cco_crypto M) w1)}"
    using update_not_needed [OF full assms(5)] by blast
  have held2: "held w2 = held w" using w2(2) w1(2) secrets_heldD(5) [OF held] by auto
  have key: "ccs_Namespace ?s' = ns" "ccs_Name ?s' = getSecretName p" using secrets_heldD(4) [OF held s] by simp_all
  obtain w3 where "obj_Update (cco_secrets M) ?s' w2 = (Ok ?s', w3)" "held w3 = (held w2)((ns, getSecretName p) \<mapsto> ?s')"
    using secrets_heldD(3) [OF held, of w2 ?s', unfolded key] held2 s by auto
  then show ?thesis using w1 got w2(1) held2 cred
    by (auto simp: getCryptoMaterial_def chaincode_material_def write_chaincode_secret_def io_simps)
qed

lemma update_needed_world: "update_needed K s w = (Ok b, v) \<Longrightarrow> v \<in> {w, snd (time_Now K w)}"
  by (cases "x509_of K (secret_value (ccs_Data s) CertificateSecretKey)"; cases "time_Now K w")
    (auto simp: update_needed_def chaincode_expiring_def io_total_def io_simps)

text \<open>What enrolling does not do: change the secrets of the cluster.\<close>

definition enrolment_quiet :: "'w chaincode_operator \<Rightarrow> ('w \<Rightarrow> string \<times> string \<rightharpoonup> chaincode_secret) \<Rightarrow> bool" where
  "enrolment_quiet M held \<longleftrightarrow> (\<forall>p cred w. held (snd (enroll_chaincode M p cred w)) = held w)"

lemma enrolment_quietD: "enrolment_quiet M held \<Longrightarrow> enroll_chaincode M p cred w = (r, w') \<Longrightarrow> held w' = held w"
  unfolding enrolment_quiet_def by (metis snd_conv)

lemma enroll_enabled: "enroll_chaincode M p cred w = (Ok d, v) \<Longrightarrow> Enabled d"
  by (auto simp: enroll_chaincode_def Let_def io_oks)

lemma chaincode_material_world:
  assumes held: "secrets_held M held" and quiet: "enrolment_quiet M held"
    and "chaincode_material M p cred found w = (Ok d, v)"
  shows "held v = held w \<and> Enabled d"
proof (cases found)
  case (Inl e)
  then show ?thesis using assms(3) enrolment_quietD [OF quiet] enroll_enabled by (simp add: chaincode_material_def)
next
  case (Inr s)
  then obtain b u where u: "update_needed (cco_crypto M) s w = (Ok b, u)"
    and rest: "(if b then enroll_chaincode M p cred else io_return (stored_chaincode s)) u = (Ok d, v)"
    using assms(3) by (auto simp: chaincode_material_def io_oks)
  have "held u = held w" using update_needed_world [OF u] secrets_heldD(5) [OF held] by auto
  moreover have "held v = held u \<and> Enabled d"
  proof (cases b)
    case True
    then show ?thesis using rest enrolment_quietD [OF quiet] enroll_enabled by simp
  next
    case False
    then show ?thesis using rest by (auto simp: stored_chaincode_def io_simps)
  qed
  ultimately show ?thesis by simp
qed

lemma material_written:
  assumes held: "secrets_held M held" and quiet: "enrolment_quiet M held"
    and cred: "cc_Credentials (cc_Spec p) = Some cred" and got: "getCryptoMaterial M labels ns p w = (Ok d, w')"
  shows "Enabled d \<and> (\<exists>s. held w' (ns, getSecretName p) = Some s \<and> ccs_Data s = chaincode_data d)"
proof -
  let ?n = "getSecretName p" and ?S = "cco_secrets M"
  obtain w1 where w1: "kubernetes_NewForConfig M w = (Ok (), w1)" using secrets_heldD(6) [OF held] by blast
  define found where "found = (case held w1 (ns, ?n) of Some s \<Rightarrow> Inr s | None \<Rightarrow> Inl (NotFound ?n))"
  have read: "io_try (obj_Get ?S ns ?n) (\<lambda>s. io_return (Inr s)) (\<lambda>e. io_return (Inl e)) w1 = (Ok found, w1)"
    by (simp add: io_simps secrets_heldD(1) [OF held] found_def split: option.split)
  obtain v s where m: "chaincode_material M p cred found w1 = (Ok d, v)"
    and s: "write_chaincode_secret M labels ns p found d v = (Ok s, w')"
    using got w1 cred read by (auto simp: getCryptoMaterial_def io_oks)
  have same: "held v = held w1" and en: "Enabled d" using chaincode_material_world [OF held quiet m] by simp_all
  show ?thesis
  proof (cases "held w1 (ns, ?n)")
    case None
    let ?s = "\<lparr>ccs_Name = ?n, ccs_Namespace = ns, ccs_Labels = labels, ccs_Data = chaincode_data d\<rparr>"
    have "obj_Create ?S ?s v = (Ok s, w')" using s None by (simp add: write_chaincode_secret_def found_def)
    then have "held w' = (held v)((ns, ?n) \<mapsto> ?s)" using secrets_heldD(2) [OF held, of v ?s] None same by auto
    then show ?thesis using en by simp
  next
    case (Some s0)
    let ?s = "s0\<lparr>ccs_Data := chaincode_data d\<rparr>"
    have key: "ccs_Namespace s0 = ns" "ccs_Name s0 = ?n" using secrets_heldD(4) [OF held Some] by simp_all
    have "obj_Update ?S ?s v = (Ok s, w')" using s Some by (simp add: write_chaincode_secret_def found_def)
    then have "held w' = (held v)((ns, ?n) \<mapsto> ?s)" using secrets_heldD(3) [OF held, of v ?s] Some same key by auto
    then show ?thesis using en by simp
  qed
qed

text \<open>
  C18.  A chaincode keeps its certificates for ever.  Once a reconciliation has written a certificate, a
  key and a root certificate, every later one that finds the secret as it was left uses the same three,
  whatever time it is and whatever the resource and the authority have become: the renewal seven days before
  the end, which the code computes, never happens.
\<close>

theorem chaincode_certificates_kept:
  assumes held: "secrets_held M held" and quiet: "enrolment_quiet M held"
    and "cc_Credentials (cc_Spec p) = Some cred" and "cc_Credentials (cc_Spec p') = Some cred'" and "crName p' = crName p"
    and first: "getCryptoMaterial M labels ns p w = (Ok d, w1)" and full: "full_data d"
    and readable: "\<not> panics (x509_of (cco_crypto M) (cd_Certificate d))"
    and later: "held w2 (ns, getSecretName p) = held w1 (ns, getSecretName p)"
  shows "\<exists>w3. getCryptoMaterial M labels' ns p' w2 = (Ok (d\<lparr>Updated := False\<rparr>), w3)"
proof -
  obtain s where s: "held w1 (ns, getSecretName p) = Some s" "ccs_Data s = chaincode_data d" and en: "Enabled d"
    using material_written [OF held quiet assms(3) first] by blast
  have name: "getSecretName p' = getSecretName p" using assms(5) by (simp add: getSecretName_def)
  have d: "stored_chaincode s = d\<lparr>Updated := False\<rparr>"
    using stored_data [OF refl s(2)] en by simp
  have cert: "secret_value (ccs_Data s) CertificateSecretKey = cd_Certificate d"
    by (simp add: s(2) chaincode_data_def secret_value_def CertificateSecretKey_def)
  have "\<exists>w3. getCryptoMaterial M labels' ns p' w2 = (Ok (stored_chaincode s), w3)
     \<and> held w3 = (held w2)((ns, getSecretName p') \<mapsto> s\<lparr>ccs_Data := chaincode_data (stored_chaincode s)\<rparr>)"
    by (rule full_secret_kept [OF held assms(4)])
      (use later s(1) name full readable in \<open>simp_all add: d cert full_data_def\<close>)
  then show ?thesis using d by auto
qed

section \<open>Reports\<close>

lemma chaincode_report_no_requeue:
  "chaincode_report M p st flag err w = (Ok r, w') \<Longrightarrow> r = no_requeue"
  by (auto simp: chaincode_report_def FabricChaincodeDeploy_updateCRStatusOrFailReconcile_def update_no_requeue_def
    io_simps split: prod.splits res.splits)

text \<open>How the service step and a reconciliation end.\<close>

lemma serve_ends:
  assumes "serve_chaincode M ns q v = (r, v')"
  shows "panics r \<or> (\<exists>e. r = Ok (Inl e)) \<or> (\<exists>s old v1. r = Ok (Inr s) \<and> obj_Get (cco_services M) ns (crName q) v = (Ok old, v1))"
  using assms by (auto simp: serve_chaincode_def Let_def io_simps split: prod.splits res.splits if_splits)

lemma attempt_through:
  assumes "attempt h m k w = (r, w')" and "\<not> panics r" and "\<And>e v. h e v \<noteq> (r, w')"
  obtains a v where "m w = (Ok a, v)" and "k a v = (r, w')"
  using assms by (auto simp: attempt_def io_simps split: prod.splits res.splits)

lemma chaincode_ends:
  assumes run: "reconcile_chaincode M req_ns p w = (r, w')" and ok: "\<not> panics r"
    and not_failed: "\<And>q err v. chaincode_report M q FailedStatus False err v \<noteq> (r, w')"
  obtains q s old d dep u v v1 v2 where "deploy_chaincode M (namespace_or_default req_ns) q d u = (Ok dep, v)"
    "obj_Get (cco_services M) (namespace_or_default req_ns) (crName q) v = (Ok old, v1)"
    "serve_chaincode M (namespace_or_default req_ns) q v = (Ok (Inr s), v2)"
    "chaincode_report M q RunningStatus True None v2 = (r, w')"
proof -
  have nf: "\<And>q e v. chaincode_fail M q e v \<noteq> (r, w')" using not_failed by (simp add: chaincode_fail_def)
  obtain v1 where "attempt (chaincode_fail M p) (with_template M p) (\<lambda>p. let ns = namespace_or_default req_ns in
     attempt (chaincode_fail M p) (kubernetes_NewForConfig M) (\<lambda>_.
     attempt (chaincode_fail M p) (getCryptoMaterial M (chaincode_labels p) ns p) (\<lambda>cryptoData.
     attempt (chaincode_fail M p) (deploy_chaincode M ns p cryptoData) (\<lambda>_.
     io_bind (serve_chaincode M ns p) (\<lambda>served. case served of
         Inl err \<Rightarrow> chaincode_report M p FailedStatus False err
       | Inr _ \<Rightarrow> chaincode_report M p RunningStatus True None))))) v1 = (r, w')"
    using run unfolding reconcile_chaincode_def by (rule attempt_through [OF _ ok nf])
  then obtain q v2 where "attempt (chaincode_fail M q) (kubernetes_NewForConfig M) (\<lambda>_.
     attempt (chaincode_fail M q) (getCryptoMaterial M (chaincode_labels q) (namespace_or_default req_ns) q) (\<lambda>cryptoData.
     attempt (chaincode_fail M q) (deploy_chaincode M (namespace_or_default req_ns) q cryptoData) (\<lambda>_.
     io_bind (serve_chaincode M (namespace_or_default req_ns) q) (\<lambda>served. case served of
         Inl err \<Rightarrow> chaincode_report M q FailedStatus False err
       | Inr _ \<Rightarrow> chaincode_report M q RunningStatus True None)))) v2 = (r, w')"
    unfolding Let_def by (rule attempt_through [OF _ ok nf])
  then obtain v3 where "attempt (chaincode_fail M q) (getCryptoMaterial M (chaincode_labels q) (namespace_or_default req_ns) q)
     (\<lambda>cryptoData. attempt (chaincode_fail M q) (deploy_chaincode M (namespace_or_default req_ns) q cryptoData) (\<lambda>_.
     io_bind (serve_chaincode M (namespace_or_default req_ns) q) (\<lambda>served. case served of
         Inl err \<Rightarrow> chaincode_report M q FailedStatus False err
       | Inr _ \<Rightarrow> chaincode_report M q RunningStatus True None))) v3 = (r, w')"
    by (rule attempt_through [OF _ ok nf])
  then obtain d v4 where "attempt (chaincode_fail M q) (deploy_chaincode M (namespace_or_default req_ns) q d) (\<lambda>_.
     io_bind (serve_chaincode M (namespace_or_default req_ns) q) (\<lambda>served. case served of
         Inl err \<Rightarrow> chaincode_report M q FailedStatus False err
       | Inr _ \<Rightarrow> chaincode_report M q RunningStatus True None)) v4 = (r, w')"
    by (rule attempt_through [OF _ ok nf])
  then obtain dep v5 where dep: "deploy_chaincode M (namespace_or_default req_ns) q d v4 = (Ok dep, v5)"
    and rest: "io_bind (serve_chaincode M (namespace_or_default req_ns) q) (\<lambda>served. case served of
         Inl err \<Rightarrow> chaincode_report M q FailedStatus False err
       | Inr _ \<Rightarrow> chaincode_report M q RunningStatus True None) v5 = (r, w')"
    by (rule attempt_through [OF _ ok nf])
  obtain o' v6 where o': "serve_chaincode M (namespace_or_default req_ns) q v5 = (o', v6)" by fastforce
  have "\<not> panics o'" using rest o' ok by (cases o') (auto simp: io_simps)
  then consider e where "o' = Ok (Inl e)" | s old v7 where "o' = Ok (Inr s)"
    "obj_Get (cco_services M) (namespace_or_default req_ns) (crName q) v5 = (Ok old, v7)"
    using serve_ends [OF o'] by blast
  then show thesis
  proof cases
    case 1
    then show ?thesis using rest o' not_failed by (simp add: io_simps)
  next
    case 2
    then show ?thesis using rest o' dep by (intro that [of q d v4 dep v5]) (simp_all add: io_simps)
  qed
qed

lemma chaincode_report_update:
  assumes "client_ok (cco_client M)"
  shows "\<exists>q v. crStatus q = st \<and> chaincode_report M p st flag err w = update_no_requeue (cco_client M) q v"
proof -
  obtain q b v where "setConditionStatus_with set_or_clear_message (cco_client M) p st flag err False w = (Ok (q, b), v)"
    "crStatus q = st"
    using set_status_status [OF assms, of set_or_clear_message p st flag err False w] set_or_clear_status by blast
  then show ?thesis by (auto simp: chaincode_report_def FabricChaincodeDeploy_setConditionStatus_def
    FabricChaincodeDeploy_updateCRStatusOrFailReconcile_def io_simps)
qed

lemma update_no_requeue_ends: "update_no_requeue K q v = (r, w') \<Longrightarrow> \<not> panics r \<Longrightarrow> r = Ok no_requeue \<or> (\<exists>e. r = Err e)"
  by (auto simp: update_no_requeue_def io_simps split: prod.splits res.splits)


section \<open>A chaincode in memory\<close>

definition cred_cc0 :: TLSComponent where
  "cred_cc0 = enr_TLS mem_enrollment"

definition spec_cc0 :: FabricChaincodeSpec where
  "spec_cc0 = \<lparr>cc_Template = None, cc_Annotations = Map.empty, cc_Labels = Map.empty, cc_PodAnnotations = Map.empty,
     cc_PodLabels = [''tier'' \<mapsto> ''gold''], cc_Image = ''img'', cc_ImagePullPolicy = ''Always'', cc_PackageID = ''cc:1'',
     cc_ImagePullSecrets = [], cc_Command = [], cc_Args = [], cc_Affinity = None, cc_Tolerations = [], cc_Resources = None,
     cc_PodSecurityContext = None, cc_SecurityContext = None, cc_ServiceAccountName = [], cc_EnableServiceLinks = False,
     cc_NodeSelector = Map.empty, cc_Credentials = Some cred_cc0, cc_Replicas = 1, cc_Env = [], cc_ChaincodeServerPort = 7052,
     cc_MspID = ''Org1MSP''\<rparr>"

definition cc0 :: FabricChaincodeResource where
  "cc0 = \<lparr>crName = ''cc'', crNamespace = ''ns'', Finalizers = [chaincodeFinalizer], DeletionTimestamp = None,
     crConditions = [], crMessage = [], crStatus = [], cc_Spec = spec_cc0\<rparr>"

type_synonym secret_memory = "string \<times> string \<rightharpoonup> chaincode_secret"

text \<open>The secrets are in the world, its only content; no deployment can be updated, no object is there.\<close>

definition memory_secrets :: "(secret_memory, chaincode_secret) kube_objects" where
  "memory_secrets = \<lparr>
     obj_Get = (\<lambda>ns n w. (case w (ns, n) of Some s \<Rightarrow> if ccs_Namespace s = ns \<and> ccs_Name s = n then Ok s else Err (NotFound n)
       | None \<Rightarrow> Err (NotFound n), w)),
     obj_Create = (\<lambda>s w. (Ok s, w((ccs_Namespace s, ccs_Name s) \<mapsto> s))),
     obj_Update = (\<lambda>s w. (Ok s, w((ccs_Namespace s, ccs_Name s) \<mapsto> s))),
     obj_Delete = (\<lambda>ns n w. (Ok (), w((ns, n) := None)))\<rparr>"

definition no_objects :: "('w, 'o) kube_objects" where
  "no_objects = \<lparr>obj_Get = (\<lambda>_ n. io_throw (NotFound n)), obj_Create = io_return, obj_Update = (\<lambda>_. io_throw (ErrorString ''immutable'')),
     obj_Delete = (\<lambda>_ n. io_throw (NotFound n))\<rparr>"

definition mem_chaincode :: "secret_memory chaincode_operator" where
  "mem_chaincode = \<lparr>cco_client = mem_client cc0, operator_NewForConfig = io_return (), templates_Get = (\<lambda>_ n. io_throw (NotFound n)),
     kubernetes_NewForConfig = io_return (), cco_secrets = memory_secrets, cco_deployments = no_objects, cco_services = no_objects,
     cco_crypto = crypto_two, cco_ca = mem_ca, RFC3339 = (\<lambda>_. ''now'')\<rparr>"

text \<open>The secrets that are under their names.\<close>

definition memory_held :: "secret_memory \<Rightarrow> string \<times> string \<rightharpoonup> chaincode_secret" where
  "memory_held w key = (case w key of Some s \<Rightarrow> if (ccs_Namespace s, ccs_Name s) = key then Some s else None | None \<Rightarrow> None)"

lemma memory_held_put: "memory_held (w((ccs_Namespace s, ccs_Name s) \<mapsto> s)) = (memory_held w)((ccs_Namespace s, ccs_Name s) \<mapsto> s)"
  by (rule ext) (auto simp: memory_held_def)

lemma memory_held_Some: "memory_held w (ns, n) = Some s \<Longrightarrow> ccs_Namespace s = ns \<and> ccs_Name s = n"
  by (auto simp: memory_held_def split: option.splits if_splits)

lemma mem_chaincode_held: "secrets_held mem_chaincode memory_held"
  unfolding secrets_held_def Let_def
proof (intro conjI allI impI)
  show "obj_Get (cco_secrets mem_chaincode) ns n w = (case memory_held w (ns, n) of Some s \<Rightarrow> Ok s | None \<Rightarrow> Err (NotFound n), w)" for ns n w
    by (auto simp: mem_chaincode_def memory_secrets_def memory_held_def split: option.splits)
qed (auto simp: mem_chaincode_def memory_secrets_def memory_held_put clock_two io_simps dest: memory_held_Some)

lemma mem_chaincode_quiet: "enrolment_quiet mem_chaincode memory_held"
proof -
  have "snd (enroll_chaincode mem_chaincode p cred w) = w" for p cred w
    by (cases "comp_Catls cred")
      (simp_all add: enroll_chaincode_def CreateChaincodeCryptoMaterial_def EnrollUser_def GetClient_def init_client_def on_ca_def
        ca_root_def readKey_def x509_of_def ecdsa_of_def ParseX509Certificate_def ParseECDSAPrivateKey_def EncodePrivateKey_def
        mem_chaincode_def mem_ca_def crypto_two_def crypto_one_def ca_params_def tls_client_def Let_def io_simps)
  then show ?thesis by (simp add: enrolment_quiet_def)
qed

lemma cc0_enrolls:
  "getCryptoMaterial mem_chaincode labels ''ns'' cc0 Map.empty =
     (Ok \<lparr>Updated = True, Enabled = True, cd_Certificate = ''new'', cd_PrivateKey = ''fresh'', cd_RootCert = ''root''\<rparr>,
      [(''ns'', ''cc-certs'') \<mapsto> \<lparr>ccs_Name = ''cc-certs'', ccs_Namespace = ''ns'', ccs_Labels = labels,
        ccs_Data = [''tls.crt'' \<mapsto> ''new'', ''tlsroot.crt'' \<mapsto> ''root'', ''tls.key'' \<mapsto> ''fresh'']\<rparr>])"
  by (simp add: getCryptoMaterial_def chaincode_material_def write_chaincode_secret_def chaincode_data_def enroll_chaincode_def
    CreateChaincodeCryptoMaterial_def EnrollUser_def GetClient_def init_client_def on_ca_def ca_root_def readKey_def x509_of_def
    ecdsa_of_def ParseX509Certificate_def ParseECDSAPrivateKey_def EncodePrivateKey_def pem_of_def EncodeX509Certificate_def
    memory_secrets_def getSecretName_def mem_chaincode_def mem_ca_def crypto_two_def crypto_one_def ca_params_def tls_client_def
    cc0_def spec_cc0_def cred_cc0_def mem_enrollment_def zero_component_def Component.defs TLSComponent.defs Let_def io_simps)

theorem chaincode_certificates_kept_witness:
  "\<exists>w. getCryptoMaterial mem_chaincode Map.empty ''ns'' cc0
       [(''ns'', ''cc-certs'') \<mapsto> \<lparr>ccs_Name = ''cc-certs'', ccs_Namespace = ''ns'', ccs_Labels = Map.empty,
         ccs_Data = [''tls.crt'' \<mapsto> ''new'', ''tlsroot.crt'' \<mapsto> ''root'', ''tls.key'' \<mapsto> ''fresh'']\<rparr>]
     = (Ok \<lparr>Updated = False, Enabled = True, cd_Certificate = ''new'', cd_PrivateKey = ''fresh'', cd_RootCert = ''root''\<rparr>, w)"
proof -
  have cred: "cc_Credentials (cc_Spec cc0) = Some cred_cc0" by (simp add: cc0_def spec_cc0_def)
  let ?d = "\<lparr>Updated = True, Enabled = True, cd_Certificate = ''new'', cd_PrivateKey = ''fresh'', cd_RootCert = ''root''\<rparr>"
  have full: "full_data ?d" by (simp add: full_data_def)
  have readable: "\<not> panics (x509_of (cco_crypto mem_chaincode) (cd_Certificate ?d))"
    by (simp add: x509_of_def ParseX509Certificate_def mem_chaincode_def crypto_two_def crypto_one_def)
  show ?thesis
    using chaincode_certificates_kept [OF mem_chaincode_held mem_chaincode_quiet cred cred refl cc0_enrolls [of Map.empty] full readable refl,
      of Map.empty] by (simp only: SecretChaincodeData.update_convs)
qed

definition old_deployment :: Deployment where
  "old_deployment = chaincode_deployment ''ns'' (cc0\<lparr>cc_Spec := spec_cc0\<lparr>cc_PodLabels := Map.empty\<rparr>\<rparr>) True"

definition frozen_chaincode :: "secret_memory chaincode_operator" where
  "frozen_chaincode = mem_chaincode\<lparr>cco_deployments := no_objects\<lparr>obj_Get := \<lambda>_ _. io_return old_deployment\<rparr>\<rparr>"

theorem chaincode_pod_labels_frozen_witness:
  "\<exists>e w. deploy_chaincode frozen_chaincode ''ns'' cc0
     \<lparr>Updated = False, Enabled = True, cd_Certificate = ''c'', cd_PrivateKey = ''k'', cd_RootCert = ''r''\<rparr> Map.empty = (Err e, w)"
proof -
  have imm: "selector_immutable frozen_chaincode"
    by (auto simp: selector_immutable_def frozen_chaincode_def no_objects_def io_simps)
  have got: "obj_Get (cco_deployments frozen_chaincode) ''ns'' (crName cc0) Map.empty = (Ok old_deployment, Map.empty)"
    by (simp add: frozen_chaincode_def io_simps)
  have "ds_Selector (dep_Spec old_deployment) ''tier'' \<noteq> shared_labels cc0 ''tier''"
    by (simp add: old_deployment_def chaincode_deployment_def shared_labels_def chaincode_labels_def cc0_def spec_cc0_def Let_def)
  then have "ds_Selector (dep_Spec old_deployment) \<noteq> shared_labels cc0" by metis
  from chaincode_pod_labels_frozen [OF imm got this] show ?thesis by blast
qed

lemma mem_report: "cco_client M = mem_client c \<Longrightarrow> chaincode_report M p st flag err w = (Ok no_requeue, w)"
  by (cases "crStatus p = st")
    (auto simp: chaincode_report_def FabricChaincodeDeploy_setConditionStatus_def setConditionStatus_with_def mem_client_def
      FabricChaincodeDeploy_updateCRStatusOrFailReconcile_def update_no_requeue_def Let_def io_simps split: prod.split)


end
