(* ===== verification/Network_Controller.thy ===== *)
theory Network_Controller imports Identity_Controller begin

text \<open>
  \<open>FabricNetworkConfigReconciler\<close> (\<open>controllers/networkconfig/networkconfig_controller.go\<close>): the peers,
  ordering nodes, authorities and identities of the cluster that a resource selects are written, as a
  configuration for the Fabric SDK, into a secret.  \<open>Reconcile\<close> is one function in the code; each
  definition below is a stretch of it.
\<close>

section \<open>The resource\<close>

record FabricNetworkConfigOrgPeer =
  orgpeer_Name :: string
  orgpeer_Namespace :: string

record FabricNetworkConfigCA =
  netca_Name :: string
  netca_Namespace :: string

record FabricNetworkConfigExternalPeer =
  xp_Name :: string
  xp_URL :: string
  xp_TLSCACert :: string
  xp_MSPID :: string

record FabricNetworkConfigExternalOrderer =
  xo_Name :: string
  xo_URL :: string
  xo_TLSCACert :: string
  xo_MSPID :: string

record FabricNetworkConfigIdentity =
  netid_Name :: string
  netid_Namespace :: string

text \<open>\<open>OrganizationConfig\<close> is a map; it is listed in the order this run of the program ranges over it.\<close>

record FabricNetworkConfigSpec =
  net_Organization :: string
  net_Internal :: bool
  net_Organizations :: "string list"
  net_OrganizationConfig :: "(string \<times> FabricNetworkConfigOrgPeer list) list"
  net_Namespaces :: "string list"
  net_CertificateAuthorities :: "FabricNetworkConfigCA list"
  net_Channels :: "string list"
  net_Identities :: "FabricNetworkConfigIdentity list"
  net_ExternalOrderers :: "FabricNetworkConfigExternalOrderer list"
  net_ExternalPeers :: "FabricNetworkConfigExternalPeer list"
  net_SecretName :: string

record FabricNetworkConfigResource = custom_resource +
  net_Spec :: FabricNetworkConfigSpec

section \<open>What is selected\<close>

record OrgUser =
  user_Name :: string
  user_Cert :: string
  user_Key :: string

text \<open>Organizations of the cluster lookup, which has no use for the users.\<close>

record NetworkOrganization = Organization +
  Users :: "OrgUser list"

definition network_org :: "Organization \<Rightarrow> NetworkOrganization" where
  "network_org org = Organization.extend org (NetworkOrganization.fields [])"

text \<open>The filters by namespace and by organization; an empty list filters nothing.\<close>

definition in_namespaces :: "FabricNetworkConfigSpec \<Rightarrow> string \<Rightarrow> bool" where
  "in_namespaces spec ns \<longleftrightarrow> net_Namespaces spec = [] \<or> Contains (net_Namespaces spec) ns"

definition in_organizations :: "FabricNetworkConfigSpec \<Rightarrow> string \<Rightarrow> bool" where
  "in_organizations spec msp \<longleftrightarrow> net_Organizations spec = [] \<or> Contains (net_Organizations spec) msp"

abbreviation peer_namespace :: "ClusterPeer \<Rightarrow> string" where
  "peer_namespace p \<equiv> peer_Namespace (Peer_Object p)"

abbreviation node_msp :: "ClusterOrdererNode \<Rightarrow> string" where
  "node_msp n \<equiv> node_MspID (Node_Object n)"

definition names_ca :: "ClusterCA \<Rightarrow> FabricNetworkConfigCA \<Rightarrow> bool" where
  "names_ca ca r \<longleftrightarrow> ca_Name (CA_Object ca) = netca_Name r \<and> ca_Namespace (CA_Object ca) = netca_Namespace r"

definition selected_cas :: "FabricNetworkConfigSpec \<Rightarrow> ClusterCA list \<Rightarrow> ClusterCA list" where
  "selected_cas spec clusterCertAuths =
     (let certAuths = filter (\<lambda>ca. in_namespaces spec (ca_Namespace (CA_Object ca))) clusterCertAuths
      in if net_CertificateAuthorities spec = [] then certAuths
         else concat (map (\<lambda>ca. map (\<lambda>_. ca) (filter (names_ca ca) (net_CertificateAuthorities spec))) certAuths))"

definition org_peers :: "FabricNetworkConfigSpec \<Rightarrow> ClusterPeer list \<Rightarrow> ClusterPeer list" where
  "org_peers spec = filter (\<lambda>p. in_namespaces spec (peer_namespace p) \<and> in_organizations spec (MSPID p))"

definition peer_orgs ::
  "FabricNetworkConfigSpec \<Rightarrow> Organization list \<Rightarrow> (string \<times> NetworkOrganization) list" where
  "peer_orgs spec orgs = fold
     (\<lambda>v orgMap. AList.update (MspID v) (network_org (v\<lparr>Peers := org_peers spec (Peers v)\<rparr>)) orgMap)
     (filter (\<lambda>v. in_organizations spec (MspID v)) orgs) []"

definition selected_orderers :: "FabricNetworkConfigSpec \<Rightarrow> ClusterOrdererNode list \<Rightarrow> ClusterOrdererNode list" where
  "selected_orderers spec = filter (\<lambda>n. in_namespaces spec (node_Namespace (Node_Object n)) \<and> in_organizations spec (node_msp n))"

definition add_orderer ::
  "ClusterOrdererNode \<Rightarrow> (string \<times> NetworkOrganization) list \<Rightarrow> (string \<times> NetworkOrganization) list" where
  "add_orderer n orgMap = AList.update (node_msp n)
     (case map_of orgMap (node_msp n) of
        Some org \<Rightarrow> org\<lparr>OrdererNodes := OrdererNodes org @ [n]\<rparr>
      | None \<Rightarrow> network_org \<lparr>Org_Type = OrdererType, MspID = node_msp n, OrdererNodes = [n], Peers = []\<rparr>) orgMap"

definition all_orgs ::
  "FabricNetworkConfigSpec \<Rightarrow> Organization list \<Rightarrow> ClusterOrdererNode list \<Rightarrow> (string \<times> NetworkOrganization) list" where
  "all_orgs spec orgs nodes = fold add_orderer (selected_orderers spec nodes) (peer_orgs spec orgs)"

definition selected_peers :: "FabricNetworkConfigSpec \<Rightarrow> ClusterPeer list \<Rightarrow> ClusterPeer list" where
  "selected_peers spec = filter (\<lambda>p. in_namespaces spec (peer_namespace p)
     \<and> (0 < peer_Replicas (Peer_Object p) \<and> net_Organizations spec \<noteq> [] \<and> Contains (net_Organizations spec) (MSPID p)
        \<or> net_Organizations spec = []))"

text \<open>The peers an organization is restricted to; a listed organization that is not there is a nil pointer.\<close>

definition names_peer :: "FabricNetworkConfigOrgPeer \<Rightarrow> ClusterPeer \<Rightarrow> bool" where
  "names_peer r p \<longleftrightarrow> peer_Name (Peer_Object p) = orgpeer_Name r \<and> peer_namespace p = orgpeer_Namespace r
     \<and> 0 < peer_Replicas (Peer_Object p)"

definition restrict_org ::
  "string \<times> FabricNetworkConfigOrgPeer list \<Rightarrow> ClusterPeer list \<times> (string \<times> NetworkOrganization) list
   \<Rightarrow> (ClusterPeer list \<times> (string \<times> NetworkOrganization) list) res" where
  "restrict_org cfg s = (case cfg of (mspID, refs) \<Rightarrow> case s of (peers, orgMap) \<Rightarrow>
     if refs = [] then Ok (peers, orgMap)
     else (let orgPeers = concat (map (\<lambda>r. filter (names_peer r) peers) refs);
               restPeerOrgs = filter (\<lambda>p. MSPID p \<noteq> mspID \<and> 0 < peer_Replicas (Peer_Object p)) peers
           in case map_of orgMap mspID of
                None \<Rightarrow> Panic ''nil pointer dereference''
              | Some org \<Rightarrow> Ok (restPeerOrgs @ orgPeers, AList.update mspID (org\<lparr>Peers := orgPeers\<rparr>) orgMap)))"

definition restrict_orgs ::
  "FabricNetworkConfigSpec \<Rightarrow> ClusterPeer list \<Rightarrow> (string \<times> NetworkOrganization) list
   \<Rightarrow> (ClusterPeer list \<times> (string \<times> NetworkOrganization) list) res" where
  "restrict_orgs spec peers orgMap = res_fold restrict_org (net_OrganizationConfig spec) (peers, orgMap)"

section \<open>The configuration\<close>

text \<open>
  What the template writes, section by section.  Lists that are empty are written as empty sections.
\<close>

record sdk_org =
  sdk_MSPID :: string
  sdk_Users :: "OrgUser list"
  sdk_org_Peers :: "string list"
  sdk_org_Orderers :: "string list"

record sdk_orderer =
  sdko_Name :: string
  sdko_URL :: string
  sdko_Admin :: "(string \<times> string) option"
  sdko_TLSCACert :: string

record sdk_peer =
  sdkp_Name :: string
  sdkp_URL :: string
  sdkp_TLSCACert :: string

record sdk_ca =
  sdkc_Name :: string
  sdkc_URL :: string
  sdkc_Registrar :: "(string \<times> string) option"
  sdkc_TLSCert :: string

record sdk_channel =
  sdkch_Name :: string
  sdkch_Orderers :: "string list"
  sdkch_Peers :: "string list"

record sdk_config =
  sdk_Organization :: string
  sdk_Organizations :: "sdk_org list"
  sdk_Orderers :: "sdk_orderer list"
  sdk_Peers :: "sdk_peer list"
  sdk_CAs :: "sdk_ca list"
  sdk_Channels :: "sdk_channel list"

record template_data =
  td_Peers :: "ClusterPeer list"
  td_Orderers :: "ClusterOrdererNode list"
  td_Organizations :: "(string \<times> NetworkOrganization) list"
  td_CertAuths :: "ClusterCA list"

text \<open>The template's \<open>or\<close> of two strings, its first that is not empty.\<close>

definition or_string :: "string \<Rightarrow> string \<Rightarrow> string" where
  "or_string a b = (if a \<noteq> [] then a else b)"

definition sdk_orderer_of :: "FabricNetworkConfigSpec \<Rightarrow> ClusterOrdererNode \<Rightarrow> sdk_orderer" where
  "sdk_orderer_of spec n = \<lparr>sdko_Name = Node_FullName n,
     sdko_URL = ''grpcs://'' @ (if net_Internal spec then Node_PrivateURL n else Node_PublicURL n),
     sdko_Admin = (if AdminURL n \<noteq> [] then Some (AdminURL n, node_TlsAdminCert (Node_Object n)) else None),
     sdko_TLSCACert = or_string (node_TLSCACert (Node_Object n)) (node_TlsCert (Node_Object n))\<rparr>"

definition sdk_external_orderer :: "FabricNetworkConfigExternalOrderer \<Rightarrow> sdk_orderer" where
  "sdk_external_orderer x = \<lparr>sdko_Name = xo_Name x, sdko_URL = xo_URL x, sdko_Admin = None, sdko_TLSCACert = xo_TLSCACert x\<rparr>"

definition sdk_peer_of :: "FabricNetworkConfigSpec \<Rightarrow> ClusterPeer \<Rightarrow> sdk_peer" where
  "sdk_peer_of spec p = \<lparr>sdkp_Name = Peer_FullName p,
     sdkp_URL = ''grpcs://'' @ (if net_Internal spec then Peer_PrivateURL p else Peer_PublicURL p),
     sdkp_TLSCACert = peer_TLSCACert (Peer_Object p)\<rparr>"

definition sdk_external_peer :: "FabricNetworkConfigExternalPeer \<Rightarrow> sdk_peer" where
  "sdk_external_peer x = \<lparr>sdkp_Name = xp_Name x, sdkp_URL = xp_URL x, sdkp_TLSCACert = xp_TLSCACert x\<rparr>"

definition sdk_ca_of :: "FabricNetworkConfigSpec \<Rightarrow> ClusterCA \<Rightarrow> sdk_ca" where
  "sdk_ca_of spec ca = \<lparr>sdkc_Name = CA_FullName ca,
     sdkc_URL = ''https://'' @ (if net_Internal spec then CA_PrivateURL ca else CA_PublicURL ca),
     sdkc_Registrar = (if EnrollID ca \<noteq> [] then Some (EnrollID ca, EnrollPWD ca) else None),
     sdkc_TLSCert = ca_TlsCert (CA_Object ca)\<rparr>"

text \<open>Only an organization with ordering nodes of the cluster lists the external ones too.\<close>

definition sdk_org_of :: "FabricNetworkConfigSpec \<Rightarrow> string \<times> NetworkOrganization \<Rightarrow> sdk_org" where
  "sdk_org_of spec entry = (case entry of (mspID, org) \<Rightarrow>
     \<lparr>sdk_MSPID = mspID, sdk_Users = Users org, sdk_org_Peers = map Peer_FullName (Peers org),
      sdk_org_Orderers = (if OrdererNodes org = [] then []
        else map Node_FullName (OrdererNodes org) @ map xo_Name (net_ExternalOrderers spec))\<rparr>)"

text \<open>The template ranges over the organizations in the order of their keys.\<close>

definition sdk_config_of :: "FabricNetworkConfigSpec \<Rightarrow> template_data \<Rightarrow> sdk_config" where
  "sdk_config_of spec d =
     (let orderers = map (sdk_orderer_of spec) (td_Orderers d) @ map sdk_external_orderer (net_ExternalOrderers spec);
          peers = map (sdk_peer_of spec) (td_Peers d) @ map sdk_external_peer (net_ExternalPeers spec)
      in \<lparr>sdk_Organization = net_Organization spec,
          sdk_Organizations = map (sdk_org_of spec) (sort_key fst (td_Organizations d)),
          sdk_Orderers = orderers, sdk_Peers = peers, sdk_CAs = map (sdk_ca_of spec) (td_CertAuths d),
          sdk_Channels = map (\<lambda>ch. \<lparr>sdkch_Name = ch, sdkch_Orderers = map sdko_Name orderers,
            sdkch_Peers = map sdkp_Name peers\<rparr>) (net_Channels spec)\<rparr>)"

section \<open>Reconcile\<close>

text \<open>
  The reconciler with its clients.  \<open>map_order\<close> is the order in which this run yields the keys of the map
  of the peer lookup; \<open>template_text\<close> prints the sections, which parsing and executing the template does.
\<close>

record 'w network_operator =
  net_client :: "('w, FabricNetworkConfigResource) client"
  hlf_NewForConfig :: "('w, unit) io"
  kube_NewForConfig :: "('w, unit) io"
  net_cluster :: "'w cluster"
  map_order :: "string list \<Rightarrow> string list"
  identities_Get :: "string \<Rightarrow> string \<Rightarrow> ('w, FabricIdentityResource) io"
  net_secrets :: "('w, k8s_secret) kube_objects"
  template_text :: "sdk_config \<Rightarrow> string res"

definition network_fail :: "'w network_operator \<Rightarrow> FabricNetworkConfigResource \<Rightarrow> go_error \<Rightarrow> ('w, Result) io" where
  "network_fail M = report_failure FabricNetworkConfig_setConditionStatus FabricNetworkConfig_updateCRStatusOrFailReconcile (net_client M)"

text \<open>One identity of the resource: it becomes a user of its organization, when that is in the network.\<close>

definition secret_entry :: "string \<Rightarrow> string \<Rightarrow> (string \<rightharpoonup> string) \<Rightarrow> string res" where
  "secret_entry key what data = (case data key of
      None \<Rightarrow> Err (ErrorString (''no '' @ what @ '' in secret'')) | Some v \<Rightarrow> Ok v)"

definition add_identity ::
  "'w network_operator \<Rightarrow> FabricNetworkConfigIdentity \<Rightarrow> (string \<times> NetworkOrganization) list
   \<Rightarrow> ('w, (string \<times> NetworkOrganization) list) io" where
  "add_identity M ident orgMap =
     io_bind (identities_Get M (netid_Namespace ident) (netid_Name ident)) (\<lambda>fabIdentity.
       let mspID = id_MSPID (id_Spec fabIdentity) in case map_of orgMap mspID of
         None \<Rightarrow> io_return orgMap
       | Some org \<Rightarrow>
           if crStatus fabIdentity \<noteq> RunningStatus then io_throw (ErrorString ''identity not ready'')
           else io_bind (obj_Get (net_secrets M) (netid_Namespace ident) (netid_Name ident)) (\<lambda>secret.
             io_bind (io_lift (secret_entry ''cert.pem'' ''cert'' (sec_Data secret))) (\<lambda>certBytes.
             io_bind (io_lift (secret_entry ''key.pem'' ''key'' (sec_Data secret))) (\<lambda>keyBytes.
               io_return (AList.update mspID (org\<lparr>Users := Users org @ [\<lparr>user_Name = netid_Name ident @ ''-'' @ netid_Namespace ident,
                 user_Cert = certBytes, user_Key = keyBytes\<rparr>]\<rparr>) orgMap)))))"

fun add_identities ::
  "'w network_operator \<Rightarrow> FabricNetworkConfigIdentity list \<Rightarrow> (string \<times> NetworkOrganization) list
   \<Rightarrow> ('w, (string \<times> NetworkOrganization) list) io" where
  "add_identities M [] orgMap = io_return orgMap"
| "add_identities M (i # is) orgMap = io_bind (add_identity M i orgMap) (add_identities M is)"

text \<open>Everything up to the text of the configuration.\<close>

definition network_text :: "'w network_operator \<Rightarrow> FabricNetworkConfigResource \<Rightarrow> ('w, string) io" where
  "network_text M p = (let spec = net_Spec p; K = net_cluster M in
     io_bind (hlf_NewForConfig M) (\<lambda>_.
     io_bind (kube_NewForConfig M) (\<lambda>_.
     io_bind (GetClusterCAs K []) (\<lambda>clusterCertAuths.
     io_bind (GetClusterOrdererNodes K []) (\<lambda>clusterOrderersNodes.
     io_bind (GetClusterPeers K (map_order M) []) (\<lambda>(peerOrgs, clusterPeers).
     io_bind (add_identities M (net_Identities spec) (all_orgs spec peerOrgs clusterOrderersNodes)) (\<lambda>orgMap.
     io_bind (io_lift (restrict_orgs spec (selected_peers spec clusterPeers) orgMap)) (\<lambda>(peers, orgMap).
       io_lift (template_text M (sdk_config_of spec \<lparr>td_Peers = peers, td_Orderers = selected_orderers spec clusterOrderersNodes,
         td_Organizations = orgMap, td_CertAuths = selected_cas spec clusterCertAuths\<rparr>))))))))))"

text \<open>The end of a reconciliation that updated the secret: the status is written twice.\<close>

definition network_done :: "'w network_operator \<Rightarrow> FabricNetworkConfigResource \<Rightarrow> ('w, Result) io" where
  "network_done M p = (let K = net_client M; running = (\<lambda>p. FabricNetworkConfig_setConditionStatus K p RunningStatus True None False) in
     io_bind (running p) (\<lambda>(p, _) w.
       let fca = fst (put_condition (clock_now K w) \<lparr>Type = RunningStatus, Status = ConditionTrue, Reason = [], Message = [],
             LastTransitionTime = 0\<rparr> (p\<lparr>crStatus := RunningStatus\<rparr>))
       in io_try (status_update K fca)
            (\<lambda>_. io_bind (running p) (\<lambda>(p, _). FabricNetworkConfig_updateCRStatusOrFailReconcileWithRequeue K p (120 * Minute)))
            io_throw w))"

text \<open>The secret: one that is not there is created, which ends the reconciliation at once.\<close>

definition write_network ::
  "'w network_operator \<Rightarrow> string \<Rightarrow> FabricNetworkConfigResource \<Rightarrow> string \<Rightarrow> ('w, Result) io" where
  "write_network M ns p txt = (let name = net_SecretName (net_Spec p); data = [''config.yaml'' \<mapsto> txt] in
     io_try (obj_Get (net_secrets M) ns name)
       (\<lambda>secret. attempt (network_fail M p) (obj_Update (net_secrets M) (secret\<lparr>sec_Data := data\<rparr>)) (\<lambda>_. network_done M p))
       (\<lambda>err. if isNotFound err
          then attempt (network_fail M p)
            (obj_Create (net_secrets M) \<lparr>sec_Name = name, sec_Namespace = ns, sec_Data = data, sec_Owners = []\<rparr>)
            (\<lambda>_. io_return no_requeue)
          else network_fail M p err))"

definition reconcile_network :: "'w network_operator \<Rightarrow> string \<Rightarrow> FabricNetworkConfigResource \<Rightarrow> ('w, Result) io" where
  "reconcile_network M req_ns p =
     attempt (network_fail M p) (network_text M p) (write_network M (namespace_or_default req_ns) p)"

text \<open>Releasing a network configuration does nothing but remove its finalizer.\<close>

definition Reconcile_network :: "'w network_operator \<Rightarrow> string \<times> string \<Rightarrow> ('w, Result) io" where
  "Reconcile_network M req =
     with_resource (net_client M) networkConfigFinalizer (FabricNetworkConfig_addFinalizer (net_client M)) req
       (reconcile_network M (fst req))"

end
