(* ===== verification/Network_Correct.thy ===== *)
theory Network_Correct imports Network_Controller begin

text \<open>
  What the network configuration controller guarantees: no dangling reference when every peer runs, a
  panic exactly for an organization that is not in the network, and a refresh only after an update.
\<close>

section \<open>Association lists with distinct keys\<close>

lemma set_update_distinct:
  assumes "distinct (map fst al)"
  shows "set (AList.update k v al) = insert (k, v) {x \<in> set al. fst x \<noteq> k}"
proof -
  have "distinct (map fst (AList.update k v al))" using assms by (rule distinct_update)
  then have "x \<in> set (AList.update k v al) \<longleftrightarrow> map_of (AList.update k v al) (fst x) = Some (snd x)" for x by simp
  moreover have "x \<in> set al \<longleftrightarrow> map_of al (fst x) = Some (snd x)" for x using assms by simp
  ultimately show ?thesis by (auto simp: update_conv' split: if_splits)
qed

text \<open>Every organization has peers of its own among \<open>ps\<close> and ordering nodes among \<open>ns\<close>.\<close>

definition orgs_sound :: "ClusterPeer set \<Rightarrow> ClusterOrdererNode set \<Rightarrow> (string \<times> NetworkOrganization) list \<Rightarrow> bool" where
  "orgs_sound ps ns al \<longleftrightarrow> distinct (map fst al)
     \<and> (\<forall>(m, o') \<in> set al. set (Peers o') \<subseteq> {p \<in> ps. MSPID p = m} \<and> set (OrdererNodes o') \<subseteq> ns)"

lemma orgs_soundD:
  assumes "orgs_sound ps ns al" and "map_of al m = Some o'"
  shows "set (Peers o') \<subseteq> {p \<in> ps. MSPID p = m}" and "set (OrdererNodes o') \<subseteq> ns"
  using assms by (auto simp: orgs_sound_def dest: map_of_SomeD)

lemma orgs_sound_update:
  assumes "orgs_sound ps ns al" and "set (Peers o') \<subseteq> {p \<in> ps. MSPID p = m}" and "set (OrdererNodes o') \<subseteq> ns"
  shows "orgs_sound ps ns (AList.update m o' al)"
proof -
  have d: "distinct (map fst al)" using assms(1) by (simp add: orgs_sound_def)
  show ?thesis using assms distinct_update [OF d] by (auto simp: orgs_sound_def set_update_distinct [OF d])
qed

lemma orgs_sound_fold:
  assumes "orgs_sound ps ns al" and "\<And>x al. x \<in> set xs \<Longrightarrow> orgs_sound ps ns al \<Longrightarrow> orgs_sound ps ns (f x al)"
  shows "orgs_sound ps ns (fold f xs al)"
  using assms by (induction xs arbitrary: al) simp_all

section \<open>Who is selected\<close>

lemma network_org_simps [simp]:
  "Peers (network_org o') = Peers o'" "OrdererNodes (network_org o') = OrdererNodes o'" "MspID (network_org o') = MspID o'"
  "Users (network_org o') = []"
  by (simp_all add: network_org_def Organization.defs NetworkOrganization.defs)

lemma peer_orgs_sound:
  assumes orgs: "\<forall>v \<in> set orgs. OrdererNodes v = [] \<and> (\<forall>p \<in> set (Peers v). p \<in> set peers \<and> MSPID p = MspID v)"
    and run: "\<forall>p \<in> set peers. 0 < peer_Replicas (Peer_Object p)"
  shows "orgs_sound (set (selected_peers spec peers)) ns (peer_orgs spec orgs)"
  unfolding peer_orgs_def
proof (rule orgs_sound_fold)
  show "orgs_sound (set (selected_peers spec peers)) ns []" by (simp add: orgs_sound_def)
next
  fix v al assume v: "v \<in> set (filter (\<lambda>v. in_organizations spec (MspID v)) orgs)"
    and al: "orgs_sound (set (selected_peers spec peers)) ns al"
  have "p \<in> set (selected_peers spec peers) \<and> MSPID p = MspID v" if "p \<in> set (org_peers spec (Peers v))" for p
    using that v orgs run by (auto simp: org_peers_def selected_peers_def in_organizations_def)
  then show "orgs_sound (set (selected_peers spec peers)) ns
     (AList.update (MspID v) (network_org (v\<lparr>Peers := org_peers spec (Peers v)\<rparr>)) al)"
    using v orgs by (intro orgs_sound_update [OF al]) auto
qed

lemma all_orgs_sound:
  assumes "orgs_sound ps (set (selected_orderers spec nodes)) (peer_orgs spec orgs)"
  shows "orgs_sound ps (set (selected_orderers spec nodes)) (all_orgs spec orgs nodes)"
  unfolding all_orgs_def
proof (rule orgs_sound_fold [OF assms])
  fix n al assume n: "n \<in> set (selected_orderers spec nodes)" and al: "orgs_sound ps (set (selected_orderers spec nodes)) al"
  show "orgs_sound ps (set (selected_orderers spec nodes)) (add_orderer n al)"
  proof (cases "map_of al (node_msp n)")
    case None
    then show ?thesis using n al by (auto simp: add_orderer_def intro!: orgs_sound_update)
  next
    case (Some org)
    then show ?thesis using n al orgs_soundD [OF al Some] by (auto simp: add_orderer_def intro!: orgs_sound_update)
  qed
qed

lemma add_identity_sound:
  assumes "orgs_sound ps ns al" and "add_identity M i al w = (Ok al', w')"
  shows "orgs_sound ps ns al'"
proof -
  obtain f v where f: "identities_Get M (netid_Namespace i) (netid_Name i) w = (Ok f, v)"
    using assms(2) by (auto simp: add_identity_def io_oks)
  show ?thesis
  proof (cases "map_of al (id_MSPID (id_Spec f))")
    case None
    then show ?thesis using assms f by (simp add: add_identity_def Let_def io_simps)
  next
    case (Some org)
    then obtain u where "al' = AList.update (id_MSPID (id_Spec f)) (org\<lparr>Users := Users org @ [u]\<rparr>) al"
      using assms(2) f by (auto simp: add_identity_def Let_def io_oks split: if_splits)
    then show ?thesis using orgs_soundD [OF assms(1) Some] by (auto intro!: orgs_sound_update [OF assms(1)])
  qed
qed

lemma add_identities_sound:
  "orgs_sound ps ns al \<Longrightarrow> add_identities M is al w = (Ok al', w') \<Longrightarrow> orgs_sound ps ns al'"
  by (induction "is" arbitrary: al w) (auto simp: io_oks dest: add_identity_sound)

section \<open>Restricted organizations\<close>

lemma restrict_org_sound:
  assumes sound: "orgs_sound (set peers) ns al" and run: "\<forall>p \<in> set peers. 0 < peer_Replicas (Peer_Object p)"
    and refs: "\<forall>r \<in> set (snd cfg). \<forall>p \<in> set peers. names_peer r p \<longrightarrow> MSPID p = fst cfg"
    and res: "restrict_org cfg (peers, al) = Ok (peers', al')"
  shows "orgs_sound (set peers') ns al' \<and> set peers' \<subseteq> set peers"
proof -
  obtain m rs where cfg: "cfg = (m, rs)" by fastforce
  show ?thesis
  proof (cases "rs = []")
    case True
    then show ?thesis using sound res by (simp add: restrict_org_def cfg)
  next
    case False
    define own where "own = concat (map (\<lambda>r. filter (names_peer r) peers) rs)"
    define rest where "rest = filter (\<lambda>p. MSPID p \<noteq> m \<and> 0 < peer_Replicas (Peer_Object p)) peers"
    obtain org where org: "map_of al m = Some org" and peers': "peers' = rest @ own" and al': "al' = AList.update m (org\<lparr>Peers := own\<rparr>) al"
      using res False by (auto simp: restrict_org_def cfg Let_def own_def rest_def split: option.splits)
    have own: "p \<in> set own \<Longrightarrow> p \<in> set peers \<and> MSPID p = m" for p using refs unfolding cfg own_def by auto
    have rest: "p \<in> set rest \<longleftrightarrow> p \<in> set peers \<and> MSPID p \<noteq> m" for p using run by (auto simp: rest_def)
    have d: "distinct (map fst al)" using sound by (simp add: orgs_sound_def)
    have old: "set (Peers o') \<subseteq> {p \<in> set peers'. MSPID p = k} \<and> set (OrdererNodes o') \<subseteq> ns" if "(k, o') \<in> set al" "k \<noteq> m" for k o'
      using sound that rest by (fastforce simp: orgs_sound_def peers')
    have "set (OrdererNodes org) \<subseteq> ns" using orgs_soundD(2) [OF sound org] .
    moreover have "set own \<subseteq> {p \<in> set peers'. MSPID p = m}" using own by (auto simp: peers')
    ultimately have new: "set (Peers (org\<lparr>Peers := own\<rparr>)) \<subseteq> {p \<in> set peers'. MSPID p = m} \<and> set (OrdererNodes (org\<lparr>Peers := own\<rparr>)) \<subseteq> ns"
      by simp
    have "set (Peers o') \<subseteq> {p \<in> set peers'. MSPID p = k} \<and> set (OrdererNodes o') \<subseteq> ns" if "(k, o') \<in> set al'" for k o'
      using that old new unfolding al' set_update_distinct [OF d] by (cases "k = m") auto
    then have "orgs_sound (set peers') ns al'"
      using distinct_update [OF d] unfolding orgs_sound_def al' by blast
    then show ?thesis using own rest by (auto simp: peers')
  qed
qed

lemma restrict_orgs_sound:
  assumes "orgs_sound (set peers) ns al" and "\<forall>p \<in> set peers. 0 < peer_Replicas (Peer_Object p)"
    and "\<forall>cfg \<in> set cfgs. \<forall>r \<in> set (snd cfg). \<forall>p \<in> set peers. names_peer r p \<longrightarrow> MSPID p = fst cfg"
    and "res_fold restrict_org cfgs (peers, al) = Ok (peers', al')"
  shows "orgs_sound (set peers') ns al'"
  using assms
proof (induction cfgs arbitrary: peers al)
  case (Cons cfg cfgs)
  obtain ps1 al1 where step: "restrict_org cfg (peers, al) = Ok (ps1, al1)" and rest: "res_fold restrict_org cfgs (ps1, al1) = Ok (peers', al')"
    using Cons.prems(4) by (auto split: prod.splits)
  have "orgs_sound (set ps1) ns al1 \<and> set ps1 \<subseteq> set peers"
    by (rule restrict_org_sound [OF Cons.prems(1,2) _ step]) (use Cons.prems(3) in auto)
  then show ?case using Cons.prems(2,3) rest by (intro Cons.IH [of ps1 al1]) auto
qed simp

text \<open>
  Restricting an organization that is not in the network is a nil pointer.  The restrictions of the
  organizations panic exactly when one of them lists peers for an organization without an entry, for
  example one whose peers and ordering nodes the filters leave out; otherwise they succeed.
\<close>

theorem restricted_organization_must_exist:
  "if \<exists>(m, refs) \<in> set (net_OrganizationConfig spec). refs \<noteq> [] \<and> m \<notin> fst ` set orgMap
   then restrict_orgs spec peers orgMap = Panic ''nil pointer dereference'' else is_ok (restrict_orgs spec peers orgMap)"
proof -
  have "if \<exists>(m, refs) \<in> set cfgs. refs \<noteq> [] \<and> m \<notin> fst ` set al
     then res_fold restrict_org cfgs (ps, al) = Panic ''nil pointer dereference'' else is_ok (res_fold restrict_org cfgs (ps, al))" for cfgs ps al
  proof (induction cfgs arbitrary: ps al)
    case (Cons cfg cfgs)
    obtain m refs where cfg: "cfg = (m, refs)" by fastforce
    consider "refs = []" | "refs \<noteq> []" "map_of al m = None" | o' where "refs \<noteq> []" "map_of al m = Some o'" by (cases "map_of al m") auto
    then show ?case
    proof cases
      case 1
      then have "restrict_org cfg (ps, al) = Ok (ps, al)" by (simp add: cfg restrict_org_def)
      then show ?thesis using Cons.IH [of al ps] 1 by (simp add: cfg)
    next
      case 2
      then have "restrict_org cfg (ps, al) = Panic ''nil pointer dereference''" by (simp add: cfg restrict_org_def Let_def)
      then show ?thesis using 2 by (simp add: cfg map_of_eq_None_iff)
    next
      case 3
      then obtain ps' o2 where step: "restrict_org cfg (ps, al) = Ok (ps', AList.update m o2 al)"
        by (simp add: cfg restrict_org_def Let_def)
      have m: "m \<in> fst ` set al" using map_of_SomeD [OF 3(2)] by force
      then have keys: "fst ` set (AList.update m o2 al) = fst ` set al" by (auto simp: dom_update)
      show ?thesis using Cons.IH [of "AList.update m o2 al" ps'] step m by (simp add: cfg keys)
    qed
  qed simp
  then show ?thesis by (simp add: restrict_orgs_def)
qed

section \<open>References\<close>

text \<open>What an organization or a channel refers to is defined.\<close>

definition sdk_resolves :: "sdk_config \<Rightarrow> bool" where
  "sdk_resolves cfg \<longleftrightarrow> (\<forall>org \<in> set (sdk_Organizations cfg).
       set (sdk_org_Peers org) \<subseteq> sdkp_Name ` set (sdk_Peers cfg) \<and> set (sdk_org_Orderers org) \<subseteq> sdko_Name ` set (sdk_Orderers cfg))
     \<and> (\<forall>ch \<in> set (sdk_Channels cfg).
       sdkch_Peers ch = map sdkp_Name (sdk_Peers cfg) \<and> sdkch_Orderers ch = map sdko_Name (sdk_Orderers cfg))"

lemma sdk_config_names:
  "map sdkp_Name (sdk_Peers (sdk_config_of spec d)) = map Peer_FullName (td_Peers d) @ map xp_Name (net_ExternalPeers spec)"
  "map sdko_Name (sdk_Orderers (sdk_config_of spec d)) = map Node_FullName (td_Orderers d) @ map xo_Name (net_ExternalOrderers spec)"
  by (simp_all add: sdk_config_of_def Let_def comp_def sdk_peer_of_def sdk_external_peer_def sdk_orderer_of_def sdk_external_orderer_def)

lemma sdk_config_resolves:
  assumes "orgs_sound (set (td_Peers d)) (set (td_Orderers d)) (td_Organizations d)"
  shows "sdk_resolves (sdk_config_of spec d)"
proof -
  have "set (sdk_org_Peers (sdk_org_of spec e)) \<subseteq> sdkp_Name ` set (sdk_Peers (sdk_config_of spec d))
      \<and> set (sdk_org_Orderers (sdk_org_of spec e)) \<subseteq> sdko_Name ` set (sdk_Orderers (sdk_config_of spec d))"
    if "e \<in> set (td_Organizations d)" for e
  proof -
    obtain m o' where e: "e = (m, o')" by fastforce
    have "set (Peers o') \<subseteq> set (td_Peers d)" "set (OrdererNodes o') \<subseteq> set (td_Orderers d)"
      using assms that by (auto simp: orgs_sound_def e)
    then show ?thesis unfolding set_map [symmetric] sdk_config_names by (auto simp: e sdk_org_of_def)
  qed
  then show ?thesis by (auto simp: sdk_resolves_def sdk_config_of_def Let_def)
qed

text \<open>A peer that is listed for the organizations it belongs to only.\<close>

definition well_listed :: "FabricNetworkConfigSpec \<Rightarrow> FabricPeer \<Rightarrow> bool" where
  "well_listed spec q \<longleftrightarrow> (\<forall>(m, refs) \<in> set (net_OrganizationConfig spec). \<forall>r \<in> set refs.
     orgpeer_Name r = peer_Name q \<longrightarrow> orgpeer_Namespace r = peer_Namespace q \<longrightarrow> peer_MspID q = m)"

lemma well_listedD:
  "well_listed spec q \<Longrightarrow> (m, refs) \<in> set (net_OrganizationConfig spec) \<Longrightarrow> r \<in> set refs \<Longrightarrow>
     orgpeer_Name r = peer_Name q \<Longrightarrow> orgpeer_Namespace r = peer_Namespace q \<Longrightarrow> peer_MspID q = m"
  unfolding well_listed_def by blast

lemma cluster_peers:
  assumes "GetClusterPeers K order ns w = (Ok (orgs, peers), w')" and "\<And>ks. mset (order ks) = mset ks"
  shows "\<exists>v. list_peers K ns w = (Ok (map Peer_Object peers), v)" and "\<forall>p \<in> set peers. MSPID p = peer_msp p"
    and "\<forall>v \<in> set orgs. OrdererNodes v = [] \<and> (\<forall>p \<in> set (Peers v). p \<in> set peers \<and> peer_msp p = MspID v)"
proof -
  show "\<exists>v. list_peers K ns w = (Ok (map Peer_Object peers), v)" using GetClusterPeers_partition [OF assms] by blast
  obtain items v where m: "io_map (MapClusterPeer K) items v = (Ok peers, w')"
    and orgs: "orgs = map (the \<circ> map_of (group_peers peers)) (order (map fst (group_peers peers)))"
    using assms(1) by (auto simp: GetClusterPeers_def io_bind_Ok_iff io_return_apply Let_def)
  show "\<forall>p \<in> set peers. MSPID p = peer_msp p"
    using list_all2_in_set [OF io_map_Ok [OF m]] MapClusterPeer_Ok by metis
  have "set (order (map fst (group_peers peers))) = peer_msp ` set peers"
    using assms(2) [of "map fst (group_peers peers)"] keys_group_peers [of peers] by (metis mset_eq_setD)
  then have "\<exists>k. v = peer_org peers k" if "v \<in> set orgs" for v using that by (auto simp: orgs map_of_group_peers)
  then show "\<forall>v \<in> set orgs. OrdererNodes v = [] \<and> (\<forall>p \<in> set (Peers v). p \<in> set peers \<and> peer_msp p = MspID v)"
    by (fastforce simp: peer_org_def)
qed

text \<open>
  C33.  A network configuration has no dangling reference, as long as every peer of the cluster runs and
  is listed for its own organization only: each peer and ordering node an organization refers to has its
  entry, and each channel refers to exactly the peers and ordering nodes of the configuration.
\<close>

theorem network_configuration_resolves:
  assumes run: "network_text M p w = (Ok txt, w')" and order: "\<And>ks. mset (map_order M ks) = mset ks"
    and alive: "\<And>v ps v'. list_peers (net_cluster M) [] v = (Ok ps, v') \<Longrightarrow> \<forall>q \<in> set ps. 0 < peer_Replicas q \<and> well_listed (net_Spec p) q"
  shows "\<exists>cfg. template_text M cfg = Ok txt \<and> sdk_resolves cfg \<and> map sdkch_Name (sdk_Channels cfg) = net_Channels (net_Spec p)"
proof -
  let ?spec = "net_Spec p" and ?K = "net_cluster M"
  obtain cas nodes orgs clusterPeers v1 v2 orgMap v3 peers orgMap' where
    cp: "GetClusterPeers ?K (map_order M) [] v1 = (Ok (orgs, clusterPeers), v2)"
    and ids: "add_identities M (net_Identities ?spec) (all_orgs ?spec orgs nodes) v2 = (Ok orgMap, v3)"
    and restr: "restrict_orgs ?spec (selected_peers ?spec clusterPeers) orgMap = Ok (peers, orgMap')"
    and text': "template_text M (sdk_config_of ?spec \<lparr>td_Peers = peers, td_Orderers = selected_orderers ?spec nodes,
         td_Organizations = orgMap', td_CertAuths = cas\<rparr>) = Ok txt"
    using run by (auto simp: network_text_def Let_def io_oks)
  note cluster = cluster_peers [OF cp order]
  have peers: "0 < peer_Replicas (Peer_Object q) \<and> well_listed ?spec (Peer_Object q)" if "q \<in> set clusterPeers" for q
    using cluster(1) alive that by (metis list.set_map imageI)
  have names: "names_peer r q \<longrightarrow> MSPID q = fst cfg"
    if "cfg \<in> set (net_OrganizationConfig ?spec)" "r \<in> set (snd cfg)" "q \<in> set clusterPeers" for cfg r q
    using well_listedD [of ?spec "Peer_Object q" "fst cfg" "snd cfg" r] that peers [OF that(3)] cluster(2)
    by (simp add: names_peer_def)
  have sub: "set (selected_peers ?spec clusterPeers) \<subseteq> set clusterPeers" by (auto simp: selected_peers_def)
  have "orgs_sound (set (selected_peers ?spec clusterPeers)) (set (selected_orderers ?spec nodes)) (peer_orgs ?spec orgs)"
    by (rule peer_orgs_sound) (use cluster(2,3) peers in auto)
  then have "orgs_sound (set (selected_peers ?spec clusterPeers)) (set (selected_orderers ?spec nodes)) orgMap"
    by (rule add_identities_sound [OF all_orgs_sound ids])
  then have "orgs_sound (set peers) (set (selected_orderers ?spec nodes)) orgMap'"
    by (rule restrict_orgs_sound [OF _ _ _ restr [unfolded restrict_orgs_def]]) (use sub peers names in auto)
  then have "sdk_resolves (sdk_config_of ?spec \<lparr>td_Peers = peers, td_Orderers = selected_orderers ?spec nodes,
         td_Organizations = orgMap', td_CertAuths = cas\<rparr>)"
    by (intro sdk_config_resolves) simp
  moreover have "map sdkch_Name (sdk_Channels (sdk_config_of ?spec d)) = net_Channels ?spec" for d
    by (simp add: sdk_config_of_def Let_def comp_def)
  ultimately show ?thesis using text' by blast
qed

section \<open>Being refreshed\<close>

lemma network_fail_ends:
  assumes "network_fail M p e v = (r, w')" and "\<not> panics r"
  shows "r = Ok no_requeue \<or> (\<exists>e. r = Err e)"
  using assms by (auto simp: network_fail_def report_failure_def FabricNetworkConfig_updateCRStatusOrFailReconcile_def
    update_no_requeue_def io_simps split: prod.splits res.splits)

lemma network_done_ends:
  assumes "network_done M p v = (r, w')" and "\<not> panics r"
  shows "r = Ok (requeue_after (120 * Minute)) \<or> (\<exists>e. r = Err e)"
  using assms by (auto simp: network_done_def FabricNetworkConfig_updateCRStatusOrFailReconcileWithRequeue_def Let_def
    io_simps split: prod.splits res.splits)

lemma attempt_ends:
  assumes "attempt h m k w = (r, w')" and "\<not> panics r"
  obtains (ok) a v where "m w = (Ok a, v)" "k a v = (r, w')" | (err) e v where "m w = (Err e, v)" "h e v = (r, w')"
  using assms by (auto simp: attempt_def io_simps split: prod.splits res.splits)

text \<open>
  C36.  Only a configuration whose secret was updated is refreshed.  A reconciliation that does not panic
  ends with an error of the API server, or asks for another one in two hours after it has computed the text
  and written it into the secret that was there, or asks for nothing: whatever failed, a peer without an
  address or an identity that is not ready yet, and also after the secret was created.
\<close>

theorem network_refreshed_after_update:
  assumes run: "reconcile_network M req_ns p w = (r, w')" and np: "\<not> panics r"
  shows "(\<exists>e. r = Err e) \<or> r = Ok no_requeue
     \<or> r = Ok (requeue_after (120 * Minute)) \<and> (\<exists>txt v old v1 new v2. network_text M p w = (Ok txt, v)
        \<and> obj_Get (net_secrets M) (namespace_or_default req_ns) (net_SecretName (net_Spec p)) v = (Ok old, v1)
        \<and> obj_Update (net_secrets M) (old\<lparr>sec_Data := [''config.yaml'' \<mapsto> txt]\<rparr>) v1 = (Ok new, v2))"
proof -
  note fails = network_fail_ends [OF _ np]
  from run [unfolded reconcile_network_def] np show ?thesis
  proof (cases rule: attempt_ends)
    case err
    show ?thesis using fails [OF err(2)] by blast
  next
    case (ok t v)
    let ?ns = "namespace_or_default req_ns" and ?name = "net_SecretName (net_Spec p)"
    obtain g v1 where g: "obj_Get (net_secrets M) ?ns ?name v = (g, v1)" by fastforce
    show ?thesis
    proof (cases g)
      case (Ok old)
      then have "attempt (network_fail M p) (obj_Update (net_secrets M) (old\<lparr>sec_Data := [''config.yaml'' \<mapsto> t]\<rparr>))
          (\<lambda>_. network_done M p) v1 = (r, w')"
        using ok(2) g by (simp add: write_network_def Let_def io_simps)
      then show ?thesis using np
      proof (cases rule: attempt_ends)
        case err
        show ?thesis using fails [OF err(2)] by blast
      next
        case (ok new v2)
        then show ?thesis using network_done_ends [OF ok(2) np] \<open>network_text M p w = (Ok t, v)\<close> g Ok by blast
      qed
    next
      case (Err e)
      then have "(if isNotFound e then attempt (network_fail M p)
            (obj_Create (net_secrets M) \<lparr>sec_Name = ?name, sec_Namespace = ?ns, sec_Data = [''config.yaml'' \<mapsto> t], sec_Owners = []\<rparr>)
            (\<lambda>_. io_return no_requeue) else network_fail M p e) v1 = (r, w')"
        using ok(2) g by (simp add: write_network_def Let_def io_simps)
      then show ?thesis using np by (auto simp: io_simps split: if_splits elim!: attempt_ends dest: fails)
    next
      case (Panic t)
      then show ?thesis using ok(2) g np by (auto simp: write_network_def Let_def io_simps)
    qed
  qed
qed

section \<open>A network in memory\<close>

definition net_peer :: "int \<Rightarrow> FabricPeer" where
  "net_peer replicas = peer_one\<lparr>peer_Replicas := replicas\<rparr>"

definition net_cluster0 :: "int \<Rightarrow> unit cluster" where
  "net_cluster0 replicas = (cluster_of [ca_one] [net_peer replicas])\<lparr>list_orderer_nodes := \<lambda>_ _. io_return []\<rparr>"

definition net_spec0 :: FabricNetworkConfigSpec where
  "net_spec0 = \<lparr>net_Organization = ''Org1MSP'', net_Internal = False, net_Organizations = [''Org1MSP''], net_OrganizationConfig = [],
     net_Namespaces = [], net_CertificateAuthorities = [], net_Channels = [''demo''], net_Identities = [],
     net_ExternalOrderers = [], net_ExternalPeers = [], net_SecretName = ''nc''\<rparr>"

definition net0 :: FabricNetworkConfigResource where
  "net0 = \<lparr>crName = ''nc'', crNamespace = ''ns'', Finalizers = [networkConfigFinalizer], DeletionTimestamp = None,
     crConditions = [], crMessage = [], crStatus = [], net_Spec = net_spec0\<rparr>"

text \<open>The text is the names of the peers of the organizations and of the peers of the configuration.\<close>

definition net_client0 :: "(unit, FabricNetworkConfigResource) client" where
  "net_client0 = \<lparr>clock_now = (\<lambda>w. 0), client_get = (\<lambda>_. io_return net0), client_update = io_return, status_update = io_return,
     status_patch = (\<lambda>_. io_return), add_finalizer = (\<lambda>f fs. f # fs), remove_finalizer = (\<lambda>f fs. filter (\<lambda>g. g \<noteq> f) fs)\<rparr>"

definition net_M :: "int \<Rightarrow> unit network_operator" where
  "net_M replicas = \<lparr>net_client = net_client0, hlf_NewForConfig = io_return (), kube_NewForConfig = io_return (),
     net_cluster = net_cluster0 replicas, map_order = (\<lambda>ks. ks), identities_Get = (\<lambda>_ n. io_throw (NotFound n)),
     net_secrets = \<lparr>obj_Get = (\<lambda>ns n. io_return \<lparr>sec_Name = n, sec_Namespace = ns, sec_Data = Map.empty, sec_Owners = []\<rparr>),
       obj_Create = io_return, obj_Update = io_return, obj_Delete = (\<lambda>_ _. io_return ())\<rparr>,
     template_text = (\<lambda>cfg. Ok (concat (concat (map sdk_org_Peers (sdk_Organizations cfg))) @ ''|'' @ concat (map sdkp_Name (sdk_Peers cfg))))\<rparr>"

lemma net_text:
  "network_text (net_M replicas) net0 () = (Ok (''peer0.ns|'' @ (if 0 < replicas then ''peer0.ns'' else [])), ())"
  by (simp add: network_text_def net_M_def net0_def net_spec0_def net_cluster0_def net_peer_def cluster_of_def GetClusterCAs_def
    GetClusterOrdererNodes_def GetClusterPeers_def MapClusterCA_def MapClusterPeer_def GetCAPublicURL_def GetCAHostPort_def
    GetPeerPublicURL_def GetPeerHostPort_def group_peers_def group_peer_def all_orgs_def peer_orgs_def selected_orderers_def
    selected_peers_def org_peers_def restrict_orgs_def in_organizations_def in_namespaces_def selected_cas_def sdk_config_of_def
    sdk_org_of_def sdk_peer_of_def network_org_def Organization.defs NetworkOrganization.defs ca_one_def peer_one_def
    FabricPeer_FullName_def full_name_def Contains_def Let_def io_simps)

text \<open>
  With a peer that is scaled down and a filter by organization there is a dangling reference: the
  organization lists the peer, and the configuration has no entry for it.
\<close>

theorem scaled_down_peer_dangles:
  "network_text (net_M 0) net0 () = (Ok ''peer0.ns|'', ())"
  by (simp add: net_text)

theorem network_configuration_resolves_witness:
  "\<exists>cfg. template_text (net_M 1) cfg = Ok ''peer0.ns|peer0.ns'' \<and> sdk_resolves cfg \<and> map sdkch_Name (sdk_Channels cfg) = [''demo'']"
proof -
  have run: "network_text (net_M 1) net0 () = (Ok ''peer0.ns|peer0.ns'', ())" by (simp add: net_text)
  have order: "mset (map_order (net_M 1) ks) = mset ks" for ks by (simp add: net_M_def)
  have alive: "\<forall>q \<in> set ps. 0 < peer_Replicas q \<and> well_listed (net_Spec net0) q"
    if "list_peers (net_cluster (net_M 1)) [] v = (Ok ps, v')" for v ps v'
    using that by (auto simp: net_M_def net_cluster0_def cluster_of_def net_peer_def well_listed_def net0_def net_spec0_def io_simps)
  have "net_Channels (net_Spec net0) = [''demo'']" by (simp add: net0_def net_spec0_def)
  then show ?thesis using network_configuration_resolves [OF run order alive] by simp
qed

theorem network_refreshed_after_update_witness:
  "\<exists>txt v. reconcile_network (net_M 1) ''ns'' net0 () = (Ok (requeue_after (120 * Minute)), ()) \<and> network_text (net_M 1) net0 () = (Ok txt, v)"
proof -
  have set_running: "\<exists>q b. FabricNetworkConfig_setConditionStatus net_client0 p RunningStatus True None False () = (Ok (q, b), ())" for p
    by (cases "crStatus p = RunningStatus")
      (auto simp: FabricNetworkConfig_setConditionStatus_def setConditionStatus_def setConditionStatus_with_def net_client0_def
        put_condition_def Let_def io_simps)
  have "network_done (net_M 1) net0 () = (Ok (requeue_after (120 * Minute)), ())"
  proof -
    obtain q b where q: "FabricNetworkConfig_setConditionStatus net_client0 net0 RunningStatus True None False () = (Ok (q, b), ())"
      using set_running by blast
    obtain q' b' where q': "FabricNetworkConfig_setConditionStatus net_client0 q RunningStatus True None False () = (Ok (q', b'), ())"
      using set_running by blast
    have up: "status_update net_client0 x () = (Ok x, ())" for x by (simp add: net_client0_def io_simps)
    have M: "net_client (net_M 1) = net_client0" by (simp add: net_M_def)
    show ?thesis using q q' by (simp add: network_done_def M up Let_def io_simps
      FabricNetworkConfig_updateCRStatusOrFailReconcileWithRequeue_def)
  qed
  moreover have secrets: "obj_Get (net_secrets (net_M 1)) ns n () = (Ok \<lparr>sec_Name = n, sec_Namespace = ns, sec_Data = Map.empty, sec_Owners = []\<rparr>, ())"
      "obj_Update (net_secrets (net_M 1)) s () = (Ok s, ())" for ns n s
    by (simp_all add: net_M_def io_simps)
  ultimately have run: "reconcile_network (net_M 1) ''ns'' net0 () = (Ok (requeue_after (120 * Minute)), ())"
    using secrets by (simp add: reconcile_network_def write_network_def attempt_def net_text Let_def io_simps)
  then show ?thesis using network_refreshed_after_update [OF run] by (auto simp: requeue_simps)
qed

end
