(* ===== verification/Apps_Chart.thy ===== *)
theory Apps_Chart imports Node_Chart Custom_Resource begin

text \<open>
  The three applications the operator deploys beside the nodes: the operations console, the operator's API
  and its user interface.  Their resources (\<open>hlf_types.go\<close>), the values of their charts
  (\<open>controllers/console/types.go\<close>, \<open>operatorapi/types.go\<close>, \<open>operatorui/types.go\<close>) and the \<open>GetConfig\<close>
  that fills them.  The declarations of an ingress are the same in the three files.
\<close>

section \<open>The resources\<close>

record IngressPathSpec =
  ip_Path :: string
  ip_PathType :: string

record IngressHostSpec =
  ih_Host :: string
  ih_Paths :: "IngressPathSpec list"

record IngressSpec =
  ing_Enabled :: bool
  ing_ClassName :: string
  ing_Annotations :: "string \<rightharpoonup> string"
  ing_TLS :: "k8s_object list"
  ing_Hosts :: "IngressHostSpec list"

record FabricOperationsConsoleCouchDB =
  cdb_Image :: string
  cdb_Tag :: string
  cdb_Username :: string
  cdb_Password :: string
  cdb_Storage :: StorageSpec
  cdb_Resources :: "k8s_object option"
  cdb_ImagePullSecrets :: "k8s_object list"
  cdb_Affinity :: "k8s_object option"
  cdb_Tolerations :: "k8s_object list"
  cdb_ImagePullPolicy :: string

record FabricOperationsConsoleAuth =
  cau_Scheme :: string
  cau_Username :: string
  cau_Password :: string

record FabricOperationsConsoleSpec =
  cs_Auth :: FabricOperationsConsoleAuth
  cs_Resources :: k8s_object
  cs_Image :: string
  cs_Tag :: string
  cs_ImagePullPolicy :: string
  cs_Tolerations :: "k8s_object list"
  cs_Replicas :: int
  cs_CouchDB :: FabricOperationsConsoleCouchDB
  cs_Env :: "k8s_object list"
  cs_ImagePullSecrets :: "k8s_object list"
  cs_Affinity :: "k8s_object option"
  cs_Port :: int
  cs_Config :: string
  cs_Ingress :: IngressSpec
  cs_HostURL :: string

record FabricOperationsConsoleResource = custom_resource +
  console_Spec :: FabricOperationsConsoleSpec

record FabricOperatorUIAuth =
  uau_OIDCAuthority :: string
  uau_OIDCClientId :: string
  uau_OIDCScope :: string

record FabricOperatorUISpec =
  us_Image :: string
  us_Tag :: string
  us_ImagePullPolicy :: string
  us_LogoURL :: string
  us_Auth :: "FabricOperatorUIAuth option"
  us_Tolerations :: "k8s_object list"
  us_Replicas :: int
  us_Ingress :: IngressSpec
  us_APIURL :: string
  us_ImagePullSecrets :: "k8s_object list"
  us_Env :: "k8s_object list"
  us_Affinity :: "k8s_object option"
  us_Resources :: "k8s_object option"

record FabricOperatorUIResource = custom_resource +
  ui_Spec :: FabricOperatorUISpec

record FabricOperatorAPINetworkConfig =
  anc_SecretName :: string
  anc_Key :: string

record FabricOperatorAPIHLFConfig =
  ahc_MSPID :: string
  ahc_User :: string
  ahc_NetworkConfig :: FabricOperatorAPINetworkConfig

record FabricOperatorAPIAuth =
  aau_OIDCJWKS :: string
  aau_OIDCIssuer :: string
  aau_OIDCAuthority :: string
  aau_OIDCClientId :: string
  aau_OIDCScope :: string

record FabricOperatorAPISpec =
  as_Image :: string
  as_Tag :: string
  as_ImagePullPolicy :: string
  as_Istio :: FabricIstioSpec
  as_Ingress :: IngressSpec
  as_Replicas :: int
  as_PodLabels :: "string \<rightharpoonup> string"
  as_Auth :: "FabricOperatorAPIAuth option"
  as_LogoURL :: string
  as_HLFConfig :: FabricOperatorAPIHLFConfig
  as_Tolerations :: "k8s_object list"
  as_ImagePullSecrets :: "k8s_object list"
  as_Env :: "k8s_object list"
  as_Affinity :: "k8s_object option"
  as_Resources :: "k8s_object option"

record FabricOperatorAPIResource = custom_resource +
  api_Spec :: FabricOperatorAPISpec

section \<open>The charts\<close>

record chart_ingress_path =
  chip_Path :: string
  chip_PathType :: string

record chart_ingress_host =
  chih_Host :: string
  chih_Paths :: "chart_ingress_path list"

record chart_ingress =
  ching_Enabled :: bool
  ching_ClassName :: string
  ching_Annotations :: "string \<rightharpoonup> string"
  ching_TLS :: "k8s_object list"
  ching_Hosts :: "chart_ingress_host list"

record console_auth =
  chau_Scheme :: string
  chau_Username :: string
  chau_Password :: string

record couchdb_external =
  chex_Enabled :: bool
  chex_Host :: string
  chex_Port :: int

record console_persistence = Persistence +
  chper_Annotations :: "string \<rightharpoonup> string"

record console_couchdb =
  chdb_External :: couchdb_external
  chdb_Image :: string
  chdb_Tag :: string
  chdb_PullPolicy :: string
  chdb_Username :: string
  chdb_Password :: string
  chdb_Persistence :: console_persistence
  chdb_Resources :: "k8s_object option"

record FabricOperationsConsoleChart =
  coch_Replicas :: int
  coch_Image :: chart_image
  coch_ImagePullSecrets :: "k8s_object list"
  coch_PodAnnotations :: "string \<rightharpoonup> string"
  coch_Ingress :: chart_ingress
  coch_Resources :: k8s_object
  coch_Tolerations :: "k8s_object list"
  coch_Affinity :: "k8s_object option"
  coch_Port :: int
  coch_HostUrl :: string
  coch_Auth :: console_auth
  coch_CouchDB :: console_couchdb

record chart_service_account =
  sac_Create :: bool
  sac_Annotations :: "string \<rightharpoonup> string"
  sac_Name :: string

record app_service =
  aps_Type :: string
  aps_Port :: int

record chart_autoscaling =
  asc_Enabled :: bool
  asc_MinReplicas :: int
  asc_MaxReplicas :: int
  asc_TargetCPUUtilizationPercentage :: int

record ui_auth =
  chui_OIDCAuthority :: string
  chui_OIDCClientId :: string
  chui_OIDCScope :: string

record HLFOperatorUIChart =
  uich_ReplicaCount :: int
  uich_Image :: chart_image
  uich_APIUrl :: string
  uich_ImagePullSecrets :: "k8s_object list"
  uich_ServiceAccount :: chart_service_account
  uich_PodAnnotations :: "string \<rightharpoonup> string"
  uich_Service :: app_service
  uich_Ingress :: chart_ingress
  uich_Resources :: "k8s_object option"
  uich_Autoscaling :: chart_autoscaling
  uich_Tolerations :: "k8s_object list"
  uich_Affinity :: "k8s_object option"
  uich_LogoURL :: string
  uich_Auth :: ui_auth

record HLFNetworkConfig =
  hlfn_SecretName :: string
  hlfn_Key :: string

record HLFConfig =
  hlfc_MspID :: string
  hlfc_User :: string
  hlfc_NetworkConfig :: HLFNetworkConfig

record api_auth =
  chap_OIDCJWKS :: string
  chap_OIDCIssuer :: string
  chap_OIDCAuthority :: string
  chap_OIDCClientId :: string
  chap_OIDCScope :: string

record HLFOperatorAPIChart =
  apch_PodLabels :: "string \<rightharpoonup> string"
  apch_ReplicaCount :: int
  apch_LogoURL :: string
  apch_Image :: chart_image
  apch_Hlf :: HLFConfig
  apch_ImagePullSecrets :: "k8s_object list"
  apch_ServiceAccount :: chart_service_account
  apch_PodAnnotations :: "string \<rightharpoonup> string"
  apch_Service :: app_service
  apch_Ingress :: chart_ingress
  apch_Resources :: "k8s_object option"
  apch_Autoscaling :: chart_autoscaling
  apch_Tolerations :: "k8s_object list"
  apch_Affinity :: "k8s_object option"
  apch_Auth :: api_auth

section \<open>Filling them\<close>

text \<open>An ingress that is not enabled is the zero value, whatever its hosts.\<close>

definition ingress_host :: "IngressHostSpec \<Rightarrow> chart_ingress_host" where
  "ingress_host host = \<lparr>chih_Host = ih_Host host,
     chih_Paths = map (\<lambda>path. \<lparr>chip_Path = ip_Path path, chip_PathType = ip_PathType path\<rparr>) (ih_Paths host)\<rparr>"

definition ingress_values :: "IngressSpec \<Rightarrow> chart_ingress" where
  "ingress_values i =
     (if ing_Enabled i
      then \<lparr>ching_Enabled = ing_Enabled i, ching_ClassName = ing_ClassName i, ching_Annotations = ing_Annotations i,
        ching_TLS = ing_TLS i, ching_Hosts = map ingress_host (ing_Hosts i)\<rparr>
      else \<lparr>ching_Enabled = False, ching_ClassName = [], ching_Annotations = Map.empty, ching_TLS = [], ching_Hosts = []\<rparr>)"

definition console_couchdb_values :: "FabricOperationsConsoleCouchDB \<Rightarrow> console_couchdb" where
  "console_couchdb_values d = \<lparr>chdb_External = \<lparr>chex_Enabled = False, chex_Host = [], chex_Port = 0\<rparr>,
     chdb_Image = cdb_Image d, chdb_Tag = cdb_Tag d, chdb_PullPolicy = cdb_ImagePullPolicy d,
     chdb_Username = cdb_Username d, chdb_Password = cdb_Password d,
     chdb_Persistence = \<lparr>Persistence_Enabled = True, StorageClass = sto_StorageClass (cdb_Storage d),
       AccessMode = sto_AccessMode (cdb_Storage d), Size = sto_Size (cdb_Storage d), chper_Annotations = Map.empty\<rparr>,
     chdb_Resources = cdb_Resources d\<rparr>"

definition console_GetConfig :: "FabricOperationsConsoleResource \<Rightarrow> FabricOperationsConsoleChart res" where
  "console_GetConfig conf = (let spec = console_Spec conf in Ok
     \<lparr>coch_Replicas = cs_Replicas spec,
      coch_Image = \<lparr>Repository = cs_Image spec, Image_Tag = cs_Tag spec, Image_PullPolicy = cs_ImagePullPolicy spec\<rparr>,
      coch_ImagePullSecrets = cs_ImagePullSecrets spec, coch_PodAnnotations = Map.empty,
      coch_Ingress = ingress_values (cs_Ingress spec), coch_Resources = cs_Resources spec,
      coch_Tolerations = cs_Tolerations spec, coch_Affinity = cs_Affinity spec, coch_Port = cs_Port spec,
      coch_HostUrl = cs_HostURL spec,
      coch_Auth = \<lparr>chau_Scheme = cau_Scheme (cs_Auth spec), chau_Username = cau_Username (cs_Auth spec),
        chau_Password = cau_Password (cs_Auth spec)\<rparr>,
      coch_CouchDB = console_couchdb_values (cs_CouchDB spec)\<rparr>)"

text \<open>What the charts of the API and of the user interface are always given.\<close>

definition no_service_account :: chart_service_account where
  "no_service_account = \<lparr>sac_Create = False, sac_Annotations = Map.empty, sac_Name = []\<rparr>"

definition app_service_values :: app_service where
  "app_service_values = \<lparr>aps_Type = ''ClusterIP'', aps_Port = 80\<rparr>"

definition app_autoscaling :: chart_autoscaling where
  "app_autoscaling = \<lparr>asc_Enabled = False, asc_MinReplicas = 1, asc_MaxReplicas = 1,
     asc_TargetCPUUtilizationPercentage = 90\<rparr>"

definition api_auth_values :: "FabricOperatorAPIAuth option \<Rightarrow> api_auth" where
  "api_auth_values a = (case a of
       None \<Rightarrow> \<lparr>chap_OIDCJWKS = [], chap_OIDCIssuer = [], chap_OIDCAuthority = [], chap_OIDCClientId = [], chap_OIDCScope = []\<rparr>
     | Some b \<Rightarrow> \<lparr>chap_OIDCJWKS = aau_OIDCJWKS b, chap_OIDCIssuer = aau_OIDCIssuer b,
         chap_OIDCAuthority = aau_OIDCAuthority b, chap_OIDCClientId = aau_OIDCClientId b, chap_OIDCScope = aau_OIDCScope b\<rparr>)"

definition api_hlf_values :: "FabricOperatorAPIHLFConfig \<Rightarrow> HLFConfig" where
  "api_hlf_values h = \<lparr>hlfc_MspID = ahc_MSPID h, hlfc_User = ahc_User h,
     hlfc_NetworkConfig = \<lparr>hlfn_SecretName = anc_SecretName (ahc_NetworkConfig h), hlfn_Key = anc_Key (ahc_NetworkConfig h)\<rparr>\<rparr>"

definition api_GetConfig :: "FabricOperatorAPIResource \<Rightarrow> HLFOperatorAPIChart res" where
  "api_GetConfig conf = (let spec = api_Spec conf in Ok
     \<lparr>apch_PodLabels = as_PodLabels spec, apch_ReplicaCount = as_Replicas spec, apch_LogoURL = as_LogoURL spec,
      apch_Image = \<lparr>Repository = as_Image spec, Image_Tag = as_Tag spec, Image_PullPolicy = as_ImagePullPolicy spec\<rparr>,
      apch_Hlf = api_hlf_values (as_HLFConfig spec), apch_ImagePullSecrets = as_ImagePullSecrets spec,
      apch_ServiceAccount = no_service_account, apch_PodAnnotations = Map.empty, apch_Service = app_service_values,
      apch_Ingress = ingress_values (as_Ingress spec), apch_Resources = as_Resources spec,
      apch_Autoscaling = app_autoscaling, apch_Tolerations = as_Tolerations spec, apch_Affinity = as_Affinity spec,
      apch_Auth = api_auth_values (as_Auth spec)\<rparr>)"

definition ui_auth_values :: "FabricOperatorUIAuth option \<Rightarrow> ui_auth" where
  "ui_auth_values a = (case a of
       None \<Rightarrow> \<lparr>chui_OIDCAuthority = [], chui_OIDCClientId = [], chui_OIDCScope = []\<rparr>
     | Some b \<Rightarrow> \<lparr>chui_OIDCAuthority = uau_OIDCAuthority b, chui_OIDCClientId = uau_OIDCClientId b,
         chui_OIDCScope = uau_OIDCScope b\<rparr>)"

definition ui_GetConfig :: "FabricOperatorUIResource \<Rightarrow> HLFOperatorUIChart res" where
  "ui_GetConfig conf = (let spec = ui_Spec conf in Ok
     \<lparr>uich_ReplicaCount = us_Replicas spec,
      uich_Image = \<lparr>Repository = us_Image spec, Image_Tag = us_Tag spec, Image_PullPolicy = us_ImagePullPolicy spec\<rparr>,
      uich_APIUrl = us_APIURL spec, uich_ImagePullSecrets = us_ImagePullSecrets spec,
      uich_ServiceAccount = no_service_account, uich_PodAnnotations = Map.empty, uich_Service = app_service_values,
      uich_Ingress = ingress_values (us_Ingress spec), uich_Resources = us_Resources spec,
      uich_Autoscaling = app_autoscaling, uich_Tolerations = us_Tolerations spec, uich_Affinity = us_Affinity spec,
      uich_LogoURL = us_LogoURL spec, uich_Auth = ui_auth_values (us_Auth spec)\<rparr>)"

end
