(* ===== verification/Apps_Controller.thy ===== *)
theory Apps_Controller imports Apps_Chart Reconciler begin

text \<open>
  \<open>FabricOperationsConsoleReconciler\<close>, \<open>FabricOperatorAPIReconciler\<close> and \<open>FabricOperatorUIReconciler\<close>: the
  Helm release of an application and its status.  The three files are copies of one another; what they
  differ in is the record \<open>app_controller\<close>, and each reconciler is its own instance of it.  \<open>Reconcile\<close>
  is one function in the code; each definition below is a stretch of it, in its order.
\<close>

text \<open>
  The finalizer and the methods of the resource, its zero value, the values of its chart, the namespace a
  request is for, the namespace Helm's commands are given, and when an application that has been installed
  is looked at again.
\<close>

record ('w, 'p, 'c) app_controller =
  app_finalizer :: string
  app_setConditionStatus :: "('w, 'p) client \<Rightarrow> 'p \<Rightarrow> string \<Rightarrow> bool \<Rightarrow> go_error option \<Rightarrow> bool \<Rightarrow> ('w, 'p \<times> bool) io"
  app_updateCRStatus :: "('w, 'p) client \<Rightarrow> 'p \<Rightarrow> ('w, Result) io"
  app_addFinalizer :: "('w, 'p) client \<Rightarrow> 'p \<Rightarrow> ('w, 'p) io"
  app_zero :: 'p
  app_GetConfig :: "'p \<Rightarrow> 'c res"
  app_request_ns :: "string \<Rightarrow> string"
  app_command_ns :: "string \<Rightarrow> string"
  app_installed :: int

definition app_fail ::
  "('w, 'a custom_resource_scheme, 'c) app_controller \<Rightarrow> ('w, 'a custom_resource_scheme, 'c) node_operator
   \<Rightarrow> 'a custom_resource_scheme \<Rightarrow> go_error \<Rightarrow> ('w, Result) io" where
  "app_fail A M = report_failure (app_setConditionStatus A) (app_updateCRStatus A) (no_client M)"

section \<open>The release\<close>

text \<open>Errors of deleting the service are logged only; those of the uninstallation are as for nodes.\<close>

definition app_finalize ::
  "('w, 'a custom_resource_scheme, 'c) node_operator \<Rightarrow> 'a custom_resource_scheme \<Rightarrow> ('w, unit) io" where
  "app_finalize M p =
     (let U = no_kube M; ns = namespace_or_default (crNamespace p) in
      io_bind (GetClientKubeWithConf U) (\<lambda>_.
      io_bind (io_catch (services_Delete U ns (crName p)) (\<lambda>_. io_return ())) (\<lambda>_.
      io_bind (newActionCfg M ns) (\<lambda>_.
      io_try (helm_Uninstall (no_helm M)
          \<lparr>ho_Wait = False, ho_Timeout = 0, ho_MaxHistory = 0, ho_Namespace = []\<rparr> (crName p))
        io_return
        (\<lambda>err. if error_text err \<noteq> ''Release not loaded'' then io_return () else io_throw err)))))"

definition app_upgradeChart ::
  "('w, 'p, 'c) app_controller \<Rightarrow> ('w, 'p, 'c) node_operator \<Rightarrow> string \<Rightarrow> string \<Rightarrow> 'c \<Rightarrow> ('w, unit) io" where
  "app_upgradeChart A M ns = upgrade_release False M
     \<lparr>ho_Wait = False, ho_Timeout = Minute * 5, ho_MaxHistory = 5, ho_Namespace = app_command_ns A ns\<rparr> ns"

definition app_object_status :: "'w kube \<Rightarrow> string \<Rightarrow> string \<Rightarrow> manifest_object \<Rightarrow> string \<Rightarrow> ('w, string) io" where
  "app_object_status U ns releaseName object st = (case object of
       DeploymentObject name replicas \<Rightarrow> deployment_status U ns releaseName name replicas st
     | _ \<Rightarrow> io_return st)"

definition app_state :: "('w, 'p, 'c) node_operator \<Rightarrow> string \<Rightarrow> string \<Rightarrow> ('w, string) io" where
  "app_state M releaseName ns =
     io_bind (helm_Get (no_helm M) releaseName) (\<lambda>rel.
     io_bind (GetClientKubeWithConf (no_kube M)) (\<lambda>_.
       io_fold (app_object_status (no_kube M) (namespace_or_default ns) releaseName)
         (ParseK8sYaml (decode_yaml (no_helm M)) (hr_Manifest rel)) PendingStatus))"

section \<open>Updating\<close>

text \<open>The observed status; the message stays what it was.\<close>

definition app_observed :: "time \<Rightarrow> string \<Rightarrow> 'a custom_resource_scheme \<Rightarrow> 'a custom_resource_scheme" where
  "app_observed now st p =
     fst (put_condition now \<lparr>Type = st, Status = ConditionTrue, Reason = [], Message = [], LastTransitionTime = 0\<rparr>
       (p\<lparr>crStatus := st\<rparr>))"

text \<open>\<open>reflect.DeepEqual\<close> on the status.\<close>

definition app_status_of :: "'a custom_resource_scheme \<Rightarrow> Conditions \<times> string \<times> string" where
  "app_status_of p = (crConditions p, crMessage p, crStatus p)"

definition app_requeue :: "string \<Rightarrow> Result" where
  "app_requeue st =
     (if st = PendingStatus \<or> st = FailedStatus then requeue_after (10 * Second)
      else if st = RunningStatus then no_requeue
      else requeue_after (2 * Second))"

definition app_finish ::
  "('w, 'a custom_resource_scheme, 'c) app_controller \<Rightarrow> ('w, 'a custom_resource_scheme, 'c) node_operator
   \<Rightarrow> string \<Rightarrow> 'a custom_resource_scheme \<Rightarrow> ('w, Result) io" where
  "app_finish A M st p w =
     (let q = app_observed (clock_now (no_client M) w) st p in
      if app_status_of q \<noteq> app_status_of p
      then attempt (app_fail A M p) (status_update (no_client M) q) (\<lambda>_. io_return (app_requeue st)) w
      else io_return (app_requeue st) w)"

definition update_app ::
  "('w, 'a custom_resource_scheme, 'c) app_controller \<Rightarrow> ('w, 'a custom_resource_scheme, 'c) node_operator
   \<Rightarrow> string \<Rightarrow> string \<Rightarrow> 'a custom_resource_scheme \<Rightarrow> ('w, Result) io" where
  "update_app A M ns releaseName p =
     attempt (app_fail A M p) (io_lift (app_GetConfig A p)) (\<lambda>c.
     attempt (app_fail A M p) (app_upgradeChart A M ns releaseName c) (\<lambda>_.
     attempt (app_fail A M p) (app_state M releaseName ns) (\<lambda>st. app_finish A M st p)))"

section \<open>Installing\<close>

definition app_deployed :: "time \<Rightarrow> 'a custom_resource_scheme \<Rightarrow> 'a custom_resource_scheme" where
  "app_deployed now p = fst (put_condition now
     \<lparr>Type = ''DEPLOYED'', Status = ConditionTrue, Reason = [], Message = [], LastTransitionTime = 0\<rparr>
     (p\<lparr>crStatus := PendingStatus\<rparr>))"

definition install_app ::
  "('w, 'a custom_resource_scheme, 'c) app_controller \<Rightarrow> ('w, 'a custom_resource_scheme, 'c) node_operator
   \<Rightarrow> string \<Rightarrow> string \<Rightarrow> 'a custom_resource_scheme \<Rightarrow> ('w, Result) io" where
  "install_app A M ns releaseName p =
     (let H = no_helm M in
      attempt (app_fail A M p) (io_lift (NameAndChart H [releaseName, ChartPath M])) (\<lambda>(name, chart).
      attempt (app_fail A M p) (loader_Load H chart) (\<lambda>ch.
      attempt (app_fail A M p) (io_lift (app_GetConfig A p)) (\<lambda>c.
      attempt (app_fail A M p) (io_lift (chart_values H c)) (\<lambda>inInterface.
      attempt (app_fail A M p) (helm_Install H
        \<lparr>ho_Wait = False, ho_Timeout = 0, ho_MaxHistory = 0, ho_Namespace = app_command_ns A ns\<rparr> name ch inInterface)
        (\<lambda>_ w. (let q = app_deployed (clock_now (no_client M) w) p in
          attempt (app_fail A M q) (status_update (no_client M) q)
            (\<lambda>_. io_return (requeue_after (app_installed A)))) w))))))"

section \<open>Reconcile\<close>

definition release_app ::
  "('w, 'a custom_resource_scheme, 'c) app_controller \<Rightarrow> ('w, 'a custom_resource_scheme, 'c) node_operator
   \<Rightarrow> 'a custom_resource_scheme \<Rightarrow> ('w, Result) io" where
  "release_app A M p =
     (if Contains (Finalizers p) (app_finalizer A)
      then attempt (app_fail A M p) (app_finalize M p) (\<lambda>_.
        let p' = p\<lparr>Finalizers := remove_finalizer (no_client M) (app_finalizer A) (Finalizers p)\<rparr> in
        attempt (app_fail A M p') (client_update (no_client M) p') (\<lambda>_. io_return no_requeue))
      else io_return no_requeue)"

text \<open>A release that was left pending is not repaired, unlike those of nodes.\<close>

definition reconcile_app ::
  "('w, 'a custom_resource_scheme, 'c) app_controller \<Rightarrow> ('w, 'a custom_resource_scheme, 'c) node_operator
   \<Rightarrow> string \<Rightarrow> string \<Rightarrow> 'a custom_resource_scheme \<Rightarrow> ('w, Result) io" where
  "reconcile_app A M ns releaseName p =
     attempt (app_fail A M p) (release_status (no_helm M) releaseName) (\<lambda>found. case found of
         Some _ \<Rightarrow> update_app A M ns releaseName p
       | None \<Rightarrow> install_app A M ns releaseName p)"

definition Reconcile_app ::
  "('w, 'a custom_resource_scheme, 'c) app_controller \<Rightarrow> ('w, 'a custom_resource_scheme, 'c) node_operator
   \<Rightarrow> string \<times> string \<Rightarrow> ('w, Result) io" where
  "Reconcile_app A M req =
     (let ns = app_request_ns A (fst req); releaseName = snd req; K = no_client M in
      attempt (app_fail A M (app_zero A)) (newActionCfg M ns) (\<lambda>_.
      io_try (client_get K req)
        (\<lambda>p. if DeletionTimestamp p \<noteq> None then release_app A M p
             else if \<not> Contains (Finalizers p) (app_finalizer A)
             then attempt (app_fail A M (p\<lparr>Finalizers := [app_finalizer A]\<rparr>)) (app_addFinalizer A K p)
                    (reconcile_app A M ns releaseName)
             else reconcile_app A M ns releaseName p)
        (\<lambda>err. if isNotFound err then io_return no_requeue else app_fail A M (app_zero A) err)))"

section \<open>The three reconcilers\<close>

text \<open>The zero values, the resources before they are read.\<close>

definition empty_ingress :: IngressSpec where
  "empty_ingress = \<lparr>ing_Enabled = False, ing_ClassName = [], ing_Annotations = Map.empty, ing_TLS = [], ing_Hosts = []\<rparr>"

definition empty_console :: FabricOperationsConsoleResource where
  "empty_console = \<lparr>crName = [], crNamespace = [], Finalizers = [], DeletionTimestamp = None, crConditions = [],
     crMessage = [], crStatus = [],
     console_Spec = \<lparr>cs_Auth = \<lparr>cau_Scheme = [], cau_Username = [], cau_Password = []\<rparr>, cs_Resources = K8s [],
       cs_Image = [], cs_Tag = [], cs_ImagePullPolicy = [], cs_Tolerations = [], cs_Replicas = 0,
       cs_CouchDB = \<lparr>cdb_Image = [], cdb_Tag = [], cdb_Username = [], cdb_Password = [],
         cdb_Storage = \<lparr>sto_Size = [], sto_StorageClass = [], sto_AccessMode = []\<rparr>, cdb_Resources = None,
         cdb_ImagePullSecrets = [], cdb_Affinity = None, cdb_Tolerations = [], cdb_ImagePullPolicy = []\<rparr>,
       cs_Env = [], cs_ImagePullSecrets = [], cs_Affinity = None, cs_Port = 0, cs_Config = [],
       cs_Ingress = empty_ingress, cs_HostURL = []\<rparr>\<rparr>"

definition empty_operator_api :: FabricOperatorAPIResource where
  "empty_operator_api = \<lparr>crName = [], crNamespace = [], Finalizers = [], DeletionTimestamp = None, crConditions = [],
     crMessage = [], crStatus = [],
     api_Spec = \<lparr>as_Image = [], as_Tag = [], as_ImagePullPolicy = [],
       as_Istio = FabricIstio.extend \<lparr>istio_Port = 0, istio_Hosts = []\<rparr> (FabricIstioSpec.fields []),
       as_Ingress = empty_ingress, as_Replicas = 0, as_PodLabels = Map.empty, as_Auth = None, as_LogoURL = [],
       as_HLFConfig = \<lparr>ahc_MSPID = [], ahc_User = [], ahc_NetworkConfig = \<lparr>anc_SecretName = [], anc_Key = []\<rparr>\<rparr>,
       as_Tolerations = [], as_ImagePullSecrets = [], as_Env = [], as_Affinity = None, as_Resources = None\<rparr>\<rparr>"

definition empty_operator_ui :: FabricOperatorUIResource where
  "empty_operator_ui = \<lparr>crName = [], crNamespace = [], Finalizers = [], DeletionTimestamp = None, crConditions = [],
     crMessage = [], crStatus = [],
     ui_Spec = \<lparr>us_Image = [], us_Tag = [], us_ImagePullPolicy = [], us_LogoURL = [], us_Auth = None,
       us_Tolerations = [], us_Replicas = 0, us_Ingress = empty_ingress, us_APIURL = [], us_ImagePullSecrets = [],
       us_Env = [], us_Affinity = None, us_Resources = None\<rparr>\<rparr>"

definition console_app :: "('w, FabricOperationsConsoleResource, FabricOperationsConsoleChart) app_controller" where
  "console_app = \<lparr>app_finalizer = consoleFinalizer,
     app_setConditionStatus = FabricOperationsConsole_setConditionStatus,
     app_updateCRStatus = FabricOperationsConsole_updateCRStatusOrFailReconcile,
     app_addFinalizer = FabricOperationsConsole_addFinalizer, app_zero = empty_console,
     app_GetConfig = console_GetConfig, app_request_ns = (\<lambda>ns. ns), app_command_ns = (\<lambda>_. []),
     app_installed = 10 * Second\<rparr>"

definition operator_api_app :: "('w, FabricOperatorAPIResource, HLFOperatorAPIChart) app_controller" where
  "operator_api_app = \<lparr>app_finalizer = operatorAPIFinalizer,
     app_setConditionStatus = FabricOperatorAPI_setConditionStatus,
     app_updateCRStatus = FabricOperatorAPI_updateCRStatusOrFailReconcile,
     app_addFinalizer = FabricOperatorAPI_addFinalizer, app_zero = empty_operator_api,
     app_GetConfig = api_GetConfig, app_request_ns = namespace_or_default, app_command_ns = (\<lambda>ns. ns),
     app_installed = 120 * Minute\<rparr>"

definition operator_ui_app :: "('w, FabricOperatorUIResource, HLFOperatorUIChart) app_controller" where
  "operator_ui_app = \<lparr>app_finalizer = operatorUIFinalizer,
     app_setConditionStatus = FabricOperatorUI_setConditionStatus,
     app_updateCRStatus = FabricOperatorUI_updateCRStatusOrFailReconcile,
     app_addFinalizer = FabricOperatorUI_addFinalizer, app_zero = empty_operator_ui,
     app_GetConfig = ui_GetConfig, app_request_ns = (\<lambda>ns. ns), app_command_ns = (\<lambda>_. []),
     app_installed = 10 * Second\<rparr>"

definition Reconcile_console where "Reconcile_console = Reconcile_app console_app"
definition Reconcile_operator_api where "Reconcile_operator_api = Reconcile_app operator_api_app"
definition Reconcile_operator_ui where "Reconcile_operator_ui = Reconcile_app operator_ui_app"

end
