(* ===== verification/Apps_Correct.thy ===== *)
theory Apps_Correct imports Apps_Controller Node_Memory begin

text \<open>
  What the three reconcilers of applications promise: a reconciliation is the last one only when the
  resource is gone, its failure was written or its pods were seen running.  It is proved once, for what the
  copies have in common, and holds for each of them by an interpretation.
\<close>

section \<open>Why an application is left alone\<close>

text \<open>It is gone or being deleted.\<close>

definition app_gone ::
  "('w, 'a custom_resource_scheme, 'c) node_operator \<Rightarrow> string \<times> string \<Rightarrow> 'w \<Rightarrow> bool" where
  "app_gone M req w' \<longleftrightarrow> (\<exists>v e. client_get (no_client M) req v = (Err e, w') \<and> isNotFound e)
     \<or> (\<exists>v p v'. client_get (no_client M) req v = (Ok p, v') \<and> DeletionTimestamp p \<noteq> None)"

text \<open>The last thing done was to write a status that is FAILED.\<close>

definition failure_written :: "('w, 'a custom_resource_scheme, 'c) node_operator \<Rightarrow> 'w \<Rightarrow> bool" where
  "failure_written M w' \<longleftrightarrow> (\<exists>q v q'. crStatus q = FailedStatus \<and> status_update (no_client M) q v = (Ok q', w'))"

text \<open>The release was seen running, and after that a status that is RUNNING was written or nothing was done.\<close>

definition running_written :: "('w, 'a custom_resource_scheme, 'c) node_operator \<Rightarrow> 'w \<Rightarrow> 'w \<Rightarrow> bool" where
  "running_written M v w' \<longleftrightarrow> w' = v \<or> (\<exists>q q'. crStatus q = RunningStatus \<and> status_update (no_client M) q v = (Ok q', w'))"

definition seen_running ::
  "('w, 'a custom_resource_scheme, 'c) app_controller \<Rightarrow> ('w, 'a custom_resource_scheme, 'c) node_operator
   \<Rightarrow> string \<times> string \<Rightarrow> 'w \<Rightarrow> bool" where
  "seen_running A M req w' \<longleftrightarrow> (\<exists>u v. app_state M (snd req) (app_request_ns A (fst req)) u = (Ok RunningStatus, v)
     \<and> running_written M v w')"

definition app_settled ::
  "('w, 'a custom_resource_scheme, 'c) app_controller \<Rightarrow> ('w, 'a custom_resource_scheme, 'c) node_operator
   \<Rightarrow> string \<times> string \<Rightarrow> 'w \<Rightarrow> bool" where
  "app_settled A M req w' \<longleftrightarrow> app_gone M req w' \<or> failure_written M w' \<or> seen_running A M req w'"

lemma app_goneI:
  "client_get (no_client M) req v = (Err e, w') \<Longrightarrow> isNotFound e \<Longrightarrow> app_gone M req w'"
  "client_get (no_client M) req v = (Ok p, v') \<Longrightarrow> DeletionTimestamp p \<noteq> None \<Longrightarrow> app_gone M req w'"
  unfolding app_gone_def by blast+

lemma app_settledI:
  "app_gone M req w' \<Longrightarrow> app_settled A M req w'" "failure_written M w' \<Longrightarrow> app_settled A M req w'"
  "seen_running A M req w' \<Longrightarrow> app_settled A M req w'"
  by (simp_all add: app_settled_def)

section \<open>The contract the three copies share\<close>

text \<open>
  The status functions mark a resource as FAILED and write it back without asking for more; a resource
  with a finalizer gets no other; and an application that was installed is looked at again.
\<close>

locale app_reporter =
  fixes A :: "('w, 'a custom_resource_scheme, 'c) app_controller"
  assumes sets_failed: "client_ok K \<Longrightarrow> \<exists>p' b w'. app_setConditionStatus A K p FailedStatus False (Some e) False w = (Ok (p', b), w')
      \<and> crStatus p' = FailedStatus"
    and reports: "app_updateCRStatus A = update_no_requeue"
    and only_first: "Finalizers p \<noteq> [] \<Longrightarrow> app_addFinalizer A K p = io_return p"
    and comes_back: "0 < app_installed A"
begin

lemma fail_written:
  assumes "client_ok (no_client M)" and "app_fail A M p e w = (r, w')" and "\<not> retried r"
  shows "failure_written M w'"
proof -
  obtain p' b v where "app_setConditionStatus A (no_client M) p FailedStatus False (Some e) False w = (Ok (p', b), v)"
    and "crStatus p' = FailedStatus" using sets_failed [OF assms(1)] by blast
  with assms(2,3) show ?thesis unfolding failure_written_def
    by (auto simp: app_fail_def report_failure_def reports update_no_requeue_def io_simps split: res.splits prod.splits)
qed

lemma attempt_settled:
  assumes "attempt (app_fail A M p) m k w = (r, w')" and "client_ok (no_client M)" and "\<not> retried r"
  obtains (failed) "failure_written M w'" | (ok) a v where "m w = (Ok a, v)" and "k a v = (r, w')"
  using assms(1,3) unfolding attempt_def
  by (cases rule: try_stops) (auto dest: fail_written [OF assms(2) _ assms(3)] intro: failed ok)

lemma finish_settled:
  assumes "app_finish A M st p w = (r, w')" and "client_ok (no_client M)" and "\<not> retried r"
  shows "failure_written M w' \<or> st = RunningStatus \<and> running_written M w w'"
proof -
  have stop: "st = RunningStatus \<and> v = w'" if "io_return (app_requeue st) v = (r, w')" for v
    using that assms(3) by (auto simp: io_return_apply app_requeue_def requeue_after_def Second_def split: if_splits)
  let ?q = "app_observed (clock_now (no_client M) w) st p"
  have q: "crStatus ?q = st" by (simp add: app_observed_def put_condition_simps)
  show ?thesis
  proof (cases "app_status_of ?q \<noteq> app_status_of p")
    case True
    then have "attempt (app_fail A M p) (status_update (no_client M) ?q) (\<lambda>_. io_return (app_requeue st)) w = (r, w')"
      using assms(1) by (simp add: app_finish_def Let_def)
    from this assms(2,3) show ?thesis using q
      by (cases rule: attempt_settled) (auto simp: running_written_def dest!: stop)
  next
    case False
    then show ?thesis using assms(1) stop by (auto simp: app_finish_def running_written_def)
  qed
qed

lemma update_settled:
  assumes "update_app A M (app_request_ns A (fst req)) (snd req) p w = (r, w')" and "client_ok (no_client M)" and "\<not> retried r"
  shows "app_settled A M req w'"
proof -
  have seen: "app_settled A M req w'"
    if "app_state M (snd req) (app_request_ns A (fst req)) u = (Ok st, v)" and "app_finish A M st p v = (r, w')" for u v st
    using finish_settled [OF that(2) assms(2,3)] that(1) unfolding app_settled_def seen_running_def by auto
  show ?thesis using assms(1) unfolding update_app_def
    by (elim attempt_settled [OF _ assms(2,3)]) (auto intro: app_settledI(2) dest: seen)
qed

lemma install_settled:
  assumes "install_app A M ns n p w = (r, w')" and "client_ok (no_client M)" and "\<not> retried r"
  shows "failure_written M w'"
proof -
  have late: "io_return (requeue_after (app_installed A)) v = (r, w') \<Longrightarrow> False" for v
    using assms(3) comes_back by (auto simp: io_return_apply requeue_after_def)
  show ?thesis using assms(1) unfolding install_app_def Let_def
    by (elim attempt_settled [OF _ assms(2,3)])
       (auto split: prod.splits elim!: attempt_settled [OF _ assms(2,3)] dest: late)
qed

lemma reconcile_settled:
  assumes "reconcile_app A M (app_request_ns A (fst req)) (snd req) p w = (r, w')" and "client_ok (no_client M)" and "\<not> retried r"
  shows "app_settled A M req w'"
  using assms(1) unfolding reconcile_app_def
  by (elim attempt_settled [OF _ assms(2,3)])
     (auto intro: app_settledI(2) dest: update_settled [OF _ assms(2,3)] install_settled [OF _ assms(2,3)] split: option.splits)

lemma Reconcile_settled:
  assumes "client_ok (no_client M)" and "Reconcile_app A M req w = (r, w')" and "\<not> retried r"
  shows "app_settled A M req w'"
proof -
  have "attempt (app_fail A M (app_zero A)) (newActionCfg M (app_request_ns A (fst req)))
      (\<lambda>_. io_try (client_get (no_client M) req)
        (\<lambda>p. if DeletionTimestamp p \<noteq> None then release_app A M p
             else if \<not> Contains (Finalizers p) (app_finalizer A)
             then attempt (app_fail A M (p\<lparr>Finalizers := [app_finalizer A]\<rparr>)) (app_addFinalizer A (no_client M) p)
                    (reconcile_app A M (app_request_ns A (fst req)) (snd req))
             else reconcile_app A M (app_request_ns A (fst req)) (snd req) p)
        (\<lambda>err. if isNotFound err then io_return no_requeue else app_fail A M (app_zero A) err)) w = (r, w')"
    using assms(2) by (simp add: Reconcile_app_def Let_def)
  from this assms(1,3) show ?thesis
  proof (cases rule: attempt_settled)
    case failed
    then show ?thesis by (rule app_settledI(2))
  next
    case (ok a v)
    from ok(2) assms(3) show ?thesis
    proof (cases rule: try_stops)
      case (ok p u)
      then show ?thesis using app_goneI(2) [OF ok(1)]
        by (cases "DeletionTimestamp p = None")
           (auto intro: app_settledI split: if_splits elim!: attempt_settled [OF _ assms(1,3)] dest: reconcile_settled [OF _ assms(1,3)])
    next
      case (err e u)
      then show ?thesis using app_goneI(1) [OF err(1)]
        by (auto simp: io_return_apply split: if_splits intro: app_settledI dest: fail_written [OF assms(1) _ assms(3)])
    qed
  qed
qed

text \<open>A resource with a finalizer of someone else's.\<close>

lemma foreign_finalizer:
  assumes "newActionCfg M (app_request_ns A (fst req)) w = (Ok (), v)" and "client_get (no_client M) req v = (Ok p, v')"
    and "DeletionTimestamp p \<noteq> None" and "app_finalizer A \<notin> set (Finalizers p)"
  shows "Reconcile_app A M req w = (Ok no_requeue, v')"
  using assms by (simp add: Reconcile_app_def attempt_def release_app_def Contains_iff Let_def io_simps)

end

lemma copies_failed:
  "client_ok K \<Longrightarrow> \<exists>p' b w'. setConditionStatus K p FailedStatus False (Some e) False w = (Ok (p', b), w') \<and> crStatus p' = FailedStatus"
  using copies_status [of K p FailedStatus False "Some e" False w] by blast

lemma app_positive: "0 < 10 * Second" "0 < 120 * Minute"
  by (simp_all add: Second_def Minute_def)

lemma add_if_none: "Finalizers p \<noteq> [] \<Longrightarrow> addFinalizer_if_none K finalizer p = io_return p"
  by (simp add: addFinalizer_if_none_def)

interpretation console: app_reporter console_app
  by (unfold_locales, unfold console_app_def app_controller.simps FabricOperationsConsole_setConditionStatus_def
        FabricOperationsConsole_updateCRStatusOrFailReconcile_def FabricOperationsConsole_addFinalizer_def)
     (simp_all only: copies_failed app_positive add_if_none not_False_eq_True)

interpretation operator_api: app_reporter operator_api_app
  by (unfold_locales, unfold operator_api_app_def app_controller.simps FabricOperatorAPI_setConditionStatus_def
        FabricOperatorAPI_updateCRStatusOrFailReconcile_def FabricOperatorAPI_addFinalizer_def)
     (simp_all only: copies_failed app_positive add_if_none not_False_eq_True)

interpretation operator_ui: app_reporter operator_ui_app
  by (unfold_locales, unfold operator_ui_app_def app_controller.simps FabricOperatorUI_setConditionStatus_def
        FabricOperatorUI_updateCRStatusOrFailReconcile_def FabricOperatorUI_addFinalizer_def)
     (simp_all only: copies_failed app_positive add_if_none not_False_eq_True)

section \<open>Properties\<close>

text \<open>
  C21.  When the reconciler of a console, an operator API or an operator user interface asks for no other
  attempt, the resource is gone or being deleted, or the last thing that was done is to write a status that
  is FAILED, or its release was seen running and, after that, only a status that is RUNNING was written.  So
  after a failed upgrade, or when the API server does not answer, the status is FAILED and no other attempt is
  asked for.
\<close>

theorem Reconcile_apps_settled:
  assumes "client_ok (no_client C)" and "client_ok (no_client P)" and "client_ok (no_client U)"
  shows "(\<not> retried (fst (Reconcile_console C req w)) \<longrightarrow> app_settled console_app C req (snd (Reconcile_console C req w)))
    \<and> (\<not> retried (fst (Reconcile_operator_api P req w)) \<longrightarrow> app_settled operator_api_app P req (snd (Reconcile_operator_api P req w)))
    \<and> (\<not> retried (fst (Reconcile_operator_ui U req w)) \<longrightarrow> app_settled operator_ui_app U req (snd (Reconcile_operator_ui U req w)))"
  unfolding Reconcile_console_def Reconcile_operator_api_def Reconcile_operator_ui_def
  by (intro conjI impI)
     (rule console.Reconcile_settled [OF assms(1) surjective_pairing] operator_api.Reconcile_settled [OF assms(2) surjective_pairing]
        operator_ui.Reconcile_settled [OF assms(3) surjective_pairing], assumption)+

text \<open>
  C22.  A console that has a finalizer of someone else's when it is first seen never gets the one of the
  operator, and when it is deleted nothing is done: its release and its service stay.
\<close>

theorem foreign_finalizer_leaves_release:
  assumes "Finalizers p \<noteq> []" and "consoleFinalizer \<notin> set (Finalizers p)"
    and "newActionCfg M (fst req) w = (Ok (), v)"
    and "client_get (no_client M) req v = (Ok (p\<lparr>DeletionTimestamp := Some t\<rparr>), v')"
  shows "FabricOperationsConsole_addFinalizer K p = io_return p \<and> Reconcile_console M req w = (Ok no_requeue, v')"
proof
  show "FabricOperationsConsole_addFinalizer K p = io_return p"
    using console.only_first [OF assms(1), of K] by (simp add: console_app_def)
  show "Reconcile_console M req w = (Ok no_requeue, v')" unfolding Reconcile_console_def
    by (rule console.foreign_finalizer [OF _ assms(4)]) (use assms(2,3) in \<open>simp_all add: console_app_def\<close>)
qed

section \<open>Instances\<close>

text \<open>A console that is being deleted and has a finalizer of the garbage collector.\<close>

definition console_c0 :: FabricOperationsConsoleResource where
  "console_c0 = empty_console\<lparr>crName := ''c0'', crNamespace := ''n'', Finalizers := [''foregroundDeletion'']\<rparr>"

definition console_M :: "FabricOperationsConsoleResource \<Rightarrow> (lease_memory, FabricOperationsConsoleResource, FabricOperationsConsoleChart) node_operator" where
  "console_M = mem_operator"

theorem foreign_finalizer_leaves_release_witness:
  "Reconcile_console (console_M (console_c0\<lparr>DeletionTimestamp := Some 5\<rparr>)) (''n'', ''c0'') no_lease = (Ok no_requeue, no_lease)"
proof -
  let ?M = "console_M (console_c0\<lparr>DeletionTimestamp := Some 5\<rparr>)"
  have "newActionCfg ?M (fst (''n'', ''c0'')) no_lease = (Ok (), no_lease)"
    by (simp add: newActionCfg_def console_M_def mem_operator_simps mem_helm_def kube_memory_def io_simps)
  moreover have "client_get (no_client ?M) (''n'', ''c0'') no_lease = (Ok (console_c0\<lparr>DeletionTimestamp := Some 5\<rparr>), no_lease)"
    by (simp add: console_M_def mem_operator_simps mem_client_def io_simps)
  moreover have "Finalizers console_c0 \<noteq> []" "consoleFinalizer \<notin> set (Finalizers console_c0)"
    by (simp_all add: console_c0_def consoleFinalizer_def)
  ultimately show ?thesis using foreign_finalizer_leaves_release [of console_c0 ?M] by blast
qed

text \<open>A console that cannot be installed, for want of room.\<close>

definition console_c1 :: FabricOperationsConsoleResource where
  "console_c1 = console_c0\<lparr>Finalizers := [consoleFinalizer]\<rparr>"

lemma console_c1_stops: "Reconcile_console (console_M console_c1) (''n'', ''c0'') no_lease = (Ok no_requeue, no_lease)"
proof -
  have "install_app console_app (console_M console_c1) ns n console_c1 no_lease = (Ok no_requeue, no_lease)" for ns n
    by (simp add: install_app_def console_M_def mem_operator_simps mem_helm_def chart_values_def attempt_def app_fail_def
      console_app_def console_GetConfig_def report_failure_def FabricOperationsConsole_setConditionStatus_def
      setConditionStatus_def setConditionStatus_with_def FabricOperationsConsole_updateCRStatusOrFailReconcile_def
      update_no_requeue_def mem_client_def put_condition_def Let_def io_simps)
  then have "reconcile_app console_app (console_M console_c1) ns n console_c1 no_lease = (Ok no_requeue, no_lease)" for ns n
    by (simp add: reconcile_app_def release_status_def attempt_def console_M_def mem_operator_simps mem_helm_def io_simps)
  then show ?thesis
    by (simp add: Reconcile_console_def Reconcile_app_def newActionCfg_def console_M_def mem_operator_simps mem_helm_def
      mem_client_def kube_memory_def console_app_def attempt_def console_c1_def console_c0_def empty_console_def
      Let_def io_simps)
qed

theorem Reconcile_apps_settled_witness:
  "\<not> retried (fst (Reconcile_console (console_M console_c1) (''n'', ''c0'') no_lease))
    \<and> failure_written (console_M console_c1) no_lease"
proof -
  let ?M = "console_M console_c1"
  have stop: "\<not> retried (fst (Reconcile_console ?M (''n'', ''c0'') no_lease))"
    by (simp add: console_c1_stops no_requeue_def)
  have ok: "client_ok (no_client ?M)" "client_ok (no_client (mem_operator empty_operator_api :: (lease_memory, _, HLFOperatorAPIChart) node_operator))"
    "client_ok (no_client (mem_operator empty_operator_ui :: (lease_memory, _, HLFOperatorUIChart) node_operator))"
    by (simp_all add: console_M_def mem_operator_simps mem_client_ok)
  have "app_settled console_app ?M (''n'', ''c0'') no_lease"
    using Reconcile_apps_settled [OF ok, of "(''n'', ''c0'')" no_lease] stop by (simp add: console_c1_stops)
  moreover have "\<not> app_gone ?M (''n'', ''c0'') no_lease"
    by (auto simp: app_gone_def console_M_def mem_operator_simps mem_client_def console_c1_def console_c0_def empty_console_def io_simps)
  moreover have "\<not> seen_running console_app ?M (''n'', ''c0'') no_lease"
    by (auto simp: seen_running_def app_state_def console_M_def mem_operator_simps mem_helm_def io_simps)
  ultimately show ?thesis using stop by (simp add: app_settled_def)
qed

end
