(* ===== verification/Plugin_Channel.thy ===== *)
theory Plugin_Channel imports Follower_Channel begin

text \<open>
  Commands of the plugin that change a channel (\<open>kubectl-hlf/cmd/channel\<close>): adding, removing and replacing
  a consenter, removing an ordering organization, adding and removing an anchor peer, signing an update
  and sending it.  Each definition is the \<open>run\<close> of one command; the flags are the fields of its record.
\<close>

text \<open>
  What the commands call: the clients of the cluster, the SDK with a user of its configuration file, files.
  \<open>pl_order\<close> is the order in which Go ranges over a map of organizations.  A signing identity that could
  not be had is nil, and so is a signature; what the SDK makes of them is left open.
\<close>

record ('w, 'b, 'c, 'x) plugin =
  pl_lib :: "'w channel_lib"
  pl_order :: "string list \<Rightarrow> string list"
  pl_FromFile :: "string \<Rightarrow> ('w, sdk) io"
  pl_resmgmt :: "sdk \<Rightarrow> string \<Rightarrow> string \<Rightarrow> ('w, res_client) io"
  pl_mspclient :: "sdk \<Rightarrow> string \<Rightarrow> string \<Rightarrow> ('w, unit) io"
  GetSigningIdentity :: "sdk \<Rightarrow> string \<Rightarrow> ('w, signing_identity) io"
  pl_CreateConfigSignature :: "res_client \<Rightarrow> signing_identity option \<Rightarrow> string \<Rightarrow> ('w, config_signature) io"
  signature_Marshal :: "config_signature option \<Rightarrow> string res"
  signature_Unmarshal :: "string \<Rightarrow> config_signature res"
  pl_sdk :: "('w, 'b, 'c, 'x) fabric_sdk"
  pl_tx :: "'x organization_tx"
  pl_ReadFile :: "string \<Rightarrow> ('w, string) io"
  pl_WriteFile :: "string \<Rightarrow> string \<Rightarrow> ('w, unit) io"
  pl_Print :: "string \<Rightarrow> ('w, unit) io"

section \<open>What the commands share\<close>

text \<open>\<open>fabsdk.New\<close>, \<open>sdk.Context\<close> and \<open>resmgmt.New\<close>.\<close>

definition plugin_client ::
  "('w, 'b, 'c, 'x) plugin \<Rightarrow> string \<Rightarrow> string \<Rightarrow> string \<Rightarrow> ('w, res_client) io" where
  "plugin_client M configPath userName mspID =
     io_bind (pl_FromFile M configPath) (\<lambda>sdk. pl_resmgmt M sdk userName mspID)"

definition plugin_kube :: "('w, 'b, 'c, 'x) plugin \<Rightarrow> ('w, unit) io" where
  "plugin_kube M = io_bind (operator_client (pl_lib M)) (\<lambda>_. kube_client (pl_lib M))"

text \<open>The configuration transaction of the channel, from its last configuration block.\<close>

definition current_tx :: "('w, 'b, 'c, 'x) plugin \<Rightarrow> res_client \<Rightarrow> string \<Rightarrow> ('w, 'x) io" where
  "current_tx M resClient channelName =
     io_bind (QueryConfigBlockFromOrderer (pl_sdk M) resClient channelName []) (\<lambda>block.
     io_bind (io_lift (ExtractConfigFromBlock (pl_sdk M) block)) (\<lambda>cfgBlock.
       io_return (configtx_New (pl_sdk M) cfgBlock)))"

definition update_envelope :: "('w, 'b, 'c, 'x) plugin \<Rightarrow> string \<Rightarrow> 'x \<Rightarrow> string res" where
  "update_envelope M channelName tx =
     res_bind (ComputeMarshaledUpdate (pl_tx M) channelName tx) (\<lambda>configUpdateBytes.
     res_bind (update_Unmarshal (pl_sdk M) configUpdateBytes) (\<lambda>configUpdate.
       CreateConfigUpdateEnvelope (pl_sdk M) channelName configUpdate))"

definition write_update :: "('w, 'b, 'c, 'x) plugin \<Rightarrow> string \<Rightarrow> string \<Rightarrow> 'x \<Rightarrow> ('w, unit) io" where
  "write_update M channelName output tx =
     io_bind (io_lift (update_envelope M channelName tx)) (pl_WriteFile M output)"

definition send_update :: "('w, 'b, 'c, 'x) plugin \<Rightarrow> res_client \<Rightarrow> string \<Rightarrow> 'x \<Rightarrow> ('w, unit) io" where
  "send_update M resClient channelName tx =
     io_bind (io_lift (update_envelope M channelName tx)) (\<lambda>channelConfigBytes.
     io_bind (SaveChannel (pl_sdk M) resClient channelName channelConfigBytes []) (\<lambda>_. io_return ()))"

section \<open>Consenters\<close>

record consenter_flags =
  cf_configPath :: string
  cf_channelName :: string
  cf_userName :: string
  cf_mspID :: string
  cf_output :: string

definition node_as_consenter :: "string \<times> int \<Rightarrow> certificate \<Rightarrow> Consenter" where
  "node_as_consenter hp cert = \<lparr>consenter_Address = \<lparr>Host = fst hp, Port = snd hp\<rparr>, ClientTLSCert = cert, ServerTLSCert = cert\<rparr>"

definition consenter_at :: "string \<times> int \<Rightarrow> Consenter \<Rightarrow> bool" where
  "consenter_at hp c \<longleftrightarrow> Host (consenter_Address c) = fst hp \<and> Port (consenter_Address c) = snd hp"

text \<open>The address and the certificate of a node.\<close>

definition node_consenter :: "('w, 'b, 'c, 'x) plugin \<Rightarrow> string \<Rightarrow> ('w, (string \<times> int) \<times> certificate) io" where
  "node_consenter M ordNodeName =
     io_bind (GetOrdererNodeByFullName (lib_cluster (pl_lib M)) ordNodeName) (\<lambda>ordNode.
     io_bind (io_lift (parse_cert (pl_lib M) (node_TlsCert (Node_Object ordNode)))) (\<lambda>tlsCert.
     io_bind (GetOrdererHostPort (lib_cluster (pl_lib M)) (Node_Object ordNode)) (\<lambda>hp. io_return (hp, tlsCert))))"

fun add_nodes :: "('w, 'b, 'c, 'x) plugin \<Rightarrow> string list \<Rightarrow> 'x \<Rightarrow> ('w, 'x) io" where
  "add_nodes M [] tx = io_return tx"
| "add_nodes M (n # ns) tx =
     io_bind (node_consenter M n) (\<lambda>(hp, tlsCert).
     io_bind (edit tx (ord_AddConsenter (transaction (pl_sdk M)) (node_as_consenter hp tlsCert))) (\<lambda>(_, tx'). add_nodes M ns tx'))"

definition addConsenter_run ::
  "('w, 'b, 'c, 'x) plugin \<Rightarrow> consenter_flags \<Rightarrow> string list \<Rightarrow> ('w, unit) io" where
  "addConsenter_run M c ordNodeNames =
     io_bind (plugin_kube M) (\<lambda>_.
     io_bind (plugin_client M (cf_configPath c) (cf_userName c) (cf_mspID c)) (\<lambda>resClient.
     io_bind (current_tx M resClient (cf_channelName c)) (\<lambda>tx.
     io_bind (add_nodes M ordNodeNames tx) (write_update M (cf_channelName c) (cf_output c)))))"

text \<open>The first consenter at the address is removed; none is no error.\<close>

definition remove_consenter_at :: "'x configtx \<Rightarrow> string \<times> int \<Rightarrow> ('x, unit) io" where
  "remove_consenter_at C hp =
     io_bind (ord_Configuration C) (\<lambda>ordererConf.
       case find (consenter_at hp) (raft_Consenters (ord_EtcdRaft ordererConf)) of
         None \<Rightarrow> io_return ()
       | Some consenter \<Rightarrow> ord_RemoveConsenter C consenter)"

definition delConsenter_run ::
  "('w, 'b, 'c, 'x) plugin \<Rightarrow> consenter_flags \<Rightarrow> string \<Rightarrow> ('w, unit) io" where
  "delConsenter_run M c ordNodeName =
     io_bind (plugin_kube M) (\<lambda>_.
     io_bind (plugin_client M (cf_configPath c) (cf_userName c) (cf_mspID c)) (\<lambda>resClient.
     io_bind (current_tx M resClient (cf_channelName c)) (\<lambda>tx.
     io_bind (GetOrdererNodeByFullName (lib_cluster (pl_lib M)) ordNodeName) (\<lambda>ordNode.
     io_bind (GetOrdererHostPort (lib_cluster (pl_lib M)) (Node_Object ordNode)) (\<lambda>hp.
     io_bind (edit tx (remove_consenter_at (transaction (pl_sdk M)) hp)) (\<lambda>(_, tx').
       write_update M (cf_channelName c) (cf_output c) tx'))))))"

text \<open>
  The consenters are read first; the error of that call is overwritten by the next one, and the zero value
  has no consenters.
\<close>

definition listed_consenters :: "'x configtx \<Rightarrow> ('x, Consenter list) io" where
  "listed_consenters C = io_try (ord_Configuration C)
     (\<lambda>ordConf. io_return (raft_Consenters (ord_EtcdRaft ordConf))) (\<lambda>_. io_return [])"

definition replace_consenter_at :: "'x configtx \<Rightarrow> Consenter list \<Rightarrow> string \<times> int \<Rightarrow> certificate \<Rightarrow> ('x, unit) io" where
  "replace_consenter_at C consenters hp tlsCert =
     (case find (consenter_at hp) consenters of
        None \<Rightarrow> io_return ()
      | Some consenter \<Rightarrow> io_bind (ord_RemoveConsenter C consenter) (\<lambda>_. ord_AddConsenter C (node_as_consenter hp tlsCert)))"

definition replaceConsenter_run ::
  "('w, 'b, 'c, 'x) plugin \<Rightarrow> consenter_flags \<Rightarrow> string \<Rightarrow> ('w, unit) io" where
  "replaceConsenter_run M c ordNodeName =
     (let C = transaction (pl_sdk M) in
     io_bind (plugin_kube M) (\<lambda>_.
     io_bind (plugin_client M (cf_configPath c) (cf_userName c) (cf_mspID c)) (\<lambda>resClient.
     io_bind (current_tx M resClient (cf_channelName c)) (\<lambda>tx.
     io_bind (edit tx (listed_consenters C)) (\<lambda>(consenters, tx).
     io_bind (node_consenter M ordNodeName) (\<lambda>(hp, tlsCert).
     io_bind (edit tx (replace_consenter_at C consenters hp tlsCert)) (\<lambda>(_, tx').
       write_update M (cf_channelName c) (cf_output c) tx')))))))"

section \<open>Organizations and anchor peers\<close>

text \<open>The user is one of \<open>signMSPID\<close>; the organization that goes is \<open>cf_mspID\<close>.\<close>

definition removeOrdererOrg_run ::
  "('w, 'b, 'c, 'x) plugin \<Rightarrow> consenter_flags \<Rightarrow> string \<Rightarrow> ('w, unit) io" where
  "removeOrdererOrg_run M c signMSPID =
     io_bind (plugin_client M (cf_configPath c) (cf_userName c) signMSPID) (\<lambda>resClient.
     io_bind (current_tx M resClient (cf_channelName c)) (\<lambda>tx.
     io_bind (edit tx (ord_RemoveOrganization (transaction (pl_sdk M)) (cf_mspID c))) (\<lambda>(_, tx').
       write_update M (cf_channelName c) (cf_output c) tx')))"

text \<open>The clients of the cluster are made before and after the SDK; the anchor peers are read and not used.\<close>

definition addAnchorPeer_run ::
  "('w, 'b, 'c, 'x) plugin \<Rightarrow> string \<Rightarrow> string \<Rightarrow> string \<Rightarrow> string \<Rightarrow> ('w, unit) io" where
  "addAnchorPeer_run M configPath peerName channelName userName =
     (let K = lib_cluster (pl_lib M); T = pl_tx M in
     io_bind (operator_client (pl_lib M)) (\<lambda>_.
     io_bind (pl_FromFile M configPath) (\<lambda>sdk.
     io_bind (kube_client (pl_lib M)) (\<lambda>_.
     io_bind (GetPeerByFullName K (pl_order M) peerName) (\<lambda>adminPeer.
     let mspID = peer_MspID (Peer_Object adminPeer) in
     io_bind (pl_resmgmt M sdk userName mspID) (\<lambda>resClient.
     io_bind (current_tx M resClient channelName) (\<lambda>tx.
     io_bind (GetPeerHostAndPort K (Peer_Object adminPeer)) (\<lambda>(peerHostName, peerPort).
     io_bind (edit tx (org_AnchorPeers T mspID)) (\<lambda>(_, tx).
     io_bind (edit tx (org_AddAnchorPeer T mspID \<lparr>Host = peerHostName, Port = peerPort\<rparr>)) (\<lambda>(_, tx).
       send_update M resClient channelName tx))))))))))"

definition delAnchorPeer_run ::
  "('w, 'b, 'c, 'x) plugin \<Rightarrow> string \<Rightarrow> string \<Rightarrow> string \<Rightarrow> string \<Rightarrow> Address \<Rightarrow> ('w, unit) io" where
  "delAnchorPeer_run M configPath channelName userName mspID address =
     io_bind (plugin_client M configPath userName mspID) (\<lambda>resClient.
     io_bind (current_tx M resClient channelName) (\<lambda>tx.
     io_bind (edit tx (org_RemoveAnchorPeer (pl_tx M) mspID address)) (\<lambda>(_, tx').
       send_update M resClient channelName tx')))"

section \<open>Signing and sending\<close>

record update_flags =
  uf_configPath :: string
  uf_channelName :: string
  uf_userName :: string
  uf_file :: string
  uf_mspID :: string
  uf_signatures :: "string list"
  uf_identity :: string
  uf_output :: string

text \<open>With an identity file every error is returned.\<close>

definition sign_with_file ::
  "('w, 'b, 'c, 'x) plugin \<Rightarrow> update_flags \<Rightarrow> sdk \<Rightarrow> res_client \<Rightarrow> string \<Rightarrow> ('w, string) io" where
  "sign_with_file M c sdk resClient update =
     (let S = pl_sdk M in
     io_bind (sdk_Config S sdk) (\<lambda>sdkConfig.
     io_bind (GetSuiteByConfig S sdkConfig) (\<lambda>cryptoSuite.
     io_bind (fab_ConfigFromBackend S sdkConfig) (\<lambda>endpointConfig.
     io_bind (NewIdentityManager S (uf_mspID c) cryptoSuite endpointConfig) (\<lambda>identityManager.
     io_bind (pl_ReadFile M (uf_identity c)) (\<lambda>identityBytes.
     io_bind (io_lift (yaml_Unmarshal S identityBytes)) (\<lambda>id'.
     io_bind (im_CreateSigningIdentity S identityManager (KeyPem id') (CertPem id')) (\<lambda>signingIdentity.
     io_bind (pl_CreateConfigSignature M resClient (Some signingIdentity) update) (\<lambda>signature.
       io_lift (signature_Marshal M (Some signature)))))))))))"

text \<open>With the user of the configuration the errors of the three calls are not looked at.\<close>

definition or_nil :: "('w, 'a) io \<Rightarrow> ('w, 'a option) io" where
  "or_nil m = io_try m (\<lambda>a. io_return (Some a)) (\<lambda>_. io_return None)"

definition sign_with_user ::
  "('w, 'b, 'c, 'x) plugin \<Rightarrow> update_flags \<Rightarrow> sdk \<Rightarrow> res_client \<Rightarrow> string \<Rightarrow> ('w, string) io" where
  "sign_with_user M c sdk resClient update =
     io_bind (pl_mspclient M sdk (uf_userName c) (uf_mspID c)) (\<lambda>_.
     io_bind (or_nil (GetSigningIdentity M sdk (uf_userName c))) (\<lambda>usr.
     io_bind (or_nil (pl_CreateConfigSignature M resClient usr update)) (\<lambda>signature.
     io_bind (or_nil (io_lift (signature_Marshal M signature))) (\<lambda>bytes.
       io_return (case bytes of None \<Rightarrow> [] | Some b \<Rightarrow> b)))))"

definition signUpdate_run :: "('w, 'b, 'c, 'x) plugin \<Rightarrow> update_flags \<Rightarrow> ('w, unit) io" where
  "signUpdate_run M c =
     io_bind (pl_FromFile M (uf_configPath c)) (\<lambda>sdk.
     io_bind (pl_resmgmt M sdk (uf_userName c) (uf_mspID c)) (\<lambda>resClient.
     io_bind (pl_ReadFile M (uf_file c)) (\<lambda>update.
     io_bind (if uf_identity c \<noteq> [] then sign_with_file M c sdk resClient update
              else sign_with_user M c sdk resClient update) (\<lambda>signatureBytes.
       if uf_output c \<noteq> [] then pl_WriteFile M (uf_output c) signatureBytes else pl_Print M signatureBytes))))"

definition read_signature :: "('w, 'b, 'c, 'x) plugin \<Rightarrow> string \<Rightarrow> ('w, config_signature) io" where
  "read_signature M signatureFile =
     io_bind (io_wrap (''failed to read signatureFile '' @ signatureFile) (pl_ReadFile M signatureFile)) (\<lambda>signatureBytes.
       io_wrap (''failed unmarshalling signature '' @ signatureFile) (io_lift (signature_Unmarshal M signatureBytes)))"

definition updateChannel_run :: "('w, 'b, 'c, 'x) plugin \<Rightarrow> update_flags \<Rightarrow> ('w, unit) io" where
  "updateChannel_run M c =
     io_bind (plugin_client M (uf_configPath c) (uf_userName c) (uf_mspID c)) (\<lambda>resClient.
     io_bind (pl_ReadFile M (uf_file c)) (\<lambda>update.
     io_bind (io_map (read_signature M) (uf_signatures c)) (\<lambda>configSignatures.
     io_bind (SaveChannel (pl_sdk M) resClient (uf_channelName c) update [WithConfigSignatures configSignatures])
       (\<lambda>_. io_return ()))))"

end
