(* ===== verification/Plugin_Chaincode.thy ===== *)
theory Plugin_Chaincode imports Plugin_Channel Chaincode_Lifecycle Chaincode_Deploy begin

text \<open>
  Commands of the plugin for chaincodes: the next version or sequence, approving and committing
  (\<open>kubectl-hlf/cmd/chaincode\<close>), and the resource of a chaincode that runs as a service
  (\<open>kubectl-hlf/cmd/externalchaincode\<close>).
\<close>

text \<open>A committed definition, as the peers report it; \<open>policy_String\<close> is the text of a policy.\<close>

record committed_cc =
  com_Version :: string
  com_Sequence :: int
  com_SignaturePolicy :: signature_policy
  com_CollectionConfig :: "CollectionConfig list"

record ('w, 'b, 'c, 'x) chaincode_plugin =
  cp_plugin :: "('w, 'b, 'c, 'x) plugin"
  cp_lifecycle :: "('w, 'b, 'c, 'x) lifecycle"
  QueryCommitted :: "res_client \<Rightarrow> string \<Rightarrow> string \<Rightarrow> ('w, committed_cc list) io"
  dsl_FromString :: "string \<Rightarrow> signature_policy res"
  policy_String :: "signature_policy \<Rightarrow> string"
  CommitFiltered :: "res_client \<Rightarrow> string \<Rightarrow> LifecycleCCRequest \<Rightarrow> request_option list \<Rightarrow> (string \<Rightarrow> bool) \<Rightarrow> ('w, string) io"

section \<open>The next version or sequence\<close>

record getnext_flags =
  gn_configPath :: string
  gn_userName :: string
  gn_channelName :: string
  gn_name :: string
  gn_mspID :: string
  gn_property :: string
  gn_outFile :: string
  gn_policy :: string
  gn_collectionsConfig :: string

definition getNext_validate :: "getnext_flags \<Rightarrow> unit res" where
  "getNext_validate c =
     (if gn_property c \<noteq> ''version'' \<and> gn_property c \<noteq> ''sequence''
      then Err (ErrorString ''property must be either version or sequence'')
      else if gn_outFile c = [] then Err (ErrorString ''output file is required'') else Ok ())"

definition collections_of_file ::
  "('w, 'b, 'c, 'x) chaincode_plugin \<Rightarrow> string \<Rightarrow> ('w, CollectionConfig list) io" where
  "collections_of_file P collectionsConfig =
     (if collectionsConfig \<noteq> []
      then io_bind (pl_ReadFile (cp_plugin P) collectionsConfig) (\<lambda>bytes.
        io_lift (GetCollectionConfigFromBytes (cp_lifecycle P) bytes))
      else io_return [])"

text \<open>The loop over two lists of the same length, to the first difference.\<close>

fun collections_changed :: "(signature_policy \<Rightarrow> string) \<Rightarrow> CollectionConfig list \<Rightarrow> CollectionConfig list \<Rightarrow> bool" where
  "collections_changed str (old # olds) (new # news) =
     (if coll_Name old \<noteq> coll_Name new then True
      else if str (MemberOrgsPolicy old) \<noteq> str (MemberOrgsPolicy new) then True
      else collections_changed str olds news)"
| "collections_changed str _ _ = False"

definition should_commit ::
  "('w, 'b, 'c, 'x) chaincode_plugin \<Rightarrow> committed_cc \<Rightarrow> signature_policy \<Rightarrow> CollectionConfig list \<Rightarrow> bool" where
  "should_commit P first sp collections =
     (policy_String P (com_SignaturePolicy first) \<noteq> policy_String P sp
      \<or> (if length (com_CollectionConfig first) \<noteq> length collections then True
          else collections_changed (policy_String P) (com_CollectionConfig first) collections))"

definition next_property :: "getnext_flags \<Rightarrow> committed_cc \<Rightarrow> bool \<Rightarrow> string" where
  "next_property c latestCC shouldCommit =
     (if gn_property c = ''version'' then com_Version latestCC
      else if shouldCommit then itoa (com_Sequence latestCC + 1) else itoa (com_Sequence latestCC))"

definition getNext_run :: "('w, 'b, 'c, 'x) chaincode_plugin \<Rightarrow> getnext_flags \<Rightarrow> ('w, unit) io" where
  "getNext_run P c =
     (let M = cp_plugin P in
     io_bind (plugin_client M (gn_configPath c) (gn_userName c) (gn_mspID c)) (\<lambda>resClient.
     io_bind (QueryCommitted P resClient (gn_channelName c) (gn_name c)) (\<lambda>committedCCs.
     case committedCCs of
       [] \<Rightarrow> io_throw (ErrorString ''no chaincode found'')
     | first # _ \<Rightarrow>
         io_bind (collections_of_file P (gn_collectionsConfig c)) (\<lambda>collections.
         io_bind (io_lift (dsl_FromString P (gn_policy c))) (\<lambda>sp.
           pl_WriteFile M (gn_outFile c)
             (next_property c (List.last committedCCs) (should_commit P first sp collections)))))))"

section \<open>Approving and committing\<close>

record definition_flags =
  df_configPath :: string
  df_userName :: string
  df_channelName :: string
  df_name :: string
  df_version :: string
  df_sequence :: int
  df_policy :: string
  df_initRequired :: bool
  df_collectionsConfig :: string

definition definition_policy ::
  "('w, 'b, 'c, 'x) chaincode_plugin \<Rightarrow> string \<Rightarrow> signature_policy option res" where
  "definition_policy P policy = (if policy \<noteq> [] then res_bind (policydsl_FromString (cp_lifecycle P) policy) (\<lambda>sp. Ok (Some sp)) else Ok None)"

definition approveChaincode_run ::
  "('w, 'b, 'c, 'x) chaincode_plugin \<Rightarrow> definition_flags \<Rightarrow> string \<Rightarrow> string \<Rightarrow> ('w, unit) io" where
  "approveChaincode_run P c peerFlag packageID =
     (let M = cp_plugin P in
     io_bind (plugin_kube M) (\<lambda>_.
     io_bind (GetPeerByFullName (lib_cluster (pl_lib M)) (pl_order M) peerFlag) (\<lambda>peer.
     io_bind (plugin_client M (df_configPath c) (df_userName c) (peer_MspID (Peer_Object peer))) (\<lambda>resClient.
     io_bind (io_lift (definition_policy P (df_policy c))) (\<lambda>sp.
     io_bind (collections_of_file P (df_collectionsConfig c)) (\<lambda>collections.
     io_bind (LifecycleApproveCC (cp_lifecycle P) resClient (df_channelName c)
        \<lparr>lc_Name = df_name c, lc_Version = df_version c, lc_Sequence = df_sequence c, EndorsementPlugin = ''escc'',
         ValidationPlugin = ''vscc'', lc_SignaturePolicy = sp,
         lc_CollectionConfig = (if collections = [] then None else Some collections),
         lc_InitRequired = df_initRequired c, lc_PackageID = packageID\<rparr>
        (WithTargetEndpoints (Peer_FullName peer) # long_timeouts)) (\<lambda>_. io_return ())))))))"

text \<open>\<open>mspFilterArray\<close>; the target filter is a function of the SDK's request.\<close>

definition mspFilterArray_Accept :: "string list \<Rightarrow> string \<Rightarrow> bool" where
  "mspFilterArray_Accept mspIDs msp = (if length mspIDs = 0 then True else list_ex (\<lambda>mspID. msp = mspID) mspIDs)"

text \<open>Without a file of collections there are none; an empty file gives an empty list.\<close>

definition commitChaincode_run ::
  "('w, 'b, 'c, 'x) chaincode_plugin \<Rightarrow> definition_flags \<Rightarrow> string \<Rightarrow> string list \<Rightarrow> ('w, unit) io" where
  "commitChaincode_run P c mspID committingOrgs =
     io_bind (plugin_client (cp_plugin P) (df_configPath c) (df_userName c) mspID) (\<lambda>resClient.
     io_bind (io_lift (definition_policy P (df_policy c))) (\<lambda>sp.
     io_bind (collections_of_file P (df_collectionsConfig c)) (\<lambda>collections.
     io_bind (CommitFiltered P resClient (df_channelName c)
        \<lparr>lc_Name = df_name c, lc_Version = df_version c, lc_Sequence = df_sequence c, EndorsementPlugin = ''escc'',
         ValidationPlugin = ''vscc'', lc_SignaturePolicy = sp,
         lc_CollectionConfig = (if df_collectionsConfig c = [] then None else Some collections),
         lc_InitRequired = df_initRequired c\<rparr>
        long_timeouts (mspFilterArray_Accept committingOrgs)) (\<lambda>_. io_return ()))))"

section \<open>External chaincodes\<close>

text \<open>
  The generated client for chaincodes, that for authorities (of one the name, the namespace and the TLS
  certificate are read), and \<open>base64\<close>.
\<close>

record 'w external_services =
  GetKubeOperatorClient :: "('w, unit) io"
  FabricChaincodes_Get :: "string \<Rightarrow> string \<Rightarrow> ('w, FabricChaincodeResource) io"
  FabricChaincodes_Create :: "string \<Rightarrow> FabricChaincodeResource \<Rightarrow> ('w, FabricChaincodeResource) io"
  FabricChaincodes_Update :: "string \<Rightarrow> FabricChaincodeResource \<Rightarrow> ('w, FabricChaincodeResource) io"
  FabricCAs_Get :: "string \<Rightarrow> string \<Rightarrow> ('w, FabricCA) io"
  base64_Encode :: "string \<Rightarrow> string"

record external_flags =
  ef_name :: string
  ef_namespace :: string
  ef_image :: string
  ef_packageID :: string
  ef_caName :: string
  ef_caNamespace :: string
  ef_enrollId :: string
  ef_enrollSecret :: string
  ef_replicas :: int
  ef_tlsRequired :: bool
  ef_ImagePullSecret :: "string list"
  ef_Env :: "string list"
  ef_port :: int

definition required :: "string \<Rightarrow> string \<Rightarrow> unit res" where
  "required value flag = (if value = [] then Err (ErrorString (flag @ '' is required'')) else Ok ())"

definition sync_validate :: "external_flags \<Rightarrow> unit res" where
  "sync_validate c =
     res_bind (required (ef_name c) ''--name'') (\<lambda>_.
     res_bind (required (ef_namespace c) ''--namespace'') (\<lambda>_.
     res_bind (required (ef_image c) ''--image'') (\<lambda>_.
     res_bind (required (ef_packageID c) ''--package-id'') (\<lambda>_.
     if ef_tlsRequired c
     then res_bind (required (ef_caName c) ''--ca-name'') (\<lambda>_.
       res_bind (required (ef_caNamespace c) ''--ca-namespace'') (\<lambda>_.
       res_bind (required (ef_enrollId c) ''--enroll-id'') (\<lambda>_.
         required (ef_enrollSecret c) ''--enroll-secret'')))
     else Ok ()))))"

text \<open>\<open>strings.SplitN(source, "=", 2)\<close>.\<close>

fun split_equals :: "string \<Rightarrow> (string \<times> string) option" where
  "split_equals [] = None"
| "split_equals (c # cs) = (if c = CHR 0x3D then Some ([], cs)
     else (case split_equals cs of None \<Rightarrow> None | Some (k, v) \<Rightarrow> Some (c # k, v)))"

definition ParseEnv :: "string \<Rightarrow> (string \<times> string) res" where
  "ParseEnv source =
     (if source \<noteq> [] \<and> hd source = CHR 0x3D then Err (ErrorString (''invalid formart '' @ source @ '', expected key=value''))
      else (case split_equals source of
          None \<Rightarrow> Err (ErrorString (''invalid format '' @ source @ '', expected key=value''))
        | Some kv \<Rightarrow> Ok kv))"

definition handleEnv :: "string list \<Rightarrow> EnvVar list res" where
  "handleEnv = res_map (\<lambda>source. res_bind (ParseEnv source) (\<lambda>(keyName, value).
     Ok \<lparr>env_Name = keyName, env_Value = value, env_ValueFrom = None\<rparr>))"

definition external_credentials :: "'w external_services \<Rightarrow> external_flags \<Rightarrow> ('w, TLSComponent option) io" where
  "external_credentials X c =
     (if ef_tlsRequired c
      then io_bind (FabricCAs_Get X (ef_caNamespace c) (ef_caName c)) (\<lambda>fabricCA.
        io_return (Some (Component.extend
          \<lparr>Cahost = ca_Name fabricCA @ ''.'' @ ca_Namespace fabricCA, Caname = ''tlsca'', Caport = 7054,
           comp_Catls = Some \<lparr>Cacert = base64_Encode X (ca_TlsCert fabricCA), catls_SecretRef = None\<rparr>,
           Enrollid = ef_enrollId c, Enrollsecret = ef_enrollSecret c, comp_External = None, comp_Vault = None\<rparr>
          (TLSComponent.fields \<lparr>csr_Hosts = [ef_name c, ef_name c @ ''.'' @ ef_namespace c], csr_CN = ef_name c\<rparr>))))
      else io_return None)"

text \<open>The fields the command does not name are zero.\<close>

definition external_spec :: "external_flags \<Rightarrow> EnvVar list \<Rightarrow> TLSComponent option \<Rightarrow> FabricChaincodeSpec" where
  "external_spec c env credentials =
     \<lparr>cc_Template = None, cc_Annotations = Map.empty, cc_Labels = Map.empty, cc_PodAnnotations = Map.empty,
      cc_PodLabels = Map.empty, cc_Image = ef_image c, cc_ImagePullPolicy = ''IfNotPresent'', cc_PackageID = ef_packageID c,
      cc_ImagePullSecrets = map K8s (ef_ImagePullSecret c), cc_Command = [], cc_Args = [], cc_Affinity = None,
      cc_Tolerations = [], cc_Resources = None, cc_PodSecurityContext = None, cc_SecurityContext = None,
      cc_ServiceAccountName = [], cc_EnableServiceLinks = False, cc_NodeSelector = Map.empty,
      cc_Credentials = credentials, cc_Replicas = ef_replicas c, cc_Env = env, cc_ChaincodeServerPort = ef_port c,
      cc_MspID = []\<rparr>"

definition getFabricChaincodeSpec :: "'w external_services \<Rightarrow> external_flags \<Rightarrow> ('w, FabricChaincodeSpec) io" where
  "getFabricChaincodeSpec X c =
     io_bind (io_lift (if ef_Env c \<noteq> [] then handleEnv (ef_Env c) else Ok [])) (\<lambda>env.
     io_bind (GetKubeOperatorClient X) (\<lambda>_.
     io_bind (external_credentials X c) (\<lambda>credentials. io_return (external_spec c env credentials))))"

definition new_chaincode :: "string \<Rightarrow> string \<Rightarrow> FabricChaincodeSpec \<Rightarrow> FabricChaincodeResource" where
  "new_chaincode name namespace spec = \<lparr>crName = name, crNamespace = namespace, Finalizers = [], DeletionTimestamp = None,
     crConditions = [], crMessage = [], crStatus = [], cc_Spec = spec\<rparr>"

definition createChaincode :: "'w external_services \<Rightarrow> external_flags \<Rightarrow> ('w, unit) io" where
  "createChaincode X c =
     io_bind (getFabricChaincodeSpec X c) (\<lambda>spec.
     io_bind (GetKubeOperatorClient X) (\<lambda>_.
     io_bind (FabricChaincodes_Create X (ef_namespace c) (new_chaincode (ef_name c) (ef_namespace c) spec)) (\<lambda>_.
       io_return ())))"

definition updated_chaincode ::
  "FabricChaincodeSpec \<Rightarrow> TLSComponent option \<Rightarrow> FabricChaincodeResource \<Rightarrow> FabricChaincodeResource" where
  "updated_chaincode spec credentials p =
     p\<lparr>cc_Spec := (cc_Spec p)\<lparr>cc_Image := cc_Image spec, cc_ImagePullPolicy := ''Always'', cc_Replicas := cc_Replicas spec,
       cc_PackageID := cc_PackageID spec, cc_ImagePullSecrets := cc_ImagePullSecrets spec, cc_Credentials := credentials\<rparr>\<rparr>"

definition updateChaincode ::
  "'w external_services \<Rightarrow> external_flags \<Rightarrow> FabricChaincodeResource \<Rightarrow> ('w, unit) io" where
  "updateChaincode X c p =
     io_bind (getFabricChaincodeSpec X c) (\<lambda>spec.
     io_bind (GetKubeOperatorClient X) (\<lambda>_.
     io_bind (external_credentials X c) (\<lambda>credentials.
     io_bind (FabricChaincodes_Update X (ef_namespace c) (updated_chaincode spec credentials p)) (\<lambda>_. io_return ()))))"

text \<open>Any error of reading the resource makes the command create it.\<close>

definition sync_run :: "'w external_services \<Rightarrow> external_flags \<Rightarrow> ('w, unit) io" where
  "sync_run X c =
     io_bind (GetKubeOperatorClient X) (\<lambda>_.
       io_try (FabricChaincodes_Get X (ef_namespace c) (ef_name c)) (updateChaincode X c) (\<lambda>_. createChaincode X c))"

end
