(* ===== verification/Plugin_Correct.thy ===== *)
theory Plugin_Correct imports Plugin_Chaincode Channel_Correct Follower_Channel_Correct Chaincode_Correct begin

text \<open>
  What the commands of the plugin do: the consenters an update leaves, the sequence of the next definition,
  environment variables, and the errors that are not looked at.
\<close>

section \<open>Consenters\<close>

text \<open>The consenters of a channel without those at an address; an address belongs to one of them.\<close>

definition without :: "string \<times> int \<Rightarrow> Consenter set \<Rightarrow> Consenter set" where
  "without hp S = {c \<in> S. \<not> consenter_at hp c}"

definition one_per_address :: "Consenter set \<Rightarrow> bool" where
  "one_per_address S \<longleftrightarrow> (\<forall>c \<in> S. \<forall>d \<in> S. \<forall>hp. consenter_at hp c \<longrightarrow> consenter_at hp d \<longrightarrow> c = d)"

definition replaced :: "string \<times> int \<Rightarrow> certificate \<Rightarrow> Consenter set \<Rightarrow> Consenter set" where
  "replaced hp cert S = (if \<exists>c \<in> S. consenter_at hp c then insert (node_as_consenter hp cert) (without hp S) else S)"

lemma without_found:
  assumes "one_per_address S" and "c \<in> S" and "consenter_at hp c"
  shows "S - {c} = without hp S"
  using assms unfolding one_per_address_def without_def by blast

lemma find_at:
  "find (consenter_at hp) cs = Some c \<Longrightarrow> c \<in> set cs \<and> consenter_at hp c"
  "find (consenter_at hp) cs = None \<Longrightarrow> \<forall>c \<in> set cs. \<not> consenter_at hp c"
  by (auto simp: find_Some_iff find_None_iff)

lemma consenter_lawsD:
  assumes "consenter_laws C view"
  shows "does view (ord_AddConsenter C c) v (on_ord (vo_consenters_update (insert c)) v)"
    and "c \<in> vo_consenters (view_ord v) \<Longrightarrow> does view (ord_RemoveConsenter C c) v (on_ord (vo_consenters_update (\<lambda>s. s - {c})) v)"
  using assms unfolding consenter_laws_def by blast+

lemma on_consenters:
  "on_ord (vo_consenters_update f) v = on_ord (vo_consenters_update (\<lambda>_. f (vo_consenters (view_ord v)))) v"
  "on_ord (vo_consenters_update f) (on_ord (vo_consenters_update g) v) = on_ord (vo_consenters_update (\<lambda>s. f (g s))) v"
  by (simp_all add: on_ord_def comp_def)

lemma remove_consenter_at_does:
  assumes laws: "ord_laws C view" and one: "one_per_address (vo_consenters (view_ord v))"
  shows "does view (remove_consenter_at C hp) v (on_ord (vo_consenters_update (without hp)) v)"
  unfolding remove_consenter_at_def
proof (rule does_read [OF ord_lawsD(1) [OF laws]])
  fix o' assume "OrdererType o' = vo_type (view_ord v) \<and> lists_orgs (vo_orgs (view_ord v)) (ord_Organizations o')
    \<and> distinct (raft_Consenters (ord_EtcdRaft o')) \<and> set (raft_Consenters (ord_EtcdRaft o')) = vo_consenters (view_ord v)"
  then have set: "set (raft_Consenters (ord_EtcdRaft o')) = vo_consenters (view_ord v)" by blast
  show "does view (case find (consenter_at hp) (raft_Consenters (ord_EtcdRaft o')) of None \<Rightarrow> io_return ()
      | Some consenter \<Rightarrow> ord_RemoveConsenter C consenter) v (on_ord (vo_consenters_update (without hp)) v)"
  proof (cases "find (consenter_at hp) (raft_Consenters (ord_EtcdRaft o'))")
    case None
    then have "without hp (vo_consenters (view_ord v)) = vo_consenters (view_ord v)"
      using find_at(2) [OF None] set by (auto simp: without_def)
    then have "on_ord (vo_consenters_update (without hp)) v = v" by (simp add: on_ord_def)
    with None show ?thesis by (simp add: does_return)
  next
    case (Some c)
    then have c: "c \<in> vo_consenters (view_ord v)" "consenter_at hp c" using find_at(1) [OF Some] set by simp_all
    have "on_ord (vo_consenters_update (\<lambda>s. s - {c})) v = on_ord (vo_consenters_update (without hp)) v"
      using without_found [OF one c] on_consenters(1) [of "\<lambda>s. s - {c}" v] on_consenters(1) [of "without hp" v] by simp
    with Some consenter_lawsD(2) [OF ord_lawsD(6) [OF laws] c(1)] show ?thesis by simp
  qed
qed

lemma replace_consenter_at_does:
  assumes laws: "consenter_laws C view" and one: "one_per_address (vo_consenters (view_ord v))"
    and set: "set consenters = vo_consenters (view_ord v)"
  shows "does view (replace_consenter_at C consenters hp cert) v (on_ord (vo_consenters_update (replaced hp cert)) v)"
proof (cases "find (consenter_at hp) consenters")
  case None
  then have "replaced hp cert (vo_consenters (view_ord v)) = vo_consenters (view_ord v)"
    using find_at(2) [OF None] set by (auto simp: replaced_def)
  then have "on_ord (vo_consenters_update (replaced hp cert)) v = v" by (simp add: on_ord_def)
  with None show ?thesis by (simp add: replace_consenter_at_def does_return)
next
  case (Some c)
  then have c: "c \<in> vo_consenters (view_ord v)" "consenter_at hp c" using find_at(1) [OF Some] set by simp_all
  let ?v = "on_ord (vo_consenters_update (\<lambda>s. s - {c})) v"
  have "does view (io_bind (ord_RemoveConsenter C c) (\<lambda>_. ord_AddConsenter C (node_as_consenter hp cert))) v
      (on_ord (vo_consenters_update (insert (node_as_consenter hp cert))) ?v)"
    by (rule does_bind [OF consenter_lawsD(2) [OF laws c(1)] consenter_lawsD(1) [OF laws]])
  moreover have "on_ord (vo_consenters_update (insert (node_as_consenter hp cert))) ?v = on_ord (vo_consenters_update (replaced hp cert)) v"
    using without_found [OF one c] c on_consenters(1) [of "replaced hp cert" v]
    by (simp add: on_consenters(2) bexI [of _ c] replaced_def)
  ultimately show ?thesis using Some by (simp add: replace_consenter_at_def)
qed

text \<open>Replacing a consenter is removing and adding it.\<close>

lemma replaced_is_remove_add:
  "\<exists>c \<in> S. consenter_at hp c \<Longrightarrow> replaced hp cert S = insert (node_as_consenter hp cert) (without hp S)"
  by (simp add: replaced_def)

text \<open>What a lookup of a node gave a command.\<close>

definition node_shown :: "('w, 'b, 'c, 'x) plugin \<Rightarrow> string \<Rightarrow> Consenter \<Rightarrow> bool" where
  "node_shown M n d \<longleftrightarrow> (\<exists>u hp cert u'. node_consenter M n u = (Ok (hp, cert), u') \<and> d = node_as_consenter hp cert)"

lemma add_nodes_Ok:
  assumes "consenter_laws (transaction (pl_sdk M)) view" and "add_nodes M names tx w = (Ok tx', w')"
  shows "\<exists>cs. list_all2 (node_shown M) names cs
    \<and> view tx' = on_ord (vo_consenters_update (\<lambda>s. s \<union> set cs)) (view tx)"
  using assms(2)
proof (induction names arbitrary: tx w)
  case Nil
  then show ?case by (intro exI [of _ "[]"]) (simp add: io_return_apply on_ord_def)
next
  case (Cons n ns)
  then obtain hp cert u tx1 where n: "node_consenter M n w = (Ok (hp, cert), u)"
    and e: "ord_AddConsenter (transaction (pl_sdk M)) (node_as_consenter hp cert) tx = (Ok (), tx1)"
    and rest: "add_nodes M ns tx1 u = (Ok tx', w')"
    by (auto simp: io_bind_Ok_iff edit_eq_Ok)
  from Cons.IH [OF rest] obtain cs where cs: "list_all2 (node_shown M) ns cs"
    "view tx' = on_ord (vo_consenters_update (\<lambda>s. s \<union> set cs)) (view tx1)" by blast
  have "view tx1 = on_ord (vo_consenters_update (insert (node_as_consenter hp cert))) (view tx)"
    using consenter_lawsD(1) [OF assms(1), of "node_as_consenter hp cert" "view tx"] e by (fastforce simp: does_def)
  then have "view tx' = on_ord (vo_consenters_update (\<lambda>s. s \<union> set (node_as_consenter hp cert # cs))) (view tx)"
    using cs(2) by (simp add: on_consenters(2))
  moreover have "node_shown M n (node_as_consenter hp cert)" using n unfolding node_shown_def by blast
  ultimately show ?case using cs(1) by (intro exI [of _ "node_as_consenter hp cert # cs"]) simp
qed

text \<open>The configuration a command starts from is one the ordering service gave.\<close>

definition fetched :: "('w, 'b, 'c, 'x) plugin \<Rightarrow> string \<Rightarrow> 'x \<Rightarrow> bool" where
  "fetched M channelName tx \<longleftrightarrow> (\<exists>rc u block u' cfg. QueryConfigBlockFromOrderer (pl_sdk M) rc channelName [] u = (Ok block, u')
     \<and> ExtractConfigFromBlock (pl_sdk M) block = Ok cfg \<and> tx = configtx_New (pl_sdk M) cfg)"

lemma current_tx_Ok: "current_tx M rc ch w = (Ok tx, w') \<Longrightarrow> fetched M ch tx"
  unfolding current_tx_def fetched_def by (auto simp: io_bind_Ok_iff io_lift_apply io_return_apply)

lemma listed_consenters_Ok:
  assumes "ord_laws C view" and "listed_consenters C tx = (Ok consenters, tx')"
  shows "set consenters = vo_consenters (view_ord (view tx)) \<and> tx' = tx"
proof -
  obtain o' where "ord_Configuration C tx = (Ok o', tx)" "set (raft_Consenters (ord_EtcdRaft o')) = vo_consenters (view_ord (view tx))"
    using ord_lawsD(1) [OF assms(1), of "view tx"] unfolding reads_def by blast
  then show ?thesis using assms(2) by (auto simp: listed_consenters_def io_try_apply io_return_apply)
qed

text \<open>
  A plugin whose files are kept: the world is what was written to them.  The user has no identity, nothing
  can be signed, and the channel has the node at an old certificate and one other consenter.
\<close>

definition replace_flags :: consenter_flags where
  "replace_flags = \<lparr>cf_configPath = ''cfg'', cf_channelName = ''demo'', cf_userName = ''admin'', cf_mspID = ''OrdererMSP'', cf_output = ''out''\<rparr>"

definition raft_nodes :: "Consenter list" where
  "raft_nodes = [node_as_consenter (''ord0.org'', 443) \<lparr>Raw = ''old''\<rparr>, node_as_consenter (''ord1.org'', 443) \<lparr>Raw = ''tls1''\<rparr>]"

definition channel_raft :: Channel where
  "channel_raft = raft_channel [] [] [] raft_nodes []"

definition renewed_nodes :: "Consenter set" where
  "renewed_nodes = {node_as_consenter (''ord0.org'', 443) \<lparr>Raw = ''ordtls''\<rparr>, node_as_consenter (''ord1.org'', 443) \<lparr>Raw = ''tls1''\<rparr>}"

definition plugin_one :: "((string \<times> string) list, Channel, Channel, Channel) plugin" where
  "plugin_one = \<lparr>pl_lib = plain_lib\<lparr>lib_cluster := (cluster_of [] [])\<lparr>list_orderer_nodes := \<lambda>_ _. io_return [orderer_one]\<rparr>\<rparr>,
     pl_order = rev, pl_FromFile = (\<lambda>f. io_return (SDK f)), pl_resmgmt = (\<lambda>_ _ m. io_return (ResClient m)),
     pl_mspclient = (\<lambda>_ _ _. io_return ()), GetSigningIdentity = (\<lambda>_ u. io_throw (NotFound u)),
     pl_CreateConfigSignature = (\<lambda>_ usr s. if usr = None then io_throw (ErrorString ''no signer'') else io_return (ConfigSignature s)),
     signature_Marshal = (\<lambda>s. case s of None \<Rightarrow> Err (ErrorString ''nil'') | Some (ConfigSignature t) \<Rightarrow> Ok t),
     signature_Unmarshal = (\<lambda>s. Ok (ConfigSignature s)),
     pl_sdk = sdk_one\<lparr>QueryConfigBlockFromOrderer := \<lambda>_ _ _. io_return channel_raft\<rparr>, pl_tx = organization_mem,
     pl_ReadFile = (\<lambda>f w. (case map_of w f of None \<Rightarrow> Err (NotFound f) | Some t \<Rightarrow> Ok t, w)),
     pl_WriteFile = (\<lambda>f t w. (Ok (), (f, t) # w)), pl_Print = (\<lambda>t w. (Ok (), ([], t) # w))\<rparr>"

lemma plugin_one_sdk:
  "transaction (pl_sdk plugin_one) = mem" "ExtractConfigFromBlock (pl_sdk plugin_one) = Ok" "configtx_New (pl_sdk plugin_one) = (\<lambda>c. c)"
  "QueryConfigBlockFromOrderer (pl_sdk plugin_one) = (\<lambda>_ _ _. io_return channel_raft)"
  by (simp_all add: plugin_one_def sdk_one_def)

lemma plugin_one_node: "node_consenter plugin_one ''ord0.ns'' w = (Ok ((''ord0.org'', 443), \<lparr>Raw = ''ordtls''\<rparr>), w)"
  by (simp add: node_consenter_def GetOrdererNodeByFullName_def GetClusterOrdererNodes_def MapClusterOrdererNode_def GetOrdererPublicURL_def
      GetOrdererHostPort_def GetAdminOrdererPublicURL_def GetOrdererAdminHostAndPort_def plugin_one_def plain_lib_def cluster_of_def
      orderer_one_def search_def parse_cert_def ParseX509Certificate_def FabricOrdererNode_FullName_def full_name_def io_simps)

lemma plugin_one_fetched: "fetched plugin_one ch tx \<Longrightarrow> tx = channel_raft"
  by (simp add: fetched_def plugin_one_sdk io_return_apply)

lemma channel_raft_consenters: "vo_consenters (view_ord (mem_view channel_raft)) = set raft_nodes"
  by (simp add: mem_view_def view_of_ord_def channel_raft_def raft_channel_def raft_nodes_def)

lemma raft_nodes_one: "one_per_address (set raft_nodes)"
  by (auto simp: raft_nodes_def one_per_address_def consenter_at_def node_as_consenter_def)

lemma plugin_one_calls:
  "plugin_kube plugin_one w = (Ok (), w)" "plugin_client plugin_one f u m w = (Ok (ResClient m), w)"
  "current_tx plugin_one rc ch w = (Ok channel_raft, w)" "\<exists>w'. write_update plugin_one ch f x w = (Ok (), w')"
  by (simp_all add: plugin_kube_def plugin_client_def current_tx_def write_update_def update_envelope_def plugin_one_sdk io_simps)
    (simp_all add: plugin_one_def plain_lib_def organization_mem_def sdk_one_def CreateConfigUpdateEnvelope_def io_simps)

lemma plugin_one_replaces: "\<exists>w. replaceConsenter_run plugin_one replace_flags ''ord0.ns'' [] = (Ok (), w)"
proof -
  have l: "listed_consenters mem channel_raft = (Ok raft_nodes, channel_raft)"
    by (simp add: listed_consenters_def mem_def channel_raft_def raft_channel_def raft_nodes_def node_as_consenter_def io_simps)
  have "\<exists>tx'. replace_consenter_at mem raft_nodes (''ord0.org'', 443) \<lparr>Raw = ''ordtls''\<rparr> channel_raft = (Ok (), tx')"
    by (simp add: replace_consenter_at_def consenter_at_def node_as_consenter_def mem_def channel_raft_def raft_channel_def raft_nodes_def
        in_ord_def io_simps)
  then obtain tx' where r: "replace_consenter_at mem raft_nodes (''ord0.org'', 443) \<lparr>Raw = ''ordtls''\<rparr> channel_raft = (Ok (), tx')" by blast
  obtain w where "write_update plugin_one (cf_channelName replace_flags) (cf_output replace_flags) tx' [] = (Ok (), w)"
    using plugin_one_calls(4) by blast
  then have "replaceConsenter_run plugin_one replace_flags ''ord0.ns'' [] = (Ok (), w)"
    by (simp add: replaceConsenter_run_def plugin_one_sdk plugin_one_calls(1-3) plugin_one_node io_bind_apply edit_def l r io_return_apply)
  then show ?thesis by blast
qed

section \<open>Properties\<close>



text \<open>The same for adding the nodes of a list and for removing the consenter at a node's address.\<close>

theorem addConsenter_correct:
  assumes "consenter_laws (transaction (pl_sdk M)) view" and "addConsenter_run M c names w = (Ok (), w')"
  shows "\<exists>tx cs tx' v. fetched M (cf_channelName c) tx \<and> list_all2 (node_shown M) names cs
    \<and> view tx' = on_ord (vo_consenters_update (\<lambda>s. s \<union> set cs)) (view tx)
    \<and> write_update M (cf_channelName c) (cf_output c) tx' v = (Ok (), w')"
proof -
  from assms(2) obtain rc v1 tx v2 tx' v3 where tx: "current_tx M rc (cf_channelName c) v1 = (Ok tx, v2)"
    and e: "add_nodes M names tx v2 = (Ok tx', v3)" and wr: "write_update M (cf_channelName c) (cf_output c) tx' v3 = (Ok (), w')"
    unfolding addConsenter_run_def by (auto simp: io_bind_Ok_iff)
  from add_nodes_Ok [OF assms(1) e] current_tx_Ok [OF tx] wr show ?thesis by blast
qed

theorem delConsenter_correct:
  assumes "ord_laws (transaction (pl_sdk M)) view"
    and "\<And>tx. fetched M (cf_channelName c) tx \<Longrightarrow> one_per_address (vo_consenters (view_ord (view tx)))"
    and "delConsenter_run M c n w = (Ok (), w')"
  shows "\<exists>tx hp tx' v. fetched M (cf_channelName c) tx \<and> view tx' = on_ord (vo_consenters_update (without hp)) (view tx)
    \<and> write_update M (cf_channelName c) (cf_output c) tx' v = (Ok (), w')"
proof -
  let ?C = "transaction (pl_sdk M)"
  from assms(3) obtain rc v1 tx v2 hp v3 tx' where tx: "current_tx M rc (cf_channelName c) v1 = (Ok tx, v2)"
    and e: "remove_consenter_at ?C hp tx = (Ok (), tx')"
    and wr: "write_update M (cf_channelName c) (cf_output c) tx' v3 = (Ok (), w')"
    unfolding delConsenter_run_def by (auto simp: io_bind_Ok_iff edit_eq_Ok)
  have "view tx' = on_ord (vo_consenters_update (without hp)) (view tx)"
    using remove_consenter_at_does [OF assms(1) assms(2) [OF current_tx_Ok [OF tx]], of hp] e by (fastforce simp: does_def)
  with current_tx_Ok [OF tx] wr show ?thesis by blast
qed

text \<open>
  Signing an update as a user of the configuration: if the signature cannot be made, whether the user
  has a signing identity or not, and a signature that is nil is not marshalled, the command writes an empty
  file and ends without an error.
\<close>

theorem signUpdate_failure_silent:
  assumes "pl_FromFile M (uf_configPath c) w = (Ok sdk, w1)" and "pl_resmgmt M sdk (uf_userName c) (uf_mspID c) w1 = (Ok rc, w2)"
    and "pl_ReadFile M (uf_file c) w2 = (Ok update, w3)" and "uf_identity c = []" and "uf_output c \<noteq> []"
    and "pl_mspclient M sdk (uf_userName c) (uf_mspID c) w3 = (Ok (), w4)"
    and "or_nil (GetSigningIdentity M sdk (uf_userName c)) w4 = (Ok usr, w5)"
    and "pl_CreateConfigSignature M rc usr update w5 = (Err e, w6)" and "signature_Marshal M None = Err e'"
  shows "signUpdate_run M c w = pl_WriteFile M (uf_output c) [] w6"
  using assms by (simp add: signUpdate_run_def sign_with_user_def or_nil_def io_simps)

theorem signUpdate_failure_silent_witness:
  "signUpdate_run plugin_one \<lparr>uf_configPath = ''cfg'', uf_channelName = ''demo'', uf_userName = ''nobody'', uf_file = ''update.pb'',
     uf_mspID = ''Org1MSP'', uf_signatures = [], uf_identity = [], uf_output = ''out''\<rparr> [(''update.pb'', ''delta'')]
   = (Ok (), [(''out'', []), (''update.pb'', ''delta'')])"
  by (subst signUpdate_failure_silent [where sdk = "SDK ''cfg''" and rc = "ResClient ''Org1MSP''" and update = "''delta''"
        and usr = None and e = "ErrorString ''no signer''" and e' = "ErrorString ''nil''"
        and ?w1.0 = "[(''update.pb'', ''delta'')]" and ?w2.0 = "[(''update.pb'', ''delta'')]" and ?w3.0 = "[(''update.pb'', ''delta'')]"
        and ?w4.0 = "[(''update.pb'', ''delta'')]" and ?w5.0 = "[(''update.pb'', ''delta'')]" and ?w6.0 = "[(''update.pb'', ''delta'')]"])
    (simp_all add: plugin_one_def or_nil_def io_simps)

section \<open>The next sequence\<close>

lemma collections_changed_iff:
  "length old = length new \<Longrightarrow> collections_changed str old new \<longleftrightarrow>
     map (\<lambda>c. (coll_Name c, str (MemberOrgsPolicy c))) old \<noteq> map (\<lambda>c. (coll_Name c, str (MemberOrgsPolicy c))) new"
  by (induction old new rule: list_induct2) auto

text \<open>What the command looks at in a definition: its policy, and the names and policies of its collections.\<close>

definition looked_at ::
  "('w, 'b, 'c, 'x) chaincode_plugin \<Rightarrow> signature_policy \<Rightarrow> CollectionConfig list \<Rightarrow> string \<times> (string \<times> string) list" where
  "looked_at P sp collections = (policy_String P sp, map (\<lambda>c. (coll_Name c, policy_String P (MemberOrgsPolicy c))) collections)"

lemma should_commit_iff:
  "should_commit P first sp collections \<longleftrightarrow>
     looked_at P (com_SignaturePolicy first) (com_CollectionConfig first) \<noteq> looked_at P sp collections"
proof (cases "length (com_CollectionConfig first) = length collections")
  case True
  then show ?thesis by (auto simp: should_commit_def looked_at_def collections_changed_iff)
next
  case False
  then show ?thesis by (auto simp: should_commit_def looked_at_def dest: map_eq_imp_length_eq)
qed


text \<open>A chaincode that was committed twice; in the file the lifetime of its collection is another one.\<close>

definition collection_of :: "64 word \<Rightarrow> CollectionConfig" where
  "collection_of blocks = \<lparr>coll_Name = ''pdc'', MemberOrgsPolicy = SignaturePolicyEnvelope ''any'', coll_RequiredPeerCount = 0,
     MaximumPeerCount = 1, coll_BlockToLive = blocks, coll_MemberOnlyRead = True, coll_MemberOnlyWrite = True,
     coll_EndorsementPolicy = None\<rparr>"

definition life_kept :: "((string \<times> string) list, Channel, Channel, Channel) lifecycle" where
  "life_kept = \<lparr>ch_lib = plain_lib, ch_hlf = hlf_one, ch_sdk = sdk_one, ch_files = files_one,
     LifecycleQueryCommittedCC = (\<lambda>_ _ _ _. io_return [1, 2]),
     LifecycleQueryApprovedCC = (\<lambda>_ _ _ _ _. io_throw (ErrorString ''none'')),
     LifecycleApproveCC = (\<lambda>_ _ _ _. io_return ''tx1''), LifecycleCommitCC = (\<lambda>_ _ _ _. io_return ''tx2''),
     LifecycleInstallCC = (\<lambda>_ _ _ _. io_return ()), ComputePackageID = (\<lambda>label _. label @ '':1''),
     policydsl_FromString = (\<lambda>s. Ok (SignaturePolicyEnvelope s)), collections_Marshal = (\<lambda>_. Ok ''[]''),
     collections_Unmarshal = (\<lambda>_. Ok [\<lparr>pdc_Name = ''pdc'', pdc_Policy = ''any'', pdc_RequiredPeerCount = None, pdc_MaxPeerCount = None,
       pdc_BlockToLive = 9, pdc_MemberOnlyRead = True, pdc_MemberOnlyWrite = True, pdc_EndorsementPolicy = None\<rparr>])\<rparr>"

definition committed_at :: "int \<Rightarrow> committed_cc" where
  "committed_at n = \<lparr>com_Version = ''1'', com_Sequence = n, com_SignaturePolicy = SignaturePolicyEnvelope ''any'',
     com_CollectionConfig = [collection_of 5]\<rparr>"

definition chaincode_plugin_one :: "((string \<times> string) list, Channel, Channel, Channel) chaincode_plugin" where
  "chaincode_plugin_one = \<lparr>cp_plugin = plugin_one, cp_lifecycle = life_kept,
     QueryCommitted = (\<lambda>_ _ _. io_return [committed_at 1, committed_at 2]),
     dsl_FromString = (\<lambda>s. Ok (SignaturePolicyEnvelope s)), policy_String = (\<lambda>p. case p of SignaturePolicyEnvelope s \<Rightarrow> s),
     CommitFiltered = (\<lambda>_ _ _ _ _. io_return ''tx'')\<rparr>"

definition next_flags :: "string \<Rightarrow> getnext_flags" where
  "next_flags policy = \<lparr>gn_configPath = ''cfg'', gn_userName = ''admin'', gn_channelName = ''demo'', gn_name = ''cc'',
     gn_mspID = ''Org1MSP'', gn_property = ''sequence'', gn_outFile = ''seq'', gn_policy = policy, gn_collectionsConfig = ''coll.json''\<rparr>"


section \<open>External chaincodes\<close>

lemma split_equals_eq:
  "split_equals s = (if CHR 0x3D \<in> set s
     then Some (takeWhile (\<lambda>c. c \<noteq> CHR 0x3D) s, tl (dropWhile (\<lambda>c. c \<noteq> CHR 0x3D) s)) else None)"
  by (induction s) simp_all

lemma split_equals_Some:
  "split_equals s = Some (k, v) \<longleftrightarrow> s = k @ CHR 0x3D # v \<and> CHR 0x3D \<notin> set k"
proof
  assume r: "split_equals s = Some (k, v)"
  then have eq: "CHR 0x3D \<in> set s" "k = takeWhile (\<lambda>c. c \<noteq> CHR 0x3D) s" "v = tl (dropWhile (\<lambda>c. c \<noteq> CHR 0x3D) s)"
    by (simp_all add: split_equals_eq split: if_splits)
  from eq(1) have ne: "dropWhile (\<lambda>c. c \<noteq> CHR 0x3D) s \<noteq> []" by (simp add: dropWhile_eq_Nil_conv)
  then have "dropWhile (\<lambda>c. c \<noteq> CHR 0x3D) s = CHR 0x3D # v"
    using eq(3) hd_dropWhile [OF ne] by (cases "dropWhile (\<lambda>c. c \<noteq> CHR 0x3D) s") simp_all
  then have "s = k @ CHR 0x3D # v" using eq(2) takeWhile_dropWhile_id [of "\<lambda>c. c \<noteq> CHR 0x3D" s] by simp
  moreover have "CHR 0x3D \<notin> set k" using eq(2) by (auto dest: set_takeWhileD)
  ultimately show "s = k @ CHR 0x3D # v \<and> CHR 0x3D \<notin> set k" by blast
next
  assume "s = k @ CHR 0x3D # v \<and> CHR 0x3D \<notin> set k"
  then have "\<forall>c \<in> set k. c \<noteq> CHR 0x3D" "s = k @ CHR 0x3D # v" by auto
  then show "split_equals s = Some (k, v)" by (simp add: split_equals_eq takeWhile_append2 dropWhile_append2)
qed

text \<open>
  An environment variable is read as its name and its value exactly when the name is not empty and has no
  equals sign; the value may be empty.
\<close>

theorem ParseEnv_iff:
  "ParseEnv s = Ok (k, v) \<longleftrightarrow> s = k @ CHR 0x3D # v \<and> CHR 0x3D \<notin> set k \<and> k \<noteq> []"
proof (cases "s \<noteq> [] \<and> hd s = CHR 0x3D")
  case True
  then show ?thesis by (cases k) (auto simp: ParseEnv_def)
next
  case False
  then have "ParseEnv s = Ok (k, v) \<longleftrightarrow> split_equals s = Some (k, v)"
    by (auto simp: ParseEnv_def simp del: split_equals.simps split: option.splits)
  moreover have "k = [] \<Longrightarrow> s \<noteq> k @ CHR 0x3D # v" using False by auto
  ultimately show ?thesis unfolding split_equals_Some by blast
qed

text \<open>
  Synchronising a chaincode that exists sends its environment and its port as they were, whatever the flags
  say; only a new one gets those of the flags.
\<close>

theorem sync_keeps_environment:
  assumes "FabricChaincodes_Get X (ef_namespace c) (ef_name c) w1 = (Ok p, w2)"
    and "GetKubeOperatorClient X w = (Ok (), w1)" and "sync_run X c w = (Ok (), w')"
  shows "\<exists>q v r. FabricChaincodes_Update X (ef_namespace c) q v = (Ok r, w')
    \<and> cc_Env (cc_Spec q) = cc_Env (cc_Spec p) \<and> cc_ChaincodeServerPort (cc_Spec q) = cc_ChaincodeServerPort (cc_Spec p)
    \<and> cc_Image (cc_Spec q) = ef_image c \<and> cc_Replicas (cc_Spec q) = ef_replicas c"
proof -
  have "updateChaincode X c p w2 = (Ok (), w')" using assms by (simp add: sync_run_def io_simps)
  then obtain spec u u' credentials u'' r where s: "getFabricChaincodeSpec X c w2 = (Ok spec, u)"
    and up: "FabricChaincodes_Update X (ef_namespace c) (updated_chaincode spec credentials p) u'' = (Ok r, w')"
    unfolding updateChaincode_def by (auto simp: io_bind_Ok_iff io_return_apply)
  have "cc_Image spec = ef_image c" "cc_Replicas spec = ef_replicas c"
    using s by (auto simp: getFabricChaincodeSpec_def io_bind_Ok_iff io_return_apply external_spec_def)
  with up show ?thesis by (intro exI [of _ "updated_chaincode spec credentials p"] exI [of _ u''] exI [of _ r])
      (simp add: updated_chaincode_def)
qed

end
