(* ===== verification/Spec2Isabelle.thy ===== *)
theory Spec2Isabelle
  imports Lease_Lock Cluster_Lookup Channel_Correct Main_Channel_Properties Follower_Channel_Correct Chaincode_Correct
    Peer_Correct Orderer_Correct CA_Correct Identity_Correct Chaincode_Deploy_Correct Network_Correct
    Apps_Correct Plugin_Correct
begin

text \<open>
  A verification development for the Hyperledger Fabric operator, a Kubernetes operator written in Go, and
  for the parts of its command line plugin that the operator uses or that change a channel or a chaincode.

  \<^bold>\<open>The program.\<close>  A user describes a Fabric network as custom resources
  (\<open>pkg/apis/hlf.kungfusoftware.es/v1alpha1/hlf_types.go\<close>): certificate authorities, peers, ordering nodes,
  channels, chaincodes, identities, network configurations and the applications beside them.  Each kind has
  a controller (\<open>controllers/<kind>/\<close>) whose method \<open>Reconcile\<close> is called when the resource changes or is
  due for another look.  It compares the resource with the
  world, changes the world, and records the outcome in the status of the resource; what it returns says
  when it is called again.  The controllers share the status conditions (\<open>pkg/status\<close>), the generation
  of network configurations for the Fabric SDK (\<open>pkg/nc\<close>), the helpers of \<open>controllers/utils\<close> and the
  lookups of \<open>kubectl-hlf/cmd/helpers\<close>.

  \<^bold>\<open>The model.\<close>  A Go function that only computes is a HOL function; one that returns an error returns
  \<open>'a res\<close>, with a value for each of a nil error, an error and a run-time panic; one that talks to the
  outside is a state transformer over a world \<open>'w\<close> of type \<open>('w, 'a) io\<close> and keeps the world on every
  exit.  The calls to the outside are the fields of interface records: \<open>client\<close> (the Kubernetes client
  for one kind of resource), \<open>cluster\<close> and \<open>hlf_client\<close> (the lists of resources), \<open>channel_lib\<close>
  (certificates and durations), \<open>configtx\<close> and \<open>organization_tx\<close> (\<open>fabric-config\<close>), \<open>fabric_sdk\<close>
  and \<open>lifecycle\<close> (\<open>fabric-sdk-go\<close>), \<open>http\<close>, \<open>files\<close>, \<open>crypto\<close>, \<open>ca_lib\<close> and \<open>vault_lib\<close> (certificates,
  the client of \<open>fabric-ca\<close>, Vault), \<open>x509_lib\<close>, \<open>kube_objects\<close> (secrets, deployments), \<open>helm\<close> and
  \<open>kube\<close>.  A definition takes the record as an
  argument, so a theorem that names no law of it holds whatever the outside answers.  Laws, where a
  theorem needs them, are named predicates (\<open>app_laws\<close>, \<open>ord_laws\<close>, \<open>organization_laws\<close>,
  \<open>lib_quiet\<close>, \<open>server_ok\<close>, \<open>client_ok\<close>, \<open>lease_api\<close>, \<open>counted\<close>, \<open>kv_law\<close>, \<open>encoding_law\<close>,
  \<open>codec_law\<close>, \<open>template_law\<close>, \<open>chart_applied\<close>, \<open>library_law\<close>, \<open>renewal_never_refused\<close>, \<open>selector_immutable\<close>,
  \<open>secrets_held\<close>, \<open>enrolment_quiet\<close>) that state the documented effect of one call each, and
  each theorem with such a law has an instance on a library in memory.

  All loops of the modelled code run over finite slices or a fixed number of times, so every definition is
  recursive over its data and total; no fuel is used.  The wait for the renewal lock makes the five
  attempts of the code.  \<open>strings_Split\<close> ends because every step shortens the text.  Integers that come from the resource are \<open>int\<close> where the code only
  compares and prints them, and words where their width shows.  Ports are scanned from 30000 to 32767, the bounds
  of the code.  A Go map the code ranges over is the list of its entries in the order of that run, so the
  theorems hold for every order.

  \<^bold>\<open>Theories, in the order of the imports.\<close>

  \<^item> \<open>Prelude\<close>: results, effects and their combinators, evaluation rules, rules for code that does not
    panic.  \<open>Views\<close>: effects of a call whose state is hidden, seen through a view; rules for sequences,
    error wrappers and loops.
  \<^item> \<open>Conditions\<close> (\<open>pkg/status/conditions.go\<close>): \<open>SetCondition\<close>, \<open>RemoveCondition\<close>, the queries and the
    JSON order.  The locale \<open>condition_store\<close> states the contract of a store of conditions; it gives that
    the transition time is that of the last change of the value, over any history of calls.
  \<^item> \<open>Custom_Resource\<close> (\<open>setConditionStatus\<close>, \<open>updateCRStatusOrFailReconcile\<close>, \<open>addFinalizer\<close> of every
    controller): one definition per copy, since the copies differ.  The locale \<open>failure_reporter\<close>, interpreted
    for seven controllers, says that a failure always leads to another attempt.  \<open>Reconciler\<close>: the frame of
    \<open>Reconcile\<close>, and \<open>attempt\<close> for its error branches.
  \<^item> \<open>Cluster_Utils\<close> (\<open>controllers/utils/utils.go\<close>, \<open>crl.go\<close>): node addresses, free node ports, pod
    readiness, PEM wrappers.  \<open>Cluster_Lookup\<close> (\<open>kubectl-hlf/cmd/helpers/hlf.go\<close>): addresses of
    authorities, peers and ordering nodes, grouping and searches.  \<open>Host_Port\<close>: \<open>net.SplitHostPort\<close> and
    \<open>strconv.Atoi\<close>.
  \<^item> \<open>Lease_Lock\<close> (\<open>controllers/utils/lease.go\<close>): the lock around the renewal of certificates, and a step
    relation that interleaves any number of callers against a server with optimistic concurrency.  An
    invariant by rule induction gives mutual exclusion, and \<open>AcquireLease\<close> run alone is a path of
    the relation.
  \<^item> \<open>Channel_Spec\<close> (the resource and the library's configuration), \<open>Channel_Config\<close> (\<open>mapToConfigTX\<close>: structure,
    policies, consensus, the inputs on which it panics), \<open>Channel_Update\<close> (the three functions that edit a
    configuration), \<open>Channel_Diff\<close> (what each loop of edits does to the view), \<open>Channel_Sections\<close> (each
    function as a change of one section), \<open>Channel_Correct\<close> (their properties) and \<open>Channel_Memory\<close> (a
    library in memory that satisfies the laws).  All of \<open>controllers/mainchannel\<close>.
  \<^item> \<open>Fabric_Resources\<close> (the resources of follower channels and chaincodes), \<open>Network_Config\<close>
    (\<open>pkg/nc/nc.go\<close>: the data of the five generators, and that every name in it is defined in it),
    \<open>Osnadmin\<close> (\<open>kubectl-hlf/cmd/helpers/osnadmin\<close>), \<open>Fabric_SDK\<close> (the SDK, signing identities, update
    envelopes, configuration maps).
  \<^item> \<open>Main_Channel\<close> (every method of \<open>FabricMainChannelReconciler\<close>, in the order of the file),
    \<open>Main_Channel_Correct\<close> (joining, querying, editing and submitting) and \<open>Main_Channel_Properties\<close>:
    which nodes join with which block, which block is edited, that the update sent takes the channel to the
    resource, and what a \<open>Reconcile\<close> that is not retried has done.  \<open>Operator_Memory\<close>: an SDK and clients
    in memory for the instances.
  \<^item> \<open>Follower_Channel\<close> (\<open>FabricFollowerChannelReconciler\<close>) and \<open>Follower_Channel_Correct\<close>: joining the
    peers, the anchor peers and revocation lists of the organization.
  \<^item> \<open>Chaincode_Package\<close> (\<open>generateChaincodePackage\<close>), \<open>Chaincode_Lifecycle\<close> (the controllers of
    \<open>controllers/chaincode/install\<close>, \<open>approve\<close>, \<open>commit\<close>, and \<open>kubectl-hlf/cmd/helpers/mappers.go\<close>) and
    \<open>Chaincode_Correct\<close>: what an installation reports, when an approval is sent, the translation of private
    data collections, the panic without the key.
  \<^item> \<open>Enrollment\<close> (\<open>controllers/certs\<close>) and \<open>Vault_PKI\<close> (\<open>controllers/certs_vault\<close>): enrolling,
    renewing, registering and revoking with a Fabric certificate authority and with a Vault.
    \<open>Node_Crypto\<close>: what peers and ordering nodes do with them, a copy of each function in both controllers.
    \<open>Enrollment_Correct\<close>: the locale \<open>renewer\<close>, the contract of a renewal that keeps the key, interpreted
    for the renewals of both controllers; authorities in a Vault.
  \<^item> \<open>Helm_Release\<close>: the stretches of \<open>Reconcile\<close> that the peer and the ordering node controller share:
    repairing, upgrading and removing a release, the status of the pods, the lock around a renewal.
    \<open>Release_Correct\<close>: the revision a release goes back to, that the wait for the lock ends, whom it excludes.
  \<^item> \<open>Node_Chart\<close>, \<open>Peer_Chart\<close>, \<open>Orderer_Chart\<close> (\<open>GetConfig\<close>, \<open>getConfig\<close> and the two \<open>types.go\<close>):
    the choice of certificates and the values of the charts.  \<open>Peer_Controller\<close>, \<open>Orderer_Controller\<close>
    (\<open>controllers/peer\<close>, \<open>ordnode\<close>, \<open>ordservice\<close>): \<open>Reconcile\<close>, cut into its stretches.
    \<open>Node_Memory\<close>: services in memory.  \<open>Peer_Correct\<close>, \<open>Orderer_Correct\<close>: certificates and keys under
    upgrades and renewals, and when a node is looked at again.
  \<^item> \<open>Net_IP\<close> (\<open>net.ParseIP\<close>), \<open>CA_Chart\<close> and \<open>CA_Controller\<close> (\<open>controllers/ca\<close>): the key material of a
    certificate authority, on Kubernetes or in a Vault, the values of its chart with the secrets the chart
    makes of them, and \<open>Reconcile\<close>.  \<open>CA_Correct\<close>: the certificates survive every later configuration, what
    renews the TLS certificate, whose authority is reported or shared, and when it is left alone.
  \<^item> \<open>Kube_Objects\<close> (the objects of the Kubernetes API the next controllers write), \<open>Identity_Controller\<close>
    (\<open>controllers/identity\<close>) and \<open>Identity_Correct\<close>: registration, enrolment and renewal of an identity, which
    keeps its key.
  \<^item> \<open>Chaincode_Deploy\<close> (\<open>controllers/chaincode/deploy\<close>) and \<open>Chaincode_Deploy_Correct\<close>: templates,
    certificates, deployment and service of a chaincode that runs as a service.
  \<^item> \<open>Network_Controller\<close> (\<open>controllers/networkconfig\<close>) and \<open>Network_Correct\<close>: what the filters of a network
    configuration select, the sections of its template, and when the references between them resolve.
  \<^item> \<open>Apps_Chart\<close>, \<open>Apps_Controller\<close> (\<open>controllers/console\<close>, \<open>operatorapi\<close>, \<open>operatorui\<close>): three copies of one
    reconciler, as instances of a record that has what they differ in.  \<open>Apps_Correct\<close>: the locale
    \<open>app_reporter\<close>, what the copies share, interpreted for the three; when an application is left alone.
  \<^item> \<open>Plugin_Channel\<close> (\<open>kubectl-hlf/cmd/channel\<close>) and \<open>Plugin_Chaincode\<close> (\<open>kubectl-hlf/cmd/chaincode\<close>,
    \<open>externalchaincode\<close>): commands of the plugin, each definition the \<open>run\<close> of one with its flags in a
    record.  \<open>Plugin_Correct\<close>: the consenters an update leaves, the next sequence of a definition, the
    parsing of environment variables, and what a failed signature leaves.

  \<^bold>\<open>How the parts meet.\<close>  \<open>Reconcile_main\<close> gets the resource (\<open>Reconciler\<close>), builds the network
  configuration (\<open>Network_Config\<close>) and the SDK client from it (\<open>Fabric_SDK\<close>), looks the organizations'
  authorities up (\<open>Cluster_Lookup\<close>), translates the resource (\<open>Channel_Config\<close>), joins the ordering nodes
  (\<open>Osnadmin\<close>), and edits and submits the configuration it fetched (\<open>Channel_Update\<close>); each step that
  fails goes through \<open>setConditionStatus\<close> (\<open>Custom_Resource\<close>, \<open>Conditions\<close>).  \<open>Reconcile_peer\<close> and
  \<open>Reconcile_orderer\<close> repair the release (\<open>Helm_Release\<close>), decide whether the certificates are due, take the
  lock (\<open>Lease_Lock\<close>), renew (\<open>Node_Crypto\<close> over \<open>Enrollment\<close> or \<open>Vault_PKI\<close>), fill the chart and upgrade, and
  write the status they observe; \<open>Reconcile_ca\<close> and the reconcilers of the applications do so without a lock.
  \<open>Reconcile_identity\<close> and \<open>Reconcile_chaincode\<close> get their certificates from the same services and keep them in
  secrets; \<open>Reconcile_network\<close> reads the cluster (\<open>Cluster_Lookup\<close>) and the secrets of identities.  The properties of the
  controllers compose those of these parts.

  \<^bold>\<open>What the theorems say about flaws.\<close>  Where the code does not do what it means to, the theorem states what
  it does: an orderer capability that is new makes the update fail, the error of a failed step is lost from
  the status, a missing resource does not end the reconciliation, a resource without an application section
  panics, the lock around renewals does not keep the workers of one operator apart, a Vault's renewed
  certificate does not belong to the key it is paired with, the certificates of a chaincode are never renewed,
  a peer without replicas leaves a dangling reference in a network configuration, an application whose upgrade
  failed asks for no other attempt, a definition that changes only the limits of its collections gets the
  sequence that is taken.  That a resource is looked at again means that its reconciler asks for it; that the
  API server may call because of a change, one of the status included, is outside the model.

  \<^bold>\<open>Not modelled.\<close>  The functions \<open>restartDeployment\<close>, \<open>GetPeerDeployment\<close> and \<open>GetOrdererDeployment\<close>, which
  nothing calls; \<open>SetupWithManager\<close>, which registers a controller with the library; the other commands of the
  plugin (creating resources from flags, joining, inspecting, installing, invoking and the queries); the rendering of text templates
  and the marshalling of JSON, YAML and protocol buffers, which are parameters (a nil list or map and an
  empty one are the same value here, which only their JSON tells apart); metrics, logging and the closing
  of readers; cancellation of contexts; generated deep copies, clients, informers and listers; the
  third-party code under \<open>internal/\<close>.
\<close>

end
